(* ===== verification/Prelude.thy ===== *)
theory Prelude
  imports Complex_Main
begin

section \<open>Shared vocabulary of the development\<close>

text \<open>
  The Go vocabulary every component of the runtime uses: results with errors as values,
  string operations of package strings on byte strings, maps with string keys, signed
  64-bit arithmetic, and the generic lemmas on them. A Go string is a list of bytes
  (\<^typ>\<open>string\<close>, a character is one byte). A Go map with string keys is an association
  list in which a key occurs at most once; nothing in the development depends on the order
  of its entries other than through which of several errors is reported first.
\<close>

named_theorems go_simps \<open>equations of the Go vocabulary\<close>

subsection \<open>Results\<close>

text \<open>
  A Go function that returns a value and an error is a function into a sum: \<open>Inl\<close> is the
  error, \<open>Inr\<close> the value. \<open>andThen\<close> is the early return \<open>if err != nil { return err }\<close>.
\<close>

definition andThen :: "'e + 'a \<Rightarrow> ('a \<Rightarrow> 'e + 'b) \<Rightarrow> 'e + 'b" where
  "andThen r f = (case r of Inl e \<Rightarrow> Inl e | Inr a \<Rightarrow> f a)"

lemma andThen_simps [simp]: "andThen (Inl e) f = Inl e" "andThen (Inr a) f = f a"
  by (simp_all add: andThen_def)

lemma andThen_Inr_conv: "andThen r f = Inr b \<longleftrightarrow> (\<exists>a. r = Inr a \<and> f a = Inr b)"
  by (cases r) simp_all

lemma andThen_Inl_conv:
  "andThen r f = Inl e \<longleftrightarrow> r = Inl e \<or> (\<exists>a. r = Inr a \<and> f a = Inl e)"
  by (cases r) simp_all

definition is_ok :: "'e + 'a \<Rightarrow> bool" where
  "is_ok r = (case r of Inl _ \<Rightarrow> False | Inr _ \<Rightarrow> True)"

lemma is_ok_simps [simp]: "\<not> is_ok (Inl e)" "is_ok (Inr a)"
  by (simp_all add: is_ok_def)

subsection \<open>Maps with string keys\<close>

type_synonym 'v gomap = "(string \<times> 'v) list"

definition mget :: "'v gomap \<Rightarrow> string \<Rightarrow> 'v option" where
  "mget m k = map_of m k"

primrec mput :: "string \<Rightarrow> 'v \<Rightarrow> 'v gomap \<Rightarrow> 'v gomap" where
  "mput k v [] = [(k, v)]"
| "mput k v (p # m) = (if fst p = k then (k, v) # m else p # mput k v m)"

text \<open>Reading a missing key of a Go map yields the zero value of the element type.\<close>

definition mget0 :: "'v \<Rightarrow> 'v gomap \<Rightarrow> string \<Rightarrow> 'v" where
  "mget0 zero m k = (case mget m k of None \<Rightarrow> zero | Some v \<Rightarrow> v)"

definition mdel :: "string \<Rightarrow> 'v gomap \<Rightarrow> 'v gomap" where
  "mdel k m = filter (\<lambda>p. fst p \<noteq> k) m"

definition mkeys :: "'v gomap \<Rightarrow> string list" where
  "mkeys m = map fst m"

definition mwf :: "'v gomap \<Rightarrow> bool" where
  "mwf m = distinct (map fst m)"

lemma mget_Nil [simp]: "mget [] k = None"
  by (simp add: mget_def)

lemma mget_Cons [simp]: "mget ((k, v) # m) k' = (if k = k' then Some v else mget m k')"
  by (auto simp: mget_def)

lemma mget_mput [simp]: "mget (mput k v m) k' = (if k = k' then Some v else mget m k')"
  by (induction m) (auto simp: mget_def)

lemma mget_mdel [simp]: "mget (mdel k m) k' = (if k = k' then None else mget m k')"
  by (induction m) (auto simp: mget_def mdel_def)

lemma mget0_mput [simp]: "mget0 z (mput k v m) k' = (if k = k' then v else mget0 z m k')"
  by (simp add: mget0_def)

lemma mput_mput [simp]: "mput k a (mput k b m) = mput k a m"
  by (induction m) auto

lemma mget0_Some: "mget m k = Some v \<Longrightarrow> mget0 z m k = v"
  by (simp add: mget0_def)

lemma mget0_cases: "mget m k = None \<and> mget0 z m k = z \<or> mget m k = Some (mget0 z m k)"
  by (cases "mget m k") (simp_all add: mget0_def)

lemma mput_keys: "fst ` set (mput k v m) = insert k (fst ` set m)"
  by (induction m) auto

lemma mwf_mput [simp]: "mwf m \<Longrightarrow> mwf (mput k v m)"
proof (induction m)
  case Nil
  then show ?case by (simp add: mwf_def)
next
  case (Cons p m)
  then show ?case by (auto simp: mwf_def mput_keys)
qed

lemma mwf_Nil [simp]: "mwf []"
  by (simp add: mwf_def)

lemma mget_mem: "mwf m \<Longrightarrow> (k, v) \<in> set m \<longleftrightarrow> mget m k = Some v"
  by (simp add: mwf_def mget_def)

lemma mget_in_set: "mget m k = Some v \<Longrightarrow> (k, v) \<in> set m"
  by (simp add: mget_def map_of_SomeD)

text \<open>The laws a client of a keyed table relies on, and what follows from them alone.\<close>

locale keyed_table =
  fixes get :: "'m \<Rightarrow> string \<Rightarrow> 'v option"
    and put :: "string \<Rightarrow> 'v \<Rightarrow> 'm \<Rightarrow> 'm"
  assumes get_put_same: "get (put k v m) k = Some v"
    and get_put_other: "k \<noteq> k' \<Longrightarrow> get (put k v m) k' = get m k'"
begin

lemma get_put: "get (put k v m) k' = (if k = k' then Some v else get m k')"
  by (simp add: get_put_same get_put_other)

lemma put_keeps_all:
  assumes "\<And>k' v'. get m k' = Some v' \<Longrightarrow> P k' v'" and "P k v"
  shows "get (put k v m) k' = Some v' \<Longrightarrow> P k' v'"
  using assms by (auto simp: get_put split: if_splits)

lemma put_dom: "{k'. get (put k v m) k' \<noteq> None} = insert k {k'. get m k' \<noteq> None}"
  by (auto simp: get_put)

end

interpretation gomap: keyed_table mget mput
  by unfold_locales simp_all

subsection \<open>Byte strings\<close>

definition hasPrefix :: "string \<Rightarrow> string \<Rightarrow> bool" where
  "hasPrefix s p = (take (length p) s = p)"

definition hasSuffix :: "string \<Rightarrow> string \<Rightarrow> bool" where
  "hasSuffix s p = (length p \<le> length s \<and> drop (length s - length p) s = p)"

definition trimPrefix :: "string \<Rightarrow> string \<Rightarrow> string" where
  "trimPrefix s p = (if hasPrefix s p then drop (length p) s else s)"

definition trimSuffix :: "string \<Rightarrow> string \<Rightarrow> string" where
  "trimSuffix s p = (if hasSuffix s p then take (length s - length p) s else s)"

primrec containsSub :: "string \<Rightarrow> string \<Rightarrow> bool" where
  "containsSub [] p = (p = [])"
| "containsSub (c # s) p = (hasPrefix (c # s) p \<or> containsSub s p)"

definition containsAny :: "string \<Rightarrow> string \<Rightarrow> bool" where
  "containsAny s chars = list_ex (\<lambda>c. c \<in> set chars) s"

text \<open>\<open>strings.Split\<close> with a separator of one byte.\<close>

primrec splitByte :: "char \<Rightarrow> string \<Rightarrow> string list" where
  "splitByte sep [] = [[]]"
| "splitByte sep (c # s) =
     (if c = sep then [] # splitByte sep s
      else (case splitByte sep s of [] \<Rightarrow> [[c]] | w # ws \<Rightarrow> (c # w) # ws))"

primrec joinByte :: "char \<Rightarrow> string list \<Rightarrow> string" where
  "joinByte sep [] = []"
| "joinByte sep (w # ws) = (if ws = [] then w else w @ sep # joinByte sep ws)"

lemma splitByte_not_Nil [simp]: "splitByte sep s \<noteq> []"
  by (induction s) (auto split: list.splits)

lemma join_splitByte [simp]: "joinByte sep (splitByte sep s) = s"
proof (induction s)
  case Nil
  then show ?case by simp
next
  case (Cons c s)
  obtain w ws where "splitByte sep s = w # ws"
    by (meson neq_Nil_conv splitByte_not_Nil)
  with Cons show ?case by (auto split: if_splits)
qed

lemma splitByte_no_sep: "w \<in> set (splitByte sep s) \<Longrightarrow> sep \<notin> set w"
proof (induction s arbitrary: w)
  case Nil
  then show ?case by simp
next
  case (Cons c s)
  obtain v vs where s: "splitByte sep s = v # vs"
    by (meson neq_Nil_conv splitByte_not_Nil)
  with Cons.IH have "sep \<notin> set v" "\<And>u. u \<in> set vs \<Longrightarrow> sep \<notin> set u" by simp_all
  with Cons.prems s show ?case by (auto split: if_splits)
qed

lemma splitByte_word: "sep \<notin> set w \<Longrightarrow> splitByte sep w = [w]"
  by (induction w) auto

lemma splitByte_append: "sep \<notin> set w \<Longrightarrow> splitByte sep (w @ sep # s) = w # splitByte sep s"
  by (induction w) auto

lemma split_joinByte:
  "ws \<noteq> [] \<Longrightarrow> \<forall>w\<in>set ws. sep \<notin> set w \<Longrightarrow> splitByte sep (joinByte sep ws) = ws"
proof (induction ws)
  case Nil
  then show ?case by simp
next
  case (Cons w ws)
  then show ?case by (cases "ws = []") (simp_all add: splitByte_word splitByte_append)
qed

text \<open>
  White space as \<open>strings.TrimSpace\<close> sees it: the UTF-8 encodings of the code points
  with the Unicode property White Space.
\<close>

definition spaceSeqs :: "string list" where
  "spaceSeqs =
     map (\<lambda>n. [char_of (n::nat)]) [9, 10, 11, 12, 13, 32]
     @ map (map char_of) [[0xC2::nat, 0x85], [0xC2, 0xA0], [0xE1, 0x9A, 0x80],
         [0xE2, 0x80, 0xA8], [0xE2, 0x80, 0xA9], [0xE2, 0x80, 0xAF],
         [0xE2, 0x81, 0x9F], [0xE3, 0x80, 0x80]]
     @ map (\<lambda>n. map char_of [0xE2::nat, 0x80, n]) [0x80..<0x8B]"

primrec trimLeftFuel :: "nat \<Rightarrow> string \<Rightarrow> string" where
  "trimLeftFuel 0 s = s"
| "trimLeftFuel (Suc n) s =
     (case find (hasPrefix s) spaceSeqs of
        None \<Rightarrow> s
      | Some w \<Rightarrow> trimLeftFuel n (drop (length w) s))"

primrec trimRightFuel :: "nat \<Rightarrow> string \<Rightarrow> string" where
  "trimRightFuel 0 s = s"
| "trimRightFuel (Suc n) s =
     (case find (hasSuffix s) spaceSeqs of
        None \<Rightarrow> s
      | Some w \<Rightarrow> trimRightFuel n (take (length s - length w) s))"

text \<open>Each round removes at least one byte, so the length of the string is fuel enough.\<close>

definition trimSpace :: "string \<Rightarrow> string" where
  "trimSpace s = (let t = trimLeftFuel (length s) s in trimRightFuel (length t) t)"

definition isDigit :: "char \<Rightarrow> bool" where
  "isDigit c = (c \<in> set ''0123456789'')"

definition isHex :: "char \<Rightarrow> bool" where
  "isHex c = (c \<in> set ''0123456789abcdefABCDEF'')"

definition digitVal :: "char \<Rightarrow> nat" where
  "digitVal c = (of_char c :: nat) - 48"

primrec decVal :: "nat \<Rightarrow> string \<Rightarrow> nat" where
  "decVal acc [] = acc"
| "decVal acc (c # s) = decVal (10 * acc + digitVal c) s"

subsection \<open>Signed 64-bit integers\<close>

text \<open>Two's complement wrap-around of an \<open>int64\<close> result.\<close>

definition i64 :: "int \<Rightarrow> int" where
  "i64 x = (x + 2 ^ 63) mod 2 ^ 64 - 2 ^ 63"

definition in_i64 :: "int \<Rightarrow> bool" where
  "in_i64 x = (- (2 ^ 63) \<le> x \<and> x < 2 ^ 63)"

lemma i64_id [simp]: "in_i64 x \<Longrightarrow> i64 x = x"
  by (simp add: i64_def in_i64_def)

lemma i64_range: "in_i64 (i64 x)"
  by (simp add: i64_def in_i64_def)

text \<open>Decimal digits, and \<^verbatim>\<open>%0<w>d\<close> of package \<^verbatim>\<open>fmt\<close>: the sign counts toward the width.\<close>

fun natDigits :: "nat \<Rightarrow> string" where
  "natDigits n =
     (if n < 10 then [char_of (48 + n)] else natDigits (n div 10) @ [char_of (48 + n mod 10)])"

declare natDigits.simps [simp del]

definition zeroPadded :: "nat \<Rightarrow> int \<Rightarrow> string" where
  "zeroPadded w n =
     (let ds = natDigits (nat \<bar>n\<bar>); w' = (if n < 0 then w - 1 else w) in
      (if n < 0 then ''-'' else '''') @ replicate (w' - length ds) (CHR ''0'') @ ds)"

text \<open>\<^verbatim>\<open>strconv.ParseInt(s, 10, 64)\<close>.\<close>

definition parseInt64 :: "string \<Rightarrow> int option" where
  "parseInt64 s =
     (let neg = hasPrefix s ''-''; ds = (if neg \<or> hasPrefix s ''+'' then tl s else s);
          n = (if neg then - int (decVal 0 ds) else int (decVal 0 ds)) in
      if ds = [] \<or> \<not> list_all isDigit ds \<or> \<not> in_i64 n then None else Some n)"

definition maxUint64 :: nat where
  "maxUint64 = 2 ^ 64 - 1"

end
