(* ===== verification/Sensitive.thy ===== *)
theory Sensitive
  imports Prelude
begin

section \<open>Runes and sensitive names\<close>

text \<open>
  UTF-8 decoding as the conversion \<^verbatim>\<open>[]rune(s)\<close> does it, and
  \<^verbatim>\<open>runtime/pkg/sensitive/name.go\<close>: which structured field names must not carry
  persisted values. The Unicode tables of package \<^verbatim>\<open>unicode\<close> are a record of functions.
\<close>

subsection \<open>Runes\<close>

text \<open>Every byte that starts no valid encoding becomes one U+FFFD.\<close>

definition runeError :: nat where
  "runeError = 0xFFFD"

definition cont :: "nat \<Rightarrow> bool" where
  "cont b = (0x80 \<le> b \<and> b \<le> 0xBF)"

fun decodeRune :: "nat list \<Rightarrow> nat \<times> nat" where
  "decodeRune [] = (runeError, 0)"
| "decodeRune (b0 # bs) =
     (if b0 < 0x80 then (b0, 1)
      else if 0xC2 \<le> b0 \<and> b0 \<le> 0xDF then
        (case bs of
           b1 # _ \<Rightarrow> if cont b1 then ((b0 - 0xC0) * 64 + (b1 - 0x80), 2) else (runeError, 1)
         | [] \<Rightarrow> (runeError, 1))
      else if 0xE0 \<le> b0 \<and> b0 \<le> 0xEF then
        (case bs of
           b1 # b2 # _ \<Rightarrow>
             if (if b0 = 0xE0 then 0xA0 \<le> b1 \<and> b1 \<le> 0xBF
                 else if b0 = 0xED then 0x80 \<le> b1 \<and> b1 \<le> 0x9F else cont b1) \<and> cont b2
             then ((b0 - 0xE0) * 4096 + (b1 - 0x80) * 64 + (b2 - 0x80), 3) else (runeError, 1)
         | _ \<Rightarrow> (runeError, 1))
      else if 0xF0 \<le> b0 \<and> b0 \<le> 0xF4 then
        (case bs of
           b1 # b2 # b3 # _ \<Rightarrow>
             if (if b0 = 0xF0 then 0x90 \<le> b1 \<and> b1 \<le> 0xBF
                 else if b0 = 0xF4 then 0x80 \<le> b1 \<and> b1 \<le> 0x8F else cont b1) \<and> cont b2 \<and> cont b3
             then ((b0 - 0xF0) * 262144 + (b1 - 0x80) * 4096 + (b2 - 0x80) * 64 + (b3 - 0x80), 4)
             else (runeError, 1)
         | _ \<Rightarrow> (runeError, 1))
      else (runeError, 1))"

lemma decodeRune_width: "0 < snd (decodeRune (b # bs)) \<and> snd (decodeRune (b # bs)) \<le> Suc (length bs)"
  by (auto split: list.splits)

function decodeRunes :: "nat list \<Rightarrow> nat list" where
  "decodeRunes [] = []"
| "decodeRunes (b # bs) =
     (let (r, w) = decodeRune (b # bs) in r # decodeRunes (drop w (b # bs)))"
  by pat_completeness auto
termination
proof (relation "measure length")
  fix b bs x xa y
  assume "x = decodeRune (b # bs)" "(xa, y) = x"
  then have "0 < y" using decodeRune_width [of b bs] by (metis snd_conv)
  then show "(drop y (b # bs), b # bs) \<in> measure length" by simp
qed simp

definition runes :: "string \<Rightarrow> nat list" where
  "runes s = decodeRunes (map of_char s)"

text \<open>On ASCII strings the runes are the bytes.\<close>

lemma decodeRunes_ascii: "list_all (\<lambda>b. b < 128) bs \<Longrightarrow> decodeRunes bs = bs"
  by (induction bs) (simp_all add: Let_def)

lemma length_decodeRunes: "length (decodeRunes bs) \<le> length bs"
proof (induction bs rule: decodeRunes.induct)
  case 1
  show ?case by simp
next
  case (2 b bs)
  obtain r w where rw: "decodeRune (b # bs) = (r, w)" by fastforce
  then have w: "0 < w" "w \<le> Suc (length bs)" using decodeRune_width [of b bs] by auto
  from 2 rw have "length (decodeRunes (drop w (b # bs))) \<le> length (drop w (b # bs))" by simp
  also have "\<dots> \<le> length bs" using w by simp
  finally show ?case by (simp add: rw Let_def del: decodeRune.simps)
qed

subsection \<open>Sensitive names\<close>

record unicode_tables =
  isLetter :: "nat \<Rightarrow> bool"
  isDigitR :: "nat \<Rightarrow> bool"
  isUpper :: "nat \<Rightarrow> bool"
  isLower :: "nat \<Rightarrow> bool"
  toLowerR :: "nat \<Rightarrow> nat"

definition nameTokens :: "string list" where
  "nameTokens = [''secret'', ''password'', ''passwd'', ''token'', ''credential'', ''key'',
     ''authorization'', ''auth'']"

definition flushToken :: "nat list \<Rightarrow> nat list list" where
  "flushToken token = (if token = [] then [] else [token])"

text \<open>
  The loop of \<^verbatim>\<open>Tokens\<close>: \<open>prev\<close> is the rune before the current one, \<open>token\<close> the
  token built so far. The result lists tokens as runes.
\<close>

fun tokensLoop :: "unicode_tables \<Rightarrow> nat \<Rightarrow> nat list \<Rightarrow> nat list \<Rightarrow> nat list list" where
  "tokensLoop U prev token [] = flushToken token"
| "tokensLoop U prev token (c # rest) =
     (if \<not> isLetter U c \<and> \<not> isDigitR U c then flushToken token @ tokensLoop U c [] rest
      else if isUpper U c \<and> token \<noteq> [] \<and>
          (isLower U prev \<or> isDigitR U prev \<or>
           isUpper U prev \<and> (case rest of [] \<Rightarrow> False | n # _ \<Rightarrow> isLower U n))
        then flushToken token @ tokensLoop U c [toLowerR U c] rest
      else tokensLoop U c (token @ [toLowerR U c]) rest)"

definition Tokens :: "unicode_tables \<Rightarrow> string \<Rightarrow> nat list list" where
  "Tokens U name = tokensLoop U 0 [] (runes name)"

definition sensitiveName :: "unicode_tables \<Rightarrow> string \<Rightarrow> bool" where
  "sensitiveName U name =
     list_ex (\<lambda>t. t \<in> set (map (map of_char) nameTokens)) (Tokens U name)"

text \<open>The ASCII part of the Unicode tables.\<close>

definition asciiTables :: unicode_tables where
  "asciiTables = \<lparr>isLetter = (\<lambda>c. (65 \<le> c \<and> c \<le> 90) \<or> (97 \<le> c \<and> c \<le> 122)),
     isDigitR = (\<lambda>c. 48 \<le> c \<and> c \<le> 57), isUpper = (\<lambda>c. 65 \<le> c \<and> c \<le> 90),
     isLower = (\<lambda>c. 97 \<le> c \<and> c \<le> 122),
     toLowerR = (\<lambda>c. if 65 \<le> c \<and> c \<le> 90 then c + 32 else c)\<rparr>"

text \<open>No token is empty, and the tokens contain only lower-cased letters and digits of the name.\<close>

lemma tokensLoop_nonempty: "t \<in> set (tokensLoop U prev token cs) \<Longrightarrow> t \<noteq> []"
proof (induction cs arbitrary: prev token)
  case Nil
  then show ?case by (auto simp: flushToken_def split: if_splits)
next
  case (Cons c cs)
  then show ?case by (auto simp: flushToken_def split: if_splits)
qed

lemma tokensLoop_concat:
  "concat (tokensLoop U prev token cs) =
     token @ map (toLowerR U) (filter (\<lambda>c. isLetter U c \<or> isDigitR U c) cs)"
  by (induction cs arbitrary: prev token) (auto simp: flushToken_def)

text \<open>
  The tokens of a name are not empty and together they are the letters and digits of the name, in order and
  in lower case: splitting drops only separators.
\<close>

theorem tokens_cover_name:
  "concat (Tokens U name) = map (toLowerR U) (filter (\<lambda>c. isLetter U c \<or> isDigitR U c) (runes name)) \<and>
   [] \<notin> set (Tokens U name)"
  using tokensLoop_nonempty [of "[]" U 0 "[]" "runes name"] by (auto simp: Tokens_def tokensLoop_concat)

end
