(* ===== verification/Session_Types.thy ===== *)
theory Session_Types
  imports Sensitive
begin

section \<open>The investigation-session data model\<close>

text \<open>
  The records and status types of \<^verbatim>\<open>runtime/pkg/session/session.go\<close> and the event
  payloads of \<^verbatim>\<open>runtime/internal/sessionstore/dir_store.go\<close>. Status types are Go
  strings with named constants; the \<open>Other\<close> constructor holds every string that is not one
  of the constants, so the zero value of a status is \<open>Other ''''\<close>. \<open>int64\<close> and \<open>int\<close>
  fields are integers, \<open>uint64\<close> epochs are naturals.
\<close>

subsection \<open>Statuses and event kinds\<close>

datatype status =
    StatusActive | StatusPaused | StatusResolved | StatusEscalated | StatusFailed
  | StatusCancelled | StatusAbandoned | StatusIndeterminate | StatusOther string

datatype segment_status =
    SegmentStatusPrepared | SegmentStatusActive | SegmentStatusPaused | SegmentStatusHandedOff
  | SegmentStatusCompleted | SegmentStatusFailed | SegmentStatusCancelled
  | SegmentStatusIndeterminate | SegmentStatusOther string

datatype attempt_status =
    AttemptStatusStarting | AttemptStatusRunning | AttemptStatusWaiting
  | AttemptStatusPausedAtBoundary | AttemptStatusHandoffPending | AttemptStatusCompleted
  | AttemptStatusFailed | AttemptStatusCancelled | AttemptStatusIndeterminate
  | AttemptStatusOther string

datatype transition_status =
    TransitionStatusPrepared | TransitionStatusCommitted | TransitionStatusAborted
  | TransitionStatusOther string

datatype event_kind =
    EventSessionCreated | EventSessionClosed | EventSessionPaused | EventSessionResumed
  | EventSessionDetached | EventAttemptUpdated | EventExecutionCommitted | EventTraceCommitted
  | EventSegmentRevised | EventTransitionPrepared | EventTransitionCommitted
  | EventTransitionAborted | EventKindOther string

text \<open>The sentinel errors of the package; every other error carries its message.\<close>

datatype serror =
    ErrCreationConflict | ErrCommandConflict | ErrSequenceConflict | ErrSessionLeaseHeld
  | ErrSessionLeaseStale | ErrProjection | ErrSessionClosed | ErrAttemptActive
  | ErrMutationConflict | ErrNotExist | ErrContext | ErrMsg string

subsection \<open>Records\<close>

record session_record =
  sr_SessionID :: string
  sr_Status :: status
  sr_RootSegmentID :: string
  sr_ActiveSegmentID :: string
  sr_ActiveRunID :: string
  sr_Sequence :: int
  sr_ManifestRevision :: int
  sr_WriterEpoch :: nat
  sr_CreationCommandID :: string
  sr_CreationDigest :: string
  sr_CreatedAt :: string
  sr_UpdatedAt :: string
  sr_DerivedFromSessionID :: string
  sr_DerivedFromScenarioID :: string

record segment_record =
  sg_SegmentID :: string
  sg_Ordinal :: int
  sg_RunbookID :: string
  sg_RunbookName :: string
  sg_EntryStep :: string
  sg_Status :: segment_status
  sg_PlanHash :: string
  sg_GraphHash :: string
  sg_ExecutableSnapshotHash :: string
  sg_CatalogDigest :: string
  sg_PackageLockDigest :: string
  sg_ProfileDigest :: string
  sg_AttemptRunIDs :: "string list"
  sg_ExecutableRevision :: int
  sg_GraphRevision :: int

record attempt_record =
  at_RunID :: string
  at_SegmentID :: string
  at_Ordinal :: int
  at_Mode :: string
  at_Status :: attempt_status
  at_Actor :: string
  at_Client :: string
  at_PlanHash :: string
  at_StartedAt :: string
  at_UpdatedAt :: string
  at_CompletedAt :: string
  at_ContinuedFromRunID :: string
  at_RunProjectionHash :: string
  at_ExecutionMutationHash :: string
  at_CheckpointSequence :: int
  at_CommittedTraceSequence :: int
  at_JournaledTraceSequence :: int

record creation_identity =
  ci_SchemaVersion :: string
  ci_SessionID :: string
  ci_SessionDigest :: string
  ci_SegmentDigest :: string
  ci_AttemptDigest :: string
  ci_VarsDigest :: string
  ci_RuntimeVarsDigest :: string
  ci_ScenarioDirDigest :: string

record execution_mutation =
  mu_SchemaVersion :: string
  mu_RunID :: string
  mu_CheckpointSequence :: int
  mu_RunStatus :: string
  mu_AttemptStatus :: attempt_status
  mu_RunWriterEpoch :: nat
  mu_PreviousMutationHash :: string
  mu_StateProjectionHash :: string
  mu_FrameProjectionHash :: string
  mu_CommittedTraceSequence :: int
  mu_TraceSequenceStart :: int
  mu_TraceSequenceEnd :: int

record call_frame =
  cf_StepID :: string
  cf_RunbookPath :: string

record source_occurrence =
  so_RunID :: string
  so_QualifiedNodeID :: string
  so_CallPath :: "call_frame list"
  so_StepID :: string
  so_FrameID :: string
  so_FrameStepIndex :: int
  so_FrameStack :: "string list"
  so_BranchLabel :: string
  so_IterationIndex :: int
  so_Phase :: string
  so_Invocation :: int
  so_RetryAttempt :: int
  so_OccurrenceSequence :: int

datatype execution_source = ExecutionSourceLive | ExecutionSourceSaved | ExecutionSourceOther string

record occurrence_record =
  oc_SessionID :: string
  oc_SegmentID :: string
  oc_RunID :: string
  oc_QualifiedNodeID :: string
  oc_CallPath :: "call_frame list"
  oc_StepID :: string
  oc_Phase :: string
  oc_Invocation :: int
  oc_RetryAttempt :: int
  oc_OccurrenceSequence :: int
  oc_ExecutionSource :: execution_source
  oc_Status :: string
  oc_EventSequence :: int

record fact_ref =
  fr_Name :: string
  fr_Source :: string

record transition_record =
  tr_TransitionID :: string
  tr_Status :: transition_status
  tr_SourceSegmentID :: string
  tr_SourceOccurrence :: source_occurrence
  tr_TargetSegmentID :: string
  tr_TargetRunID :: string
  tr_TargetRunbookID :: string
  tr_TargetRunbookName :: string
  tr_TargetPlanHash :: string
  tr_TargetGraphHash :: string
  tr_TargetExecutableSnapshotHash :: string
  tr_ReasonCode :: string
  tr_ReasonSummary :: string
  tr_ContextBindings :: "string gomap"
  tr_FactRefs :: "fact_ref list"
  tr_ContextDigest :: string
  tr_IdempotencyKey :: string
  tr_PreparedAt :: string
  tr_CommittedAt :: string
  tr_AbortedAt :: string

record command_receipt =
  cr_CommandID :: string
  cr_CommandDigest :: string
  cr_ClientCommandDigest :: string
  cr_EventKind :: event_kind
  cr_Sequence :: int

record manifest =
  mf_SchemaVersion :: string
  mf_Session :: session_record
  mf_Segments :: "segment_record gomap"
  mf_Attempts :: "attempt_record gomap"
  mf_Transitions :: "transition_record gomap"
  mf_Occurrences :: "occurrence_record gomap"
  mf_AcceptedCommands :: "command_receipt gomap"

text \<open>Zero values, which Go maps return for missing keys.\<close>

definition zeroSession :: session_record where
  "zeroSession = \<lparr>sr_SessionID = '''', sr_Status = StatusOther '''', sr_RootSegmentID = '''',
     sr_ActiveSegmentID = '''', sr_ActiveRunID = '''', sr_Sequence = 0, sr_ManifestRevision = 0,
     sr_WriterEpoch = 0, sr_CreationCommandID = '''', sr_CreationDigest = '''', sr_CreatedAt = '''',
     sr_UpdatedAt = '''', sr_DerivedFromSessionID = '''', sr_DerivedFromScenarioID = ''''\<rparr>"

definition zeroSegment :: segment_record where
  "zeroSegment = \<lparr>sg_SegmentID = '''', sg_Ordinal = 0, sg_RunbookID = '''', sg_RunbookName = '''',
     sg_EntryStep = '''', sg_Status = SegmentStatusOther '''', sg_PlanHash = '''', sg_GraphHash = '''',
     sg_ExecutableSnapshotHash = '''', sg_CatalogDigest = '''', sg_PackageLockDigest = '''',
     sg_ProfileDigest = '''', sg_AttemptRunIDs = [], sg_ExecutableRevision = 0, sg_GraphRevision = 0\<rparr>"

definition zeroAttempt :: attempt_record where
  "zeroAttempt = \<lparr>at_RunID = '''', at_SegmentID = '''', at_Ordinal = 0, at_Mode = '''',
     at_Status = AttemptStatusOther '''', at_Actor = '''', at_Client = '''', at_PlanHash = '''',
     at_StartedAt = '''', at_UpdatedAt = '''', at_CompletedAt = '''', at_ContinuedFromRunID = '''',
     at_RunProjectionHash = '''', at_ExecutionMutationHash = '''', at_CheckpointSequence = 0,
     at_CommittedTraceSequence = 0, at_JournaledTraceSequence = 0\<rparr>"

lemma zeroAttempt_simps [simp]:
  "at_SegmentID zeroAttempt = ''''" "at_Status zeroAttempt = AttemptStatusOther ''''"
  "at_ExecutionMutationHash zeroAttempt = ''''" "at_RunID zeroAttempt = ''''"
  "at_CommittedTraceSequence zeroAttempt = 0" "at_JournaledTraceSequence zeroAttempt = 0"
  "at_CheckpointSequence zeroAttempt = 0" "at_Mode zeroAttempt = ''''"
  by (simp_all add: zeroAttempt_def)

lemma zeroSession_simps [simp]:
  "sr_SessionID zeroSession = ''''" "sr_Sequence zeroSession = 0" "sr_ActiveRunID zeroSession = ''''"
  "sr_ActiveSegmentID zeroSession = ''''" "sr_Status zeroSession = StatusOther ''''"
  "sr_ManifestRevision zeroSession = 0" "sr_WriterEpoch zeroSession = 0"
  by (simp_all add: zeroSession_def)

subsection \<open>Dynamic include resolutions and dispatches\<close>

text \<open>
  \<^verbatim>\<open>engine.DynamicIncludeResolutionState\<close>, \<^verbatim>\<open>engine.DispatchState\<close> and the fields of
  \<^verbatim>\<open>schema.LockedDynamicInclude\<close> the session store reads; \<open>pin_Rest\<close> stands for the
  remaining fields of the pin, which the store only passes on.
\<close>

record include_pin =
  pin_SchemaVersion :: string
  pin_TargetScopeID :: string
  pin_StepID :: string
  pin_QualifiedNodeID :: string
  pin_Invocation :: int
  pin_Revision :: int
  pin_PackageName :: string
  pin_PackageVersion :: string
  pin_Rest :: string

record include_resolution =
  ir_SchemaVersion :: string
  ir_ResolutionID :: string
  ir_WriterEpoch :: nat
  ir_QualifiedNodeID :: string
  ir_CallPath :: "call_frame list"
  ir_StepID :: string
  ir_FrameID :: string
  ir_FrameStepIndex :: int
  ir_Invocation :: int
  ir_Revision :: int
  ir_Pin :: include_pin
  ir_Status :: string
  ir_CommittedAt :: string
  ir_CompletedAt :: string

record dispatch_state =
  ds_SchemaVersion :: string
  ds_OccurrenceID :: string
  ds_WriterEpoch :: nat
  ds_QualifiedNodeID :: string
  ds_CallPath :: "call_frame list"
  ds_StepID :: string
  ds_FrameID :: string
  ds_FrameStepIndex :: int
  ds_Phase :: string
  ds_Invocation :: int
  ds_RetryAttempt :: int
  ds_OccurrenceSequence :: int
  ds_Classification :: string
  ds_EndpointIdentity :: string
  ds_RequestDigest :: string
  ds_IdempotencyKey :: string
  ds_ProviderSupportsReconciliation :: bool
  ds_Status :: string
  ds_ResultDigest :: string
  ds_PreparedAt :: string
  ds_SettledAt :: string

subsection \<open>Event payloads and journal events\<close>

record created_payload =
  cp_Identity :: creation_identity
  cp_Session :: session_record
  cp_Segment :: segment_record
  cp_Attempt :: attempt_record

record closed_payload =
  xp_Status :: status
  xp_SegmentID :: string
  xp_RunID :: string

record execution_payload =
  ep_RunID :: string
  ep_Status :: attempt_status
  ep_MutationHash :: string
  ep_PreviousMutationHash :: string
  ep_ProjectionHash :: string
  ep_FrameProjectionHash :: string
  ep_CheckpointSequence :: int
  ep_CommittedTraceSequence :: int
  ep_Occurrences :: "occurrence_record gomap"

record trace_payload =
  tp_RunID :: string
  tp_TraceHash :: string
  tp_TraceSequence :: int
  tp_Occurrence :: "occurrence_record option"

record revised_payload =
  rp_SegmentID :: string
  rp_RunID :: string
  rp_ExecutableRevision :: int
  rp_GraphRevision :: int
  rp_PlanHash :: string
  rp_ExecutableSnapshotHash :: string
  rp_GraphHash :: string
  rp_Resolution :: include_resolution
  rp_Dispatch :: dispatch_state

record prepared_payload =
  pp_Transition :: transition_record
  pp_TargetSegment :: segment_record
  pp_TargetAttempt :: attempt_record

record committed_payload =
  mp_TransitionID :: string
  mp_TargetSegment :: segment_record
  mp_TargetAttempt :: attempt_record

text \<open>
  The raw JSON of an event's payload, by what it decodes to: one of the payload structs the
  store writes, some other valid JSON (\<open>PayOther\<close>), or bytes that are not JSON at all.
\<close>

datatype payload =
    PayCreated created_payload
  | PayClosed closed_payload
  | PayPaused string string
  | PayResumed string
  | PayDetached string
  | PayAttempt string attempt_status
  | PayExecution execution_payload
  | PayTrace trace_payload
  | PayRevised revised_payload
  | PayPrepared prepared_payload
  | PayCommitted committed_payload
  | PayAborted string string
  | PayOther string
  | PayMalformed string

record event =
  ev_SchemaVersion :: string
  ev_EventID :: string
  ev_SessionID :: string
  ev_Sequence :: int
  ev_WriterEpoch :: nat
  ev_CommandID :: string
  ev_CommandDigest :: string
  ev_ClientCommandDigest :: string
  ev_Kind :: event_kind
  ev_Timestamp :: string
  ev_PreviousDigest :: string
  ev_Digest :: string
  ev_Payload :: payload

subsection \<open>Trace events of the engine\<close>

text \<open>
  Values of a trace event's \<open>map[string]any\<close> payload, by dynamic type. A \<open>float64\<close> is
  \<open>Some\<close> of its rational value when finite and \<open>None\<close> when it is NaN or infinite.
\<close>

datatype gany =
    GNil
  | GBool bool
  | GInt int
  | GInt64 int
  | GFloat "rat option"
  | GNumber string
  | GStr string
  | GFrames "call_frame list"
  | GList "gany list"
  | GMap "(string \<times> gany) list"

record trace_event =
  te_EventID :: string
  te_RunID :: string
  te_RunbookID :: string
  te_Timestamp :: string
  te_Kind :: string
  te_Sequence :: int
  te_Payload :: "gany gomap"

subsection \<open>What the store hashes\<close>

text \<open>
  The values \<^verbatim>\<open>session.DigestJSON\<close> and \<^verbatim>\<open>json.Marshal\<close> are applied to, one
  constructor per struct type of the source.
\<close>

record occurrence_identity =
  oi_SessionID :: string
  oi_SegmentID :: string
  oi_RunID :: string
  oi_QualifiedNodeID :: string
  oi_CallPath :: "call_frame list"
  oi_Phase :: string
  oi_Invocation :: int
  oi_RetryAttempt :: int
  oi_OccurrenceSequence :: int

datatype doc =
    DocClose status
  | DocPause string string
  | DocResume string
  | DocDetach string
  | DocAttemptUpdate string attempt_status
  | DocMutationRef string string
  | DocTraceRef string string
  | DocRevision revised_payload
  | DocPrepare transition_record segment_record attempt_record
  | DocCommit string
  | DocAbort string string
  | DocIdentity creation_identity
  | DocSession session_record
  | DocSegment segment_record
  | DocAttempt attempt_record
  | DocOccurrence occurrence_record
  | DocOccurrenceID occurrence_identity
  | DocCallPath "call_frame list"
  | DocPin include_pin
  | DocMutation execution_mutation
  | DocTrace trace_event
  | DocEvent event
  | DocManifest manifest

subsection \<open>Blobs, frame projections and handoff contexts\<close>

record json_blob =
  bl_Digest :: string
  bl_Data :: string

record interaction_state =
  is_SchemaVersion :: string
  is_TurnID :: string
  is_StepID :: string
  is_Kind :: string
  is_Status :: string
  is_RequestDigest :: string
  is_Request :: string
  is_AnswerDigest :: string
  is_Answer :: string

record frame_projection =
  fp_SchemaVersion :: string
  fp_RunID :: string
  fp_CheckpointSequence :: int
  fp_CommittedTraceSequence :: int
  fp_ContentDigest :: string
  fp_ContentSize :: int
  fp_ChunkDigests :: "string list"

record frame_content =
  fc_Interactions :: "interaction_state option gomap"
  fc_PendingTraceEvents :: "trace_event list"

record handoff_context =
  hc_Inputs :: "gany gomap"
  hc_Facts :: "gany gomap"

subsection \<open>The environment of the store\<close>

text \<open>
  What the store calls outside the repository or below the level of this model, as one
  record of functions that every definition takes as its first argument:
  \<^item> \<open>uuidCanonical\<close>: \<^verbatim>\<open>uuid.Parse(v)\<close> succeeds and prints back as \<open>v\<close>
    (package \<^verbatim>\<open>github.com/google/uuid\<close>);
  \<^item> \<open>timeOk\<close>: \<^verbatim>\<open>time.Parse(time.RFC3339Nano, v)\<close> succeeds;
  \<^item> \<open>marshal\<close>, \<open>sha256\<close>, \<open>jsonValid\<close>: the bytes of \<^verbatim>\<open>json.Marshal\<close>, the text
    \<^verbatim>\<open>"sha256:%x"\<close> of \<^verbatim>\<open>sha256.Sum256\<close>, and \<^verbatim>\<open>json.Valid\<close>;
  \<^item> the \<open>decode\<close> fields: strict JSON decoding of a blob into the struct named;
  \<^item> \<open>recodeCallPath\<close>: marshalling an untyped value and unmarshalling it as call frames;
  \<^item> \<open>floatOverflow\<close>: \<^verbatim>\<open>int64(f)\<close> of a \<^verbatim>\<open>float64\<close> outside the \<^verbatim>\<open>int64\<close> range, which the
    language leaves to the implementation, when converting back gives \<^verbatim>\<open>f\<close> again;
  \<^item> \<open>pinOk\<close>, \<open>scopedArtifactOk\<close>: \<^verbatim>\<open>plansnapshot.ValidateDynamicIncludePin\<close> and
    \<^verbatim>\<open>validateScopedSegmentArtifact\<close>, which belong to the plan-snapshot component;
  \<^item> \<open>unicode\<close>: the tables of package \<^verbatim>\<open>unicode\<close>.
\<close>

record env =
  uuidCanonical :: "string \<Rightarrow> bool"
  timeOk :: "string \<Rightarrow> bool"
  marshal :: "doc \<Rightarrow> string"
  sha256 :: "string \<Rightarrow> string"
  jsonValid :: "string \<Rightarrow> bool"
  decodeProjectionHeader :: "string \<Rightarrow> (string \<times> string \<times> int) option"
  decodeFrameProjection :: "string \<Rightarrow> frame_projection option"
  decodeChunk :: "string \<Rightarrow> (string \<times> string) option"
  decodeContent :: "string \<Rightarrow> frame_content option"
  decodeContext :: "string \<Rightarrow> handoff_context option"
  decodeMutation :: "string \<Rightarrow> execution_mutation option"
  decodeTrace :: "string \<Rightarrow> trace_event option"
  recodeCallPath :: "gany \<Rightarrow> call_frame list option"
  floatOverflow :: "rat \<Rightarrow> int option"
  pinOk :: "include_pin \<Rightarrow> bool"
  scopedArtifactOk :: "include_resolution \<Rightarrow> string \<Rightarrow> bool"
  unicode :: unicode_tables

definition DigestBytes :: "env \<Rightarrow> string \<Rightarrow> string" where
  "DigestBytes E data = sha256 E data"

definition DigestJSON :: "env \<Rightarrow> doc \<Rightarrow> string" where
  "DigestJSON E d = DigestBytes E (marshal E d)"

end
