(* ===== verification/Node_Identity.thy ===== *)
theory Node_Identity
  imports Session_Types
begin

section \<open>Node identities of nested invocations\<close>

text \<open>
  \<^verbatim>\<open>DebugNodeID\<close> of \<^verbatim>\<open>runtime/pkg/engine/debug.go\<close>: the identity of a step under the
  call path that reached it, with the separator escaped as in JSON pointers.
\<close>

definition replaceByte :: "char \<Rightarrow> string \<Rightarrow> string \<Rightarrow> string" where
  "replaceByte c by s = concat (map (\<lambda>x. if x = c then by else [x]) s)"

definition escapeDebugNodeIDPart :: "string \<Rightarrow> string" where
  "escapeDebugNodeIDPart value =
     replaceByte (CHR ''/'') ''~1'' (replaceByte (CHR ''~'') ''~0'' value)"

definition DebugNodeID :: "call_frame list \<Rightarrow> string \<Rightarrow> string" where
  "DebugNodeID path stepID =
     (if path = [] then stepID
      else joinByte (CHR ''/'')
             (map (\<lambda>f. escapeDebugNodeIDPart (cf_StepID f)) path @ [escapeDebugNodeIDPart stepID]))"

text \<open>Reading an escaped part back, the inverse the escaping is designed to have.\<close>

fun unescapePart :: "string \<Rightarrow> string" where
  "unescapePart [] = []"
| "unescapePart [c] = [c]"
| "unescapePart (c # d # s) =
     (if c = CHR ''~'' \<and> d = CHR ''0'' then CHR ''~'' # unescapePart s
      else if c = CHR ''~'' \<and> d = CHR ''1'' then CHR ''/'' # unescapePart s
      else c # unescapePart (d # s))"

lemma escape_Nil [simp]: "escapeDebugNodeIDPart [] = []"
  by (simp add: escapeDebugNodeIDPart_def replaceByte_def)

lemma escape_Cons:
  "escapeDebugNodeIDPart (c # s) =
     (if c = CHR ''~'' then ''~0'' else if c = CHR ''/'' then ''~1'' else [c])
     @ escapeDebugNodeIDPart s"
  by (simp add: escapeDebugNodeIDPart_def replaceByte_def)

lemma escape_no_slash: "CHR ''/'' \<notin> set (escapeDebugNodeIDPart s)"
  by (induction s) (auto simp: escape_Cons)

lemma unescape_other: "c \<noteq> CHR ''~'' \<Longrightarrow> unescapePart (c # s) = c # unescapePart s"
  by (cases s) simp_all

lemma unescape_escape: "unescapePart (escapeDebugNodeIDPart s) = s"
  by (induction s) (auto simp: escape_Cons unescape_other)

lemma escape_inj: "escapeDebugNodeIDPart s = escapeDebugNodeIDPart t \<longleftrightarrow> s = t"
  by (metis unescape_escape)

lemma DebugNodeID_split:
  assumes "p \<noteq> []"
  shows "map unescapePart (splitByte (CHR ''/'') (DebugNodeID p s)) = map cf_StepID p @ [s]"
  using assms
  by (simp add: DebugNodeID_def split_joinByte escape_no_slash unescape_escape)

text \<open>
  C19. The identity of a nested step determines it: splitting it at the slashes and undoing the escapes gives back the
  step identifiers of the call path and the step, in order.
\<close>

theorem node_identity_roundtrip:
  assumes "path \<noteq> []"
  shows "map unescapePart (splitByte (CHR ''/'') (DebugNodeID path stepID)) = map cf_StepID path @ [stepID]"
  using assms by (rule DebugNodeID_split)

theorem node_identity_roundtrip_witness:
  "map unescapePart (splitByte (CHR ''/'') (DebugNodeID [\<lparr>cf_StepID = ''a/b'', cf_RunbookPath = ''r''\<rparr>] ''c~d'')) = [''a/b'', ''c~d'']"
  using node_identity_roundtrip [of "[\<lparr>cf_StepID = ''a/b'', cf_RunbookPath = ''r''\<rparr>]" "''c~d''"] by simp

end
