(* ===== verification/Session_Rebuild.thy ===== *)
theory Session_Rebuild
  imports Node_Identity
begin

section \<open>Rebuilding a session manifest from its journal\<close>

text \<open>
  The journal of an investigation session is a hash-chained sequence of events;
  \<^verbatim>\<open>rebuildManifestFromState\<close> in \<^verbatim>\<open>runtime/internal/sessionstore/dir_store.go\<close> checks and
  applies them one by one. \<open>rebuildStep\<close> is the body of its loop, split by event kind into
  one definition per \<^verbatim>\<open>case\<close>; \<open>rebuildManifestFromState\<close> is the loop.
\<close>

subsection \<open>Digests and identity checks\<close>

definition validDigest :: "string \<Rightarrow> bool" where
  "validDigest value =
     (hasPrefix value ''sha256:'' \<and> length value = 71 \<and> list_all isHex (trimPrefix value ''sha256:''))"

definition validHash :: "string \<Rightarrow> bool" where
  "validHash value = (validDigest value \<or> length value = 64 \<and> list_all isHex value)"

definition validateUUID :: "env \<Rightarrow> string \<Rightarrow> bool" where
  "validateUUID E value = uuidCanonical E value"

definition CreationDigest :: "env \<Rightarrow> creation_identity \<Rightarrow> string" where
  "CreationDigest E identity = DigestJSON E (DocIdentity identity)"

definition canonicalCreationSession :: "session_record \<Rightarrow> session_record" where
  "canonicalCreationSession r =
     zeroSession\<lparr>sr_Status := sr_Status r, sr_DerivedFromSessionID := sr_DerivedFromSessionID r,
       sr_DerivedFromScenarioID := sr_DerivedFromScenarioID r\<rparr>"

definition canonicalCreationSegment :: "segment_record \<Rightarrow> segment_record" where
  "canonicalCreationSegment r =
     r\<lparr>sg_EntryStep := (if sg_EntryStep r = '''' then ''$entry'' else sg_EntryStep r),
       sg_ExecutableRevision := (if sg_ExecutableRevision r = 0 then 1 else sg_ExecutableRevision r),
       sg_GraphRevision := (if sg_GraphRevision r = 0 then 1 else sg_GraphRevision r)\<rparr>"

definition canonicalCreationAttempt :: "attempt_record \<Rightarrow> string \<Rightarrow> attempt_record" where
  "canonicalCreationAttempt r planHash =
     r\<lparr>at_StartedAt := '''', at_UpdatedAt := '''', at_CompletedAt := '''', at_RunProjectionHash := '''',
       at_ExecutionMutationHash := '''', at_CheckpointSequence := 0, at_CommittedTraceSequence := 0,
       at_JournaledTraceSequence := 0,
       at_PlanHash := (if at_PlanHash r = '''' then planHash else at_PlanHash r)\<rparr>"

definition identityDigests :: "creation_identity \<Rightarrow> string list" where
  "identityDigests i = [ci_SessionDigest i, ci_SegmentDigest i, ci_AttemptDigest i, ci_VarsDigest i,
     ci_RuntimeVarsDigest i, ci_ScenarioDirDigest i]"

definition ValidateCreationIdentity ::
  "env \<Rightarrow> creation_identity \<Rightarrow> string \<Rightarrow> session_record \<Rightarrow> segment_record \<Rightarrow> attempt_record \<Rightarrow> bool" where
  "ValidateCreationIdentity E i sessionID sr sg attempt =
     (ci_SchemaVersion i = ''yawr.session-creation-identity/v1'' \<and> ci_SessionID i = sessionID \<and>
      ci_SessionDigest i = DigestJSON E (DocSession (canonicalCreationSession sr)) \<and>
      ci_SegmentDigest i = DigestJSON E (DocSegment (canonicalCreationSegment sg)) \<and>
      ci_AttemptDigest i = DigestJSON E (DocAttempt (canonicalCreationAttempt attempt (sg_PlanHash sg))) \<and>
      list_all validDigest (identityDigests i))"

subsection \<open>Status tables\<close>

definition validAttemptMode :: "string \<Rightarrow> bool" where
  "validAttemptMode mode = (mode \<in> set [''real'', ''dry-run'', ''replay'', ''route-test''])"

definition isCloseStatus :: "status \<Rightarrow> bool" where
  "isCloseStatus s =
     (s \<in> set [StatusResolved, StatusEscalated, StatusCancelled, StatusAbandoned])"

definition isTerminalSessionStatus :: "status \<Rightarrow> bool" where
  "isTerminalSessionStatus s =
     (s \<in> set [StatusResolved, StatusEscalated, StatusCancelled, StatusAbandoned])"

fun validAttemptStatus :: "attempt_status \<Rightarrow> bool" where
  "validAttemptStatus (AttemptStatusOther _) = False"
| "validAttemptStatus _ = True"

fun validAttemptTransition :: "attempt_status \<Rightarrow> attempt_status \<Rightarrow> bool" where
  "validAttemptTransition from to =
     (if from = to then
        from \<in> set [AttemptStatusStarting, AttemptStatusRunning, AttemptStatusWaiting,
          AttemptStatusPausedAtBoundary, AttemptStatusHandoffPending]
      else
        (case from of
           AttemptStatusStarting \<Rightarrow>
             to \<in> set [AttemptStatusRunning, AttemptStatusFailed, AttemptStatusCancelled,
               AttemptStatusIndeterminate]
         | AttemptStatusRunning \<Rightarrow>
             to \<in> set [AttemptStatusWaiting, AttemptStatusPausedAtBoundary,
               AttemptStatusHandoffPending, AttemptStatusCompleted, AttemptStatusFailed,
               AttemptStatusCancelled, AttemptStatusIndeterminate]
         | AttemptStatusWaiting \<Rightarrow>
             to \<in> set [AttemptStatusRunning, AttemptStatusPausedAtBoundary,
               AttemptStatusHandoffPending, AttemptStatusCompleted, AttemptStatusFailed,
               AttemptStatusCancelled, AttemptStatusIndeterminate]
         | AttemptStatusPausedAtBoundary \<Rightarrow>
             to \<in> set [AttemptStatusRunning, AttemptStatusCancelled, AttemptStatusIndeterminate]
         | AttemptStatusHandoffPending \<Rightarrow>
             to \<in> set [AttemptStatusCancelled, AttemptStatusIndeterminate]
         | AttemptStatusIndeterminate \<Rightarrow>
             to \<in> set [AttemptStatusRunning, AttemptStatusCancelled]
         | _ \<Rightarrow> False))"

declare validAttemptTransition.simps [simp del]

definition isTerminalAttemptStatus :: "attempt_status \<Rightarrow> bool" where
  "isTerminalAttemptStatus s =
     (s \<in> set [AttemptStatusCompleted, AttemptStatusFailed, AttemptStatusCancelled,
        AttemptStatusIndeterminate])"

definition isPausedAttemptStatus :: "attempt_status \<Rightarrow> bool" where
  "isPausedAttemptStatus s = (s = AttemptStatusPausedAtBoundary \<or> s = AttemptStatusHandoffPending)"

subsection \<open>Applying attempt updates\<close>

text \<open>Field updates of the session record, and of the three tables, inside a manifest.\<close>

definition setSession :: "(session_record \<Rightarrow> session_record) \<Rightarrow> manifest \<Rightarrow> manifest" where
  "setSession f m = m\<lparr>mf_Session := f (mf_Session m)\<rparr>"

definition putAttempt :: "string \<Rightarrow> attempt_record \<Rightarrow> manifest \<Rightarrow> manifest" where
  "putAttempt k a m = m\<lparr>mf_Attempts := mput k a (mf_Attempts m)\<rparr>"

definition putSegment :: "string \<Rightarrow> segment_record \<Rightarrow> manifest \<Rightarrow> manifest" where
  "putSegment k s m = m\<lparr>mf_Segments := mput k s (mf_Segments m)\<rparr>"

definition putTransition :: "string \<Rightarrow> transition_record \<Rightarrow> manifest \<Rightarrow> manifest" where
  "putTransition k t m = m\<lparr>mf_Transitions := mput k t (mf_Transitions m)\<rparr>"

definition getAttempt :: "manifest \<Rightarrow> string \<Rightarrow> attempt_record" where
  "getAttempt m k = mget0 zeroAttempt (mf_Attempts m) k"

definition getSegment :: "manifest \<Rightarrow> string \<Rightarrow> segment_record" where
  "getSegment m k = mget0 zeroSegment (mf_Segments m) k"

text \<open>The effect of a status on the session, the segment and the completion time of the attempt.\<close>

definition sessionForStatus ::
  "attempt_status \<Rightarrow> string \<Rightarrow> string \<Rightarrow> session_record \<Rightarrow> session_record" where
  "sessionForStatus s segmentID runID r =
     (case s of
        AttemptStatusPausedAtBoundary \<Rightarrow> r\<lparr>sr_Status := StatusPaused\<rparr>
      | AttemptStatusHandoffPending \<Rightarrow> r\<lparr>sr_Status := StatusPaused\<rparr>
      | AttemptStatusCompleted \<Rightarrow> r\<lparr>sr_Status := StatusPaused, sr_ActiveRunID := ''''\<rparr>
      | AttemptStatusFailed \<Rightarrow> r\<lparr>sr_Status := StatusFailed, sr_ActiveRunID := ''''\<rparr>
      | AttemptStatusCancelled \<Rightarrow> r\<lparr>sr_Status := StatusCancelled, sr_ActiveRunID := ''''\<rparr>
      | AttemptStatusIndeterminate \<Rightarrow> r\<lparr>sr_Status := StatusIndeterminate\<rparr>
      | AttemptStatusOther _ \<Rightarrow> r
      | _ \<Rightarrow> r\<lparr>sr_Status := StatusActive, sr_ActiveSegmentID := segmentID, sr_ActiveRunID := runID\<rparr>)"

definition segmentForStatus :: "attempt_status \<Rightarrow> segment_record \<Rightarrow> segment_record" where
  "segmentForStatus s g =
     (case s of
        AttemptStatusPausedAtBoundary \<Rightarrow> g\<lparr>sg_Status := SegmentStatusPaused\<rparr>
      | AttemptStatusHandoffPending \<Rightarrow> g\<lparr>sg_Status := SegmentStatusPaused\<rparr>
      | AttemptStatusCompleted \<Rightarrow> g\<lparr>sg_Status := SegmentStatusCompleted\<rparr>
      | AttemptStatusFailed \<Rightarrow> g\<lparr>sg_Status := SegmentStatusFailed\<rparr>
      | AttemptStatusCancelled \<Rightarrow> g\<lparr>sg_Status := SegmentStatusCancelled\<rparr>
      | AttemptStatusIndeterminate \<Rightarrow> g\<lparr>sg_Status := SegmentStatusIndeterminate\<rparr>
      | AttemptStatusOther _ \<Rightarrow> g
      | _ \<Rightarrow> g\<lparr>sg_Status := SegmentStatusActive\<rparr>)"

definition completedAtForStatus :: "attempt_status \<Rightarrow> string \<Rightarrow> string \<Rightarrow> string" where
  "completedAtForStatus s timestamp old =
     (case s of
        AttemptStatusStarting \<Rightarrow> '''' | AttemptStatusRunning \<Rightarrow> '''' | AttemptStatusWaiting \<Rightarrow> ''''
      | AttemptStatusCompleted \<Rightarrow> timestamp | AttemptStatusFailed \<Rightarrow> timestamp
      | AttemptStatusCancelled \<Rightarrow> timestamp | AttemptStatusIndeterminate \<Rightarrow> timestamp
      | _ \<Rightarrow> old)"

definition applyAttemptStatus ::
  "manifest \<Rightarrow> string \<Rightarrow> attempt_status \<Rightarrow> string \<Rightarrow> string \<Rightarrow> serror + manifest" where
  "applyAttemptStatus m runID s projectionHash timestamp =
     (case mget (mf_Attempts m) runID of
        None \<Rightarrow> Inl (ErrMsg ''updated attempt does not exist'')
      | Some attempt \<Rightarrow>
          if \<not> validAttemptTransition (at_Status attempt) s
          then Inl (ErrMsg ''invalid attempt status transition'')
          else
            let segment = getSegment m (at_SegmentID attempt);
                attempt' = attempt\<lparr>at_Status := s, at_UpdatedAt := timestamp,
                  at_RunProjectionHash :=
                    (if projectionHash \<noteq> '''' then projectionHash else at_RunProjectionHash attempt),
                  at_CompletedAt := completedAtForStatus s timestamp (at_CompletedAt attempt)\<rparr>
            in Inr (putSegment (sg_SegmentID segment) (segmentForStatus s segment)
                 (putAttempt runID attempt'
                   (setSession (sessionForStatus s (sg_SegmentID segment) (at_RunID attempt)) m))))"

definition latestTraceSequence :: "attempt_record \<Rightarrow> int" where
  "latestTraceSequence a =
     (if at_JournaledTraceSequence a > at_CommittedTraceSequence a
      then at_JournaledTraceSequence a else at_CommittedTraceSequence a)"

definition applyExecutionMutation ::
  "manifest \<Rightarrow> execution_payload \<Rightarrow> string \<Rightarrow> serror + manifest" where
  "applyExecutionMutation m p timestamp =
     (let attempt = getAttempt m (ep_RunID p) in
      if mget (mf_Attempts m) (ep_RunID p) = None
         \<or> ep_PreviousMutationHash p \<noteq> at_ExecutionMutationHash attempt
         \<or> at_ExecutionMutationHash attempt = '''' \<and> ep_CheckpointSequence p \<noteq> 0
         \<or> at_ExecutionMutationHash attempt \<noteq> '''' \<and>
             ep_CheckpointSequence p \<le> at_CheckpointSequence attempt
         \<or> ep_CommittedTraceSequence p < latestTraceSequence attempt
      then Inl ErrMutationConflict
      else andThen (applyAttemptStatus m (ep_RunID p) (ep_Status p) (ep_ProjectionHash p) timestamp)
        (\<lambda>m'. Inr (putAttempt (ep_RunID p)
           ((getAttempt m' (ep_RunID p))\<lparr>at_ExecutionMutationHash := ep_MutationHash p,
              at_CheckpointSequence := ep_CheckpointSequence p,
              at_CommittedTraceSequence := ep_CommittedTraceSequence p\<rparr>) m')))"

definition applyTraceCommit :: "manifest \<Rightarrow> trace_payload \<Rightarrow> serror + manifest" where
  "applyTraceCommit m p =
     (case mget (mf_Attempts m) (tp_RunID p) of
        None \<Rightarrow> Inl (ErrMsg ''trace attempt does not exist'')
      | Some attempt \<Rightarrow>
          if tp_TraceSequence p \<noteq> i64 (latestTraceSequence attempt + 1) then Inl ErrMutationConflict
          else Inr (putAttempt (tp_RunID p)
                 (attempt\<lparr>at_JournaledTraceSequence := tp_TraceSequence p\<rparr>) m))"

subsection \<open>Occurrences\<close>

definition executionSourceForAttempt :: "attempt_record \<Rightarrow> execution_source" where
  "executionSourceForAttempt a =
     (if at_Mode a = ''replay'' \<or> at_Mode a = ''route-test'' then ExecutionSourceSaved
      else ExecutionSourceLive)"

definition OccurrenceID :: "env \<Rightarrow> occurrence_record \<Rightarrow> string" where
  "OccurrenceID E r = DigestJSON E (DocOccurrenceID
     \<lparr>oi_SessionID = oc_SessionID r, oi_SegmentID = oc_SegmentID r, oi_RunID = oc_RunID r,
      oi_QualifiedNodeID = oc_QualifiedNodeID r, oi_CallPath = oc_CallPath r, oi_Phase = oc_Phase r,
      oi_Invocation = oc_Invocation r, oi_RetryAttempt = oc_RetryAttempt r,
      oi_OccurrenceSequence = oc_OccurrenceSequence r\<rparr>)"

definition occurrenceOk ::
  "env \<Rightarrow> manifest \<Rightarrow> attempt_record \<Rightarrow> string \<Rightarrow> string \<Rightarrow> occurrence_record \<Rightarrow> bool" where
  "occurrenceOk E m a runID occurrenceID r =
     (occurrenceID = OccurrenceID E r \<and> oc_SessionID r = sr_SessionID (mf_Session m) \<and>
      oc_SegmentID r = at_SegmentID a \<and> oc_RunID r = runID \<and> oc_QualifiedNodeID r \<noteq> '''' \<and>
      oc_StepID r \<noteq> '''' \<and> oc_Phase r \<noteq> '''' \<and> 1 \<le> oc_Invocation r \<and> 1 \<le> oc_RetryAttempt r \<and>
      1 \<le> oc_OccurrenceSequence r \<and> 1 \<le> oc_EventSequence r \<and>
      oc_EventSequence r \<le> latestTraceSequence a \<and>
      oc_ExecutionSource r = executionSourceForAttempt a \<and>
      oc_Status r \<in> set [''completed'', ''failed'', ''skipped'', ''indeterminate''])"

fun applyOccurrences ::
  "env \<Rightarrow> manifest \<Rightarrow> attempt_record \<Rightarrow> string \<Rightarrow> occurrence_record gomap \<Rightarrow> serror + manifest" where
  "applyOccurrences E m a runID [] = Inr m"
| "applyOccurrences E m a runID ((occurrenceID, r) # rs) =
     (if \<not> occurrenceOk E m a runID occurrenceID r then Inl (ErrMsg ''invalid occurrence record'')
      else
        (case mget (mf_Occurrences m) occurrenceID of
           Some existing \<Rightarrow>
             if DigestJSON E (DocOccurrence existing) \<noteq> DigestJSON E (DocOccurrence r)
             then Inl (ErrMsg ''occurrence metadata is immutable'')
             else applyOccurrences E m a runID rs
         | None \<Rightarrow>
             applyOccurrences E
               (m\<lparr>mf_Occurrences := mput occurrenceID r (mf_Occurrences m)\<rparr>) a runID rs))"

definition applyOccurrenceRecords ::
  "env \<Rightarrow> manifest \<Rightarrow> string \<Rightarrow> occurrence_record gomap \<Rightarrow> serror + manifest" where
  "applyOccurrenceRecords E m runID records =
     (if records = [] then Inr m
      else if mget (mf_Attempts m) runID = None \<or> at_SegmentID (getAttempt m runID) = ''''
      then Inl (ErrMsg ''occurrence attempt is unavailable'')
      else applyOccurrences E m (getAttempt m runID) runID records)"

definition preparedTransitionUsesRun :: "manifest \<Rightarrow> string \<Rightarrow> bool" where
  "preparedTransitionUsesRun m runID =
     list_ex (\<lambda>(_, t). tr_Status t = TransitionStatusPrepared \<and>
                so_RunID (tr_SourceOccurrence t) = runID) (mf_Transitions m)"

subsection \<open>Payload validation\<close>

definition validateCreateRequest ::
  "env \<Rightarrow> string \<Rightarrow> string \<Rightarrow> created_payload \<Rightarrow> serror + unit" where
  "validateCreateRequest E sessionID entryDigest p =
     (let sr = cp_Session p; sg = cp_Segment p; attempt = cp_Attempt p in
      if entryDigest = '''' \<or> \<not> validDigest entryDigest then Inl (ErrMsg ''entry digest is required'')
      else if CreationDigest E (cp_Identity p) \<noteq> entryDigest
      then Inl (ErrMsg ''creation digest does not match identity'')
      else if \<not> ValidateCreationIdentity E (cp_Identity p) sessionID sr sg attempt
      then Inl (ErrMsg ''creation identity does not match topology'')
      else if \<not> validateUUID E (sg_SegmentID sg) then Inl (ErrMsg ''segment id must be a canonical UUID'')
      else if \<not> validateUUID E (at_RunID attempt) then Inl (ErrMsg ''run id must be a canonical UUID'')
      else if sr_Status sr \<noteq> StatusActive
        \<or> \<not> (sg_Status sg = SegmentStatusPrepared \<and> at_Status attempt = AttemptStatusStarting) \<and>
          \<not> (sg_Status sg = SegmentStatusActive \<and> at_Status attempt = AttemptStatusRunning)
        \<or> sg_Ordinal sg \<noteq> 1 \<or> at_Ordinal attempt \<noteq> 1 \<or> at_SegmentID attempt \<noteq> sg_SegmentID sg
        \<or> sg_RunbookID sg = '''' \<or> sg_EntryStep sg \<noteq> ''$entry'' \<or> sg_ExecutableRevision sg \<noteq> 1
        \<or> sg_GraphRevision sg \<noteq> 1 \<or> at_PlanHash attempt \<noteq> sg_PlanHash sg
        \<or> \<not> validAttemptMode (at_Mode attempt) \<or> sg_AttemptRunIDs sg \<noteq> [at_RunID attempt]
      then Inl (ErrMsg ''invalid root session topology'')
      else if \<not> validHash (sg_PlanHash sg) then Inl (ErrMsg ''invalid segment plan hash'')
      else if \<not> validDigest (sg_GraphHash sg) \<or> \<not> validDigest (sg_ExecutableSnapshotHash sg)
      then Inl (ErrMsg ''invalid segment blob reference'')
      else Inr ())"

definition invalidTransitionIdentity :: "prepared_payload \<Rightarrow> string \<Rightarrow> bool" where
  "invalidTransitionIdentity p preparedAt =
     (let t = pp_Transition p; sg = pp_TargetSegment p; attempt = pp_TargetAttempt p;
          src = tr_SourceOccurrence t in
      tr_Status t \<noteq> TransitionStatusPrepared \<or> tr_PreparedAt t \<noteq> preparedAt
      \<or> tr_CommittedAt t \<noteq> '''' \<or> tr_AbortedAt t \<noteq> ''''
      \<or> tr_TargetSegmentID t \<noteq> sg_SegmentID sg \<or> tr_TargetRunID t \<noteq> at_RunID attempt
      \<or> tr_TargetRunbookID t = '''' \<or> tr_TargetRunbookName t = ''''
      \<or> tr_TargetRunbookID t \<noteq> sg_RunbookID sg \<or> tr_TargetRunbookName t \<noteq> sg_RunbookName sg
      \<or> trimSpace (tr_ReasonCode t) = '''' \<or> trimSpace (tr_ReasonSummary t) = ''''
      \<or> so_QualifiedNodeID src = '''' \<or> so_StepID src = '''' \<or> so_Phase src \<noteq> ''execute''
      \<or> so_Invocation src < 1 \<or> so_RetryAttempt src < 1 \<or> so_OccurrenceSequence src < 1
      \<or> so_QualifiedNodeID src \<noteq> DebugNodeID (so_CallPath src) (so_StepID src)
      \<or> so_FrameID src = '''' \<and>
          (so_FrameStepIndex src \<noteq> 0 \<or> so_FrameStack src \<noteq> [] \<or> so_BranchLabel src \<noteq> '''' \<or>
           so_IterationIndex src \<noteq> 0)
      \<or> so_FrameID src \<noteq> '''' \<and>
          (so_FrameStepIndex src < 0 \<or> so_FrameStack src = [] \<or> last (so_FrameStack src) \<noteq> so_FrameID src))"

definition invalidTransitionTopology :: "prepared_payload \<Rightarrow> bool" where
  "invalidTransitionTopology p =
     (let t = pp_Transition p; sg = pp_TargetSegment p; attempt = pp_TargetAttempt p in
      tr_SourceSegmentID t = tr_TargetSegmentID t \<or> so_RunID (tr_SourceOccurrence t) = tr_TargetRunID t
      \<or> sg_Status sg \<noteq> SegmentStatusPrepared \<or> sg_Ordinal sg < 2
      \<or> sg_EntryStep sg \<noteq> ''$entry'' \<or> sg_PlanHash sg \<noteq> tr_TargetPlanHash t
      \<or> sg_GraphHash sg \<noteq> tr_TargetGraphHash t
      \<or> sg_ExecutableSnapshotHash sg \<noteq> tr_TargetExecutableSnapshotHash t
      \<or> sg_AttemptRunIDs sg \<noteq> [at_RunID attempt]
      \<or> sg_ExecutableRevision sg \<noteq> 1 \<or> sg_GraphRevision sg \<noteq> 1
      \<or> at_SegmentID attempt \<noteq> sg_SegmentID sg \<or> at_Ordinal attempt \<noteq> 1
      \<or> at_Status attempt \<noteq> AttemptStatusStarting \<or> \<not> validAttemptMode (at_Mode attempt)
      \<or> at_PlanHash attempt \<noteq> tr_TargetPlanHash t \<or> at_StartedAt attempt \<noteq> '''' \<or> at_UpdatedAt attempt \<noteq> ''''
      \<or> at_CompletedAt attempt \<noteq> '''' \<or> at_RunProjectionHash attempt \<noteq> ''''
      \<or> at_ExecutionMutationHash attempt \<noteq> '''' \<or> at_CheckpointSequence attempt \<noteq> 0
      \<or> at_CommittedTraceSequence attempt \<noteq> 0 \<or> at_JournaledTraceSequence attempt \<noteq> 0)"

fun validFactRefs :: "env \<Rightarrow> string list \<Rightarrow> fact_ref list \<Rightarrow> bool" where
  "validFactRefs E seen [] = True"
| "validFactRefs E seen (f # fs) =
     (trimSpace (fr_Name f) \<noteq> '''' \<and> trimSpace (fr_Source f) \<noteq> '''' \<and>
      \<not> sensitiveName (unicode E) (fr_Name f) \<and> fr_Name f \<notin> set seen \<and>
      validFactRefs E (fr_Name f # seen) fs)"

definition validatePreparedTransitionPayload ::
  "env \<Rightarrow> prepared_payload \<Rightarrow> string \<Rightarrow> serror + unit" where
  "validatePreparedTransitionPayload E p preparedAt =
     (let t = pp_Transition p; sg = pp_TargetSegment p in
      if \<not> list_all (validateUUID E)
           [tr_TransitionID t, tr_SourceSegmentID t, so_RunID (tr_SourceOccurrence t),
            tr_TargetSegmentID t, tr_TargetRunID t]
      then Inl (ErrMsg ''transition identifiers must be canonical UUIDs'')
      else if invalidTransitionIdentity p preparedAt then Inl (ErrMsg ''invalid transition identity'')
      else if invalidTransitionTopology p then Inl (ErrMsg ''invalid transition target topology'')
      else if \<not> validHash (tr_TargetPlanHash t) \<or> \<not> validDigest (tr_TargetGraphHash t)
        \<or> \<not> validDigest (tr_TargetExecutableSnapshotHash t) \<or> \<not> validDigest (tr_ContextDigest t)
        \<or> \<not> validDigest (tr_IdempotencyKey t)
      then Inl (ErrMsg ''invalid transition digest'')
      else if list_ex (\<lambda>d. d \<noteq> '''' \<and> \<not> validDigest d)
                [sg_CatalogDigest sg, sg_PackageLockDigest sg, sg_ProfileDigest sg]
      then Inl (ErrMsg ''invalid transition dependency digest'')
      else if length (tr_ContextBindings t) > 1024 \<or> length (tr_FactRefs t) > 1024
      then Inl (ErrMsg ''transition context allowlist is too large'')
      else if list_ex (\<lambda>(name, source). trimSpace name = '''' \<or> trimSpace source = '''' \<or>
                sensitiveName (unicode E) name) (tr_ContextBindings t)
      then Inl (ErrMsg ''invalid transition context binding'')
      else if \<not> validFactRefs E [] (tr_FactRefs t)
      then Inl (ErrMsg ''invalid transition fact reference'')
      else Inr ())"

definition ValidateDynamicIncludeResolutionVersion :: "include_resolution \<Rightarrow> bool" where
  "ValidateDynamicIncludeResolutionVersion r =
     (if ir_SchemaVersion r = ''yawr.dynamic-include-resolution/v1''
      then pin_SchemaVersion (ir_Pin r) = '''' \<and> pin_TargetScopeID (ir_Pin r) = ''''
      else if ir_SchemaVersion r = ''yawr.dynamic-include-resolution/v2''
      then pin_SchemaVersion (ir_Pin r) = ''yawr.dynamic-include-pin/v2'' \<and>
           pin_TargetScopeID (ir_Pin r) \<noteq> ''''
      else False)"

definition validateSegmentResolution :: "env \<Rightarrow> include_resolution \<Rightarrow> nat \<Rightarrow> serror + unit" where
  "validateSegmentResolution E r writerEpoch =
     (if \<not> ValidateDynamicIncludeResolutionVersion r
      then Inl (ErrMsg ''unsupported dynamic resolution version'')
      else if \<not> validDigest (ir_ResolutionID r) \<or> ir_WriterEpoch r \<noteq> writerEpoch
        \<or> ir_QualifiedNodeID r = '''' \<or> ir_StepID r = '''' \<or> ir_Invocation r < 1 \<or> ir_Revision r < 1
        \<or> ir_QualifiedNodeID r \<noteq> DebugNodeID (ir_CallPath r) (ir_StepID r)
        \<or> ir_Status r \<noteq> ''active'' \<or> ir_CompletedAt r \<noteq> ''''
        \<or> pin_StepID (ir_Pin r) \<noteq> ir_StepID r \<or> pin_QualifiedNodeID (ir_Pin r) \<noteq> ir_QualifiedNodeID r
        \<or> pin_Invocation (ir_Pin r) \<noteq> ir_Invocation r \<or> pin_Revision (ir_Pin r) \<noteq> ir_Revision r
        \<or> trimSpace (pin_PackageName (ir_Pin r)) = '''' \<or> trimSpace (pin_PackageVersion (ir_Pin r)) = ''''
      then Inl (ErrMsg ''invalid segment revision resolution'')
      else if ir_FrameID r \<noteq> '''' \<and> (\<not> validDigest (ir_FrameID r) \<or> ir_FrameStepIndex r < 0)
        \<or> ir_FrameID r = '''' \<and> ir_FrameStepIndex r \<noteq> 0
      then Inl (ErrMsg ''invalid segment revision frame binding'')
      else if \<not> timeOk E (ir_CommittedAt r) then Inl (ErrMsg ''invalid segment revision commit time'')
      else if ir_SchemaVersion r = ''yawr.dynamic-include-resolution/v1'' \<and> \<not> pinOk E (ir_Pin r)
      then Inl (ErrMsg ''invalid segment revision pin'')
      else Inr ())"

definition validateSegmentRevisionDispatch ::
  "env \<Rightarrow> dispatch_state \<Rightarrow> include_resolution \<Rightarrow> nat \<Rightarrow> serror + unit" where
  "validateSegmentRevisionDispatch E d r writerEpoch =
     (if ds_SchemaVersion d \<noteq> ''yawr.dispatch-state/v1'' \<or> \<not> validDigest (ds_OccurrenceID d)
        \<or> ds_WriterEpoch d \<noteq> writerEpoch \<or> ds_QualifiedNodeID d \<noteq> ir_QualifiedNodeID r
        \<or> ds_StepID d \<noteq> ir_StepID r \<or> ds_FrameID d \<noteq> ir_FrameID r
        \<or> ds_FrameStepIndex d \<noteq> ir_FrameStepIndex r
        \<or> DigestJSON E (DocCallPath (ds_CallPath d)) \<noteq> DigestJSON E (DocCallPath (ir_CallPath r))
        \<or> ds_Phase d \<noteq> ''execute'' \<or> ds_Invocation d \<noteq> ir_Invocation r
        \<or> ds_Classification d \<noteq> ''read-only'' \<or> ds_EndpointIdentity d \<noteq> ''dynamic-include-resolver''
        \<or> ds_Status d \<noteq> ''settled'' \<or> \<not> validDigest (ds_RequestDigest d)
        \<or> \<not> validDigest (ds_IdempotencyKey d)
        \<or> ds_ResultDigest d \<noteq> DigestBytes E (marshal E (DocPin (ir_Pin r)))
        \<or> ds_Invocation d < 1 \<or> ds_RetryAttempt d < 1 \<or> ds_OccurrenceSequence d < 1
      then Inl (ErrMsg ''invalid segment revision dispatch'')
      else if \<not> timeOk E (ds_PreparedAt d)
      then Inl (ErrMsg ''invalid segment revision dispatch prepare time'')
      else if \<not> timeOk E (ds_SettledAt d)
      then Inl (ErrMsg ''invalid segment revision dispatch settle time'')
      else Inr ())"

subsection \<open>The rebuild loop, by event kind\<close>

record rebuild_state =
  rs_Manifest :: manifest
  rs_PreviousDigest :: string
  rs_PreviousWriterEpoch :: nat
  rs_EventIDs :: "string list"
  rs_Prepared :: "prepared_payload gomap"

definition emptyManifest :: manifest where
  "emptyManifest = \<lparr>mf_SchemaVersion = ''yawr.investigation-session-manifest/v1'',
     mf_Session = zeroSession, mf_Segments = [], mf_Attempts = [], mf_Transitions = [],
     mf_Occurrences = [], mf_AcceptedCommands = []\<rparr>"

definition newManifestRebuildState :: rebuild_state where
  "newManifestRebuildState = \<lparr>rs_Manifest = emptyManifest, rs_PreviousDigest = '''',
     rs_PreviousWriterEpoch = 0, rs_EventIDs = [], rs_Prepared = []\<rparr>"

definition eventDigest :: "env \<Rightarrow> event \<Rightarrow> string" where
  "eventDigest E ev = DigestBytes E (marshal E (DocEvent (ev\<lparr>ev_Digest := ''''\<rparr>)))"

fun payloadValid :: "payload \<Rightarrow> bool" where
  "payloadValid (PayMalformed _) = False"
| "payloadValid _ = True"

text \<open>
  The checks every event passes before its kind is looked at. The sequence number is
  bounded by the limit on journal events (\<^verbatim>\<open>maxJournalEvents\<close>, one million), so its
  successor never wraps.
\<close>

definition checkEvent :: "env \<Rightarrow> rebuild_state \<Rightarrow> event \<Rightarrow> serror + unit" where
  "checkEvent E st ev =
     (let m = rs_Manifest st; index = sr_Sequence (mf_Session m) in
      if ev_SchemaVersion ev \<noteq> ''yawr.investigation-session-event/v1''
        \<or> ev_Sequence ev \<noteq> index + 1 \<or> ev_SessionID ev = '''' \<or> ev_WriterEpoch ev = 0
        \<or> ev_EventID ev = '''' \<or> ev_CommandID ev = '''' \<or> ev_CommandDigest ev = ''''
        \<or> ev_Kind ev = EventKindOther '''' \<or> \<not> payloadValid (ev_Payload ev)
        \<or> ev_PreviousDigest ev \<noteq> rs_PreviousDigest st
      then Inl (ErrMsg ''invalid journal event'')
      else if \<not> validateUUID E (ev_SessionID ev) \<or> \<not> validateUUID E (ev_EventID ev)
        \<or> \<not> validateUUID E (ev_CommandID ev) \<or> ev_EventID ev \<in> set (rs_EventIDs st)
        \<or> index > 0 \<and> ev_SessionID ev \<noteq> sr_SessionID (mf_Session m)
        \<or> ev_WriterEpoch ev < rs_PreviousWriterEpoch st
      then Inl (ErrMsg ''invalid journal event identity'')
      else if \<not> timeOk E (ev_Timestamp ev) then Inl (ErrMsg ''invalid journal timestamp'')
      else if eventDigest E ev \<noteq> ev_Digest ev then Inl (ErrMsg ''journal digest mismatch'')
      else if ev_ClientCommandDigest ev \<noteq> '''' \<and> \<not> validDigest (ev_ClientCommandDigest ev)
      then Inl (ErrMsg ''invalid client command digest'')
      else
        (case mget (mf_AcceptedCommands m) (ev_CommandID ev) of
           Some receipt \<Rightarrow>
             if cr_CommandDigest receipt \<noteq> ev_CommandDigest ev
               \<or> cr_ClientCommandDigest receipt \<noteq> ev_ClientCommandDigest ev
               \<or> cr_EventKind receipt \<noteq> ev_Kind ev
             then Inl ErrCommandConflict
             else Inl (ErrMsg ''duplicate command event'')
         | None \<Rightarrow> Inr ()))"

definition applyCreated :: "env \<Rightarrow> manifest \<Rightarrow> event \<Rightarrow> created_payload \<Rightarrow> serror + manifest" where
  "applyCreated E m ev p =
     (let sr = cp_Session p; sg = cp_Segment p; attempt = cp_Attempt p in
      if sr_Sequence (mf_Session m) \<noteq> 0 then Inl (ErrMsg ''session.created must be first'')
      else if sr_SessionID sr \<noteq> ev_SessionID ev \<or> sr_CreationCommandID sr \<noteq> ev_CommandID ev
        \<or> sr_CreationDigest sr \<noteq> ev_CommandDigest ev \<or> sg_SegmentID sg = ''''
        \<or> at_SegmentID attempt \<noteq> sg_SegmentID sg \<or> sr_WriterEpoch sr \<noteq> ev_WriterEpoch ev
      then Inl (ErrMsg ''invalid session creation payload'')
      else if sr_RootSegmentID sr \<noteq> sg_SegmentID sg \<or> sr_ActiveSegmentID sr \<noteq> sg_SegmentID sg
        \<or> sr_ActiveRunID sr \<noteq> at_RunID attempt \<or> sr_Sequence sr \<noteq> 1 \<or> sr_ManifestRevision sr \<noteq> 1
        \<or> sr_CreatedAt sr \<noteq> ev_Timestamp ev \<or> sr_UpdatedAt sr \<noteq> ev_Timestamp ev
        \<or> at_StartedAt attempt \<noteq> ev_Timestamp ev \<or> at_UpdatedAt attempt \<noteq> ev_Timestamp ev
        \<or> at_CompletedAt attempt \<noteq> '''' \<or> at_RunProjectionHash attempt \<noteq> ''''
        \<or> at_ExecutionMutationHash attempt \<noteq> '''' \<or> at_CheckpointSequence attempt \<noteq> 0
        \<or> at_CommittedTraceSequence attempt \<noteq> 0 \<or> at_JournaledTraceSequence attempt \<noteq> 0
        \<or> at_PlanHash attempt \<noteq> sg_PlanHash sg \<or> sg_EntryStep sg \<noteq> ''$entry''
        \<or> sg_ExecutableRevision sg \<noteq> 1 \<or> sg_GraphRevision sg \<noteq> 1
      then Inl (ErrMsg ''invalid generated session creation topology'')
      else if ev_CommandDigest ev \<noteq> CreationDigest E (cp_Identity p)
        \<or> \<not> ValidateCreationIdentity E (cp_Identity p) (ev_SessionID ev) sr sg attempt
      then Inl (ErrMsg ''creation command digest does not match payload'')
      else if \<not> is_ok (validateCreateRequest E (ev_SessionID ev) (ev_CommandDigest ev) p)
      then Inl (ErrMsg ''invalid replayed session creation'')
      else Inr (putAttempt (at_RunID attempt) attempt
             (putSegment (sg_SegmentID sg) sg (setSession (\<lambda>_. sr) m))))"

definition cancelPausedAttempt :: "manifest \<Rightarrow> string \<Rightarrow> string \<Rightarrow> manifest" where
  "cancelPausedAttempt m runID timestamp =
     (let attempt = getAttempt m runID; segment = getSegment m (at_SegmentID attempt) in
      putSegment (at_SegmentID attempt) (segment\<lparr>sg_Status := SegmentStatusCancelled\<rparr>)
        (putAttempt runID (attempt\<lparr>at_Status := AttemptStatusCancelled, at_UpdatedAt := timestamp,
           at_CompletedAt := timestamp\<rparr>) m))"

definition applyClosed :: "env \<Rightarrow> manifest \<Rightarrow> event \<Rightarrow> closed_payload \<Rightarrow> serror + manifest" where
  "applyClosed E m ev p =
     (let sr = mf_Session m; attempt = getAttempt m (sr_ActiveRunID sr) in
      if sr_SessionID sr = '''' then Inl (ErrMsg ''close before creation'')
      else if \<not> isCloseStatus (xp_Status p) then Inl (ErrMsg ''invalid close payload'')
      else if ev_CommandDigest ev \<noteq> DigestJSON E (DocClose (xp_Status p))
      then Inl (ErrMsg ''close command digest does not match payload'')
      else if (xp_RunID p \<noteq> '''' \<or> xp_SegmentID p \<noteq> '''') \<and>
        (xp_RunID p = '''' \<or> xp_SegmentID p = '''' \<or> sr_ActiveRunID sr \<noteq> xp_RunID p
         \<or> sr_ActiveSegmentID sr \<noteq> xp_SegmentID p
         \<or> at_SegmentID (getAttempt m (xp_RunID p)) \<noteq> xp_SegmentID p)
      then Inl (ErrMsg ''close payload active topology does not match manifest'')
      else if sr_ActiveRunID sr \<noteq> '''' \<and> \<not> isTerminalAttemptStatus (at_Status attempt) \<and>
        \<not> (sr_Status sr = StatusPaused \<and> isPausedAttemptStatus (at_Status attempt))
      then Inl (ErrMsg ''close event targets an active attempt'')
      else
        Inr (setSession (\<lambda>r. r\<lparr>sr_Status := xp_Status p, sr_ActiveSegmentID := '''',
               sr_ActiveRunID := ''''\<rparr>)
          (if sr_ActiveRunID sr \<noteq> '''' \<and> isPausedAttemptStatus (at_Status attempt)
           then cancelPausedAttempt m (sr_ActiveRunID sr) (ev_Timestamp ev) else m)))"

definition applyPaused :: "env \<Rightarrow> manifest \<Rightarrow> event \<Rightarrow> string \<Rightarrow> string \<Rightarrow> serror + manifest" where
  "applyPaused E m ev runID reason =
     (if runID = '''' \<or> reason = '''' \<or> ev_CommandDigest ev \<noteq> DigestJSON E (DocPause runID reason)
      then Inl (ErrMsg ''invalid session pause payload'')
      else if sr_ActiveRunID (mf_Session m) \<noteq> runID
      then Inl (ErrMsg ''pause targets a non-active attempt'')
      else if \<not> isPausedAttemptStatus (at_Status (getAttempt m runID))
      then Inl (ErrMsg ''pause targets a non-pausable attempt'')
      else Inr (setSession (\<lambda>r. r\<lparr>sr_Status := StatusPaused\<rparr>) m))"

definition applyResumed :: "env \<Rightarrow> manifest \<Rightarrow> event \<Rightarrow> string \<Rightarrow> serror + manifest" where
  "applyResumed E m ev runID =
     (if runID = '''' \<or> ev_CommandDigest ev \<noteq> DigestJSON E (DocResume runID)
      then Inl (ErrMsg ''invalid session resume payload'')
      else if sr_Status (mf_Session m) \<noteq> StatusPaused \<or> sr_ActiveRunID (mf_Session m) \<noteq> runID
        \<or> at_Status (getAttempt m runID) \<noteq> AttemptStatusPausedAtBoundary
      then Inl (ErrMsg ''resume targets a non-paused attempt'')
      else applyAttemptStatus m runID AttemptStatusRunning '''' (ev_Timestamp ev))"

definition badReason :: "string \<Rightarrow> bool" where
  "badReason reason =
     (reason = '''' \<or> length reason > 1024 \<or> containsAny reason [CHR 0x0D, CHR 0x0A, CHR 0x00])"

definition applyDetached :: "env \<Rightarrow> manifest \<Rightarrow> event \<Rightarrow> string \<Rightarrow> serror + manifest" where
  "applyDetached E m ev reason =
     (if badReason reason \<or> ev_CommandDigest ev \<noteq> DigestJSON E (DocDetach reason)
        \<or> ev_ClientCommandDigest ev = ''''
      then Inl (ErrMsg ''invalid session detach payload'')
      else if sr_Status (mf_Session m) \<noteq> StatusIndeterminate \<and> sr_ActiveRunID (mf_Session m) \<noteq> ''''
      then Inl (ErrMsg ''detach receipt targets active execution'')
      else Inr m)"

definition applyAttemptUpdated ::
  "env \<Rightarrow> manifest \<Rightarrow> event \<Rightarrow> string \<Rightarrow> attempt_status \<Rightarrow> serror + manifest" where
  "applyAttemptUpdated E m ev runID s =
     (if \<not> validAttemptStatus s then Inl (ErrMsg ''invalid attempt update payload'')
      else if ev_CommandDigest ev \<noteq> DigestJSON E (DocAttemptUpdate runID s)
      then Inl (ErrMsg ''attempt command digest does not match payload'')
      else applyAttemptStatus m runID s '''' (ev_Timestamp ev))"

definition applyExecution :: "env \<Rightarrow> manifest \<Rightarrow> event \<Rightarrow> execution_payload \<Rightarrow> serror + manifest" where
  "applyExecution E m ev p =
     (if \<not> validAttemptStatus (ep_Status p) \<or> \<not> validDigest (ep_MutationHash p)
        \<or> \<not> validDigest (ep_ProjectionHash p) \<or> ep_CheckpointSequence p < 0
        \<or> ep_CommittedTraceSequence p < 0
        \<or> ep_PreviousMutationHash p \<noteq> '''' \<and> \<not> validDigest (ep_PreviousMutationHash p)
      then Inl (ErrMsg ''invalid execution commit payload'')
      else if ev_CommandDigest ev \<noteq> DigestJSON E (DocMutationRef (ep_RunID p) (ep_MutationHash p))
      then Inl (ErrMsg ''execution command digest does not match payload'')
      else if preparedTransitionUsesRun m (ep_RunID p)
      then Inl (ErrMsg ''execution mutation follows a prepared source transition'')
      else andThen (applyExecutionMutation m p (ev_Timestamp ev))
             (\<lambda>m'. applyOccurrenceRecords E m' (ep_RunID p) (ep_Occurrences p)))"

definition applyTrace :: "env \<Rightarrow> manifest \<Rightarrow> event \<Rightarrow> trace_payload \<Rightarrow> serror + manifest" where
  "applyTrace E m ev p =
     (if \<not> validDigest (tp_TraceHash p) \<or> tp_TraceSequence p < 1
      then Inl (ErrMsg ''invalid trace commit payload'')
      else if ev_CommandDigest ev \<noteq> DigestJSON E (DocTraceRef (tp_RunID p) (tp_TraceHash p))
      then Inl (ErrMsg ''trace command digest does not match payload'')
      else andThen (applyTraceCommit m p)
        (\<lambda>m'. case tp_Occurrence p of
           None \<Rightarrow> Inr m'
         | Some r \<Rightarrow> applyOccurrenceRecords E m' (tp_RunID p) [(OccurrenceID E r, r)]))"

definition applyRevised :: "env \<Rightarrow> manifest \<Rightarrow> event \<Rightarrow> revised_payload \<Rightarrow> serror + manifest" where
  "applyRevised E m ev p =
     (let sg = getSegment m (rp_SegmentID p) in
      if \<not> validateUUID E (rp_SegmentID p) \<or> \<not> validateUUID E (rp_RunID p)
        \<or> rp_ExecutableRevision p < 2 \<or> rp_GraphRevision p \<noteq> rp_ExecutableRevision p
        \<or> \<not> validHash (rp_PlanHash p) \<or> \<not> validDigest (rp_ExecutableSnapshotHash p)
        \<or> \<not> validDigest (rp_GraphHash p)
      then Inl (ErrMsg ''invalid segment revision payload'')
      else if ev_CommandDigest ev \<noteq> DigestJSON E (DocRevision p)
      then Inl (ErrMsg ''segment revision command digest does not match payload'')
      else if mget (mf_Segments m) (rp_SegmentID p) = None
        \<or> sr_ActiveSegmentID (mf_Session m) \<noteq> rp_SegmentID p
        \<or> sr_ActiveRunID (mf_Session m) \<noteq> rp_RunID p
        \<or> at_SegmentID (getAttempt m (rp_RunID p)) \<noteq> rp_SegmentID p
        \<or> rp_ExecutableRevision p \<noteq> i64 (sg_ExecutableRevision sg + 1)
        \<or> rp_GraphRevision p \<noteq> i64 (sg_GraphRevision sg + 1)
      then Inl (ErrMsg ''segment revision is not contiguous for the active attempt'')
      else andThen (validateSegmentResolution E (rp_Resolution p) (ev_WriterEpoch ev)) (\<lambda>_.
        if ir_Revision (rp_Resolution p) \<noteq> i64 (rp_ExecutableRevision p - 1)
        then Inl (ErrMsg ''segment resolution revision does not match segment revision'')
        else andThen (validateSegmentRevisionDispatch E (rp_Dispatch p) (rp_Resolution p)
                        (ev_WriterEpoch ev)) (\<lambda>_.
          Inr (putSegment (rp_SegmentID p)
            (sg\<lparr>sg_ExecutableRevision := rp_ExecutableRevision p, sg_GraphRevision := rp_GraphRevision p,
               sg_PlanHash := rp_PlanHash p,
               sg_ExecutableSnapshotHash := rp_ExecutableSnapshotHash p,
               sg_GraphHash := rp_GraphHash p\<rparr>) m))))"

definition applyPrepared :: "env \<Rightarrow> manifest \<Rightarrow> event \<Rightarrow> prepared_payload \<Rightarrow> serror + manifest" where
  "applyPrepared E m ev p =
     (let t = pp_Transition p; sg = pp_TargetSegment p; attempt = pp_TargetAttempt p;
          sourceRun = so_RunID (tr_SourceOccurrence t); sourceAttempt = getAttempt m sourceRun in
      if \<not> is_ok (validatePreparedTransitionPayload E p (ev_Timestamp ev))
      then Inl (ErrMsg ''invalid transition preparation payload'')
      else if ev_CommandDigest ev \<noteq> DigestJSON E (DocPrepare
          (t\<lparr>tr_PreparedAt := '''', tr_CommittedAt := '''', tr_AbortedAt := ''''\<rparr>) sg
          (attempt\<lparr>at_StartedAt := '''', at_UpdatedAt := '''', at_CompletedAt := ''''\<rparr>))
      then Inl (ErrMsg ''transition prepare command digest does not match payload'')
      else if mget (mf_Transitions m) (tr_TransitionID t) \<noteq> None
      then Inl (ErrMsg ''duplicate transition id'')
      else if sr_ActiveSegmentID (mf_Session m) \<noteq> tr_SourceSegmentID t
        \<or> sr_ActiveRunID (mf_Session m) \<noteq> sourceRun
      then Inl (ErrMsg ''transition source is not active'')
      else if at_SegmentID sourceAttempt \<noteq> tr_SourceSegmentID t
        \<or> at_Status sourceAttempt \<noteq> AttemptStatusHandoffPending
      then Inl (ErrMsg ''transition source is not paused at handoff'')
      else if sg_Ordinal sg \<noteq> i64 (sg_Ordinal (getSegment m (tr_SourceSegmentID t)) + 1)
      then Inl (ErrMsg ''target segment ordinal does not follow its source'')
      else if mget (mf_Segments m) (sg_SegmentID sg) \<noteq> None
      then Inl (ErrMsg ''target segment already exists'')
      else if mget (mf_Attempts m) (at_RunID attempt) \<noteq> None
      then Inl (ErrMsg ''target attempt already exists'')
      else Inr (putTransition (tr_TransitionID t) t m))"

definition applyCommitted ::
  "env \<Rightarrow> manifest \<Rightarrow> prepared_payload gomap \<Rightarrow> event \<Rightarrow> committed_payload \<Rightarrow> serror + manifest" where
  "applyCommitted E m preparedTransitions ev p =
     (if \<not> validateUUID E (mp_TransitionID p) then Inl (ErrMsg ''invalid transition commit payload'')
      else if ev_CommandDigest ev \<noteq> DigestJSON E (DocCommit (mp_TransitionID p))
      then Inl (ErrMsg ''transition commit command digest does not match payload'')
      else
        (case mget (mf_Transitions m) (mp_TransitionID p) of
           None \<Rightarrow> Inl (ErrMsg ''committed transition is not prepared'')
         | Some t \<Rightarrow>
             if tr_Status t \<noteq> TransitionStatusPrepared
             then Inl (ErrMsg ''committed transition is not prepared'')
             else
               (case mget preparedTransitions (mp_TransitionID p) of
                  None \<Rightarrow> Inl (ErrMsg ''committed transition target does not match its preparation'')
                | Some prepared \<Rightarrow>
                    (let sourceRun = so_RunID (tr_SourceOccurrence t);
                         sourceAttempt = getAttempt m sourceRun;
                         sg = pp_TargetSegment prepared; attempt = pp_TargetAttempt prepared;
                         now = ev_Timestamp ev in
                     if mp_TargetSegment p \<noteq> sg \<or> mp_TargetAttempt p \<noteq> attempt
                     then Inl (ErrMsg ''committed transition target does not match its preparation'')
                     else if at_Status sourceAttempt \<noteq> AttemptStatusHandoffPending
                       \<or> at_ExecutionMutationHash sourceAttempt = ''''
                     then Inl (ErrMsg ''committed transition source is no longer handoff-pending'')
                     else if sr_ActiveSegmentID (mf_Session m) \<noteq> tr_SourceSegmentID t
                       \<or> sr_ActiveRunID (mf_Session m) \<noteq> sourceRun
                       \<or> sg_SegmentID sg \<noteq> tr_TargetSegmentID t
                       \<or> at_RunID attempt \<noteq> tr_TargetRunID t
                       \<or> at_SegmentID attempt \<noteq> tr_TargetSegmentID t
                     then Inl (ErrMsg ''committed transition topology mismatch'')
                     else if mget (mf_Segments m) (sg_SegmentID sg) \<noteq> None
                     then Inl (ErrMsg ''duplicate target segment'')
                     else if mget (mf_Attempts m) (at_RunID attempt) \<noteq> None
                     then Inl (ErrMsg ''duplicate target attempt'')
                     else
                       Inr (setSession (\<lambda>r. r\<lparr>sr_Status := StatusActive,
                              sr_ActiveSegmentID := sg_SegmentID sg, sr_ActiveRunID := at_RunID attempt\<rparr>)
                         (putTransition (mp_TransitionID p)
                            (t\<lparr>tr_Status := TransitionStatusCommitted, tr_CommittedAt := now\<rparr>)
                         (putAttempt (at_RunID attempt)
                            (attempt\<lparr>at_StartedAt := now, at_UpdatedAt := now\<rparr>)
                         (putSegment (sg_SegmentID sg) sg
                         (putAttempt sourceRun
                            (sourceAttempt\<lparr>at_Status := AttemptStatusCompleted, at_UpdatedAt := now,
                               at_CompletedAt := now\<rparr>)
                         (putSegment (tr_SourceSegmentID t)
                            ((getSegment m (tr_SourceSegmentID t))\<lparr>sg_Status := SegmentStatusHandedOff\<rparr>)
                            m))))))))))"

definition applyAborted :: "env \<Rightarrow> manifest \<Rightarrow> event \<Rightarrow> string \<Rightarrow> string \<Rightarrow> serror + manifest" where
  "applyAborted E m ev transitionID reason =
     (if \<not> validateUUID E transitionID \<or> trimSpace reason = ''''
      then Inl (ErrMsg ''invalid transition abort payload'')
      else if ev_CommandDigest ev \<noteq> DigestJSON E (DocAbort transitionID reason)
      then Inl (ErrMsg ''transition abort command digest does not match payload'')
      else
        (case mget (mf_Transitions m) transitionID of
           None \<Rightarrow> Inl (ErrMsg ''aborted transition is not prepared'')
         | Some t \<Rightarrow>
             if tr_Status t \<noteq> TransitionStatusPrepared
             then Inl (ErrMsg ''aborted transition is not prepared'')
             else Inr (putTransition transitionID
                    (t\<lparr>tr_Status := TransitionStatusAborted, tr_AbortedAt := ev_Timestamp ev\<rparr>) m)))"

text \<open>
  The \<^verbatim>\<open>switch\<close> on the event kind. A payload that does not decode as the struct of its
  kind is rejected.
\<close>

definition applyKind ::
  "env \<Rightarrow> manifest \<Rightarrow> prepared_payload gomap \<Rightarrow> event \<Rightarrow> event_kind \<Rightarrow> payload \<Rightarrow> serror + manifest" where
  "applyKind E m P ev kind pay =
     (case kind of
        EventSessionCreated \<Rightarrow>
          (case pay of PayCreated p \<Rightarrow> applyCreated E m ev p | _ \<Rightarrow> Inl (ErrMsg ''invalid event payload''))
      | EventSessionClosed \<Rightarrow>
          (case pay of PayClosed p \<Rightarrow> applyClosed E m ev p | _ \<Rightarrow> Inl (ErrMsg ''invalid event payload''))
      | EventSessionPaused \<Rightarrow>
          (case pay of PayPaused runID reason \<Rightarrow> applyPaused E m ev runID reason | _ \<Rightarrow> Inl (ErrMsg ''invalid event payload''))
      | EventSessionResumed \<Rightarrow>
          (case pay of PayResumed runID \<Rightarrow> applyResumed E m ev runID | _ \<Rightarrow> Inl (ErrMsg ''invalid event payload''))
      | EventSessionDetached \<Rightarrow>
          (case pay of PayDetached reason \<Rightarrow> applyDetached E m ev reason | _ \<Rightarrow> Inl (ErrMsg ''invalid event payload''))
      | EventAttemptUpdated \<Rightarrow>
          (case pay of PayAttempt runID s \<Rightarrow> applyAttemptUpdated E m ev runID s | _ \<Rightarrow> Inl (ErrMsg ''invalid event payload''))
      | EventExecutionCommitted \<Rightarrow>
          (case pay of PayExecution p \<Rightarrow> applyExecution E m ev p | _ \<Rightarrow> Inl (ErrMsg ''invalid event payload''))
      | EventTraceCommitted \<Rightarrow>
          (case pay of PayTrace p \<Rightarrow> applyTrace E m ev p | _ \<Rightarrow> Inl (ErrMsg ''invalid event payload''))
      | EventSegmentRevised \<Rightarrow>
          (case pay of PayRevised p \<Rightarrow> applyRevised E m ev p | _ \<Rightarrow> Inl (ErrMsg ''invalid event payload''))
      | EventTransitionPrepared \<Rightarrow>
          (case pay of PayPrepared p \<Rightarrow> applyPrepared E m ev p | _ \<Rightarrow> Inl (ErrMsg ''invalid event payload''))
      | EventTransitionCommitted \<Rightarrow>
          (case pay of PayCommitted p \<Rightarrow> applyCommitted E m P ev p | _ \<Rightarrow> Inl (ErrMsg ''invalid event payload''))
      | EventTransitionAborted \<Rightarrow>
          (case pay of PayAborted i reason \<Rightarrow> applyAborted E m ev i reason | _ \<Rightarrow> Inl (ErrMsg ''invalid event payload''))
      | EventKindOther _ \<Rightarrow> Inl (ErrMsg ''unsupported event kind''))"

definition receiptFor :: "event \<Rightarrow> command_receipt" where
  "receiptFor ev = \<lparr>cr_CommandID = ev_CommandID ev, cr_CommandDigest = ev_CommandDigest ev,
     cr_ClientCommandDigest = ev_ClientCommandDigest ev, cr_EventKind = ev_Kind ev,
     cr_Sequence = ev_Sequence ev\<rparr>"

text \<open>The bookkeeping after the \<^verbatim>\<open>switch\<close>.\<close>

definition sealEvent :: "manifest \<Rightarrow> event \<Rightarrow> manifest" where
  "sealEvent m ev =
     (setSession (\<lambda>r. r\<lparr>sr_Sequence := ev_Sequence ev, sr_ManifestRevision := ev_Sequence ev,
        sr_WriterEpoch := ev_WriterEpoch ev, sr_UpdatedAt := ev_Timestamp ev\<rparr>) m)
       \<lparr>mf_AcceptedCommands := mput (ev_CommandID ev) (receiptFor ev) (mf_AcceptedCommands m)\<rparr>"

definition preparedAfter ::
  "prepared_payload gomap \<Rightarrow> event_kind \<Rightarrow> payload \<Rightarrow> prepared_payload gomap" where
  "preparedAfter P kind pay =
     (case (kind, pay) of
        (EventTransitionPrepared, PayPrepared p) \<Rightarrow> mput (tr_TransitionID (pp_Transition p)) p P
      | _ \<Rightarrow> P)"

definition rebuildStep :: "env \<Rightarrow> rebuild_state \<Rightarrow> event \<Rightarrow> serror + rebuild_state" where
  "rebuildStep E st ev =
     andThen (checkEvent E st ev) (\<lambda>_.
       andThen (applyKind E (rs_Manifest st) (rs_Prepared st) ev (ev_Kind ev) (ev_Payload ev)) (\<lambda>m.
         Inr \<lparr>rs_Manifest = sealEvent m ev, rs_PreviousDigest = ev_Digest ev,
              rs_PreviousWriterEpoch = ev_WriterEpoch ev, rs_EventIDs = ev_EventID ev # rs_EventIDs st,
              rs_Prepared = preparedAfter (rs_Prepared st) (ev_Kind ev) (ev_Payload ev)\<rparr>))"

fun rebuildManifestFromState :: "env \<Rightarrow> rebuild_state \<Rightarrow> event list \<Rightarrow> serror + rebuild_state" where
  "rebuildManifestFromState E st [] = Inr st"
| "rebuildManifestFromState E st (ev # evs) =
     (case rebuildStep E st ev of
        Inl e \<Rightarrow> Inl e
      | Inr st' \<Rightarrow> rebuildManifestFromState E st' evs)"

definition rebuildManifest :: "env \<Rightarrow> event list \<Rightarrow> serror + manifest" where
  "rebuildManifest E events =
     (if events = [] then Inl ErrNotExist
      else andThen (rebuildManifestFromState E newManifestRebuildState events)
             (\<lambda>st. Inr (rs_Manifest st)))"

end
