(* ===== verification/Session_Ops.thy ===== *)
theory Session_Ops
  imports Session_Rebuild
begin

section \<open>Checks on what a client submits\<close>

text \<open>
  The functions of \<^verbatim>\<open>dir_store.go\<close> and \<^verbatim>\<open>session.go\<close> that validate a request before it
  becomes an event: occurrences derived from trace events, execution mutations and their frame
  projections, and handoff contexts.
\<close>

subsection \<open>Occurrences of terminal trace events\<close>

definition strField :: "gany gomap \<Rightarrow> string \<Rightarrow> string" where
  "strField payload k = (case mget payload k of Some (GStr s) \<Rightarrow> s | _ \<Rightarrow> '''')"

definition occurrenceCallPath :: "env \<Rightarrow> gany option \<Rightarrow> serror + call_frame list" where
  "occurrenceCallPath E v =
     (case v of
        None \<Rightarrow> Inr []
      | Some GNil \<Rightarrow> Inr []
      | Some (GFrames fs) \<Rightarrow> Inr fs
      | Some x \<Rightarrow>
          (case recodeCallPath E x of
             None \<Rightarrow> Inl (ErrMsg ''occurrence call path is invalid'')
           | Some fs \<Rightarrow> Inr fs))"

definition occurrencePositiveInt64 :: "env \<Rightarrow> gany option \<Rightarrow> int \<Rightarrow> int" where
  "occurrencePositiveInt64 E v fallback =
     (case v of
        Some (GInt n) \<Rightarrow> if n > 0 then n else fallback
      | Some (GInt64 n) \<Rightarrow> if n > 0 then n else fallback
      | Some (GFloat (Some r)) \<Rightarrow>
          if r > 0 \<and> r < 2 ^ 63 then (if r = of_int \<lfloor>r\<rfloor> then \<lfloor>r\<rfloor> else fallback)
          else if r > 0 then (case floatOverflow E r of Some n \<Rightarrow> n | None \<Rightarrow> fallback)
          else fallback
      | Some (GNumber s) \<Rightarrow>
          (case parseInt64 s of Some n \<Rightarrow> if n > 0 then n else fallback | None \<Rightarrow> fallback)
      | _ \<Rightarrow> fallback)"

text \<open>\<^verbatim>\<open>int\<close> has 64 bits, so the guard of \<^verbatim>\<open>occurrencePositiveInt\<close> never fires.\<close>

definition occurrencePositiveInt :: "env \<Rightarrow> gany option \<Rightarrow> int \<Rightarrow> int" where
  "occurrencePositiveInt E v fallback =
     (let converted = occurrencePositiveInt64 E v fallback in
      if converted > 2 ^ 63 - 1 then fallback else converted)"

definition terminalStatus :: "string \<Rightarrow> string" where
  "terminalStatus kind =
     (if kind = ''step/completed'' then ''completed''
      else if kind = ''step/failed'' then ''failed''
      else if kind = ''step/skipped'' then ''skipped''
      else if kind = ''step/indeterminate'' then ''indeterminate'' else '''')"

text \<open>\<open>None\<close> for an event that is not terminal.\<close>

definition OccurrenceFromTraceEvent ::
  "env \<Rightarrow> string \<Rightarrow> string \<Rightarrow> execution_source \<Rightarrow> trace_event \<Rightarrow>
   serror + (string \<times> occurrence_record) option" where
  "OccurrenceFromTraceEvent E sessionID segmentID source event =
     (let status = terminalStatus (te_Kind event); pl = te_Payload event;
          stepID = strField pl ''step_id''; phase0 = strField pl ''phase'';
          phase = (if phase0 = '''' then ''execute'' else phase0) in
      if status = '''' then Inr None
      else andThen (occurrenceCallPath E (mget pl ''call_path'')) (\<lambda>callPath.
        let node0 = strField pl ''qualified_node_id'';
            node = (if node0 = '''' \<and> stepID \<noteq> '''' then DebugNodeID callPath stepID else node0);
            invocation = occurrencePositiveInt E (mget pl ''invocation'') 1;
            retryAttempt = occurrencePositiveInt E (mget pl ''retry_attempt'') 1;
            occurrenceSequence = occurrencePositiveInt64 E (mget pl ''occurrence_sequence'') 1 in
        if sessionID = '''' \<or> segmentID = '''' \<or> te_RunID event = '''' \<or> stepID = '''' \<or> node = ''''
          \<or> te_Sequence event < 1 \<or> invocation < 1 \<or> retryAttempt < 1 \<or> occurrenceSequence < 1
          \<or> source \<noteq> ExecutionSourceLive \<and> source \<noteq> ExecutionSourceSaved
        then Inl (ErrMsg ''terminal trace event has invalid occurrence metadata'')
        else
          let record = \<lparr>oc_SessionID = sessionID, oc_SegmentID = segmentID, oc_RunID = te_RunID event,
                oc_QualifiedNodeID = node, oc_CallPath = callPath, oc_StepID = stepID, oc_Phase = phase,
                oc_Invocation = invocation, oc_RetryAttempt = retryAttempt,
                oc_OccurrenceSequence = occurrenceSequence, oc_ExecutionSource = source,
                oc_Status = status, oc_EventSequence = te_Sequence event\<rparr>
          in Inr (Some (OccurrenceID E record, record))))"

fun expectedOccurrences ::
  "env \<Rightarrow> manifest \<Rightarrow> attempt_record \<Rightarrow> trace_event list \<Rightarrow> occurrence_record gomap \<Rightarrow>
   serror + occurrence_record gomap" where
  "expectedOccurrences E m attempt [] acc = Inr acc"
| "expectedOccurrences E m attempt (event # events) acc =
     andThen (OccurrenceFromTraceEvent E (sr_SessionID (mf_Session m)) (at_SegmentID attempt)
                (executionSourceForAttempt attempt) event)
       (\<lambda>t. expectedOccurrences E m attempt events
              (case t of None \<Rightarrow> acc | Some (i, r) \<Rightarrow> mput i r acc))"

definition validateOccurrenceRecords ::
  "env \<Rightarrow> manifest \<Rightarrow> string \<Rightarrow> occurrence_record gomap \<Rightarrow> trace_event list \<Rightarrow> serror + unit" where
  "validateOccurrenceRecords E m runID records events =
     (case mget (mf_Attempts m) runID of
        None \<Rightarrow> Inl (ErrMsg ''occurrence attempt is unavailable'')
      | Some attempt \<Rightarrow>
          if at_SegmentID attempt = '''' then Inl (ErrMsg ''occurrence attempt is unavailable'')
          else andThen (expectedOccurrences E m attempt events []) (\<lambda>expected.
            if length expected \<noteq> length records
            then Inl (ErrMsg ''occurrence records do not match committed trace events'')
            else if list_all (\<lambda>(i, r). case mget records i of
                       None \<Rightarrow> False
                     | Some actual \<Rightarrow> DigestJSON E (DocOccurrence actual) = DigestJSON E (DocOccurrence r)) expected
            then Inr ()
            else Inl (ErrMsg ''occurrence record does not match its committed trace event'')))"

subsection \<open>Execution mutations\<close>

definition maxBlobBytes :: nat where
  "maxBlobBytes = 64 * 1024 * 1024"

definition maxJournalEventBytes :: nat where
  "maxJournalEventBytes = 4 * 1024 * 1024"

definition maxStdioFrameProjectionBytes :: int where
  "maxStdioFrameProjectionBytes = 4 * 1024 * 1024"

definition frameProjectionChunkBytes :: int where
  "frameProjectionChunkBytes = 8 * 1024 * 1024"

definition maxProjectionBlobs :: nat where
  "maxProjectionBlobs = 20000"

definition NewJSONBlob :: "env \<Rightarrow> string \<Rightarrow> json_blob" where
  "NewJSONBlob E data = \<lparr>bl_Digest = DigestBytes E data, bl_Data = data\<rparr>"

definition validateBlob :: "env \<Rightarrow> json_blob \<Rightarrow> bool" where
  "validateBlob E b =
     (validDigest (bl_Digest b) \<and> bl_Data b \<noteq> '''' \<and> length (bl_Data b) \<le> maxBlobBytes \<and>
      jsonValid E (bl_Data b) \<and> DigestBytes E (bl_Data b) = bl_Digest b)"

definition expectedStatus :: "string \<Rightarrow> attempt_status option" where
  "expectedStatus runStatus =
     (if runStatus = ''pending'' \<or> runStatus = ''running'' then Some AttemptStatusRunning
      else if runStatus = ''waiting'' then Some AttemptStatusWaiting
      else if runStatus = ''paused_at_boundary'' then Some AttemptStatusPausedAtBoundary
      else if runStatus = ''handoff_pending'' then Some AttemptStatusHandoffPending
      else if runStatus = ''completed'' then Some AttemptStatusCompleted
      else if runStatus = ''failed'' then Some AttemptStatusFailed
      else if runStatus = ''cancelled'' then Some AttemptStatusCancelled
      else if runStatus = ''indeterminate'' then Some AttemptStatusIndeterminate
      else None)"

definition validateExecutionMutation ::
  "env \<Rightarrow> execution_mutation \<Rightarrow> json_blob \<Rightarrow> serror + unit" where
  "validateExecutionMutation E mu projection =
     (if mu_SchemaVersion mu \<noteq> ''yawr.execution-mutation/v1'' \<or> mu_CheckpointSequence mu < 0
        \<or> mu_RunWriterEpoch mu = 0 \<or> \<not> validAttemptStatus (mu_AttemptStatus mu)
        \<or> \<not> validDigest (mu_StateProjectionHash mu) \<or> mu_StateProjectionHash mu \<noteq> bl_Digest projection
        \<or> bl_Data projection = '''' \<or> mu_CommittedTraceSequence mu < 0 \<or> mu_TraceSequenceStart mu < 0
        \<or> mu_TraceSequenceEnd mu < mu_TraceSequenceStart mu
        \<or> mu_TraceSequenceEnd mu > mu_CommittedTraceSequence mu
      then Inl (ErrMsg ''invalid execution mutation'')
      else if mu_FrameProjectionHash mu \<noteq> '''' \<and> \<not> validDigest (mu_FrameProjectionHash mu)
      then Inl (ErrMsg ''invalid execution frame projection hash'')
      else if expectedStatus (mu_RunStatus mu) \<noteq> Some (mu_AttemptStatus mu)
      then Inl (ErrMsg ''execution mutation statuses do not match'')
      else if decodeProjectionHeader E (bl_Data projection) \<noteq>
                Some (''yawr.session-run-projection/v1'', mu_RunID mu, mu_CheckpointSequence mu)
      then Inl ErrMutationConflict
      else if mu_PreviousMutationHash mu \<noteq> '''' \<and> \<not> validDigest (mu_PreviousMutationHash mu)
      then Inl (ErrMsg ''invalid previous execution mutation'')
      else if mu_TraceSequenceStart mu = 0 \<and> mu_TraceSequenceEnd mu \<noteq> 0
      then Inl (ErrMsg ''invalid execution mutation trace range'')
      else Inr ())"

subsection \<open>Frame projections\<close>

definition frameProjectionBlobLoader :: "env \<Rightarrow> json_blob list \<Rightarrow> string \<Rightarrow> string option" where
  "frameProjectionBlobLoader E blobs digest =
     (case find (\<lambda>b. bl_Digest b = digest) (rev blobs) of
        None \<Rightarrow> None
      | Some b \<Rightarrow> if validateBlob E b then Some (bl_Data b) else None)"

fun loadChunks ::
  "env \<Rightarrow> (string \<Rightarrow> string option) \<Rightarrow> int \<Rightarrow> string list \<Rightarrow> string \<Rightarrow> serror + string" where
  "loadChunks E load contentSize [] content = Inr content"
| "loadChunks E load contentSize (d # ds) content =
     (if \<not> validDigest d then Inl (ErrMsg ''invalid execution frame projection chunk digest'')
      else
        (case load d of
           None \<Rightarrow> Inl (ErrMsg ''execution frame projection chunk digest mismatch'')
         | Some chunkData \<Rightarrow>
             if DigestBytes E chunkData \<noteq> d
             then Inl (ErrMsg ''execution frame projection chunk digest mismatch'')
             else
               (case decodeChunk E chunkData of
                  None \<Rightarrow> Inl (ErrMsg ''invalid execution frame projection chunk'')
                | Some (schema, bytes) \<Rightarrow>
                    let expectedSize =
                      (if ds = [] then contentSize - int (length content) else frameProjectionChunkBytes) in
                    if schema \<noteq> ''yawr.session-execution-frame-projection-chunk/v1''
                      \<or> int (length bytes) \<noteq> expectedSize
                      \<or> int (length bytes) > contentSize - int (length content)
                    then Inl (ErrMsg ''invalid execution frame projection chunk'')
                    else loadChunks E load contentSize ds (content @ bytes))))"

definition interactionOk :: "env \<Rightarrow> string \<Rightarrow> interaction_state option \<Rightarrow> bool" where
  "interactionOk E turnID i =
     (case i of
        None \<Rightarrow> False
      | Some x \<Rightarrow>
          turnID \<noteq> '''' \<and> is_TurnID x = turnID \<and> is_SchemaVersion x = ''yawr.interaction-state/v1'' \<and>
          is_StepID x \<noteq> '''' \<and> is_Kind x \<noteq> '''' \<and> is_RequestDigest x = DigestBytes E (is_Request x) \<and>
          (is_Status x = ''pending'' \<or>
           is_Status x = ''answered'' \<and> is_AnswerDigest x = DigestBytes E (is_Answer x)))"

text \<open>
  The loop over the pending trace events, with the sequence of the previous event
  (\<open>None\<close> at index zero).
\<close>

fun pendingTraceOk :: "env \<Rightarrow> execution_mutation \<Rightarrow> int option \<Rightarrow> trace_event list \<Rightarrow> bool" where
  "pendingTraceOk E mu prev [] = True"
| "pendingTraceOk E mu prev (t # ts) =
     (te_RunID t = mu_RunID mu \<and> te_EventID t \<noteq> '''' \<and> te_Kind t \<noteq> '''' \<and> 1 \<le> te_Sequence t \<and>
      te_Sequence t \<le> mu_CommittedTraceSequence mu \<and> timeOk E (te_Timestamp t) \<and>
      (case prev of None \<Rightarrow> True | Some p \<Rightarrow> te_Sequence t = i64 (p + 1)) \<and>
      pendingTraceOk E mu (Some (te_Sequence t)) ts)"

definition frameHeaderOk :: "execution_mutation \<Rightarrow> frame_projection \<Rightarrow> bool" where
  "frameHeaderOk mu p =
     (fp_SchemaVersion p = ''yawr.session-execution-frame-projection/v1'' \<and> fp_RunID p = mu_RunID mu \<and>
      fp_CheckpointSequence p = mu_CheckpointSequence mu \<and>
      fp_CommittedTraceSequence p = mu_CommittedTraceSequence mu \<and> validDigest (fp_ContentDigest p) \<and>
      1 \<le> fp_ContentSize p \<and> fp_ContentSize p \<le> maxStdioFrameProjectionBytes \<and> fp_ChunkDigests p \<noteq> [])"

definition validateFrameContent ::
  "env \<Rightarrow> execution_mutation \<Rightarrow> frame_content \<Rightarrow> serror + frame_content" where
  "validateFrameContent E mu c =
     (let pending = fc_PendingTraceEvents c in
      if length (fc_Interactions c) > 128
      then Inl (ErrMsg ''invalid execution frame projection content'')
      else if \<not> list_all (\<lambda>(turnID, i). interactionOk E turnID i) (fc_Interactions c)
      then Inl (ErrMsg ''invalid execution frame interaction'')
      else if \<not> pendingTraceOk E mu None pending
      then Inl (ErrMsg ''invalid execution frame trace event'')
      else if pending = []
      then (if mu_TraceSequenceStart mu \<noteq> 0 \<or> mu_TraceSequenceEnd mu \<noteq> 0
            then Inl (ErrMsg ''execution frame projection omits committed trace events'') else Inr c)
      else if te_Sequence (hd pending) \<noteq> mu_TraceSequenceStart mu
        \<or> te_Sequence (last pending) \<noteq> mu_TraceSequenceEnd mu
        \<or> te_Sequence (last pending) \<noteq> mu_CommittedTraceSequence mu
      then Inl (ErrMsg ''execution frame projection trace range does not match mutation'')
      else Inr c)"

definition emptyContent :: frame_content where
  "emptyContent = \<lparr>fc_Interactions = [], fc_PendingTraceEvents = []\<rparr>"

text \<open>Returns the projected content, which the source stores through its last argument.\<close>

definition validateExecutionFrameProjection ::
  "env \<Rightarrow> execution_mutation \<Rightarrow> json_blob \<Rightarrow> (string \<Rightarrow> string option) \<Rightarrow> serror + frame_content" where
  "validateExecutionFrameProjection E mu blob load =
     (if mu_FrameProjectionHash mu = ''''
      then (if bl_Digest blob \<noteq> '''' \<or> bl_Data blob \<noteq> ''''
            then Inl (ErrMsg ''projection-free execution mutation has an unexpected frame projection'')
            else Inr emptyContent)
      else if mu_FrameProjectionHash mu \<noteq> bl_Digest blob \<or> \<not> validateBlob E blob
      then Inl (ErrMsg ''invalid execution frame projection blob'')
      else
        (case decodeFrameProjection E (bl_Data blob) of
           None \<Rightarrow> Inl ErrMutationConflict
         | Some p \<Rightarrow>
             if \<not> frameHeaderOk mu p then Inl ErrMutationConflict
             else if int (length (fp_ChunkDigests p)) \<noteq>
               (fp_ContentSize p + frameProjectionChunkBytes - 1) div frameProjectionChunkBytes
             then Inl (ErrMsg ''execution frame projection chunk count mismatch'')
             else andThen (loadChunks E load (fp_ContentSize p) (fp_ChunkDigests p) '''') (\<lambda>content.
               if int (length content) \<noteq> fp_ContentSize p \<or> DigestBytes E content \<noteq> fp_ContentDigest p
               then Inl (ErrMsg ''execution frame projection content digest mismatch'')
               else
                 (case decodeContent E content of
                    None \<Rightarrow> Inl (ErrMsg ''invalid execution frame projection content'')
                  | Some c \<Rightarrow> validateFrameContent E mu c))))"

subsection \<open>Handoff contexts\<close>

function invalidSensitiveValue :: "env \<Rightarrow> gany \<Rightarrow> nat \<Rightarrow> bool" where
  "invalidSensitiveValue E v depth =
     (if depth > 64 then True
      else
        (case v of
           GMap kvs \<Rightarrow>
             list_ex (\<lambda>kv. sensitiveName (unicode E) (fst kv) \<or> invalidSensitiveValue E (snd kv) (depth + 1)) kvs
         | GList vs \<Rightarrow> list_ex (\<lambda>x. invalidSensitiveValue E x (depth + 1)) vs
         | _ \<Rightarrow> False))"
  by pat_completeness auto

termination invalidSensitiveValue
  by (relation "measure (\<lambda>(E, v, depth). 65 - depth)") auto

declare invalidSensitiveValue.simps [simp del]

definition validateTransitionContext :: "env \<Rightarrow> transition_record \<Rightarrow> string \<Rightarrow> serror + unit" where
  "validateTransitionContext E t data =
     (if data = '''' \<or> length data > 1024 * 1024 then Inl (ErrMsg ''handoff context exceeds limits'')
      else
        (case decodeContext E data of
           None \<Rightarrow> Inl (ErrMsg ''invalid handoff context'')
         | Some h \<Rightarrow>
             if length (hc_Inputs h) \<noteq> length (tr_ContextBindings t)
               \<or> length (hc_Facts h) \<noteq> length (tr_FactRefs t)
               \<or> invalidSensitiveValue E (GMap (hc_Inputs h)) 0 \<or> invalidSensitiveValue E (GMap (hc_Facts h)) 0
             then Inl (ErrMsg ''handoff context does not match its allowlist'')
             else if list_ex (\<lambda>(name, _). mget (hc_Inputs h) name = None) (tr_ContextBindings t)
             then Inl (ErrMsg ''handoff input is missing'')
             else if list_ex (\<lambda>f. mget (hc_Facts h) (fr_Name f) = None) (tr_FactRefs t)
             then Inl (ErrMsg ''handoff fact is missing'')
             else Inr ()))"

definition validateTransitionPreparation :: "env \<Rightarrow> prepared_payload \<Rightarrow> json_blob list \<Rightarrow> serror + unit" where
  "validateTransitionPreparation E p blobs =
     andThen (validatePreparedTransitionPayload E p '''') (\<lambda>_.
       if blobs = [] \<or> length blobs > maxProjectionBlobs then Inl (ErrMsg ''transition blobs are required'')
       else Inr ())"

text \<open>
  The newest preparation of a transition; a prepared event whose payload does not decode
  stops the search with an error.
\<close>

fun findPreparedFrom :: "string \<Rightarrow> event list \<Rightarrow> serror + prepared_payload option" where
  "findPreparedFrom transitionID [] = Inr None"
| "findPreparedFrom transitionID (ev # evs) =
     (if ev_Kind ev \<noteq> EventTransitionPrepared then findPreparedFrom transitionID evs
      else
        (case ev_Payload ev of
           PayPrepared p \<Rightarrow>
             if tr_TransitionID (pp_Transition p) = transitionID then Inr (Some p)
             else findPreparedFrom transitionID evs
         | _ \<Rightarrow> Inl (ErrMsg ''invalid event payload'')))"

definition findPreparedTransition :: "event list \<Rightarrow> string \<Rightarrow> serror + prepared_payload option" where
  "findPreparedTransition events transitionID = findPreparedFrom transitionID (rev events)"

definition isTerminalCheckpointTrace :: "attempt_record \<Rightarrow> trace_event \<Rightarrow> bool" where
  "isTerminalCheckpointTrace a event =
     (te_Kind event = ''checkpoint'' \<and> te_Sequence event = i64 (at_CommittedTraceSequence a + 1) \<and>
      at_JournaledTraceSequence a < te_Sequence event \<and>
      mget (te_Payload event) ''snapshot_file'' = 
        Some (GStr (''checkpoint-'' @ zeroPadded 20 (at_CheckpointSequence a) @ ''.json'')))"

end
