(* ===== verification/Session_Store.thy ===== *)
theory Session_Store
  imports Session_Ops
begin

section \<open>The directory store of sessions\<close>

text \<open>
  \<^verbatim>\<open>DirStore\<close> of \<^verbatim>\<open>dir_store.go\<close> and its writer leases in \<^verbatim>\<open>lease.go\<close>. A session
  directory holds an append-only journal, one immutable head file per committed event, immutable
  content-addressed blobs and a manifest projection; beside it stand a lock file and one
  immutable file per writer epoch. A process keeps the epochs of the leases it holds and a cache
  of each journal. Every operation runs under the commit mutex of its process, so it is one function
  from store to store; what the operating system does during the call (time, fresh identifiers,
  failing writes, a torn append) is an argument.
\<close>

subsection \<open>State\<close>

record journal_head =
  jh_SchemaVersion :: string
  jh_SessionID :: string
  jh_Sequence :: int
  jh_EventDigest :: string
  jh_WriterEpoch :: nat

text \<open>A head file is empty when its creation was torn, and may hold anything else.\<close>

datatype head_file = HeadFile journal_head | HeadEmpty | HeadJunk

record creation_reservation =
  cv_SchemaVersion :: string
  cv_CommandID :: string
  cv_SessionID :: string
  cv_CreationDigest :: string

datatype journal_line = LineEvent event | LineBad string

text \<open>
  One directory: the complete lines of the journal (\<open>None\<close> when there is no file), the bytes
  after the last newline, the head files by the number in their name, the writer epoch files
  (\<open>None\<close> for one whose name is not canonical), the blobs, the last manifest projection and whether
  some process holds the lock.
\<close>

record session_dir =
  sd_Journal :: "journal_line list option"
  sd_Tail :: string
  sd_Heads :: "(int \<times> head_file) list"
  sd_Epochs :: "nat option list"
  sd_Blobs :: "string gomap"
  sd_Manifest :: "manifest option"
  sd_Locked :: bool

record journal_cache =
  jc_WriterEpoch :: nat
  jc_Events :: "event list"
  jc_Rebuild :: rebuild_state
  jc_CommittedLines :: nat

record dir_store =
  st_Dirs :: "session_dir gomap"
  st_Reservations :: "creation_reservation gomap"
  st_LeaseEpochs :: "nat gomap"
  st_JournalCaches :: "journal_cache gomap"

text \<open>
  The environment of one call. \<open>AppendTorn t\<close>: the write fails after the bytes \<open>t\<close>, which
  contain no newline. \<open>AppendNotSynced\<close>: the line is written, but syncing or closing reports an
  error. \<open>HeadNotWritten\<close>: the line is durable, but its head file is not published.
\<close>

datatype append_outcome = AppendDone | AppendTorn string | AppendNotSynced | HeadNotWritten

record call =
  cl_Cancelled :: bool
  cl_Now :: string
  cl_EventID :: string
  cl_Append :: append_outcome
  cl_BlobWritten :: "string \<Rightarrow> bool"
  cl_ReservationWritten :: bool
  cl_ManifestWritten :: bool
  cl_EpochWritten :: bool

definition emptyDir :: session_dir where
  "emptyDir = \<lparr>sd_Journal = None, sd_Tail = '''', sd_Heads = [], sd_Epochs = [], sd_Blobs = [],
     sd_Manifest = None, sd_Locked = False\<rparr>"

definition dirOf :: "dir_store \<Rightarrow> string \<Rightarrow> session_dir" where
  "dirOf s sid = mget0 emptyDir (st_Dirs s) sid"

definition setDir :: "string \<Rightarrow> session_dir \<Rightarrow> dir_store \<Rightarrow> dir_store" where
  "setDir sid d s = s\<lparr>st_Dirs := mput sid d (st_Dirs s)\<rparr>"

definition NewDirStore :: dir_store where
  "NewDirStore = \<lparr>st_Dirs = [], st_Reservations = [], st_LeaseEpochs = [], st_JournalCaches = []\<rparr>"

subsection \<open>Blobs\<close>

definition ReadBlob :: "env \<Rightarrow> call \<Rightarrow> session_dir \<Rightarrow> string \<Rightarrow> string \<Rightarrow> serror + string" where
  "ReadBlob E c d sid digest =
     (if cl_Cancelled c then Inl ErrContext
      else if \<not> validateUUID E sid then Inl (ErrMsg ''session id must be a canonical UUID'')
      else if \<not> validDigest digest then Inl (ErrMsg ''invalid blob digest'')
      else
        (case mget (sd_Blobs d) digest of
           None \<Rightarrow> Inl ErrNotExist
         | Some data \<Rightarrow>
             if length data > maxBlobBytes then Inl (ErrMsg ''file exceeds limit'')
             else if \<not> jsonValid E data \<or> DigestBytes E data \<noteq> digest
             then Inl (ErrMsg ''blob digest mismatch'')
             else Inr data))"

text \<open>
  \<^verbatim>\<open>publishImmutableFile\<close>: present with the same bytes is success, an empty file is repaired,
  other bytes are a conflict.
\<close>

definition publishImmutableFile :: "bool \<Rightarrow> nat \<Rightarrow> string \<Rightarrow> string \<Rightarrow> string gomap \<Rightarrow> serror + string gomap" where
  "publishImmutableFile written maximum path data files =
     (case mget files path of
        Some existing \<Rightarrow>
          if length existing > maximum then Inl (ErrMsg ''file exceeds limit'')
          else if existing = data then Inr files
          else if existing \<noteq> '''' then Inl (ErrMsg ''immutable file conflicts with existing content'')
          else if written then Inr (mput path data files) else Inl (ErrMsg ''write failed'')
      | None \<Rightarrow> if written then Inr (mput path data files) else Inl (ErrMsg ''write failed''))"

definition writeBlob :: "env \<Rightarrow> call \<Rightarrow> string \<Rightarrow> json_blob \<Rightarrow> dir_store \<Rightarrow> dir_store \<times> (serror + unit)" where
  "writeBlob E c sid b s =
     (if \<not> validateBlob E b then (s, Inl (ErrMsg ''invalid immutable blob''))
      else
        (case publishImmutableFile (cl_BlobWritten c (bl_Digest b)) maxBlobBytes (bl_Digest b) (bl_Data b)
                (sd_Blobs (dirOf s sid)) of
           Inl e \<Rightarrow> (s, Inl e)
         | Inr files \<Rightarrow> (setDir sid ((dirOf s sid)\<lparr>sd_Blobs := files\<rparr>) s, Inr ())))"

primrec writeBlobs :: "env \<Rightarrow> call \<Rightarrow> string \<Rightarrow> json_blob list \<Rightarrow> dir_store \<Rightarrow> dir_store \<times> (serror + unit)" where
  "writeBlobs E c sid [] s = (s, Inr ())"
| "writeBlobs E c sid (b # bs) s =
     (case writeBlob E c sid b s of
        (s', Inl e) \<Rightarrow> (s', Inl e)
      | (s', Inr _) \<Rightarrow> writeBlobs E c sid bs s')"

fun preflightBlobWrites :: "session_dir \<Rightarrow> string list \<Rightarrow> json_blob list \<Rightarrow> serror + string list" where
  "preflightBlobWrites d seen [] = Inr []"
| "preflightBlobWrites d seen (b # bs) =
     (if bl_Digest b \<in> set seen then preflightBlobWrites d seen bs
      else
        (case mget (sd_Blobs d) (bl_Digest b) of
           Some existing \<Rightarrow>
             if length existing > maxBlobBytes then Inl (ErrMsg ''file exceeds limit'')
             else if existing \<noteq> '''' \<and> existing \<noteq> bl_Data b
             then Inl (ErrMsg ''immutable blob conflicts with existing content'')
             else preflightBlobWrites d (bl_Digest b # seen) bs
         | None \<Rightarrow>
             andThen (preflightBlobWrites d (bl_Digest b # seen) bs) (\<lambda>ps. Inr (bl_Digest b # ps))))"

definition removeNewBlobs :: "string \<Rightarrow> string list \<Rightarrow> dir_store \<Rightarrow> dir_store" where
  "removeNewBlobs sid paths s =
     setDir sid ((dirOf s sid)\<lparr>sd_Blobs := fold mdel paths (sd_Blobs (dirOf s sid))\<rparr>) s"

subsection \<open>Writer epochs and leases\<close>

fun highestSessionWriterEpoch :: "nat option list \<Rightarrow> serror + nat" where
  "highestSessionWriterEpoch [] = Inr 0"
| "highestSessionWriterEpoch (None # es) = Inl (ErrMsg ''invalid writer epoch generation'')"
| "highestSessionWriterEpoch (Some e # es) =
     andThen (highestSessionWriterEpoch es) (\<lambda>h. Inr (max e h))"

definition activeWriterEpoch :: "dir_store \<Rightarrow> string \<Rightarrow> nat" where
  "activeWriterEpoch s sid = mget0 0 (st_LeaseEpochs s) sid"

definition validateWriterEpoch :: "dir_store \<Rightarrow> string \<Rightarrow> nat \<Rightarrow> serror + unit" where
  "validateWriterEpoch s sid expected =
     (case highestSessionWriterEpoch (sd_Epochs (dirOf s sid)) of
        Inl _ \<Rightarrow> Inl ErrSessionLeaseStale
      | Inr current \<Rightarrow>
          if expected = 0 \<or> current \<noteq> expected then Inl ErrSessionLeaseStale
          else if activeWriterEpoch s sid \<noteq> expected then Inl ErrSessionLeaseStale
          else Inr ())"

text \<open>The new epoch is larger than every epoch on disk, so its file does not exist yet.\<close>

definition nextSessionWriterEpoch :: "call \<Rightarrow> string \<Rightarrow> nat \<Rightarrow> dir_store \<Rightarrow> dir_store \<times> (serror + nat)" where
  "nextSessionWriterEpoch c sid minimum s =
     (case highestSessionWriterEpoch (sd_Epochs (dirOf s sid)) of
        Inl e \<Rightarrow> (s, Inl e)
      | Inr highest \<Rightarrow>
          let current = (if minimum > highest then minimum else highest) in
          if current = maxUint64 then (s, Inl (ErrMsg ''writer epoch exhausted''))
          else if \<not> cl_EpochWritten c then (s, Inl (ErrMsg ''write failed''))
          else (setDir sid ((dirOf s sid)\<lparr>sd_Epochs := Some (current + 1) # sd_Epochs (dirOf s sid)\<rparr>) s,
                Inr (current + 1)))"

definition invalidateJournalCache :: "string \<Rightarrow> dir_store \<Rightarrow> dir_store" where
  "invalidateJournalCache sid s = s\<lparr>st_JournalCaches := mdel sid (st_JournalCaches s)\<rparr>"

subsection \<open>Journal heads\<close>

primrec newestHead :: "(int \<times> head_file) list \<Rightarrow> (int \<times> head_file) option" where
  "newestHead [] = None"
| "newestHead (h # hs) =
     (case newestHead hs of
        None \<Rightarrow> Some h
      | Some g \<Rightarrow> if fst g > fst h then Some g else Some h)"

definition loadJournalHead :: "session_dir \<Rightarrow> string \<Rightarrow> serror + journal_head" where
  "loadJournalHead d sid =
     (case newestHead (sd_Heads d) of
        None \<Rightarrow> Inl ErrNotExist
      | Some (n, HeadFile h) \<Rightarrow>
          if jh_SchemaVersion h \<noteq> ''yawr.investigation-session-head/v1'' \<or> jh_SessionID h \<noteq> sid
            \<or> jh_Sequence h < 1 \<or> \<not> validDigest (jh_EventDigest h) \<or> jh_WriterEpoch h = 0
            \<or> n \<noteq> jh_Sequence h
          then Inl (ErrMsg ''invalid latest journal head'')
          else Inr h
      | Some _ \<Rightarrow> Inl (ErrMsg ''invalid latest journal head''))"

definition writeJournalHead :: "journal_head \<Rightarrow> session_dir \<Rightarrow> serror + session_dir" where
  "writeJournalHead h d =
     (case map_of (sd_Heads d) (jh_Sequence h) of
        None \<Rightarrow> Inr (d\<lparr>sd_Heads := (jh_Sequence h, HeadFile h) # sd_Heads d\<rparr>)
      | Some (HeadFile g) \<Rightarrow> if g = h then Inr d else Inl (ErrMsg ''committed journal head conflicts'')
      | Some HeadEmpty \<Rightarrow> Inr (d\<lparr>sd_Heads := (jh_Sequence h, HeadFile h) # sd_Heads d\<rparr>)
      | Some HeadJunk \<Rightarrow> Inl (ErrMsg ''committed journal head conflicts''))"

record session_lease =
  ls_SessionID :: string
  ls_Epoch :: nat
  ls_Released :: bool

definition AcquireSessionLease ::
  "env \<Rightarrow> call \<Rightarrow> string \<Rightarrow> dir_store \<Rightarrow> dir_store \<times> (serror + session_lease)" where
  "AcquireSessionLease E c sid s =
     (if cl_Cancelled c then (s, Inl ErrContext)
      else if \<not> validateUUID E sid then (s, Inl (ErrMsg ''session id must be a canonical UUID''))
      else if sd_Locked (dirOf s sid) then (s, Inl ErrSessionLeaseHeld)
      else
        let s1 = invalidateJournalCache sid s;
            acquire = (\<lambda>headEpoch.
              (case nextSessionWriterEpoch c sid headEpoch s1 of
                 (s2, Inl e) \<Rightarrow> (s2, Inl e)
               | (s2, Inr epoch) \<Rightarrow>
                   ((setDir sid ((dirOf s2 sid)\<lparr>sd_Locked := True\<rparr>) s2)
                      \<lparr>st_LeaseEpochs := mput sid epoch (st_LeaseEpochs s2)\<rparr>,
                    Inr \<lparr>ls_SessionID = sid, ls_Epoch = epoch, ls_Released = False\<rparr>)))
        in (case loadJournalHead (dirOf s1 sid) sid of
              Inr h \<Rightarrow> acquire (jh_WriterEpoch h)
            | Inl ErrNotExist \<Rightarrow> acquire 0
            | Inl e \<Rightarrow> (s1, Inl e)))"

definition Advance :: "call \<Rightarrow> session_lease \<Rightarrow> dir_store \<Rightarrow> dir_store \<times> session_lease \<times> (serror + nat)" where
  "Advance c l s =
     (let sid = ls_SessionID l in
      if activeWriterEpoch s sid \<noteq> ls_Epoch l then (s, l, Inl ErrSessionLeaseStale)
      else
        (case nextSessionWriterEpoch c sid (ls_Epoch l) s of
           (s1, Inl e) \<Rightarrow> (s1, l, Inl e)
         | (s1, Inr next) \<Rightarrow>
             (invalidateJournalCache sid (s1\<lparr>st_LeaseEpochs := mput sid next (st_LeaseEpochs s1)\<rparr>),
              l\<lparr>ls_Epoch := next\<rparr>, Inr next)))"

definition Release :: "session_lease \<Rightarrow> dir_store \<Rightarrow> dir_store \<times> session_lease" where
  "Release l s =
     (let sid = ls_SessionID l in
      if ls_Released l then (s, l)
      else
        let s1 = setDir sid ((dirOf s sid)\<lparr>sd_Locked := False\<rparr>) s;
            s2 = (if activeWriterEpoch s1 sid = ls_Epoch l
                  then s1\<lparr>st_LeaseEpochs := mdel sid (st_LeaseEpochs s1)\<rparr> else s1)
        in (invalidateJournalCache sid s2, l\<lparr>ls_Released := True\<rparr>))"

subsection \<open>Scanning the journal\<close>

fun scanLines :: "env \<Rightarrow> string \<Rightarrow> nat \<Rightarrow> journal_line list \<Rightarrow> serror + event list" where
  "scanLines E sid n [] = Inr []"
| "scanLines E sid n (LineBad t # ls) =
     (if trimSpace t = '''' \<or> length (trimSpace t) > maxJournalEventBytes
      then Inl (ErrMsg ''invalid journal event size'') else Inl (ErrMsg ''decode journal event''))"
| "scanLines E sid n (LineEvent ev # ls) =
     (if length (marshal E (DocEvent ev)) > maxJournalEventBytes
      then Inl (ErrMsg ''invalid journal event size'')
      else if ev_SessionID ev \<noteq> sid
      then Inl (ErrMsg ''journal event belongs to a different session directory'')
      else if n + 1 > 1000000 then Inl (ErrMsg ''journal event limit exceeded'')
      else andThen (scanLines E sid (n + 1) ls) (\<lambda>evs. Inr (ev # evs)))"

definition validateCreationReservation :: "dir_store \<Rightarrow> event \<Rightarrow> serror + unit" where
  "validateCreationReservation s ev =
     (case mget (st_Reservations s) (ev_CommandID ev) of
        None \<Rightarrow> Inl ErrNotExist
      | Some r \<Rightarrow>
          if cv_SchemaVersion r \<noteq> ''yawr.investigation-session-creation/v1''
            \<or> cv_CommandID r \<noteq> ev_CommandID ev \<or> cv_SessionID r \<noteq> ev_SessionID ev
            \<or> cv_CreationDigest r \<noteq> ev_CommandDigest ev
          then Inl (ErrMsg ''journal conflicts with creation reservation'')
          else Inr ())"

definition blobsReadable :: "env \<Rightarrow> call \<Rightarrow> session_dir \<Rightarrow> string \<Rightarrow> string list \<Rightarrow> serror + unit" where
  "blobsReadable E c d sid digests =
     foldr (\<lambda>x r. andThen (ReadBlob E c d sid x) (\<lambda>_. r)) digests (Inr ())"

definition executionBlobOk ::
  "env \<Rightarrow> call \<Rightarrow> session_dir \<Rightarrow> string \<Rightarrow> manifest \<Rightarrow> event \<Rightarrow> execution_payload \<Rightarrow> serror + unit" where
  "executionBlobOk E c d sid m ev p =
     andThen (ReadBlob E c d sid (ep_MutationHash p)) (\<lambda>mutationData.
     (case decodeMutation E mutationData of
        None \<Rightarrow> Inl (ErrMsg ''decode execution mutation blob'')
      | Some mu \<Rightarrow>
          andThen (ReadBlob E c d sid (ep_ProjectionHash p)) (\<lambda>projectionData.
          if \<not> is_ok (validateExecutionMutation E mu (NewJSONBlob E projectionData))
            \<or> mu_RunID mu \<noteq> ep_RunID p \<or> mu_AttemptStatus mu \<noteq> ep_Status p
            \<or> mu_PreviousMutationHash mu \<noteq> ep_PreviousMutationHash p
            \<or> mu_StateProjectionHash mu \<noteq> ep_ProjectionHash p
            \<or> mu_FrameProjectionHash mu \<noteq> ep_FrameProjectionHash p
            \<or> mu_CheckpointSequence mu \<noteq> ep_CheckpointSequence p
            \<or> mu_CommittedTraceSequence mu \<noteq> ep_CommittedTraceSequence p
            \<or> mu_RunWriterEpoch mu \<noteq> ev_WriterEpoch ev
          then Inl (ErrMsg ''execution event does not match immutable mutation'')
          else if ep_FrameProjectionHash p \<noteq> ''''
          then andThen (ReadBlob E c d sid (ep_FrameProjectionHash p)) (\<lambda>frameData.
               andThen (validateExecutionFrameProjection E mu (NewJSONBlob E frameData)
                          (\<lambda>x. case ReadBlob E c d sid x of Inl _ \<Rightarrow> None | Inr data \<Rightarrow> Some data)) (\<lambda>projected.
               if ep_Occurrences p = [] then Inr ()
               else validateOccurrenceRecords E m (ep_RunID p) (ep_Occurrences p) (fc_PendingTraceEvents projected)))
          else if ep_Occurrences p \<noteq> []
          then Inl (ErrMsg ''projection-free execution event has occurrence records'')
          else Inr ())))"

definition traceBlobOk ::
  "env \<Rightarrow> call \<Rightarrow> session_dir \<Rightarrow> string \<Rightarrow> manifest \<Rightarrow> trace_payload \<Rightarrow> serror + unit" where
  "traceBlobOk E c d sid m p =
     andThen (ReadBlob E c d sid (tp_TraceHash p)) (\<lambda>traceData.
     (case decodeTrace E traceData of
        None \<Rightarrow> Inl (ErrMsg ''trace event does not match immutable trace blob'')
      | Some t \<Rightarrow>
          if te_RunID t \<noteq> tp_RunID p \<or> te_Sequence t \<noteq> tp_TraceSequence p
            \<or> \<not> validateUUID E (te_EventID t) \<or> te_Kind t = '''' \<or> \<not> timeOk E (te_Timestamp t)
          then Inl (ErrMsg ''trace event does not match immutable trace blob'')
          else
            (case tp_Occurrence p of
               None \<Rightarrow> Inr ()
             | Some occurrence \<Rightarrow>
                 (case mget (mf_Attempts m) (tp_RunID p) of
                    None \<Rightarrow> Inl (ErrMsg ''direct trace occurrence attempt is unavailable'')
                  | Some attempt \<Rightarrow>
                      (case OccurrenceFromTraceEvent E sid (at_SegmentID attempt)
                              (executionSourceForAttempt attempt) t of
                         Inr (Some (i, expected)) \<Rightarrow>
                           if i \<noteq> OccurrenceID E occurrence
                             \<or> DigestJSON E (DocOccurrence expected) \<noteq> DigestJSON E (DocOccurrence occurrence)
                           then Inl (ErrMsg ''direct trace occurrence does not match immutable trace blob'')
                           else Inr ()
                       | _ \<Rightarrow> Inl (ErrMsg ''direct trace occurrence does not match immutable trace blob''))))))"

definition revisionBlobOk ::
  "env \<Rightarrow> call \<Rightarrow> session_dir \<Rightarrow> string \<Rightarrow> revised_payload \<Rightarrow> serror + unit" where
  "revisionBlobOk E c d sid p =
     andThen (ReadBlob E c d sid (rp_ExecutableSnapshotHash p)) (\<lambda>snapshot.
       if \<not> scopedArtifactOk E (rp_Resolution p) snapshot then Inl (ErrMsg ''invalid scoped segment snapshot'')
       else andThen (ReadBlob E c d sid (rp_GraphHash p)) (\<lambda>graph.
         if rp_GraphHash p = rp_ExecutableSnapshotHash p \<and> \<not> scopedArtifactOk E (rp_Resolution p) graph
         then Inl (ErrMsg ''invalid scoped segment snapshot'') else Inr ()))"

definition preparedBlobOk ::
  "env \<Rightarrow> call \<Rightarrow> session_dir \<Rightarrow> string \<Rightarrow> prepared_payload \<Rightarrow> serror + unit" where
  "preparedBlobOk E c d sid p =
     (let t = pp_Transition p in
      andThen (blobsReadable E c d sid
        [tr_TargetGraphHash t, tr_TargetExecutableSnapshotHash t, tr_ContextDigest t]) (\<lambda>_.
      andThen (ReadBlob E c d sid (tr_ContextDigest t)) (\<lambda>contextData.
        validateTransitionContext E t contextData)))"

definition eventBlobsOk ::
  "env \<Rightarrow> call \<Rightarrow> session_dir \<Rightarrow> string \<Rightarrow> manifest \<Rightarrow> event \<Rightarrow> serror + unit" where
  "eventBlobsOk E c d sid m ev =
     (case ev_Kind ev of
        EventSessionCreated \<Rightarrow>
          (case ev_Payload ev of
             PayCreated p \<Rightarrow> blobsReadable E c d sid
               [sg_ExecutableSnapshotHash (cp_Segment p), sg_GraphHash (cp_Segment p)]
           | _ \<Rightarrow> Inl (ErrMsg ''invalid event payload''))
      | EventExecutionCommitted \<Rightarrow>
          (case ev_Payload ev of PayExecution p \<Rightarrow> executionBlobOk E c d sid m ev p
           | _ \<Rightarrow> Inl (ErrMsg ''invalid event payload''))
      | EventTraceCommitted \<Rightarrow>
          (case ev_Payload ev of PayTrace p \<Rightarrow> traceBlobOk E c d sid m p
           | _ \<Rightarrow> Inl (ErrMsg ''invalid event payload''))
      | EventSegmentRevised \<Rightarrow>
          (case ev_Payload ev of PayRevised p \<Rightarrow> revisionBlobOk E c d sid p
           | _ \<Rightarrow> Inl (ErrMsg ''invalid event payload''))
      | EventTransitionPrepared \<Rightarrow>
          (case ev_Payload ev of PayPrepared p \<Rightarrow> preparedBlobOk E c d sid p
           | _ \<Rightarrow> Inl (ErrMsg ''invalid event payload''))
      | _ \<Rightarrow> Inr ())"

definition validateReferencedEventBlobs ::
  "env \<Rightarrow> call \<Rightarrow> session_dir \<Rightarrow> string \<Rightarrow> event list \<Rightarrow> manifest \<Rightarrow> serror + unit" where
  "validateReferencedEventBlobs E c d sid events m =
     foldr (\<lambda>ev r. andThen (eventBlobsOk E c d sid m ev) (\<lambda>_. r)) events (Inr ())"

text \<open>
  The result of a scan and, with or without an error, the number of journal lines it has read.
  A missing reservation or blob is reported as an error that wraps \<^verbatim>\<open>os.ErrNotExist\<close>.
\<close>

definition scanJournal ::
  "env \<Rightarrow> call \<Rightarrow> string \<Rightarrow> dir_store \<Rightarrow> (serror + event list) \<times> nat" where
  "scanJournal E c sid s =
     (let d = dirOf s sid in
      if \<not> validateUUID E sid then (Inl (ErrMsg ''session id must be a canonical UUID''), 0)
      else
        (case loadJournalHead d sid of
           Inl e \<Rightarrow> (Inl e, 0)
         | Inr head \<Rightarrow>
             (case sd_Journal d of
                None \<Rightarrow> (Inl (ErrMsg ''committed journal head has no journal''), 0)
              | Some ls \<Rightarrow>
                  if cl_Cancelled c then (Inl ErrContext, 0)
                  else
                    (andThen (scanLines E sid 0 ls) (\<lambda>events.
                       if length (sd_Tail d) > maxJournalEventBytes
                       then Inl (ErrMsg ''incomplete journal tail is too large'')
                       else if jh_Sequence head > int (length events)
                       then Inl (ErrMsg ''journal is shorter than its committed head'')
                       else
                         let anchored = events ! nat (jh_Sequence head - 1) in
                         if ev_Digest anchored \<noteq> jh_EventDigest head
                           \<or> ev_WriterEpoch anchored \<noteq> jh_WriterEpoch head
                         then Inl (ErrMsg ''journal does not match its committed head'')
                         else andThen (rebuildManifest E events) (\<lambda>rebuilt.
                           andThen (validateCreationReservation s (hd events)) (\<lambda>_.
                           andThen (validateReferencedEventBlobs E c d sid events rebuilt) (\<lambda>_.
                             Inr events)))), length ls))))"

subsection \<open>The journal cache of a writer\<close>

definition writerJournalCache :: "dir_store \<Rightarrow> string \<Rightarrow> journal_cache option" where
  "writerJournalCache s sid =
     (let epoch = activeWriterEpoch s sid in
      if epoch = 0 then None
      else
        (case mget (st_JournalCaches s) sid of
           None \<Rightarrow> None
         | Some cache \<Rightarrow> if jc_WriterEpoch cache \<noteq> epoch then None else Some cache))"

definition primeJournalCache :: "env \<Rightarrow> string \<Rightarrow> event list \<Rightarrow> nat \<Rightarrow> dir_store \<Rightarrow> dir_store" where
  "primeJournalCache E sid events committed s =
     (let epoch = activeWriterEpoch s sid in
      if epoch = 0 \<or> events = [] then s
      else
        (case rebuildManifestFromState E newManifestRebuildState events of
           Inl _ \<Rightarrow> s
         | Inr state \<Rightarrow> s\<lparr>st_JournalCaches := mput sid
             \<lparr>jc_WriterEpoch = epoch, jc_Events = events, jc_Rebuild = state,
              jc_CommittedLines = committed\<rparr> (st_JournalCaches s)\<rparr>))"

definition loadEvents :: "env \<Rightarrow> call \<Rightarrow> string \<Rightarrow> dir_store \<Rightarrow> dir_store \<times> (serror + event list)" where
  "loadEvents E c sid s =
     (case writerJournalCache s sid of
        Some cache \<Rightarrow> (s, Inr (jc_Events cache))
      | None \<Rightarrow>
          (case scanJournal E c sid s of
             (Inl e, _) \<Rightarrow> (s, Inl e)
           | (Inr events, committed) \<Rightarrow>
               if events = [] then (s, Inl ErrNotExist)
               else (primeJournalCache E sid events committed s, Inr events)))"

definition manifestForEvents :: "env \<Rightarrow> dir_store \<Rightarrow> string \<Rightarrow> event list \<Rightarrow> serror + manifest" where
  "manifestForEvents E s sid events =
     (case writerJournalCache s sid of
        Some cache \<Rightarrow>
          if length (jc_Events cache) = length events \<and> events \<noteq> [] \<and>
             ev_Digest (last (jc_Events cache)) = ev_Digest (last events)
          then Inr (rs_Manifest (jc_Rebuild cache)) else rebuildManifest E events
      | None \<Rightarrow> rebuildManifest E events)"

definition advanceJournalCache :: "env \<Rightarrow> event \<Rightarrow> dir_store \<Rightarrow> dir_store \<times> (serror + unit)" where
  "advanceJournalCache E ev s =
     (let sid = ev_SessionID ev; epoch = activeWriterEpoch s sid;
          start = (case mget (st_JournalCaches s) sid of
                     Some cache \<Rightarrow> Some cache
                   | None \<Rightarrow> if ev_Sequence ev \<noteq> 1 then None
                       else Some \<lparr>jc_WriterEpoch = epoch, jc_Events = [], jc_Rebuild = newManifestRebuildState,
                                  jc_CommittedLines = 0\<rparr>) in
      if epoch = 0 \<or> epoch \<noteq> ev_WriterEpoch ev then (s, Inr ())
      else
        (case start of
           None \<Rightarrow> (s, Inr ())
         | Some cache \<Rightarrow>
             if jc_WriterEpoch cache \<noteq> epoch then (invalidateJournalCache sid s, Inr ())
             else
               (case rebuildManifestFromState E (jc_Rebuild cache) [ev] of
                  Inl e \<Rightarrow> (invalidateJournalCache sid s, Inl e)
                | Inr state \<Rightarrow>
                    (s\<lparr>st_JournalCaches := mput sid
                        (cache\<lparr>jc_Events := jc_Events cache @ [ev], jc_Rebuild := state,
                           jc_CommittedLines := jc_CommittedLines cache + 1\<rparr>) (st_JournalCaches s)\<rparr>, Inr ()))))"

subsection \<open>Appending an event\<close>

text \<open>
  Offsets are counted in journal lines. The operating-system calls of the truncation itself are taken
  to succeed: a failure leaves the file as it was and the operation returns the error.
\<close>

definition truncateJournalToCommittedHead ::
  "env \<Rightarrow> call \<Rightarrow> string \<Rightarrow> dir_store \<Rightarrow> dir_store \<times> (serror + unit)" where
  "truncateJournalToCommittedHead E c sid s =
     (let d = dirOf s sid;
          truncateTo = (\<lambda>committed.
            (case sd_Journal d of
               None \<Rightarrow> (s, Inr ())
             | Some ls \<Rightarrow>
                 if length ls < committed
                 then (s, Inl (ErrMsg ''journal changed while truncating incomplete tail''))
                 else (setDir sid (d\<lparr>sd_Journal := Some (take committed ls), sd_Tail := ''''\<rparr>) s, Inr ())))
      in
      (case writerJournalCache s sid of
         Some cache \<Rightarrow> truncateTo (jc_CommittedLines cache)
       | None \<Rightarrow>
           (case scanJournal E (c\<lparr>cl_Cancelled := False\<rparr>) sid s of
              (Inr _, n) \<Rightarrow> truncateTo n
            | (Inl ErrNotExist, n) \<Rightarrow> truncateTo n
            | (Inl e, _) \<Rightarrow> (s, Inl e))))"

definition headFor :: "event \<Rightarrow> journal_head" where
  "headFor ev = \<lparr>jh_SchemaVersion = ''yawr.investigation-session-head/v1'', jh_SessionID = ev_SessionID ev,
     jh_Sequence = ev_Sequence ev, jh_EventDigest = ev_Digest ev, jh_WriterEpoch = ev_WriterEpoch ev\<rparr>"

definition addLine :: "event \<Rightarrow> session_dir \<Rightarrow> session_dir" where
  "addLine ev d = d\<lparr>sd_Journal := Some ((case sd_Journal d of None \<Rightarrow> [] | Some ls \<Rightarrow> ls) @ [LineEvent ev])\<rparr>"

definition appendEvent :: "env \<Rightarrow> call \<Rightarrow> event \<Rightarrow> dir_store \<Rightarrow> dir_store \<times> (serror + unit)" where
  "appendEvent E c ev s =
     (let sid = ev_SessionID ev; drop = invalidateJournalCache sid in
      (case truncateJournalToCommittedHead E c sid s of
         (s1, Inl e) \<Rightarrow> (drop s1, Inl e)
       | (s1, Inr _) \<Rightarrow>
           let d = dirOf s1 sid in
           if length (marshal E (DocEvent ev)) > maxJournalEventBytes
           then (drop s1, Inl (ErrMsg ''journal event exceeds the limit''))
           else
             (case cl_Append c of
                AppendTorn t \<Rightarrow>
                  (drop (setDir sid (d\<lparr>sd_Journal := Some (case sd_Journal d of None \<Rightarrow> [] | Some ls \<Rightarrow> ls),
                     sd_Tail := t\<rparr>) s1), Inl (ErrMsg ''write failed''))
              | AppendNotSynced \<Rightarrow> (drop (setDir sid (addLine ev d) s1), Inl (ErrMsg ''write failed''))
              | HeadNotWritten \<Rightarrow> (drop (setDir sid (addLine ev d) s1), Inl ErrProjection)
              | AppendDone \<Rightarrow>
                  (case writeJournalHead (headFor ev) (addLine ev d) of
                     Inl _ \<Rightarrow> (drop (setDir sid (addLine ev d) s1), Inl ErrProjection)
                   | Inr d' \<Rightarrow>
                       (case advanceJournalCache E ev (setDir sid d' s1) of
                          (s2, Inl _) \<Rightarrow> (drop s2, Inl ErrProjection)
                        | (s2, Inr _) \<Rightarrow> (s2, Inr ()))))))"

subsection \<open>The manifest projection\<close>

definition ProjectManifest :: "manifest \<Rightarrow> manifest" where
  "ProjectManifest m = m\<lparr>mf_AcceptedCommands :=
     filter (\<lambda>(_, r). cr_Sequence r > sr_Sequence (mf_Session m) - 256) (mf_AcceptedCommands m)\<rparr>"

definition writeManifest :: "env \<Rightarrow> call \<Rightarrow> manifest \<Rightarrow> dir_store \<Rightarrow> dir_store \<times> bool" where
  "writeManifest E c m s =
     (let sid = sr_SessionID (mf_Session m); d = dirOf s sid in
      if length (marshal E (DocManifest (ProjectManifest m))) > maxJournalEventBytes then (s, False)
      else
        (case sd_Manifest d of
           Some current \<Rightarrow>
             if current = ProjectManifest m then (s, True)
             else if sr_Sequence (mf_Session current) > sr_Sequence (mf_Session m) then (s, True)
             else if cl_ManifestWritten c
             then (setDir sid (d\<lparr>sd_Manifest := Some (ProjectManifest m)\<rparr>) s, True) else (s, False)
         | None \<Rightarrow>
             if cl_ManifestWritten c
             then (setDir sid (d\<lparr>sd_Manifest := Some (ProjectManifest m)\<rparr>) s, True) else (s, False)))"

text \<open>The tail of every operation: project the manifest and return it.\<close>

definition finishManifest :: "env \<Rightarrow> call \<Rightarrow> manifest \<Rightarrow> dir_store \<Rightarrow> dir_store \<times> (serror + manifest)" where
  "finishManifest E c m s =
     (case writeManifest E c m s of (s', ok) \<Rightarrow> (s', if ok then Inr m else Inl ErrProjection))"

subsection \<open>New events\<close>

definition newEventWithClientCommand ::
  "env \<Rightarrow> call \<Rightarrow> string \<Rightarrow> nat \<Rightarrow> int \<Rightarrow> string \<Rightarrow> string \<Rightarrow> string \<Rightarrow> string \<Rightarrow> event_kind \<Rightarrow> payload \<Rightarrow> event" where
  "newEventWithClientCommand E c sid epoch seq prev commandID commandDigest client kind pay =
     (let ev = \<lparr>ev_SchemaVersion = ''yawr.investigation-session-event/v1'', ev_EventID = cl_EventID c,
            ev_SessionID = sid, ev_Sequence = seq, ev_WriterEpoch = epoch, ev_CommandID = commandID,
            ev_CommandDigest = commandDigest, ev_ClientCommandDigest = client, ev_Kind = kind,
            ev_Timestamp = cl_Now c, ev_PreviousDigest = prev, ev_Digest = '''', ev_Payload = pay\<rparr>
      in ev\<lparr>ev_Digest := eventDigest E ev\<rparr>)"

definition newEvent ::
  "env \<Rightarrow> call \<Rightarrow> string \<Rightarrow> nat \<Rightarrow> int \<Rightarrow> string \<Rightarrow> string \<Rightarrow> string \<Rightarrow> event_kind \<Rightarrow> payload \<Rightarrow> event" where
  "newEvent E c sid epoch seq prev commandID commandDigest kind pay =
     newEventWithClientCommand E c sid epoch seq prev commandID commandDigest '''' kind pay"

subsection \<open>What the operations share\<close>

type_synonym result = "dir_store \<times> (serror + manifest)"

definition withSession ::
  "env \<Rightarrow> call \<Rightarrow> string \<Rightarrow> dir_store \<Rightarrow> (event list \<Rightarrow> manifest \<Rightarrow> dir_store \<Rightarrow> result) \<Rightarrow> result" where
  "withSession E c sid s k =
     (case loadEvents E c sid s of
        (s1, Inl e) \<Rightarrow> (s1, Inl e)
      | (s1, Inr events) \<Rightarrow>
          (case manifestForEvents E s1 sid events of
             Inl e \<Rightarrow> (s1, Inl e)
           | Inr m \<Rightarrow> k events m s1))"

text \<open>A command that was accepted before returns the manifest again, or conflicts.\<close>

definition withReceipt ::
  "manifest \<Rightarrow> string \<Rightarrow> (command_receipt \<Rightarrow> bool) \<Rightarrow> dir_store \<Rightarrow> result \<Rightarrow> result" where
  "withReceipt m commandID same s k =
     (case mget (mf_AcceptedCommands m) commandID of
        Some r \<Rightarrow> (s, if same r then Inr m else Inl ErrCommandConflict)
      | None \<Rightarrow> k)"

definition sameCommand :: "string \<Rightarrow> event_kind \<Rightarrow> command_receipt \<Rightarrow> bool" where
  "sameCommand digest kind r = (cr_CommandDigest r = digest \<and> cr_EventKind r = kind)"

definition sameClientCommand :: "string \<Rightarrow> string \<Rightarrow> event_kind \<Rightarrow> command_receipt \<Rightarrow> bool" where
  "sameClientCommand digest client kind r =
     (cr_CommandDigest r = digest \<and> cr_ClientCommandDigest r = client \<and> cr_EventKind r = kind)"

text \<open>Most operations append their event and then rebuild;\<close>

definition appendThenRebuild ::
  "env \<Rightarrow> call \<Rightarrow> string \<Rightarrow> event list \<Rightarrow> event \<Rightarrow> dir_store \<Rightarrow> result" where
  "appendThenRebuild E c sid events ev s =
     (case appendEvent E c ev s of
        (s1, Inl e) \<Rightarrow> (s1, Inl e)
      | (s1, Inr _) \<Rightarrow>
          (case manifestForEvents E s1 sid (events @ [ev]) of
             Inl e \<Rightarrow> (s1, Inl e)
           | Inr m \<Rightarrow> finishManifest E c m s1))"

text \<open>the others rebuild first, then write their blobs, undoing them on failure, and then append.\<close>

definition rebuildThenAppend ::
  "env \<Rightarrow> call \<Rightarrow> string \<Rightarrow> event list \<Rightarrow> event \<Rightarrow> json_blob list \<Rightarrow> dir_store \<Rightarrow> result" where
  "rebuildThenAppend E c sid events ev blobs s =
     (case manifestForEvents E s sid (events @ [ev]) of
        Inl e \<Rightarrow> (s, Inl e)
      | Inr m \<Rightarrow>
          (case preflightBlobWrites (dirOf s sid) [] blobs of
             Inl e \<Rightarrow> (s, Inl e)
           | Inr newPaths \<Rightarrow>
               (case writeBlobs E c sid blobs s of
                  (s1, Inl e) \<Rightarrow> (removeNewBlobs sid newPaths s1, Inl e)
                | (s1, Inr _) \<Rightarrow>
                    (case appendEvent E c ev s1 of
                       (s2, Inl e) \<Rightarrow> (s2, Inl e)
                     | (s2, Inr _) \<Rightarrow> finishManifest E c m s2))))"

end
