(* ===== verification/Session_Handlers.thy ===== *)
theory Session_Handlers
  imports Session_Store
begin

section \<open>The operations of the session store\<close>

text \<open>
  One definition per operation of \<^verbatim>\<open>session.Store\<close> as \<^verbatim>\<open>DirStore\<close> implements it, with its
  guards in the order of the source. Every operation returns the new store and either an error or the
  manifest.
\<close>

subsection \<open>Requests\<close>

record create_request =
  cq_SessionID :: string
  cq_CommandID :: string
  cq_EntryDigest :: string
  cq_Identity :: creation_identity
  cq_Session :: session_record
  cq_Segment :: segment_record
  cq_Attempt :: attempt_record
  cq_Blobs :: "json_blob list"

record close_request =
  xq_SessionID :: string
  xq_CommandID :: string
  xq_WriterEpoch :: nat
  xq_ExpectedSequence :: int
  xq_ClientCommandDigest :: string
  xq_Status :: status

record pause_request =
  pq_SessionID :: string
  pq_CommandID :: string
  pq_WriterEpoch :: nat
  pq_ExpectedSequence :: int
  pq_ClientCommandDigest :: string
  pq_Reason :: string

record resume_request =
  rq_SessionID :: string
  rq_CommandID :: string
  rq_WriterEpoch :: nat
  rq_ExpectedSequence :: int
  rq_ClientCommandDigest :: string

record detach_request =
  dq_SessionID :: string
  dq_CommandID :: string
  dq_WriterEpoch :: nat
  dq_ExpectedSequence :: int
  dq_ClientCommandDigest :: string
  dq_Reason :: string

record update_request =
  uq_SessionID :: string
  uq_CommandID :: string
  uq_WriterEpoch :: nat
  uq_ExpectedSequence :: int
  uq_RunID :: string
  uq_Status :: attempt_status

record mutation_request =
  eq_SessionID :: string
  eq_CommandID :: string
  eq_WriterEpoch :: nat
  eq_ExpectedSequence :: int
  eq_ClientCommandDigest :: string
  eq_Mutation :: execution_mutation
  eq_StateProjection :: json_blob
  eq_FrameProjection :: json_blob
  eq_ProjectionBlobs :: "json_blob list"
  eq_Occurrences :: "occurrence_record gomap"

record trace_request =
  tq_SessionID :: string
  tq_CommandID :: string
  tq_WriterEpoch :: nat
  tq_ExpectedSequence :: int
  tq_RunID :: string
  tq_Event :: trace_event

record revision_request =
  vq_SessionID :: string
  vq_CommandID :: string
  vq_WriterEpoch :: nat
  vq_ExpectedSequence :: int
  vq_SegmentID :: string
  vq_RunID :: string
  vq_ExecutableRevision :: int
  vq_GraphRevision :: int
  vq_PlanHash :: string
  vq_ExecutableSnapshot :: json_blob
  vq_Graph :: json_blob
  vq_Resolution :: include_resolution
  vq_Dispatch :: dispatch_state

record prepare_request =
  hq_SessionID :: string
  hq_CommandID :: string
  hq_WriterEpoch :: nat
  hq_ExpectedSequence :: int
  hq_Transition :: transition_record
  hq_TargetSegment :: segment_record
  hq_TargetAttempt :: attempt_record
  hq_Blobs :: "json_blob list"

record commit_request =
  kq_SessionID :: string
  kq_CommandID :: string
  kq_WriterEpoch :: nat
  kq_ExpectedSequence :: int
  kq_TransitionID :: string

record abort_request =
  bq_SessionID :: string
  bq_CommandID :: string
  bq_WriterEpoch :: nat
  bq_ExpectedSequence :: int
  bq_TransitionID :: string
  bq_Reason :: string

text \<open>The checks every operation begins with: the context, canonical identifiers, then its own.\<close>

definition notUUID :: serror where
  "notUUID = ErrMsg ''must be a canonical UUID''"

subsection \<open>CreateSession\<close>

definition normalizeCreateRequest :: "create_request \<Rightarrow> create_request" where
  "normalizeCreateRequest rq =
     (let g = cq_Segment rq; a = cq_Attempt rq in
      rq\<lparr>cq_Segment := g\<lparr>sg_EntryStep := (if sg_EntryStep g = '''' then ''$entry'' else sg_EntryStep g),
           sg_ExecutableRevision := (if sg_ExecutableRevision g = 0 then 1 else sg_ExecutableRevision g),
           sg_GraphRevision := (if sg_GraphRevision g = 0 then 1 else sg_GraphRevision g)\<rparr>,
         cq_Attempt := a\<lparr>at_PlanHash := (if at_PlanHash a = '''' then sg_PlanHash g else at_PlanHash a)\<rparr>\<rparr>)"

definition reservationFor :: "string \<Rightarrow> string \<Rightarrow> string \<Rightarrow> creation_reservation" where
  "reservationFor commandID sid digest =
     \<lparr>cv_SchemaVersion = ''yawr.investigation-session-creation/v1'', cv_CommandID = commandID,
      cv_SessionID = sid, cv_CreationDigest = digest\<rparr>"

definition reserveCreationCommand ::
  "call \<Rightarrow> string \<Rightarrow> string \<Rightarrow> string \<Rightarrow> dir_store \<Rightarrow> dir_store \<times> (serror + unit)" where
  "reserveCreationCommand c commandID sid digest s =
     (case mget (st_Reservations s) commandID of
        Some r \<Rightarrow> (s, if r = reservationFor commandID sid digest then Inr () else Inl ErrCreationConflict)
      | None \<Rightarrow>
          if cl_ReservationWritten c
          then (s\<lparr>st_Reservations := mput commandID (reservationFor commandID sid digest) (st_Reservations s)\<rparr>,
                Inr ())
          else (s, Inl (ErrMsg ''write failed'')))"

definition createdEvent :: "env \<Rightarrow> call \<Rightarrow> nat \<Rightarrow> create_request \<Rightarrow> event" where
  "createdEvent E c epoch rq =
     (let now = cl_Now c; sg = cq_Segment rq;
          attempt = (cq_Attempt rq)\<lparr>at_StartedAt := now, at_UpdatedAt := now\<rparr>;
          record = (cq_Session rq)\<lparr>sr_SessionID := cq_SessionID rq, sr_RootSegmentID := sg_SegmentID sg,
            sr_ActiveSegmentID := sg_SegmentID sg, sr_ActiveRunID := at_RunID (cq_Attempt rq),
            sr_Sequence := 1, sr_ManifestRevision := 1, sr_WriterEpoch := epoch,
            sr_CreationCommandID := cq_CommandID rq, sr_CreationDigest := cq_EntryDigest rq,
            sr_CreatedAt := now, sr_UpdatedAt := now\<rparr>
      in newEvent E c (cq_SessionID rq) epoch 1 '''' (cq_CommandID rq) (cq_EntryDigest rq) EventSessionCreated
           (PayCreated \<lparr>cp_Identity = cq_Identity rq, cp_Session = record, cp_Segment = sg,
              cp_Attempt = attempt\<rparr>))"

text \<open>Writing the reservation, the blobs and the first event of a session that does not exist yet.\<close>

definition createFresh :: "env \<Rightarrow> call \<Rightarrow> nat \<Rightarrow> create_request \<Rightarrow> dir_store \<Rightarrow> result" where
  "createFresh E c epoch request s =
     (let rq = normalizeCreateRequest request; sid = cq_SessionID rq in
      case validateCreateRequest E sid (cq_EntryDigest rq)
             \<lparr>cp_Identity = cq_Identity rq, cp_Session = cq_Session rq, cp_Segment = cq_Segment rq,
              cp_Attempt = cq_Attempt rq\<rparr> of
        Inl e \<Rightarrow> (s, Inl e)
      | Inr _ \<Rightarrow>
          (case reserveCreationCommand c (cq_CommandID rq) sid (cq_EntryDigest rq) s of
             (s1, Inl e) \<Rightarrow> (s1, Inl e)
           | (s1, Inr _) \<Rightarrow>
               (case writeBlobs E c sid (cq_Blobs rq) s1 of
                  (s2, Inl e) \<Rightarrow> (s2, Inl e)
                | (s2, Inr _) \<Rightarrow>
                    (case blobsReadable E c (dirOf s2 sid) sid
                            [sg_GraphHash (cq_Segment rq), sg_ExecutableSnapshotHash (cq_Segment rq)] of
                       Inl e \<Rightarrow> (s2, Inl e)
                     | Inr _ \<Rightarrow>
                         let ev = createdEvent E c epoch rq in
                         (case appendEvent E c ev s2 of
                            (s3, Inl e) \<Rightarrow> (s3, Inl e)
                          | (s3, Inr _) \<Rightarrow>
                              (case rebuildManifest E [ev] of
                                 Inl e \<Rightarrow> (s3, Inl e)
                               | Inr m \<Rightarrow> finishManifest E c m s3))))))"

definition CreateSession :: "env \<Rightarrow> call \<Rightarrow> nat \<Rightarrow> create_request \<Rightarrow> dir_store \<Rightarrow> result" where
  "CreateSession E c epoch rq s =
     (let sid = cq_SessionID rq in
      if cl_Cancelled c then (s, Inl ErrContext)
      else if \<not> validateUUID E sid then (s, Inl notUUID)
      else if \<not> validateUUID E (cq_CommandID rq) then (s, Inl notUUID)
      else
        (case validateWriterEpoch s sid epoch of
           Inl e \<Rightarrow> (s, Inl e)
         | Inr _ \<Rightarrow>
             (case loadEvents E c sid s of
                (s1, Inr events) \<Rightarrow>
                  (case manifestForEvents E s1 sid events of
                     Inl e \<Rightarrow> (s1, Inl e)
                   | Inr m \<Rightarrow>
                       (s1, if sr_CreationCommandID (mf_Session m) = cq_CommandID rq \<and>
                               sr_CreationDigest (mf_Session m) = cq_EntryDigest rq
                            then Inr m else Inl ErrCreationConflict))
              | (s1, Inl ErrNotExist) \<Rightarrow> createFresh E c epoch rq s1
              | (s1, Inl e) \<Rightarrow> (s1, Inl e))))"

subsection \<open>Closing, pausing, resuming, detaching\<close>

text \<open>The event that follows the last event of the journal.\<close>

definition nextEvent ::
  "env \<Rightarrow> call \<Rightarrow> string \<Rightarrow> nat \<Rightarrow> manifest \<Rightarrow> event list \<Rightarrow> string \<Rightarrow> string \<Rightarrow> string \<Rightarrow> event_kind \<Rightarrow> payload \<Rightarrow> event" where
  "nextEvent E c sid epoch m events commandID commandDigest client kind pay =
     newEventWithClientCommand E c sid epoch (sr_Sequence (mf_Session m) + 1) (ev_Digest (last events))
       commandID commandDigest client kind pay"

definition closePayload :: "manifest \<Rightarrow> status \<Rightarrow> closed_payload" where
  "closePayload m st =
     (let runID = sr_ActiveRunID (mf_Session m) in
      if runID \<noteq> '''' \<and> isPausedAttemptStatus (at_Status (getAttempt m runID))
      then \<lparr>xp_Status = st, xp_SegmentID = sr_ActiveSegmentID (mf_Session m), xp_RunID = runID\<rparr>
      else \<lparr>xp_Status = st, xp_SegmentID = '''', xp_RunID = ''''\<rparr>)"

definition CloseSession :: "env \<Rightarrow> call \<Rightarrow> close_request \<Rightarrow> dir_store \<Rightarrow> result" where
  "CloseSession E c rq s =
     (let sid = xq_SessionID rq; client = xq_ClientCommandDigest rq in
      if cl_Cancelled c then (s, Inl ErrContext)
      else if \<not> validateUUID E sid \<or> \<not> validateUUID E (xq_CommandID rq) then (s, Inl notUUID)
      else if \<not> isCloseStatus (xq_Status rq) then (s, Inl (ErrMsg ''unsupported close status''))
      else
        (case validateWriterEpoch s sid (xq_WriterEpoch rq) of
           Inl e \<Rightarrow> (s, Inl e)
         | Inr _ \<Rightarrow> withSession E c sid s (\<lambda>events m s1.
             let commandDigest = DigestJSON E (DocClose (xq_Status rq));
                 runID = sr_ActiveRunID (mf_Session m); attempt = getAttempt m runID in
             if client \<noteq> '''' \<and> \<not> validDigest client then (s1, Inl (ErrMsg ''invalid client command digest''))
             else withReceipt m (xq_CommandID rq) (sameClientCommand commandDigest client EventSessionClosed) s1
               (if isTerminalSessionStatus (sr_Status (mf_Session m)) then (s1, Inl ErrSessionClosed)
                else if runID \<noteq> '''' \<and> \<not> isTerminalAttemptStatus (at_Status attempt) \<and>
                  \<not> (sr_Status (mf_Session m) = StatusPaused \<and> isPausedAttemptStatus (at_Status attempt))
                then (s1, Inl ErrAttemptActive)
                else if xq_ExpectedSequence rq \<noteq> sr_Sequence (mf_Session m) then (s1, Inl ErrSequenceConflict)
                else appendThenRebuild E c sid events
                  (nextEvent E c sid (xq_WriterEpoch rq) m events (xq_CommandID rq) commandDigest client
                     EventSessionClosed (PayClosed (closePayload m (xq_Status rq)))) s1))))"

definition PauseSession :: "env \<Rightarrow> call \<Rightarrow> pause_request \<Rightarrow> dir_store \<Rightarrow> result" where
  "PauseSession E c rq s =
     (let sid = pq_SessionID rq; client = pq_ClientCommandDigest rq in
      if cl_Cancelled c then (s, Inl ErrContext)
      else if \<not> validateUUID E sid \<or> \<not> validateUUID E (pq_CommandID rq) then (s, Inl notUUID)
      else if badReason (pq_Reason rq) then (s, Inl (ErrMsg ''invalid pause reason''))
      else
        (case validateWriterEpoch s sid (pq_WriterEpoch rq) of
           Inl e \<Rightarrow> (s, Inl e)
         | Inr _ \<Rightarrow> withSession E c sid s (\<lambda>events m s1.
             let runID = sr_ActiveRunID (mf_Session m); attempt = getAttempt m runID;
                 commandDigest = DigestJSON E (DocPause runID (pq_Reason rq)) in
             if client \<noteq> '''' \<and> \<not> validDigest client then (s1, Inl (ErrMsg ''invalid client command digest''))
             else withReceipt m (pq_CommandID rq) (sameClientCommand commandDigest client EventSessionPaused) s1
               (if isTerminalSessionStatus (sr_Status (mf_Session m)) then (s1, Inl ErrSessionClosed)
                else if runID = '''' then (s1, Inl (ErrMsg ''session has no active attempt to pause''))
                else if at_Status attempt \<noteq> AttemptStatusPausedAtBoundary \<and>
                  at_Status attempt \<noteq> AttemptStatusHandoffPending
                then (s1, Inl (ErrMsg ''attempt status cannot pause''))
                else if pq_ExpectedSequence rq \<noteq> sr_Sequence (mf_Session m) then (s1, Inl ErrSequenceConflict)
                else appendThenRebuild E c sid events
                  (nextEvent E c sid (pq_WriterEpoch rq) m events (pq_CommandID rq) commandDigest client
                     EventSessionPaused (PayPaused runID (pq_Reason rq))) s1))))"

definition ResumeSession :: "env \<Rightarrow> call \<Rightarrow> resume_request \<Rightarrow> dir_store \<Rightarrow> result" where
  "ResumeSession E c rq s =
     (let sid = rq_SessionID rq; client = rq_ClientCommandDigest rq in
      if cl_Cancelled c then (s, Inl ErrContext)
      else if \<not> validateUUID E sid \<or> \<not> validateUUID E (rq_CommandID rq) then (s, Inl notUUID)
      else
        (case validateWriterEpoch s sid (rq_WriterEpoch rq) of
           Inl e \<Rightarrow> (s, Inl e)
         | Inr _ \<Rightarrow> withSession E c sid s (\<lambda>events m s1.
             let runID = sr_ActiveRunID (mf_Session m);
                 commandDigest = DigestJSON E (DocResume runID) in
             if client \<noteq> '''' \<and> \<not> validDigest client then (s1, Inl (ErrMsg ''invalid client command digest''))
             else withReceipt m (rq_CommandID rq) (sameClientCommand commandDigest client EventSessionResumed) s1
               (if sr_Status (mf_Session m) \<noteq> StatusPaused \<or> runID = ''''
                then (s1, Inl (ErrMsg ''session is not resumable from pause''))
                else if at_Status (getAttempt m runID) \<noteq> AttemptStatusPausedAtBoundary
                then (s1, Inl (ErrMsg ''active attempt is not paused at a boundary''))
                else if rq_ExpectedSequence rq \<noteq> sr_Sequence (mf_Session m) then (s1, Inl ErrSequenceConflict)
                else appendThenRebuild E c sid events
                  (nextEvent E c sid (rq_WriterEpoch rq) m events (rq_CommandID rq) commandDigest client
                     EventSessionResumed (PayResumed runID)) s1))))"

definition RecordDetach :: "env \<Rightarrow> call \<Rightarrow> detach_request \<Rightarrow> dir_store \<Rightarrow> result" where
  "RecordDetach E c rq s =
     (let sid = dq_SessionID rq; client = dq_ClientCommandDigest rq in
      if cl_Cancelled c then (s, Inl ErrContext)
      else if \<not> validateUUID E sid \<or> \<not> validateUUID E (dq_CommandID rq) then (s, Inl notUUID)
      else if badReason (dq_Reason rq) then (s, Inl (ErrMsg ''invalid detach reason''))
      else if \<not> validDigest client then (s, Inl (ErrMsg ''client command digest is required''))
      else
        (case validateWriterEpoch s sid (dq_WriterEpoch rq) of
           Inl e \<Rightarrow> (s, Inl e)
         | Inr _ \<Rightarrow> withSession E c sid s (\<lambda>events m s1.
             let commandDigest = DigestJSON E (DocDetach (dq_Reason rq)) in
             withReceipt m (dq_CommandID rq) (sameClientCommand commandDigest client EventSessionDetached) s1
               (if sr_Status (mf_Session m) \<noteq> StatusIndeterminate \<and> sr_ActiveRunID (mf_Session m) \<noteq> ''''
                then (s1, Inl ErrAttemptActive)
                else if dq_ExpectedSequence rq \<noteq> sr_Sequence (mf_Session m) then (s1, Inl ErrSequenceConflict)
                else appendThenRebuild E c sid events
                  (nextEvent E c sid (dq_WriterEpoch rq) m events (dq_CommandID rq) commandDigest client
                     EventSessionDetached (PayDetached (dq_Reason rq))) s1))))"

definition UpdateAttempt :: "env \<Rightarrow> call \<Rightarrow> update_request \<Rightarrow> dir_store \<Rightarrow> result" where
  "UpdateAttempt E c rq s =
     (let sid = uq_SessionID rq in
      if cl_Cancelled c then (s, Inl ErrContext)
      else if \<not> validateUUID E sid \<or> \<not> validateUUID E (uq_CommandID rq) \<or> \<not> validateUUID E (uq_RunID rq)
      then (s, Inl notUUID)
      else if \<not> validAttemptStatus (uq_Status rq) then (s, Inl (ErrMsg ''invalid attempt status''))
      else
        (case validateWriterEpoch s sid (uq_WriterEpoch rq) of
           Inl e \<Rightarrow> (s, Inl e)
         | Inr _ \<Rightarrow> withSession E c sid s (\<lambda>events m s1.
             let commandDigest = DigestJSON E (DocAttemptUpdate (uq_RunID rq) (uq_Status rq)) in
             if mget (mf_Attempts m) (uq_RunID rq) = None
             then (s1, Inl (ErrMsg ''attempt does not belong to session''))
             else withReceipt m (uq_CommandID rq) (sameCommand commandDigest EventAttemptUpdated) s1
               (if isTerminalSessionStatus (sr_Status (mf_Session m)) then (s1, Inl ErrSessionClosed)
                else if \<not> validAttemptTransition (at_Status (getAttempt m (uq_RunID rq))) (uq_Status rq)
                then (s1, Inl (ErrMsg ''attempt transition is invalid''))
                else if uq_ExpectedSequence rq \<noteq> sr_Sequence (mf_Session m) then (s1, Inl ErrSequenceConflict)
                else appendThenRebuild E c sid events
                  (nextEvent E c sid (uq_WriterEpoch rq) m events (uq_CommandID rq) commandDigest ''''
                     EventAttemptUpdated (PayAttempt (uq_RunID rq) (uq_Status rq))) s1))))"

subsection \<open>Execution mutations and trace events\<close>

definition mutationConflict :: "attempt_record \<Rightarrow> execution_mutation \<Rightarrow> bool" where
  "mutationConflict attempt mu =
     (let latest = latestTraceSequence attempt in
      mu_PreviousMutationHash mu \<noteq> at_ExecutionMutationHash attempt
      \<or> at_ExecutionMutationHash attempt = '''' \<and> mu_CheckpointSequence mu \<noteq> 0
      \<or> at_ExecutionMutationHash attempt \<noteq> '''' \<and> mu_CheckpointSequence mu \<le> at_CheckpointSequence attempt
      \<or> mu_CommittedTraceSequence mu < latest
      \<or> mu_TraceSequenceStart mu = 0 \<and> mu_CommittedTraceSequence mu \<noteq> latest
      \<or> mu_TraceSequenceStart mu \<noteq> 0 \<and>
          (mu_TraceSequenceStart mu \<noteq> i64 (latest + 1) \<or> mu_TraceSequenceEnd mu \<noteq> mu_CommittedTraceSequence mu))"

definition mutationPayload :: "mutation_request \<Rightarrow> string \<Rightarrow> execution_payload" where
  "mutationPayload rq mutationHash =
     (let mu = eq_Mutation rq in
      \<lparr>ep_RunID = mu_RunID mu, ep_Status = mu_AttemptStatus mu, ep_MutationHash = mutationHash,
       ep_PreviousMutationHash = mu_PreviousMutationHash mu, ep_ProjectionHash = mu_StateProjectionHash mu,
       ep_FrameProjectionHash = mu_FrameProjectionHash mu, ep_CheckpointSequence = mu_CheckpointSequence mu,
       ep_CommittedTraceSequence = mu_CommittedTraceSequence mu, ep_Occurrences = eq_Occurrences rq\<rparr>)"

definition mutationBlobs :: "env \<Rightarrow> mutation_request \<Rightarrow> json_blob list" where
  "mutationBlobs E rq =
     eq_ProjectionBlobs rq @ [eq_StateProjection rq]
     @ (if mu_FrameProjectionHash (eq_Mutation rq) \<noteq> '''' then [eq_FrameProjection rq] else [])
     @ [NewJSONBlob E (marshal E (DocMutation (eq_Mutation rq)))]"

definition CommitExecutionMutation :: "env \<Rightarrow> call \<Rightarrow> mutation_request \<Rightarrow> dir_store \<Rightarrow> result" where
  "CommitExecutionMutation E c rq s =
     (let sid = eq_SessionID rq; mu = eq_Mutation rq; client = eq_ClientCommandDigest rq in
      if cl_Cancelled c then (s, Inl ErrContext)
      else if \<not> validateUUID E sid \<or> \<not> validateUUID E (eq_CommandID rq) \<or> \<not> validateUUID E (mu_RunID mu)
      then (s, Inl notUUID)
      else if length (eq_ProjectionBlobs rq) > maxProjectionBlobs
      then (s, Inl (ErrMsg ''execution mutation has too many projection blobs''))
      else
        (case validateExecutionMutation E mu (eq_StateProjection rq) of
           Inl e \<Rightarrow> (s, Inl e)
         | Inr _ \<Rightarrow>
        (case validateExecutionFrameProjection E mu (eq_FrameProjection rq)
                (frameProjectionBlobLoader E (eq_ProjectionBlobs rq)) of
           Inl e \<Rightarrow> (s, Inl e)
         | Inr projectedFrame \<Rightarrow>
        (case validateWriterEpoch s sid (eq_WriterEpoch rq) of
           Inl e \<Rightarrow> (s, Inl e)
         | Inr _ \<Rightarrow>
             if mu_RunWriterEpoch mu \<noteq> eq_WriterEpoch rq then (s, Inl ErrMutationConflict)
             else withSession E c sid s (\<lambda>events m s1.
               let attempt = getAttempt m (mu_RunID mu);
                   mutationHash = bl_Digest (NewJSONBlob E (marshal E (DocMutation mu)));
                   commandDigest = DigestJSON E (DocMutationRef (mu_RunID mu) mutationHash) in
               if mget (mf_Attempts m) (mu_RunID mu) = None
               then (s1, Inl (ErrMsg ''attempt does not belong to session''))
               else
                 (case validateOccurrenceRecords E m (mu_RunID mu) (eq_Occurrences rq)
                         (fc_PendingTraceEvents projectedFrame) of
                    Inl e \<Rightarrow> (s1, Inl e)
                  | Inr _ \<Rightarrow>
                      if preparedTransitionUsesRun m (mu_RunID mu)
                      then (s1, Inl (ErrMsg ''prepared transition freezes its source mutation''))
                      else if client \<noteq> '''' \<and> \<not> validDigest client
                      then (s1, Inl (ErrMsg ''invalid client command digest''))
                      else withReceipt m (eq_CommandID rq)
                             (sameClientCommand commandDigest client EventExecutionCommitted) s1
                        (if isTerminalSessionStatus (sr_Status (mf_Session m)) then (s1, Inl ErrSessionClosed)
                         else if \<not> validAttemptTransition (at_Status attempt) (mu_AttemptStatus mu)
                         then (s1, Inl (ErrMsg ''attempt transition is invalid''))
                         else if mutationConflict attempt mu then (s1, Inl ErrMutationConflict)
                         else if eq_ExpectedSequence rq \<noteq> sr_Sequence (mf_Session m)
                         then (s1, Inl ErrSequenceConflict)
                         else
                           (case writeBlobs E c sid (mutationBlobs E rq) s1 of
                              (s2, Inl e) \<Rightarrow> (s2, Inl e)
                            | (s2, Inr _) \<Rightarrow> appendThenRebuild E c sid events
                                (nextEvent E c sid (eq_WriterEpoch rq) m events (eq_CommandID rq) commandDigest
                                   client EventExecutionCommitted
                                   (PayExecution (mutationPayload rq mutationHash))) s2))))))))"

text \<open>
  The occurrence of a trace event: the source compares the identifier it was given with
  \<open>OccurrenceID\<close> of the same record, which \<open>OccurrenceFromTraceEvent\<close> has just computed.
\<close>

definition traceOccurrence ::
  "env \<Rightarrow> string \<Rightarrow> attempt_record \<Rightarrow> trace_event \<Rightarrow> serror + occurrence_record option" where
  "traceOccurrence E sid attempt event =
     andThen (OccurrenceFromTraceEvent E sid (at_SegmentID attempt) (executionSourceForAttempt attempt) event)
       (\<lambda>t. case t of
          None \<Rightarrow> Inr None
        | Some (i, r) \<Rightarrow>
            if i \<noteq> OccurrenceID E r then Inl (ErrMsg ''invalid direct trace occurrence identity'')
            else Inr (Some r))"

definition CommitTraceEvent :: "env \<Rightarrow> call \<Rightarrow> trace_request \<Rightarrow> dir_store \<Rightarrow> result" where
  "CommitTraceEvent E c rq s =
     (let sid = tq_SessionID rq; event = tq_Event rq; encodedTrace = marshal E (DocTrace event);
          traceBlob = NewJSONBlob E encodedTrace;
          commandDigest = DigestJSON E (DocTraceRef (tq_RunID rq) (bl_Digest traceBlob)) in
      if cl_Cancelled c then (s, Inl ErrContext)
      else if \<not> validateUUID E sid \<or> \<not> validateUUID E (tq_CommandID rq) \<or> \<not> validateUUID E (tq_RunID rq)
      then (s, Inl notUUID)
      else if te_RunID event \<noteq> tq_RunID rq \<or> te_Sequence event < 1 \<or> te_Kind event = ''''
        \<or> \<not> validateUUID E (te_EventID event) \<or> \<not> timeOk E (te_Timestamp event)
      then (s, Inl (ErrMsg ''invalid direct trace event''))
      else if \<not> jsonValid E encodedTrace then (s, Inl (ErrMsg ''invalid direct trace payload''))
      else if int (length encodedTrace) > maxStdioFrameProjectionBytes
      then (s, Inl (ErrMsg ''direct trace payload exceeds stdio frame limits''))
      else
        (case validateWriterEpoch s sid (tq_WriterEpoch rq) of
           Inl e \<Rightarrow> (s, Inl e)
         | Inr _ \<Rightarrow> withSession E c sid s (\<lambda>events m s1.
             withReceipt m (tq_CommandID rq) (sameCommand commandDigest EventTraceCommitted) s1
               (case mget (mf_Attempts m) (tq_RunID rq) of
                  None \<Rightarrow> (s1, Inl (ErrMsg ''attempt does not belong to session''))
                | Some attempt \<Rightarrow>
                    (case traceOccurrence E sid attempt event of
                       Inl e \<Rightarrow> (s1, Inl e)
                     | Inr occurrence \<Rightarrow>
                         if isTerminalSessionStatus (sr_Status (mf_Session m)) \<and>
                           \<not> isTerminalCheckpointTrace attempt event
                         then (s1, Inl ErrSessionClosed)
                         else if te_Sequence event \<noteq> i64 (latestTraceSequence attempt + 1)
                         then (s1, Inl ErrMutationConflict)
                         else if tq_ExpectedSequence rq \<noteq> sr_Sequence (mf_Session m)
                         then (s1, Inl ErrSequenceConflict)
                         else
                           (case writeBlob E c sid traceBlob s1 of
                              (s2, Inl e) \<Rightarrow> (s2, Inl e)
                            | (s2, Inr _) \<Rightarrow> appendThenRebuild E c sid events
                                (nextEvent E c sid (tq_WriterEpoch rq) m events (tq_CommandID rq) commandDigest ''''
                                   EventTraceCommitted
                                   (PayTrace \<lparr>tp_RunID = tq_RunID rq, tp_TraceHash = bl_Digest traceBlob,
                                      tp_TraceSequence = te_Sequence event, tp_Occurrence = occurrence\<rparr>)) s2))))))"

subsection \<open>Segment revisions and transitions\<close>

definition revisionPayload :: "revision_request \<Rightarrow> revised_payload" where
  "revisionPayload rq =
     \<lparr>rp_SegmentID = vq_SegmentID rq, rp_RunID = vq_RunID rq,
      rp_ExecutableRevision = vq_ExecutableRevision rq, rp_GraphRevision = vq_GraphRevision rq,
      rp_PlanHash = vq_PlanHash rq, rp_ExecutableSnapshotHash = bl_Digest (vq_ExecutableSnapshot rq),
      rp_GraphHash = bl_Digest (vq_Graph rq), rp_Resolution = vq_Resolution rq, rp_Dispatch = vq_Dispatch rq\<rparr>"

definition CommitSegmentRevision :: "env \<Rightarrow> call \<Rightarrow> revision_request \<Rightarrow> dir_store \<Rightarrow> result" where
  "CommitSegmentRevision E c rq s =
     (let sid = vq_SessionID rq; commandDigest = DigestJSON E (DocRevision (revisionPayload rq)) in
      if cl_Cancelled c then (s, Inl ErrContext)
      else if \<not> list_all (validateUUID E) [sid, vq_CommandID rq, vq_SegmentID rq, vq_RunID rq]
      then (s, Inl notUUID)
      else
        (case validateWriterEpoch s sid (vq_WriterEpoch rq) of
           Inl e \<Rightarrow> (s, Inl e)
         | Inr _ \<Rightarrow>
             if \<not> validateBlob E (vq_ExecutableSnapshot rq) \<or> \<not> validateBlob E (vq_Graph rq)
             then (s, Inl (ErrMsg ''invalid immutable blob''))
             else withSession E c sid s (\<lambda>events m s1.
               let segment = getSegment m (vq_SegmentID rq); attempt = getAttempt m (vq_RunID rq) in
               withReceipt m (vq_CommandID rq) (sameCommand commandDigest EventSegmentRevised) s1
                 (if mget (mf_Segments m) (vq_SegmentID rq) = None
                    \<or> sr_ActiveSegmentID (mf_Session m) \<noteq> vq_SegmentID rq
                    \<or> sr_ActiveRunID (mf_Session m) \<noteq> vq_RunID rq \<or> at_SegmentID attempt \<noteq> vq_SegmentID rq
                  then (s1, Inl (ErrMsg ''segment revision is not for the active attempt''))
                  else if vq_ExpectedSequence rq \<noteq> sr_Sequence (mf_Session m) then (s1, Inl ErrSequenceConflict)
                  else if vq_ExecutableRevision rq \<noteq> i64 (sg_ExecutableRevision segment + 1)
                    \<or> vq_GraphRevision rq \<noteq> i64 (sg_GraphRevision segment + 1)
                    \<or> vq_ExecutableRevision rq \<noteq> vq_GraphRevision rq
                  then (s1, Inl (ErrMsg ''segment revision is not contiguous''))
                  else if \<not> validHash (vq_PlanHash rq)
                  then (s1, Inl (ErrMsg ''segment revision plan hash is invalid''))
                  else
                    (case validateSegmentResolution E (vq_Resolution rq) (vq_WriterEpoch rq) of
                       Inl e \<Rightarrow> (s1, Inl e)
                     | Inr _ \<Rightarrow>
                         if ir_Revision (vq_Resolution rq) \<noteq> i64 (vq_ExecutableRevision rq - 1)
                         then (s1, Inl (ErrMsg ''segment resolution revision does not match segment revision''))
                         else
                           (case validateSegmentRevisionDispatch E (vq_Dispatch rq) (vq_Resolution rq)
                                   (vq_WriterEpoch rq) of
                              Inl e \<Rightarrow> (s1, Inl e)
                            | Inr _ \<Rightarrow>
                                if \<not> scopedArtifactOk E (vq_Resolution rq) (bl_Data (vq_ExecutableSnapshot rq))
                                then (s1, Inl (ErrMsg ''invalid scoped segment snapshot''))
                                else rebuildThenAppend E c sid events
                                  (nextEvent E c sid (vq_WriterEpoch rq) m events (vq_CommandID rq) commandDigest
                                     '''' EventSegmentRevised (PayRevised (revisionPayload rq)))
                                  [vq_ExecutableSnapshot rq, vq_Graph rq] s1))))))"

text \<open>A blob of the request, the last one with the digest, or else of the store.\<close>

definition requestedOrStored ::
  "env \<Rightarrow> call \<Rightarrow> session_dir \<Rightarrow> string \<Rightarrow> json_blob list \<Rightarrow> string \<Rightarrow> serror + string" where
  "requestedOrStored E c d sid blobs digest =
     (case find (\<lambda>b. bl_Digest b = digest) (rev blobs) of
        Some b \<Rightarrow> Inr (bl_Data b)
      | None \<Rightarrow> ReadBlob E c d sid digest)"

definition transitionContextOk ::
  "env \<Rightarrow> call \<Rightarrow> session_dir \<Rightarrow> string \<Rightarrow> transition_record \<Rightarrow> json_blob list \<Rightarrow> serror + unit" where
  "transitionContextOk E c d sid t blobs =
     (if \<not> list_all (validateBlob E) blobs then Inl (ErrMsg ''invalid immutable blob'')
      else andThen (requestedOrStored E c d sid blobs (tr_TargetGraphHash t)) (\<lambda>_.
           andThen (requestedOrStored E c d sid blobs (tr_TargetExecutableSnapshotHash t)) (\<lambda>_.
           andThen (requestedOrStored E c d sid blobs (tr_ContextDigest t)) (\<lambda>contextData.
             validateTransitionContext E t contextData))))"

definition PrepareTransition :: "env \<Rightarrow> call \<Rightarrow> prepare_request \<Rightarrow> dir_store \<Rightarrow> result" where
  "PrepareTransition E c rq s =
     (let sid = hq_SessionID rq; t = hq_Transition rq; sg = hq_TargetSegment rq; attempt = hq_TargetAttempt rq;
          commandDigest = DigestJSON E (DocPrepare
            (t\<lparr>tr_PreparedAt := '''', tr_CommittedAt := '''', tr_AbortedAt := ''''\<rparr>) sg
            (attempt\<lparr>at_StartedAt := '''', at_UpdatedAt := '''', at_CompletedAt := ''''\<rparr>)) in
      if cl_Cancelled c then (s, Inl ErrContext)
      else if \<not> validateUUID E sid \<or> \<not> validateUUID E (hq_CommandID rq) then (s, Inl notUUID)
      else
        (case validateWriterEpoch s sid (hq_WriterEpoch rq) of
           Inl e \<Rightarrow> (s, Inl e)
         | Inr _ \<Rightarrow>
        (case validateTransitionPreparation E
                \<lparr>pp_Transition = t, pp_TargetSegment = sg, pp_TargetAttempt = attempt\<rparr> (hq_Blobs rq) of
           Inl e \<Rightarrow> (s, Inl e)
         | Inr _ \<Rightarrow> withSession E c sid s (\<lambda>events m s1.
             withReceipt m (hq_CommandID rq) (sameCommand commandDigest EventTransitionPrepared) s1
               (let sourceRun = so_RunID (tr_SourceOccurrence t);
                    sourceAttempt = getAttempt m (sr_ActiveRunID (mf_Session m));
                    sourceSegment = getSegment m (tr_SourceSegmentID t) in
                if isTerminalSessionStatus (sr_Status (mf_Session m)) then (s1, Inl ErrSessionClosed)
                else if hq_ExpectedSequence rq \<noteq> sr_Sequence (mf_Session m) then (s1, Inl ErrSequenceConflict)
                else if mget (mf_Transitions m) (tr_TransitionID t) \<noteq> None
                then (s1, Inl (ErrMsg ''transition already exists''))
                else if list_ex (\<lambda>(_, x). tr_SourceSegmentID x = tr_SourceSegmentID t) (mf_Transitions m)
                then (s1, Inl (ErrMsg ''transition source already has a transition''))
                else if sr_ActiveRunID (mf_Session m) \<noteq> sourceRun
                  \<or> sr_ActiveSegmentID (mf_Session m) \<noteq> tr_SourceSegmentID t
                then (s1, Inl (ErrMsg ''transition source is not active''))
                else if at_Status sourceAttempt \<noteq> AttemptStatusHandoffPending
                  \<or> at_SegmentID sourceAttempt \<noteq> tr_SourceSegmentID t
                then (s1, Inl (ErrMsg ''transition source is not paused at handoff''))
                else if sg_Ordinal sg \<noteq> i64 (sg_Ordinal sourceSegment + 1)
                then (s1, Inl (ErrMsg ''target segment ordinal does not follow its source''))
                else if mget (mf_Segments m) (sg_SegmentID sg) \<noteq> None
                then (s1, Inl (ErrMsg ''target segment already exists''))
                else if mget (mf_Attempts m) (at_RunID attempt) \<noteq> None
                then (s1, Inl (ErrMsg ''target attempt already exists''))
                else
                  (case transitionContextOk E c (dirOf s1 sid) sid t (hq_Blobs rq) of
                     Inl e \<Rightarrow> (s1, Inl e)
                   | Inr _ \<Rightarrow> rebuildThenAppend E c sid events
                       (nextEvent E c sid (hq_WriterEpoch rq) m events (hq_CommandID rq) commandDigest ''''
                          EventTransitionPrepared
                          (PayPrepared \<lparr>pp_Transition = t\<lparr>tr_PreparedAt := cl_Now c\<rparr>, pp_TargetSegment = sg,
                             pp_TargetAttempt = attempt\<rparr>))
                       (hq_Blobs rq) s1))))))"

definition CommitTransition :: "env \<Rightarrow> call \<Rightarrow> commit_request \<Rightarrow> dir_store \<Rightarrow> result" where
  "CommitTransition E c rq s =
     (let sid = kq_SessionID rq; i = kq_TransitionID rq; commandDigest = DigestJSON E (DocCommit i) in
      if cl_Cancelled c then (s, Inl ErrContext)
      else if \<not> list_all (validateUUID E) [sid, kq_CommandID rq, i] then (s, Inl notUUID)
      else
        (case validateWriterEpoch s sid (kq_WriterEpoch rq) of
           Inl e \<Rightarrow> (s, Inl e)
         | Inr _ \<Rightarrow> withSession E c sid s (\<lambda>events m s1.
             withReceipt m (kq_CommandID rq) (sameCommand commandDigest EventTransitionCommitted) s1
               (case mget (mf_Transitions m) i of
                  None \<Rightarrow> (s1, Inl (ErrMsg ''transition is not prepared''))
                | Some t \<Rightarrow>
                    let sourceAttempt = getAttempt m (so_RunID (tr_SourceOccurrence t)) in
                    if tr_Status t \<noteq> TransitionStatusPrepared
                    then (s1, Inl (ErrMsg ''transition is not prepared''))
                    else if at_Status sourceAttempt \<noteq> AttemptStatusHandoffPending
                      \<or> at_ExecutionMutationHash sourceAttempt = ''''
                    then (s1, Inl (ErrMsg ''prepared transition source is no longer handoff-pending''))
                    else if kq_ExpectedSequence rq \<noteq> sr_Sequence (mf_Session m)
                    then (s1, Inl ErrSequenceConflict)
                    else
                      (case findPreparedTransition events i of
                         Inr (Some p) \<Rightarrow> rebuildThenAppend E c sid events
                           (nextEvent E c sid (kq_WriterEpoch rq) m events (kq_CommandID rq) commandDigest ''''
                              EventTransitionCommitted
                              (PayCommitted \<lparr>mp_TransitionID = i, mp_TargetSegment = pp_TargetSegment p,
                                 mp_TargetAttempt = pp_TargetAttempt p\<rparr>)) [] s1
                       | _ \<Rightarrow> (s1, Inl (ErrMsg ''prepared transition payload is unavailable'')))))))"

definition AbortTransition :: "env \<Rightarrow> call \<Rightarrow> abort_request \<Rightarrow> dir_store \<Rightarrow> result" where
  "AbortTransition E c rq s =
     (let sid = bq_SessionID rq; i = bq_TransitionID rq;
          commandDigest = DigestJSON E (DocAbort i (bq_Reason rq)) in
      if cl_Cancelled c then (s, Inl ErrContext)
      else if \<not> list_all (validateUUID E) [sid, bq_CommandID rq, i] then (s, Inl notUUID)
      else if trimSpace (bq_Reason rq) = '''' then (s, Inl (ErrMsg ''transition abort reason is required''))
      else
        (case validateWriterEpoch s sid (bq_WriterEpoch rq) of
           Inl e \<Rightarrow> (s, Inl e)
         | Inr _ \<Rightarrow> withSession E c sid s (\<lambda>events m s1.
             withReceipt m (bq_CommandID rq) (sameCommand commandDigest EventTransitionAborted) s1
               (case mget (mf_Transitions m) i of
                  None \<Rightarrow> (s1, Inl (ErrMsg ''only a prepared transition can be aborted''))
                | Some t \<Rightarrow>
                    if tr_Status t \<noteq> TransitionStatusPrepared
                    then (s1, Inl (ErrMsg ''only a prepared transition can be aborted''))
                    else if at_ExecutionMutationHash (getAttempt m (so_RunID (tr_SourceOccurrence t))) \<noteq> ''''
                    then (s1, Inl (ErrMsg ''authoritative source handoff cannot be aborted''))
                    else if bq_ExpectedSequence rq \<noteq> sr_Sequence (mf_Session m)
                    then (s1, Inl ErrSequenceConflict)
                    else rebuildThenAppend E c sid events
                      (nextEvent E c sid (bq_WriterEpoch rq) m events (bq_CommandID rq) commandDigest ''''
                         EventTransitionAborted (PayAborted i (bq_Reason rq))) [] s1))))"

subsection \<open>Reading\<close>

text \<open>
  \<^verbatim>\<open>LoadManifest\<close> drops the cache, scans, rebuilds, primes the cache again and projects the
  manifest, ignoring a failure to do so. The frame cache it also feeds is not part of the model.
\<close>

definition LoadManifest :: "env \<Rightarrow> call \<Rightarrow> string \<Rightarrow> dir_store \<Rightarrow> result" where
  "LoadManifest E c sid s =
     (if cl_Cancelled c then (s, Inl ErrContext)
      else if \<not> validateUUID E sid then (s, Inl notUUID)
      else
        let s1 = invalidateJournalCache sid s in
        (case scanJournal E c sid s1 of
           (Inl e, _) \<Rightarrow> (s1, Inl e)
         | (Inr events, committed) \<Rightarrow>
             (case rebuildManifest E events of
                Inl e \<Rightarrow> (s1, Inl e)
              | Inr m \<Rightarrow> (fst (writeManifest E c m (primeJournalCache E sid events committed s1)), Inr m))))"

definition LoadManifestAtSequence :: "env \<Rightarrow> call \<Rightarrow> string \<Rightarrow> int \<Rightarrow> dir_store \<Rightarrow> result" where
  "LoadManifestAtSequence E c sid n s =
     (if cl_Cancelled c then (s, Inl ErrContext)
      else if \<not> validateUUID E sid then (s, Inl notUUID)
      else if n < 1 then (s, Inl ErrSequenceConflict)
      else
        (case loadEvents E c sid s of
           (s1, Inl e) \<Rightarrow> (s1, Inl e)
         | (s1, Inr events) \<Rightarrow>
             (s1, if n > int (length events) \<or> ev_Sequence (events ! nat (n - 1)) \<noteq> n
                  then Inl ErrSequenceConflict else rebuildManifest E (take (nat n) events))))"

definition ReadEvents ::
  "env \<Rightarrow> call \<Rightarrow> string \<Rightarrow> int \<Rightarrow> dir_store \<Rightarrow> dir_store \<times> (serror + event list)" where
  "ReadEvents E c sid after s =
     (if after < 0 then (s, Inl (ErrMsg ''after sequence cannot be negative''))
      else
        (case loadEvents E c sid s of
           (s1, Inl e) \<Rightarrow> (s1, Inl e)
         | (s1, Inr events) \<Rightarrow> (s1, Inr (dropWhile (\<lambda>ev. ev_Sequence ev \<le> after) events))))"

end
