(* ===== verification/Interfaces.thy ===== *)
theory Interfaces
  imports Prelude
begin

section \<open>Interfaces shared by the components\<close>

text \<open>
  An event-sourced component: a state is what a checked step function makes of a list of
  events, stopping at the first event it rejects. The laws below are all a client needs to
  reason about prefixes, incremental application and invariants.
\<close>

locale event_fold =
  fixes step :: "'s \<Rightarrow> 'e \<Rightarrow> 'err + 's"
    and run :: "'s \<Rightarrow> 'e list \<Rightarrow> 'err + 's"
  assumes run_Nil: "run s [] = Inr s"
    and run_Cons: "run s (e # es) = (case step s e of Inl x \<Rightarrow> Inl x | Inr s' \<Rightarrow> run s' es)"
begin

lemma run_append: "run s (es @ fs) = andThen (run s es) (\<lambda>s'. run s' fs)"
  by (induction es arbitrary: s) (simp_all add: run_Nil run_Cons split: sum.splits)

lemma run_snoc: "run s (es @ [e]) = andThen (run s es) (\<lambda>s'. step s' e)"
  by (cases "run s es") (auto simp: run_append run_Cons run_Nil split: sum.splits)

lemma run_prefix: "run s (es @ fs) = Inr s' \<Longrightarrow> \<exists>s''. run s es = Inr s'' \<and> run s'' fs = Inr s'"
  by (simp add: run_append andThen_Inr_conv)

lemma run_invariant:
  assumes "\<And>s e s'. e \<in> set es \<Longrightarrow> I s \<Longrightarrow> step s e = Inr s' \<Longrightarrow> I s'"
    and "I s" and "run s es = Inr s'"
  shows "I s'"
  using assms
proof (induction es arbitrary: s)
  case Nil
  then show ?case by (simp add: run_Nil)
next
  case (Cons e es)
  from Cons.prems(3) obtain t where t: "step s e = Inr t" and rest: "run t es = Inr s'"
    by (auto simp: run_Cons split: sum.splits)
  have "I t" using Cons.prems(1) [OF _ Cons.prems(2) t] by simp
  show ?case
  proof (rule Cons.IH [OF _ \<open>I t\<close> rest])
    show "\<And>s f s'. f \<in> set es \<Longrightarrow> I s \<Longrightarrow> step s f = Inr s' \<Longrightarrow> I s'"
      using Cons.prems(1) by (meson list.set_intros(2))
  qed
qed

text \<open>A relation kept by every step relates the first and the last state of a run.\<close>

lemma run_relation:
  assumes refl: "\<And>s. R s s" and trans: "\<And>a b c. R a b \<Longrightarrow> R b c \<Longrightarrow> R a c"
    and step: "\<And>s e s'. e \<in> set es \<Longrightarrow> I s \<Longrightarrow> step s e = Inr s' \<Longrightarrow> I s' \<and> R s s'"
    and "I s" and "run s es = Inr s'"
  shows "R s s'"
  using step \<open>I s\<close> \<open>run s es = Inr s'\<close>
proof (induction es arbitrary: s)
  case Nil
  then show ?case by (simp add: run_Nil refl)
next
  case (Cons e es)
  from Cons.prems(3) obtain t where t: "step s e = Inr t" and rest: "run t es = Inr s'"
    by (auto simp: run_Cons split: sum.splits)
  from Cons.prems(1) [of e s t] Cons.prems(2) t have "I t" and "R s t" by simp_all
  moreover have "R t s'"
  proof (rule Cons.IH [OF _ \<open>I t\<close> rest])
    show "\<And>s f s'. f \<in> set es \<Longrightarrow> I s \<Longrightarrow> step s f = Inr s' \<Longrightarrow> I s' \<and> R s s'"
      using Cons.prems(1) by (meson list.set_intros(2))
  qed
  ultimately show ?case using trans by blast
qed

end

text \<open>
  A step system over append-only logs: every step keeps the invariant and every log keeps its
  entries, gaining at most one.
\<close>

locale log_refinement =
  fixes step :: "'s \<Rightarrow> 's \<Rightarrow> bool"
    and log :: "'s \<Rightarrow> 'k \<Rightarrow> 'e list"
    and inv :: "'s \<Rightarrow> bool"
  assumes step_inv: "inv s \<Longrightarrow> step s s' \<Longrightarrow> inv s'"
    and step_log: "inv s \<Longrightarrow> step s s' \<Longrightarrow> log s' k = log s k \<or> (\<exists>e. log s' k = log s k @ [e])"
begin

lemma steps_inv: "step\<^sup>*\<^sup>* s s' \<Longrightarrow> inv s \<Longrightarrow> inv s'"
  by (induction rule: rtranclp_induct) (auto intro: step_inv)

lemma steps_log:
  assumes "step\<^sup>*\<^sup>* s s'" and "inv s"
  shows "\<exists>es. log s' k = log s k @ es"
  using assms(1)
proof (induction rule: rtranclp_induct)
  case base
  show ?case by simp
next
  case (step t u)
  from steps_inv [OF step.hyps(1) assms(2)] step.hyps(2) have "log u k = log t k \<or> (\<exists>e. log u k = log t k @ [e])"
    by (rule step_log)
  with step.IH show ?case by auto
qed

text \<open>An entry that was once in the log stays where it was.\<close>

lemma steps_nth:
  assumes "step\<^sup>*\<^sup>* s s'" and "inv s" and "i < length (log s k)"
  shows "i < length (log s' k) \<and> log s' k ! i = log s k ! i"
  using steps_log [OF assms(1,2), of k] assms(3) by (auto simp: nth_append)

end

end
