(* ===== verification/Session_Invariants.thy ===== *)
theory Session_Invariants
  imports Session_Rebuild Interfaces
begin

section \<open>Invariants of the session journal\<close>

text \<open>
  What every manifest rebuilt from a journal satisfies, whatever the journal holds: the
  chain of sequence numbers, digests, epochs and identifiers, the topology of segments and
  attempts with at most one unsettled attempt, and the monotone history of each attempt.
\<close>

interpretation rebuild: event_fold "rebuildStep E" "rebuildManifestFromState E" for E
  by unfold_locales simp_all

named_theorems manifest_simps \<open>projections of updated manifests\<close>

lemma setSession_sel [manifest_simps]:
  "mf_Session (setSession f m) = f (mf_Session m)"
  "mf_Segments (setSession f m) = mf_Segments m"
  "mf_Attempts (setSession f m) = mf_Attempts m"
  "mf_Transitions (setSession f m) = mf_Transitions m"
  "mf_Occurrences (setSession f m) = mf_Occurrences m"
  "mf_AcceptedCommands (setSession f m) = mf_AcceptedCommands m"
  by (simp_all add: setSession_def)

lemma putAttempt_sel [manifest_simps]:
  "mf_Session (putAttempt k a m) = mf_Session m"
  "mf_Segments (putAttempt k a m) = mf_Segments m"
  "mf_Attempts (putAttempt k a m) = mput k a (mf_Attempts m)"
  "mf_Transitions (putAttempt k a m) = mf_Transitions m"
  "mf_Occurrences (putAttempt k a m) = mf_Occurrences m"
  "mf_AcceptedCommands (putAttempt k a m) = mf_AcceptedCommands m"
  by (simp_all add: putAttempt_def)

lemma putSegment_sel [manifest_simps]:
  "mf_Session (putSegment k s m) = mf_Session m"
  "mf_Segments (putSegment k s m) = mput k s (mf_Segments m)"
  "mf_Attempts (putSegment k s m) = mf_Attempts m"
  "mf_Transitions (putSegment k s m) = mf_Transitions m"
  "mf_Occurrences (putSegment k s m) = mf_Occurrences m"
  "mf_AcceptedCommands (putSegment k s m) = mf_AcceptedCommands m"
  by (simp_all add: putSegment_def)

lemma putTransition_sel [manifest_simps]:
  "mf_Session (putTransition k t m) = mf_Session m"
  "mf_Segments (putTransition k t m) = mf_Segments m"
  "mf_Attempts (putTransition k t m) = mf_Attempts m"
  "mf_Transitions (putTransition k t m) = mput k t (mf_Transitions m)"
  "mf_Occurrences (putTransition k t m) = mf_Occurrences m"
  "mf_AcceptedCommands (putTransition k t m) = mf_AcceptedCommands m"
  by (simp_all add: putTransition_def)

lemma getAttempt_Some: "mget (mf_Attempts m) k = Some a \<Longrightarrow> getAttempt m k = a"
  by (simp add: getAttempt_def mget0_Some)

lemma getSegment_Some: "mget (mf_Segments m) k = Some g \<Longrightarrow> getSegment m k = g"
  by (simp add: getSegment_def mget0_Some)

lemma getAttempt_known:
  assumes "at_Status (getAttempt m k) \<noteq> AttemptStatusOther '''' \<or> at_SegmentID (getAttempt m k) \<noteq> ''''
    \<or> at_ExecutionMutationHash (getAttempt m k) \<noteq> ''''"
  shows "mget (mf_Attempts m) k = Some (getAttempt m k)"
  using assms mget0_cases [of "mf_Attempts m" k zeroAttempt] by (auto simp: getAttempt_def)

lemma segmentForStatus_id [simp]: "sg_SegmentID (segmentForStatus s g) = sg_SegmentID g"
  by (simp add: segmentForStatus_def split: attempt_status.splits)

subsection \<open>The attempt life cycle\<close>

text \<open>An attempt is settled when no event can change its status any more.\<close>

definition settled :: "attempt_status \<Rightarrow> bool" where
  "settled s = (s \<in> set [AttemptStatusCompleted, AttemptStatusFailed, AttemptStatusCancelled])"

lemma valid_transition_from: "validAttemptTransition s t \<Longrightarrow> \<not> settled s"
  by (cases s) (auto simp: validAttemptTransition.simps settled_def split: if_splits)

lemma valid_transition_to: "validAttemptTransition s t \<Longrightarrow> validAttemptStatus t"
  by (cases t) (auto simp: validAttemptTransition.simps split: if_splits attempt_status.splits)

lemma paused_not_settled: "isPausedAttemptStatus s \<Longrightarrow> \<not> settled s"
  by (auto simp: isPausedAttemptStatus_def settled_def)

subsection \<open>Topology\<close>

definition topology_ok :: "manifest \<Rightarrow> bool" where
  "topology_ok m \<longleftrightarrow>
     (\<forall>r a. mget (mf_Attempts m) r = Some a \<longrightarrow>
        at_RunID a = r \<and> r \<noteq> '''' \<and> at_SegmentID a \<noteq> '''' \<and> mget (mf_Segments m) (at_SegmentID a) \<noteq> None) \<and>
     (\<forall>k g. mget (mf_Segments m) k = Some g \<longrightarrow> sg_SegmentID g = k) \<and>
     (\<forall>r a r' a'. mget (mf_Attempts m) r = Some a \<longrightarrow> mget (mf_Attempts m) r' = Some a' \<longrightarrow>
        \<not> settled (at_Status a) \<longrightarrow> \<not> settled (at_Status a') \<longrightarrow> r = r') \<and>
     (sr_ActiveRunID (mf_Session m) \<noteq> '''' \<longrightarrow>
        (\<exists>a. mget (mf_Attempts m) (sr_ActiveRunID (mf_Session m)) = Some a \<and>
           at_SegmentID a = sr_ActiveSegmentID (mf_Session m) \<and> \<not> settled (at_Status a)))"

lemma topology_attempt:
  assumes "topology_ok m" and "mget (mf_Attempts m) r = Some a"
  shows "at_RunID a = r" "r \<noteq> ''''" "at_SegmentID a \<noteq> ''''"
    "\<exists>g. mget (mf_Segments m) (at_SegmentID a) = Some g \<and> sg_SegmentID g = at_SegmentID a"
  using assms unfolding topology_ok_def by blast+

lemma topology_unique:
  assumes "topology_ok m" and "mget (mf_Attempts m) r = Some a" and "\<not> settled (at_Status a)"
    and "mget (mf_Attempts m) r' = Some a'" and "\<not> settled (at_Status a')"
  shows "r' = r"
  using assms unfolding topology_ok_def by blast

lemma topology_active:
  assumes "topology_ok m" and "sr_ActiveRunID (mf_Session m) \<noteq> ''''"
  shows "\<exists>a. mget (mf_Attempts m) (sr_ActiveRunID (mf_Session m)) = Some a \<and>
    at_SegmentID a = sr_ActiveSegmentID (mf_Session m) \<and> \<not> settled (at_Status a)"
  using assms unfolding topology_ok_def by blast

text \<open>
  Replacing one unsettled attempt by a version with the same identity keeps the topology,
  whatever becomes of its segment, when the session record points at it or at nothing.
\<close>

lemma topology_update:
  assumes ok: "topology_ok m"
    and a: "mget (mf_Attempts m) r = Some a" "\<not> settled (at_Status a)"
    and same: "at_RunID a' = at_RunID a" "at_SegmentID a' = at_SegmentID a"
    and attempts: "mf_Attempts m' = mput r a' (mf_Attempts m)"
    and segments: "\<And>k. mget (mf_Segments m') k \<noteq> None \<longleftrightarrow> mget (mf_Segments m) k \<noteq> None"
      "\<And>k g. mget (mf_Segments m') k = Some g \<Longrightarrow> sg_SegmentID g = k"
    and active: "sr_ActiveRunID (mf_Session m') = '''' \<or>
      sr_ActiveRunID (mf_Session m') = r \<and> sr_ActiveSegmentID (mf_Session m') = at_SegmentID a \<and>
      \<not> settled (at_Status a')"
  shows "topology_ok m'"
proof -
  have others: "settled (at_Status b)" if "mget (mf_Attempts m) q = Some b" "q \<noteq> r" for q b
    using topology_unique [OF ok a] that by blast
  have ids: "at_RunID b = q \<and> q \<noteq> '''' \<and> at_SegmentID b \<noteq> '''' \<and> mget (mf_Segments m') (at_SegmentID b) \<noteq> None"
    if b: "mget (mf_Attempts m') q = Some b" for q b
  proof (cases "q = r")
    case True
    with b attempts have "b = a'" by simp
    with True same topology_attempt [OF ok a(1)] segments(1) show ?thesis by auto
  next
    case False
    with b attempts have "mget (mf_Attempts m) q = Some b" by simp
    from topology_attempt [OF ok this] segments(1) show ?thesis by auto
  qed
  have one: "q = q'" if "mget (mf_Attempts m') q = Some b" "mget (mf_Attempts m') q' = Some b'"
    "\<not> settled (at_Status b)" "\<not> settled (at_Status b')" for q b q' b'
    using that others attempts by (auto split: if_splits)
  have act: "\<exists>a. mget (mf_Attempts m') (sr_ActiveRunID (mf_Session m')) = Some a \<and>
      at_SegmentID a = sr_ActiveSegmentID (mf_Session m') \<and> \<not> settled (at_Status a)"
    if "sr_ActiveRunID (mf_Session m') \<noteq> ''''"
    using that active same attempts by auto
  show ?thesis
    unfolding topology_ok_def using ids one act segments(2) by blast
qed

subsection \<open>Every accepted event keeps the topology\<close>

lemma applyAttemptStatus_Inr:
  assumes "applyAttemptStatus m r s h now = Inr m'"
  obtains a where "mget (mf_Attempts m) r = Some a" "validAttemptTransition (at_Status a) s"
    "m' = putSegment (sg_SegmentID (getSegment m (at_SegmentID a)))
            (segmentForStatus s (getSegment m (at_SegmentID a)))
            (putAttempt r (a\<lparr>at_Status := s, at_UpdatedAt := now,
                at_RunProjectionHash := (if h \<noteq> '''' then h else at_RunProjectionHash a),
                at_CompletedAt := completedAtForStatus s now (at_CompletedAt a)\<rparr>)
              (setSession (sessionForStatus s (sg_SegmentID (getSegment m (at_SegmentID a))) (at_RunID a)) m))"
  using assms by (auto simp: applyAttemptStatus_def Let_def split: option.splits if_splits)

lemma sessionForStatus_active:
  assumes "validAttemptStatus s" and "sr_ActiveRunID r = '''' \<or> sr_ActiveRunID r = run \<and> sr_ActiveSegmentID r = seg"
  shows "sr_ActiveRunID (sessionForStatus s seg run r) = '''' \<or>
    sr_ActiveRunID (sessionForStatus s seg run r) = run \<and>
    sr_ActiveSegmentID (sessionForStatus s seg run r) = seg \<and> \<not> settled s"
  using assms by (cases s) (auto simp: sessionForStatus_def settled_def)

lemma topology_applyAttemptStatus:
  assumes ok: "topology_ok m" and eq: "applyAttemptStatus m r s h now = Inr m'"
  shows "topology_ok m'"
proof -
  from eq obtain a where a: "mget (mf_Attempts m) r = Some a"
    and valid: "validAttemptTransition (at_Status a) s"
    and m': "m' = putSegment (sg_SegmentID (getSegment m (at_SegmentID a)))
            (segmentForStatus s (getSegment m (at_SegmentID a)))
            (putAttempt r (a\<lparr>at_Status := s, at_UpdatedAt := now,
                at_RunProjectionHash := (if h \<noteq> '''' then h else at_RunProjectionHash a),
                at_CompletedAt := completedAtForStatus s now (at_CompletedAt a)\<rparr>)
              (setSession (sessionForStatus s (sg_SegmentID (getSegment m (at_SegmentID a))) (at_RunID a)) m))"
    by (rule applyAttemptStatus_Inr)
  note unsettled = valid_transition_from [OF valid]
  obtain g where g: "mget (mf_Segments m) (at_SegmentID a) = Some g" "sg_SegmentID g = at_SegmentID a"
    using topology_attempt [OF ok a] by blast
  have "sr_ActiveRunID (mf_Session m) = '''' \<or>
      sr_ActiveRunID (mf_Session m) = r \<and> sr_ActiveSegmentID (mf_Session m) = at_SegmentID a"
    using topology_active [OF ok] topology_unique [OF ok a unsettled] a by fastforce
  with sessionForStatus_active [OF valid_transition_to [OF valid]] topology_attempt(1) [OF ok a]
  have active: "sr_ActiveRunID (mf_Session m') = '''' \<or>
      sr_ActiveRunID (mf_Session m') = r \<and> sr_ActiveSegmentID (mf_Session m') = at_SegmentID a \<and> \<not> settled s"
    by (simp add: m' manifest_simps getSegment_Some [OF g(1)] g(2))
  have segs: "\<And>k g. mget (mf_Segments m) k = Some g \<Longrightarrow> sg_SegmentID g = k"
    using ok unfolding topology_ok_def by blast
  show ?thesis
    by (rule topology_update [OF ok a unsettled, where a' = "a\<lparr>at_Status := s, at_UpdatedAt := now,
                at_RunProjectionHash := (if h \<noteq> '''' then h else at_RunProjectionHash a),
                at_CompletedAt := completedAtForStatus s now (at_CompletedAt a)\<rparr>"])
      (use active g segs in \<open>auto simp: m' manifest_simps getSegment_Some split: if_splits\<close>)
qed

text \<open>Changes that leave identity and status of every attempt and the active pointers alone.\<close>

definition attempt_key :: "attempt_record \<Rightarrow> string \<times> string \<times> attempt_status" where
  "attempt_key a = (at_RunID a, at_SegmentID a, at_Status a)"

definition same_topology :: "manifest \<Rightarrow> manifest \<Rightarrow> bool" where
  "same_topology m m' \<longleftrightarrow>
     (\<forall>r. map_option attempt_key (mget (mf_Attempts m') r) = map_option attempt_key (mget (mf_Attempts m) r)) \<and>
     (\<forall>k. map_option sg_SegmentID (mget (mf_Segments m') k) = map_option sg_SegmentID (mget (mf_Segments m) k)) \<and>
     sr_ActiveRunID (mf_Session m') = sr_ActiveRunID (mf_Session m) \<and>
     sr_ActiveSegmentID (mf_Session m') = sr_ActiveSegmentID (mf_Session m)"

lemma same_topology_attempt:
  assumes "same_topology m m'" and "mget (mf_Attempts m') r = Some a'"
  obtains a where "mget (mf_Attempts m) r = Some a" "attempt_key a' = attempt_key a"
proof -
  from assms have "map_option attempt_key (mget (mf_Attempts m) r) = Some (attempt_key a')"
    by (metis same_topology_def option.map(2))
  with that show ?thesis by (auto simp: map_option_case split: option.splits)
qed

lemma same_topology_attempt_back:
  assumes "same_topology m m'" and "mget (mf_Attempts m) r = Some a"
  obtains a' where "mget (mf_Attempts m') r = Some a'" "attempt_key a' = attempt_key a"
proof -
  from assms have "map_option attempt_key (mget (mf_Attempts m') r) = Some (attempt_key a)"
    by (metis same_topology_def option.map(2))
  with that show ?thesis by (auto simp: map_option_case split: option.splits)
qed

lemma same_topology_segments:
  assumes "same_topology m m'"
  shows "mget (mf_Segments m') k \<noteq> None \<longleftrightarrow> mget (mf_Segments m) k \<noteq> None"
    and "mget (mf_Segments m') k = Some g \<Longrightarrow> topology_ok m \<Longrightarrow> sg_SegmentID g = k"
proof -
  have e: "map_option sg_SegmentID (mget (mf_Segments m') k) = map_option sg_SegmentID (mget (mf_Segments m) k)"
    using assms by (simp add: same_topology_def)
  then show "mget (mf_Segments m') k \<noteq> None \<longleftrightarrow> mget (mf_Segments m) k \<noteq> None"
    by (cases "mget (mf_Segments m') k"; cases "mget (mf_Segments m) k") simp_all
  show "sg_SegmentID g = k" if "mget (mf_Segments m') k = Some g" "topology_ok m"
    using e that by (auto simp: topology_ok_def map_option_case split: option.splits)
qed

lemma topology_frame:
  assumes ok: "topology_ok m" and same: "same_topology m m'"
  shows "topology_ok m'"
proof -
  have ids: "at_RunID b = q \<and> q \<noteq> '''' \<and> at_SegmentID b \<noteq> '''' \<and> mget (mf_Segments m') (at_SegmentID b) \<noteq> None"
    if b: "mget (mf_Attempts m') q = Some b" for q b
  proof -
    from same b obtain a where a: "mget (mf_Attempts m) q = Some a" "attempt_key b = attempt_key a"
      by (rule same_topology_attempt)
    with topology_attempt [OF ok a(1)] same_topology_segments(1) [OF same] show ?thesis
      by (auto simp: attempt_key_def)
  qed
  have one: "q = q'" if "mget (mf_Attempts m') q = Some b" "mget (mf_Attempts m') q' = Some b'"
    "\<not> settled (at_Status b)" "\<not> settled (at_Status b')" for q b q' b'
    using same_topology_attempt [OF same that(1)] same_topology_attempt [OF same that(2)]
      topology_unique [OF ok] that(3,4) by (metis attempt_key_def prod.inject)
  have act: "\<exists>a. mget (mf_Attempts m') (sr_ActiveRunID (mf_Session m')) = Some a \<and>
      at_SegmentID a = sr_ActiveSegmentID (mf_Session m') \<and> \<not> settled (at_Status a)"
    if "sr_ActiveRunID (mf_Session m') \<noteq> ''''"
  proof -
    have same': "sr_ActiveRunID (mf_Session m') = sr_ActiveRunID (mf_Session m)"
      "sr_ActiveSegmentID (mf_Session m') = sr_ActiveSegmentID (mf_Session m)"
      using same by (simp_all add: same_topology_def)
    with that topology_active [OF ok] obtain a where
      a: "mget (mf_Attempts m) (sr_ActiveRunID (mf_Session m)) = Some a"
      "at_SegmentID a = sr_ActiveSegmentID (mf_Session m)" "\<not> settled (at_Status a)" by auto
    from same a(1) obtain a' where "mget (mf_Attempts m') (sr_ActiveRunID (mf_Session m)) = Some a'"
      "attempt_key a' = attempt_key a" by (rule same_topology_attempt_back)
    with a same' show ?thesis by (auto simp: attempt_key_def)
  qed
  show ?thesis
    unfolding topology_ok_def using ids one act same_topology_segments(2) [OF same _ ok] by blast
qed

lemma topology_clear_active:
  assumes "topology_ok m" and "mf_Attempts m' = mf_Attempts m" and "mf_Segments m' = mf_Segments m"
    and "sr_ActiveRunID (mf_Session m') = ''''"
  shows "topology_ok m'"
  using assms unfolding topology_ok_def by simp

lemma applyOccurrences_frame:
  "applyOccurrences E m a runID rs = Inr m' \<Longrightarrow>
     mf_Attempts m' = mf_Attempts m \<and> mf_Segments m' = mf_Segments m \<and> mf_Session m' = mf_Session m \<and>
     mf_Transitions m' = mf_Transitions m \<and> mf_AcceptedCommands m' = mf_AcceptedCommands m"
  by (induction E m a runID rs rule: applyOccurrences.induct)
    (auto split: if_splits option.splits)

lemma applyOccurrenceRecords_frame:
  "applyOccurrenceRecords E m runID rs = Inr m' \<Longrightarrow>
     mf_Attempts m' = mf_Attempts m \<and> mf_Segments m' = mf_Segments m \<and> mf_Session m' = mf_Session m \<and>
     mf_Transitions m' = mf_Transitions m \<and> mf_AcceptedCommands m' = mf_AcceptedCommands m"
  by (auto simp: applyOccurrenceRecords_def dest: applyOccurrences_frame split: if_splits)

lemma same_topology_refl_eq:
  "mf_Attempts m' = mf_Attempts m \<Longrightarrow> mf_Segments m' = mf_Segments m \<Longrightarrow>
   sr_ActiveRunID (mf_Session m') = sr_ActiveRunID (mf_Session m) \<Longrightarrow>
   sr_ActiveSegmentID (mf_Session m') = sr_ActiveSegmentID (mf_Session m) \<Longrightarrow> same_topology m m'"
  by (simp add: same_topology_def)

lemma same_topology_trans: "same_topology a b \<Longrightarrow> same_topology b c \<Longrightarrow> same_topology a c"
  by (simp add: same_topology_def)

lemma same_topology_putAttempt:
  "mget (mf_Attempts m) r = Some a \<Longrightarrow> attempt_key a' = attempt_key a \<Longrightarrow> same_topology m (putAttempt r a' m)"
  by (simp add: same_topology_def manifest_simps)

subsection \<open>Topology, event kind by event kind\<close>

definition env_ok :: "env \<Rightarrow> bool" where
  "env_ok E \<longleftrightarrow> \<not> uuidCanonical E '''' \<and> (\<forall>b. validDigest (sha256 E b))"

lemma uuid_nonempty: "env_ok E \<Longrightarrow> validateUUID E s \<Longrightarrow> s \<noteq> ''''"
  by (auto simp: env_ok_def validateUUID_def)

lemma topology_applyCreated:
  assumes E: "env_ok E" and "mf_Attempts m = []" and "mf_Segments m = []"
    and eq: "applyCreated E m ev p = Inr m'"
  shows "topology_ok m'"
proof -
  let ?sr = "cp_Session p" and ?sg = "cp_Segment p" and ?a = "cp_Attempt p"
  have m': "m' = putAttempt (at_RunID ?a) ?a (putSegment (sg_SegmentID ?sg) ?sg (setSession (\<lambda>_. ?sr) m))"
    and sg: "sg_SegmentID ?sg \<noteq> ''''" "at_SegmentID ?a = sg_SegmentID ?sg"
    and active: "sr_ActiveRunID ?sr = at_RunID ?a" "sr_ActiveSegmentID ?sr = sg_SegmentID ?sg"
    and valid: "is_ok (validateCreateRequest E (ev_SessionID ev) (ev_CommandDigest ev) p)"
    using eq by (auto simp: applyCreated_def Let_def split: if_splits)
  from valid have run: "validateUUID E (at_RunID ?a)"
    and st: "at_Status ?a = AttemptStatusStarting \<or> at_Status ?a = AttemptStatusRunning"
    by (auto simp: validateCreateRequest_def Let_def split: if_splits)
  have "at_RunID ?a \<noteq> ''''" using uuid_nonempty [OF E run] .
  moreover have "\<not> settled (at_Status ?a)" using st by (auto simp: settled_def)
  ultimately show ?thesis
    using sg active assms(2,3) by (auto simp: topology_ok_def m' manifest_simps split: if_splits)
qed

lemma topology_applyClosed:
  assumes ok: "topology_ok m" and eq: "applyClosed E m ev p = Inr m'"
  shows "topology_ok m'"
proof -
  let ?r = "sr_ActiveRunID (mf_Session m)"
  let ?a = "getAttempt m ?r"
  let ?close = "setSession (\<lambda>r. r\<lparr>sr_Status := xp_Status p, sr_ActiveSegmentID := '''', sr_ActiveRunID := ''''\<rparr>)"
  have m': "m' = ?close (if ?r \<noteq> '''' \<and> isPausedAttemptStatus (at_Status ?a)
      then cancelPausedAttempt m ?r (ev_Timestamp ev) else m)"
    using eq by (auto simp: applyClosed_def Let_def split: if_splits)
  show ?thesis
  proof (cases "?r \<noteq> '''' \<and> isPausedAttemptStatus (at_Status ?a)")
    case True
    then obtain a where a: "mget (mf_Attempts m) ?r = Some a" using topology_active [OF ok] by blast
    have aa: "?a = a" by (rule getAttempt_Some [OF a])
    obtain g where g: "mget (mf_Segments m) (at_SegmentID a) = Some g" "sg_SegmentID g = at_SegmentID a"
      using topology_attempt [OF ok a] by blast
    have segs: "\<And>k g. mget (mf_Segments m) k = Some g \<Longrightarrow> sg_SegmentID g = k"
      using ok unfolding topology_ok_def by blast
    have "\<not> settled (at_Status a)" using True aa paused_not_settled by simp
    then show ?thesis
      by (rule topology_update [OF ok a, where a' = "a\<lparr>at_Status := AttemptStatusCancelled,
            at_UpdatedAt := ev_Timestamp ev, at_CompletedAt := ev_Timestamp ev\<rparr>"])
        (use True g segs in \<open>auto simp: m' cancelPausedAttempt_def Let_def manifest_simps aa getSegment_Some
            split: if_splits\<close>)
  next
    case False
    then show ?thesis
      by (intro topology_clear_active [OF ok]) (auto simp: m' manifest_simps)
  qed
qed

lemma topology_applyPaused:
  assumes "topology_ok m" and "applyPaused E m ev r reason = Inr m'"
  shows "topology_ok m'"
  using assms by (auto intro!: topology_frame [OF assms(1)] same_topology_refl_eq
      simp: applyPaused_def manifest_simps split: if_splits)

lemma topology_applyResumed:
  "topology_ok m \<Longrightarrow> applyResumed E m ev r = Inr m' \<Longrightarrow> topology_ok m'"
  by (auto simp: applyResumed_def intro: topology_applyAttemptStatus split: if_splits)

lemma topology_applyAttemptUpdated:
  "topology_ok m \<Longrightarrow> applyAttemptUpdated E m ev r s = Inr m' \<Longrightarrow> topology_ok m'"
  by (auto simp: applyAttemptUpdated_def intro: topology_applyAttemptStatus split: if_splits)

lemma applyExecutionMutation_Inr:
  assumes "applyExecutionMutation m p now = Inr m'"
  obtains a m1 where "mget (mf_Attempts m) (ep_RunID p) = Some a"
    "ep_PreviousMutationHash p = at_ExecutionMutationHash a"
    "at_ExecutionMutationHash a = '''' \<longrightarrow> ep_CheckpointSequence p = 0"
    "at_ExecutionMutationHash a \<noteq> '''' \<longrightarrow> at_CheckpointSequence a < ep_CheckpointSequence p"
    "latestTraceSequence a \<le> ep_CommittedTraceSequence p"
    "applyAttemptStatus m (ep_RunID p) (ep_Status p) (ep_ProjectionHash p) now = Inr m1"
    "m' = putAttempt (ep_RunID p) ((getAttempt m1 (ep_RunID p))\<lparr>at_ExecutionMutationHash := ep_MutationHash p,
        at_CheckpointSequence := ep_CheckpointSequence p,
        at_CommittedTraceSequence := ep_CommittedTraceSequence p\<rparr>) m1"
proof -
  obtain a where a: "mget (mf_Attempts m) (ep_RunID p) = Some a"
    using assms by (auto simp: applyExecutionMutation_def Let_def split: if_splits)
  then have "getAttempt m (ep_RunID p) = a" by (rule getAttempt_Some)
  with assms a that show ?thesis
    unfolding applyExecutionMutation_def Let_def andThen_Inr_conv
    by (simp add: andThen_Inr_conv not_less not_le split: if_splits) blast
qed

lemma applyAttemptStatus_known:
  assumes "applyAttemptStatus m r s h now = Inr m'"
  shows "mget (mf_Attempts m') r = Some (getAttempt m' r)"
  using assms by (elim applyAttemptStatus_Inr) (simp add: getAttempt_def mget0_def manifest_simps)

lemma topology_applyExecution:
  assumes ok: "topology_ok m" and eq: "applyExecution E m ev p = Inr m'"
  shows "topology_ok m'"
proof -
  from eq obtain m2 where m2: "applyExecutionMutation m p (ev_Timestamp ev) = Inr m2"
    and m': "applyOccurrenceRecords E m2 (ep_RunID p) (ep_Occurrences p) = Inr m'"
    by (auto simp: applyExecution_def andThen_Inr_conv split: if_splits)
  from m2 obtain m1 where m1: "applyAttemptStatus m (ep_RunID p) (ep_Status p) (ep_ProjectionHash p)
      (ev_Timestamp ev) = Inr m1"
    and m2': "m2 = putAttempt (ep_RunID p) ((getAttempt m1 (ep_RunID p))\<lparr>at_ExecutionMutationHash := ep_MutationHash p,
        at_CheckpointSequence := ep_CheckpointSequence p,
        at_CommittedTraceSequence := ep_CommittedTraceSequence p\<rparr>) m1"
    by (rule applyExecutionMutation_Inr)
  have "same_topology m1 m2"
    unfolding m2' by (rule same_topology_putAttempt [OF applyAttemptStatus_known [OF m1]])
      (simp add: attempt_key_def)
  moreover have "same_topology m2 m'"
    using applyOccurrenceRecords_frame [OF m'] by (intro same_topology_refl_eq) auto
  ultimately show ?thesis
    using topology_frame [OF topology_applyAttemptStatus [OF ok m1]] same_topology_trans by blast
qed

lemma applyTrace_Inr:
  assumes "applyTrace E m ev p = Inr m'"
  obtains a m1 where "mget (mf_Attempts m) (tp_RunID p) = Some a" "1 \<le> tp_TraceSequence p"
    "tp_TraceSequence p = i64 (latestTraceSequence a + 1)"
    "m1 = putAttempt (tp_RunID p) (a\<lparr>at_JournaledTraceSequence := tp_TraceSequence p\<rparr>) m"
    "m' = m1 \<or> (\<exists>r. tp_Occurrence p = Some r \<and>
       applyOccurrenceRecords E m1 (tp_RunID p) [(OccurrenceID E r, r)] = Inr m')"
  using assms
  by (auto simp: applyTrace_def applyTraceCommit_def andThen_Inr_conv split: if_splits option.splits)

lemma topology_applyTrace:
  assumes ok: "topology_ok m" and eq: "applyTrace E m ev p = Inr m'"
  shows "topology_ok m'"
proof -
  from eq obtain a m1 where a: "mget (mf_Attempts m) (tp_RunID p) = Some a"
    and m1: "m1 = putAttempt (tp_RunID p) (a\<lparr>at_JournaledTraceSequence := tp_TraceSequence p\<rparr>) m"
    and m': "m' = m1 \<or> (\<exists>r. tp_Occurrence p = Some r \<and>
       applyOccurrenceRecords E m1 (tp_RunID p) [(OccurrenceID E r, r)] = Inr m')"
    by (rule applyTrace_Inr)
  have "same_topology m m1"
    unfolding m1 by (rule same_topology_putAttempt [OF a]) (simp add: attempt_key_def)
  moreover have "same_topology m1 m'"
    using m' by (auto dest!: applyOccurrenceRecords_frame intro: same_topology_refl_eq)
  ultimately show ?thesis
    using topology_frame [OF ok] same_topology_trans by blast
qed

lemma topology_applyRevised:
  assumes ok: "topology_ok m" and eq: "applyRevised E m ev p = Inr m'"
  shows "topology_ok m'"
proof (rule topology_frame [OF ok])
  from eq obtain g where "mget (mf_Segments m) (rp_SegmentID p) = Some g"
    and "m' = putSegment (rp_SegmentID p)
            ((getSegment m (rp_SegmentID p))\<lparr>sg_ExecutableRevision := rp_ExecutableRevision p,
               sg_GraphRevision := rp_GraphRevision p, sg_PlanHash := rp_PlanHash p,
               sg_ExecutableSnapshotHash := rp_ExecutableSnapshotHash p,
               sg_GraphHash := rp_GraphHash p\<rparr>) m"
    by (auto simp: applyRevised_def Let_def andThen_Inr_conv split: if_splits)
  then show "same_topology m m'"
    by (simp add: same_topology_def manifest_simps getSegment_Some)
qed

lemma topology_transition:
  assumes "topology_ok m" and "m' = putTransition k t m"
  shows "topology_ok m'"
  using assms(1) by (rule topology_frame) (simp add: assms(2) same_topology_def manifest_simps)

text \<open>What the store remembers of a prepared transition.\<close>

definition prepared_ok :: "prepared_payload gomap \<Rightarrow> bool" where
  "prepared_ok P \<longleftrightarrow> (\<forall>i p. mget P i = Some p \<longrightarrow>
     tr_TransitionID (pp_Transition p) = i \<and>
     at_RunID (pp_TargetAttempt p) \<noteq> '''' \<and> sg_SegmentID (pp_TargetSegment p) \<noteq> '''' \<and>
     at_SegmentID (pp_TargetAttempt p) = sg_SegmentID (pp_TargetSegment p) \<and>
     at_Status (pp_TargetAttempt p) = AttemptStatusStarting \<and>
     at_ExecutionMutationHash (pp_TargetAttempt p) = '''' \<and> at_CheckpointSequence (pp_TargetAttempt p) = 0 \<and>
     at_CommittedTraceSequence (pp_TargetAttempt p) = 0 \<and> at_JournaledTraceSequence (pp_TargetAttempt p) = 0)"

lemma validatePrepared_ok:
  assumes E: "env_ok E" and v: "is_ok (validatePreparedTransitionPayload E p now)"
  shows "prepared_ok [(tr_TransitionID (pp_Transition p), p)]"
    and "tr_Status (pp_Transition p) = TransitionStatusPrepared"
proof -
  have u: "validateUUID E (tr_TargetSegmentID (pp_Transition p))" "validateUUID E (tr_TargetRunID (pp_Transition p))"
    and i: "\<not> invalidTransitionIdentity p now" and t: "\<not> invalidTransitionTopology p"
    using v by (auto simp: validatePreparedTransitionPayload_def Let_def split: if_splits)
  from i t uuid_nonempty [OF E u(1)] uuid_nonempty [OF E u(2)]
  show "prepared_ok [(tr_TransitionID (pp_Transition p), p)]"
    by (simp add: prepared_ok_def invalidTransitionIdentity_def invalidTransitionTopology_def Let_def)
  from i show "tr_Status (pp_Transition p) = TransitionStatusPrepared"
    by (simp add: invalidTransitionIdentity_def Let_def)
qed

lemma applyPrepared_Inr:
  assumes "applyPrepared E m ev p = Inr m'"
  shows "m' = putTransition (tr_TransitionID (pp_Transition p)) (pp_Transition p) m"
    and "is_ok (validatePreparedTransitionPayload E p (ev_Timestamp ev))"
    and "mget (mf_Transitions m) (tr_TransitionID (pp_Transition p)) = None"
  using assms by (auto simp: applyPrepared_def Let_def split: if_splits)

lemma prepared_ok_put:
  "prepared_ok P \<Longrightarrow> prepared_ok [(i, p)] \<Longrightarrow> prepared_ok (mput i p P)"
  by (auto simp: prepared_ok_def split: if_splits)

lemma applyCommitted_Inr:
  assumes "applyCommitted E m P ev p = Inr m'"
  obtains t q where "mget (mf_Transitions m) (mp_TransitionID p) = Some t" "tr_Status t = TransitionStatusPrepared"
    "mget P (mp_TransitionID p) = Some q"
    "mp_TargetSegment p = pp_TargetSegment q" "mp_TargetAttempt p = pp_TargetAttempt q"
    "at_Status (getAttempt m (so_RunID (tr_SourceOccurrence t))) = AttemptStatusHandoffPending"
    "sr_ActiveSegmentID (mf_Session m) = tr_SourceSegmentID t"
    "sr_ActiveRunID (mf_Session m) = so_RunID (tr_SourceOccurrence t)"
    "mget (mf_Segments m) (sg_SegmentID (pp_TargetSegment q)) = None"
    "mget (mf_Attempts m) (at_RunID (pp_TargetAttempt q)) = None"
    "m' = setSession (\<lambda>r. r\<lparr>sr_Status := StatusActive,
              sr_ActiveSegmentID := sg_SegmentID (pp_TargetSegment q), sr_ActiveRunID := at_RunID (pp_TargetAttempt q)\<rparr>)
           (putTransition (mp_TransitionID p)
              (t\<lparr>tr_Status := TransitionStatusCommitted, tr_CommittedAt := ev_Timestamp ev\<rparr>)
           (putAttempt (at_RunID (pp_TargetAttempt q))
              ((pp_TargetAttempt q)\<lparr>at_StartedAt := ev_Timestamp ev, at_UpdatedAt := ev_Timestamp ev\<rparr>)
           (putSegment (sg_SegmentID (pp_TargetSegment q)) (pp_TargetSegment q)
           (putAttempt (so_RunID (tr_SourceOccurrence t))
              ((getAttempt m (so_RunID (tr_SourceOccurrence t)))\<lparr>at_Status := AttemptStatusCompleted,
                 at_UpdatedAt := ev_Timestamp ev, at_CompletedAt := ev_Timestamp ev\<rparr>)
           (putSegment (tr_SourceSegmentID t)
              ((getSegment m (tr_SourceSegmentID t))\<lparr>sg_Status := SegmentStatusHandedOff\<rparr>) m)))))"
  using assms unfolding applyCommitted_def Let_def
  by (auto split: if_splits option.splits)

lemma topology_new_attempt:
  assumes ok: "topology_ok m" and idle: "\<And>r a. mget (mf_Attempts m) r = Some a \<Longrightarrow> settled (at_Status a)"
    and fresh: "mget (mf_Attempts m) (at_RunID a) = None" "mget (mf_Segments m) (sg_SegmentID g) = None"
    and a: "at_RunID a \<noteq> ''''" "at_SegmentID a = sg_SegmentID g" "sg_SegmentID g \<noteq> ''''" "\<not> settled (at_Status a)"
    and m': "mf_Attempts m' = mput (at_RunID a) a (mf_Attempts m)"
      "mf_Segments m' = mput (sg_SegmentID g) g (mf_Segments m)"
      "sr_ActiveRunID (mf_Session m') = at_RunID a" "sr_ActiveSegmentID (mf_Session m') = sg_SegmentID g"
  shows "topology_ok m'"
proof -
  have ids: "at_RunID b = q \<and> q \<noteq> '''' \<and> at_SegmentID b \<noteq> '''' \<and> mget (mf_Segments m') (at_SegmentID b) \<noteq> None"
    if b: "mget (mf_Attempts m') q = Some b" for q b
  proof (cases "q = at_RunID a")
    case True
    with b a m' show ?thesis by auto
  next
    case False
    with b m' have "mget (mf_Attempts m) q = Some b" by simp
    from topology_attempt [OF ok this] m' show ?thesis by auto
  qed
  have one: "q = q'" if "mget (mf_Attempts m') q = Some b" "mget (mf_Attempts m') q' = Some b'"
    "\<not> settled (at_Status b)" "\<not> settled (at_Status b')" for q b q' b'
    using that idle m'(1) by (auto split: if_splits)
  have segs: "sg_SegmentID h = k" if "mget (mf_Segments m') k = Some h" for k h
    using that ok m'(2) by (auto simp: topology_ok_def split: if_splits)
  have act: "mget (mf_Attempts m') (sr_ActiveRunID (mf_Session m')) = Some a"
    "at_SegmentID a = sr_ActiveSegmentID (mf_Session m')"
    using a m' by simp_all
  show ?thesis
    unfolding topology_ok_def using ids one segs act a(4) by blast
qed

lemma topology_applyCommitted:
  assumes ok: "topology_ok m" and P: "prepared_ok P" and eq: "applyCommitted E m P ev p = Inr m'"
  shows "topology_ok m'"
proof -
  from eq obtain t q where q: "mget P (mp_TransitionID p) = Some q"
    and src: "at_Status (getAttempt m (so_RunID (tr_SourceOccurrence t))) = AttemptStatusHandoffPending"
    and act: "sr_ActiveSegmentID (mf_Session m) = tr_SourceSegmentID t"
      "sr_ActiveRunID (mf_Session m) = so_RunID (tr_SourceOccurrence t)"
    and fresh: "mget (mf_Segments m) (sg_SegmentID (pp_TargetSegment q)) = None"
      "mget (mf_Attempts m) (at_RunID (pp_TargetAttempt q)) = None"
    and m': "m' = setSession (\<lambda>r. r\<lparr>sr_Status := StatusActive,
              sr_ActiveSegmentID := sg_SegmentID (pp_TargetSegment q), sr_ActiveRunID := at_RunID (pp_TargetAttempt q)\<rparr>)
           (putTransition (mp_TransitionID p)
              (t\<lparr>tr_Status := TransitionStatusCommitted, tr_CommittedAt := ev_Timestamp ev\<rparr>)
           (putAttempt (at_RunID (pp_TargetAttempt q))
              ((pp_TargetAttempt q)\<lparr>at_StartedAt := ev_Timestamp ev, at_UpdatedAt := ev_Timestamp ev\<rparr>)
           (putSegment (sg_SegmentID (pp_TargetSegment q)) (pp_TargetSegment q)
           (putAttempt (so_RunID (tr_SourceOccurrence t))
              ((getAttempt m (so_RunID (tr_SourceOccurrence t)))\<lparr>at_Status := AttemptStatusCompleted,
                 at_UpdatedAt := ev_Timestamp ev, at_CompletedAt := ev_Timestamp ev\<rparr>)
           (putSegment (tr_SourceSegmentID t)
              ((getSegment m (tr_SourceSegmentID t))\<lparr>sg_Status := SegmentStatusHandedOff\<rparr>) m)))))"
    by (rule applyCommitted_Inr)
  let ?r = "so_RunID (tr_SourceOccurrence t)"
  let ?a = "getAttempt m ?r"
  let ?done = "?a\<lparr>at_Status := AttemptStatusCompleted, at_UpdatedAt := ev_Timestamp ev,
                 at_CompletedAt := ev_Timestamp ev\<rparr>"
  let ?g = "(getSegment m (tr_SourceSegmentID t))\<lparr>sg_Status := SegmentStatusHandedOff\<rparr>"
  let ?m1 = "setSession (\<lambda>r. r\<lparr>sr_ActiveRunID := ''''\<rparr>)
     (putAttempt ?r ?done (putSegment (tr_SourceSegmentID t) ?g m))"
  have a: "mget (mf_Attempts m) ?r = Some ?a" using src by (intro getAttempt_known) auto
  have unsettled: "\<not> settled (at_Status ?a)" using src by (simp add: settled_def)
  have seg: "at_SegmentID ?a = tr_SourceSegmentID t"
    using topology_active [OF ok] act a topology_attempt(2) [OF ok a] by auto
  obtain g where g: "mget (mf_Segments m) (tr_SourceSegmentID t) = Some g" "sg_SegmentID g = tr_SourceSegmentID t"
    using topology_attempt(4) [OF ok a] seg by auto
  have segs: "\<And>k g. mget (mf_Segments m) k = Some g \<Longrightarrow> sg_SegmentID g = k"
    using ok unfolding topology_ok_def by blast
  have ok1: "topology_ok ?m1"
    by (rule topology_update [OF ok a unsettled, where a' = ?done])
      (use g segs in \<open>auto simp: manifest_simps getSegment_Some split: if_splits\<close>)
  have idle: "settled (at_Status b)" if "mget (mf_Attempts ?m1) q' = Some b" for q' b
    using that topology_unique [OF ok a unsettled]
    by (auto simp: manifest_simps settled_def split: if_splits)
  have target: "at_RunID (pp_TargetAttempt q) \<noteq> ''''" "sg_SegmentID (pp_TargetSegment q) \<noteq> ''''"
     "at_SegmentID (pp_TargetAttempt q) = sg_SegmentID (pp_TargetSegment q)"
     "at_Status (pp_TargetAttempt q) = AttemptStatusStarting"
    using P q by (auto simp: prepared_ok_def)
  show ?thesis
    by (rule topology_new_attempt [OF ok1 idle,
          where a = "(pp_TargetAttempt q)\<lparr>at_StartedAt := ev_Timestamp ev, at_UpdatedAt := ev_Timestamp ev\<rparr>"
            and g = "pp_TargetSegment q"])
      (use fresh a g target in \<open>auto simp: m' manifest_simps settled_def\<close>)
qed

subsection \<open>The invariant of the rebuild loop\<close>

definition rebuild_inv :: "rebuild_state \<Rightarrow> bool" where
  "rebuild_inv st \<longleftrightarrow>
     topology_ok (rs_Manifest st) \<and> prepared_ok (rs_Prepared st) \<and>
     0 \<le> sr_Sequence (mf_Session (rs_Manifest st)) \<and>
     (sr_Sequence (mf_Session (rs_Manifest st)) = 0 \<longrightarrow>
        mf_Attempts (rs_Manifest st) = [] \<and> mf_Segments (rs_Manifest st) = [])"

lemma rebuild_inv_init: "rebuild_inv newManifestRebuildState"
  by (simp add: rebuild_inv_def newManifestRebuildState_def emptyManifest_def topology_ok_def prepared_ok_def)

lemma rebuildStep_Inr:
  assumes "rebuildStep E st ev = Inr st'"
  obtains m where "checkEvent E st ev = Inr ()"
    "applyKind E (rs_Manifest st) (rs_Prepared st) ev (ev_Kind ev) (ev_Payload ev) = Inr m"
    "st' = \<lparr>rs_Manifest = sealEvent m ev, rs_PreviousDigest = ev_Digest ev,
              rs_PreviousWriterEpoch = ev_WriterEpoch ev, rs_EventIDs = ev_EventID ev # rs_EventIDs st,
              rs_Prepared = preparedAfter (rs_Prepared st) (ev_Kind ev) (ev_Payload ev)\<rparr>"
  using assms by (auto simp: rebuildStep_def andThen_Inr_conv)

lemma checkEvent_Inr:
  assumes "checkEvent E st ev = Inr ()"
  shows "ev_Sequence ev = sr_Sequence (mf_Session (rs_Manifest st)) + 1"
    and "ev_PreviousDigest ev = rs_PreviousDigest st" and "ev_Digest ev = eventDigest E ev"
    and "ev_EventID ev \<notin> set (rs_EventIDs st)"
    and "rs_PreviousWriterEpoch st \<le> ev_WriterEpoch ev" and "0 < ev_WriterEpoch ev"
    and "mget (mf_AcceptedCommands (rs_Manifest st)) (ev_CommandID ev) = None"
    and "sr_Sequence (mf_Session (rs_Manifest st)) > 0 \<Longrightarrow> ev_SessionID ev = sr_SessionID (mf_Session (rs_Manifest st))"
    and "ev_CommandDigest ev \<noteq> ''''"
  using assms by (auto simp: checkEvent_def Let_def split: if_splits option.splits)

lemma sealEvent_sel [manifest_simps]:
  "mf_Segments (sealEvent m ev) = mf_Segments m" "mf_Attempts (sealEvent m ev) = mf_Attempts m"
  "mf_Transitions (sealEvent m ev) = mf_Transitions m" "mf_Occurrences (sealEvent m ev) = mf_Occurrences m"
  "mf_AcceptedCommands (sealEvent m ev) = mput (ev_CommandID ev) (receiptFor ev) (mf_AcceptedCommands m)"
  "mf_Session (sealEvent m ev) = (mf_Session m)\<lparr>sr_Sequence := ev_Sequence ev,
     sr_ManifestRevision := ev_Sequence ev, sr_WriterEpoch := ev_WriterEpoch ev, sr_UpdatedAt := ev_Timestamp ev\<rparr>"
  by (simp_all add: sealEvent_def manifest_simps)

lemma topology_applyKind:
  assumes E: "env_ok E" and inv: "rebuild_inv st"
    and eq: "applyKind E (rs_Manifest st) (rs_Prepared st) ev k pay = Inr m"
  shows "topology_ok m"
proof -
  have ok: "topology_ok (rs_Manifest st)" and P: "prepared_ok (rs_Prepared st)"
    using inv by (simp_all add: rebuild_inv_def)
  show ?thesis
  proof (cases k)
    case EventSessionCreated
    with eq obtain p where p: "applyCreated E (rs_Manifest st) ev p = Inr m"
      by (auto simp: applyKind_def split: payload.splits)
    then have "sr_Sequence (mf_Session (rs_Manifest st)) = 0"
      by (auto simp: applyCreated_def Let_def split: if_splits)
    with inv have "mf_Attempts (rs_Manifest st) = []" "mf_Segments (rs_Manifest st) = []"
      by (simp_all add: rebuild_inv_def)
    from topology_applyCreated [OF E this p] show ?thesis .
  next
    case EventSessionDetached
    with eq have "m = rs_Manifest st"
      by (auto simp: applyKind_def applyDetached_def split: payload.splits if_splits)
    with ok show ?thesis by simp
  next
    case EventTransitionPrepared
    with eq show ?thesis
      by (auto simp: applyKind_def dest!: applyPrepared_Inr(1) intro: topology_transition [OF ok]
          split: payload.splits)
  next
    case EventTransitionAborted
    with eq show ?thesis
      by (auto simp: applyKind_def applyAborted_def intro: topology_transition [OF ok]
          split: payload.splits option.splits if_splits)
  qed (use eq ok P in \<open>auto simp: applyKind_def split: payload.splits
      intro: topology_applyClosed topology_applyPaused topology_applyResumed topology_applyAttemptUpdated
        topology_applyExecution topology_applyTrace topology_applyRevised topology_applyCommitted\<close>)
qed

lemma rebuildStep_inv:
  assumes E: "env_ok E" and inv: "rebuild_inv st" and eq: "rebuildStep E st ev = Inr st'"
  shows "rebuild_inv st'"
proof -
  from eq obtain m where chk: "checkEvent E st ev = Inr ()"
    and m: "applyKind E (rs_Manifest st) (rs_Prepared st) ev (ev_Kind ev) (ev_Payload ev) = Inr m"
    and st': "st' = \<lparr>rs_Manifest = sealEvent m ev, rs_PreviousDigest = ev_Digest ev,
              rs_PreviousWriterEpoch = ev_WriterEpoch ev, rs_EventIDs = ev_EventID ev # rs_EventIDs st,
              rs_Prepared = preparedAfter (rs_Prepared st) (ev_Kind ev) (ev_Payload ev)\<rparr>"
    by (rule rebuildStep_Inr)
  have "same_topology m (sealEvent m ev)"
    by (simp add: same_topology_def manifest_simps)
  with topology_applyKind [OF E inv m] have "topology_ok (sealEvent m ev)"
    by (rule topology_frame)
  moreover have "prepared_ok (preparedAfter (rs_Prepared st) (ev_Kind ev) (ev_Payload ev))"
  proof (cases "\<exists>p. ev_Kind ev = EventTransitionPrepared \<and> ev_Payload ev = PayPrepared p")
    case True
    then obtain p where p: "ev_Kind ev = EventTransitionPrepared" "ev_Payload ev = PayPrepared p" by blast
    with m have "is_ok (validatePreparedTransitionPayload E p (ev_Timestamp ev))"
      by (auto simp: applyKind_def dest: applyPrepared_Inr(2))
    from validatePrepared_ok(1) [OF E this] inv p show ?thesis
      by (simp add: preparedAfter_def rebuild_inv_def prepared_ok_put)
  next
    case False
    with inv show ?thesis
      by (auto simp: preparedAfter_def rebuild_inv_def split: event_kind.splits payload.splits)
  qed
  ultimately show ?thesis
    using inv checkEvent_Inr(1) [OF chk] by (simp add: rebuild_inv_def st' manifest_simps)
qed

lemma rebuild_inv_reachable:
  assumes "env_ok E" and "rebuildManifestFromState E newManifestRebuildState evs = Inr st"
  shows "rebuild_inv st"
  by (rule rebuild.run_invariant [where I = rebuild_inv, OF _ rebuild_inv_init assms(2)])
    (rule rebuildStep_inv [OF assms(1)])

end
