(* ===== verification/Session_History.thy ===== *)
theory Session_History
  imports Session_Invariants
begin

section \<open>The history a session journal records\<close>

text \<open>
  Facts about whole journals that \<^verbatim>\<open>rebuildManifestFromState\<close> accepts: the hash chain, the
  uniqueness of event and command identifiers, the monotone writer epochs, and that what the
  manifest once recorded of an attempt or a command is never taken back.
\<close>

subsection \<open>The chain\<close>

definition chain_ok :: "env \<Rightarrow> event list \<Rightarrow> bool" where
  "chain_ok E evs \<longleftrightarrow>
     (\<forall>i<length evs. ev_Sequence (evs ! i) = int i + 1 \<and> ev_Digest (evs ! i) = eventDigest E (evs ! i) \<and>
        ev_PreviousDigest (evs ! i) = (if i = 0 then '''' else ev_Digest (evs ! (i - 1)))) \<and>
     distinct (map ev_EventID evs) \<and> distinct (map ev_CommandID evs) \<and> sorted (map ev_WriterEpoch evs)"

definition linked :: "env \<Rightarrow> event list \<Rightarrow> rebuild_state \<Rightarrow> bool" where
  "linked E evs st \<longleftrightarrow>
     chain_ok E evs \<and> sr_Sequence (mf_Session (rs_Manifest st)) = int (length evs) \<and>
     sr_ManifestRevision (mf_Session (rs_Manifest st)) = int (length evs) \<and>
     rs_PreviousDigest st = (if evs = [] then '''' else ev_Digest (last evs)) \<and>
     rs_PreviousWriterEpoch st = (if evs = [] then 0 else ev_WriterEpoch (last evs)) \<and>
     rs_EventIDs st = rev (map ev_EventID evs) \<and>
     (\<forall>c. mget (mf_AcceptedCommands (rs_Manifest st)) c \<noteq> None \<longleftrightarrow> c \<in> ev_CommandID ` set evs) \<and>
     (\<forall>ev\<in>set evs. mget (mf_AcceptedCommands (rs_Manifest st)) (ev_CommandID ev) = Some (receiptFor ev))"

lemma applyAttemptStatus_commands:
  "applyAttemptStatus m r s h now = Inr m' \<Longrightarrow> mf_AcceptedCommands m' = mf_AcceptedCommands m"
  by (elim applyAttemptStatus_Inr) (simp add: manifest_simps)

lemma applyKind_commands:
  assumes "applyKind E m P ev k pay = Inr m'"
  shows "mf_AcceptedCommands m' = mf_AcceptedCommands m"
proof (cases k)
  case EventExecutionCommitted
  with assms show ?thesis
    by (auto simp: applyKind_def applyExecution_def andThen_Inr_conv manifest_simps
        dest!: applyOccurrenceRecords_frame applyAttemptStatus_commands
        elim!: applyExecutionMutation_Inr split: payload.splits if_splits)
next
  case EventTraceCommitted
  with assms show ?thesis
    by (auto simp: applyKind_def manifest_simps dest!: applyOccurrenceRecords_frame
        elim!: applyTrace_Inr split: payload.splits)
next
  case EventTransitionCommitted
  with assms show ?thesis
    by (auto simp: applyKind_def manifest_simps elim!: applyCommitted_Inr split: payload.splits)
next
  case EventTransitionPrepared
  with assms show ?thesis
    by (auto simp: applyKind_def manifest_simps dest!: applyPrepared_Inr(1) split: payload.splits)
qed (use assms in \<open>auto simp: applyKind_def applyCreated_def applyClosed_def applyPaused_def applyResumed_def
    applyDetached_def applyAttemptUpdated_def applyRevised_def applyAborted_def cancelPausedAttempt_def Let_def
    manifest_simps andThen_Inr_conv dest!: applyAttemptStatus_commands
    split: payload.splits if_splits option.splits\<close>)

lemma chain_ok_snoc:
  assumes "chain_ok E evs" and "ev_Sequence ev = int (length evs) + 1" and "ev_Digest ev = eventDigest E ev"
    and "ev_PreviousDigest ev = (if evs = [] then '''' else ev_Digest (last evs))"
    and "ev_EventID ev \<notin> ev_EventID ` set evs" and "ev_CommandID ev \<notin> ev_CommandID ` set evs"
    and "evs \<noteq> [] \<Longrightarrow> ev_WriterEpoch (last evs) \<le> ev_WriterEpoch ev"
  shows "chain_ok E (evs @ [ev])"
proof -
  have step: "ev_Sequence ((evs @ [ev]) ! i) = int i + 1 \<and>
      ev_Digest ((evs @ [ev]) ! i) = eventDigest E ((evs @ [ev]) ! i) \<and>
      ev_PreviousDigest ((evs @ [ev]) ! i) = (if i = 0 then '''' else ev_Digest ((evs @ [ev]) ! (i - 1)))"
    if "i < length (evs @ [ev])" for i
  proof (cases "i < length evs")
    case True
    then have "(evs @ [ev]) ! i = evs ! i" "(evs @ [ev]) ! (i - 1) = evs ! (i - 1)" by (simp_all add: nth_append)
    with assms(1) True show ?thesis unfolding chain_ok_def by metis
  next
    case False
    with that have i: "i = length evs" by simp
    have "(evs @ [ev]) ! (i - 1) = last evs" if "evs \<noteq> []"
      using that by (simp add: i nth_append last_conv_nth)
    with assms(2-4) show ?thesis by (simp add: i)
  qed
  have "sorted (map ev_WriterEpoch (evs @ [ev]))"
  proof (cases evs rule: rev_cases)
    case (snoc es e)
    with assms(1,7) show ?thesis by (fastforce simp: chain_ok_def sorted_append)
  qed simp
  moreover have "distinct (map ev_EventID (evs @ [ev]))" "distinct (map ev_CommandID (evs @ [ev]))"
    using assms(1,5,6) by (simp_all add: chain_ok_def)
  ultimately show ?thesis unfolding chain_ok_def using step by blast
qed

lemma linked_run:
  "rebuildManifestFromState E newManifestRebuildState evs = Inr st \<Longrightarrow> linked E evs st"
proof (induction evs arbitrary: st rule: rev_induct)
  case Nil
  then have "st = newManifestRebuildState" by simp
  then show ?case
    by (simp add: linked_def chain_ok_def newManifestRebuildState_def emptyManifest_def)
next
  case (snoc ev evs)
  then obtain st0 where st0: "rebuildManifestFromState E newManifestRebuildState evs = Inr st0"
    and step: "rebuildStep E st0 ev = Inr st"
    by (auto simp: rebuild.run_snoc andThen_Inr_conv)
  from snoc.IH [OF st0] have L: "linked E evs st0" .
  from step obtain m where chk: "checkEvent E st0 ev = Inr ()"
    and m: "applyKind E (rs_Manifest st0) (rs_Prepared st0) ev (ev_Kind ev) (ev_Payload ev) = Inr m"
    and st: "st = \<lparr>rs_Manifest = sealEvent m ev, rs_PreviousDigest = ev_Digest ev,
              rs_PreviousWriterEpoch = ev_WriterEpoch ev, rs_EventIDs = ev_EventID ev # rs_EventIDs st0,
              rs_Prepared = preparedAfter (rs_Prepared st0) (ev_Kind ev) (ev_Payload ev)\<rparr>"
    by (rule rebuildStep_Inr)
  note c = checkEvent_Inr [OF chk]
  have fresh: "ev_CommandID ev \<notin> ev_CommandID ` set evs"
    using c(7) L by (auto simp: linked_def)
  have "chain_ok E (evs @ [ev])"
    by (rule chain_ok_snoc) (use L c fresh in \<open>auto simp: linked_def split: if_splits\<close>)
  then show ?case
    using L c fresh applyKind_commands [OF m]
    by (auto simp: linked_def st manifest_simps)
qed

subsection \<open>Tamper evidence\<close>

text \<open>No two different events of two journals have the same digest.\<close>

definition no_collision :: "env \<Rightarrow> event list \<Rightarrow> event list \<Rightarrow> bool" where
  "no_collision E es fs \<longleftrightarrow>
     (\<forall>e\<in>set es. \<forall>f\<in>set fs. eventDigest E e = eventDigest E f \<longrightarrow> e\<lparr>ev_Digest := ''''\<rparr> = f\<lparr>ev_Digest := ''''\<rparr>)"

lemma event_eq_by_digest:
  assumes "e\<lparr>ev_Digest := ''''\<rparr> = f\<lparr>ev_Digest := ''''\<rparr>" and "ev_Digest e = ev_Digest f"
  shows "e = f"
proof -
  have "e = (e\<lparr>ev_Digest := ''''\<rparr>)\<lparr>ev_Digest := ev_Digest e\<rparr>" by simp
  also have "\<dots> = (f\<lparr>ev_Digest := ''''\<rparr>)\<lparr>ev_Digest := ev_Digest f\<rparr>" using assms by simp
  also have "\<dots> = f" by simp
  finally show ?thesis .
qed

lemma chain_ok_butlast:
  assumes "chain_ok E (es @ [e])"
  shows "chain_ok E es"
proof -
  have "ev_Sequence (es ! i) = int i + 1 \<and> ev_Digest (es ! i) = eventDigest E (es ! i) \<and>
      ev_PreviousDigest (es ! i) = (if i = 0 then '''' else ev_Digest (es ! (i - 1)))" if "i < length es" for i
  proof -
    from that have "(es @ [e]) ! i = es ! i" "(es @ [e]) ! (i - 1) = es ! (i - 1)" "i < length (es @ [e])"
      by (simp_all add: nth_append)
    with assms show ?thesis unfolding chain_ok_def by metis
  qed
  then show ?thesis using assms unfolding chain_ok_def by (simp add: sorted_append)
qed

lemma chain_ok_last:
  assumes "chain_ok E (es @ [e])"
  shows "ev_Digest e = eventDigest E e" and "ev_PreviousDigest e = (if es = [] then '''' else ev_Digest (last es))"
    and "ev_Sequence e = int (length es) + 1"
proof -
  have *: "length es < length (es @ [e])" by simp
  from assms * show "ev_Digest e = eventDigest E e" "ev_Sequence e = int (length es) + 1"
    unfolding chain_ok_def by (metis nth_append_length)+
  have "ev_PreviousDigest ((es @ [e]) ! length es) =
      (if length es = 0 then '''' else ev_Digest ((es @ [e]) ! (length es - 1)))"
    using assms * unfolding chain_ok_def by blast
  then show "ev_PreviousDigest e = (if es = [] then '''' else ev_Digest (last es))"
    by (auto simp: last_conv_nth nth_append)
qed

lemma chain_determined:
  assumes "chain_ok E es" and "chain_ok E fs" and "no_collision E es fs"
    and "es \<noteq> []" and "fs \<noteq> []" and "ev_Digest (last es) = ev_Digest (last fs)"
  shows "es = fs"
  using assms
proof (induction es arbitrary: fs rule: rev_induct)
  case Nil
  then show ?case by simp
next
  case (snoc e es)
  obtain gs f where fs: "fs = gs @ [f]" using snoc.prems(5) by (meson rev_exhaust)
  note e = chain_ok_last [OF snoc.prems(1)]
  note f = chain_ok_last [OF snoc.prems(2) [unfolded fs]]
  from snoc.prems(6) fs have "ev_Digest e = ev_Digest f" by simp
  moreover have "e\<lparr>ev_Digest := ''''\<rparr> = f\<lparr>ev_Digest := ''''\<rparr>"
  proof -
    have "e \<in> set (es @ [e])" "f \<in> set fs" using fs by simp_all
    moreover have "eventDigest E e = eventDigest E f" using \<open>ev_Digest e = ev_Digest f\<close> e(1) f(1) by simp
    ultimately show ?thesis using snoc.prems(3) unfolding no_collision_def by blast
  qed
  ultimately have ef: "e = f" using event_eq_by_digest by blast
  with e(3) f(3) have len: "length es = length gs" by simp
  show ?case
  proof (cases "es = []")
    case True
    with len ef fs show ?thesis by simp
  next
    case False
    with len have "gs \<noteq> []" by auto
    moreover from e(2) f(2) ef False \<open>gs \<noteq> []\<close> have "ev_Digest (last es) = ev_Digest (last gs)" by simp
    moreover have "no_collision E es gs" using snoc.prems(3) fs by (simp add: no_collision_def)
    ultimately have "es = gs"
      using snoc.IH [of gs] chain_ok_butlast [OF snoc.prems(1)] chain_ok_butlast [OF snoc.prems(2) [unfolded fs]] False
      by blast
    with ef fs show ?thesis by simp
  qed
qed

end
