(* ===== verification/Session_Log.thy ===== *)
theory Session_Log
  imports Session_Handlers Session_History
begin

section \<open>The store as an append-only log\<close>

text \<open>
  The abstract view of a session directory is the list of its committed events, and a cache of
  the journal is coherent with it. Every operation of the store keeps the caches coherent, leaves the
  other sessions alone, and either keeps the log or appends one event to it.
\<close>

subsection \<open>The log and coherent caches\<close>

fun lineEvent :: "journal_line \<Rightarrow> event option" where
  "lineEvent (LineEvent ev) = Some ev"
| "lineEvent (LineBad t) = None"

text \<open>Lines without any head file belong to a session whose creation was never committed.\<close>

definition logOf :: "session_dir \<Rightarrow> event list" where
  "logOf d = (if sd_Heads d = [] then []
              else case sd_Journal d of None \<Rightarrow> [] | Some ls \<Rightarrow> List.map_filter lineEvent ls)"

definition ready :: "env \<Rightarrow> dir_store \<Rightarrow> string \<Rightarrow> nat \<Rightarrow> event list \<Rightarrow> rebuild_state \<Rightarrow> bool" where
  "ready E s sid epoch events st \<longleftrightarrow>
     mget (st_JournalCaches s) sid = Some \<lparr>jc_WriterEpoch = epoch, jc_Events = events, jc_Rebuild = st,
        jc_CommittedLines = length events\<rparr> \<and>
     activeWriterEpoch s sid = epoch \<and> epoch \<noteq> 0 \<and> events \<noteq> [] \<and>
     rebuildManifestFromState E newManifestRebuildState events = Inr st \<and>
     sd_Journal (dirOf s sid) = Some (map LineEvent events) \<and> sd_Heads (dirOf s sid) \<noteq> [] \<and>
     (\<forall>ev\<in>set events. ev_SessionID ev = sid)"

definition store_inv :: "env \<Rightarrow> dir_store \<Rightarrow> bool" where
  "store_inv E s \<longleftrightarrow>
     (\<forall>sid. mget (st_JournalCaches s) sid \<noteq> None \<longrightarrow> (\<exists>epoch events st. ready E s sid epoch events st))"

lemma map_filter_LineEvent [simp]: "List.map_filter lineEvent (map LineEvent events) = events"
  by (induction events) (simp_all add: List.map_filter_simps)

lemma ready_log: "ready E s sid epoch events st \<Longrightarrow> logOf (dirOf s sid) = events"
  by (simp add: ready_def logOf_def)

lemma ready_cache:
  "ready E s sid epoch events st \<Longrightarrow> writerJournalCache s sid =
     Some \<lparr>jc_WriterEpoch = epoch, jc_Events = events, jc_Rebuild = st, jc_CommittedLines = length events\<rparr>"
  by (simp add: ready_def writerJournalCache_def)

lemma ready_manifest: "ready E s sid epoch events st \<Longrightarrow> rebuildManifest E events = Inr (rs_Manifest st)"
  by (simp add: ready_def rebuildManifest_def)

lemma ready_manifestForEvents:
  assumes "ready E s sid epoch events st"
  shows "manifestForEvents E s sid events = Inr (rs_Manifest st)"
    and "manifestForEvents E s sid (events @ [ev]) = rebuildManifest E (events @ [ev])"
  using ready_cache [OF assms] assms by (simp_all add: manifestForEvents_def ready_def)

lemma dirOf_setDir [simp]: "dirOf (setDir sid d s) x = (if x = sid then d else dirOf s x)"
  by (simp add: dirOf_def setDir_def)

lemma setDir_sel [simp]:
  "st_JournalCaches (setDir sid d s) = st_JournalCaches s" "st_LeaseEpochs (setDir sid d s) = st_LeaseEpochs s"
  "st_Reservations (setDir sid d s) = st_Reservations s"
  by (simp_all add: setDir_def)

lemma activeWriterEpoch_setDir [simp]: "activeWriterEpoch (setDir sid d s) x = activeWriterEpoch s x"
  by (simp add: activeWriterEpoch_def)

lemma dirOf_cong [simp]:
  "dirOf (s\<lparr>st_JournalCaches := C\<rparr>) x = dirOf s x" "dirOf (s\<lparr>st_LeaseEpochs := L\<rparr>) x = dirOf s x"
  "dirOf (s\<lparr>st_Reservations := R\<rparr>) x = dirOf s x"
  by (simp_all add: dirOf_def)

lemma activeWriterEpoch_cong [simp]:
  "activeWriterEpoch (s\<lparr>st_JournalCaches := C\<rparr>) x = activeWriterEpoch s x"
  "activeWriterEpoch (s\<lparr>st_Reservations := R\<rparr>) x = activeWriterEpoch s x"
  by (simp_all add: activeWriterEpoch_def)

lemma invalidate_sel [simp]:
  "dirOf (invalidateJournalCache sid s) x = dirOf s x"
  "activeWriterEpoch (invalidateJournalCache sid s) x = activeWriterEpoch s x"
  "mget (st_JournalCaches (invalidateJournalCache sid s)) x = (if x = sid then None else mget (st_JournalCaches s) x)"
  "st_Reservations (invalidateJournalCache sid s) = st_Reservations s"
  "st_LeaseEpochs (invalidateJournalCache sid s) = st_LeaseEpochs s"
  by (auto simp: invalidateJournalCache_def)

text \<open>
  What happens to one session does not concern the others, except for manifest projections,
  which are derived data.
\<close>

definition coreDir :: "session_dir \<Rightarrow> session_dir" where
  "coreDir d = d\<lparr>sd_Manifest := None\<rparr>"

lemma coreDir_eq:
  "coreDir d = coreDir d' \<Longrightarrow> sd_Journal d = sd_Journal d'" "coreDir d = coreDir d' \<Longrightarrow> sd_Heads d = sd_Heads d'"
  "coreDir (d\<lparr>sd_Manifest := m\<rparr>) = coreDir d"
  by (cases d; cases d'; simp add: coreDir_def)+

definition others_kept :: "string \<Rightarrow> dir_store \<Rightarrow> dir_store \<Rightarrow> bool" where
  "others_kept sid s s' \<longleftrightarrow>
     (\<forall>x. x \<noteq> sid \<longrightarrow> coreDir (dirOf s' x) = coreDir (dirOf s x) \<and> mget (st_JournalCaches s') x = mget (st_JournalCaches s) x \<and>
        activeWriterEpoch s' x = activeWriterEpoch s x)"

lemma others_kept_refl [simp]: "others_kept sid s s"
  by (simp add: others_kept_def)

lemma others_kept_trans: "others_kept sid a b \<Longrightarrow> others_kept sid b c \<Longrightarrow> others_kept sid a c"
  by (simp add: others_kept_def)

lemma store_inv_other:
  assumes "store_inv E s" and "others_kept sid s s'"
    and "mget (st_JournalCaches s') sid \<noteq> None \<Longrightarrow> \<exists>epoch events st. ready E s' sid epoch events st"
  shows "store_inv E s'"
  unfolding store_inv_def
proof (intro allI impI)
  fix x assume x: "mget (st_JournalCaches s') x \<noteq> None"
  show "\<exists>epoch events st. ready E s' x epoch events st"
  proof (cases "x = sid")
    case True
    with assms(3) x show ?thesis by simp
  next
    case False
    with assms(2) have "coreDir (dirOf s' x) = coreDir (dirOf s x)" "mget (st_JournalCaches s') x = mget (st_JournalCaches s) x"
      "activeWriterEpoch s' x = activeWriterEpoch s x"
      by (simp_all add: others_kept_def)
    moreover from this x assms(1) obtain epoch events st where "ready E s x epoch events st"
      unfolding store_inv_def by metis
    ultimately have "ready E s' x epoch events st"
      using coreDir_eq(1,2) [of "dirOf s' x" "dirOf s x"] by (simp add: ready_def)
    then show ?thesis by blast
  qed
qed

subsection \<open>Scanning and loading\<close>

lemma scanLines_Inr:
  "scanLines E sid n ls = Inr events \<Longrightarrow> ls = map LineEvent events \<and> (\<forall>ev\<in>set events. ev_SessionID ev = sid)"
  by (induction E sid n ls arbitrary: events rule: scanLines.induct)
    (auto simp: andThen_Inr_conv split: if_splits)

lemma scanJournal_Inr:
  assumes "scanJournal E c sid s = (Inr events, n)"
  shows "sd_Journal (dirOf s sid) = Some (map LineEvent events)" and "n = length events"
    and "sd_Heads (dirOf s sid) \<noteq> []" and "events \<noteq> []"
    and "\<exists>st. rebuildManifestFromState E newManifestRebuildState events = Inr st"
    and "\<forall>ev\<in>set events. ev_SessionID ev = sid"
  using assms
  by (auto simp: scanJournal_def Let_def andThen_Inr_conv loadJournalHead_def rebuildManifest_def
      dest!: scanLines_Inr split: if_splits sum.splits option.splits head_file.splits)

lemma primeJournalCache_ready:
  assumes "activeWriterEpoch s sid \<noteq> 0" and "scanJournal E c sid s = (Inr events, n)"
  obtains st where "ready E (primeJournalCache E sid events n s) sid (activeWriterEpoch s sid) events st"
proof -
  note scan = scanJournal_Inr [OF assms(2)]
  from scan(5) obtain st where "rebuildManifestFromState E newManifestRebuildState events = Inr st" by blast
  with scan assms(1) have "ready E (primeJournalCache E sid events n s) sid (activeWriterEpoch s sid) events st"
    by (simp add: ready_def primeJournalCache_def)
  then show thesis by (rule that)
qed

lemma primeJournalCache_kept [simp]:
  "dirOf (primeJournalCache E sid events n s) x = dirOf s x"
  "activeWriterEpoch (primeJournalCache E sid events n s) x = activeWriterEpoch s x"
  "st_Reservations (primeJournalCache E sid events n s) = st_Reservations s"
  "x \<noteq> sid \<Longrightarrow> mget (st_JournalCaches (primeJournalCache E sid events n s)) x = mget (st_JournalCaches s) x"
  by (simp_all add: primeJournalCache_def Let_def split: sum.splits)

lemma store_inv_ready:
  assumes "store_inv E s" and "writerJournalCache s sid = Some cache"
  obtains st where "ready E s sid (jc_WriterEpoch cache) (jc_Events cache) st"
proof -
  from assms(2) have "mget (st_JournalCaches s) sid = Some cache"
    by (auto simp: writerJournalCache_def Let_def split: if_splits option.splits)
  with assms(1) obtain epoch events st where r: "ready E s sid epoch events st"
    unfolding store_inv_def by blast
  moreover from r \<open>mget (st_JournalCaches s) sid = Some cache\<close>
  have "jc_WriterEpoch cache = epoch" "jc_Events cache = events" by (auto simp: ready_def)
  ultimately show thesis using that by simp
qed

lemma loadEvents_kept:
  assumes "loadEvents E c sid s = (s1, r)"
  shows "dirOf s1 x = dirOf s x" "activeWriterEpoch s1 x = activeWriterEpoch s x"
    "x \<noteq> sid \<Longrightarrow> mget (st_JournalCaches s1) x = mget (st_JournalCaches s) x"
    "st_Reservations s1 = st_Reservations s"
  using assms by (auto simp: loadEvents_def split: option.splits prod.splits sum.splits if_splits)

lemma loadEvents_error: "loadEvents E c sid s = (s1, Inl e) \<Longrightarrow> s1 = s"
  by (auto simp: loadEvents_def split: option.splits prod.splits sum.splits if_splits)

lemma loadEvents_ready:
  assumes inv: "store_inv E s" and epoch: "activeWriterEpoch s sid \<noteq> 0"
    and load: "loadEvents E c sid s = (s1, Inr events)"
  obtains st where "ready E s1 sid (activeWriterEpoch s sid) events st"
proof (cases "writerJournalCache s sid")
  case (Some cache)
  with load have "s1 = s" "events = jc_Events cache" by (simp_all add: loadEvents_def)
  moreover obtain st where r: "ready E s sid (jc_WriterEpoch cache) (jc_Events cache) st"
    using store_inv_ready [OF inv Some] .
  moreover from r have "activeWriterEpoch s sid = jc_WriterEpoch cache" by (simp add: ready_def)
  ultimately show thesis using that by metis
next
  case None
  with load obtain n where scan: "scanJournal E c sid s = (Inr events, n)"
    and s1: "s1 = primeJournalCache E sid events n s"
    by (auto simp: loadEvents_def split: prod.splits sum.splits if_splits)
  from primeJournalCache_ready [OF epoch scan] s1 that show thesis by metis
qed

subsection \<open>Appending to a ready session\<close>

text \<open>After a failed append the cache is gone and the log is the old one, or has the event.\<close>

definition append_failed :: "string \<Rightarrow> event list \<Rightarrow> event \<Rightarrow> dir_store \<Rightarrow> bool" where
  "append_failed sid events ev s' \<longleftrightarrow>
     mget (st_JournalCaches s') sid = None \<and>
     (logOf (dirOf s' sid) = events \<or> logOf (dirOf s' sid) = events @ [ev])"

definition truncatedDir :: "session_dir \<Rightarrow> event list \<Rightarrow> session_dir" where
  "truncatedDir d events = d\<lparr>sd_Journal := Some (map LineEvent events), sd_Tail := ''''\<rparr>"

lemma truncatedDir_sel [simp]:
  "sd_Journal (truncatedDir d events) = Some (map LineEvent events)" "sd_Heads (truncatedDir d events) = sd_Heads d"
  "addLine ev (truncatedDir d events) = truncatedDir d (events @ [ev])"
  by (simp_all add: truncatedDir_def addLine_def)

lemma log_truncatedDir [simp]: "sd_Heads d \<noteq> [] \<Longrightarrow> logOf (truncatedDir d events) = events"
  by (simp add: logOf_def)

lemma truncate_ready:
  assumes "ready E s sid epoch events st"
  shows "truncateJournalToCommittedHead E c sid s = (setDir sid (truncatedDir (dirOf s sid) events) s, Inr ())"
  using ready_cache [OF assms] assms
  by (simp add: truncateJournalToCommittedHead_def ready_def truncatedDir_def)

lemma setDir_setDir [simp]: "setDir sid d (setDir sid d' s) = setDir sid d s"
  by (simp add: setDir_def)

lemma writeJournalHead_Inr:
  "writeJournalHead h d = Inr d' \<Longrightarrow>
     sd_Heads d' \<noteq> [] \<and> sd_Journal d' = sd_Journal d \<and> sd_Blobs d' = sd_Blobs d \<and> sd_Epochs d' = sd_Epochs d"
  by (auto simp: writeJournalHead_def split: option.splits head_file.splits if_splits)

lemma advance_ready:
  assumes r: "ready E s sid epoch events st" and ev: "ev_SessionID ev = sid" "ev_WriterEpoch ev = epoch"
    and d: "sd_Journal d = Some (map LineEvent (events @ [ev]))" "sd_Heads d \<noteq> []"
    and adv: "advanceJournalCache E ev (setDir sid d s) = (s', q)"
  shows "others_kept sid s s'"
    and "dirOf s' sid = d"
    and "q = Inr () \<Longrightarrow> \<exists>st'. rebuildStep E st ev = Inr st' \<and> ready E s' sid epoch (events @ [ev]) st'"
proof -
  have cache: "mget (st_JournalCaches s) sid = Some \<lparr>jc_WriterEpoch = epoch, jc_Events = events,
      jc_Rebuild = st, jc_CommittedLines = length events\<rparr>" and epoch: "activeWriterEpoch s sid = epoch" "epoch \<noteq> 0"
    and run: "rebuildManifestFromState E newManifestRebuildState events = Inr st"
    and ids: "\<forall>ev\<in>set events. ev_SessionID ev = sid"
    using r by (simp_all add: ready_def)
  show "others_kept sid s s'" "dirOf s' sid = d"
    using adv cache epoch ev by (auto simp: others_kept_def advanceJournalCache_def split: sum.splits)
  show "\<exists>st'. rebuildStep E st ev = Inr st' \<and> ready E s' sid epoch (events @ [ev]) st'" if "q = Inr ()"
  proof (cases "rebuildStep E st ev")
    case (Inl e)
    with adv cache epoch ev that show ?thesis by (simp add: advanceJournalCache_def)
  next
    case (Inr st')
    with run have "rebuildManifestFromState E newManifestRebuildState (events @ [ev]) = Inr st'"
      by (simp add: rebuild.run_snoc)
    with adv cache epoch ev d ids Inr show ?thesis
      by (auto simp: advanceJournalCache_def ready_def)
  qed
qed

lemma appendEvent_ready:
  assumes r: "ready E s sid epoch events st" and ev: "ev_SessionID ev = sid" "ev_WriterEpoch ev = epoch"
    and app: "appendEvent E c ev s = (s', q)"
  shows "others_kept sid s s' \<and>
    (q = Inr () \<longrightarrow> (\<exists>st'. rebuildStep E st ev = Inr st' \<and> ready E s' sid epoch (events @ [ev]) st')) \<and>
    (q \<noteq> Inr () \<longrightarrow> append_failed sid events ev s')"
proof -
  let ?drop = "invalidateJournalCache sid" and ?d = "truncatedDir (dirOf s sid) (events @ [ev])"
  have heads: "sd_Heads (dirOf s sid) \<noteq> []" using r by (simp add: ready_def)
  have dropped: ?thesis if "s' = ?drop (setDir sid d s)" "q = Inl e"
    "logOf d = events \<or> logOf d = events @ [ev]" for d e
    using that by (auto simp: others_kept_def append_failed_def)
  have unfolded: "(s', q) =
      (if length (marshal E (DocEvent ev)) > maxJournalEventBytes
       then (?drop (setDir sid (truncatedDir (dirOf s sid) events) s), Inl (ErrMsg ''journal event exceeds the limit''))
       else case cl_Append c of
         AppendTorn t \<Rightarrow> (?drop (setDir sid ((truncatedDir (dirOf s sid) events)
             \<lparr>sd_Journal := Some (map LineEvent events), sd_Tail := t\<rparr>) s), Inl (ErrMsg ''write failed''))
       | AppendNotSynced \<Rightarrow> (?drop (setDir sid ?d s), Inl (ErrMsg ''write failed''))
       | HeadNotWritten \<Rightarrow> (?drop (setDir sid ?d s), Inl ErrProjection)
       | AppendDone \<Rightarrow>
           (case writeJournalHead (headFor ev) ?d of
              Inl _ \<Rightarrow> (?drop (setDir sid ?d s), Inl ErrProjection)
            | Inr d' \<Rightarrow>
                (case advanceJournalCache E ev (setDir sid d' s) of
                   (s2, Inl _) \<Rightarrow> (?drop s2, Inl ErrProjection)
                 | (s2, Inr _) \<Rightarrow> (s2, Inr ()))))"
    using app truncate_ready [OF r, of c] ev
    by (auto simp: appendEvent_def Let_def split: append_outcome.splits sum.splits prod.splits)
  show ?thesis
  proof (cases "length (marshal E (DocEvent ev)) > maxJournalEventBytes")
    case True
    with unfolded heads show ?thesis by (intro dropped) auto
  next
    case small: False
    show ?thesis
    proof (cases "cl_Append c")
      case AppendDone
      show ?thesis
      proof (cases "writeJournalHead (headFor ev) ?d")
        case (Inl e)
        with small AppendDone unfolded heads show ?thesis by (intro dropped) auto
      next
        case (Inr d')
        note h = writeJournalHead_Inr [OF Inr]
        obtain s2 p where adv: "advanceJournalCache E ev (setDir sid d' s) = (s2, p)" by fastforce
        have journal: "sd_Journal d' = Some (map LineEvent (events @ [ev]))" "sd_Heads d' \<noteq> []" using h by simp_all
        note a = advance_ready [OF r ev journal adv]
        have q: "(s', q) = (case p of Inl _ \<Rightarrow> (?drop s2, Inl ErrProjection) | Inr _ \<Rightarrow> (s2, Inr ()))"
          using unfolded small AppendDone Inr adv by simp
        show ?thesis
        proof (cases p)
          case (Inl e)
          with q a(1,2) journal show ?thesis
            by (auto simp: others_kept_def append_failed_def logOf_def simp del: map_append)
        next
          case (Inr u)
          with q a show ?thesis by simp
        qed
      qed
    qed (use small unfolded heads in \<open>auto simp: others_kept_def append_failed_def logOf_def simp del: map_append\<close>)
  qed
qed

subsection \<open>Blobs and projections leave the log alone\<close>

definition same_log :: "string \<Rightarrow> dir_store \<Rightarrow> dir_store \<Rightarrow> bool" where
  "same_log sid s s' \<longleftrightarrow>
     others_kept sid s s' \<and> st_JournalCaches s' = st_JournalCaches s \<and> st_LeaseEpochs s' = st_LeaseEpochs s \<and>
     sd_Journal (dirOf s' sid) = sd_Journal (dirOf s sid) \<and> sd_Heads (dirOf s' sid) = sd_Heads (dirOf s sid)"

lemma same_log_refl [simp]: "same_log sid s s"
  by (simp add: same_log_def)

lemma same_log_trans: "same_log sid a b \<Longrightarrow> same_log sid b c \<Longrightarrow> same_log sid a c"
  by (auto simp: same_log_def intro: others_kept_trans)

lemma same_log_ready: "same_log sid s s' \<Longrightarrow> ready E s sid epoch events st \<Longrightarrow> ready E s' sid epoch events st"
  by (simp add: same_log_def ready_def activeWriterEpoch_def)

lemma same_log_logOf: "same_log sid s s' \<Longrightarrow> logOf (dirOf s' sid) = logOf (dirOf s sid)"
  by (simp add: same_log_def logOf_def)

lemma same_log_setDir:
  "sd_Journal d = sd_Journal (dirOf s sid) \<Longrightarrow> sd_Heads d = sd_Heads (dirOf s sid) \<Longrightarrow> same_log sid s (setDir sid d s)"
  by (simp add: same_log_def others_kept_def)

lemma writeBlob_same_log: "same_log sid s (fst (writeBlob E c sid b s))"
  by (auto simp: writeBlob_def intro: same_log_setDir split: sum.splits)

lemma writeBlobs_same_log: "same_log sid s (fst (writeBlobs E c sid bs s))"
proof (induction bs arbitrary: s)
  case (Cons b bs)
  obtain s1 r where w: "writeBlob E c sid b s = (s1, r)" by fastforce
  with writeBlob_same_log [of sid s E c b] have "same_log sid s s1" by simp
  with w Cons.IH [of s1] show ?case by (cases r) (auto intro: same_log_trans)
qed simp

lemma removeNewBlobs_same_log: "same_log sid s (removeNewBlobs sid paths s)"
  by (simp add: removeNewBlobs_def same_log_setDir)

lemma same_log_projection: "same_log sid s (setDir x ((dirOf s x)\<lparr>sd_Manifest := m\<rparr>) s)"
  by (cases "x = sid") (simp_all add: same_log_def others_kept_def coreDir_eq(3))

lemma writeManifest_same_log: "same_log sid s (fst (writeManifest E c m s))"
  by (simp add: writeManifest_def Let_def same_log_projection split: option.splits)

lemma finishManifest_same_log:
  assumes "finishManifest E c m s = (s', r)"
  shows "same_log sid s s'" and "\<And>m'. r = Inr m' \<Longrightarrow> m' = m"
proof -
  from assms obtain ok where "writeManifest E c m s = (s', ok)" "r = (if ok then Inr m else Inl ErrProjection)"
    by (auto simp: finishManifest_def split: prod.splits)
  with writeManifest_same_log [of sid s E c m]
  show "same_log sid s s'" "\<And>m'. r = Inr m' \<Longrightarrow> m' = m" by (auto split: if_splits)
qed

subsection \<open>The effect of an operation\<close>

text \<open>
  What every operation on session \<open>sid\<close> does to the store: the caches stay coherent, other
  sessions are untouched, the log keeps its events and gains at most one, and a manifest that is returned
  is the one the log rebuilds to.
\<close>

definition log_effect :: "env \<Rightarrow> string \<Rightarrow> dir_store \<Rightarrow> result \<Rightarrow> bool" where
  "log_effect E sid s res \<longleftrightarrow>
     (let s' = fst res; L = logOf (dirOf s sid); L' = logOf (dirOf s' sid) in
      store_inv E s' \<and> others_kept sid s s' \<and> (L' = L \<or> (\<exists>ev. L' = L @ [ev])) \<and>
      (\<forall>m. snd res = Inr m \<longrightarrow> rebuildManifest E L' = Inr m))"

lemma log_effect_error [simp]: "store_inv E s \<Longrightarrow> log_effect E sid s (s, Inl e)"
  by (simp add: log_effect_def)

lemma log_effect_same:
  assumes "same_log sid s s'" and "store_inv E s"
    and "\<And>m. r = Inr m \<Longrightarrow> rebuildManifest E (logOf (dirOf s sid)) = Inr m"
  shows "log_effect E sid s (s', r)"
proof -
  have "store_inv E s'"
  proof (rule store_inv_other [OF assms(2)])
    show "others_kept sid s s'" using assms(1) by (simp add: same_log_def)
    show "\<exists>epoch events st. ready E s' sid epoch events st" if "mget (st_JournalCaches s') sid \<noteq> None"
      using that assms(1,2) same_log_ready [OF assms(1)] unfolding same_log_def store_inv_def by metis
  qed
  then show ?thesis using assms(1,3) same_log_logOf [OF assms(1)] by (auto simp: log_effect_def same_log_def)
qed

lemma log_effect_trans:
  assumes "same_log sid s s1" and "log_effect E sid s1 res"
  shows "log_effect E sid s res"
  using assms same_log_logOf [OF assms(1)] by (auto simp: log_effect_def same_log_def Let_def intro: others_kept_trans)

lemma withReceipt_effect:
  assumes "store_inv E s" and "rebuildManifest E (logOf (dirOf s sid)) = Inr m"
    and "mget (mf_AcceptedCommands m) commandID = None \<Longrightarrow> log_effect E sid s k"
  shows "log_effect E sid s (withReceipt m commandID same s k)"
  using assms by (auto simp: withReceipt_def log_effect_def split: option.splits)

lemma withSession_effect:
  assumes inv: "store_inv E s" and epoch: "activeWriterEpoch s sid \<noteq> 0"
    and k: "\<And>events st s1. ready E s1 sid (activeWriterEpoch s sid) events st \<Longrightarrow> store_inv E s1 \<Longrightarrow>
      (\<And>x. dirOf s1 x = dirOf s x) \<Longrightarrow> log_effect E sid s1 (k events (rs_Manifest st) s1)"
  shows "log_effect E sid s (withSession E c sid s k)"
proof -
  obtain s1 r where load: "loadEvents E c sid s = (s1, r)" by fastforce
  note kept = loadEvents_kept [OF load]
  show ?thesis
  proof (cases r)
    case (Inl e)
    with load loadEvents_error have "s1 = s" by blast
    with Inl load inv show ?thesis by (simp add: withSession_def)
  next
    case (Inr events)
    with load have load': "loadEvents E c sid s = (s1, Inr events)" by simp
    obtain st where r: "ready E s1 sid (activeWriterEpoch s sid) events st"
      using loadEvents_ready [OF inv epoch load'] .
    have o: "others_kept sid s s1" using kept by (simp add: others_kept_def)
    have inv1: "store_inv E s1" by (rule store_inv_other [OF inv o]) (use r in blast)
    have "log_effect E sid s1 (k events (rs_Manifest st) s1)" using k r inv1 kept(1) by blast
    then have "log_effect E sid s (k events (rs_Manifest st) s1)"
      using o kept(1) by (auto simp: log_effect_def Let_def intro: others_kept_trans)
    then show ?thesis using load' ready_manifestForEvents(1) [OF r] by (simp add: withSession_def)
  qed
qed

lemma append_log_effect:
  assumes r: "ready E s sid epoch events st" and inv: "store_inv E s"
    and ev: "ev_SessionID ev = sid" "ev_WriterEpoch ev = epoch" and app: "appendEvent E c ev s = (s', q)"
  shows "log_effect E sid s (s', Inl e)"
    and "q = Inr () \<Longrightarrow> store_inv E s' \<and> others_kept sid s s' \<and>
       (\<exists>st'. ready E s' sid epoch (events @ [ev]) st' \<and> rebuildManifest E (events @ [ev]) = Inr (rs_Manifest st'))"
proof -
  note a = appendEvent_ready [OF r ev app]
  have inv': "store_inv E s'"
    by (rule store_inv_other [OF inv]) (use a in \<open>auto simp: append_failed_def\<close>)
  have "logOf (dirOf s' sid) = events \<or> logOf (dirOf s' sid) = events @ [ev]"
  proof (cases "q = Inr ()")
    case True
    with a ready_log show ?thesis by blast
  next
    case False
    with a show ?thesis by (simp add: append_failed_def)
  qed
  then show "log_effect E sid s (s', Inl e)"
    using a inv' ready_log [OF r] by (auto simp: log_effect_def)
  show "store_inv E s' \<and> others_kept sid s s' \<and>
      (\<exists>st'. ready E s' sid epoch (events @ [ev]) st' \<and> rebuildManifest E (events @ [ev]) = Inr (rs_Manifest st'))"
    if "q = Inr ()"
    using a inv' that ready_manifest by blast
qed

lemma finish_effect:
  assumes r: "ready E s sid epoch events st" and inv: "store_inv E s'" and o: "others_kept sid s s'"
    and r': "ready E s' sid epoch (events @ [ev]) st'" and m: "rebuildManifest E (events @ [ev]) = Inr m"
  shows "log_effect E sid s (finishManifest E c m s')"
proof -
  obtain s2 q where f: "finishManifest E c m s' = (s2, q)" by fastforce
  note fin = finishManifest_same_log(1) [where sid = sid, OF f] finishManifest_same_log(2) [OF f]
  have "log_effect E sid s' (s2, q)"
    by (rule log_effect_same [OF fin(1) inv]) (use fin(2) m ready_log [OF r'] in auto)
  then have "store_inv E s2" "others_kept sid s' s2" by (simp_all add: log_effect_def Let_def)
  moreover have "logOf (dirOf s2 sid) = events @ [ev]"
    using same_log_logOf [OF fin(1)] ready_log [OF r'] by simp
  ultimately show ?thesis
    using f fin(2) m o ready_log [OF r] by (auto simp: log_effect_def intro: others_kept_trans)
qed

lemma appendThenRebuild_effect:
  assumes r: "ready E s sid epoch events st" and inv: "store_inv E s"
    and ev: "ev_SessionID ev = sid" "ev_WriterEpoch ev = epoch"
  shows "log_effect E sid s (appendThenRebuild E c sid events ev s)"
proof -
  obtain s1 q where app: "appendEvent E c ev s = (s1, q)" by fastforce
  note a = append_log_effect [OF r inv ev app]
  show ?thesis
  proof (cases q)
    case (Inl e)
    with app a(1) show ?thesis by (simp add: appendThenRebuild_def)
  next
    case (Inr u)
    with a(2) obtain st' where s1: "store_inv E s1" "others_kept sid s s1"
      and r1: "ready E s1 sid epoch (events @ [ev]) st'"
      and m: "rebuildManifest E (events @ [ev]) = Inr (rs_Manifest st')" by auto
    from finish_effect [OF r s1 r1 m] show ?thesis
      using app Inr ready_manifestForEvents(1) [OF r1] by (simp add: appendThenRebuild_def)
  qed
qed

lemma rebuildThenAppend_effect:
  assumes r: "ready E s sid epoch events st" and inv: "store_inv E s"
    and ev: "ev_SessionID ev = sid" "ev_WriterEpoch ev = epoch"
  shows "log_effect E sid s (rebuildThenAppend E c sid events ev blobs s)"
proof -
  obtain s1 w where wr: "writeBlobs E c sid blobs s = (s1, w)" by fastforce
  have same: "same_log sid s s1" using writeBlobs_same_log [of sid s E c blobs] wr by simp
  have inv1: "store_inv E s1" using log_effect_same [OF same inv, of "Inl ErrProjection"] by (simp add: log_effect_def Let_def)
  note r1 = same_log_ready [OF same r]
  obtain s2 q where app: "appendEvent E c ev s1 = (s2, q)" by fastforce
  note a = append_log_effect [OF r1 inv1 ev app]
  have failed: "log_effect E sid s (removeNewBlobs sid ps s1, Inl e)" for ps e
    by (rule log_effect_same [OF same_log_trans [OF same removeNewBlobs_same_log] inv]) simp
  have appended: "log_effect E sid s (case q of Inl e \<Rightarrow> (s2, Inl e) | Inr _ \<Rightarrow> finishManifest E c m s2)"
    if "rebuildManifest E (events @ [ev]) = Inr m" for m
  proof (cases q)
    case (Inl e)
    with a(1) log_effect_trans [OF same] show ?thesis by simp
  next
    case (Inr u)
    with a(2) obtain st' where s2: "store_inv E s2" "others_kept sid s1 s2"
      and r2: "ready E s2 sid epoch (events @ [ev]) st'" by auto
    from log_effect_trans [OF same finish_effect [OF r1 s2 r2 that]] Inr show ?thesis by simp
  qed
  show ?thesis
    using inv wr app failed appended
    by (auto simp: rebuildThenAppend_def ready_manifestForEvents(2) [OF r] split: sum.splits)
qed

end
