(* ===== verification/Session_Refinement.thy ===== *)
theory Session_Refinement
  imports Session_Log Interfaces
begin

section \<open>The operations refine an append-only log\<close>

text \<open>
  The operations of \<^verbatim>\<open>session.Store\<close> as one type of request with one dispatcher, their effect
  on the log, and the states a process can reach with them, failing writes, restarts and other processes included.
\<close>

datatype request =
    ReqCreate nat create_request
  | ReqClose close_request
  | ReqPause pause_request
  | ReqResume resume_request
  | ReqDetach detach_request
  | ReqUpdate update_request
  | ReqMutation mutation_request
  | ReqTrace trace_request
  | ReqRevision revision_request
  | ReqPrepare prepare_request
  | ReqCommit commit_request
  | ReqAbort abort_request

fun perform :: "env \<Rightarrow> call \<Rightarrow> request \<Rightarrow> dir_store \<Rightarrow> result" where
  "perform E c (ReqCreate epoch rq) s = CreateSession E c epoch rq s"
| "perform E c (ReqClose rq) s = CloseSession E c rq s"
| "perform E c (ReqPause rq) s = PauseSession E c rq s"
| "perform E c (ReqResume rq) s = ResumeSession E c rq s"
| "perform E c (ReqDetach rq) s = RecordDetach E c rq s"
| "perform E c (ReqUpdate rq) s = UpdateAttempt E c rq s"
| "perform E c (ReqMutation rq) s = CommitExecutionMutation E c rq s"
| "perform E c (ReqTrace rq) s = CommitTraceEvent E c rq s"
| "perform E c (ReqRevision rq) s = CommitSegmentRevision E c rq s"
| "perform E c (ReqPrepare rq) s = PrepareTransition E c rq s"
| "perform E c (ReqCommit rq) s = CommitTransition E c rq s"
| "perform E c (ReqAbort rq) s = AbortTransition E c rq s"

fun sessionOf :: "request \<Rightarrow> string" where
  "sessionOf (ReqCreate epoch rq) = cq_SessionID rq"
| "sessionOf (ReqClose rq) = xq_SessionID rq"
| "sessionOf (ReqPause rq) = pq_SessionID rq"
| "sessionOf (ReqResume rq) = rq_SessionID rq"
| "sessionOf (ReqDetach rq) = dq_SessionID rq"
| "sessionOf (ReqUpdate rq) = uq_SessionID rq"
| "sessionOf (ReqMutation rq) = eq_SessionID rq"
| "sessionOf (ReqTrace rq) = tq_SessionID rq"
| "sessionOf (ReqRevision rq) = vq_SessionID rq"
| "sessionOf (ReqPrepare rq) = hq_SessionID rq"
| "sessionOf (ReqCommit rq) = kq_SessionID rq"
| "sessionOf (ReqAbort rq) = bq_SessionID rq"

fun epochOf :: "request \<Rightarrow> nat" where
  "epochOf (ReqCreate epoch rq) = epoch"
| "epochOf (ReqClose rq) = xq_WriterEpoch rq"
| "epochOf (ReqPause rq) = pq_WriterEpoch rq"
| "epochOf (ReqResume rq) = rq_WriterEpoch rq"
| "epochOf (ReqDetach rq) = dq_WriterEpoch rq"
| "epochOf (ReqUpdate rq) = uq_WriterEpoch rq"
| "epochOf (ReqMutation rq) = eq_WriterEpoch rq"
| "epochOf (ReqTrace rq) = tq_WriterEpoch rq"
| "epochOf (ReqRevision rq) = vq_WriterEpoch rq"
| "epochOf (ReqPrepare rq) = hq_WriterEpoch rq"
| "epochOf (ReqCommit rq) = kq_WriterEpoch rq"
| "epochOf (ReqAbort rq) = bq_WriterEpoch rq"

subsection \<open>The effect of each operation\<close>

lemma nextEvent_sel [simp]:
  "ev_SessionID (nextEvent E c sid epoch m events i d cl k p) = sid"
  "ev_WriterEpoch (nextEvent E c sid epoch m events i d cl k p) = epoch"
  "ev_CommandID (nextEvent E c sid epoch m events i d cl k p) = i"
  "ev_CommandDigest (nextEvent E c sid epoch m events i d cl k p) = d"
  "ev_ClientCommandDigest (nextEvent E c sid epoch m events i d cl k p) = cl"
  "ev_Kind (nextEvent E c sid epoch m events i d cl k p) = k"
  "ev_Payload (nextEvent E c sid epoch m events i d cl k p) = p"
  "ev_EventID (nextEvent E c sid epoch m events i d cl k p) = cl_EventID c"
  "ev_Timestamp (nextEvent E c sid epoch m events i d cl k p) = cl_Now c"
  "ev_Sequence (nextEvent E c sid epoch m events i d cl k p) = sr_Sequence (mf_Session m) + 1"
  "ev_PreviousDigest (nextEvent E c sid epoch m events i d cl k p) = ev_Digest (last events)"
  "ev_SchemaVersion (nextEvent E c sid epoch m events i d cl k p) = ''yawr.investigation-session-event/v1''"
  by (simp_all add: nextEvent_def newEventWithClientCommand_def Let_def)

lemma nextEvent_digest [simp]:
  "eventDigest E (nextEvent E c sid epoch m events i d cl k p) = ev_Digest (nextEvent E c sid epoch m events i d cl k p)"
  by (simp add: nextEvent_def newEventWithClientCommand_def eventDigest_def Let_def)

lemma validateWriterEpoch_Inr:
  "validateWriterEpoch s sid epoch = Inr u \<Longrightarrow> activeWriterEpoch s sid = epoch \<and> epoch \<noteq> 0"
  by (auto simp: validateWriterEpoch_def split: sum.splits if_splits)

lemma valid_session_effect:
  assumes "validateWriterEpoch s sid epoch = Inr u" and "store_inv E s"
    and "\<And>events st s1. ready E s1 sid epoch events st \<Longrightarrow> store_inv E s1 \<Longrightarrow>
      log_effect E sid s1 (k events (rs_Manifest st) s1)"
  shows "log_effect E sid s (withSession E c sid s k)"
proof -
  from validateWriterEpoch_Inr [OF assms(1)] have "activeWriterEpoch s sid = epoch" "activeWriterEpoch s sid \<noteq> 0" by simp_all
  with withSession_effect [OF assms(2) this(2), of k c] assms(3) show ?thesis by simp
qed

lemma validated_effect:
  assumes "store_inv E s"
    and "\<And>events st s1. ready E s1 sid epoch events st \<Longrightarrow> store_inv E s1 \<Longrightarrow>
      log_effect E sid s1 (k events (rs_Manifest st) s1)"
  shows "log_effect E sid s (case validateWriterEpoch s sid epoch of
     Inl e \<Rightarrow> (s, Inl e) | Inr _ \<Rightarrow> withSession E c sid s k)"
  using assms valid_session_effect [where k = k, OF _ assms] by (cases "validateWriterEpoch s sid epoch") simp_all

lemma ready_receipt_effect:
  assumes "ready E s sid epoch events st" and "store_inv E s"
    and "mget (mf_AcceptedCommands (rs_Manifest st)) i = None \<Longrightarrow> log_effect E sid s k"
  shows "log_effect E sid s (withReceipt (rs_Manifest st) i same s k)"
  using assms ready_manifest [OF assms(1)] ready_log [OF assms(1)] by (intro withReceipt_effect) simp_all

lemmas effect_intros = validated_effect valid_session_effect ready_receipt_effect appendThenRebuild_effect rebuildThenAppend_effect
  log_effect_error

lemma CloseSession_effect: "store_inv E s \<Longrightarrow> log_effect E (xq_SessionID rq) s (CloseSession E c rq s)"
  unfolding CloseSession_def Let_def
  by (auto intro!: effect_intros)

lemma PauseSession_effect: "store_inv E s \<Longrightarrow> log_effect E (pq_SessionID rq) s (PauseSession E c rq s)"
  unfolding PauseSession_def Let_def
  by (auto intro!: effect_intros)

lemma ResumeSession_effect: "store_inv E s \<Longrightarrow> log_effect E (rq_SessionID rq) s (ResumeSession E c rq s)"
  unfolding ResumeSession_def Let_def
  by (auto intro!: effect_intros)

lemma RecordDetach_effect: "store_inv E s \<Longrightarrow> log_effect E (dq_SessionID rq) s (RecordDetach E c rq s)"
  unfolding RecordDetach_def Let_def
  by (auto intro!: effect_intros)

lemma UpdateAttempt_effect: "store_inv E s \<Longrightarrow> log_effect E (uq_SessionID rq) s (UpdateAttempt E c rq s)"
  unfolding UpdateAttempt_def Let_def
  by (auto intro!: effect_intros)

text \<open>Operations that write blobs before they append.\<close>

lemma written_effect:
  assumes "ready E s sid epoch events st" and "store_inv E s" and "same_log sid s (fst w)"
    and "ev_SessionID ev = sid" and "ev_WriterEpoch ev = epoch"
  shows "log_effect E sid s (case w of (s2, Inl e) \<Rightarrow> (s2, Inl e)
     | (s2, Inr _) \<Rightarrow> appendThenRebuild E c sid events ev s2)"
proof -
  obtain s2 q where w: "w = (s2, q)" by fastforce
  with assms(3) have same: "same_log sid s s2" by simp
  have failed: "log_effect E sid s (s2, Inl e)" for e by (rule log_effect_same [OF same assms(2)]) simp
  then have "store_inv E s2" by (simp add: log_effect_def Let_def)
  from log_effect_trans [OF same appendThenRebuild_effect [OF same_log_ready [OF same assms(1)] this assms(4,5)]]
  show ?thesis using w failed by (simp split: sum.splits)
qed

lemma CommitTraceEvent_effect: "store_inv E s \<Longrightarrow> log_effect E (tq_SessionID rq) s (CommitTraceEvent E c rq s)"
  unfolding CommitTraceEvent_def Let_def
  by (auto intro!: effect_intros written_effect writeBlob_same_log split: option.splits sum.splits)

lemma CommitExecutionMutation_effect:
  "store_inv E s \<Longrightarrow> log_effect E (eq_SessionID rq) s (CommitExecutionMutation E c rq s)"
  unfolding CommitExecutionMutation_def Let_def
  by (auto intro!: effect_intros written_effect writeBlobs_same_log split: option.splits sum.splits)

lemma CommitSegmentRevision_effect:
  "store_inv E s \<Longrightarrow> log_effect E (vq_SessionID rq) s (CommitSegmentRevision E c rq s)"
  unfolding CommitSegmentRevision_def Let_def
  by (auto intro!: effect_intros split: sum.splits)

lemma PrepareTransition_effect: "store_inv E s \<Longrightarrow> log_effect E (hq_SessionID rq) s (PrepareTransition E c rq s)"
  unfolding PrepareTransition_def Let_def
  by (auto intro!: effect_intros split: sum.splits)

lemma CommitTransition_effect: "store_inv E s \<Longrightarrow> log_effect E (kq_SessionID rq) s (CommitTransition E c rq s)"
  unfolding CommitTransition_def Let_def
  by (auto intro!: effect_intros split: sum.splits option.splits)

lemma AbortTransition_effect: "store_inv E s \<Longrightarrow> log_effect E (bq_SessionID rq) s (AbortTransition E c rq s)"
  unfolding AbortTransition_def Let_def
  by (auto intro!: effect_intros split: sum.splits option.splits)

subsection \<open>Creating a session\<close>

text \<open>
  A directory is undamaged when a scan that finds nothing found no head: the source cannot tell a
  session that was never created from one whose reservation or blobs are missing.
\<close>

definition undamaged :: "env \<Rightarrow> call \<Rightarrow> string \<Rightarrow> dir_store \<Rightarrow> bool" where
  "undamaged E c sid s \<longleftrightarrow> (fst (scanJournal E c sid s) = Inl ErrNotExist \<longrightarrow> sd_Heads (dirOf s sid) = [])"

lemma no_heads_log [simp]: "sd_Heads d = [] \<Longrightarrow> logOf d = []"
  by (simp add: logOf_def)

lemma truncate_fresh:
  assumes "writerJournalCache s sid = None" and "sd_Heads (dirOf s sid) = []" and "validateUUID E sid"
  shows "\<exists>d. truncateJournalToCommittedHead E c sid s = (setDir sid d s, Inr ()) \<and> sd_Heads d = [] \<and>
     (sd_Journal d = None \<or> sd_Journal d = Some []) \<or>
     truncateJournalToCommittedHead E c sid s = (s, Inr ()) \<and> sd_Journal (dirOf s sid) = None"
  using assms
  by (auto simp: truncateJournalToCommittedHead_def scanJournal_def loadJournalHead_def Let_def split: option.splits)

lemma advance_fresh:
  assumes "mget (st_JournalCaches s) sid = None" and "activeWriterEpoch s sid = epoch" and "epoch \<noteq> 0"
    and ev: "ev_SessionID ev = sid" "ev_WriterEpoch ev = epoch" "ev_Sequence ev = 1"
    and d: "sd_Journal d = Some [LineEvent ev]" "sd_Heads d \<noteq> []"
    and adv: "advanceJournalCache E ev (setDir sid d s) = (s', q)"
  shows "others_kept sid s s'" "dirOf s' sid = d"
    and "q = Inr () \<Longrightarrow> \<exists>st. ready E s' sid epoch [ev] st"
  using assms
  by (auto simp: advanceJournalCache_def others_kept_def ready_def split: sum.splits)

definition fresh_append :: "env \<Rightarrow> string \<Rightarrow> nat \<Rightarrow> event \<Rightarrow> dir_store \<Rightarrow> dir_store \<Rightarrow> serror + unit \<Rightarrow> bool" where
  "fresh_append E sid epoch ev s s' q \<longleftrightarrow>
     others_kept sid s s' \<and> (q = Inr () \<longrightarrow> (\<exists>st. ready E s' sid epoch [ev] st)) \<and>
     (q \<noteq> Inr () \<longrightarrow> append_failed sid [] ev s')"

lemma appendEvent_fresh:
  assumes none: "mget (st_JournalCaches s) sid = None" and heads: "sd_Heads (dirOf s sid) = []"
    and uuid: "validateUUID E sid" and epoch: "activeWriterEpoch s sid = epoch" "epoch \<noteq> 0"
    and ev: "ev_SessionID ev = sid" "ev_WriterEpoch ev = epoch" "ev_Sequence ev = 1"
    and app: "appendEvent E c ev s = (s', q)"
  shows "fresh_append E sid epoch ev s s' q"
proof -
  have "writerJournalCache s sid = None" using none by (simp add: writerJournalCache_def Let_def)
  from truncate_fresh [OF this heads uuid, of c] obtain s1 where
    trunc: "truncateJournalToCommittedHead E c sid s = (s1, Inr ())" and
    d: "sd_Heads (dirOf s1 sid) = []" "sd_Journal (dirOf s1 sid) = None \<or> sd_Journal (dirOf s1 sid) = Some []"
    and s1: "others_kept sid s s1" "mget (st_JournalCaches s1) sid = None" "activeWriterEpoch s1 sid = epoch"
    using none heads epoch by (auto simp: others_kept_def)
  let ?drop = "invalidateJournalCache sid" and ?d = "addLine ev (dirOf s1 sid)"
  have line: "sd_Journal ?d = Some [LineEvent ev]" "sd_Heads ?d = []" using d by (auto simp: addLine_def)
  have dropped: "fresh_append E sid epoch ev s (?drop (setDir sid x s1)) (Inl e)"
    if "logOf x = [] \<or> logOf x = [ev]" for x e
    using that s1(1) by (auto simp: fresh_append_def append_failed_def others_kept_def)
  have head: "writeJournalHead (headFor ev) ?d = Inr (?d\<lparr>sd_Heads := [(1, HeadFile (headFor ev))]\<rparr>)"
    using line ev by (simp add: writeJournalHead_def headFor_def)
  let ?d' = "?d\<lparr>sd_Heads := [(1, HeadFile (headFor ev))]\<rparr>"
  obtain s2 p where adv: "advanceJournalCache E ev (setDir sid ?d' s1) = (s2, p)" by fastforce
  have d': "sd_Journal ?d' = Some [LineEvent ev]" "sd_Heads ?d' \<noteq> []" using line by simp_all
  note a = advance_fresh [OF s1(2,3) epoch(2) ev d' adv]
  have committed: "fresh_append E sid epoch ev s
      (fst (case p of Inl _ \<Rightarrow> (?drop s2, Inl ErrProjection) | Inr _ \<Rightarrow> (s2, Inr ())))
      (snd (case p of Inl _ \<Rightarrow> (?drop s2, Inl ErrProjection) | Inr _ \<Rightarrow> (s2, Inr ())))"
    using a d' others_kept_trans [OF s1(1) a(1)]
    by (auto simp: fresh_append_def append_failed_def others_kept_def logOf_def List.map_filter_simps split: sum.splits)
  have torn: "logOf ((dirOf s1 sid)\<lparr>sd_Journal := j, sd_Tail := t\<rparr>) = []" for j t using d(1) by simp
  have whole: "logOf ?d = []" "logOf (dirOf s1 sid) = []" using line(2) d(1) by simp_all
  have app': "(s', q) =
      (if length (marshal E (DocEvent ev)) > maxJournalEventBytes
       then (?drop s1, Inl (ErrMsg ''journal event exceeds the limit''))
       else case cl_Append c of
         AppendTorn t \<Rightarrow> (?drop (setDir sid ((dirOf s1 sid)\<lparr>sd_Journal :=
             Some (case sd_Journal (dirOf s1 sid) of None \<Rightarrow> [] | Some ls \<Rightarrow> ls), sd_Tail := t\<rparr>) s1), Inl (ErrMsg ''write failed''))
       | AppendNotSynced \<Rightarrow> (?drop (setDir sid ?d s1), Inl (ErrMsg ''write failed''))
       | HeadNotWritten \<Rightarrow> (?drop (setDir sid ?d s1), Inl ErrProjection)
       | AppendDone \<Rightarrow> (case p of Inl _ \<Rightarrow> (?drop s2, Inl ErrProjection) | Inr _ \<Rightarrow> (s2, Inr ())))"
    using app trunc ev head adv
    by (auto simp: appendEvent_def Let_def split: append_outcome.splits sum.splits)
  have large: "fresh_append E sid epoch ev s (?drop s1) (Inl e)" for e
    using s1(1) whole(2) by (auto simp: fresh_append_def append_failed_def others_kept_def)
  show ?thesis
    using app' committed dropped large torn whole
    by (auto split: if_splits append_outcome.splits sum.splits)
qed

lemma createdEvent_sel [simp]:
  "ev_SessionID (createdEvent E c epoch rq) = cq_SessionID rq" "ev_WriterEpoch (createdEvent E c epoch rq) = epoch"
  "ev_Sequence (createdEvent E c epoch rq) = 1" "ev_CommandID (createdEvent E c epoch rq) = cq_CommandID rq"
  "ev_CommandDigest (createdEvent E c epoch rq) = cq_EntryDigest rq"
  by (simp_all add: createdEvent_def newEvent_def newEventWithClientCommand_def Let_def)

lemma normalize_sel [simp]:
  "cq_SessionID (normalizeCreateRequest rq) = cq_SessionID rq" "cq_CommandID (normalizeCreateRequest rq) = cq_CommandID rq"
  "cq_EntryDigest (normalizeCreateRequest rq) = cq_EntryDigest rq" "cq_Blobs (normalizeCreateRequest rq) = cq_Blobs rq"
  by (simp_all add: normalizeCreateRequest_def Let_def)

lemma reserve_same_log: "same_log sid s (fst (reserveCreationCommand c i x d s))"
  by (auto simp: reserveCreationCommand_def same_log_def others_kept_def split: option.splits)

lemma created_effect:
  assumes inv: "store_inv E s" and fresh: "mget (st_JournalCaches s) sid = None" "sd_Heads (dirOf s sid) = []"
    and ok: "validateUUID E sid" "activeWriterEpoch s sid = epoch" "epoch \<noteq> 0"
    and ev: "ev_SessionID ev = sid" "ev_WriterEpoch ev = epoch" "ev_Sequence ev = 1"
  shows "log_effect E sid s (case appendEvent E c ev s of (s3, Inl e) \<Rightarrow> (s3, Inl e)
     | (s3, Inr _) \<Rightarrow> (case rebuildManifest E [ev] of Inl e \<Rightarrow> (s3, Inl e) | Inr m \<Rightarrow> finishManifest E c m s3))"
proof -
  obtain s3 q where app: "appendEvent E c ev s = (s3, q)" by fastforce
  have a: "fresh_append E sid epoch ev s s3 q" by (rule appendEvent_fresh [OF fresh ok ev app])
  then have o: "others_kept sid s s3" by (simp add: fresh_append_def)
  have inv3: "store_inv E s3"
    by (rule store_inv_other [OF inv o]) (use a in \<open>auto simp: fresh_append_def append_failed_def\<close>)
  show ?thesis
  proof (cases q)
    case (Inl e)
    with a fresh have "append_failed sid [] ev s3" by (simp add: fresh_append_def)
    with Inl app inv3 o fresh show ?thesis by (auto simp: log_effect_def append_failed_def)
  next
    case (Inr u)
    with a obtain st where r: "ready E s3 sid epoch [ev] st" by (auto simp: fresh_append_def)
    note m = ready_manifest [OF r]
    obtain s4 p where f: "finishManifest E c (rs_Manifest st) s3 = (s4, p)" by fastforce
    note fin = finishManifest_same_log(1) [where sid = sid, OF f] finishManifest_same_log(2) [OF f]
    have "log_effect E sid s3 (s4, p)"
      by (rule log_effect_same [OF fin(1) inv3]) (use fin(2) m ready_log [OF r] in auto)
    moreover have "logOf (dirOf s4 sid) = [ev]" using same_log_logOf [OF fin(1)] ready_log [OF r] by simp
    ultimately show ?thesis
      using app Inr m f o fresh by (auto simp: log_effect_def Let_def intro: others_kept_trans)
  qed
qed

lemma createFresh_effect:
  assumes inv: "store_inv E s" and fresh: "mget (st_JournalCaches s) (cq_SessionID rq) = None"
    "sd_Heads (dirOf s (cq_SessionID rq)) = []"
    and ok: "validateUUID E (cq_SessionID rq)" "activeWriterEpoch s (cq_SessionID rq) = epoch" "epoch \<noteq> 0"
  shows "log_effect E (cq_SessionID rq) s (createFresh E c epoch rq s)"
proof -
  let ?sid = "cq_SessionID rq" and ?rq = "normalizeCreateRequest rq"
  obtain s1 q1 where s1: "reserveCreationCommand c (cq_CommandID rq) ?sid (cq_EntryDigest rq) s = (s1, q1)" by fastforce
  obtain s2 q2 where s2: "writeBlobs E c ?sid (cq_Blobs rq) s1 = (s2, q2)" by fastforce
  have same1: "same_log ?sid s s1" using reserve_same_log [of ?sid s c "cq_CommandID rq" ?sid "cq_EntryDigest rq"] s1 by simp
  have same2: "same_log ?sid s s2"
    using same_log_trans [OF same1] writeBlobs_same_log [of ?sid s1 E c "cq_Blobs rq"] s2 by simp
  have failed: "log_effect E ?sid s (s1, Inl e)" "log_effect E ?sid s (s2, Inl e)" for e
    using log_effect_same [OF same1 inv, of "Inl e"] log_effect_same [OF same2 inv, of "Inl e"] by simp_all
  then have inv2: "store_inv E s2" by (simp add: log_effect_def Let_def)
  have fresh2: "mget (st_JournalCaches s2) ?sid = None" "sd_Heads (dirOf s2 ?sid) = []"
    "activeWriterEpoch s2 ?sid = epoch"
    using same2 fresh ok by (simp_all add: same_log_def activeWriterEpoch_def)
  have "log_effect E ?sid s2 (case appendEvent E c (createdEvent E c epoch ?rq) s2 of (s3, Inl e) \<Rightarrow> (s3, Inl e)
     | (s3, Inr _) \<Rightarrow> (case rebuildManifest E [createdEvent E c epoch ?rq] of Inl e \<Rightarrow> (s3, Inl e)
          | Inr m \<Rightarrow> finishManifest E c m s3))"
    by (rule created_effect [OF inv2 fresh2(1,2) ok(1) fresh2(3) ok(3)]) simp_all
  from log_effect_trans [OF same2 this] show ?thesis
    using s1 s2 failed inv by (auto simp: createFresh_def Let_def split: sum.splits)
qed

lemma CreateSession_effect:
  assumes inv: "store_inv E s" and ok: "undamaged E c (cq_SessionID rq) s"
  shows "log_effect E (cq_SessionID rq) s (CreateSession E c epoch rq s)"
proof -
  let ?sid = "cq_SessionID rq"
  obtain s1 r where load: "loadEvents E c ?sid s = (s1, r)" by fastforce
  have existing: "log_effect E ?sid s (case manifestForEvents E s1 ?sid events of Inl e \<Rightarrow> (s1, Inl e)
      | Inr m \<Rightarrow> (s1, if P m then Inr m else Inl ErrCreationConflict))"
    if "r = Inr events" "activeWriterEpoch s ?sid \<noteq> 0" for events P
  proof -
    have "log_effect E ?sid s (withSession E c ?sid s (\<lambda>_ m s1. (s1, if P m then Inr m else Inl ErrCreationConflict)))"
    proof (rule withSession_effect [OF inv that(2)])
      fix events st s1
      assume r: "ready E s1 ?sid (activeWriterEpoch s ?sid) events st" and "store_inv E s1"
      then show "log_effect E ?sid s1 (s1, if P (rs_Manifest st) then Inr (rs_Manifest st) else Inl ErrCreationConflict)"
        using ready_log [OF r] ready_manifest [OF r] by (simp add: log_effect_def)
    qed
    with load that show ?thesis by (simp add: withSession_def)
  qed
  have fresh: "log_effect E ?sid s (createFresh E c epoch rq s)"
    if "r = Inl ErrNotExist" "validateUUID E ?sid" "validateWriterEpoch s ?sid epoch = Inr ()"
  proof (rule createFresh_effect [OF inv _ _ that(2)])
    have none: "writerJournalCache s ?sid = None"
      using load that(1) by (auto simp: loadEvents_def split: option.splits)
    have "ready E s ?sid e evs st \<Longrightarrow> False" for e evs st using ready_cache none by fastforce
    with inv show "mget (st_JournalCaches s) ?sid = None" unfolding store_inv_def by blast
    show "sd_Heads (dirOf s ?sid) = []"
      using load that(1) none ok scanJournal_Inr(4) [of E c ?sid s]
      by (auto simp: loadEvents_def undamaged_def split: prod.splits sum.splits if_splits)
    show "activeWriterEpoch s ?sid = epoch" "epoch \<noteq> 0" using validateWriterEpoch_Inr [OF that(3)] by simp_all
  qed
  have "s1 = s" if "r = Inl e" for e using load loadEvents_error that by blast
  moreover have "activeWriterEpoch s ?sid \<noteq> 0" if "validateWriterEpoch s ?sid epoch = Inr ()"
    using validateWriterEpoch_Inr [OF that] by simp
  ultimately show ?thesis
    using inv load existing fresh
    by (auto simp: CreateSession_def Let_def split: sum.splits serror.splits)
qed

fun is_create :: "request \<Rightarrow> bool" where
  "is_create (ReqCreate epoch rq) = True"
| "is_create _ = False"

lemma perform_effect:
  assumes "store_inv E s" and "is_create rq \<longrightarrow> undamaged E c (sessionOf rq) s"
  shows "log_effect E (sessionOf rq) s (perform E c rq s)"
  using assms
  by (cases rq) (simp_all add: CreateSession_effect CloseSession_effect PauseSession_effect ResumeSession_effect
      RecordDetach_effect UpdateAttempt_effect CommitExecutionMutation_effect CommitTraceEvent_effect
      CommitSegmentRevision_effect PrepareTransition_effect CommitTransition_effect AbortTransition_effect)

subsection \<open>Leases and restarts\<close>

lemma highest_upper:
  "highestSessionWriterEpoch es = Inr h \<Longrightarrow> Some e \<in> set es \<Longrightarrow> e \<le> h"
  by (induction es arbitrary: h rule: highestSessionWriterEpoch.induct) (fastforce simp: andThen_Inr_conv)+

lemma nextSessionWriterEpoch_larger:
  assumes "nextSessionWriterEpoch c sid minimum s = (s', Inr epoch)"
  shows "\<And>e. Some e \<in> set (sd_Epochs (dirOf s sid)) \<Longrightarrow> e < epoch" and "minimum < epoch"
    and "highestSessionWriterEpoch (sd_Epochs (dirOf s' sid)) = Inr epoch"
proof -
  from assms obtain h where h: "highestSessionWriterEpoch (sd_Epochs (dirOf s sid)) = Inr h"
    and epoch: "epoch = max minimum h + 1"
    and s': "s' = setDir sid ((dirOf s sid)\<lparr>sd_Epochs := Some epoch # sd_Epochs (dirOf s sid)\<rparr>) s"
    by (auto simp: nextSessionWriterEpoch_def Let_def max_def split: sum.splits if_splits)
  show "\<And>e. Some e \<in> set (sd_Epochs (dirOf s sid)) \<Longrightarrow> e < epoch" using highest_upper [OF h] epoch by fastforce
  show "minimum < epoch" using epoch by simp
  show "highestSessionWriterEpoch (sd_Epochs (dirOf s' sid)) = Inr epoch" using h epoch s' by simp
qed

lemma Acquire_Inr:
  assumes "AcquireSessionLease E c sid s = (s', Inr l)"
  obtains s2 m where "nextSessionWriterEpoch c sid m (invalidateJournalCache sid s) = (s2, Inr (ls_Epoch l))"
    "\<And>h. loadJournalHead (dirOf s sid) sid = Inr h \<Longrightarrow> m = jh_WriterEpoch h" "ls_SessionID l = sid"
    "\<not> sd_Locked (dirOf s sid)"
    "s' = (setDir sid ((dirOf s2 sid)\<lparr>sd_Locked := True\<rparr>) s2)\<lparr>st_LeaseEpochs := mput sid (ls_Epoch l) (st_LeaseEpochs s2)\<rparr>"
  using assms
  by (fastforce simp: AcquireSessionLease_def Let_def split: if_splits sum.splits prod.splits serror.splits)

lemma uncached_inv:
  assumes "store_inv E s" and "others_kept sid s s'" and "mget (st_JournalCaches s') sid = None"
  shows "store_inv E s'"
  by (rule store_inv_other [OF assms(1,2)]) (use assms(3) in simp)

lemma nextSessionWriterEpoch_shape:
  assumes "nextSessionWriterEpoch c sid minimum s = (s', r)"
  obtains "s' = s" | es where "s' = setDir sid ((dirOf s sid)\<lparr>sd_Epochs := es\<rparr>) s"
  using assms by (auto simp: nextSessionWriterEpoch_def Let_def split: sum.splits if_splits)

lemma logOf_cong:
  "logOf (d\<lparr>sd_Epochs := es\<rparr>) = logOf d" "logOf (d\<lparr>sd_Locked := b\<rparr>) = logOf d"
  by (simp_all add: logOf_def)

lemma nextSessionWriterEpoch_same:
  assumes "nextSessionWriterEpoch c sid minimum s = (s', r)"
  shows "others_kept sid s s'" "st_JournalCaches s' = st_JournalCaches s" "st_LeaseEpochs s' = st_LeaseEpochs s"
    "logOf (dirOf s' x) = logOf (dirOf s x)"
  using assms by (auto elim!: nextSessionWriterEpoch_shape simp: others_kept_def logOf_cong)

lemma activeWriterEpoch_put [simp]:
  "activeWriterEpoch (s\<lparr>st_LeaseEpochs := mput sid e L\<rparr>) x = (if x = sid then e else mget0 0 L x)"
  "activeWriterEpoch (s\<lparr>st_LeaseEpochs := mdel sid L\<rparr>) x = (if x = sid then 0 else mget0 0 L x)"
  by (auto simp: activeWriterEpoch_def mget0_def)

lemma Acquire_inv:
  assumes "store_inv E s" and "AcquireSessionLease E c sid s = (s', r)"
  shows "store_inv E s'" and "logOf (dirOf s' x) = logOf (dirOf s x)"
proof -
  let ?s = "invalidateJournalCache sid s"
  have base: "others_kept sid s ?s" "mget (st_JournalCaches ?s) sid = None" by (simp_all add: others_kept_def)
  have nxt: "others_kept sid s s2 \<and> mget (st_JournalCaches s2) sid = None \<and> logOf (dirOf s2 x) = logOf (dirOf s x) \<and>
      st_LeaseEpochs s2 = st_LeaseEpochs s"
    if "nextSessionWriterEpoch c sid m ?s = (s2, q)" for m s2 q x
    using nextSessionWriterEpoch_same [OF that] base others_kept_trans [OF base(1)] by auto
  let ?P = "\<lambda>s'. (s' = s \<or> others_kept sid s s' \<and> mget (st_JournalCaches s') sid = None) \<and>
      logOf (dirOf s' x) = logOf (dirOf s x)"
  let ?acquire = "\<lambda>m. case nextSessionWriterEpoch c sid m ?s of (s2, Inl e) \<Rightarrow> (s2, Inl e)
      | (s2, Inr epoch) \<Rightarrow>
          ((setDir sid ((dirOf s2 sid)\<lparr>sd_Locked := True\<rparr>) s2)\<lparr>st_LeaseEpochs := mput sid epoch (st_LeaseEpochs s2)\<rparr>,
           Inr \<lparr>ls_SessionID = sid, ls_Epoch = epoch, ls_Released = False\<rparr>)"
  have acquire: "?P (fst (?acquire m))" for m
  proof -
    obtain s2 q where n: "nextSessionWriterEpoch c sid m ?s = (s2, q)" by fastforce
    from nxt [OF n] n show ?thesis
      by (auto simp: others_kept_def activeWriterEpoch_def mget0_def logOf_cong split: sum.splits)
  qed
  have "?P (fst (AcquireSessionLease E c sid s))"
    using acquire [of 0] acquire base by (simp add: AcquireSessionLease_def Let_def split: sum.splits serror.splits)
  with assms(2) have "?P s'" by simp
  then show "store_inv E s'" "logOf (dirOf s' x) = logOf (dirOf s x)"
    using assms(1) uncached_inv by blast+
qed

lemma Advance_inv:
  assumes "store_inv E s" and "Advance c l s = (s', l', r)"
  shows "store_inv E s'" and "logOf (dirOf s' x) = logOf (dirOf s x)"
proof -
  let ?sid = "ls_SessionID l"
  obtain s1 q where nxt: "nextSessionWriterEpoch c ?sid (ls_Epoch l) s = (s1, q)" by fastforce
  note same = nextSessionWriterEpoch_same [OF nxt]
  consider "s' = s" | e where "q = Inl e" "s' = s1"
    | e where "s' = invalidateJournalCache ?sid (s1\<lparr>st_LeaseEpochs := mput ?sid e (st_LeaseEpochs s1)\<rparr>)"
    using assms(2) nxt by (auto simp: Advance_def Let_def split: if_splits sum.splits)
  then have "(s' = s \<or> others_kept ?sid s s' \<and> mget (st_JournalCaches s') ?sid = None) \<and>
      logOf (dirOf s' x) = logOf (dirOf s x)"
  proof cases
    case (2 e)
    with nxt show ?thesis by (auto simp: nextSessionWriterEpoch_def Let_def split: sum.splits if_splits)
  next
    case (3 e)
    then show ?thesis using same by (auto simp: others_kept_def activeWriterEpoch_def mget0_def)
  qed simp
  then show "store_inv E s'" "logOf (dirOf s' x) = logOf (dirOf s x)"
    using assms(1) uncached_inv by blast+
qed

lemma Release_inv:
  assumes "store_inv E s" and "Release l s = (s', l')"
  shows "store_inv E s'" and "logOf (dirOf s' x) = logOf (dirOf s x)"
proof -
  let ?sid = "ls_SessionID l"
  have "s' = s \<or> others_kept ?sid s s' \<and> mget (st_JournalCaches s') ?sid = None"
    using assms(2) by (auto simp: Release_def Let_def others_kept_def activeWriterEpoch_def mget0_def split: if_splits)
  with assms(1) uncached_inv show "store_inv E s'" by blast
  show "logOf (dirOf s' x) = logOf (dirOf s x)"
    using assms(2) by (auto simp: Release_def Let_def logOf_cong split: if_splits)
qed

lemma LoadManifest_effect:
  assumes inv: "store_inv E s"
  shows "log_effect E sid s (LoadManifest E c sid s)"
proof -
  let ?s = "invalidateJournalCache sid s"
  have o: "others_kept sid s ?s" by (simp add: others_kept_def)
  have inv1: "store_inv E ?s" by (rule uncached_inv [OF inv o]) simp
  have failed: "log_effect E sid s (?s, Inl e)" for e using inv1 o by (simp add: log_effect_def)
  have loaded: "log_effect E sid s
      (fst (writeManifest E c m (primeJournalCache E sid events n ?s)), Inr m)"
    if scan: "scanJournal E c sid ?s = (Inr events, n)" and m: "rebuildManifest E events = Inr m" for events n m
  proof -
    let ?t = "primeJournalCache E sid events n ?s"
    note sc = scanJournal_Inr [OF scan]
    have ot: "others_kept sid s ?t" by (simp add: others_kept_def)
    have invt: "store_inv E ?t"
    proof (rule store_inv_other [OF inv ot])
      assume "mget (st_JournalCaches ?t) sid \<noteq> None"
      then have "activeWriterEpoch ?s sid \<noteq> 0" by (auto simp: primeJournalCache_def Let_def split: if_splits)
      from primeJournalCache_ready [OF this scan] show "\<exists>epoch events st. ready E ?t sid epoch events st" by metis
    qed
    have log: "logOf (dirOf ?t sid) = events" "logOf (dirOf s sid) = events" using sc by (simp_all add: logOf_def)
    have same: "same_log sid ?t (fst (writeManifest E c m ?t))" by (rule writeManifest_same_log)
    have "log_effect E sid ?t (fst (writeManifest E c m ?t), Inr m)"
      by (rule log_effect_same [OF same invt]) (use log m in simp)
    with log ot show ?thesis by (auto simp: log_effect_def Let_def intro: others_kept_trans)
  qed
  show ?thesis using inv failed loaded by (auto simp: LoadManifest_def Let_def split: sum.splits prod.splits)
qed

subsection \<open>The steps of a process\<close>

text \<open>
  A process performs requests, loads manifests and handles leases; it may restart, which loses its
  memory and may release its locks; and other processes may append to the sessions it holds no
  lease for, since the lock file admits one writer per session.
\<close>

inductive store_step :: "env \<Rightarrow> dir_store \<Rightarrow> dir_store \<Rightarrow> bool" for E where
  perform: "is_create rq \<longrightarrow> undamaged E c (sessionOf rq) s \<Longrightarrow> store_step E s (fst (perform E c rq s))"
| load: "store_step E s (fst (LoadManifest E c sid s))"
| acquire: "store_step E s (fst (AcquireSessionLease E c sid s))"
| advance: "store_step E s (fst (Advance c l s))"
| release: "store_step E s (fst (Release l s))"
| restart: "(\<And>x. \<exists>b. dirOf s' x = (dirOf s x)\<lparr>sd_Locked := b\<rparr>) \<Longrightarrow> st_JournalCaches s' = [] \<Longrightarrow>
    st_LeaseEpochs s' = [] \<Longrightarrow> store_step E s s'"
| foreign: "(\<And>x. activeWriterEpoch s x \<noteq> 0 \<Longrightarrow> dirOf s' x = dirOf s x) \<Longrightarrow>
    (\<And>x. logOf (dirOf s' x) = logOf (dirOf s x) \<or> (\<exists>ev. logOf (dirOf s' x) = logOf (dirOf s x) @ [ev])) \<Longrightarrow>
    st_JournalCaches s' = st_JournalCaches s \<Longrightarrow> st_LeaseEpochs s' = st_LeaseEpochs s \<Longrightarrow> store_step E s s'"

lemma log_effect_step:
  assumes "log_effect E sid s res"
  shows "store_inv E (fst res)"
    and "logOf (dirOf (fst res) x) = logOf (dirOf s x) \<or> (\<exists>ev. logOf (dirOf (fst res) x) = logOf (dirOf s x) @ [ev])"
proof -
  show "store_inv E (fst res)" using assms by (simp add: log_effect_def Let_def)
  show "logOf (dirOf (fst res) x) = logOf (dirOf s x) \<or> (\<exists>ev. logOf (dirOf (fst res) x) = logOf (dirOf s x) @ [ev])"
  proof (cases "x = sid")
    case True
    with assms show ?thesis by (simp add: log_effect_def Let_def)
  next
    case False
    with assms have "coreDir (dirOf (fst res) x) = coreDir (dirOf s x)" by (simp add: log_effect_def Let_def others_kept_def)
    from coreDir_eq(1,2) [OF this] show ?thesis by (simp add: logOf_def)
  qed
qed

lemma store_step_effect:
  assumes "store_inv E s" and "store_step E s s'"
  shows "store_inv E s' \<and> (\<forall>x. logOf (dirOf s' x) = logOf (dirOf s x) \<or> (\<exists>ev. logOf (dirOf s' x) = logOf (dirOf s x) @ [ev]))"
  using assms(2)
proof cases
  case (perform c rq)
  from log_effect_step [OF perform_effect [OF assms(1) perform(2)]] perform(1) show ?thesis by simp
next
  case (load c sid)
  from log_effect_step [OF LoadManifest_effect [OF assms(1)]] load show ?thesis by simp
next
  case (acquire c sid)
  from Acquire_inv [OF assms(1) prod.collapse [symmetric]] acquire show ?thesis by simp
next
  case (advance c l)
  obtain s1 l1 r1 where "Advance c l s = (s1, l1, r1)" by (cases "Advance c l s") auto
  with Advance_inv [OF assms(1) this] advance show ?thesis by simp
next
  case (release l)
  from Release_inv [OF assms(1) prod.collapse [symmetric]] release show ?thesis by simp
next
  case restart
  have "logOf (dirOf s' x) = logOf (dirOf s x)" for x
    using restart(1) [of x] by (auto simp: logOf_cong)
  with restart(2) show ?thesis by (simp add: store_inv_def)
next
  case foreign
  have "store_inv E s'" unfolding store_inv_def
  proof (intro allI impI)
    fix x assume "mget (st_JournalCaches s') x \<noteq> None"
    with assms(1) foreign(3) obtain epoch events st where r: "ready E s x epoch events st"
      unfolding store_inv_def by fastforce
    then have "dirOf s' x = dirOf s x" using foreign(1) [of x] by (simp add: ready_def)
    with r foreign(3,4) have "ready E s' x epoch events st" by (simp add: ready_def activeWriterEpoch_def)
    then show "\<exists>epoch events st. ready E s' x epoch events st" by blast
  qed
  with foreign(2) show ?thesis by blast
qed

interpretation store: log_refinement "store_step E" "\<lambda>s sid. logOf (dirOf s sid)" "store_inv E" for E
  by unfold_locales (use store_step_effect in blast)+

lemma store_inv_start: "st_JournalCaches s = [] \<Longrightarrow> store_inv E s"
  by (simp add: store_inv_def)

end
