(* ===== verification/Session_Monotone.thy ===== *)
theory Session_Monotone
  imports Session_History
begin

section \<open>What a journal records of an attempt is never taken back\<close>

text \<open>
  An order on attempts that every accepted event respects: identity and mode are fixed, a
  settled status is final, and the committed trace and the checkpoints only advance.
\<close>

definition attempt_le :: "attempt_record \<Rightarrow> attempt_record \<Rightarrow> bool" where
  "attempt_le a a' \<longleftrightarrow>
     at_RunID a' = at_RunID a \<and> at_SegmentID a' = at_SegmentID a \<and> at_Mode a' = at_Mode a \<and>
     at_Ordinal a' = at_Ordinal a \<and> (settled (at_Status a) \<longrightarrow> at_Status a' = at_Status a) \<and>
     at_CommittedTraceSequence a \<le> at_CommittedTraceSequence a' \<and>
     (at_ExecutionMutationHash a \<noteq> '''' \<longrightarrow> at_ExecutionMutationHash a' \<noteq> '''' \<and>
        at_CheckpointSequence a \<le> at_CheckpointSequence a')"

definition attempts_le :: "manifest \<Rightarrow> manifest \<Rightarrow> bool" where
  "attempts_le m m' \<longleftrightarrow>
     (\<forall>r a. mget (mf_Attempts m) r = Some a \<longrightarrow> (\<exists>a'. mget (mf_Attempts m') r = Some a' \<and> attempt_le a a'))"

lemma attempt_le_refl [simp]: "attempt_le a a"
  by (simp add: attempt_le_def)

lemma attempt_le_trans: "attempt_le a b \<Longrightarrow> attempt_le b c \<Longrightarrow> attempt_le a c"
  by (auto simp: attempt_le_def)

lemma attempts_le_refl: "attempts_le m m"
  by (simp add: attempts_le_def)

lemma attempts_le_trans: "attempts_le m n \<Longrightarrow> attempts_le n k \<Longrightarrow> attempts_le m k"
  unfolding attempts_le_def by (meson attempt_le_trans)

lemma attempts_le_eq: "mf_Attempts m' = mf_Attempts m \<Longrightarrow> attempts_le m m'"
  by (simp add: attempts_le_def)

lemma attempts_le_put:
  assumes "mf_Attempts m' = mput r a' (mf_Attempts m)"
    and "\<And>a. mget (mf_Attempts m) r = Some a \<Longrightarrow> attempt_le a a'"
  shows "attempts_le m m'"
  using assms by (simp add: attempts_le_def)

lemma attempts_le_status:
  assumes "applyAttemptStatus m r s h now = Inr m'"
  shows "attempts_le m m'"
  using assms
proof (elim applyAttemptStatus_Inr)
  fix a assume a: "mget (mf_Attempts m) r = Some a" and valid: "validAttemptTransition (at_Status a) s"
    and m': "m' = putSegment (sg_SegmentID (getSegment m (at_SegmentID a)))
            (segmentForStatus s (getSegment m (at_SegmentID a)))
            (putAttempt r (a\<lparr>at_Status := s, at_UpdatedAt := now,
                at_RunProjectionHash := (if h \<noteq> '''' then h else at_RunProjectionHash a),
                at_CompletedAt := completedAtForStatus s now (at_CompletedAt a)\<rparr>)
              (setSession (sessionForStatus s (sg_SegmentID (getSegment m (at_SegmentID a))) (at_RunID a)) m))"
  show ?thesis
    by (rule attempts_le_put [where r = r])
      (use a valid_transition_from [OF valid] in \<open>auto simp: m' manifest_simps attempt_le_def\<close>)
qed

lemma attempts_le_execution:
  assumes "applyExecution E m ev p = Inr m'"
  shows "attempts_le m m'"
proof -
  from assms obtain m2 where hash: "validDigest (ep_MutationHash p)"
    and m2: "applyExecutionMutation m p (ev_Timestamp ev) = Inr m2"
    and m': "applyOccurrenceRecords E m2 (ep_RunID p) (ep_Occurrences p) = Inr m'"
    by (auto simp: applyExecution_def andThen_Inr_conv split: if_splits)
  from m2 obtain a m1 where a: "mget (mf_Attempts m) (ep_RunID p) = Some a"
    and "ep_PreviousMutationHash p = at_ExecutionMutationHash a"
    and "at_ExecutionMutationHash a = '''' \<longrightarrow> ep_CheckpointSequence p = 0"
    and cp: "at_ExecutionMutationHash a \<noteq> '''' \<longrightarrow> at_CheckpointSequence a < ep_CheckpointSequence p"
    and tr: "latestTraceSequence a \<le> ep_CommittedTraceSequence p"
    and m1: "applyAttemptStatus m (ep_RunID p) (ep_Status p) (ep_ProjectionHash p) (ev_Timestamp ev) = Inr m1"
    and m2': "m2 = putAttempt (ep_RunID p) ((getAttempt m1 (ep_RunID p))\<lparr>at_ExecutionMutationHash := ep_MutationHash p,
        at_CheckpointSequence := ep_CheckpointSequence p,
        at_CommittedTraceSequence := ep_CommittedTraceSequence p\<rparr>) m1"
    by (rule applyExecutionMutation_Inr)
  from m1 obtain a1 where a1: "mget (mf_Attempts m1) (ep_RunID p) = Some a1"
    and same: "at_CheckpointSequence a1 = at_CheckpointSequence a" "at_ExecutionMutationHash a1 = at_ExecutionMutationHash a"
      "at_CommittedTraceSequence a1 = at_CommittedTraceSequence a"
    using a by (elim applyAttemptStatus_Inr) (auto simp: manifest_simps)
  have "at_CommittedTraceSequence a \<le> latestTraceSequence a" by (simp add: latestTraceSequence_def)
  then have "attempts_le m1 m2"
    unfolding m2'
    by (intro attempts_le_put [where r = "ep_RunID p"])
      (use a1 same cp tr hash in \<open>auto simp: manifest_simps attempt_le_def getAttempt_Some validDigest_def\<close>)
  moreover have "attempts_le m2 m'" using applyOccurrenceRecords_frame [OF m'] by (intro attempts_le_eq) simp
  ultimately show ?thesis using attempts_le_status [OF m1] attempts_le_trans by blast
qed

lemma attempts_le_trace:
  assumes "applyTrace E m ev p = Inr m'"
  shows "attempts_le m m'"
proof -
  from assms obtain a m1 where a: "mget (mf_Attempts m) (tp_RunID p) = Some a"
    and m1: "m1 = putAttempt (tp_RunID p) (a\<lparr>at_JournaledTraceSequence := tp_TraceSequence p\<rparr>) m"
    and m': "m' = m1 \<or> (\<exists>r. tp_Occurrence p = Some r \<and>
       applyOccurrenceRecords E m1 (tp_RunID p) [(OccurrenceID E r, r)] = Inr m')"
    by (rule applyTrace_Inr)
  have "attempts_le m m1"
    by (rule attempts_le_put [where r = "tp_RunID p"]) (use a in \<open>auto simp: m1 manifest_simps attempt_le_def\<close>)
  moreover have "attempts_le m1 m'"
    using m' by (auto dest!: applyOccurrenceRecords_frame intro: attempts_le_eq attempts_le_refl)
  ultimately show ?thesis by (rule attempts_le_trans)
qed

lemma attempts_le_committed:
  assumes "applyCommitted E m P ev p = Inr m'"
  shows "attempts_le m m'"
  using assms
proof (elim applyCommitted_Inr)
  fix t :: transition_record and q :: prepared_payload
  let ?src = "so_RunID (tr_SourceOccurrence t)" and ?now = "ev_Timestamp ev"
  assume src: "at_Status (getAttempt m ?src) = AttemptStatusHandoffPending"
    and fresh: "mget (mf_Attempts m) (at_RunID (pp_TargetAttempt q)) = None"
    and m': "m' = setSession (\<lambda>r. r\<lparr>sr_Status := StatusActive,
              sr_ActiveSegmentID := sg_SegmentID (pp_TargetSegment q), sr_ActiveRunID := at_RunID (pp_TargetAttempt q)\<rparr>)
           (putTransition (mp_TransitionID p)
              (t\<lparr>tr_Status := TransitionStatusCommitted, tr_CommittedAt := ?now\<rparr>)
           (putAttempt (at_RunID (pp_TargetAttempt q))
              ((pp_TargetAttempt q)\<lparr>at_StartedAt := ?now, at_UpdatedAt := ?now\<rparr>)
           (putSegment (sg_SegmentID (pp_TargetSegment q)) (pp_TargetSegment q)
           (putAttempt ?src
              ((getAttempt m ?src)\<lparr>at_Status := AttemptStatusCompleted, at_UpdatedAt := ?now, at_CompletedAt := ?now\<rparr>)
           (putSegment (tr_SourceSegmentID t)
              ((getSegment m (tr_SourceSegmentID t))\<lparr>sg_Status := SegmentStatusHandedOff\<rparr>) m)))))"
  let ?m = "putAttempt ?src
     ((getAttempt m ?src)\<lparr>at_Status := AttemptStatusCompleted, at_UpdatedAt := ?now, at_CompletedAt := ?now\<rparr>) m"
  have "attempts_le m ?m"
    by (rule attempts_le_put [where r = ?src])
      (use src in \<open>auto simp: manifest_simps attempt_le_def getAttempt_Some settled_def\<close>)
  moreover have "at_RunID (pp_TargetAttempt q) \<noteq> ?src"
  proof
    assume "at_RunID (pp_TargetAttempt q) = ?src"
    with fresh have "getAttempt m ?src = zeroAttempt" by (simp add: getAttempt_def mget0_def)
    with src show False by simp
  qed
  then have "attempts_le ?m m'"
    by (intro attempts_le_put [where r = "at_RunID (pp_TargetAttempt q)"]) (use fresh in \<open>auto simp: m' manifest_simps\<close>)
  ultimately show ?thesis by (rule attempts_le_trans)
qed

lemma attempts_le_closed:
  assumes "applyClosed E m ev p = Inr m'"
  shows "attempts_le m m'"
proof -
  let ?run = "sr_ActiveRunID (mf_Session m)"
  have "attempts_le m (cancelPausedAttempt m ?run now)" if "isPausedAttemptStatus (at_Status (getAttempt m ?run))" for now
  proof (rule attempts_le_put)
    show "mf_Attempts (cancelPausedAttempt m ?run now) = mput ?run ((getAttempt m ?run)
        \<lparr>at_Status := AttemptStatusCancelled, at_UpdatedAt := now, at_CompletedAt := now\<rparr>) (mf_Attempts m)"
      by (simp add: cancelPausedAttempt_def Let_def manifest_simps)
    fix a assume "mget (mf_Attempts m) ?run = Some a"
    with paused_not_settled [OF that] show "attempt_le a ((getAttempt m ?run)
        \<lparr>at_Status := AttemptStatusCancelled, at_UpdatedAt := now, at_CompletedAt := now\<rparr>)"
      by (simp add: attempt_le_def getAttempt_Some)
  qed
  moreover have "mf_Attempts m' = mf_Attempts (if ?run \<noteq> '''' \<and> isPausedAttemptStatus (at_Status (getAttempt m ?run))
      then cancelPausedAttempt m ?run (ev_Timestamp ev) else m)"
    using assms unfolding applyClosed_def Let_def
    by (simp only: setSession_sel sum.inject sum.simps split: if_split_asm)
      (hypsubst, simp only: setSession_sel simp_thms if_True if_False)+
  ultimately show ?thesis
    using attempts_le_eq [of m' "cancelPausedAttempt m ?run (ev_Timestamp ev)"] attempts_le_eq [of m' m]
      attempts_le_trans [of m "cancelPausedAttempt m ?run (ev_Timestamp ev)" m']
    by (simp split: if_split_asm)
qed

lemma attempts_le_applyKind:
  assumes inv: "rebuild_inv st" and eq: "applyKind E (rs_Manifest st) (rs_Prepared st) ev k pay = Inr m"
  shows "attempts_le (rs_Manifest st) m"
proof (cases k)
  case EventSessionCreated
  with eq have "sr_Sequence (mf_Session (rs_Manifest st)) = 0"
    by (auto simp: applyKind_def applyCreated_def Let_def split: payload.splits if_splits)
  with inv show ?thesis by (simp add: rebuild_inv_def attempts_le_def)
next
  case EventTransitionPrepared
  with eq show ?thesis
    by (auto simp: applyKind_def manifest_simps dest!: applyPrepared_Inr(1) intro!: attempts_le_eq split: payload.splits)
next
  case EventTransitionAborted
  with eq show ?thesis
    by (auto simp: applyKind_def applyAborted_def manifest_simps intro!: attempts_le_eq
        split: payload.splits option.splits if_splits)
next
  case EventSegmentRevised
  with eq show ?thesis
    by (auto simp: applyKind_def applyRevised_def Let_def manifest_simps andThen_Inr_conv intro!: attempts_le_eq
        split: payload.splits if_splits)
next
  case EventSessionPaused
  with eq show ?thesis
    by (auto simp: applyKind_def applyPaused_def manifest_simps intro!: attempts_le_eq split: payload.splits if_splits)
next
  case EventSessionDetached
  with eq show ?thesis
    by (auto simp: applyKind_def applyDetached_def intro!: attempts_le_refl split: payload.splits if_splits)
next
  case EventSessionResumed
  with eq show ?thesis
    by (auto simp: applyKind_def applyResumed_def dest: attempts_le_status split: payload.splits if_splits)
next
  case EventAttemptUpdated
  with eq show ?thesis
    by (auto simp: applyKind_def applyAttemptUpdated_def dest: attempts_le_status split: payload.splits if_splits)
qed (use eq in \<open>auto simp: applyKind_def split: payload.splits
    intro: attempts_le_closed attempts_le_execution attempts_le_trace attempts_le_committed\<close>)

lemma attempts_le_step:
  assumes "rebuild_inv st" and "rebuildStep E st ev = Inr st'"
  shows "attempts_le (rs_Manifest st) (rs_Manifest st')"
  using assms(2)
proof (elim rebuildStep_Inr)
  fix m assume m: "applyKind E (rs_Manifest st) (rs_Prepared st) ev (ev_Kind ev) (ev_Payload ev) = Inr m"
    and st': "st' = \<lparr>rs_Manifest = sealEvent m ev, rs_PreviousDigest = ev_Digest ev,
              rs_PreviousWriterEpoch = ev_WriterEpoch ev, rs_EventIDs = ev_EventID ev # rs_EventIDs st,
              rs_Prepared = preparedAfter (rs_Prepared st) (ev_Kind ev) (ev_Payload ev)\<rparr>"
  have "attempts_le m (rs_Manifest st')" by (rule attempts_le_eq) (simp add: st' manifest_simps)
  with attempts_le_applyKind [OF assms(1) m] show ?thesis by (rule attempts_le_trans)
qed

lemma attempts_le_run:
  assumes "env_ok E" and "rebuild_inv st" and "rebuildManifestFromState E st evs = Inr st'"
  shows "attempts_le (rs_Manifest st) (rs_Manifest st')"
proof (rule rebuild.run_relation [where R = "\<lambda>a b. attempts_le (rs_Manifest a) (rs_Manifest b)" and I = rebuild_inv,
      OF _ _ _ assms(2,3)])
  show "\<And>s. attempts_le (rs_Manifest s) (rs_Manifest s)" by (rule attempts_le_refl)
  show "\<And>a b c. attempts_le (rs_Manifest a) (rs_Manifest b) \<Longrightarrow> attempts_le (rs_Manifest b) (rs_Manifest c) \<Longrightarrow>
      attempts_le (rs_Manifest a) (rs_Manifest c)" by (rule attempts_le_trans)
  show "\<And>s e s'. rebuild_inv s \<Longrightarrow> rebuildStep E s e = Inr s' \<Longrightarrow>
      rebuild_inv s' \<and> attempts_le (rs_Manifest s) (rs_Manifest s')"
    using rebuildStep_inv [OF assms(1)] attempts_le_step by blast
qed

end
