(* ===== verification/Session_Acceptance.thy ===== *)
theory Session_Acceptance
  imports Session_Refinement Session_Monotone
begin

section \<open>Operations whose events are always accepted\<close>

text \<open>
  An operation checks its request against the manifest, the rebuild loop checks the event again. For
  nine of the twelve operations the first check implies the second, so they never leave a journal that
  no longer rebuilds, whatever happens to their writes.
\<close>

subsection \<open>The envelope of a new event\<close>

text \<open>What the source relies on: fresh canonical identifiers and a clock that prints RFC 3339.\<close>

definition good_call :: "env \<Rightarrow> call \<Rightarrow> event list \<Rightarrow> bool" where
  "good_call E c events \<longleftrightarrow>
     uuidCanonical E (cl_EventID c) \<and> cl_EventID c \<notin> ev_EventID ` set events \<and> timeOk E (cl_Now c)"

lemma applyKind_sessionID:
  assumes "applyKind E m P ev k pay = Inr m'" and "k \<noteq> EventSessionCreated"
  shows "sr_SessionID (mf_Session m') = sr_SessionID (mf_Session m)"
proof -
  have st: "sr_SessionID (sessionForStatus s g r x) = sr_SessionID x" for s g r x
    by (cases s) (simp_all add: sessionForStatus_def)
  have status: "applyAttemptStatus m r s h now = Inr m' \<Longrightarrow> sr_SessionID (mf_Session m') = sr_SessionID (mf_Session m)"
    for m r s h now m'
    by (elim applyAttemptStatus_Inr) (simp add: manifest_simps st)
  show ?thesis
  proof (cases k)
    case EventExecutionCommitted
    with assms show ?thesis
      by (auto simp: applyKind_def applyExecution_def andThen_Inr_conv manifest_simps
          dest!: applyOccurrenceRecords_frame status elim!: applyExecutionMutation_Inr split: payload.splits if_splits)
  next
    case EventTraceCommitted
    with assms show ?thesis
      by (auto simp: applyKind_def manifest_simps dest!: applyOccurrenceRecords_frame elim!: applyTrace_Inr
          split: payload.splits)
  next
    case EventTransitionCommitted
    with assms show ?thesis
      by (auto simp: applyKind_def manifest_simps elim!: applyCommitted_Inr split: payload.splits)
  next
    case EventTransitionPrepared
    with assms show ?thesis
      by (auto simp: applyKind_def manifest_simps dest!: applyPrepared_Inr(1) split: payload.splits)
  qed (use assms in \<open>auto simp: applyKind_def applyClosed_def applyPaused_def applyResumed_def
      applyDetached_def applyAttemptUpdated_def applyRevised_def applyAborted_def cancelPausedAttempt_def Let_def
      manifest_simps andThen_Inr_conv dest!: status split: payload.splits if_splits option.splits\<close>)
qed

lemma created_sessionID:
  "rebuildManifestFromState E newManifestRebuildState events = Inr st \<Longrightarrow> events \<noteq> [] \<Longrightarrow>
   ev_Kind (hd events) = EventSessionCreated \<Longrightarrow> sr_SessionID (mf_Session (rs_Manifest st)) = ev_SessionID (hd events)"
proof (induction events arbitrary: st rule: rev_induct)
  case (snoc ev events)
  then obtain st0 where st0: "rebuildManifestFromState E newManifestRebuildState events = Inr st0"
    and step: "rebuildStep E st0 ev = Inr st"
    by (auto simp: rebuild.run_snoc andThen_Inr_conv)
  from step obtain m where chk: "checkEvent E st0 ev = Inr ()"
    and m: "applyKind E (rs_Manifest st0) (rs_Prepared st0) ev (ev_Kind ev) (ev_Payload ev) = Inr m"
    and st: "st = \<lparr>rs_Manifest = sealEvent m ev, rs_PreviousDigest = ev_Digest ev,
              rs_PreviousWriterEpoch = ev_WriterEpoch ev, rs_EventIDs = ev_EventID ev # rs_EventIDs st0,
              rs_Prepared = preparedAfter (rs_Prepared st0) (ev_Kind ev) (ev_Payload ev)\<rparr>"
    by (rule rebuildStep_Inr)
  have id: "sr_SessionID (mf_Session (rs_Manifest st)) = sr_SessionID (mf_Session m)"
    by (simp add: st manifest_simps)
  have created: "sr_Sequence (mf_Session (rs_Manifest st0)) = 0 \<and> sr_SessionID (mf_Session m) = ev_SessionID ev"
    if "ev_Kind ev = EventSessionCreated"
    using m that by (auto simp: applyKind_def applyCreated_def Let_def manifest_simps split: payload.splits if_splits)
  show ?case
  proof (cases "events = []")
    case True
    with snoc.prems(3) created id show ?thesis by simp
  next
    case False
    from linked_run [OF st0] False have "sr_Sequence (mf_Session (rs_Manifest st0)) \<noteq> 0" by (simp add: linked_def)
    with created have "ev_Kind ev \<noteq> EventSessionCreated" by blast
    with applyKind_sessionID [OF m] id snoc.IH [OF st0 False] snoc.prems(3) False show ?thesis by simp
  qed
qed simp

lemma next_event_checked:
  assumes E: "env_ok E" and r: "ready E s sid epoch events st" and good: "good_call E c events"
    and created: "ev_Kind (hd events) = EventSessionCreated" and epoch: "ev_WriterEpoch (last events) \<le> epoch"
    and ids: "validateUUID E sid" "validateUUID E i"
    and new: "mget (mf_AcceptedCommands (rs_Manifest st)) i = None"
    and client: "cl = '''' \<or> validDigest cl" and digest: "d \<noteq> ''''"
    and kind: "k \<noteq> EventKindOther ''''" and pay: "payloadValid p"
  shows "checkEvent E st (nextEvent E c sid epoch (rs_Manifest st) events i d cl k p) = Inr ()"
proof -
  have run: "rebuildManifestFromState E newManifestRebuildState events = Inr st" and ne: "events \<noteq> []"
    and e0: "epoch \<noteq> 0" and sids: "\<forall>ev\<in>set events. ev_SessionID ev = sid"
    using r by (simp_all add: ready_def)
  note L = linked_run [OF run, unfolded linked_def]
  have sid: "sr_SessionID (mf_Session (rs_Manifest st)) = sid"
    using created_sessionID [OF run ne created] sids ne by simp
  have "sid \<noteq> ''''" "i \<noteq> ''''" using uuid_nonempty [OF E] ids by blast+
  moreover have "cl_EventID c \<noteq> ''''" using good uuid_nonempty [OF E] by (auto simp: good_call_def validateUUID_def)
  ultimately show ?thesis
    using L ne e0 sid good epoch ids new client digest kind pay
    by (simp add: checkEvent_def Let_def good_call_def validateUUID_def)
qed

subsection \<open>Readable journals\<close>

definition readable :: "env \<Rightarrow> session_dir \<Rightarrow> bool" where
  "readable E d \<longleftrightarrow> is_ok (rebuildManifest E (logOf d))"

lemma readable_same_log: "same_log sid s s' \<Longrightarrow> readable E (dirOf s' sid) = readable E (dirOf s sid)"
  by (simp add: readable_def same_log_logOf)

lemma ready_readable: "ready E s sid epoch events st \<Longrightarrow> readable E (dirOf s sid)"
  using ready_log ready_manifest by (fastforce simp: readable_def)

lemma finishManifest_readable: "readable E (dirOf (fst (finishManifest E c m s)) sid) = readable E (dirOf s sid)"
proof -
  obtain s' r where f: "finishManifest E c m s = (s', r)" by fastforce
  from readable_same_log [OF finishManifest_same_log(1) [OF f]] f show ?thesis by simp
qed

lemma appendEvent_readable:
  assumes r: "ready E s sid epoch events st" and ev: "ev_SessionID ev = sid" "ev_WriterEpoch ev = epoch"
    and ok: "is_ok (rebuildManifest E (events @ [ev]))" and app: "appendEvent E c ev s = (s', q)"
  shows "readable E (dirOf s' sid)"
proof (cases "q = Inr ()")
  case True
  with appendEvent_ready [OF r ev app] ready_readable show ?thesis by blast
next
  case False
  with appendEvent_ready [OF r ev app] have "logOf (dirOf s' sid) = events \<or> logOf (dirOf s' sid) = events @ [ev]"
    by (simp add: append_failed_def)
  with ok ready_manifest [OF r] show ?thesis by (auto simp: readable_def)
qed

lemma accepted_rebuild:
  assumes "ready E s sid epoch events st" and "checkEvent E st ev = Inr ()"
    and "is_ok (applyKind E (rs_Manifest st) (rs_Prepared st) ev (ev_Kind ev) (ev_Payload ev))"
  shows "is_ok (rebuildManifest E (events @ [ev]))"
  using assms
  by (auto simp: ready_def rebuildManifest_def rebuild.run_snoc rebuildStep_def is_ok_def split: sum.splits)

lemma appendThenRebuild_readable:
  assumes "ready E s sid epoch events st" and "ev_SessionID ev = sid" "ev_WriterEpoch ev = epoch"
    and "is_ok (rebuildManifest E (events @ [ev]))"
  shows "readable E (dirOf (fst (appendThenRebuild E c sid events ev s)) sid)"
proof -
  obtain s1 q where app: "appendEvent E c ev s = (s1, q)" by fastforce
  from appendEvent_readable [OF assms app] app show ?thesis
    by (simp add: appendThenRebuild_def finishManifest_readable split: sum.splits)
qed

lemma rebuildThenAppend_readable:
  assumes r: "ready E s sid epoch events st" and ev: "ev_SessionID ev = sid" "ev_WriterEpoch ev = epoch"
  shows "readable E (dirOf (fst (rebuildThenAppend E c sid events ev blobs s)) sid)"
proof -
  obtain s1 w where wr: "writeBlobs E c sid blobs s = (s1, w)" by fastforce
  have same: "same_log sid s s1" using writeBlobs_same_log [of sid s E c blobs] wr by simp
  note r1 = same_log_ready [OF same r]
  obtain s2 q where app: "appendEvent E c ev s1 = (s2, q)" by fastforce
  have "readable E (dirOf s2 sid)" if "rebuildManifest E (events @ [ev]) = Inr m" for m
    using appendEvent_readable [OF r1 ev _ app] that by simp
  moreover have "readable E (dirOf (removeNewBlobs sid ps s1) sid)" for ps
    using readable_same_log [OF same_log_trans [OF same removeNewBlobs_same_log]] ready_readable [OF r] by simp
  ultimately show ?thesis
    using wr app ready_readable [OF r] ready_readable [OF r1]
    by (auto simp: rebuildThenAppend_def ready_manifestForEvents(2) [OF r] finishManifest_readable split: sum.splits)
qed

lemma withSession_readable:
  assumes inv: "store_inv E s" and ok: "readable E (dirOf s sid)" and v: "validateWriterEpoch s sid epoch = Inr u"
    and k: "\<And>events st s1. ready E s1 sid epoch events st \<Longrightarrow> events = logOf (dirOf s sid) \<Longrightarrow>
      readable E (dirOf (fst (k events (rs_Manifest st) s1)) sid)"
  shows "readable E (dirOf (fst (withSession E c sid s k)) sid)"
proof -
  have epoch: "activeWriterEpoch s sid = epoch" "activeWriterEpoch s sid \<noteq> 0" using validateWriterEpoch_Inr [OF v] by simp_all
  obtain s1 r where load: "loadEvents E c sid s = (s1, r)" by fastforce
  show ?thesis
  proof (cases r)
    case (Inl e)
    with load loadEvents_error have "s1 = s" by blast
    with Inl load ok show ?thesis by (simp add: withSession_def)
  next
    case (Inr events)
    with load have load': "loadEvents E c sid s = (s1, Inr events)" by simp
    obtain st where r: "ready E s1 sid (activeWriterEpoch s sid) events st"
      using loadEvents_ready [OF inv epoch(2) load'] .
    have "events = logOf (dirOf s sid)" using ready_log [OF r] loadEvents_kept(1) [OF load'] by simp
    with k r epoch(1) load' ready_manifestForEvents(1) [OF r] show ?thesis by (simp add: withSession_def)
  qed
qed

subsection \<open>Each operation\<close>

lemma validated_readable:
  assumes "store_inv E s" and "readable E (dirOf s sid)"
    and "\<And>events st s1. ready E s1 sid epoch events st \<Longrightarrow> events = logOf (dirOf s sid) \<Longrightarrow>
      readable E (dirOf (fst (k events (rs_Manifest st) s1)) sid)"
  shows "readable E (dirOf (fst (case validateWriterEpoch s sid epoch of
     Inl e \<Rightarrow> (s, Inl e) | Inr _ \<Rightarrow> withSession E c sid s k)) sid)"
  using assms withSession_readable [where k = k, OF assms(1,2) _ assms(3)]
  by (cases "validateWriterEpoch s sid epoch") simp_all

lemma receipt_readable:
  assumes "ready E s sid epoch events st"
    and "mget (mf_AcceptedCommands (rs_Manifest st)) i = None \<Longrightarrow> readable E (dirOf (fst k) sid)"
  shows "readable E (dirOf (fst (withReceipt (rs_Manifest st) i same s k)) sid)"
  using assms ready_readable [OF assms(1)] by (auto simp: withReceipt_def split: option.splits)

lemma next_event_readable:
  assumes "env_ok E" and r: "ready E s sid epoch events st" and "good_call E c events"
    and "ev_Kind (hd events) = EventSessionCreated" and "ev_WriterEpoch (last events) \<le> epoch"
    and "validateUUID E sid" and "validateUUID E i" and "mget (mf_AcceptedCommands (rs_Manifest st)) i = None"
    and "cl = '''' \<or> validDigest cl" and "d \<noteq> ''''" and "k \<noteq> EventKindOther ''''" and "payloadValid p"
    and ok: "is_ok (applyKind E (rs_Manifest st) (rs_Prepared st)
      (nextEvent E c sid epoch (rs_Manifest st) events i d cl k p) k p)"
  shows "readable E (dirOf (fst (appendThenRebuild E c sid events
     (nextEvent E c sid epoch (rs_Manifest st) events i d cl k p) s)) sid)"
proof (rule appendThenRebuild_readable [OF r])
  show "is_ok (rebuildManifest E (events @ [nextEvent E c sid epoch (rs_Manifest st) events i d cl k p]))"
    using ok by (intro accepted_rebuild [OF r next_event_checked [OF assms(1-12)]]) simp
qed simp_all

lemma ready_topology: "env_ok E \<Longrightarrow> ready E s sid epoch events st \<Longrightarrow> rebuild_inv st"
  unfolding ready_def using rebuild_inv_reachable by blast

lemma digest_nonempty: "env_ok E \<Longrightarrow> DigestJSON E d \<noteq> ''''"
proof
  assume "env_ok E" "DigestJSON E d = ''''"
  then have "validDigest ''''" unfolding env_ok_def DigestJSON_def DigestBytes_def by metis
  then show False by (simp add: validDigest_def)
qed

lemma ready_sessionID:
  "ready E s sid epoch events st \<Longrightarrow> ev_Kind (hd events) = EventSessionCreated \<Longrightarrow>
   sr_SessionID (mf_Session (rs_Manifest st)) = sid"
  using created_sessionID by (auto simp: ready_def)

lemma close_accepted:
  assumes E: "env_ok E" and r: "ready E s sid epoch events st" and created: "ev_Kind (hd events) = EventSessionCreated"
    and sid: "validateUUID E sid" and status: "isCloseStatus x"
    and d: "ev_CommandDigest ev = DigestJSON E (DocClose x)"
    and idle: "\<not> (sr_ActiveRunID (mf_Session (rs_Manifest st)) \<noteq> '''' \<and>
        \<not> isTerminalAttemptStatus (at_Status (getAttempt (rs_Manifest st) (sr_ActiveRunID (mf_Session (rs_Manifest st))))) \<and>
        \<not> (sr_Status (mf_Session (rs_Manifest st)) = StatusPaused \<and>
           isPausedAttemptStatus (at_Status (getAttempt (rs_Manifest st) (sr_ActiveRunID (mf_Session (rs_Manifest st)))))))"
  shows "is_ok (applyKind E (rs_Manifest st) P ev EventSessionClosed (PayClosed (closePayload (rs_Manifest st) x)))"
proof -
  let ?m = "rs_Manifest st" and ?run = "sr_ActiveRunID (mf_Session (rs_Manifest st))"
  have "topology_ok ?m" using ready_topology [OF E r] by (simp add: rebuild_inv_def)
  then have seg: "at_SegmentID (getAttempt ?m ?run) = sr_ActiveSegmentID (mf_Session ?m) \<and>
      sr_ActiveSegmentID (mf_Session ?m) \<noteq> ''''" if "?run \<noteq> ''''"
    using that unfolding topology_ok_def by (metis getAttempt_Some)
  have "sr_SessionID (mf_Session ?m) \<noteq> ''''" using ready_sessionID [OF r created] uuid_nonempty [OF E sid] by simp
  then have "\<exists>m'. applyClosed E ?m ev (closePayload ?m x) = Inr m'"
    using seg status d idle unfolding applyClosed_def Let_def
    by (cases "?run \<noteq> '''' \<and> isPausedAttemptStatus (at_Status (getAttempt ?m ?run))")
      (simp_all add: closePayload_def Let_def)
  then show ?thesis by (auto simp: applyKind_def)
qed

lemma pause_accepted:
  assumes "sr_ActiveRunID (mf_Session m) \<noteq> ''''" and "\<not> badReason reason"
    and "ev_CommandDigest ev = DigestJSON E (DocPause (sr_ActiveRunID (mf_Session m)) reason)"
    and "isPausedAttemptStatus (at_Status (getAttempt m (sr_ActiveRunID (mf_Session m))))"
  shows "is_ok (applyKind E m P ev EventSessionPaused (PayPaused (sr_ActiveRunID (mf_Session m)) reason))"
  using assms by (simp add: applyKind_def applyPaused_def badReason_def)

lemma status_accepted:
  assumes "mget (mf_Attempts m) r \<noteq> None" and "validAttemptTransition (at_Status (getAttempt m r)) s"
  shows "is_ok (applyAttemptStatus m r s h now)"
  using assms by (auto simp: applyAttemptStatus_def Let_def getAttempt_Some)

lemma resume_accepted:
  assumes "sr_ActiveRunID (mf_Session m) \<noteq> ''''" and "sr_Status (mf_Session m) = StatusPaused"
    and "ev_CommandDigest ev = DigestJSON E (DocResume (sr_ActiveRunID (mf_Session m)))"
    and paused: "at_Status (getAttempt m (sr_ActiveRunID (mf_Session m))) = AttemptStatusPausedAtBoundary"
  shows "is_ok (applyKind E m P ev EventSessionResumed (PayResumed (sr_ActiveRunID (mf_Session m))))"
proof -
  let ?run = "sr_ActiveRunID (mf_Session m)"
  have "mget (mf_Attempts m) ?run \<noteq> None" using paused by (auto simp: getAttempt_def mget0_def split: option.splits)
  moreover have "validAttemptTransition (at_Status (getAttempt m ?run)) AttemptStatusRunning"
    using paused by (simp add: validAttemptTransition.simps)
  ultimately have "is_ok (applyAttemptStatus m ?run AttemptStatusRunning '''' (ev_Timestamp ev))"
    by (rule status_accepted)
  with assms show ?thesis by (simp add: applyKind_def applyResumed_def)
qed

lemma detach_accepted:
  assumes "\<not> badReason reason" and "ev_CommandDigest ev = DigestJSON E (DocDetach reason)"
    and "ev_ClientCommandDigest ev \<noteq> ''''"
    and "\<not> (sr_Status (mf_Session m) \<noteq> StatusIndeterminate \<and> sr_ActiveRunID (mf_Session m) \<noteq> '''')"
  shows "is_ok (applyKind E m P ev EventSessionDetached (PayDetached reason))"
  using assms by (simp add: applyKind_def applyDetached_def)

lemma update_accepted:
  assumes "validAttemptStatus s" and "ev_CommandDigest ev = DigestJSON E (DocAttemptUpdate r s)"
    and "mget (mf_Attempts m) r \<noteq> None" and "validAttemptTransition (at_Status (getAttempt m r)) s"
  shows "is_ok (applyKind E m P ev EventAttemptUpdated (PayAttempt r s))"
  using assms status_accepted by (simp add: applyKind_def applyAttemptUpdated_def)

lemma validDigest_nonempty [simp]: "\<not> validDigest ''''"
  by (simp add: validDigest_def)

text \<open>A journal that started with its creation and was last written under no later epoch.\<close>

definition regular_log :: "event list \<Rightarrow> nat \<Rightarrow> bool" where
  "regular_log events epoch \<longleftrightarrow> ev_Kind (hd events) = EventSessionCreated \<and> ev_WriterEpoch (last events) \<le> epoch"

lemma CloseSession_readable:
  assumes "env_ok E" and "store_inv E s" and "readable E (dirOf s (xq_SessionID rq))"
    and "good_call E c (logOf (dirOf s (xq_SessionID rq)))"
    and "regular_log (logOf (dirOf s (xq_SessionID rq))) (xq_WriterEpoch rq)"
  shows "readable E (dirOf (fst (CloseSession E c rq s)) (xq_SessionID rq))"
  using assms unfolding CloseSession_def Let_def regular_log_def
  by (auto intro!: validated_readable receipt_readable next_event_readable close_accepted
      simp: digest_nonempty ready_readable)

lemma PauseSession_readable:
  assumes "env_ok E" and "store_inv E s" and "readable E (dirOf s (pq_SessionID rq))"
    and "good_call E c (logOf (dirOf s (pq_SessionID rq)))"
    and "regular_log (logOf (dirOf s (pq_SessionID rq))) (pq_WriterEpoch rq)"
  shows "readable E (dirOf (fst (PauseSession E c rq s)) (pq_SessionID rq))"
  using assms unfolding PauseSession_def Let_def regular_log_def
  by (auto intro!: validated_readable receipt_readable next_event_readable pause_accepted
      simp: digest_nonempty ready_readable isPausedAttemptStatus_def)

lemma ResumeSession_readable:
  assumes "env_ok E" and "store_inv E s" and "readable E (dirOf s (rq_SessionID rq))"
    and "good_call E c (logOf (dirOf s (rq_SessionID rq)))"
    and "regular_log (logOf (dirOf s (rq_SessionID rq))) (rq_WriterEpoch rq)"
  shows "readable E (dirOf (fst (ResumeSession E c rq s)) (rq_SessionID rq))"
  using assms unfolding ResumeSession_def Let_def regular_log_def
  by (auto intro!: validated_readable receipt_readable next_event_readable resume_accepted
      simp: digest_nonempty ready_readable)

lemma RecordDetach_readable:
  assumes "env_ok E" and "store_inv E s" and "readable E (dirOf s (dq_SessionID rq))"
    and "good_call E c (logOf (dirOf s (dq_SessionID rq)))"
    and "regular_log (logOf (dirOf s (dq_SessionID rq))) (dq_WriterEpoch rq)"
  shows "readable E (dirOf (fst (RecordDetach E c rq s)) (dq_SessionID rq))"
  using assms unfolding RecordDetach_def Let_def regular_log_def
  by (auto intro!: validated_readable receipt_readable next_event_readable detach_accepted
      simp: digest_nonempty ready_readable)

lemma UpdateAttempt_readable:
  assumes "env_ok E" and "store_inv E s" and "readable E (dirOf s (uq_SessionID rq))"
    and "good_call E c (logOf (dirOf s (uq_SessionID rq)))"
    and "regular_log (logOf (dirOf s (uq_SessionID rq))) (uq_WriterEpoch rq)"
  shows "readable E (dirOf (fst (UpdateAttempt E c rq s)) (uq_SessionID rq))"
  using assms unfolding UpdateAttempt_def Let_def regular_log_def
  by (auto intro!: validated_readable receipt_readable next_event_readable update_accepted
      simp: digest_nonempty ready_readable)

lemma CommitSegmentRevision_readable:
  assumes "store_inv E s" and "readable E (dirOf s (vq_SessionID rq))"
  shows "readable E (dirOf (fst (CommitSegmentRevision E c rq s)) (vq_SessionID rq))"
  using assms unfolding CommitSegmentRevision_def Let_def
  by (auto intro!: withSession_readable receipt_readable rebuildThenAppend_readable
      simp: ready_readable split: sum.splits)

lemma PrepareTransition_readable:
  assumes "store_inv E s" and "readable E (dirOf s (hq_SessionID rq))"
  shows "readable E (dirOf (fst (PrepareTransition E c rq s)) (hq_SessionID rq))"
  using assms unfolding PrepareTransition_def Let_def
  by (auto intro!: withSession_readable receipt_readable rebuildThenAppend_readable
      simp: ready_readable split: sum.splits)

lemma CommitTransition_readable:
  assumes "store_inv E s" and "readable E (dirOf s (kq_SessionID rq))"
  shows "readable E (dirOf (fst (CommitTransition E c rq s)) (kq_SessionID rq))"
  using assms unfolding CommitTransition_def Let_def
  by (auto intro!: withSession_readable receipt_readable rebuildThenAppend_readable
      simp: ready_readable split: sum.splits option.splits)

lemma AbortTransition_readable:
  assumes "store_inv E s" and "readable E (dirOf s (bq_SessionID rq))"
  shows "readable E (dirOf (fst (AbortTransition E c rq s)) (bq_SessionID rq))"
  using assms unfolding AbortTransition_def Let_def
  by (auto intro!: withSession_readable receipt_readable rebuildThenAppend_readable
      simp: ready_readable split: sum.splits option.splits)

text \<open>All operations but the three whose events carry what the guards do not check.\<close>

fun guarded :: "request \<Rightarrow> bool" where
  "guarded (ReqCreate epoch rq) = False"
| "guarded (ReqMutation rq) = False"
| "guarded (ReqTrace rq) = False"
| "guarded _ = True"

lemma guarded_readable:
  assumes "env_ok E" and "store_inv E s" and "readable E (dirOf s (sessionOf rq))" and "guarded rq"
    and "good_call E c (logOf (dirOf s (sessionOf rq)))" and "regular_log (logOf (dirOf s (sessionOf rq))) (epochOf rq)"
  shows "readable E (dirOf (fst (perform E c rq s)) (sessionOf rq))"
  using assms
  by (cases rq) (simp_all add: CloseSession_readable PauseSession_readable ResumeSession_readable RecordDetach_readable
      UpdateAttempt_readable CommitSegmentRevision_readable PrepareTransition_readable CommitTransition_readable
      AbortTransition_readable)

end
