(* ===== verification/Session_Commands.thy ===== *)
theory Session_Commands
  imports Session_Acceptance
begin

section \<open>Fencing and resubmission\<close>

text \<open>
  A writer whose epoch is no longer the newest changes nothing, and a command that was accepted once is
  answered from its receipt, however much later it is submitted again.
\<close>

subsection \<open>Stale writers\<close>

lemma perform_stale:
  assumes "validateWriterEpoch s (sessionOf rq) (epochOf rq) = Inl e"
  shows "\<exists>err. perform E c rq s = (s, Inl err)"
  using assms
  by (cases rq) (auto simp: CreateSession_def CloseSession_def PauseSession_def ResumeSession_def RecordDetach_def
      UpdateAttempt_def CommitExecutionMutation_def CommitTraceEvent_def CommitSegmentRevision_def
      PrepareTransition_def CommitTransition_def AbortTransition_def Let_def split: sum.splits)

lemma stale_epoch:
  assumes "highestSessionWriterEpoch (sd_Epochs (dirOf s sid)) = Inr h" and "epoch \<noteq> h"
  shows "validateWriterEpoch s sid epoch = Inl ErrSessionLeaseStale"
  using assms by (simp add: validateWriterEpoch_def)

subsection \<open>A successful command is on record\<close>

definition records :: "string \<Rightarrow> string \<Rightarrow> (command_receipt \<Rightarrow> bool) \<Rightarrow> result \<Rightarrow> bool" where
  "records sid i same res \<longleftrightarrow>
     (\<forall>m. snd res = Inr m \<longrightarrow> (\<exists>ev\<in>set (logOf (dirOf (fst res) sid)). ev_CommandID ev = i \<and> same (receiptFor ev)))"

lemma records_error [simp]: "records sid i same (s, Inl e)"
  by (simp add: records_def)

lemma ready_receipt:
  assumes "ready E s sid epoch events st"
  shows "mget (mf_AcceptedCommands (rs_Manifest st)) i = Some r \<longleftrightarrow> (\<exists>ev\<in>set events. ev_CommandID ev = i \<and> r = receiptFor ev)"
proof -
  have "linked E events st" using assms linked_run by (auto simp: ready_def)
  then have known: "mget (mf_AcceptedCommands (rs_Manifest st)) c \<noteq> None \<longleftrightarrow> c \<in> ev_CommandID ` set events"
    and receipt: "\<And>ev. ev \<in> set events \<Longrightarrow> mget (mf_AcceptedCommands (rs_Manifest st)) (ev_CommandID ev) = Some (receiptFor ev)" for c
    by (simp_all add: linked_def)
  show ?thesis
  proof
    assume "mget (mf_AcceptedCommands (rs_Manifest st)) i = Some r"
    moreover from this known [of i] obtain ev where "ev \<in> set events" "ev_CommandID ev = i" by auto
    ultimately show "\<exists>ev\<in>set events. ev_CommandID ev = i \<and> r = receiptFor ev" using receipt by fastforce
  qed (use receipt in auto)
qed

lemma withReceipt_records:
  assumes "ready E s sid epoch events st"
    and "mget (mf_AcceptedCommands (rs_Manifest st)) i = None \<Longrightarrow> records sid i same k"
  shows "records sid i same (withReceipt (rs_Manifest st) i same s k)"
  using assms ready_receipt [OF assms(1)] ready_log [OF assms(1)]
  by (auto simp: withReceipt_def records_def split: option.splits)

lemma finishManifest_records:
  assumes "ready E s sid epoch (events @ [ev]) st" and "ev_CommandID ev = i" and "same (receiptFor ev)"
  shows "records sid i same (finishManifest E c m s)"
proof -
  obtain s' r where f: "finishManifest E c m s = (s', r)" by fastforce
  from same_log_logOf [OF finishManifest_same_log(1) [OF f]] ready_log [OF assms(1)] f assms(2,3) show ?thesis
    by (simp add: records_def)
qed

lemma appendThenRebuild_records:
  assumes r: "ready E s sid epoch events st" and ev: "ev_SessionID ev = sid" "ev_WriterEpoch ev = epoch"
    and same: "ev_CommandID ev = i" "same (receiptFor ev)"
  shows "records sid i same (appendThenRebuild E c sid events ev s)"
proof -
  obtain s1 q where app: "appendEvent E c ev s = (s1, q)" by fastforce
  show ?thesis
  proof (cases q)
    case (Inl e)
    with app show ?thesis by (simp add: appendThenRebuild_def)
  next
    case (Inr u)
    with appendEvent_ready [OF r ev app] obtain st' where r1: "ready E s1 sid epoch (events @ [ev]) st'" by auto
    with app Inr finishManifest_records [where same = same, OF r1 same] show ?thesis
      by (simp add: appendThenRebuild_def ready_manifestForEvents(1) [OF r1])
  qed
qed

lemma rebuildThenAppend_records:
  assumes r: "ready E s sid epoch events st" and ev: "ev_SessionID ev = sid" "ev_WriterEpoch ev = epoch"
    and same: "ev_CommandID ev = i" "same (receiptFor ev)"
  shows "records sid i same (rebuildThenAppend E c sid events ev blobs s)"
proof -
  obtain s1 w where wr: "writeBlobs E c sid blobs s = (s1, w)" by fastforce
  have slog: "same_log sid s s1" using writeBlobs_same_log [of sid s E c blobs] wr by simp
  note r1 = same_log_ready [OF slog r]
  obtain s2 q where app: "appendEvent E c ev s1 = (s2, q)" by fastforce
  have "records sid i same (finishManifest E c m s2)" if "q = Inr ()" for m
    using appendEvent_ready [OF r1 ev app] that finishManifest_records [where same = same, OF _ same] by blast
  then show ?thesis
    using wr app by (simp add: rebuildThenAppend_def split: sum.splits)
qed

lemma withSession_records:
  assumes inv: "store_inv E s" and v: "validateWriterEpoch s sid epoch = Inr u"
    and k: "\<And>events st s1. ready E s1 sid epoch events st \<Longrightarrow> records sid i same (k events (rs_Manifest st) s1)"
  shows "records sid i same (withSession E c sid s k)"
proof -
  have epoch: "activeWriterEpoch s sid = epoch" "activeWriterEpoch s sid \<noteq> 0" using validateWriterEpoch_Inr [OF v] by simp_all
  obtain s1 r where load: "loadEvents E c sid s = (s1, r)" by fastforce
  show ?thesis
  proof (cases r)
    case (Inl e)
    with load show ?thesis by (simp add: withSession_def)
  next
    case (Inr events)
    with load have load': "loadEvents E c sid s = (s1, Inr events)" by simp
    obtain st where r: "ready E s1 sid (activeWriterEpoch s sid) events st"
      using loadEvents_ready [OF inv epoch(2) load'] .
    with k epoch(1) load' ready_manifestForEvents(1) [OF r] show ?thesis by (simp add: withSession_def)
  qed
qed

lemma written_records:
  assumes "ready E s sid epoch events st" and "same_log sid s (fst w)"
    and "ev_SessionID ev = sid" and "ev_WriterEpoch ev = epoch" and "ev_CommandID ev = i" and "same (receiptFor ev)"
  shows "records sid i same (case w of (s2, Inl e) \<Rightarrow> (s2, Inl e)
     | (s2, Inr _) \<Rightarrow> appendThenRebuild E c sid events ev s2)"
proof -
  obtain s2 q where w: "w = (s2, q)" by fastforce
  with assms(2) have "ready E s2 sid epoch events st" using same_log_ready [OF _ assms(1)] by simp
  with w appendThenRebuild_records [where same = same, OF this assms(3-6)] show ?thesis by (simp split: sum.splits)
qed

subsection \<open>Requests whose digest is their own\<close>

text \<open>
  The command of a request, for the operations that compute its digest from the request alone. The digest
  of a pause or a resume also covers the active run, and the one of an execution mutation is looked up
  only after checks that depend on the manifest.
\<close>

fun commandOf :: "request \<Rightarrow> string" where
  "commandOf (ReqCreate epoch rq) = cq_CommandID rq"
| "commandOf (ReqClose rq) = xq_CommandID rq"
| "commandOf (ReqPause rq) = pq_CommandID rq"
| "commandOf (ReqResume rq) = rq_CommandID rq"
| "commandOf (ReqDetach rq) = dq_CommandID rq"
| "commandOf (ReqUpdate rq) = uq_CommandID rq"
| "commandOf (ReqMutation rq) = eq_CommandID rq"
| "commandOf (ReqTrace rq) = tq_CommandID rq"
| "commandOf (ReqRevision rq) = vq_CommandID rq"
| "commandOf (ReqPrepare rq) = hq_CommandID rq"
| "commandOf (ReqCommit rq) = kq_CommandID rq"
| "commandOf (ReqAbort rq) = bq_CommandID rq"

fun sameAs :: "env \<Rightarrow> request \<Rightarrow> command_receipt \<Rightarrow> bool" where
  "sameAs E (ReqClose rq) = sameClientCommand (DigestJSON E (DocClose (xq_Status rq)))
     (xq_ClientCommandDigest rq) EventSessionClosed"
| "sameAs E (ReqDetach rq) = sameClientCommand (DigestJSON E (DocDetach (dq_Reason rq)))
     (dq_ClientCommandDigest rq) EventSessionDetached"
| "sameAs E (ReqUpdate rq) = sameCommand (DigestJSON E (DocAttemptUpdate (uq_RunID rq) (uq_Status rq))) EventAttemptUpdated"
| "sameAs E (ReqTrace rq) = sameCommand (DigestJSON E (DocTraceRef (tq_RunID rq)
     (bl_Digest (NewJSONBlob E (marshal E (DocTrace (tq_Event rq))))))) EventTraceCommitted"
| "sameAs E (ReqRevision rq) = sameCommand (DigestJSON E (DocRevision (revisionPayload rq))) EventSegmentRevised"
| "sameAs E (ReqPrepare rq) = sameCommand (DigestJSON E (DocPrepare
     ((hq_Transition rq)\<lparr>tr_PreparedAt := '''', tr_CommittedAt := '''', tr_AbortedAt := ''''\<rparr>) (hq_TargetSegment rq)
     ((hq_TargetAttempt rq)\<lparr>at_StartedAt := '''', at_UpdatedAt := '''', at_CompletedAt := ''''\<rparr>))) EventTransitionPrepared"
| "sameAs E (ReqCommit rq) = sameCommand (DigestJSON E (DocCommit (kq_TransitionID rq))) EventTransitionCommitted"
| "sameAs E (ReqAbort rq) = sameCommand (DigestJSON E (DocAbort (bq_TransitionID rq) (bq_Reason rq))) EventTransitionAborted"
| "sameAs E _ = (\<lambda>_. False)"

fun self_contained :: "request \<Rightarrow> bool" where
  "self_contained (ReqCreate epoch rq) = False"
| "self_contained (ReqPause rq) = False"
| "self_contained (ReqResume rq) = False"
| "self_contained (ReqMutation rq) = False"
| "self_contained _ = True"

lemmas record_intros = withSession_records withReceipt_records appendThenRebuild_records rebuildThenAppend_records
  written_records writeBlob_same_log

lemma perform_records:
  assumes "store_inv E s" and "self_contained rq"
  shows "records (sessionOf rq) (commandOf rq) (sameAs E rq) (perform E c rq s)"
  using assms
  by (cases rq)
    (auto intro!: record_intros simp: CloseSession_def RecordDetach_def UpdateAttempt_def CommitTraceEvent_def
      CommitSegmentRevision_def PrepareTransition_def CommitTransition_def AbortTransition_def Let_def
      receiptFor_def sameCommand_def sameClientCommand_def split: sum.splits option.splits)

subsection \<open>Answering from the receipt\<close>

lemma withSession_loaded:
  assumes "loadEvents E c sid t = (t1, Inr events)" and "ready E t1 sid epoch events st"
  shows "withSession E c sid t k = k events (rs_Manifest st) t1"
  using assms by (simp add: withSession_def ready_manifestForEvents(1))

lemma withReceipt_found:
  "mget (mf_AcceptedCommands m) i = Some x \<Longrightarrow> same x \<Longrightarrow> withReceipt m i same s k = (s, Inr m)"
  by (simp add: withReceipt_def)

lemma withSession_Inr:
  assumes "withSession E c sid s k = (s', Inr m)"
  obtains events n s1 where "k events n s1 = (s', Inr m)"
  using assms by (auto simp: withSession_def split: prod.splits sum.splits)

lemma perform_replay:
  assumes first: "perform E c rq s = (s', Inr m)" and self: "self_contained rq" and live: "\<not> cl_Cancelled c'"
    and v: "validateWriterEpoch t (sessionOf rq) (epochOf rq) = Inr ()"
    and load: "loadEvents E c' (sessionOf rq) t = (t1, Inr events)" and r: "ready E t1 (sessionOf rq) (epochOf rq) events st"
    and receipt: "mget (mf_AcceptedCommands (rs_Manifest st)) (commandOf rq) = Some x" "sameAs E rq x"
    and attempt: "\<And>u. rq = ReqUpdate u \<Longrightarrow> mget (mf_Attempts (rs_Manifest st)) (uq_RunID u) \<noteq> None"
  shows "perform E c' rq t = (t1, Inr (rs_Manifest st))"
proof (cases rq)
  case (ReqClose q)
  with first have "withSession E c (xq_SessionID q) s (\<lambda>events m s1.
      if xq_ClientCommandDigest q \<noteq> '''' \<and> \<not> validDigest (xq_ClientCommandDigest q)
      then (s1, Inl (ErrMsg ''invalid client command digest'')) else (s1, Inr m)) = (s', Inr m) \<or>
      \<not> (xq_ClientCommandDigest q \<noteq> '''' \<and> \<not> validDigest (xq_ClientCommandDigest q))"
    by (auto simp: CloseSession_def Let_def withSession_def split: if_splits sum.splits prod.splits)
  then have "xq_ClientCommandDigest q = '''' \<or> validDigest (xq_ClientCommandDigest q)"
    by (auto simp: withSession_def split: if_splits sum.splits prod.splits)
  with first ReqClose live v receipt show ?thesis
    using withSession_loaded [OF load r]
    by (auto simp: CloseSession_def Let_def withReceipt_found split: if_splits sum.splits)
qed (use first self live v receipt attempt withSession_loaded [OF load r] in
    \<open>auto simp: RecordDetach_def UpdateAttempt_def CommitTraceEvent_def
      CommitSegmentRevision_def PrepareTransition_def CommitTransition_def AbortTransition_def Let_def
      withReceipt_found split: if_splits sum.splits\<close>)

lemma Update_attempt:
  assumes inv: "store_inv E s" and ok: "UpdateAttempt E c rq s = (s', Inr m)"
  shows "\<exists>st. rebuildManifestFromState E newManifestRebuildState (logOf (dirOf s (uq_SessionID rq))) = Inr st \<and>
     mget (mf_Attempts (rs_Manifest st)) (uq_RunID rq) \<noteq> None"
proof -
  let ?sid = "uq_SessionID rq"
  from ok have v: "validateWriterEpoch s ?sid (uq_WriterEpoch rq) = Inr ()"
    by (auto simp: UpdateAttempt_def Let_def split: if_splits sum.splits)
  then have epoch: "activeWriterEpoch s ?sid \<noteq> 0" using validateWriterEpoch_Inr by metis
  obtain s1 r where load: "loadEvents E c ?sid s = (s1, r)" by fastforce
  with ok v obtain events where ev: "r = Inr events"
    by (auto simp: UpdateAttempt_def Let_def withSession_def split: if_splits sum.splits)
  with load have load': "loadEvents E c ?sid s = (s1, Inr events)" by simp
  obtain st where rd: "ready E s1 ?sid (activeWriterEpoch s ?sid) events st"
    using loadEvents_ready [OF inv epoch load'] .
  from ok v have "mget (mf_Attempts (rs_Manifest st)) (uq_RunID rq) \<noteq> None"
    by (auto simp: UpdateAttempt_def Let_def withSession_loaded [OF load' rd] split: if_splits)
  moreover have "logOf (dirOf s ?sid) = events" using ready_log [OF rd] loadEvents_kept(1) [OF load'] by simp
  ultimately show ?thesis using rd by (auto simp: ready_def)
qed

lemma resubmitted:
  assumes E: "env_ok E" and inv: "store_inv E s" and self: "self_contained rq"
    and first: "perform E c rq s = (s', Inr m)" and later: "(store_step E)\<^sup>*\<^sup>* s' t"
    and live: "\<not> cl_Cancelled c'" and v: "validateWriterEpoch t (sessionOf rq) (epochOf rq) = Inr ()"
    and load: "loadEvents E c' (sessionOf rq) t = (t1, Inr events)"
  shows "\<exists>m'. perform E c' rq t = (t1, Inr m') \<and> rebuildManifest E events = Inr m' \<and>
     logOf (dirOf t1 (sessionOf rq)) = logOf (dirOf t (sessionOf rq))"
proof -
  let ?sid = "sessionOf rq" and ?log = "\<lambda>s. logOf (dirOf s (sessionOf rq))"
  have "is_create rq \<longrightarrow> undamaged E c ?sid s" using self by (cases rq) simp_all
  note eff = log_effect_step [OF perform_effect [OF inv this]]
  have inv': "store_inv E s'" using eff(1) first by simp
  have "?log s' = ?log s \<or> (\<exists>ev. ?log s' = ?log s @ [ev])" using eff(2) [of ?sid] first by simp
  then have grow: "\<exists>es. ?log s' = ?log s @ es" by auto
  from store.steps_inv [OF later inv'] have invt: "store_inv E t" .
  from store.steps_log [OF later inv'] grow obtain fs gs where fs: "?log t = ?log s' @ fs" and gs: "?log t = ?log s @ gs"
    by (metis append.assoc)
  obtain st where r: "ready E t1 ?sid (epochOf rq) events st"
    using loadEvents_ready [OF invt _ load] validateWriterEpoch_Inr [OF v] by metis
  have events: "events = ?log t" using ready_log [OF r] loadEvents_kept(1) [OF load] by simp
  from perform_records [OF inv self, of c] first
  obtain ev where "ev \<in> set (?log s')" and cmd: "ev_CommandID ev = commandOf rq" "sameAs E rq (receiptFor ev)"
    by (auto simp: records_def)
  with fs events have "ev \<in> set events" by simp
  with cmd ready_receipt [OF r] have receipt: "mget (mf_AcceptedCommands (rs_Manifest st)) (commandOf rq) = Some (receiptFor ev)"
    by blast
  have "mget (mf_Attempts (rs_Manifest st)) (uq_RunID u) \<noteq> None" if "rq = ReqUpdate u" for u
  proof -
    from first that have "UpdateAttempt E c u s = (s', Inr m)" by simp
    from Update_attempt [OF inv this] that obtain st0 where
      st0: "rebuildManifestFromState E newManifestRebuildState (?log s) = Inr st0"
      and a: "mget (mf_Attempts (rs_Manifest st0)) (uq_RunID u) \<noteq> None" by auto
    from r events gs have "rebuildManifestFromState E newManifestRebuildState (?log s @ gs) = Inr st" by (simp add: ready_def)
    with st0 have "rebuildManifestFromState E st0 gs = Inr st" by (simp add: rebuild.run_append)
    from attempts_le_run [OF E rebuild_inv_reachable [OF E st0] this] a show ?thesis
      unfolding attempts_le_def by fastforce
  qed
  from perform_replay [OF first self live v load r receipt cmd(2) this]
  show ?thesis using ready_manifest [OF r] loadEvents_kept(1) [OF load] by simp
qed

end
