(* ===== verification/Session_Progress.thy ===== *)
theory Session_Progress
  imports Session_Commands
begin

section \<open>Commands that succeed\<close>

text \<open>
  When its guards hold and the file system does its part, a command does append its event and returns
  the new manifest. The file system does its part when the event and the manifest fit their limits, every
  write succeeds, and there is no head file yet for the next sequence number.
\<close>

definition good_disk :: "env \<Rightarrow> call \<Rightarrow> session_dir \<Rightarrow> event \<Rightarrow> bool" where
  "good_disk E c d ev \<longleftrightarrow>
     cl_Append c = AppendDone \<and> cl_ManifestWritten c \<and> map_of (sd_Heads d) (ev_Sequence ev) = None \<and>
     length (marshal E (DocEvent ev)) \<le> maxJournalEventBytes \<and>
     (\<forall>m. length (marshal E (DocManifest m)) \<le> maxJournalEventBytes)"

text \<open>What an append changes of the directory besides the journal.\<close>

definition grown :: "session_dir \<Rightarrow> event \<Rightarrow> session_dir \<Rightarrow> bool" where
  "grown d ev d' \<longleftrightarrow> sd_Epochs d' = sd_Epochs d \<and> sd_Blobs d' = sd_Blobs d \<and>
     sd_Heads d' = (ev_Sequence ev, HeadFile (headFor ev)) # sd_Heads d"

lemma truncatedDir_rest [simp]:
  "sd_Epochs (truncatedDir d events) = sd_Epochs d" "sd_Blobs (truncatedDir d events) = sd_Blobs d"
  by (simp_all add: truncatedDir_def)

lemma appendEvent_succeeds:
  assumes r: "ready E s sid epoch events st" and ev: "ev_SessionID ev = sid" "ev_WriterEpoch ev = epoch"
    and disk: "good_disk E c (dirOf s sid) ev" and step: "rebuildStep E st ev = Inr st'"
  shows "\<exists>s'. appendEvent E c ev s = (s', Inr ()) \<and> ready E s' sid epoch (events @ [ev]) st' \<and>
    grown (dirOf s sid) ev (dirOf s' sid)"
proof -
  have cache: "mget (st_JournalCaches s) sid = Some \<lparr>jc_WriterEpoch = epoch, jc_Events = events,
      jc_Rebuild = st, jc_CommittedLines = length events\<rparr>" "activeWriterEpoch s sid = epoch" "epoch \<noteq> 0"
    using r by (simp_all add: ready_def)
  have "\<exists>s'. appendEvent E c ev s = (s', Inr ()) \<and> grown (dirOf s sid) ev (dirOf s' sid)"
    using truncate_ready [OF r, of c] ev cache disk step
    by (auto simp: appendEvent_def Let_def good_disk_def writeJournalHead_def headFor_def advanceJournalCache_def grown_def)
  then obtain s' where app: "appendEvent E c ev s = (s', Inr ())" "grown (dirOf s sid) ev (dirOf s' sid)" by blast
  with appendEvent_ready [OF r ev app(1)] step show ?thesis by auto
qed

lemma finishManifest_succeeds:
  assumes "cl_ManifestWritten c" and "length (marshal E (DocManifest (ProjectManifest m))) \<le> maxJournalEventBytes"
  shows "\<exists>s'. finishManifest E c m s = (s', Inr m) \<and> (grown d ev (dirOf s sid) \<longrightarrow> grown d ev (dirOf s' sid))"
  using assms by (auto simp: finishManifest_def writeManifest_def Let_def grown_def split: option.splits)

lemma appendThenRebuild_succeeds:
  assumes r: "ready E s sid epoch events st" and ev: "ev_SessionID ev = sid" "ev_WriterEpoch ev = epoch"
    and disk: "good_disk E c (dirOf s sid) ev" and step: "rebuildStep E st ev = Inr st'"
  shows "\<exists>s'. appendThenRebuild E c sid events ev s = (s', Inr (rs_Manifest st')) \<and>
    ready E s' sid epoch (events @ [ev]) st' \<and> grown (dirOf s sid) ev (dirOf s' sid)"
proof -
  from appendEvent_succeeds [OF assms] obtain s1 where app: "appendEvent E c ev s = (s1, Inr ())"
    and r1: "ready E s1 sid epoch (events @ [ev]) st'" and e1: "grown (dirOf s sid) ev (dirOf s1 sid)" by blast
  from disk finishManifest_succeeds [of c E "rs_Manifest st'" s1 "dirOf s sid" ev sid] e1 obtain s2 where
    fin: "finishManifest E c (rs_Manifest st') s1 = (s2, Inr (rs_Manifest st'))" "grown (dirOf s sid) ev (dirOf s2 sid)"
    by (auto simp: good_disk_def)
  with app ready_manifestForEvents(1) [OF r1] same_log_ready [OF finishManifest_same_log(1) [OF fin(1)] r1] show ?thesis
    by (simp add: appendThenRebuild_def)
qed

text \<open>An event that the rebuild rejects is in the journal all the same.\<close>

lemma appendEvent_rejected:
  assumes r: "ready E s sid epoch events st" and ev: "ev_SessionID ev = sid" "ev_WriterEpoch ev = epoch"
    and disk: "good_disk E c (dirOf s sid) ev" and step: "rebuildStep E st ev = Inl e"
  shows "\<exists>s'. appendEvent E c ev s = (s', Inl ErrProjection) \<and> logOf (dirOf s' sid) = events @ [ev]"
proof -
  have cache: "mget (st_JournalCaches s) sid = Some \<lparr>jc_WriterEpoch = epoch, jc_Events = events,
      jc_Rebuild = st, jc_CommittedLines = length events\<rparr>" "activeWriterEpoch s sid = epoch" "epoch \<noteq> 0"
    using r by (simp_all add: ready_def)
  have "List.map_filter lineEvent (map LineEvent events @ [LineEvent ev]) = events @ [ev]"
    using map_filter_LineEvent [of "events @ [ev]"] by simp
  then show ?thesis
    using truncate_ready [OF r, of c] ev cache disk step
    by (auto simp: appendEvent_def Let_def good_disk_def writeJournalHead_def headFor_def advanceJournalCache_def logOf_def)
qed

text \<open>The checks on the envelope and on the payload together.\<close>

lemma rebuildStep_accepts:
  "checkEvent E st ev = Inr () \<Longrightarrow>
   applyKind E (rs_Manifest st) (rs_Prepared st) ev (ev_Kind ev) (ev_Payload ev) = Inr m \<Longrightarrow>
   \<exists>st'. rebuildStep E st ev = Inr st' \<and> rs_Manifest st' = sealEvent m ev"
  by (simp add: rebuildStep_def)

lemma applied_status:
  assumes "applyAttemptStatus m r s h now = Inr m'"
  shows "\<exists>a. mget (mf_Attempts m') r = Some a \<and> at_Status a = s"
  using assms by (auto simp: applyAttemptStatus_def Let_def manifest_simps split: option.splits if_splits)

lemma update_succeeds:
  assumes E: "env_ok E" and inv: "store_inv E s" and live: "\<not> cl_Cancelled c"
    and ids: "validateUUID E (uq_SessionID rq)" "validateUUID E (uq_CommandID rq)" "validateUUID E (uq_RunID rq)"
    and v: "validateWriterEpoch s (uq_SessionID rq) (uq_WriterEpoch rq) = Inr ()"
    and load: "loadEvents E c (uq_SessionID rq) s = (s1, Inr events)"
    and good: "good_call E c events" "regular_log events (uq_WriterEpoch rq)"
    and m: "rebuildManifest E events = Inr m" and new: "mget (mf_AcceptedCommands m) (uq_CommandID rq) = None"
    and open_: "\<not> isTerminalSessionStatus (sr_Status (mf_Session m))" and valid: "validAttemptStatus (uq_Status rq)"
    and a: "mget (mf_Attempts m) (uq_RunID rq) = Some a" "validAttemptTransition (at_Status a) (uq_Status rq)"
    and seq: "uq_ExpectedSequence rq = sr_Sequence (mf_Session m)"
    and disk: "\<And>ev. ev_Sequence ev = sr_Sequence (mf_Session m) + 1 \<Longrightarrow> good_disk E c (dirOf s (uq_SessionID rq)) ev"
  shows "\<exists>s' m' a' ev. UpdateAttempt E c rq s = (s', Inr m') \<and> mget (mf_Attempts m') (uq_RunID rq) = Some a' \<and>
    at_Status a' = uq_Status rq \<and> logOf (dirOf s' (uq_SessionID rq)) = events @ [ev]"
proof -
  let ?sid = "uq_SessionID rq" and ?d = "DigestJSON E (DocAttemptUpdate (uq_RunID rq) (uq_Status rq))"
  obtain st where r: "ready E s1 ?sid (uq_WriterEpoch rq) events st"
    using loadEvents_ready [OF inv _ load] validateWriterEpoch_Inr [OF v] by metis
  have mst: "rs_Manifest st = m" using ready_manifest [OF r] m by simp
  define ev where "ev = nextEvent E c ?sid (uq_WriterEpoch rq) m events (uq_CommandID rq) ?d '''' EventAttemptUpdated
    (PayAttempt (uq_RunID rq) (uq_Status rq))"
  have "checkEvent E st ev = Inr ()"
    unfolding ev_def mst [symmetric]
    by (rule next_event_checked [OF E r good(1)])
      (use good(2) ids new mst digest_nonempty [OF E] in \<open>simp_all add: regular_log_def\<close>)
  moreover obtain m1 where m1: "applyAttemptStatus m (uq_RunID rq) (uq_Status rq) '''' (cl_Now c) = Inr m1"
    using status_accepted [of m "uq_RunID rq" "uq_Status rq" "''''" "cl_Now c"] a by (auto simp: is_ok_def getAttempt_Some split: sum.splits)
  then have "applyKind E m (rs_Prepared st) ev (ev_Kind ev) (ev_Payload ev) = Inr m1"
    using valid by (simp add: ev_def applyKind_def applyAttemptUpdated_def)
  ultimately obtain st' where st': "rebuildStep E st ev = Inr st'" "rs_Manifest st' = sealEvent m1 ev"
    using rebuildStep_accepts mst by blast
  have ids': "ev_SessionID ev = ?sid" "ev_WriterEpoch ev = uq_WriterEpoch rq" by (simp_all add: ev_def)
  have "good_disk E c (dirOf s1 ?sid) ev" using disk [of ev] loadEvents_kept(1) [OF load] by (simp add: ev_def)
  from appendThenRebuild_succeeds [OF r ids' this st'(1)] obtain s' where
    fin: "appendThenRebuild E c ?sid events ev s1 = (s', Inr (sealEvent m1 ev))" "ready E s' ?sid (uq_WriterEpoch rq) (events @ [ev]) st'"
    using st'(2) by auto
  have "UpdateAttempt E c rq s = (s', Inr (sealEvent m1 ev))"
    using live ids valid v withSession_loaded [OF load r] mst a new open_ seq fin(1)
    by (simp add: UpdateAttempt_def Let_def withReceipt_def getAttempt_Some ev_def)
  with applied_status [OF m1] ready_log [OF fin(2)] show ?thesis by (auto simp: sealEvent_def setSession_def)
qed

end
