(* ===== verification/Sample_Session.thy ===== *)
theory Sample_Session
  imports Session_Invariants
begin

section \<open>A concrete session\<close>

text \<open>
  A concrete environment and a short concrete journal, on which the theorems about sessions are
  instantiated. Canonical identifiers are the non-empty strings, marshalling only keeps the status of
  an occurrence and writes every trace event as an empty object, and the hash writes one hexadecimal digit 64 times; the theorems hold for
  every environment, this one included.
\<close>

definition sampleMarshal :: "doc \<Rightarrow> string" where
  "sampleMarshal d = (case d of DocOccurrence r \<Rightarrow> oc_Status r | DocTrace t \<Rightarrow> ''{}'' | _ \<Rightarrow> '''')"

definition sampleSha :: "string \<Rightarrow> string" where
  "sampleSha b = ''sha256:'' @ replicate 64
     (if hasPrefix b ''c'' then CHR ''1'' else if hasPrefix b ''f'' then CHR ''2'' else CHR ''0'')"

definition sampleEnv :: env where
  "sampleEnv = \<lparr>uuidCanonical = (\<lambda>s. s \<noteq> ''''), timeOk = (\<lambda>s. s \<noteq> ''''), marshal = sampleMarshal,
     sha256 = sampleSha, jsonValid = (\<lambda>s. s \<noteq> ''''), decodeProjectionHeader = (\<lambda>_. None),
     decodeFrameProjection = (\<lambda>_. None), decodeChunk = (\<lambda>_. None), decodeContent = (\<lambda>_. None),
     decodeContext = (\<lambda>_. None), decodeMutation = (\<lambda>_. None), decodeTrace = (\<lambda>_. None),
     recodeCallPath = (\<lambda>_. None), floatOverflow = (\<lambda>_. None), pinOk = (\<lambda>_. True), scopedArtifactOk = (\<lambda>_ _. True),
     unicode = asciiTables\<rparr>"

lemma sampleEnv_simps [simp]:
  "uuidCanonical sampleEnv s \<longleftrightarrow> s \<noteq> ''''" "timeOk sampleEnv s \<longleftrightarrow> s \<noteq> ''''"
  "marshal sampleEnv = sampleMarshal" "sha256 sampleEnv = sampleSha" "jsonValid sampleEnv s \<longleftrightarrow> s \<noteq> ''''"
  by (simp_all add: sampleEnv_def)

definition sampleDigest :: string where
  "sampleDigest = ''sha256:'' @ replicate 64 (CHR ''0'')"

lemma sampleSha_valid: "validDigest (sampleSha b)"
proof -
  have "list_all isHex (replicate 64 (CHR ''0''))" "list_all isHex (replicate 64 (CHR ''1''))"
    "list_all isHex (replicate 64 (CHR ''2''))"
    by (simp_all add: list_all_iff isHex_def)
  then show ?thesis
    by (simp add: sampleSha_def validDigest_def hasPrefix_def trimPrefix_def)
qed

lemma sampleDigest_valid [simp]: "validDigest sampleDigest"
  using sampleSha_valid [of "''''"] by (simp add: sampleSha_def sampleDigest_def hasPrefix_def)

lemma sampleDigest_nonempty [simp]: "sampleDigest \<noteq> ''''" "'''' \<noteq> sampleDigest"
  by (simp_all add: sampleDigest_def)

lemma sampleEnv_ok [simp]: "env_ok sampleEnv"
  by (simp add: env_ok_def sampleSha_valid)

lemma sampleEnv_digest [simp]:
  "DigestBytes sampleEnv '''' = sampleDigest" "DigestBytes sampleEnv ''{}'' = sampleDigest"
  by (simp_all add: DigestBytes_def sampleSha_def sampleDigest_def hasPrefix_def)

lemma sampleEnv_json [simp]:
  "\<forall>r. d \<noteq> DocOccurrence r \<Longrightarrow> DigestJSON sampleEnv d = sampleDigest"
  "eventDigest sampleEnv ev = sampleDigest"
  by (cases d; simp add: DigestJSON_def sampleMarshal_def) (simp add: eventDigest_def DigestJSON_def sampleMarshal_def)

subsection \<open>The journal: created, running, paused at a boundary, closed\<close>

definition sampleSegment :: segment_record where
  "sampleSegment = zeroSegment\<lparr>sg_SegmentID := ''g1'', sg_Ordinal := 1, sg_RunbookID := ''rb'',
     sg_EntryStep := ''$entry'', sg_Status := SegmentStatusPrepared, sg_PlanHash := sampleDigest,
     sg_GraphHash := sampleDigest, sg_ExecutableSnapshotHash := sampleDigest,
     sg_AttemptRunIDs := [''r1''], sg_ExecutableRevision := 1, sg_GraphRevision := 1\<rparr>"

definition sampleAttempt :: attempt_record where
  "sampleAttempt = zeroAttempt\<lparr>at_RunID := ''r1'', at_SegmentID := ''g1'', at_Ordinal := 1,
     at_Mode := ''real'', at_Status := AttemptStatusStarting, at_PlanHash := sampleDigest,
     at_StartedAt := ''t'', at_UpdatedAt := ''t''\<rparr>"

definition sampleRecord :: session_record where
  "sampleRecord = zeroSession\<lparr>sr_SessionID := ''s1'', sr_Status := StatusActive, sr_RootSegmentID := ''g1'',
     sr_ActiveSegmentID := ''g1'', sr_ActiveRunID := ''r1'', sr_Sequence := 1, sr_ManifestRevision := 1,
     sr_WriterEpoch := 7, sr_CreationCommandID := ''c1'', sr_CreationDigest := sampleDigest,
     sr_CreatedAt := ''t'', sr_UpdatedAt := ''t''\<rparr>"

definition sampleIdentity :: creation_identity where
  "sampleIdentity = \<lparr>ci_SchemaVersion = ''yawr.session-creation-identity/v1'', ci_SessionID = ''s1'',
     ci_SessionDigest = sampleDigest, ci_SegmentDigest = sampleDigest, ci_AttemptDigest = sampleDigest,
     ci_VarsDigest = sampleDigest, ci_RuntimeVarsDigest = sampleDigest, ci_ScenarioDirDigest = sampleDigest\<rparr>"

definition sampleEvent :: "string \<Rightarrow> int \<Rightarrow> string \<Rightarrow> string \<Rightarrow> event_kind \<Rightarrow> payload \<Rightarrow> event" where
  "sampleEvent i n c prev k p = \<lparr>ev_SchemaVersion = ''yawr.investigation-session-event/v1'', ev_EventID = i,
     ev_SessionID = ''s1'', ev_Sequence = n, ev_WriterEpoch = 7, ev_CommandID = c,
     ev_CommandDigest = sampleDigest, ev_ClientCommandDigest = '''', ev_Kind = k, ev_Timestamp = ''t'',
     ev_PreviousDigest = prev, ev_Digest = sampleDigest, ev_Payload = p\<rparr>"

definition sampleCreated :: event where
  "sampleCreated = sampleEvent ''e1'' 1 ''c1'' '''' EventSessionCreated
     (PayCreated \<lparr>cp_Identity = sampleIdentity, cp_Session = sampleRecord, cp_Segment = sampleSegment,
        cp_Attempt = sampleAttempt\<rparr>)"

definition sampleJournal :: "event list" where
  "sampleJournal =
     [sampleCreated,
      sampleEvent ''e2'' 2 ''c2'' sampleDigest EventAttemptUpdated (PayAttempt ''r1'' AttemptStatusRunning),
      sampleEvent ''e3'' 3 ''c3'' sampleDigest EventAttemptUpdated (PayAttempt ''r1'' AttemptStatusPausedAtBoundary),
      sampleEvent ''e4'' 4 ''c4'' sampleDigest EventSessionClosed
        (PayClosed \<lparr>xp_Status = StatusResolved, xp_SegmentID = ''g1'', xp_RunID = ''r1''\<rparr>)]"

lemmas sample_defs = sampleJournal_def sampleCreated_def sampleEvent_def sampleIdentity_def sampleRecord_def
  sampleAttempt_def sampleSegment_def zeroSession_def zeroSegment_def zeroAttempt_def

lemmas rebuild_defs = newManifestRebuildState_def emptyManifest_def rebuildStep_def checkEvent_def applyKind_def
  sealEvent_def preparedAfter_def receiptFor_def validateUUID_def
  putAttempt_def putSegment_def putTransition_def setSession_def getAttempt_def getSegment_def mget0_def

lemmas created_defs = applyCreated_def validateCreateRequest_def ValidateCreationIdentity_def CreationDigest_def
  identityDigests_def validAttemptMode_def validHash_def

lemmas status_defs = applyAttemptUpdated_def applyAttemptStatus_def validAttemptTransition.simps
  sessionForStatus_def segmentForStatus_def completedAtForStatus_def applyClosed_def cancelPausedAttempt_def
  isCloseStatus_def isTerminalAttemptStatus_def isPausedAttemptStatus_def

text \<open>The state after the first event.\<close>

definition sampleManifest :: manifest where
  "sampleManifest = sealEvent (putAttempt ''r1'' sampleAttempt (putSegment ''g1'' sampleSegment
     (setSession (\<lambda>_. sampleRecord) emptyManifest))) sampleCreated"

definition sampleState :: rebuild_state where
  "sampleState = \<lparr>rs_Manifest = sampleManifest, rs_PreviousDigest = sampleDigest, rs_PreviousWriterEpoch = 7,
     rs_EventIDs = [''e1''], rs_Prepared = []\<rparr>"

lemma sampleCreated_step: "rebuildStep sampleEnv newManifestRebuildState sampleCreated = Inr sampleState"
  by (simp add: rebuild_defs created_defs sample_defs sampleState_def sampleManifest_def)

lemma sampleCreated_accepted:
  "is_ok (rebuildManifestFromState sampleEnv newManifestRebuildState [sampleCreated])"
  by (simp add: sampleCreated_step)

lemma sampleJournal_accepted:
  "is_ok (rebuildManifestFromState sampleEnv newManifestRebuildState sampleJournal)"
  by (simp add: rebuild_defs created_defs status_defs sample_defs)

end
