(* ===== verification/Sample_Store.thy ===== *)
theory Sample_Store
  imports Session_Progress Sample_Session
begin

section \<open>A concrete store\<close>

text \<open>
  A store with the sample session, just created, and a writer that holds the lease of epoch 7. The
  theorems about the store are instantiated here.
\<close>

definition sampleCall :: call where
  "sampleCall = \<lparr>cl_Cancelled = False, cl_Now = ''t'', cl_EventID = ''e2'', cl_Append = AppendDone,
     cl_BlobWritten = (\<lambda>_. True), cl_ReservationWritten = True, cl_ManifestWritten = True, cl_EpochWritten = True\<rparr>"

definition sampleDir :: session_dir where
  "sampleDir = \<lparr>sd_Journal = Some [LineEvent sampleCreated], sd_Tail = '''', sd_Heads = [(1, HeadFile (headFor sampleCreated))],
     sd_Epochs = [Some 7], sd_Blobs = [(sampleDigest, ''{}'')], sd_Manifest = None, sd_Locked = True\<rparr>"

definition sampleStore :: dir_store where
  "sampleStore = \<lparr>st_Dirs = [(''s1'', sampleDir)], st_Reservations = [(''c1'', reservationFor ''c1'' ''s1'' sampleDigest)],
     st_LeaseEpochs = [(''s1'', 7)], st_JournalCaches = []\<rparr>"

definition sampleUpdate :: request where
  "sampleUpdate = ReqUpdate \<lparr>uq_SessionID = ''s1'', uq_CommandID = ''c2'', uq_WriterEpoch = 7,
     uq_ExpectedSequence = 1, uq_RunID = ''r1'', uq_Status = AttemptStatusRunning\<rparr>"

lemma sampleCall_sel [simp]:
  "\<not> cl_Cancelled sampleCall" "cl_Now sampleCall = ''t''" "cl_EventID sampleCall = ''e2''"
  "cl_Append sampleCall = AppendDone" "cl_BlobWritten sampleCall b" "cl_ReservationWritten sampleCall"
  "cl_ManifestWritten sampleCall" "cl_EpochWritten sampleCall"
  by (simp_all add: sampleCall_def)

lemma sampleCreated_sel [simp]:
  "ev_SessionID sampleCreated = ''s1''" "ev_WriterEpoch sampleCreated = 7" "ev_Sequence sampleCreated = 1"
  "ev_CommandID sampleCreated = ''c1''" "ev_CommandDigest sampleCreated = sampleDigest" "ev_Digest sampleCreated = sampleDigest"
  "ev_Kind sampleCreated = EventSessionCreated" "ev_EventID sampleCreated = ''e1''"
  by (simp_all add: sampleCreated_def sampleEvent_def)

lemma sampleStore_inv [simp]: "store_inv E sampleStore"
  by (simp add: store_inv_start sampleStore_def)

lemma sampleStore_dir [simp]: "dirOf sampleStore ''s1'' = sampleDir"
  by (simp add: dirOf_def sampleStore_def mget0_def)

lemma sampleStore_epoch [simp]: "activeWriterEpoch sampleStore ''s1'' = 7"
  by (simp add: activeWriterEpoch_def sampleStore_def mget0_def)

lemma sampleStore_valid [simp]: "validateWriterEpoch sampleStore ''s1'' 7 = Inr ()"
  by (simp add: validateWriterEpoch_def sampleDir_def)

lemma sampleStore_log [simp]: "logOf sampleDir = [sampleCreated]"
  by (simp add: logOf_def sampleDir_def List.map_filter_simps)

lemma sample_marshal_event [simp]: "sampleMarshal (DocEvent ev) = ''''"
  by (simp add: sampleMarshal_def)

lemma sample_blob [simp]: "ReadBlob sampleEnv sampleCall sampleDir ''s1'' sampleDigest = Inr ''{}''"
  by (simp add: ReadBlob_def sampleDir_def validateUUID_def maxBlobBytes_def)

lemma sampleStore_scan:
  "scanJournal sampleEnv sampleCall ''s1'' sampleStore = (Inr [sampleCreated], 1)"
proof -
  have "loadJournalHead sampleDir ''s1'' = Inr (headFor sampleCreated)"
    by (simp add: loadJournalHead_def sampleDir_def headFor_def)
  moreover have "rebuildManifest sampleEnv [sampleCreated] = Inr sampleManifest"
    by (simp add: rebuildManifest_def sampleCreated_step) (simp add: sampleState_def)
  moreover have "validateCreationReservation sampleStore sampleCreated = Inr ()"
    by (simp add: validateCreationReservation_def sampleStore_def reservationFor_def)
  moreover have "eventBlobsOk sampleEnv sampleCall sampleDir ''s1'' m sampleCreated = Inr ()" for m
    by (simp add: eventBlobsOk_def) (simp add: blobsReadable_def sampleCreated_def sampleEvent_def sampleSegment_def)
  moreover have "sd_Journal sampleDir = Some [LineEvent sampleCreated]" "sd_Tail sampleDir = ''''"
    by (simp_all add: sampleDir_def)
  ultimately show ?thesis
    by (simp add: scanJournal_def validateUUID_def validateReferencedEventBlobs_def headFor_def Let_def)
qed

definition sampleLoaded :: dir_store where
  "sampleLoaded = primeJournalCache sampleEnv ''s1'' [sampleCreated] 1 sampleStore"

lemma sampleStore_load: "loadEvents sampleEnv sampleCall ''s1'' sampleStore = (sampleLoaded, Inr [sampleCreated])"
proof -
  have "writerJournalCache sampleStore ''s1'' = None"
    by (simp add: writerJournalCache_def Let_def) (simp add: sampleStore_def)
  then show ?thesis by (simp add: loadEvents_def sampleStore_scan sampleLoaded_def)
qed

lemma sampleLoaded_ready: "ready sampleEnv sampleLoaded ''s1'' 7 [sampleCreated] sampleState"
  using scanJournal_Inr [OF sampleStore_scan]
  by (simp add: ready_def sampleLoaded_def primeJournalCache_def sampleCreated_step)

lemma sampleManifest_sel [simp]:
  "mget (mf_AcceptedCommands sampleManifest) i = (if i = ''c1'' then Some (receiptFor sampleCreated) else None)"
  "mget (mf_Attempts sampleManifest) ''r1'' = Some sampleAttempt"
  "sr_Status (mf_Session sampleManifest) = StatusActive" "sr_Sequence (mf_Session sampleManifest) = 1"
  "sr_ActiveRunID (mf_Session sampleManifest) = ''r1''"
  by (simp_all add: sampleManifest_def manifest_simps emptyManifest_def sampleRecord_def)

lemma sampleUpdate_sel [simp]:
  "sessionOf sampleUpdate = ''s1''" "epochOf sampleUpdate = 7" "commandOf sampleUpdate = ''c2''"
  "self_contained sampleUpdate" "\<not> is_create sampleUpdate" "guarded sampleUpdate"
  by (simp_all add: sampleUpdate_def)

definition sampleNext :: event where
  "sampleNext = nextEvent sampleEnv sampleCall ''s1'' 7 sampleManifest [sampleCreated] ''c2''
     (DigestJSON sampleEnv (DocAttemptUpdate ''r1'' AttemptStatusRunning)) '''' EventAttemptUpdated
     (PayAttempt ''r1'' AttemptStatusRunning)"

lemma sampleUpdate_runs:
  "perform sampleEnv sampleCall sampleUpdate sampleStore =
     appendThenRebuild sampleEnv sampleCall ''s1'' [sampleCreated] sampleNext sampleLoaded"
  by (simp add: sampleUpdate_def UpdateAttempt_def Let_def validateUUID_def withReceipt_def sampleState_def
      withSession_loaded [OF sampleStore_load sampleLoaded_ready] isTerminalSessionStatus_def getAttempt_Some
      validAttemptTransition.simps sampleAttempt_def sampleNext_def)

lemma sampleNext_accepted: "\<exists>st. rebuildStep sampleEnv sampleState sampleNext = Inr st"
  by (simp add: sampleNext_def nextEvent_def newEventWithClientCommand_def sampleState_def sampleManifest_def
      rebuild_defs status_defs sample_defs)

lemma sampleDisk:
  "ev_Sequence ev \<noteq> 1 \<Longrightarrow> sd_Heads d = [(1, HeadFile (headFor sampleCreated))] \<Longrightarrow> good_disk sampleEnv sampleCall d ev"
  by (simp add: good_disk_def maxJournalEventBytes_def sampleMarshal_def)

lemma sampleLoaded_dir [simp]: "dirOf sampleLoaded ''s1'' = sampleDir"
  by (simp add: sampleLoaded_def)

lemma sampleUpdate_done:
  "\<exists>s' m st. perform sampleEnv sampleCall sampleUpdate sampleStore = (s', Inr m) \<and>
     ready sampleEnv s' ''s1'' 7 [sampleCreated, sampleNext] st \<and> validateWriterEpoch s' ''s1'' 7 = Inr ()"
proof -
  obtain st where st: "rebuildStep sampleEnv sampleState sampleNext = Inr st" using sampleNext_accepted by blast
  have ids: "ev_SessionID sampleNext = ''s1''" "ev_WriterEpoch sampleNext = 7" "ev_Sequence sampleNext \<noteq> 1"
    by (simp_all add: sampleNext_def)
  have "good_disk sampleEnv sampleCall (dirOf sampleLoaded ''s1'') sampleNext"
    by (rule sampleDisk [OF ids(3)]) (simp add: sampleDir_def)
  from appendThenRebuild_succeeds [OF sampleLoaded_ready ids(1,2) this st] obtain s' where
    s': "perform sampleEnv sampleCall sampleUpdate sampleStore = (s', Inr (rs_Manifest st))"
    "ready sampleEnv s' ''s1'' 7 [sampleCreated, sampleNext] st" "sd_Epochs (dirOf s' ''s1'') = [Some 7]"
    unfolding sampleUpdate_runs by (auto simp: sampleDir_def grown_def)
  then have "validateWriterEpoch s' ''s1'' 7 = Inr ()" by (simp add: validateWriterEpoch_def ready_def)
  with s' show ?thesis by blast
qed

lemma sampleUpdate_succeeds: "\<exists>s' m. perform sampleEnv sampleCall sampleUpdate sampleStore = (s', Inr m)"
  using sampleUpdate_done by blast

end
