(* ===== verification/Sample_Cases.thy ===== *)
theory Sample_Cases
  imports Sample_Store
begin

section \<open>Further concrete cases\<close>

text \<open>
  The sample store without its lock, the lease a process acquires there, and the sample
  command submitted a second time.
\<close>

definition sampleIdle :: dir_store where
  "sampleIdle = setDir ''s1'' (sampleDir\<lparr>sd_Locked := False\<rparr>) sampleStore\<lparr>st_LeaseEpochs := []\<rparr>"

lemma sampleIdle_acquire:
  "\<exists>s'. AcquireSessionLease sampleEnv sampleCall ''s1'' sampleIdle = (s', Inr \<lparr>ls_SessionID = ''s1'', ls_Epoch = 8, ls_Released = False\<rparr>)"
  by (simp add: AcquireSessionLease_def sampleIdle_def validateUUID_def sampleDir_def loadJournalHead_def headFor_def
      nextSessionWriterEpoch_def Let_def maxUint64_def)


end
