(* ===== verification/Session_Queries.thy ===== *)
theory Session_Queries
  imports Session_Commands
begin

section \<open>Reading a session\<close>

text \<open>
  What the queries return in terms of the committed events: the manifest at a sequence number, the
  events after one, and the projection of the manifest that is kept beside the journal.
\<close>

lemma loadEvents_log:
  assumes "store_inv E s" and "loadEvents E c sid s = (s1, Inr events)"
  shows "events = logOf (dirOf s sid)" and "events \<noteq> []"
    and "\<exists>st. rebuildManifestFromState E newManifestRebuildState events = Inr st"
proof -
  have "events = logOf (dirOf s sid) \<and> events \<noteq> [] \<and> (\<exists>st. rebuildManifestFromState E newManifestRebuildState events = Inr st)"
  proof (cases "writerJournalCache s sid")
    case (Some cache)
    with assms(2) have ev: "events = jc_Events cache" by (simp add: loadEvents_def)
    obtain st where r: "ready E s sid (jc_WriterEpoch cache) (jc_Events cache) st"
      using store_inv_ready [OF assms(1) Some] .
    with ev ready_log [OF r] show ?thesis by (simp add: ready_def)
  next
    case None
    with assms(2) obtain n where scan: "scanJournal E c sid s = (Inr events, n)"
      by (auto simp: loadEvents_def split: prod.splits sum.splits if_splits)
    from scanJournal_Inr [OF scan] show ?thesis by (simp add: logOf_def)
  qed
  then show "events = logOf (dirOf s sid)" "events \<noteq> []"
    "\<exists>st. rebuildManifestFromState E newManifestRebuildState events = Inr st" by blast+
qed

lemma rebuilt_prefix:
  assumes "rebuildManifestFromState E newManifestRebuildState events = Inr st" and "0 < n" and "events \<noteq> []"
  shows "\<exists>m. rebuildManifest E (take n events) = Inr m"
proof -
  have "rebuildManifestFromState E newManifestRebuildState (take n events @ drop n events) = Inr st" using assms(1) by simp
  from rebuild.run_prefix [OF this] assms(2,3) show ?thesis by (auto simp: rebuildManifest_def)
qed

lemma at_sequence:
  assumes inv: "store_inv E s" and load: "loadEvents E c sid s = (s1, Inr events)"
    and live: "\<not> cl_Cancelled c" "validateUUID E sid"
  shows "LoadManifestAtSequence E c sid n s =
     (s1, if 1 \<le> n \<and> n \<le> int (length (logOf (dirOf s sid))) then rebuildManifest E (take (nat n) (logOf (dirOf s sid)))
          else Inl ErrSequenceConflict) \<or> \<not> 1 \<le> n \<and> LoadManifestAtSequence E c sid n s = (s, Inl ErrSequenceConflict)"
proof (cases "1 \<le> n \<and> n \<le> int (length events)")
  case True
  from loadEvents_log(3) [OF inv load] obtain st where "rebuildManifestFromState E newManifestRebuildState events = Inr st" by blast
  then have "chain_ok E events" using linked_run by (auto simp: linked_def)
  moreover have "nat (n - 1) < length events" "int (nat (n - 1)) + 1 = n" using True by auto
  ultimately have "ev_Sequence (events ! nat (n - 1)) = n" by (simp add: chain_ok_def)
  with True live load loadEvents_log(1) [OF inv load] show ?thesis by (simp add: LoadManifestAtSequence_def)
next
  case False
  with live load loadEvents_log(1) [OF inv load] show ?thesis by (auto simp: LoadManifestAtSequence_def)
qed

lemma dropWhile_sequence:
  assumes "\<And>i. i < length es \<Longrightarrow> ev_Sequence (es ! i) = k + int i + 1"
  shows "dropWhile (\<lambda>ev. ev_Sequence ev \<le> a) es = drop (nat (a - k)) es"
  using assms
proof (induction es arbitrary: k)
  case (Cons e es)
  have e: "ev_Sequence e = k + 1" using Cons.prems [of 0] by simp
  have "ev_Sequence (es ! i) = (k + 1) + int i + 1" if "i < length es" for i
    using Cons.prems [of "Suc i"] that by simp
  note IH = Cons.IH [OF this]
  show ?case
  proof (cases "k + 1 \<le> a")
    case True
    then have "nat (a - k) = Suc (nat (a - (k + 1)))" by simp
    with True e IH show ?thesis by simp
  next
    case False
    then have "nat (a - k) = 0" by simp
    with False e show ?thesis by simp
  qed
qed simp

lemma read_after:
  assumes inv: "store_inv E s" and load: "loadEvents E c sid s = (s1, Inr events)" and "0 \<le> a"
  shows "ReadEvents E c sid a s = (s1, Inr (drop (nat a) (logOf (dirOf s sid))))"
proof -
  from loadEvents_log(3) [OF inv load] obtain st where "rebuildManifestFromState E newManifestRebuildState events = Inr st" by blast
  then have "chain_ok E events" using linked_run by (auto simp: linked_def)
  then have "dropWhile (\<lambda>ev. ev_Sequence ev \<le> a) events = drop (nat (a - 0)) events"
    by (intro dropWhile_sequence) (simp add: chain_ok_def)
  with assms loadEvents_log(1) [OF inv load] show ?thesis by (simp add: ReadEvents_def)
qed

subsection \<open>The projection of the manifest\<close>

lemma mget_filter:
  "mwf m \<Longrightarrow> mget (filter P m) k = Some v \<longleftrightarrow> mget m k = Some v \<and> P (k, v)"
proof -
  assume "mwf m"
  moreover from this have "mwf (filter P m)" by (simp add: mwf_def distinct_map_filter)
  ultimately show ?thesis using mget_mem [of m k v] mget_mem [of "filter P m" k v] by auto
qed

lemma rebuildStep_commands:
  assumes "rebuildStep E st ev = Inr st'" and "mwf (mf_AcceptedCommands (rs_Manifest st))"
  shows "mwf (mf_AcceptedCommands (rs_Manifest st'))"
proof -
  from assms(1) obtain m where "applyKind E (rs_Manifest st) (rs_Prepared st) ev (ev_Kind ev) (ev_Payload ev) = Inr m"
    and "rs_Manifest st' = sealEvent m ev"
    by (auto simp: rebuildStep_def andThen_Inr_conv)
  with assms(2) applyKind_commands [OF this(1)] show ?thesis by (auto simp: sealEvent_def)
qed

lemma rebuilt_commands:
  "rebuildManifestFromState E newManifestRebuildState evs = Inr st \<Longrightarrow> mwf (mf_AcceptedCommands (rs_Manifest st))"
  by (rule rebuild.run_invariant [where I = "\<lambda>st. mwf (mf_AcceptedCommands (rs_Manifest st))", rotated 2, of E newManifestRebuildState evs])
    (auto intro: rebuildStep_commands simp: newManifestRebuildState_def emptyManifest_def)

lemma in_set_drop: "x \<in> set (drop n xs) \<longleftrightarrow> (\<exists>i<length xs. n \<le> i \<and> xs ! i = x)"
proof
  assume "x \<in> set (drop n xs)"
  then obtain j where "j < length (drop n xs)" "drop n xs ! j = x" by (auto simp: in_set_conv_nth)
  then show "\<exists>i<length xs. n \<le> i \<and> xs ! i = x" by (intro exI [of _ "n + j"]) auto
next
  assume "\<exists>i<length xs. n \<le> i \<and> xs ! i = x"
  then obtain i where "i < length xs" "n \<le> i" "xs ! i = x" by blast
  then have "drop n xs ! (i - n) = x" "i - n < length (drop n xs)" by auto
  then show "x \<in> set (drop n xs)" using nth_mem by blast
qed

lemma projected_receipts:
  assumes "rebuildManifestFromState E newManifestRebuildState evs = Inr st"
  shows "mget (mf_AcceptedCommands (ProjectManifest (rs_Manifest st))) i = Some r \<longleftrightarrow>
     (\<exists>ev\<in>set (drop (length evs - 256) evs). ev_CommandID ev = i \<and> r = receiptFor ev)"
proof -
  have L: "linked E evs st" by (rule linked_run [OF assms])
  have kept: "mget (mf_AcceptedCommands (ProjectManifest (rs_Manifest st))) i = Some r \<longleftrightarrow>
      mget (mf_AcceptedCommands (rs_Manifest st)) i = Some r \<and> int (length evs) - 256 < cr_Sequence r"
    using L mget_filter [OF rebuilt_commands [OF assms]] by (simp add: ProjectManifest_def linked_def)
  have all: "mget (mf_AcceptedCommands (rs_Manifest st)) i = Some r \<longleftrightarrow> (\<exists>ev\<in>set evs. ev_CommandID ev = i \<and> r = receiptFor ev)"
    using L unfolding linked_def by (metis (no_types, lifting) image_iff option.distinct(1) option.inject)
  have seq: "ev_Sequence (evs ! j) = int j + 1" if "j < length evs" for j
    using L that by (simp add: linked_def chain_ok_def)
  have "(\<exists>ev\<in>set evs. ev_CommandID ev = i \<and> r = receiptFor ev) \<and> int (length evs) - 256 < cr_Sequence r \<longleftrightarrow>
      (\<exists>j<length evs. ev_CommandID (evs ! j) = i \<and> r = receiptFor (evs ! j) \<and> length evs - 256 \<le> j)"
    using seq by (fastforce simp: in_set_conv_nth receiptFor_def)
  then show ?thesis unfolding kept all by (auto simp: in_set_drop Bex_def)
qed

end
