(* ===== verification/Session_Properties.thy ===== *)
theory Session_Properties
  imports Session_History Sample_Session
begin

section \<open>Properties of session journals\<close>

text \<open>
  The properties of the rebuild loop, each over every journal it accepts, with an instance on
  the concrete journal of \<open>Sample_Session\<close>.
\<close>

text \<open>
  C1. Every manifest that a journal rebuilds to is well formed: attempts and segments are filed
  under their own identifiers, every attempt belongs to a known segment, at most one attempt of
  the session is not settled, and the active run, when there is one, is that attempt in the active segment.
\<close>

theorem rebuilt_topology:
  assumes "env_ok E" and "rebuildManifest E evs = Inr m"
  shows "(\<forall>r a. mget (mf_Attempts m) r = Some a \<longrightarrow>
            at_RunID a = r \<and> mget (mf_Segments m) (at_SegmentID a) \<noteq> None) \<and>
         (\<forall>k g. mget (mf_Segments m) k = Some g \<longrightarrow> sg_SegmentID g = k) \<and>
         (\<forall>r a r' a'. mget (mf_Attempts m) r = Some a \<and> mget (mf_Attempts m) r' = Some a' \<and>
            \<not> settled (at_Status a) \<and> \<not> settled (at_Status a') \<longrightarrow> r = r') \<and>
         (sr_ActiveRunID (mf_Session m) \<noteq> '''' \<longrightarrow>
            (\<exists>a. mget (mf_Attempts m) (sr_ActiveRunID (mf_Session m)) = Some a \<and>
               at_SegmentID a = sr_ActiveSegmentID (mf_Session m) \<and> \<not> settled (at_Status a)))"
proof -
  from assms(2) obtain st where "rebuildManifestFromState E newManifestRebuildState evs = Inr st"
    and "m = rs_Manifest st"
    by (auto simp: rebuildManifest_def andThen_Inr_conv split: if_splits)
  with rebuild_inv_reachable [OF assms(1)] have "topology_ok m" by (simp add: rebuild_inv_def)
  then show ?thesis unfolding topology_ok_def by blast
qed

theorem rebuilt_topology_witness:
  "\<exists>m. rebuildManifest sampleEnv sampleJournal = Inr m \<and>
     (\<forall>k g. mget (mf_Segments m) k = Some g \<longrightarrow> sg_SegmentID g = k)"
proof -
  obtain m where "rebuildManifest sampleEnv sampleJournal = Inr m"
    using sampleJournal_accepted
    by (auto simp: rebuildManifest_def is_ok_def sampleJournal_def split: sum.splits)
  with rebuilt_topology [OF sampleEnv_ok this] show ?thesis by blast
qed

text \<open>
  C2. The events of a journal that rebuilds are numbered from one without gaps, each carries its
  own digest and the digest of its predecessor, no event or command identifier occurs twice, the
  writer epochs never decrease, and the manifest holds exactly one receipt per event, keyed by its command.
\<close>

theorem rebuilt_chain:
  assumes "rebuildManifest E evs = Inr m"
  shows "chain_ok E evs \<and> sr_Sequence (mf_Session m) = int (length evs) \<and>
         (\<forall>c r. mget (mf_AcceptedCommands m) c = Some r \<longleftrightarrow> (\<exists>ev\<in>set evs. ev_CommandID ev = c \<and> r = receiptFor ev))"
proof -
  from assms obtain st where "rebuildManifestFromState E newManifestRebuildState evs = Inr st"
    and m: "m = rs_Manifest st"
    by (auto simp: rebuildManifest_def andThen_Inr_conv split: if_splits)
  then have L: "linked E evs st" by (intro linked_run)
  then have "mget (mf_AcceptedCommands m) c = Some r \<longleftrightarrow> (\<exists>ev\<in>set evs. ev_CommandID ev = c \<and> r = receiptFor ev)" for c r
    unfolding linked_def m by (metis (no_types, lifting) image_iff option.distinct(1) option.inject)
  with L show ?thesis by (simp add: linked_def m)
qed

theorem rebuilt_chain_witness: "chain_ok sampleEnv sampleJournal"
proof -
  obtain m where "rebuildManifest sampleEnv sampleJournal = Inr m"
    using sampleJournal_accepted
    by (auto simp: rebuildManifest_def is_ok_def sampleJournal_def split: sum.splits)
  from rebuilt_chain [OF this] show ?thesis by blast
qed

text \<open>
  C3. The digest of the last event determines the whole journal: two journals that rebuild and end
  in the same digest are equal, provided the hash has no collision on their events.
\<close>

theorem head_determines_journal:
  assumes "rebuildManifest E es = Inr m" and "rebuildManifest E fs = Inr n"
    and "no_collision E es fs" and "ev_Digest (last es) = ev_Digest (last fs)"
  shows "es = fs"
proof -
  have "es \<noteq> []" "fs \<noteq> []" using assms(1,2) by (auto simp: rebuildManifest_def)
  moreover have "chain_ok E es" "chain_ok E fs"
    using assms(1,2) linked_run
    by (auto simp: rebuildManifest_def andThen_Inr_conv linked_def split: if_splits)
  ultimately show ?thesis using chain_determined assms(3,4) by blast
qed

theorem head_determines_journal_witness:
  "is_ok (rebuildManifest sampleEnv [sampleCreated]) \<and>
   no_collision sampleEnv [sampleCreated] [sampleCreated] \<and> [sampleCreated] = [sampleCreated]"
proof -
  obtain m where m: "rebuildManifest sampleEnv [sampleCreated] = Inr m"
    using sampleCreated_accepted
    by (auto simp: rebuildManifest_def is_ok_def split: sum.splits)
  have "no_collision sampleEnv [sampleCreated] [sampleCreated]" by (simp add: no_collision_def)
  with head_determines_journal [OF m m this] m show ?thesis by simp
qed

end
