(* ===== verification/Store_Properties.thy ===== *)
theory Store_Properties
  imports Sample_Cases Session_Queries Session_Properties
begin

section \<open>Properties of the session store\<close>

text \<open>
  What the store promises its clients: an append-only history that survives failing writes, restarts and
  foreign writers, answers that are the manifest of that history, fenced writers and idempotent commands.
\<close>

subsection \<open>The history of a session\<close>

text \<open>
  C4. Whatever a process does - commands that succeed, fail or tear a write, lease changes, restarts,
  other processes appending - no committed event is ever lost, changed or reordered, and a cache of
  the journal always holds exactly the committed events and the state they rebuild to.
\<close>

theorem history_is_append_only:
  assumes "st_JournalCaches s = []" and "(store_step E)\<^sup>*\<^sup>* s t"
  shows "(\<exists>es. logOf (dirOf t sid) = logOf (dirOf s sid) @ es) \<and>
    (\<forall>c. mget (st_JournalCaches t) sid = Some c \<longrightarrow> jc_Events c = logOf (dirOf t sid) \<and>
       rebuildManifestFromState E newManifestRebuildState (logOf (dirOf t sid)) = Inr (jc_Rebuild c))"
proof -
  have inv: "store_inv E s" using assms(1) by (rule store_inv_start)
  have "jc_Events c = logOf (dirOf t sid) \<and>
      rebuildManifestFromState E newManifestRebuildState (logOf (dirOf t sid)) = Inr (jc_Rebuild c)"
    if c: "mget (st_JournalCaches t) sid = Some c" for c
  proof -
    from c store.steps_inv [OF assms(2) inv] obtain epoch events st where r: "ready E t sid epoch events st"
      unfolding store_inv_def by fastforce
    with c ready_log [OF r] show ?thesis by (simp add: ready_def)
  qed
  with store.steps_log [OF assms(2) inv] show ?thesis by blast
qed

theorem history_is_append_only_witness:
  "\<exists>t es. (store_step sampleEnv)\<^sup>*\<^sup>* sampleStore t \<and> logOf (dirOf t ''s1'') = [sampleCreated] @ es"
proof -
  let ?t = "fst (perform sampleEnv sampleCall sampleUpdate sampleStore)"
  have "(store_step sampleEnv)\<^sup>*\<^sup>* sampleStore ?t" by (intro r_into_rtranclp store_step.perform) simp
  moreover have "st_JournalCaches sampleStore = []" by (simp add: sampleStore_def)
  ultimately show ?thesis using history_is_append_only [of sampleStore sampleEnv ?t "''s1''"] by auto
qed

text \<open>
  C5. A command that returns a manifest returns the manifest of the committed events of its session, which are
  the ones from before or those and one more; every other session keeps its events.
\<close>

theorem answer_is_rebuilt_log:
  assumes "store_inv E s" and "is_create rq \<longrightarrow> undamaged E c (sessionOf rq) s" and "perform E c rq s = (s', Inr m)"
  shows "rebuildManifest E (logOf (dirOf s' (sessionOf rq))) = Inr m \<and>
    (logOf (dirOf s' (sessionOf rq)) = logOf (dirOf s (sessionOf rq)) \<or>
     (\<exists>ev. logOf (dirOf s' (sessionOf rq)) = logOf (dirOf s (sessionOf rq)) @ [ev])) \<and>
    (\<forall>x. x \<noteq> sessionOf rq \<longrightarrow> logOf (dirOf s' x) = logOf (dirOf s x))"
proof -
  have eff: "log_effect E (sessionOf rq) s (s', Inr m)" using perform_effect [OF assms(1,2)] assms(3) by simp
  then have "logOf (dirOf s' x) = logOf (dirOf s x)" if "x \<noteq> sessionOf rq" for x
    using that coreDir_eq(1,2) [of "dirOf s' x" "dirOf s x"]
    by (simp add: log_effect_def Let_def others_kept_def logOf_def)
  with eff show ?thesis by (simp add: log_effect_def Let_def)
qed

theorem answer_is_rebuilt_log_witness:
  "\<exists>s' m. perform sampleEnv sampleCall sampleUpdate sampleStore = (s', Inr m) \<and>
     rebuildManifest sampleEnv (logOf (dirOf s' ''s1'')) = Inr m"
proof -
  obtain s' m where p: "perform sampleEnv sampleCall sampleUpdate sampleStore = (s', Inr m)"
    using sampleUpdate_succeeds by blast
  from answer_is_rebuilt_log [OF sampleStore_inv _ p] p show ?thesis by auto
qed

subsection \<open>Fencing\<close>

text \<open>
  C6. A new lease fences every other writer: its epoch is larger than every epoch handed out before and
  than the epoch of the committed head, and as long as no newer epoch is handed out, every command
  under another epoch is refused and changes nothing.
\<close>

theorem new_lease_fences_writers:
  assumes "AcquireSessionLease E c sid s = (s', Inr l)"
  shows "(\<forall>e. Some e \<in> set (sd_Epochs (dirOf s sid)) \<longrightarrow> e < ls_Epoch l) \<and>
    (\<forall>h. loadJournalHead (dirOf s sid) sid = Inr h \<longrightarrow> jh_WriterEpoch h < ls_Epoch l) \<and>
    (\<forall>t rq c'. sd_Epochs (dirOf t sid) = sd_Epochs (dirOf s' sid) \<and> sessionOf rq = sid \<and> epochOf rq \<noteq> ls_Epoch l \<longrightarrow>
       (\<exists>err. perform E c' rq t = (t, Inl err)))"
proof -
  obtain s2 m where n: "nextSessionWriterEpoch c sid m (invalidateJournalCache sid s) = (s2, Inr (ls_Epoch l))"
    and m: "\<And>h. loadJournalHead (dirOf s sid) sid = Inr h \<Longrightarrow> m = jh_WriterEpoch h"
    and s': "s' = (setDir sid ((dirOf s2 sid)\<lparr>sd_Locked := True\<rparr>) s2)\<lparr>st_LeaseEpochs := mput sid (ls_Epoch l) (st_LeaseEpochs s2)\<rparr>"
    using Acquire_Inr [OF assms] by metis
  note larger = nextSessionWriterEpoch_larger [OF n]
  have "highestSessionWriterEpoch (sd_Epochs (dirOf s' sid)) = Inr (ls_Epoch l)" using larger(3) s' by simp
  then have "\<exists>err. perform E c' rq t = (t, Inl err)"
    if "sd_Epochs (dirOf t sid) = sd_Epochs (dirOf s' sid)" "sessionOf rq = sid" "epochOf rq \<noteq> ls_Epoch l" for t rq c'
    using that stale_epoch [of t sid "ls_Epoch l" "epochOf rq"] perform_stale [of t rq ErrSessionLeaseStale] by auto
  moreover have "\<forall>e. Some e \<in> set (sd_Epochs (dirOf s sid)) \<longrightarrow> e < ls_Epoch l" using larger(1) by simp
  moreover have "\<forall>h. loadJournalHead (dirOf s sid) sid = Inr h \<longrightarrow> jh_WriterEpoch h < ls_Epoch l" using larger(2) m by blast
  ultimately show ?thesis by blast
qed
theorem new_lease_fences_writers_witness:
  "\<exists>s' l. AcquireSessionLease sampleEnv sampleCall ''s1'' sampleIdle = (s', Inr l) \<and>
     perform sampleEnv sampleCall sampleUpdate s' \<noteq> (s', Inr sampleManifest)"
proof -
  obtain s' where acq: "AcquireSessionLease sampleEnv sampleCall ''s1'' sampleIdle =
      (s', Inr \<lparr>ls_SessionID = ''s1'', ls_Epoch = 8, ls_Released = False\<rparr>)"
    using sampleIdle_acquire by blast
  with new_lease_fences_writers [OF acq] have "\<exists>err. perform sampleEnv sampleCall sampleUpdate s' = (s', Inl err)" by simp
  with acq show ?thesis by auto
qed

subsection \<open>Resubmission\<close>



subsection \<open>Commands keep the journal readable\<close>



subsection \<open>Failing writes\<close>

text \<open>
  C14. An append that fails at any point - the line torn, not synced, or its head not written - leaves the
  committed events of the session as they were or with the new event at their end, drops the
  cache, and leaves every other session alone; one that succeeds has appended the event and advanced the cache by it.
\<close>

theorem append_is_atomic:
  assumes "ready E s sid epoch events st" and "ev_SessionID ev = sid" and "ev_WriterEpoch ev = epoch"
    and "appendEvent E c ev s = (s', q)"
  shows "(q = Inr () \<longrightarrow> logOf (dirOf s' sid) = events @ [ev] \<and>
      (\<exists>st'. rebuildStep E st ev = Inr st' \<and> ready E s' sid epoch (events @ [ev]) st')) \<and>
    (q \<noteq> Inr () \<longrightarrow> logOf (dirOf s' sid) \<in> {events, events @ [ev]} \<and> mget (st_JournalCaches s') sid = None) \<and>
    (\<forall>x. x \<noteq> sid \<longrightarrow> logOf (dirOf s' x) = logOf (dirOf s x) \<and>
       mget (st_JournalCaches s') x = mget (st_JournalCaches s) x)"
proof -
  note a = appendEvent_ready [OF assms]
  have "logOf (dirOf s' x) = logOf (dirOf s x) \<and> mget (st_JournalCaches s') x = mget (st_JournalCaches s) x"
    if "x \<noteq> sid" for x
    using a that coreDir_eq(1,2) [of "dirOf s' x" "dirOf s x"] by (simp add: others_kept_def logOf_def)
  moreover have "logOf (dirOf s' sid) = events @ [ev]" if "ready E s' sid epoch (events @ [ev]) st'" for st'
    using that by (rule ready_log)
  ultimately show ?thesis using a unfolding append_failed_def by blast
qed

theorem append_is_atomic_witness:
  "logOf (dirOf (fst (appendEvent sampleEnv (sampleCall\<lparr>cl_Append := AppendTorn ''{''\<rparr>) sampleNext sampleLoaded)) ''s1'')
     \<in> {[sampleCreated], [sampleCreated, sampleNext]}"
proof -
  obtain s' q where a: "appendEvent sampleEnv (sampleCall\<lparr>cl_Append := AppendTorn ''{''\<rparr>) sampleNext sampleLoaded = (s', q)" by fastforce
  from append_is_atomic [OF sampleLoaded_ready _ _ a] a show ?thesis
    by (cases "q = Inr ()") (auto simp: sampleNext_def)
qed

subsection \<open>Attempts\<close>

text \<open>
  C15. Extending a journal never takes back what it recorded of an attempt: its identity, segment, ordinal and mode stay,
  a settled status is final, the committed trace never shrinks, and once an execution mutation is recorded the
  checkpoint sequence never decreases.
\<close>

theorem attempts_are_monotone:
  assumes "env_ok E" and "rebuildManifest E es = Inr m" and "rebuildManifest E (es @ fs) = Inr m'"
    and "mget (mf_Attempts m) r = Some a"
  shows "\<exists>a'. mget (mf_Attempts m') r = Some a' \<and> at_RunID a' = at_RunID a \<and> at_SegmentID a' = at_SegmentID a \<and>
    at_Mode a' = at_Mode a \<and> at_Ordinal a' = at_Ordinal a \<and> (settled (at_Status a) \<longrightarrow> at_Status a' = at_Status a) \<and>
    at_CommittedTraceSequence a \<le> at_CommittedTraceSequence a' \<and>
    (at_ExecutionMutationHash a \<noteq> '''' \<longrightarrow> at_CheckpointSequence a \<le> at_CheckpointSequence a')"
proof -
  from assms(2) obtain st where st: "rebuildManifestFromState E newManifestRebuildState es = Inr st" "m = rs_Manifest st"
    by (auto simp: rebuildManifest_def andThen_Inr_conv split: if_splits)
  from assms(3) obtain st' where "rebuildManifestFromState E newManifestRebuildState (es @ fs) = Inr st'" "m' = rs_Manifest st'"
    by (auto simp: rebuildManifest_def andThen_Inr_conv split: if_splits)
  with st have "rebuildManifestFromState E st fs = Inr st'" by (simp add: rebuild.run_append)
  from attempts_le_run [OF assms(1) rebuild_inv_reachable [OF assms(1) st(1)] this] assms(4) \<open>m' = _\<close> st(2)
  show ?thesis by (auto simp: attempts_le_def attempt_le_def)
qed

theorem attempts_are_monotone_witness:
  "\<exists>m' a'. rebuildManifest sampleEnv ([sampleCreated] @ [sampleNext]) = Inr m' \<and> mget (mf_Attempts m') ''r1'' = Some a' \<and>
     at_SegmentID a' = ''g1''"
proof -
  have m: "rebuildManifest sampleEnv [sampleCreated] = Inr sampleManifest"
    by (simp add: rebuildManifest_def sampleCreated_step) (simp add: sampleState_def)
  obtain st where "rebuildStep sampleEnv sampleState sampleNext = Inr st" using sampleNext_accepted by blast
  then have m': "rebuildManifest sampleEnv ([sampleCreated] @ [sampleNext]) = Inr (rs_Manifest st)"
    by (simp add: rebuildManifest_def sampleCreated_step)
  from attempts_are_monotone [OF sampleEnv_ok m m' sampleManifest_sel(2)] m' show ?thesis by (auto simp: sampleAttempt_def)
qed

subsection \<open>Queries\<close>

text \<open>
  \<^verbatim>\<open>LoadManifestAtSequence\<close> answers exactly for the sequence numbers of the journal, with the
  manifest that the journal had at that number; any other number is a sequence conflict.
\<close>

theorem manifest_at_sequence:
  assumes "store_inv E s" and "loadEvents E c sid s = (s1, Inr events)" and "\<not> cl_Cancelled c" and "validateUUID E sid"
  shows "if 1 \<le> n \<and> n \<le> int (length (logOf (dirOf s sid)))
    then (\<exists>m. snd (LoadManifestAtSequence E c sid n s) = Inr m \<and> rebuildManifest E (take (nat n) (logOf (dirOf s sid))) = Inr m)
    else snd (LoadManifestAtSequence E c sid n s) = Inl ErrSequenceConflict"
proof -
  note log = loadEvents_log [OF assms(1,2)]
  from log(3) obtain st where "rebuildManifestFromState E newManifestRebuildState events = Inr st" by blast
  from rebuilt_prefix [OF this, of "nat n"] log(1,2) at_sequence [OF assms, of n] show ?thesis by auto
qed

theorem manifest_at_sequence_witness:
  "\<exists>m. snd (LoadManifestAtSequence sampleEnv sampleCall ''s1'' 1 sampleStore) = Inr m \<and>
     rebuildManifest sampleEnv [sampleCreated] = Inr m"
  using manifest_at_sequence [OF sampleStore_inv sampleStore_load, of 1] by (simp add: validateUUID_def)

text \<open>
  \<^verbatim>\<open>ReadEvents\<close> returns the committed events after the given sequence number, all of them and in order.
\<close>

theorem events_after_sequence:
  assumes "store_inv E s" and "loadEvents E c sid s = (s1, Inr events)" and "0 \<le> after"
  shows "ReadEvents E c sid after s = (s1, Inr (drop (nat after) (logOf (dirOf s sid))))"
  using assms by (rule read_after)

theorem events_after_sequence_witness:
  "snd (ReadEvents sampleEnv sampleCall ''s1'' 0 sampleStore) = Inr [sampleCreated]"
  using events_after_sequence [OF sampleStore_inv sampleStore_load, of 0] by simp

text \<open>
  The manifest kept beside the journal holds the receipts of the last 256 commands and no other.
\<close>

theorem projection_keeps_last_receipts:
  assumes "rebuildManifest E evs = Inr m"
  shows "mget (mf_AcceptedCommands (ProjectManifest m)) i = Some r \<longleftrightarrow>
    (\<exists>ev\<in>set (drop (length evs - 256) evs). ev_CommandID ev = i \<and> r = receiptFor ev)"
proof -
  from assms obtain st where "rebuildManifestFromState E newManifestRebuildState evs = Inr st" "m = rs_Manifest st"
    by (auto simp: rebuildManifest_def andThen_Inr_conv split: if_splits)
  with projected_receipts show ?thesis by simp
qed

theorem projection_keeps_last_receipts_witness:
  "mget (mf_AcceptedCommands (ProjectManifest sampleManifest)) ''c1'' = Some (receiptFor sampleCreated)"
proof -
  have "rebuildManifest sampleEnv [sampleCreated] = Inr sampleManifest"
    by (simp add: rebuildManifest_def sampleCreated_step) (simp add: sampleState_def)
  from projection_keeps_last_receipts [OF this] show ?thesis by simp
qed

subsection \<open>Progress\<close>



end
