(* ===== verification/Session_Findings.thy ===== *)
theory Session_Findings
  imports Sample_Cases
begin

section \<open>Where the store does not keep its promises\<close>

text \<open>
  Behaviours of the store that its own contract excludes, each shown on a concrete run of the model.
\<close>

subsection \<open>A trace event that makes the journal unreadable\<close>

definition sampleTrace :: "string \<Rightarrow> int \<Rightarrow> trace_event" where
  "sampleTrace kind n = \<lparr>te_EventID = ''x'', te_RunID = ''r1'', te_RunbookID = ''rb'', te_Timestamp = ''t'',
     te_Kind = kind, te_Sequence = n, te_Payload = [(''step_id'', GStr ''a'')]\<rparr>"

definition traceCompleted :: request where
  "traceCompleted = ReqTrace \<lparr>tq_SessionID = ''s1'', tq_CommandID = ''c2'', tq_WriterEpoch = 7,
     tq_ExpectedSequence = 1, tq_RunID = ''r1'', tq_Event = sampleTrace ''step/completed'' 1\<rparr>"

definition traceFailed :: request where
  "traceFailed = ReqTrace \<lparr>tq_SessionID = ''s1'', tq_CommandID = ''c3'', tq_WriterEpoch = 7,
     tq_ExpectedSequence = 2, tq_RunID = ''r1'', tq_Event = sampleTrace ''step/failed'' 2\<rparr>"

definition laterCall :: call where
  "laterCall = sampleCall\<lparr>cl_EventID := ''e3''\<rparr>"

lemma laterCall_sel [simp]:
  "\<not> cl_Cancelled laterCall" "cl_Now laterCall = ''t''" "cl_EventID laterCall = ''e3''"
  "cl_Append laterCall = AppendDone" "cl_ManifestWritten laterCall"
  by (simp_all add: laterCall_def)

definition sampleOccurrence :: "string \<Rightarrow> int \<Rightarrow> occurrence_record" where
  "sampleOccurrence status n = \<lparr>oc_SessionID = ''s1'', oc_SegmentID = ''g1'', oc_RunID = ''r1'',
     oc_QualifiedNodeID = ''a'', oc_CallPath = [], oc_StepID = ''a'', oc_Phase = ''execute'', oc_Invocation = 1,
     oc_RetryAttempt = 1, oc_OccurrenceSequence = 1, oc_ExecutionSource = ExecutionSourceLive,
     oc_Status = status, oc_EventSequence = n\<rparr>"

definition traceEvent :: "call \<Rightarrow> manifest \<Rightarrow> event list \<Rightarrow> string \<Rightarrow> string \<Rightarrow> int \<Rightarrow> event" where
  "traceEvent c m events i status n = nextEvent sampleEnv c ''s1'' 7 m events i sampleDigest '''' EventTraceCommitted
     (PayTrace \<lparr>tp_RunID = ''r1'', tp_TraceHash = sampleDigest, tp_TraceSequence = n,
        tp_Occurrence = Some (sampleOccurrence status n)\<rparr>)"

lemma sample_occurrenceID [simp]: "OccurrenceID sampleEnv r = sampleDigest"
  by (simp add: OccurrenceID_def)

lemma sample_traceOccurrence [simp]:
  "at_SegmentID a = ''g1'' \<Longrightarrow> at_Mode a = ''real'' \<Longrightarrow>
   traceOccurrence sampleEnv ''s1'' a (sampleTrace ''step/completed'' 1) = Inr (Some (sampleOccurrence ''completed'' 1))"
  "at_SegmentID a = ''g1'' \<Longrightarrow> at_Mode a = ''real'' \<Longrightarrow>
   traceOccurrence sampleEnv ''s1'' a (sampleTrace ''step/failed'' 2) = Inr (Some (sampleOccurrence ''failed'' 2))"
  by (simp_all add: traceOccurrence_def OccurrenceFromTraceEvent_def sampleTrace_def terminalStatus_def strField_def
      occurrenceCallPath_def DebugNodeID_def occurrencePositiveInt_def occurrencePositiveInt64_def Let_def
      executionSourceForAttempt_def sampleOccurrence_def)

lemma sample_writeBlob:
  "sd_Blobs (dirOf s ''s1'') = [(sampleDigest, ''{}'')] \<Longrightarrow>
   \<exists>s'. writeBlob sampleEnv c ''s1'' (NewJSONBlob sampleEnv ''{}'') s = (s', Inr ()) \<and> same_log ''s1'' s s' \<and>
     sd_Blobs (dirOf s' ''s1'') = sd_Blobs (dirOf s ''s1'') \<and> sd_Heads (dirOf s' ''s1'') = sd_Heads (dirOf s ''s1'') \<and>
     sd_Epochs (dirOf s' ''s1'') = sd_Epochs (dirOf s ''s1'')"
  by (simp add: writeBlob_def NewJSONBlob_def validateBlob_def publishImmutableFile_def maxBlobBytes_def same_log_setDir)

definition tracedEvent :: event where
  "tracedEvent = traceEvent sampleCall sampleManifest [sampleCreated] ''c2'' ''completed'' 1"

definition tracedManifest :: manifest where
  "tracedManifest = sealEvent ((putAttempt ''r1'' (sampleAttempt\<lparr>at_JournaledTraceSequence := 1\<rparr>) sampleManifest)
     \<lparr>mf_Occurrences := [(sampleDigest, sampleOccurrence ''completed'' 1)]\<rparr>) tracedEvent"

definition tracedState :: rebuild_state where
  "tracedState = \<lparr>rs_Manifest = tracedManifest, rs_PreviousDigest = sampleDigest, rs_PreviousWriterEpoch = 7,
     rs_EventIDs = [''e2'', ''e1''], rs_Prepared = []\<rparr>"

lemma sampleAttempt_sel [simp]:
  "at_RunID sampleAttempt = ''r1''" "at_SegmentID sampleAttempt = ''g1''" "at_Mode sampleAttempt = ''real''"
  "at_JournaledTraceSequence sampleAttempt = 0" "at_CommittedTraceSequence sampleAttempt = 0"
  by (simp_all add: sampleAttempt_def zeroAttempt_def)

lemma tracedManifest_sel [simp]:
  "mget (mf_AcceptedCommands tracedManifest) ''c3'' = None"
  "mget (mf_Attempts tracedManifest) ''r1'' = Some (sampleAttempt\<lparr>at_JournaledTraceSequence := 1\<rparr>)"
  "sr_Status (mf_Session tracedManifest) = StatusActive" "sr_Sequence (mf_Session tracedManifest) = 2"
  "mf_Occurrences tracedManifest = [(sampleDigest, sampleOccurrence ''completed'' 1)]"
  "sr_SessionID (mf_Session tracedManifest) = ''s1''"
  by (simp_all add: tracedManifest_def tracedEvent_def traceEvent_def manifest_simps)
    (simp_all add: sampleManifest_def manifest_simps sampleRecord_def)

lemma sampleManifest_more [simp]:
  "mf_Occurrences sampleManifest = []" "sr_SessionID (mf_Session sampleManifest) = ''s1''"
  by (simp_all add: sampleManifest_def manifest_simps emptyManifest_def sampleRecord_def)

lemma sample_nextDigest [simp]: "ev_Digest (nextEvent sampleEnv c sid epoch m events i d cl k p) = sampleDigest"
  by (metis nextEvent_digest sampleEnv_json(2))

lemma traced_step: "rebuildStep sampleEnv sampleState tracedEvent = Inr tracedState"
  by (simp add: tracedEvent_def traceEvent_def sampleState_def tracedState_def rebuildStep_def checkEvent_def
      validateUUID_def applyKind_def applyTrace_def applyTraceCommit_def latestTraceSequence_def i64_def applyOccurrenceRecords_def
      occurrenceOk_def sampleOccurrence_def executionSourceForAttempt_def preparedAfter_def tracedManifest_def
      putAttempt_def getAttempt_def mget0_def)

lemma sample_digests [simp]:
  "DigestJSON sampleEnv (DocOccurrence (sampleOccurrence ''completed'' 1)) \<noteq>
   DigestJSON sampleEnv (DocOccurrence (sampleOccurrence ''failed'' 2))"
proof -
  have "hd (replicate 64 CHR ''1'') \<noteq> hd (replicate 64 CHR ''2'')" by simp
  then have "replicate 64 CHR ''1'' \<noteq> replicate 64 CHR ''2''" by metis
  then show ?thesis
    by (simp add: DigestJSON_def DigestBytes_def sampleMarshal_def sampleSha_def sampleOccurrence_def hasPrefix_def)
qed

definition rejectedEvent :: event where
  "rejectedEvent = traceEvent laterCall tracedManifest [sampleCreated, tracedEvent] ''c3'' ''failed'' 2"

lemma rejected_step: "\<exists>e. rebuildStep sampleEnv tracedState rejectedEvent = Inl e"
  by (simp add: rejectedEvent_def traceEvent_def tracedState_def rebuildStep_def checkEvent_def
      validateUUID_def applyKind_def applyTrace_def applyTraceCommit_def latestTraceSequence_def i64_def applyOccurrenceRecords_def
      putAttempt_def getAttempt_def mget0_def)

lemma sampleTrace_sel [simp]:
  "te_RunID (sampleTrace k n) = ''r1''" "te_Sequence (sampleTrace k n) = n" "te_Kind (sampleTrace k n) = k"
  "te_EventID (sampleTrace k n) = ''x''" "te_Timestamp (sampleTrace k n) = ''t''"
  "sampleMarshal (DocTrace (sampleTrace k n)) = ''{}''"
  by (simp_all add: sampleTrace_def sampleMarshal_def)

lemma sample_newBlob [simp]: "bl_Digest (NewJSONBlob sampleEnv ''{}'') = sampleDigest"
  by (simp add: NewJSONBlob_def)

lemma traceCompleted_runs:
  "perform sampleEnv sampleCall traceCompleted sampleStore =
     (case writeBlob sampleEnv sampleCall ''s1'' (NewJSONBlob sampleEnv ''{}'') sampleLoaded of
        (s2, Inl e) \<Rightarrow> (s2, Inl e)
      | (s2, Inr _) \<Rightarrow> appendThenRebuild sampleEnv sampleCall ''s1'' [sampleCreated] tracedEvent s2)"
  unfolding tracedEvent_def traceEvent_def
  by (simp add: traceCompleted_def CommitTraceEvent_def Let_def validateUUID_def withReceipt_def sampleState_def
      withSession_loaded [OF sampleStore_load sampleLoaded_ready] isTerminalSessionStatus_def
      latestTraceSequence_def i64_def maxStdioFrameProjectionBytes_def)

lemma traceFailed_runs:
  assumes "loadEvents sampleEnv laterCall ''s1'' s = (s, Inr [sampleCreated, tracedEvent])"
    and "ready sampleEnv s ''s1'' 7 [sampleCreated, tracedEvent] tracedState" and "validateWriterEpoch s ''s1'' 7 = Inr ()"
  shows "perform sampleEnv laterCall traceFailed s =
     (case writeBlob sampleEnv laterCall ''s1'' (NewJSONBlob sampleEnv ''{}'') s of
        (s2, Inl e) \<Rightarrow> (s2, Inl e)
      | (s2, Inr _) \<Rightarrow> appendThenRebuild sampleEnv laterCall ''s1'' [sampleCreated, tracedEvent] rejectedEvent s2)"
  using assms(3) unfolding rejectedEvent_def traceEvent_def
  by (simp add: traceFailed_def CommitTraceEvent_def Let_def validateUUID_def withReceipt_def tracedState_def
      withSession_loaded [OF assms(1,2)] isTerminalSessionStatus_def
      latestTraceSequence_def i64_def maxStdioFrameProjectionBytes_def)

lemma traceCompleted_succeeds:
  "\<exists>s'. perform sampleEnv sampleCall traceCompleted sampleStore = (s', Inr tracedManifest) \<and>
     ready sampleEnv s' ''s1'' 7 [sampleCreated, tracedEvent] tracedState \<and> validateWriterEpoch s' ''s1'' 7 = Inr () \<and>
     sd_Blobs (dirOf s' ''s1'') = [(sampleDigest, ''{}'')] \<and>
     sd_Heads (dirOf s' ''s1'') = [(2, HeadFile (headFor tracedEvent)), (1, HeadFile (headFor sampleCreated))]"
proof -
  have ids: "ev_SessionID tracedEvent = ''s1''" "ev_WriterEpoch tracedEvent = 7" "ev_Sequence tracedEvent = 2"
    by (simp_all add: tracedEvent_def traceEvent_def)
  from sample_writeBlob [of sampleLoaded sampleCall] obtain s2 where
    w: "writeBlob sampleEnv sampleCall ''s1'' (NewJSONBlob sampleEnv ''{}'') sampleLoaded = (s2, Inr ())"
    and same: "same_log ''s1'' sampleLoaded s2"
    and d: "sd_Blobs (dirOf s2 ''s1'') = [(sampleDigest, ''{}'')]" "sd_Heads (dirOf s2 ''s1'') = [(1, HeadFile (headFor sampleCreated))]"
      "sd_Epochs (dirOf s2 ''s1'') = [Some 7]"
    by (auto simp: sampleDir_def)
  have "good_disk sampleEnv sampleCall (dirOf s2 ''s1'') tracedEvent" by (rule sampleDisk) (simp_all add: ids d)
  from appendThenRebuild_succeeds [OF same_log_ready [OF same sampleLoaded_ready] ids(1,2) this traced_step] obtain s' where
    s': "appendThenRebuild sampleEnv sampleCall ''s1'' [sampleCreated] tracedEvent s2 = (s', Inr tracedManifest)"
    "ready sampleEnv s' ''s1'' 7 [sampleCreated, tracedEvent] tracedState" "grown (dirOf s2 ''s1'') tracedEvent (dirOf s' ''s1'')"
    by (auto simp: tracedState_def)
  with d ids have "validateWriterEpoch s' ''s1'' 7 = Inr ()" by (simp add: validateWriterEpoch_def ready_def grown_def)
  with s' w d ids show ?thesis by (simp add: traceCompleted_runs grown_def)
qed

lemma corrupted:
  "\<exists>s' s''. perform sampleEnv sampleCall traceCompleted sampleStore = (s', Inr tracedManifest) \<and>
     perform sampleEnv laterCall traceFailed s' = (s'', Inl ErrProjection) \<and>
     logOf (dirOf s'' ''s1'') = [sampleCreated, tracedEvent, rejectedEvent]"
proof -
  obtain s' where s': "perform sampleEnv sampleCall traceCompleted sampleStore = (s', Inr tracedManifest)"
    and r: "ready sampleEnv s' ''s1'' 7 [sampleCreated, tracedEvent] tracedState" and v: "validateWriterEpoch s' ''s1'' 7 = Inr ()"
    and d: "sd_Blobs (dirOf s' ''s1'') = [(sampleDigest, ''{}'')]"
      "sd_Heads (dirOf s' ''s1'') = [(2, HeadFile (headFor tracedEvent)), (1, HeadFile (headFor sampleCreated))]"
    using traceCompleted_succeeds by blast
  have ids: "ev_SessionID rejectedEvent = ''s1''" "ev_WriterEpoch rejectedEvent = 7" "ev_Sequence rejectedEvent = 3"
    by (simp_all add: rejectedEvent_def traceEvent_def)
  have load: "loadEvents sampleEnv laterCall ''s1'' s' = (s', Inr [sampleCreated, tracedEvent])"
    using ready_cache [OF r] by (simp add: loadEvents_def)
  from sample_writeBlob [OF d(1), of laterCall] obtain s2 where
    w: "writeBlob sampleEnv laterCall ''s1'' (NewJSONBlob sampleEnv ''{}'') s' = (s2, Inr ())"
    and same: "same_log ''s1'' s' s2" and heads: "sd_Heads (dirOf s2 ''s1'') = sd_Heads (dirOf s' ''s1'')"
    by blast
  have "good_disk sampleEnv laterCall (dirOf s2 ''s1'') rejectedEvent"
    by (simp add: good_disk_def heads d(2) ids maxJournalEventBytes_def sampleMarshal_def)
  moreover obtain e where "rebuildStep sampleEnv tracedState rejectedEvent = Inl e" using rejected_step by blast
  ultimately obtain s'' where "appendEvent sampleEnv laterCall rejectedEvent s2 = (s'', Inl ErrProjection)"
    "logOf (dirOf s'' ''s1'') = [sampleCreated, tracedEvent, rejectedEvent]"
    using appendEvent_rejected [OF same_log_ready [OF same r] ids(1,2)] by fastforce
  then show ?thesis using s' traceFailed_runs [OF load r v] w by (auto simp: appendThenRebuild_def)
qed

text \<open>
  C17. A run of two trace commits that ends in a journal no extension of which can be read again. The second event reports
  another outcome for an occurrence that is already recorded; \<^verbatim>\<open>CommitTraceEvent\<close> appends it and only
  then finds that the rebuild rejects it, so the command fails after the event is committed.
\<close>

theorem trace_commit_can_corrupt_journal:
  "\<exists>s' s''. perform sampleEnv sampleCall traceCompleted sampleStore = (s', Inr tracedManifest) \<and>
     perform sampleEnv laterCall traceFailed s' = (s'', Inl ErrProjection) \<and>
     (\<exists>m. rebuildManifest sampleEnv (logOf (dirOf s' ''s1'')) = Inr m) \<and>
     (\<forall>es. \<exists>e. rebuildManifest sampleEnv (logOf (dirOf s'' ''s1'') @ es) = Inl e)"
proof -
  obtain s' s'' where p: "perform sampleEnv sampleCall traceCompleted sampleStore = (s', Inr tracedManifest)"
    "perform sampleEnv laterCall traceFailed s' = (s'', Inl ErrProjection)"
    and log: "logOf (dirOf s'' ''s1'') = [sampleCreated, tracedEvent, rejectedEvent]"
    using corrupted by blast
  have "\<exists>m. rebuildManifest sampleEnv (logOf (dirOf s' ''s1'')) = Inr m"
    using perform_effect [OF sampleStore_inv, of traceCompleted sampleEnv sampleCall] p(1)
    by (auto simp: traceCompleted_def log_effect_def Let_def)
  moreover have "\<exists>e. rebuildManifest sampleEnv (logOf (dirOf s'' ''s1'') @ es) = Inl e" for es
    using rejected_step by (auto simp: log rebuildManifest_def sampleCreated_step traced_step)
  ultimately show ?thesis using p by blast
qed

subsection \<open>Creating a session again after one of its blobs was lost\<close>

definition damagedDir :: session_dir where
  "damagedDir = sampleDir\<lparr>sd_Epochs := [Some 8, Some 7], sd_Blobs := []\<rparr>"

definition damagedStore :: dir_store where
  "damagedStore = (setDir ''s1'' damagedDir sampleStore)\<lparr>st_LeaseEpochs := [(''s1'', 8)]\<rparr>"

definition againRequest :: create_request where
  "againRequest = \<lparr>cq_SessionID = ''s1'', cq_CommandID = ''c1'', cq_EntryDigest = sampleDigest,
     cq_Identity = sampleIdentity, cq_Session = sampleRecord, cq_Segment = sampleSegment, cq_Attempt = sampleAttempt,
     cq_Blobs = [NewJSONBlob sampleEnv ''{}'']\<rparr>"

definition createAgain :: request where
  "createAgain = ReqCreate 8 againRequest"

lemma againRequest_sel [simp]:
  "cq_SessionID againRequest = ''s1''" "cq_CommandID againRequest = ''c1''" "cq_EntryDigest againRequest = sampleDigest"
  "cq_Identity againRequest = sampleIdentity" "cq_Session againRequest = sampleRecord" "cq_Segment againRequest = sampleSegment"
  "cq_Attempt againRequest = sampleAttempt" "cq_Blobs againRequest = [NewJSONBlob sampleEnv ''{}'']"
  "sg_GraphHash sampleSegment = sampleDigest" "sg_ExecutableSnapshotHash sampleSegment = sampleDigest"
  by (simp_all add: againRequest_def sampleSegment_def)

definition repairedStore :: dir_store where
  "repairedStore = setDir ''s1'' (damagedDir\<lparr>sd_Blobs := [(sampleDigest, ''{}'')]\<rparr>) damagedStore"

definition createdAgain :: event where
  "createdAgain = createdEvent sampleEnv sampleCall 8 againRequest"

lemma sample_manifest: "rebuildManifest sampleEnv [sampleCreated] = Inr sampleManifest"
  by (simp add: rebuildManifest_def sampleCreated_step) (simp add: sampleState_def)

lemma sample_reservation: "validateCreationReservation damagedStore sampleCreated = Inr ()"
  "validateCreationReservation repairedStore sampleCreated = Inr ()"
  by (simp_all add: validateCreationReservation_def repairedStore_def damagedStore_def)
    (simp_all add: sampleStore_def reservationFor_def)

lemma damaged_sel [simp]:
  "dirOf damagedStore ''s1'' = damagedDir" "activeWriterEpoch damagedStore ''s1'' = 8"
  "st_JournalCaches damagedStore = []" "sd_Journal damagedDir = Some [LineEvent sampleCreated]" "sd_Tail damagedDir = ''''"
  "sd_Epochs damagedDir = [Some 8, Some 7]" "sd_Blobs damagedDir = []"
  "sd_Heads damagedDir = [(1, HeadFile (headFor sampleCreated))]"
  by (simp_all add: damagedStore_def damagedDir_def sampleDir_def activeWriterEpoch_def mget0_def) (simp add: sampleStore_def)

lemma repaired_sel [simp]:
  "dirOf repairedStore ''s1'' = damagedDir\<lparr>sd_Blobs := [(sampleDigest, ''{}'')]\<rparr>" "activeWriterEpoch repairedStore ''s1'' = 8"
  "st_JournalCaches repairedStore = []"
  by (simp_all add: repairedStore_def)

lemma damaged_head:
  "loadJournalHead damagedDir ''s1'' = Inr (headFor sampleCreated)"
  "loadJournalHead (damagedDir\<lparr>sd_Blobs := b\<rparr>) ''s1'' = Inr (headFor sampleCreated)"
  by (simp_all add: loadJournalHead_def headFor_def)

lemma damaged_load: "loadEvents sampleEnv sampleCall ''s1'' damagedStore = (damagedStore, Inl ErrNotExist)"
proof -
  have "eventBlobsOk sampleEnv sampleCall damagedDir ''s1'' m sampleCreated = Inl ErrNotExist" for m
    by (simp add: eventBlobsOk_def)
      (simp add: blobsReadable_def ReadBlob_def validateUUID_def sampleCreated_def sampleEvent_def sampleSegment_def)
  then show ?thesis
    by (simp add: loadEvents_def writerJournalCache_def Let_def scanJournal_def validateUUID_def damaged_head
        sample_manifest sample_reservation validateReferencedEventBlobs_def) (simp add: headFor_def)
qed

lemma repaired_scan: "scanJournal sampleEnv c ''s1'' repairedStore = (Inr [sampleCreated], 1) \<or> cl_Cancelled c"
proof -
  have "eventBlobsOk sampleEnv c (damagedDir\<lparr>sd_Blobs := [(sampleDigest, ''{}'')]\<rparr>) ''s1'' m sampleCreated = Inr () \<or> cl_Cancelled c" for m
    by (simp add: eventBlobsOk_def)
      (simp add: blobsReadable_def ReadBlob_def validateUUID_def sampleCreated_def sampleEvent_def sampleSegment_def maxBlobBytes_def)
  then show ?thesis
    by (simp add: Let_def scanJournal_def validateUUID_def damaged_head
        sample_manifest sample_reservation validateReferencedEventBlobs_def) (auto simp: headFor_def)
qed

lemma createdAgain_sel [simp]:
  "ev_SessionID createdAgain = ''s1''" "ev_WriterEpoch createdAgain = 8" "ev_Sequence createdAgain = 1"
  by (simp_all add: createdAgain_def)

lemma createAgain_appends:
  "\<exists>s'. appendEvent sampleEnv sampleCall createdAgain repairedStore = (s', Inl ErrProjection) \<and>
     logOf (dirOf s' ''s1'') = [sampleCreated, createdAgain]"
proof -
  have "headFor createdAgain \<noteq> headFor sampleCreated" by (simp add: headFor_def)
  then show ?thesis
    using repaired_scan [of "sampleCall\<lparr>cl_Cancelled := False\<rparr>"]
    by (auto simp: appendEvent_def truncateJournalToCommittedHead_def writerJournalCache_def Let_def maxJournalEventBytes_def
        writeJournalHead_def addLine_def headFor_def logOf_def List.map_filter_simps)
qed

lemma again_normalized: "normalizeCreateRequest againRequest = againRequest"
  by (simp add: normalizeCreateRequest_def againRequest_def sampleSegment_def sampleAttempt_def Let_def)

lemma again_valid:
  "validateCreateRequest sampleEnv ''s1'' sampleDigest \<lparr>cp_Identity = sampleIdentity, cp_Session = sampleRecord,
     cp_Segment = sampleSegment, cp_Attempt = sampleAttempt\<rparr> = Inr ()"
  by (simp add: created_defs validateUUID_def sample_defs)

lemma again_reserved:
  "reserveCreationCommand sampleCall ''c1'' ''s1'' sampleDigest damagedStore = (damagedStore, Inr ())"
  by (simp add: reserveCreationCommand_def damagedStore_def) (simp add: sampleStore_def)

lemma again_blobs:
  "writeBlobs sampleEnv sampleCall ''s1'' [NewJSONBlob sampleEnv ''{}''] damagedStore = (repairedStore, Inr ())"
  "blobsReadable sampleEnv sampleCall (dirOf repairedStore ''s1'') ''s1'' [sampleDigest, sampleDigest] = Inr ()"
  by (simp_all add: writeBlob_def NewJSONBlob_def validateBlob_def publishImmutableFile_def maxBlobBytes_def
      repairedStore_def blobsReadable_def ReadBlob_def validateUUID_def)

lemma createAgain_runs:
  "perform sampleEnv sampleCall createAgain damagedStore =
     (case appendEvent sampleEnv sampleCall createdAgain repairedStore of (s3, Inl e) \<Rightarrow> (s3, Inl e)
      | (s3, Inr _) \<Rightarrow> (case rebuildManifest sampleEnv [createdAgain] of Inl e \<Rightarrow> (s3, Inl e) | Inr m \<Rightarrow> finishManifest sampleEnv sampleCall m s3))"
proof -
  have "validateWriterEpoch damagedStore ''s1'' 8 = Inr ()" by (simp add: validateWriterEpoch_def)
  moreover have "createFresh sampleEnv sampleCall 8 againRequest damagedStore =
     (case appendEvent sampleEnv sampleCall createdAgain repairedStore of (s3, Inl e) \<Rightarrow> (s3, Inl e)
      | (s3, Inr _) \<Rightarrow> (case rebuildManifest sampleEnv [createdAgain] of Inl e \<Rightarrow> (s3, Inl e) | Inr m \<Rightarrow> finishManifest sampleEnv sampleCall m s3))"
    unfolding createFresh_def again_normalized Let_def createdAgain_def
    by (simp add: again_valid again_reserved again_blobs del: writeBlobs.simps repaired_sel)
  ultimately show ?thesis
    by (simp add: createAgain_def CreateSession_def Let_def validateUUID_def damaged_load)
qed

text \<open>
  C18. A session whose directory lost a blob: the journal still rebuilds, but a scan of it reports \<^verbatim>\<open>os.ErrNotExist\<close>, which
  \<^verbatim>\<open>CreateSession\<close> takes for a session that was never created. Submitting the creation again writes
  the blob back, appends a second creation to the journal, fails on the committed head, and leaves a journal no extension of
  which can be read again.
\<close>

theorem create_can_corrupt_journal:
  "\<exists>s'. perform sampleEnv sampleCall createAgain damagedStore = (s', Inl ErrProjection) \<and>
     rebuildManifest sampleEnv (logOf (dirOf damagedStore ''s1'')) = Inr sampleManifest \<and>
     (\<forall>es. \<exists>e. rebuildManifest sampleEnv (logOf (dirOf s' ''s1'') @ es) = Inl e)"
proof -
  obtain s' where s': "appendEvent sampleEnv sampleCall createdAgain repairedStore = (s', Inl ErrProjection)"
    "logOf (dirOf s' ''s1'') = [sampleCreated, createdAgain]"
    using createAgain_appends by blast
  have "\<exists>e. rebuildStep sampleEnv sampleState createdAgain = Inl e"
    by (simp add: rebuildStep_def checkEvent_def sampleState_def Let_def)
  then have "\<exists>e. rebuildManifest sampleEnv (logOf (dirOf s' ''s1'') @ es) = Inl e" for es
    by (auto simp: s' rebuildManifest_def sampleCreated_step)
  moreover have "logOf (dirOf damagedStore ''s1'') = [sampleCreated]" by (simp add: logOf_def List.map_filter_simps)
  ultimately show ?thesis using s' createAgain_runs sample_manifest by simp
qed

end
