(* ===== verification/Go_Text.thy ===== *)
theory Go_Text
  imports Sensitive
begin

section \<open>UTF-8 text and binary floating point\<close>

text \<open>
  What the expression language uses of the Go language and library: encoding of runes, validity of UTF-8,
  the order of strings, and rounding to \<^verbatim>\<open>float64\<close>. Strings are byte strings.
\<close>

subsection \<open>Runes and bytes\<close>

text \<open>\<^verbatim>\<open>utf8.ValidRune\<close> and the bytes \<^verbatim>\<open>WriteRune\<close> writes; an invalid rune is written as U+FFFD.\<close>

definition validRune :: "nat \<Rightarrow> bool" where
  "validRune r = (r < 0xD800 \<or> 0xE000 \<le> r \<and> r \<le> 0x10FFFF)"

definition encodeBytes :: "nat \<Rightarrow> nat list" where
  "encodeBytes r =
     (if r < 0x80 then [r]
      else if r < 0x800 then [0xC0 + r div 64, 0x80 + r mod 64]
      else if r < 0x10000 then [0xE0 + r div 4096, 0x80 + r div 64 mod 64, 0x80 + r mod 64]
      else [0xF0 + r div 262144, 0x80 + r div 4096 mod 64, 0x80 + r div 64 mod 64, 0x80 + r mod 64])"

definition encodeRune :: "nat \<Rightarrow> string" where
  "encodeRune r = map char_of (encodeBytes (if validRune r then r else runeError))"

definition encodeRunes :: "nat list \<Rightarrow> string" where
  "encodeRunes rs = concat (map encodeRune rs)"

text \<open>\<^verbatim>\<open>utf8.ValidString\<close>: no position decodes to U+FFFD with a width of one.\<close>

function validBytes :: "nat list \<Rightarrow> bool" where
  "validBytes [] = True"
| "validBytes (b # bs) =
     (let (r, w) = decodeRune (b # bs) in \<not> (r = runeError \<and> w = 1) \<and> validBytes (drop w (b # bs)))"
  by pat_completeness auto
termination
proof (relation "measure length")
  fix b bs x xa y
  assume "x = decodeRune (b # bs)" "(xa, y) = x"
  then have "0 < y" using decodeRune_width [of b bs] by (metis snd_conv)
  then show "(drop y (b # bs), b # bs) \<in> measure length" by simp
qed simp

definition validString :: "string \<Rightarrow> bool" where
  "validString s = validBytes (map of_char s)"

text \<open>Comparison of strings is comparison of their bytes.\<close>

fun bytesLess :: "string \<Rightarrow> string \<Rightarrow> bool" where
  "bytesLess s [] = False"
| "bytesLess [] (d # t) = True"
| "bytesLess (c # s) (d # t) =
     (if (of_char c :: nat) < of_char d then True else if (of_char d :: nat) < of_char c then False else bytesLess s t)"

lemma bytesLess_irrefl [simp]: "\<not> bytesLess s s"
  by (induction s) simp_all

lemma bytesLess_total: "s = t \<or> bytesLess s t \<or> bytesLess t s"
proof (induction s t rule: bytesLess.induct)
  case (1 s)
  then show ?case by (cases s) simp_all
next
  case (3 c s d t)
  then show ?case by (cases "(of_char c :: nat) = of_char d") auto
qed simp

lemma bytesLess_trans: "bytesLess s t \<Longrightarrow> bytesLess t u \<Longrightarrow> bytesLess s u"
proof (induction s t arbitrary: u rule: bytesLess.induct)
  case (2 d t)
  then show ?case by (cases u) simp_all
next
  case (3 c s d t)
  then show ?case by (cases u) (auto split: if_splits)
qed simp

subsection \<open>Decoding what was encoded\<close>

lemma encodeBytes_small: "validRune r \<Longrightarrow> b \<in> set (encodeBytes r) \<Longrightarrow> b < 256"
  by (auto simp: encodeBytes_def validRune_def split: if_splits)

lemma div_64:
  fixes r :: nat
  shows "r div 4096 = r div 64 div 64" and "r div 262144 = r div 64 div 64 div 64"
  by (simp_all add: div_mult2_eq [symmetric])

lemma split64:
  fixes r :: nat
  shows "r div 64 * 64 + r mod 64 = r"
    and "r div 4096 * 4096 + r div 64 mod 64 * 64 + r mod 64 = r"
    and "r div 262144 * 262144 + r div 4096 mod 64 * 4096 + r div 64 mod 64 * 64 + r mod 64 = r"
proof -
  have base: "n div 64 * 64 + n mod 64 = n" for n :: nat by simp
  show "r div 64 * 64 + r mod 64 = r" by (rule base)
  show "r div 4096 * 4096 + r div 64 mod 64 * 64 + r mod 64 = r"
    unfolding div_64 using base [of r] base [of "r div 64"] by linarith
  show "r div 262144 * 262144 + r div 4096 mod 64 * 4096 + r div 64 mod 64 * 64 + r mod 64 = r"
    unfolding div_64 using base [of r] base [of "r div 64"] base [of "r div 64 div 64"] by linarith
qed

lemma mod64_le [simp]: "(n::nat) mod 64 \<le> 63"
  using mod_less_divisor [of 64 n] by linarith

lemma decodeRune_encode:
  assumes "validRune r"
  shows "decodeRune (encodeBytes r @ bs) = (r, length (encodeBytes r))"
proof -
  consider "r < 0x80" | "0x80 \<le> r" "r < 0x800" | "0x800 \<le> r" "r < 0x10000" | "0x10000 \<le> r" "r \<le> 0x10FFFF"
    using assms unfolding validRune_def by linarith
  then show ?thesis
  proof cases
    case 1
    then show ?thesis by (simp add: encodeBytes_def)
  next
    case 2
    then have "2 \<le> r div 64" "r div 64 \<le> 31" by auto
    with 2 split64(1) [of r] show ?thesis by (simp add: encodeBytes_def cont_def)
  next
    case 3
    let ?a = "r div 4096" and ?b = "r div 64 mod 64" and ?c = "r mod 64"
    have "?a \<le> 15" using 3 by auto
    moreover have "?a = 0 \<longrightarrow> 32 \<le> ?b" "?a = 13 \<longrightarrow> ?b \<le> 31" using 3 assms split64(2) [of r] unfolding validRune_def by linarith+
    moreover have "?a = 0 \<longrightarrow> r div 64 \<le> 63" unfolding div_64 by linarith
    ultimately show ?thesis using 3 split64(2) [of r] by (simp add: encodeBytes_def cont_def)
  next
    case 4
    let ?a = "r div 262144" and ?b = "r div 4096 mod 64" and ?c = "r div 64 mod 64" and ?d = "r mod 64"
    have "?a \<le> 4" using 4 by auto
    moreover have "?a = 0 \<longrightarrow> 16 \<le> ?b" "?a = 4 \<longrightarrow> ?b \<le> 15" using 4 split64(3) [of r] mod_less_divisor [of 64 "r div 64"] mod_less_divisor [of 64 r] by linarith+
    moreover have "?a = 0 \<longrightarrow> r div 4096 \<le> 63" unfolding div_64 by linarith
    ultimately show ?thesis using 4 split64(3) [of r] by (simp add: encodeBytes_def cont_def)
  qed
qed

lemma encodeBytes_Cons: "\<exists>b bs. encodeBytes r = b # bs"
  by (simp add: encodeBytes_def)

lemma decodeRunes_encode:
  assumes "validRune r"
  shows "decodeRunes (encodeBytes r @ bs) = r # decodeRunes bs"
proof -
  obtain b cs where e: "encodeBytes r = b # cs" using encodeBytes_Cons by blast
  have "decodeRune (b # cs @ bs) = (r, length (b # cs))" using decodeRune_encode [OF assms, of bs] e by simp
  then show ?thesis using e by simp
qed

lemma validBytes_encode:
  assumes "validRune r"
  shows "validBytes (encodeBytes r @ bs) = validBytes bs"
proof -
  obtain b cs where e: "encodeBytes r = b # cs" using encodeBytes_Cons by blast
  have d: "decodeRune (b # cs @ bs) = (r, length (b # cs))" using decodeRune_encode [OF assms, of bs] e by simp
  have "length (b # cs) \<noteq> 1" if "r = runeError" using that e by (auto simp: encodeBytes_def runeError_def)
  with d e show ?thesis by auto
qed

lemma encodeRune_bytes: "map of_char (encodeRune r) = encodeBytes (if validRune r then r else runeError)"
proof -
  have ok: "validRune (if validRune r then r else runeError)" by (simp add: validRune_def runeError_def)
  have "map (of_char \<circ> char_of) bs = bs" if "\<And>b. b \<in> set bs \<Longrightarrow> b < 256" for bs :: "nat list"
    using that by (induction bs) simp_all
  with encodeBytes_small [OF ok] show ?thesis by (simp add: encodeRune_def)
qed

lemma runes_encode_append: "runes (encodeRune r @ s) = (if validRune r then r else runeError) # runes s"
  by (simp add: runes_def encodeRune_bytes decodeRunes_encode validRune_def runeError_def)

lemma valid_encode_append: "validString (encodeRune r @ s) = validString s"
  by (simp add: validString_def encodeRune_bytes validBytes_encode validRune_def runeError_def)

lemma valid_encodeRunes [simp]: "validString (encodeRunes rs)"
  by (induction rs) (simp_all add: encodeRunes_def valid_encode_append, simp add: validString_def)

lemma runes_encodeRunes: "list_all validRune rs \<Longrightarrow> runes (encodeRunes rs) = rs"
  by (induction rs) (simp_all add: encodeRunes_def runes_encode_append, simp add: runes_def)

subsection \<open>Encoding what was decoded\<close>

lemma digits64:
  fixes q z :: nat
  assumes "z < 64"
  shows "(q * 64 + z) div 64 = q" "(q * 64 + z) mod 64 = z"
  using assms by simp_all

lemma encode_three:
  fixes x y z :: nat
  assumes "x < 16" "y < 64" "z < 64" "x = 0 \<longrightarrow> 32 \<le> y" "x = 13 \<longrightarrow> y < 32"
  defines "r \<equiv> (x * 64 + y) * 64 + z"
  shows "validRune r \<and> encodeBytes r = [0xE0 + x, 0x80 + y, 0x80 + z]"
proof -
  consider "x = 0" "32 \<le> y" | "1 \<le> x" "x \<le> 12" | "x = 13" "y < 32" | "14 \<le> x" using assms(4,5) by linarith
  then have "0x800 \<le> r \<and> r < 0x10000 \<and> (r < 0xD800 \<or> 0xE000 \<le> r)" using assms(1-3) unfolding r_def by cases simp_all
  then have "validRune r" "0x800 \<le> r" "r < 0x10000" by (auto simp: validRune_def)
  moreover have "r div 64 = x * 64 + y" "r mod 64 = z" "r div 64 mod 64 = y" "r div 4096 = x"
    unfolding r_def div_64 by (simp_all only: digits64 [OF assms(3)] digits64 [OF assms(2)])
  ultimately show ?thesis by (simp add: encodeBytes_def)
qed

lemma encode_four:
  fixes x y z u :: nat
  assumes "x \<le> 4" "y < 64" "z < 64" "u < 64" "x = 0 \<longrightarrow> 16 \<le> y" "x = 4 \<longrightarrow> y < 16"
  defines "r \<equiv> ((x * 64 + y) * 64 + z) * 64 + u"
  shows "validRune r \<and> encodeBytes r = [0xF0 + x, 0x80 + y, 0x80 + z, 0x80 + u]"
proof -
  consider "x = 0" "16 \<le> y" | "1 \<le> x" "x \<le> 3" | "x = 4" "y < 16" using assms(1,5,6) by linarith
  then have "0x10000 \<le> r \<and> r \<le> 0x10FFFF" using assms(1-4) unfolding r_def by cases simp_all
  then have "validRune r" "0x10000 \<le> r" by (auto simp: validRune_def)
  moreover have "r mod 64 = u" "r div 64 mod 64 = z" "r div 4096 mod 64 = y" "r div 262144 = x"
    unfolding r_def div_64 by (simp_all only: digits64 [OF assms(4)] digits64 [OF assms(3)] digits64 [OF assms(2)])
  ultimately show ?thesis by (simp add: encodeBytes_def)
qed

lemma cont_offset: "cont c \<Longrightarrow> \<exists>y. c = 0x80 + y \<and> y < 64"
  by (intro exI [of _ "c - 0x80"]) (auto simp: cont_def)

lemma decodeRune_valid:
  assumes "decodeRune (b # bs) = (r, w)" and "\<not> (r = runeError \<and> w = 1)"
  shows "validRune r \<and> encodeBytes r = take w (b # bs)"
proof -
  consider "b < 0x80" | "0xC2 \<le> b \<and> b \<le> 0xDF" | "0xE0 \<le> b \<and> b \<le> 0xEF" | "0xF0 \<le> b \<and> b \<le> 0xF4"
    using assms(1,2) by (fastforce split: if_split_asm)
  then show ?thesis
  proof cases
    case 1
    with assms(1) show ?thesis by (auto simp: validRune_def encodeBytes_def)
  next
    case 2
    then obtain c cs where bs: "bs = c # cs" "cont c" "r = (b - 0xC0) * 64 + (c - 0x80)" "w = 2"
      using assms(1,2) by (cases bs) (auto split: if_split_asm)
    obtain y where "c = 0x80 + y" "y < 64" using cont_offset [OF bs(2)] by blast
    moreover obtain x where "b = 0xC0 + x" "2 \<le> x" "x < 32" using 2 by (intro that [of "b - 0xC0"]) auto
    ultimately show ?thesis using bs by (simp add: validRune_def encodeBytes_def)
  next
    case 3
    then obtain c d cs where bs: "bs = c # d # cs" "cont c" "cont d" "b = 0xE0 \<longrightarrow> 0xA0 \<le> c" "b = 0xED \<longrightarrow> c \<le> 0x9F"
        "r = (b - 0xE0) * 4096 + (c - 0x80) * 64 + (d - 0x80)" "w = 3"
      using assms(1,2) by (auto simp: cont_def split: if_split_asm list.splits)
    obtain y z where yz: "c = 0x80 + y" "y < 64" "d = 0x80 + z" "z < 64" using cont_offset bs(2,3) by metis
    obtain x where x: "b = 0xE0 + x" "x < 16" using 3 by (intro that [of "b - 0xE0"]) auto
    have "x = 0 \<longrightarrow> 32 \<le> y" "x = 13 \<longrightarrow> y < 32" using bs(4,5) x(1) yz(1) by auto
    from encode_three [OF x(2) yz(2,4) this] show ?thesis using bs x yz by (simp add: algebra_simps)
  next
    case 4
    then obtain c d e cs where bs: "bs = c # d # e # cs" "cont c" "cont d" "cont e" "b = 0xF0 \<longrightarrow> 0x90 \<le> c" "b = 0xF4 \<longrightarrow> c \<le> 0x8F"
        "r = (b - 0xF0) * 262144 + (c - 0x80) * 4096 + (d - 0x80) * 64 + (e - 0x80)" "w = 4"
      using assms(1,2) by (auto simp: cont_def split: if_split_asm list.splits)
    obtain y z u where yz: "c = 0x80 + y" "y < 64" "d = 0x80 + z" "z < 64" "e = 0x80 + u" "u < 64" using cont_offset bs(2,3,4) by metis
    obtain x where x: "b = 0xF0 + x" "x \<le> 4" using 4 by (intro that [of "b - 0xF0"]) auto
    have "x = 0 \<longrightarrow> 16 \<le> y" "x = 4 \<longrightarrow> y < 16" using bs(5,6) x(1) yz(1) by auto
    from encode_four [OF x(2) yz(2,4,6) this] show ?thesis using bs x yz by (simp add: algebra_simps)
  qed
qed

text \<open>Valid text is the encoding of its runes.\<close>

lemma decodeRunes_valid:
  "validBytes bs \<Longrightarrow> list_all validRune (decodeRunes bs) \<and> concat (map encodeBytes (decodeRunes bs)) = bs"
proof (induction bs rule: decodeRunes.induct)
  case (2 b bs)
  obtain r w where rw: "decodeRune (b # bs) = (r, w)" by fastforce
  with 2(2) have ok: "\<not> (r = runeError \<and> w = 1)" "validBytes (drop w (b # bs))" by (auto simp del: decodeRune.simps)
  note decodeRune_valid [OF rw ok(1)]
  moreover note 2(1) [OF rw [symmetric] refl ok(2)]
  ultimately show ?case by (simp add: rw del: decodeRune.simps)
qed simp

lemma encodeRunes_runes:
  assumes "validString s"
  shows "list_all validRune (runes s) \<and> encodeRunes (runes s) = s"
proof -
  have valid: "list_all validRune (runes s)" and eq: "concat (map encodeBytes (runes s)) = map of_char s"
    using decodeRunes_valid assms by (simp_all add: validString_def runes_def)
  have "encodeRunes rs = map char_of (concat (map encodeBytes rs))" if "list_all validRune rs" for rs
    using that by (induction rs) (simp_all add: encodeRunes_def encodeRune_def)
  from this [OF valid] eq valid show ?thesis by (simp add: comp_def)
qed

end
