(* ===== verification/Go_Float.thy ===== *)
theory Go_Float
  imports Go_Text
begin

section \<open>Binary floating point\<close>

text \<open>
  The \<^verbatim>\<open>float64\<close> numbers of Go that are finite, as the rationals they are. An operation computes its
  exact result and rounds it to the nearest number with a 53-bit significand and an exponent in range, ties to
  even; \<open>None\<close> is an overflow to infinity. Zero has no sign here: the value model normalises it away.
\<close>

fun bitlen :: "nat \<Rightarrow> nat" where
  "bitlen n = (if n = 0 then 0 else Suc (bitlen (n div 2)))"

declare bitlen.simps [simp del]

definition pow2 :: "int \<Rightarrow> rat" where
  "pow2 k = (if 0 \<le> k then 2 ^ nat k else 1 / 2 ^ nat (- k))"

text \<open>The exponent of the leading bit of a positive rational.\<close>

definition binExp :: "rat \<Rightarrow> int" where
  "binExp q = (let (a, b) = quotient_of q; k = int (bitlen (nat a)) - int (bitlen (nat b)) in
     if pow2 k \<le> q then k else k - 1)"

definition roundHalfEven :: "rat \<Rightarrow> int" where
  "roundHalfEven x = (let n = \<lfloor>x\<rfloor>; d = x - of_int n in
     if d < 1 / 2 then n else if 1 / 2 < d then n + 1 else if even n then n else n + 1)"

definition roundF :: "rat \<Rightarrow> rat option" where
  "roundF q =
     (if q = 0 then Some 0
      else
        let e = max (binExp \<bar>q\<bar>) (- 1022); ulp = pow2 (e - 52); r = of_int (roundHalfEven (\<bar>q\<bar> / ulp)) * ulp in
        if pow2 1024 \<le> r then None else Some (sgn q * r))"

text \<open>\<^verbatim>\<open>math.Mod\<close>: the exact remainder with the sign of the dividend.\<close>

definition truncRat :: "rat \<Rightarrow> int" where
  "truncRat q = (if 0 \<le> q then \<lfloor>q\<rfloor> else \<lceil>q\<rceil>)"

definition fmod :: "rat \<Rightarrow> rat \<Rightarrow> rat" where
  "fmod x y = x - y * of_int (truncRat (x / y))"

text \<open>\<^verbatim>\<open>strconv.ParseFloat\<close> on unsigned decimal literals.\<close>

definition digitsVal :: "string \<Rightarrow> int" where
  "digitsVal s = int (decVal 0 s)"

definition tenPow :: "int \<Rightarrow> rat" where
  "tenPow k = (if 0 \<le> k then 10 ^ nat k else 1 / 10 ^ nat (- k))"

definition decimal :: "string \<Rightarrow> string \<Rightarrow> int \<Rightarrow> rat" where
  "decimal whole fraction expo = of_int (digitsVal (whole @ fraction)) * tenPow (expo - int (length fraction))"

definition parseFloat :: "string \<Rightarrow> string \<Rightarrow> int \<Rightarrow> rat option" where
  "parseFloat whole fraction expo = roundF (decimal whole fraction expo)"

subsection \<open>Facts\<close>

lemma bitlen_bounds: "n < 2 ^ bitlen n \<and> (0 < n \<longrightarrow> 2 ^ (bitlen n - 1) \<le> n)"
proof (induction n rule: bitlen.induct)
  case (1 n)
  show ?case
  proof (cases "n = 0")
    case True
    then show ?thesis by (simp add: bitlen.simps)
  next
    case False
    with 1 have IH: "n div 2 < 2 ^ bitlen (n div 2)" "0 < n div 2 \<longrightarrow> 2 ^ (bitlen (n div 2) - 1) \<le> n div 2" by simp_all
    have b: "bitlen n = Suc (bitlen (n div 2))" using False by (subst bitlen.simps) simp
    show ?thesis
    proof (cases "n div 2 = 0")
      case True
      with False b show ?thesis by (simp add: bitlen.simps)
    next
      case half: False
      then have "bitlen (n div 2) \<noteq> 0" by (subst bitlen.simps) simp
      then obtain k where k: "bitlen (n div 2) = Suc k" by (cases "bitlen (n div 2)") auto
      have "n < 2 * 2 ^ Suc k" "2 * 2 ^ k \<le> n" using IH half k by simp_all
      with b k show ?thesis by simp
    qed
  qed
qed

lemma binExp_nat:
  assumes "0 < n"
  shows "binExp (of_nat n) = int (bitlen n) - 1"
proof -
  have "bitlen 1 = 1" by (simp add: bitlen.simps)
  moreover have "pow2 (int (bitlen n) - 1) \<le> of_nat n"
  proof -
    have "bitlen n \<noteq> 0" using assms by (subst bitlen.simps) simp
    then have "pow2 (int (bitlen n) - 1) = of_nat (2 ^ (bitlen n - 1))" by (simp add: pow2_def nat_diff_distrib)
    also have "\<dots> \<le> of_nat n" using bitlen_bounds [of n] assms by (simp only: of_nat_le_iff)
    finally show ?thesis .
  qed
  ultimately show ?thesis by (simp add: binExp_def quotient_of_int [of "int n", simplified] Let_def)
qed

lemma roundHalfEven_int [simp]: "roundHalfEven (of_int n) = n"
  by (simp add: roundHalfEven_def Let_def)

lemma pow2_add: "pow2 (j + k) = pow2 j * pow2 k"
proof -
  have "pow2 k = 2 powi k" for k by (simp add: pow2_def power_int_def field_simps)
  then show ?thesis by (simp add: power_int_add)
qed

lemma pow2_pos [simp]: "0 < pow2 k" "pow2 k \<noteq> 0"
  by (simp_all add: pow2_def)

text \<open>Whole numbers of at most 53 bits are represented exactly.\<close>

lemma roundF_nat:
  assumes "n \<le> 2 ^ 53"
  shows "roundF (of_nat n) = Some (of_nat n)"
proof (cases "n = 0")
  case False
  let ?e = "int (bitlen n) - 1"
  have len: "bitlen n \<le> 54"
  proof (rule ccontr)
    assume "\<not> bitlen n \<le> 54"
    then have "(2::nat) ^ 54 \<le> 2 ^ (bitlen n - 1)" by (intro power_increasing) simp_all
    with bitlen_bounds [of n] False have "(2::nat) ^ 54 \<le> n" by simp
    with assms show False by simp
  qed
  have "\<exists>k. of_nat n = of_int k * pow2 (?e - 52)"
  proof (cases "bitlen n \<le> 53")
    case True
    then have "pow2 (52 - ?e) = of_int (2 ^ nat (52 - ?e))" by (simp add: pow2_def)
    moreover have "pow2 (52 - ?e) * pow2 (?e - 52) = 1" unfolding pow2_add [symmetric] by (simp add: pow2_def)
    ultimately have "of_nat n = of_int (int n * 2 ^ nat (52 - ?e)) * pow2 (?e - 52)" by simp
    then show ?thesis by blast
  next
    case False
    with len have e: "bitlen n = 54" by simp
    with bitlen_bounds [of n] \<open>n \<noteq> 0\<close> assms have "n = 2 ^ 53" by simp
    with e show ?thesis by (intro exI [of _ "2 ^ 52"]) (simp add: pow2_def)
  qed
  then obtain k where k: "of_nat n = of_int k * pow2 (?e - 52)" by blast
  have big: "\<not> pow2 1024 \<le> of_nat n"
  proof -
    have "(of_nat n :: rat) \<le> 2 ^ 53" using assms by (metis of_nat_le_iff of_nat_numeral of_nat_power)
    also have "\<dots> < pow2 1024" by (simp add: pow2_def power_strict_increasing)
    finally show ?thesis by simp
  qed
  have "max (binExp \<bar>of_nat n\<bar>) (- 1022) = ?e" using False binExp_nat [of n] by simp
  moreover have "of_nat n / pow2 (?e - 52) = of_int k" using k by (simp add: nonzero_divide_eq_eq)
  ultimately show ?thesis using False k big by (simp add: roundF_def Let_def)
qed (simp add: roundF_def)

lemma roundF_neg: "roundF (- q) = map_option uminus (roundF q)"
  by (simp add: roundF_def Let_def sgn_minus)

lemma roundF_int:
  assumes "\<bar>n\<bar> \<le> 2 ^ 53"
  shows "roundF (of_int n) = Some (of_int n)"
proof (cases "0 \<le> n")
  case True
  with assms roundF_nat [of "nat n"] show ?thesis by (simp add: nat_le_iff)
next
  case False
  with assms roundF_nat [of "nat (- n)"] roundF_neg [of "of_int (- n)"] show ?thesis by (simp add: nat_le_iff)
qed

end
