(* ===== verification/Pjvm.thy ===== *)
theory Pjvm
  imports Go_Float
begin

section \<open>The portable JSON value model\<close>

text \<open>
  \<^verbatim>\<open>runtime/pkg/pjvm/value.go\<close>: values, their constructors, equality and conversion from Go values. A number is the
  rational a finite \<^verbatim>\<open>float64\<close> stands for; \<^verbatim>\<open>Number\<close> rejects the others and turns minus zero into zero.
  An object is a Go map, so its keys are distinct.
\<close>

datatype pkind = KindNull | KindBool | KindNumber | KindString | KindArray | KindObject

datatype pvalue =
    VNull
  | VBool bool
  | VNumber rat
  | VString string
  | VArray "pvalue list"
  | VObject "(string \<times> pvalue) list"

fun kindOf :: "pvalue \<Rightarrow> pkind" where
  "kindOf VNull = KindNull"
| "kindOf (VBool b) = KindBool"
| "kindOf (VNumber n) = KindNumber"
| "kindOf (VString s) = KindString"
| "kindOf (VArray a) = KindArray"
| "kindOf (VObject m) = KindObject"

text \<open>
  The errors of the expression packages, by their code; messages are not modelled. \<open>Missing\<close> is
  \<^verbatim>\<open>gdp.MissingPathError\<close> around a coded error, \<open>PlainError\<close> an error without a code.
\<close>

datatype gerror = Code string | Missing string | PlainError

text \<open>\<^verbatim>\<open>Number\<close> of a \<^verbatim>\<open>float64\<close>, \<open>None\<close> for a number that is not finite, and \<^verbatim>\<open>NewString\<close>.\<close>

definition Number :: "rat option \<Rightarrow> gerror + pvalue" where
  "Number f = (case f of None \<Rightarrow> Inl PlainError | Some n \<Rightarrow> Inr (VNumber n))"

definition NewString :: "string \<Rightarrow> gerror + pvalue" where
  "NewString s = (if validString s then Inr (VString s) else Inl PlainError)"

fun NumberValue :: "pvalue \<Rightarrow> rat option" where
  "NumberValue (VNumber n) = Some n"
| "NumberValue _ = None"

fun StringValue :: "pvalue \<Rightarrow> string option" where
  "StringValue (VString s) = Some s"
| "StringValue _ = None"

fun BoolValue :: "pvalue \<Rightarrow> bool option" where
  "BoolValue (VBool b) = Some b"
| "BoolValue _ = None"

fun ArrayValue :: "pvalue \<Rightarrow> pvalue list option" where
  "ArrayValue (VArray a) = Some a"
| "ArrayValue _ = None"

fun ObjectValue :: "pvalue \<Rightarrow> pvalue gomap option" where
  "ObjectValue (VObject m) = Some m"
| "ObjectValue _ = None"

subsection \<open>Equality and truth\<close>

function Equal :: "pvalue \<Rightarrow> pvalue \<Rightarrow> bool" where
  "Equal v w =
     (case (v, w) of
        (VNull, VNull) \<Rightarrow> True
      | (VBool b, VBool c) \<Rightarrow> b = c
      | (VNumber m, VNumber n) \<Rightarrow> m = n
      | (VString s, VString t) \<Rightarrow> s = t
      | (VArray a, VArray b) \<Rightarrow> length a = length b \<and> list_all (\<lambda>(x, y). Equal x y) (zip a b)
      | (VObject m, VObject n) \<Rightarrow> length m = length n \<and>
          list_all (\<lambda>(k, x). case mget n k of None \<Rightarrow> False | Some y \<Rightarrow> Equal x y) m
      | _ \<Rightarrow> False)"
  by pat_completeness auto
termination
proof (relation "measure (\<lambda>(v, w). size v)", goal_cases)
  case 1
  then show ?case by simp
next
  case (2 v w x y a b z xa ya)
  then have "xa \<in> set a" by (auto dest: set_zip_leftD)
  with 2 show ?case by (auto simp: less_Suc_eq_le dest: size_list_estimation')
next
  case (3 v w x y m n z k xa ya)
  then have "(k, xa) \<in> set m" by auto
  then have "size xa \<le> size_list (size_prod (\<lambda>x. 0) size) m" by (rule size_list_estimation') simp
  with 3 show ?case by auto
qed

declare Equal.simps [simp del]

fun Truthy :: "pvalue \<Rightarrow> bool" where
  "Truthy VNull = False"
| "Truthy (VBool b) = b"
| "Truthy (VNumber n) = (n \<noteq> 0)"
| "Truthy (VString s) = (s \<noteq> '''')"
| "Truthy _ = True"

text \<open>What every value satisfies: strings are valid UTF-8 and the keys of an object are distinct.\<close>

fun wfValue :: "pvalue \<Rightarrow> bool" where
  "wfValue (VString s) = validString s"
| "wfValue (VArray a) = list_all wfValue a"
| "wfValue (VObject m) = (mwf m \<and> list_all (\<lambda>p. wfValue (snd p)) m)"
| "wfValue _ = True"

lemma Equal_simps [simp]:
  "Equal VNull w = (w = VNull)" "Equal (VBool b) w = (w = VBool b)" "Equal (VNumber q) w = (w = VNumber q)"
  "Equal (VString s) w = (w = VString s)"
  "Equal (VArray a) (VArray a') = (length a = length a' \<and> list_all (\<lambda>(x, y). Equal x y) (zip a a'))"
  "Equal (VObject m) (VObject n) = (length m = length n \<and>
     list_all (\<lambda>(k, x). case mget n k of None \<Rightarrow> False | Some y \<Rightarrow> Equal x y) m)"
  by (simp_all add: Equal.simps [of VNull] Equal.simps [of "VBool b"] Equal.simps [of "VNumber q"]
      Equal.simps [of "VString s"] Equal.simps [of "VArray a"] Equal.simps [of "VObject m"] eq_commute split: pvalue.splits)

lemma Equal_kind: "Equal v w \<Longrightarrow> kindOf v = kindOf w"
  by (subst (asm) Equal.simps) (auto split: pvalue.splits)

lemma Equal_refl: "wfValue v \<Longrightarrow> Equal v v"
proof (induction v)
  case (VArray a)
  have "Equal x y" if "(x, y) \<in> set (zip a a)" for x y
    using that VArray by (auto simp: zip_same list_all_iff)
  then show ?case by (auto simp: list_all_iff)
next
  case (VObject m)
  have "case mget m k of None \<Rightarrow> False | Some y \<Rightarrow> Equal x y" if "(k, x) \<in> set m" for k x
  proof -
    from that VObject.prems have "mget m k = Some x" by (simp add: mget_mem)
    moreover have "Equal x x" using VObject.IH [OF that, of x] VObject.prems that by (auto simp: list_all_iff)
    ultimately show ?thesis by simp
  qed
  then show ?case by (auto simp: list_all_iff)
qed simp_all

lemma key_mget: "k \<in> fst ` set m \<longleftrightarrow> (\<exists>x. mget m k = Some x)"
  using map_of_eq_None_iff [of m k] by (auto simp: mget_def)

text \<open>An object with as many keys as another and every key of it has the same keys.\<close>

lemma same_keys:
  assumes "mwf m" and "mwf n" and "length m = length n" and "\<And>k. k \<in> fst ` set m \<Longrightarrow> k \<in> fst ` set n"
  shows "fst ` set m = fst ` set n"
proof -
  have "card (fst ` set m) = length m" "card (fst ` set n) = length n"
    using assms(1,2) distinct_card [of "map fst m"] distinct_card [of "map fst n"] by (simp_all add: mwf_def)
  with assms(3,4) show ?thesis by (metis List.finite_set card_subset_eq finite_imageI subsetI)
qed

lemma Equal_object:
  assumes "mwf m" and "mwf n"
  shows "Equal (VObject m) (VObject n) \<longleftrightarrow> fst ` set m = fst ` set n \<and>
    (\<forall>k x y. mget m k = Some x \<and> mget n k = Some y \<longrightarrow> Equal x y)"
proof
  assume eq: "Equal (VObject m) (VObject n)"
  have each: "\<exists>y. mget n k = Some y \<and> Equal x y" if "(k, x) \<in> set m" for k x
    using eq that by (fastforce simp: list_all_iff split: option.splits)
  have "k \<in> fst ` set n" if "k \<in> fst ` set m" for k
    using that each unfolding key_mget [of k n] by fastforce
  then have "fst ` set m = fst ` set n" using same_keys [OF assms] eq by simp
  moreover have "Equal x y" if "mget m k = Some x" "mget n k = Some y" for k x y
    using each [of k x] that mget_in_set by fastforce
  ultimately show "fst ` set m = fst ` set n \<and> (\<forall>k x y. mget m k = Some x \<and> mget n k = Some y \<longrightarrow> Equal x y)" by blast
next
  assume r: "fst ` set m = fst ` set n \<and> (\<forall>k x y. mget m k = Some x \<and> mget n k = Some y \<longrightarrow> Equal x y)"
  then have "length m = length n"
    using assms by (metis List.set_map distinct_card length_map mwf_def)
  moreover have "case mget n k of None \<Rightarrow> False | Some y \<Rightarrow> Equal x y" if "(k, x) \<in> set m" for k x
  proof -
    have x: "mget m k = Some x" using that assms by (simp add: mget_mem)
    moreover have "k \<in> fst ` set n" using that r by force
    then obtain y where "mget n k = Some y" unfolding key_mget by blast
    ultimately show ?thesis using r by auto
  qed
  ultimately show "Equal (VObject m) (VObject n)" by (auto simp: list_all_iff)
qed

lemma wf_member: "wfValue (VObject m) \<Longrightarrow> mget m k = Some x \<Longrightarrow> wfValue x"
  by (auto simp: list_all_iff dest!: mget_in_set)

lemma Equal_array:
  "Equal (VArray a) (VArray b) \<longleftrightarrow> length a = length b \<and> (\<forall>i<length a. Equal (a ! i) (b ! i))"
  by (auto simp: list_all_length)

lemma Equal_sym: "wfValue v \<Longrightarrow> wfValue w \<Longrightarrow> Equal v w \<Longrightarrow> Equal w v"
proof (induction v arbitrary: w)
  case (VArray a)
  obtain b where w: "w = VArray b" using Equal_kind [OF VArray.prems(3)] by (cases w) auto
  have "Equal (b ! i) (a ! i)" if "i < length a" for i
    using VArray w that by (intro VArray.IH [of "a ! i"]) (simp_all add: list_all_length)
  with VArray.prems w show ?case unfolding w Equal_array by simp
next
  case (VObject m)
  obtain n where w: "w = VObject n" using Equal_kind [OF VObject.prems(3)] by (cases w) auto
  from VObject.prems w have wf: "mwf m" "mwf n" by simp_all
  have flip: "Equal y x" if "mget n k = Some y" "mget m k = Some x" for k x y
  proof -
    have "(k, x) \<in> set m" using that by (simp add: mget_in_set)
    moreover have "Equal x y" using VObject.prems(3) that unfolding w Equal_object [OF wf] by blast
    moreover have "wfValue x" "wfValue y" using VObject.prems(1,2) that w wf_member by blast+
    ultimately show ?thesis using VObject.IH [of "(k, x)" x y] by simp
  qed
  have "fst ` set m = fst ` set n" using VObject.prems(3) unfolding w Equal_object [OF wf] by simp
  then show ?case unfolding w Equal_object [OF wf(2,1)] by (auto intro: flip)
qed auto

lemma Equal_trans: "wfValue u \<Longrightarrow> wfValue v \<Longrightarrow> wfValue w \<Longrightarrow> Equal u v \<Longrightarrow> Equal v w \<Longrightarrow> Equal u w"
proof (induction u arbitrary: v w)
  case (VArray a)
  obtain b where v: "v = VArray b" using Equal_kind [OF VArray.prems(4)] by (cases v) auto
  obtain c where w: "w = VArray c" using Equal_kind [OF VArray.prems(5)] v by (cases w) auto
  have "Equal (a ! i) (c ! i)" if "i < length a" for i
  proof (rule VArray.IH [of "a ! i" "b ! i"])
    show "a ! i \<in> set a" using that by simp
    have len: "length a = length b" "length b = length c"
      using VArray.prems(4,5) unfolding v w Equal_array by simp_all
    then show "wfValue (a ! i)" "wfValue (b ! i)" "wfValue (c ! i)"
      using VArray.prems(1-3) that unfolding v w by (simp_all add: list_all_length)
    show "Equal (a ! i) (b ! i)" "Equal (b ! i) (c ! i)"
      using VArray.prems(4,5) that len unfolding v w Equal_array by simp_all
  qed
  moreover have "length a = length c" using VArray.prems(4,5) unfolding v w Equal_array by simp
  ultimately show ?case unfolding w Equal_array by simp
next
  case (VObject m)
  obtain n where v: "v = VObject n" using Equal_kind [OF VObject.prems(4)] by (cases v) auto
  obtain l where w: "w = VObject l" using Equal_kind [OF VObject.prems(5)] v by (cases w) auto
  from VObject.prems v w have wf: "mwf m" "mwf n" "mwf l" by simp_all
  note eqs = Equal_object [OF wf(1,2)] Equal_object [OF wf(2,3)] Equal_object [OF wf(1,3)]
  have through: "Equal x z" if "mget m k = Some x" "mget l k = Some z" for k x z
  proof -
    have m: "(k, x) \<in> set m" using that by (simp add: mget_in_set)
    have "k \<in> fst ` set n" using VObject.prems(4) that unfolding v eqs(1) key_mget by (metis key_mget)
    then obtain y where y: "mget n k = Some y" unfolding key_mget by blast
    have "Equal x y" using VObject.prems(4) that y unfolding v eqs(1) by blast
    moreover have "Equal y z" using VObject.prems(5) that y unfolding v w eqs(2) by blast
    moreover have "wfValue x" "wfValue y" "wfValue z" using VObject.prems(1-3) v w that y wf_member by blast+
    ultimately show ?thesis using VObject.IH [OF m, of x y z] by simp
  qed
  have "fst ` set m = fst ` set l" using VObject.prems(4,5) unfolding v w eqs by simp
  then show ?case unfolding w eqs(3) by (auto intro: through)
qed auto

subsection \<open>Conversion from Go values\<close>

text \<open>
  The dynamic types \<^verbatim>\<open>FromAny\<close> distinguishes. The signed and the unsigned integer types are one constructor each,
  a \<^verbatim>\<open>float64\<close> that is not finite is \<open>AFloat None\<close>, \<open>AStringMap\<close> is a \<^verbatim>\<open>map[string]string\<close>, which
  \<^verbatim>\<open>FromAny\<close> does not convert, and \<open>AOther\<close> is every type that is not listed.
\<close>

datatype goany =
    ANil
  | AValue pvalue
  | ABool bool
  | AString string
  | AJsonNumber string
  | AFloat "rat option"
  | AInt int
  | AUint nat
  | AList "goany list"
  | AValues "pvalue list"
  | AMap "(string \<times> goany) list"
  | AValueMap "(string \<times> pvalue) list"
  | AAnyMap "(goany \<times> goany) list"
  | AStringMap "(string \<times> string) list"
  | AOther

definition maxSafeInteger :: int where
  "maxSafeInteger = 2 ^ 53"

definition numberFromInt :: "int \<Rightarrow> gerror + pvalue" where
  "numberFromInt i =
     (if i > maxSafeInteger \<or> i < - maxSafeInteger then Inl PlainError else Number (roundF (of_int i)))"

definition numberFromUint :: "nat \<Rightarrow> gerror + pvalue" where
  "numberFromUint u = (if int u > maxSafeInteger then Inl PlainError else Number (roundF (of_nat u)))"

text \<open>
  A decimal literal: sign, whole part, fraction and exponent. The other spellings \<^verbatim>\<open>ParseFloat\<close> accepts
  cannot come from a JSON document.
\<close>

definition scanSign :: "string \<Rightarrow> bool \<times> string" where
  "scanSign s = (if hasPrefix s ''-'' then (True, tl s) else if hasPrefix s ''+'' then (False, tl s) else (False, s))"

definition scanExponent :: "string \<Rightarrow> int option" where
  "scanExponent s =
     (if s = '''' then Some 0
      else if hd s = CHR ''e'' \<or> hd s = CHR ''E'' then
        (let (neg, ds) = scanSign (tl s) in
         if ds = '''' \<or> \<not> list_all isDigit ds then None
         else Some (if neg then - digitsVal ds else digitsVal ds))
      else None)"

definition scanDecimal :: "string \<Rightarrow> rat option" where
  "scanDecimal s =
     (let (neg, t) = scanSign s; whole = takeWhile isDigit t; r1 = dropWhile isDigit t;
          dot = hasPrefix r1 ''.''; fraction = (if dot then takeWhile isDigit (tl r1) else '''');
          r2 = (if dot then dropWhile isDigit (tl r1) else r1) in
      if whole @ fraction = '''' then None
      else case scanExponent r2 of
        None \<Rightarrow> None
      | Some e \<Rightarrow> map_option (\<lambda>q. if neg then - q else q) (parseFloat whole fraction e))"

definition numberFromString :: "string \<Rightarrow> gerror + pvalue" where
  "numberFromString s =
     (let (neg, ds) = scanSign s; i = (if neg then - digitsVal ds else digitsVal ds) in
      if \<not> containsAny s ''.eE'' \<and> ds \<noteq> '''' \<and> list_all isDigit ds \<and> (i > maxSafeInteger \<or> i < - maxSafeInteger)
      then Inl PlainError
      else case scanDecimal s of None \<Rightarrow> Inl PlainError | Some n \<Rightarrow> Number (Some n))"

text \<open>Elements in order, stopping at the first error.\<close>

primrec mapResult :: "('a \<Rightarrow> 'e + 'b) \<Rightarrow> 'a list \<Rightarrow> 'e + 'b list" where
  "mapResult f [] = Inr []"
| "mapResult f (x # xs) = andThen (f x) (\<lambda>y. andThen (mapResult f xs) (\<lambda>ys. Inr (y # ys)))"

lemma mapResult_cong [fundef_cong]:
  "xs = ys \<Longrightarrow> (\<And>x. x \<in> set ys \<Longrightarrow> f x = g x) \<Longrightarrow> mapResult f xs = mapResult g ys"
  by (induction ys arbitrary: xs) auto

lemma mapResult_Inr:
  "mapResult f xs = Inr ys \<longleftrightarrow> length ys = length xs \<and> (\<forall>i<length xs. f (xs ! i) = Inr (ys ! i))"
proof (induction xs arbitrary: ys)
  case (Cons x xs)
  have "(\<forall>i<Suc (length xs). f ((x # xs) ! i) = Inr (ys ! i)) \<longleftrightarrow>
      f x = Inr (ys ! 0) \<and> (\<forall>i<length xs. f (xs ! i) = Inr (ys ! Suc i))" for ys
    by (simp add: All_less_Suc2)
  with Cons.IH show ?case by (cases ys) (auto simp: andThen_Inr_conv)
qed auto

function (sequential) FromAny :: "goany \<Rightarrow> gerror + pvalue" where
  "FromAny ANil = Inr VNull"
| "FromAny (AValue v) = Inr v"
| "FromAny (ABool b) = Inr (VBool b)"
| "FromAny (AString s) = NewString s"
| "FromAny (AJsonNumber s) = numberFromString s"
| "FromAny (AFloat f) = Number f"
| "FromAny (AInt i) = numberFromInt i"
| "FromAny (AUint u) = numberFromUint u"
| "FromAny (AList xs) = andThen (mapResult FromAny xs) (\<lambda>vs. Inr (VArray vs))"
| "FromAny (AValues vs) = Inr (VArray vs)"
| "FromAny (AMap m) = andThen (mapResult (\<lambda>p. andThen (FromAny (snd p)) (\<lambda>v. Inr (fst p, v))) m) (\<lambda>vs. Inr (VObject vs))"
| "FromAny (AValueMap m) = Inr (VObject m)"
| "FromAny (AAnyMap m) = andThen (mapResult (\<lambda>p. case fst p of
       AString k \<Rightarrow> andThen (FromAny (snd p)) (\<lambda>v. Inr (k, v)) | _ \<Rightarrow> Inl PlainError) m) (\<lambda>vs. Inr (VObject vs))"
| "FromAny (AStringMap m) = Inl PlainError"
| "FromAny AOther = Inl PlainError"
  by pat_completeness auto
termination
proof (relation "measure size", goal_cases)
  case 1
  show ?case by simp
next
  case (2 xs x)
  then show ?case by (auto simp: less_Suc_eq_le dest: size_list_estimation')
next
  case (3 m p)
  have "size (snd p) \<le> size_list (size_prod (\<lambda>x. 0) size) m"
    by (rule size_list_estimation' [OF 3]) (cases p, simp)
  then show ?case by simp
next
  case (4 m p k)
  have "size (snd p) \<le> size_list (size_prod size size) m"
    by (rule size_list_estimation' [OF 4(1)]) (cases p, simp)
  then show ?case by simp
qed

text \<open>A Go value whose maps have distinct keys and whose embedded values are well formed.\<close>

fun wfAny :: "goany \<Rightarrow> bool" where
  "wfAny (AValue v) = wfValue v"
| "wfAny (AList xs) = list_all wfAny xs"
| "wfAny (AValues vs) = list_all wfValue vs"
| "wfAny (AMap m) = (mwf m \<and> list_all (\<lambda>p. wfAny (snd p)) m)"
| "wfAny (AValueMap m) = wfValue (VObject m)"
| "wfAny (AAnyMap m) = (distinct (map fst m) \<and> list_all (\<lambda>p. wfAny (snd p)) m)"
| "wfAny _ = True"

lemma mapResult_all:
  assumes "mapResult f xs = Inr ys" and "\<And>x y. x \<in> set xs \<Longrightarrow> f x = Inr y \<Longrightarrow> P x y"
  shows "list_all2 P xs ys"
  using assms by (auto simp: mapResult_Inr list_all2_conv_all_nth)

lemma number_wf: "Number f = Inr v \<Longrightarrow> wfValue v"
  by (auto simp: Number_def split: option.splits)

lemma newString_wf: "NewString s = Inr v \<Longrightarrow> v = VString s \<and> validString s"
  by (auto simp: NewString_def split: if_splits)

lemma object_wf:
  assumes "list_all2 (\<lambda>p q. fst p = fst q \<and> wfValue (snd q)) m vs" and "mwf m"
  shows "wfValue (VObject vs)"
proof -
  have "map fst m = map fst vs" using assms(1) by (auto simp: list_all2_conv_all_nth intro: nth_equalityI)
  with assms(2) have "mwf vs" by (simp add: mwf_def)
  with assms(1) show ?thesis by (auto simp: list_all2_conv_all_nth list_all_length)
qed

lemma FromAny_wf: "wfAny x \<Longrightarrow> FromAny x = Inr v \<Longrightarrow> wfValue v"
proof (induction x arbitrary: v rule: FromAny.induct)
  case (4 s)
  then show ?case using newString_wf by fastforce
next
  case (9 xs)
  then obtain vs where vs: "mapResult FromAny xs = Inr vs" "v = VArray vs" by (auto simp: andThen_Inr_conv)
  have "list_all2 (\<lambda>_. wfValue) xs vs" by (rule mapResult_all [OF vs(1)]) (use 9 in \<open>auto simp: list_all_iff\<close>)
  with vs(2) show ?case by (auto simp: list_all2_conv_all_nth list_all_length)
next
  case (11 m)
  then obtain vs where vs: "mapResult (\<lambda>p. andThen (FromAny (snd p)) (\<lambda>v. Inr (fst p, v))) m = Inr vs" "v = VObject vs"
    by (auto simp: andThen_Inr_conv)
  have "list_all2 (\<lambda>p q. fst p = fst q \<and> wfValue (snd q)) m vs"
    by (rule mapResult_all [OF vs(1)]) (use 11 in \<open>auto simp: list_all_iff andThen_Inr_conv\<close>)
  from object_wf [OF this] vs(2) 11(2) show ?case by simp
next
  case (13 m)
  let ?f = "\<lambda>p. case fst p of AString k \<Rightarrow> andThen (FromAny (snd p)) (\<lambda>v. Inr (k, v)) | _ \<Rightarrow> Inl PlainError"
  from 13 obtain vs where vs: "mapResult ?f m = Inr vs" "v = VObject vs" by (auto simp: andThen_Inr_conv)
  have each: "list_all2 (\<lambda>p q. fst p = AString (fst q) \<and> wfValue (snd q)) m vs"
    by (rule mapResult_all [OF vs(1)]) (use 13 in \<open>auto simp: list_all_iff andThen_Inr_conv split: goany.splits\<close>)
  then have "map fst m = map (AString \<circ> fst) vs" by (auto simp: list_all2_conv_all_nth intro: nth_equalityI)
  with 13(2) have "mwf vs" by (simp add: mwf_def distinct_map comp_def inj_on_def)
  with each vs(2) show ?case by (auto simp: list_all2_conv_all_nth list_all_length)
qed (auto dest: number_wf simp: numberFromString_def numberFromInt_def numberFromUint_def Let_def
    split: if_splits option.splits prod.splits)

end
