(* ===== verification/Gdp.thy ===== *)
theory Gdp
  imports Pjvm
begin

section \<open>Dotted paths\<close>

text \<open>
  \<^verbatim>\<open>runtime/pkg/gdp/path.go\<close>: resolution of a parsed path against a tree of values. Source spans and the capture
  metadata of a path play no part in it.
\<close>

datatype dialect = DialectGXL | DialectGCP

datatype hop = HopName string | HopIndex int

record segment =
  sg_Hop :: hop
  sg_Optional :: bool

record path =
  pt_Dialect :: dialect
  pt_Root :: string
  pt_Segments :: "segment list"

datatype miss_kind = FieldMissing | FieldType | IndexRange | IndexType

fun resolveCode :: "dialect \<Rightarrow> miss_kind \<Rightarrow> string" where
  "resolveCode DialectGCP IndexRange = ''GCP-RESOLVE-003''"
| "resolveCode DialectGCP _ = ''GCP-RESOLVE-002''"
| "resolveCode DialectGXL IndexRange = ''GXL-PATH-002''"
| "resolveCode DialectGXL IndexType = ''GXL-PATH-003''"
| "resolveCode DialectGXL FieldType = ''GXL-PATH-004''"
| "resolveCode DialectGXL FieldMissing = ''GXL-PATH-001''"

definition missError :: "dialect \<Rightarrow> gerror" where
  "missError d = Missing (resolveCode d FieldMissing)"

definition fieldTypeError :: "dialect \<Rightarrow> gerror" where
  "fieldTypeError d = Code (resolveCode d FieldType)"

definition indexError :: "dialect \<Rightarrow> pkind \<Rightarrow> gerror" where
  "indexError d k =
     (let code = resolveCode d (if d = DialectGXL \<and> k \<noteq> KindArray then IndexType else IndexRange) in
      if k = KindArray then Missing code else Code code)"

definition resolveSegment :: "dialect \<Rightarrow> pvalue \<Rightarrow> segment \<Rightarrow> gerror + pvalue" where
  "resolveSegment d cur seg =
     (case sg_Hop seg of
        HopIndex i \<Rightarrow>
          (case ArrayValue cur of
             None \<Rightarrow> Inl (indexError d (kindOf cur))
           | Some arr \<Rightarrow>
               if i < 0 \<or> i \<ge> int (length arr) then Inl (indexError d (kindOf cur)) else Inr (arr ! nat i))
      | HopName name \<Rightarrow>
          if kindOf cur = KindNull \<and> sg_Optional seg then Inl (Code (resolveCode d FieldMissing))
          else
            (case ObjectValue cur of
               None \<Rightarrow> Inl (fieldTypeError d)
             | Some obj \<Rightarrow> (case mget obj name of None \<Rightarrow> Inl (missError d) | Some v \<Rightarrow> Inr v)))"

fun errCode :: "gerror \<Rightarrow> string" where
  "errCode (Code c) = c"
| "errCode (Missing c) = c"
| "errCode PlainError = ''''"

definition isOptionalMiss :: "gerror \<Rightarrow> bool" where
  "isOptionalMiss e = (errCode e \<in> set [''GXL-PATH-001'', ''GXL-PATH-002'', ''GXL-PATH-003'', ''GCP-RESOLVE-002'', ''GCP-RESOLVE-003''])"

text \<open>\<open>Inr None\<close> is a path that was not found because of an optional segment.\<close>

fun resolveSegments :: "dialect \<Rightarrow> bool \<Rightarrow> pvalue \<Rightarrow> segment list \<Rightarrow> gerror + pvalue option" where
  "resolveSegments d allowOptional cur [] = Inr (Some cur)"
| "resolveSegments d allowOptional cur (seg # segs) =
     (case resolveSegment d cur seg of
        Inl e \<Rightarrow> if allowOptional \<and> sg_Optional seg \<and> isOptionalMiss e then Inr None else Inl e
      | Inr next \<Rightarrow> resolveSegments d allowOptional next segs)"

definition resolve :: "pvalue \<Rightarrow> path \<Rightarrow> bool \<Rightarrow> gerror + pvalue option" where
  "resolve tree p allowOptional =
     (let d = pt_Dialect p; segs = pt_Segments p in
      if pt_Root p = '''' then resolveSegments d allowOptional tree segs
      else
        (case ObjectValue tree of
           None \<Rightarrow> Inl (fieldTypeError d)
         | Some obj \<Rightarrow>
             (case mget obj (pt_Root p) of
                None \<Rightarrow> if allowOptional \<and> segs \<noteq> [] \<and> sg_Optional (hd segs) then Inr None else Inl (missError d)
              | Some v \<Rightarrow> resolveSegments d allowOptional v segs)))"

definition Resolve :: "pvalue \<Rightarrow> path \<Rightarrow> gerror + pvalue" where
  "Resolve tree p =
     (case resolve tree p False of
        Inl e \<Rightarrow> Inl e
      | Inr None \<Rightarrow> Inl (missError (pt_Dialect p))
      | Inr (Some v) \<Rightarrow> Inr v)"

definition ResolveOptional :: "pvalue \<Rightarrow> path \<Rightarrow> gerror + pvalue option" where
  "ResolveOptional tree p = resolve tree p True"

subsection \<open>Facts\<close>

lemma resolveSegments_strict: "resolveSegments d False cur segs \<noteq> Inr None"
  by (induction segs arbitrary: cur) (auto split: sum.splits)

lemma resolveSegments_agree:
  "resolveSegments d False cur segs = Inr (Some v) \<Longrightarrow> resolveSegments d True cur segs = Inr (Some v)"
  by (induction segs arbitrary: cur) (auto split: sum.splits)

lemma resolveSegments_optional:
  "resolveSegments d True cur segs = Inr (Some v) \<Longrightarrow> resolveSegments d False cur segs = Inr (Some v)"
  by (induction segs arbitrary: cur) (auto split: sum.splits if_splits)

lemma resolveSegment_wf: "wfValue cur \<Longrightarrow> resolveSegment d cur seg = Inr v \<Longrightarrow> wfValue v"
  by (cases cur; cases "sg_Hop seg")
    (auto simp: resolveSegment_def list_all_iff Let_def dest!: mget_in_set split: if_splits option.splits)

lemma resolveSegments_wf: "wfValue cur \<Longrightarrow> resolveSegments d b cur segs = Inr (Some v) \<Longrightarrow> wfValue v"
proof (induction segs arbitrary: cur)
  case (Cons seg segs)
  show ?case
  proof (cases "resolveSegment d cur seg")
    case (Inl e)
    with Cons.prems(2) show ?thesis by (simp split: if_split_asm)
  next
    case (Inr w)
    with Cons.prems(2) have "resolveSegments d b w segs = Inr (Some v)" by simp
    with Cons.IH [OF resolveSegment_wf [OF Cons.prems(1) Inr]] show ?thesis .
  qed
qed simp

text \<open>Resolution reaches the segments from a value of the tree, or fails at the root.\<close>

lemma resolve_cases:
  obtains (start) cur where "\<And>b. resolve tree p b = resolveSegments (pt_Dialect p) b cur (pt_Segments p)"
      "wfValue tree \<longrightarrow> wfValue cur"
  | (miss) "\<And>b. resolve tree p b =
      (if b \<and> pt_Segments p \<noteq> [] \<and> sg_Optional (hd (pt_Segments p)) then Inr None else Inl (missError (pt_Dialect p)))"
  | (wrong) "\<And>b. resolve tree p b = Inl (fieldTypeError (pt_Dialect p))"
proof (cases "pt_Root p = ''''")
  case True
  then show ?thesis by (intro start [of tree]) (simp_all add: resolve_def)
next
  case False
  show ?thesis
  proof (cases "ObjectValue tree")
    case None
    with False show ?thesis by (intro wrong) (simp add: resolve_def)
  next
    case (Some obj)
    show ?thesis
    proof (cases "mget obj (pt_Root p)")
      case None
      with False Some show ?thesis by (intro miss) (simp add: resolve_def Let_def)
    next
      case member: (Some v)
      from Some have "tree = VObject obj" by (cases tree) simp_all
      with member have "wfValue tree \<longrightarrow> wfValue v" using wf_member by blast
      with False Some member show ?thesis by (intro start [of v]) (simp_all add: resolve_def)
    qed
  qed
qed

lemma resolve_wf: "wfValue tree \<Longrightarrow> resolve tree p b = Inr (Some v) \<Longrightarrow> wfValue v"
  by (rule resolve_cases [of tree p]) (auto split: if_split_asm intro: resolveSegments_wf)

lemma resolveSegments_error:
  "resolveSegments d False cur segs = Inl e \<Longrightarrow>
     resolveSegments d True cur segs = Inl e \<or> resolveSegments d True cur segs = Inr None \<and> (\<exists>s\<in>set segs. sg_Optional s)"
  by (induction segs arbitrary: cur) (auto split: sum.splits if_splits)


end
