(* ===== verification/Gxl_Lexer.thy ===== *)
theory Gxl_Lexer
  imports Gdp
begin

section \<open>The lexer of the expression language\<close>

text \<open>
  \<^verbatim>\<open>runtime/pkg/gxl/parser/lexer.go\<close> and \<^verbatim>\<open>token.go\<close>. The lexer reads the runes of its source, and its state is what is
  left of them. Positions, which only messages and spans use, and the text of a string token are left out. A list
  of tokens ends where the code has \<^verbatim>\<open>tokEOF\<close>.
\<close>

subsection \<open>Tokens\<close>

datatype tokenKind =
    tokEOF | tokIdent | tokKeyword | tokString | tokNumber | tokLParen | tokRParen | tokComma | tokDot
  | tokOptionalDot | tokOptionalBracket | tokLBracket | tokRBracket | tokEq | tokNeq | tokLTE | tokGTE | tokLT
  | tokGT | tokPlus | tokMinus | tokStar | tokSlash | tokPercent

datatype tokenValue = NoValue | StringVal string | NumberVal rat

record token =
  tk_kind :: tokenKind
  tk_lit :: string
  tk_value :: tokenValue

definition plainToken :: "tokenKind \<Rightarrow> string \<Rightarrow> token" where
  "plainToken k lit = \<lparr>tk_kind = k, tk_lit = lit, tk_value = NoValue\<rparr>"

definition isKeyword :: "string \<Rightarrow> bool" where
  "isKeyword s = (s \<in> set [''true'', ''false'', ''null'', ''and'', ''or'', ''not'', ''len'', ''now'', ''str'', ''list'', ''regex'', ''math''])"

subsection \<open>Runes\<close>

type_synonym rune = nat

definition isIdentStart :: "rune \<Rightarrow> bool" where
  "isIdentStart r = (97 \<le> r \<and> r \<le> 122 \<or> 65 \<le> r \<and> r \<le> 90 \<or> r = 95)"

definition isDec :: "rune \<Rightarrow> bool" where
  "isDec r = (48 \<le> r \<and> r \<le> 57)"

definition isIdentCont :: "rune \<Rightarrow> bool" where
  "isIdentCont r = (isIdentStart r \<or> isDec r)"

definition isHexRune :: "rune \<Rightarrow> bool" where
  "isHexRune r = (isDec r \<or> 97 \<le> r \<and> r \<le> 102 \<or> 65 \<le> r \<and> r \<le> 70)"

text \<open>\<^verbatim>\<open>lexer.advance\<close>: a carriage return takes a following line feed with it.\<close>

fun advanceRune :: "rune list \<Rightarrow> rune list" where
  "advanceRune [] = []"
| "advanceRune (r # rs) = (if r = 13 \<and> rs \<noteq> [] \<and> hd rs = 10 then tl rs else rs)"

lemma advanceRune_shorter: "length (advanceRune (r # rs)) < length (r # rs)"
  by (cases rs) simp_all

text \<open>White space and comments; the number of comments counts towards the limit of the bounded parser.\<close>

function skipSpaceAndComments :: "rune list \<Rightarrow> nat \<times> rune list" where
  "skipSpaceAndComments [] = (0, [])"
| "skipSpaceAndComments (r # rs) =
     (if r = 32 \<or> r = 9 \<or> r = 10 \<or> r = 13 then skipSpaceAndComments (advanceRune (r # rs))
      else if r = 35 then
        (let (n, rest) = skipSpaceAndComments (dropWhile (\<lambda>r. r \<noteq> 10 \<and> r \<noteq> 13) rs) in (Suc n, rest))
      else (0, r # rs))"
  by pat_completeness auto
termination
  by (relation "measure length") (use advanceRune_shorter in \<open>auto simp: less_Suc_eq_le length_dropWhile_le simp del: advanceRune.simps\<close>)

subsection \<open>The tokens of each class\<close>

text \<open>The runes of identifiers, numbers and symbols are ASCII, so that a rune is a byte of the literal.\<close>

definition litOf :: "rune list \<Rightarrow> string" where
  "litOf rs = map char_of rs"

definition lexIdent :: "rune list \<Rightarrow> token \<times> rune list" where
  "lexIdent rs =
     (let lit = litOf (takeWhile isIdentCont rs) in
      (plainToken (if isKeyword lit then tokKeyword else tokIdent) lit, dropWhile isIdentCont rs))"

definition lexFraction :: "rune list \<Rightarrow> gerror + rune list \<times> rune list" where
  "lexFraction rs =
     (if rs \<noteq> [] \<and> hd rs = 46 then
        (if tl rs = [] \<or> \<not> isDec (hd (tl rs)) then Inl (Code ''GXL-PARSE-003'')
         else Inr (46 # takeWhile isDec (tl rs), dropWhile isDec (tl rs)))
      else Inr ([], rs))"

definition lexExponent :: "rune list \<Rightarrow> gerror + rune list \<times> rune list" where
  "lexExponent rs =
     (if rs \<noteq> [] \<and> (hd rs = 101 \<or> hd rs = 69) then
        (let r1 = tl rs; signed = r1 \<noteq> [] \<and> (hd r1 = 43 \<or> hd r1 = 45); r2 = (if signed then tl r1 else r1) in
         if r2 = [] \<or> \<not> isDec (hd r2) then Inl (Code ''GXL-PARSE-003'')
         else Inr (hd rs # (if signed then [hd r1] else []) @ takeWhile isDec r2, dropWhile isDec r2))
      else Inr ([], rs))"

text \<open>The first rune is a digit. \<^verbatim>\<open>strconv.ParseFloat\<close> fails on a literal out of the range of \<^verbatim>\<open>float64\<close>.\<close>

definition lexNumber :: "rune list \<Rightarrow> gerror + token \<times> rune list" where
  "lexNumber rs =
     (let first = hd rs; r1 = tl rs in
      if first = 48 \<and> r1 \<noteq> [] \<and> isDec (hd r1) then Inl (Code ''GXL-PARSE-003'')
      else if first = 48 \<and> r1 \<noteq> [] \<and> hd r1 \<in> set [120, 88, 111, 79, 98, 66] then Inl (Code ''GXL-PARSE-003'')
      else
        let whole = (if first = 48 then [] else takeWhile isDec r1);
            r2 = (if first = 48 then r1 else dropWhile isDec r1) in
        andThen (lexFraction r2) (\<lambda>(fraction, r3).
        andThen (lexExponent r3) (\<lambda>(expo, r4).
        let lit = litOf (first # whole @ fraction @ expo) in
        case scanDecimal lit of
          None \<Rightarrow> Inl (Code ''GXL-PARSE-003'')
        | Some v \<Rightarrow> Inr (\<lparr>tk_kind = tokNumber, tk_lit = lit, tk_value = NumberVal v\<rparr>, r4))))"

definition hexDigit :: "rune \<Rightarrow> nat" where
  "hexDigit r = (if isDec r then r - 48 else if 97 \<le> r then r - 87 else r - 55)"

text \<open>\<^verbatim>\<open>strconv.ParseInt(_, 16, 32)\<close> fails on what does not fit 32 bits with sign.\<close>

definition readHexRune :: "nat \<Rightarrow> rune list \<Rightarrow> gerror + rune \<times> rune list" where
  "readHexRune n rs =
     (if length rs < n \<or> \<not> list_all isHexRune (take n rs) then Inl (Code ''GXL-PARSE-004'')
      else
        let v = foldl (\<lambda>a r. 16 * a + hexDigit r) 0 (take n rs) in
        if v \<ge> 2 ^ 31 \<or> \<not> validRune v then Inl (Code ''GXL-PARSE-004'') else Inr (v, drop n rs))"

lemma readHexRune_rest: "readHexRune n rs = Inr (v, rest) \<Longrightarrow> rest = drop n rs \<and> validRune v"
  by (auto simp: readHexRune_def Let_def split: if_splits)

text \<open>The rune an escape sequence stands for, from behind the backslash.\<close>

definition lexEscape :: "rune list \<Rightarrow> gerror + rune \<times> rune list" where
  "lexEscape rs =
     (if rs = [] then Inl (Code ''GXL-PARSE-002'')
      else
        let esc = hd rs; rest = advanceRune rs in
        if esc = 92 \<or> esc = 34 \<or> esc = 39 then Inr (esc, rest)
        else if esc = 110 then Inr (10, rest)
        else if esc = 114 then Inr (13, rest)
        else if esc = 116 then Inr (9, rest)
        else if esc = 48 then Inr (0, rest)
        else if esc = 117 then readHexRune 4 rest
        else if esc = 85 then readHexRune 8 rest
        else Inl (Code ''GXL-PARSE-004''))"

lemma advanceRune_le: "length (advanceRune rs) \<le> length rs"
  by (cases rs) auto

lemma lexEscape_rest: "lexEscape rs = Inr (v, rest) \<Longrightarrow> length rest \<le> length rs"
  using advanceRune_le [of rs] by (auto simp: lexEscape_def Let_def dest!: readHexRune_rest split: if_split_asm)

text \<open>The runes of a string behind its opening quote, up to and without the closing one.\<close>

function lexStringRunes :: "rune \<Rightarrow> rune list \<Rightarrow> gerror + rune list \<times> rune list" where
  "lexStringRunes quote [] = Inl (Code ''GXL-PARSE-002'')"
| "lexStringRunes quote (r # rs) =
     (let rest = advanceRune (r # rs) in
      if r = quote then Inr ([], rest)
      else if r = 10 \<or> r = 13 then Inl (Code ''GXL-PARSE-002'')
      else if r \<noteq> 92 then andThen (lexStringRunes quote rest) (\<lambda>(bs, rest'). Inr (r # bs, rest'))
      else
        case lexEscape rest of
          Inl e \<Rightarrow> Inl e
        | Inr (v, rest') \<Rightarrow> andThen (lexStringRunes quote rest') (\<lambda>(bs, rest''). Inr (v # bs, rest'')))"
  by pat_completeness auto
termination
proof (relation "measure (\<lambda>(q, rs). length rs)", goal_cases)
  case (3 quote r rs rest p v rest')
  then have "length rest' \<le> length rest" by (auto dest: lexEscape_rest)
  with 3 advanceRune_shorter [of r rs] show ?case by simp
qed (use advanceRune_shorter in \<open>auto simp del: advanceRune.simps\<close>)

definition lexString :: "rune list \<Rightarrow> gerror + token \<times> rune list" where
  "lexString rs =
     andThen (lexStringRunes (hd rs) (advanceRune rs)) (\<lambda>(bs, rest).
       Inr (\<lparr>tk_kind = tokString, tk_lit = '''', tk_value = StringVal (encodeRunes bs)\<rparr>, rest))"

definition runePrefix :: "rune list \<Rightarrow> string \<Rightarrow> bool" where
  "runePrefix rs s = (take (length s) rs = map of_char s)"

definition singleKind :: "rune \<Rightarrow> tokenKind option" where
  "singleKind r =
     map_of [(40, tokLParen), (41, tokRParen), (44, tokComma), (46, tokDot), (91, tokLBracket), (93, tokRBracket),
       (60, tokLT), (62, tokGT), (43, tokPlus), (45, tokMinus), (42, tokStar), (47, tokSlash), (37, tokPercent)] r"

definition lexSymbol :: "rune list \<Rightarrow> gerror + token \<times> rune list" where
  "lexSymbol rs =
     (if runePrefix rs ''?.['' then Inr (plainToken tokOptionalBracket ''?.['', drop 3 rs)
      else if runePrefix rs ''?.'' then Inr (plainToken tokOptionalDot ''?.'', drop 2 rs)
      else if runePrefix rs ''&&'' \<or> runePrefix rs ''||'' \<or> runePrefix rs '':='' then Inl (Code ''GXL-PARSE-007'')
      else if runePrefix rs ''=='' then Inr (plainToken tokEq ''=='', drop 2 rs)
      else if runePrefix rs ''!='' then Inr (plainToken tokNeq ''!='', drop 2 rs)
      else if runePrefix rs ''<='' then Inr (plainToken tokLTE ''<='', drop 2 rs)
      else if runePrefix rs ''>='' then Inr (plainToken tokGTE ''>='', drop 2 rs)
      else
        case singleKind (hd rs) of
          Some k \<Rightarrow> Inr (plainToken k (litOf [hd rs]), advanceRune rs)
        | None \<Rightarrow>
            if hd rs \<in> set [33, 124, 63, 58, 61, 123, 125] then Inl (Code ''GXL-PARSE-007'')
            else Inl (Code ''GXL-PARSE-001''))"

definition lexToken :: "rune list \<Rightarrow> gerror + token \<times> rune list" where
  "lexToken rs =
     (let r = hd rs in
      if isIdentStart r then Inr (lexIdent rs)
      else if isDec r then lexNumber rs
      else if r = 34 \<or> r = 39 then lexString rs
      else lexSymbol rs)"

subsection \<open>Every token consumes source\<close>

lemma lexFraction_rest: "lexFraction rs = Inr (x, rest) \<Longrightarrow> length rest \<le> length rs"
  by (cases rs) (auto simp: lexFraction_def length_dropWhile_le le_SucI split: if_splits)

lemma lexExponent_rest: "lexExponent rs = Inr (x, rest) \<Longrightarrow> length rest \<le> length rs"
proof (cases rs)
  case (Cons r r1)
  assume "lexExponent rs = Inr (x, rest)"
  with Cons have "rest = rs \<or> (\<exists>r2. rest = dropWhile isDec r2 \<and> (r2 = r1 \<or> r2 = tl r1))"
    by (auto simp: lexExponent_def Let_def split: if_split_asm)
  moreover have "length (dropWhile isDec r2) \<le> length r1" if "r2 = r1 \<or> r2 = tl r1" for r2
    using length_dropWhile_le [of isDec r2] that by auto
  ultimately show ?thesis using Cons by fastforce
qed (simp add: lexExponent_def)

lemma lexNumber_rest:
  assumes "lexNumber (r # rs) = Inr (t, rest)"
  shows "length rest \<le> length rs"
proof -
  let ?r2 = "if r = 48 then rs else dropWhile isDec rs"
  from assms obtain f r3 e r4 where steps: "lexFraction ?r2 = Inr (f, r3)" "lexExponent r3 = Inr (e, r4)" "rest = r4"
    unfolding lexNumber_def Let_def list.sel
    by (auto simp: andThen_Inr_conv split: if_split_asm option.splits)
  have "length ?r2 \<le> length rs" by (simp add: length_dropWhile_le)
  with lexFraction_rest [OF steps(1)] lexExponent_rest [OF steps(2)] steps(3) show ?thesis by (metis order_trans)
qed

lemma lexStringRunes_rest: "lexStringRunes q rs = Inr (bs, rest) \<Longrightarrow> length rest \<le> length rs"
proof (induction q rs arbitrary: bs rest rule: lexStringRunes.induct)
  case (2 quote r rs)
  let ?rest = "advanceRune (r # rs)"
  have le: "length ?rest \<le> length (r # rs)" by (rule advanceRune_le)
  show ?case
  proof (cases "r = quote \<or> r = 10 \<or> r = 13")
    case True
    with 2(3) le show ?thesis by (auto simp: Let_def simp del: advanceRune.simps split: if_split_asm)
  next
    case False
    show ?thesis
    proof (cases "r = 92")
      case esc: True
      with 2(3) False obtain v rest' bs' where step: "lexEscape ?rest = Inr (v, rest')"
          "lexStringRunes quote rest' = Inr (bs', rest)"
        by (auto simp: Let_def andThen_Inr_conv simp del: advanceRune.simps split: sum.splits)
      have "length rest \<le> length rest'" using 2(2) [OF refl _ _ _ step(1) refl step(2)] False esc by blast
      with lexEscape_rest [OF step(1)] le show ?thesis by linarith
    next
      case plain: False
      with 2(3) False obtain bs' where step: "lexStringRunes quote ?rest = Inr (bs', rest)"
        by (auto simp: Let_def andThen_Inr_conv simp del: advanceRune.simps)
      have "length rest \<le> length ?rest" using 2(1) [OF refl _ _ plain step] False by blast
      with le show ?thesis by linarith
    qed
  qed
qed simp

lemma lexSymbol_rest: "lexSymbol (r # rs) = Inr (t, rest) \<Longrightarrow> length rest \<le> length rs"
  using advanceRune_shorter [of r rs]
  by (auto simp: lexSymbol_def less_Suc_eq_le simp del: advanceRune.simps split: if_split_asm option.splits)

lemma lexToken_shorter:
  assumes "lexToken rs = Inr (t, rest)" and "rs \<noteq> []"
  shows "length rest < length rs"
proof (cases rs)
  case (Cons r rs')
  have ident: "length (dropWhile isIdentCont rs) \<le> length rs'" if "isIdentStart r"
    using that Cons length_dropWhile_le [of isIdentCont rs'] by (simp add: isIdentCont_def)
  have str: "length rest \<le> length rs'" if "lexString rs = Inr (t, rest)"
    using that Cons advanceRune_shorter [of r rs'] lexStringRunes_rest [of r "advanceRune (r # rs')"]
    by (fastforce simp: lexString_def andThen_Inr_conv simp del: advanceRune.simps)
  show ?thesis
    using assms(1) Cons ident str lexNumber_rest [of r rs' t rest] lexSymbol_rest [of r rs' t rest]
    by (auto simp: lexToken_def lexIdent_def Let_def less_Suc_eq_le split: if_split_asm)
qed (use assms(2) in simp)

lemma skip_le: "length (snd (skipSpaceAndComments rs)) \<le> length rs"
proof (induction rs rule: skipSpaceAndComments.induct)
  case (2 r rs)
  show ?case
    using 2 advanceRune_shorter [of r rs] length_dropWhile_le [of "\<lambda>r. r \<noteq> 10 \<and> r \<noteq> 13" rs]
    by (auto simp: split_beta simp del: advanceRune.simps)
qed simp

subsection \<open>The scan loop\<close>

lemma scan_decreases:
  assumes "skipSpaceAndComments rs = (n, r # rest)" and "lexToken (r # rest) = Inr (t, rest')"
  shows "length rest' < length rs"
  using skip_le [of rs] lexToken_shorter [OF assms(2)] assms(1) by simp

text \<open>
  \<^verbatim>\<open>lexer.scan\<close> with the numbers of tokens and comments so far; a limit of zero is no limit. Outside the
  bounded parser comments are not counted, and there the limit is zero.
\<close>

function scan :: "nat \<Rightarrow> nat \<Rightarrow> nat \<Rightarrow> rune list \<Rightarrow> gerror + token list" where
  "scan limit tokens comments rs =
     (if 0 < limit \<and> limit \<le> tokens + comments then Inl PlainError
      else
        case skipSpaceAndComments rs of
          (n, []) \<Rightarrow> Inr []
        | (n, r # rest) \<Rightarrow>
            (case lexToken (r # rest) of
               Inl e \<Rightarrow> Inl e
             | Inr (t, rest') \<Rightarrow> andThen (scan limit (Suc tokens) (comments + n) rest') (\<lambda>ts. Inr (t # ts))))"
  by pat_completeness auto
termination
  by (relation "measure (\<lambda>(l, t, c, rs). length rs)") (auto intro: scan_decreases [OF sym sym])

definition lex :: "string \<Rightarrow> gerror + token list" where
  "lex src = scan 0 0 0 (runes src)"

end
