(* ===== verification/Gxl_Parser.thy ===== *)
theory Gxl_Parser
  imports Gxl_Lexer
begin

section \<open>The parser of the expression language\<close>

text \<open>
  \<^verbatim>\<open>runtime/pkg/gxl/parser/parser.go\<close>, \<^verbatim>\<open>ast.go\<close>, \<^verbatim>\<open>ordering.go\<close> and \<^verbatim>\<open>runtime/pkg/gxl/functions/registry.go\<close>. The state of
  the parser is the list of tokens from its position on; the end of the list is \<^verbatim>\<open>tokEOF\<close>, which
  \<^verbatim>\<open>advance\<close> does not pass. Spans and the texts of literals are left out.
\<close>

subsection \<open>Syntax trees\<close>

datatype litValue = LitNull | LitBool bool | LitString string | LitNumber rat

record pathSegment =
  ps_Name :: string
  ps_Index :: "int option"
  ps_Optional :: bool

datatype node =
    Literal litValue
  | PathRef string "pathSegment list"
  | Group node
  | UnaryOp string node
  | BinaryOp string node node
  | Call string string "node list"

subsection \<open>The registry of functions\<close>

definition definitions :: "string list" where
  "definitions =
     [''len'', ''now'', ''str.startsWith'', ''str.endsWith'', ''str.contains'', ''str.toLower'', ''str.toUpper'', ''str.trim'',
      ''str.length'', ''str.trimPrefix'', ''str.trimSuffix'', ''list.contains'', ''list.indexOf'', ''list.length'', ''list.order'',
      ''regex.match'', ''date.compare'', ''date.diffSeconds'']"

definition Lookup :: "string \<Rightarrow> bool" where
  "Lookup name = (name \<in> set definitions)"

definition Namespace :: "string \<Rightarrow> bool" where
  "Namespace name = list_ex (\<lambda>d. hasPrefix d (name @ ''.'')) definitions"

definition knownMethod :: "string \<Rightarrow> string \<Rightarrow> bool" where
  "knownMethod ns method = Lookup (ns @ ''.'' @ method)"

subsection \<open>Looking at tokens\<close>

type_synonym parse = "token list \<Rightarrow> gerror + node \<times> token list"

definition eofToken :: token where
  "eofToken = plainToken tokEOF ''''"

definition peekN :: "token list \<Rightarrow> nat \<Rightarrow> token" where
  "peekN ts n = (if n < length ts then ts ! n else eofToken)"

abbreviation peek :: "token list \<Rightarrow> token" where
  "peek ts \<equiv> peekN ts 0"

abbreviation peekKind :: "token list \<Rightarrow> tokenKind" where
  "peekKind ts \<equiv> tk_kind (peek ts)"

definition isKeywordToken :: "string \<Rightarrow> token \<Rightarrow> bool" where
  "isKeywordToken lit t = (tk_kind t = tokKeyword \<and> tk_lit t = lit)"

definition isComp :: "tokenKind \<Rightarrow> bool" where
  "isComp k = (k \<in> set [tokEq, tokNeq, tokLT, tokLTE, tokGT, tokGTE])"

definition isWord :: "tokenKind \<Rightarrow> bool" where
  "isWord k = (k = tokIdent \<or> k = tokKeyword)"

definition isForbiddenInfix :: "token \<Rightarrow> bool" where
  "isForbiddenInfix t = (isWord (tk_kind t) \<and> tk_lit t \<in> set [''contains'', ''startsWith'', ''matches'', ''in''])"

definition hasNumberFraction :: "string \<Rightarrow> bool" where
  "hasNumberFraction s = list_ex (\<lambda>c. c \<in> set ''.eE'') s"

definition looksLikeUnknownNamespaceCall :: "token list \<Rightarrow> bool" where
  "looksLikeUnknownNamespaceCall ts =
     (isWord (peekKind ts) \<and> tk_kind (peekN ts 1) = tokDot \<and> isWord (tk_kind (peekN ts 2)) \<and>
      tk_kind (peekN ts 3) = tokLParen \<and> \<not> Namespace (tk_lit (peek ts)))"

text \<open>\<^verbatim>\<open>strconv.Atoi\<close> on digits, whose error is ignored: the largest \<^verbatim>\<open>int\<close> stands for what does not fit.\<close>

definition indexOfLit :: "string \<Rightarrow> int" where
  "indexOfLit lit = min (digitsVal lit) (2 ^ 63 - 1)"

subsection \<open>Paths, literals and arguments\<close>

fun pathSegments :: "token list \<Rightarrow> gerror + pathSegment list \<times> token list" where
  "pathSegments [] = Inr ([], [])"
| "pathSegments (t # ts) =
     (if tk_kind t = tokDot \<or> tk_kind t = tokOptionalDot then
        (case ts of
           [] \<Rightarrow> Inl (Code ''GXL-PARSE-001'')
         | seg # rest \<Rightarrow>
             if tk_kind seg = tokKeyword then Inl (Code ''GXL-PARSE-010'')
             else if tk_kind seg \<noteq> tokIdent then Inl (Code ''GXL-PARSE-001'')
             else
               andThen (pathSegments rest) (\<lambda>(segs, rest').
                 Inr (\<lparr>ps_Name = tk_lit seg, ps_Index = None, ps_Optional = (tk_kind t = tokOptionalDot)\<rparr> # segs, rest')))
      else if tk_kind t = tokLBracket \<or> tk_kind t = tokOptionalBracket then
        (case ts of
           [] \<Rightarrow> Inl (Code ''GXL-PARSE-001'')
         | idx # rest \<Rightarrow>
             if tk_kind idx = tokMinus then Inl (Code ''GXL-PARSE-007'')
             else if tk_kind idx \<noteq> tokNumber then Inl (Code ''GXL-PARSE-001'')
             else if hasNumberFraction (tk_lit idx) then Inl (Code ''GXL-PARSE-003'')
             else
               (case rest of
                  [] \<Rightarrow> Inl (Code ''GXL-PARSE-001'')
                | c # rest1 \<Rightarrow>
                    if tk_kind c \<noteq> tokRBracket then Inl (Code ''GXL-PARSE-001'')
                    else
                      andThen (pathSegments rest1) (\<lambda>(segs, rest').
                        Inr (\<lparr>ps_Name = '''', ps_Index = Some (indexOfLit (tk_lit idx)),
                              ps_Optional = (tk_kind t = tokOptionalBracket)\<rparr> # segs, rest'))))
      else Inr ([], t # ts))"

definition pathRef :: parse where
  "pathRef ts =
     (let root = peek ts in
      if tk_lit root = ''vars'' then Inl (Code ''GXL-PARSE-010'')
      else if tk_kind root = tokKeyword \<and> \<not> Namespace (tk_lit root) then Inl (Code ''GXL-PARSE-010'')
      else andThen (pathSegments (tl ts)) (\<lambda>(segs, rest). Inr (PathRef (tk_lit root) segs, rest)))"

definition literal :: parse where
  "literal ts =
     (let t = peek ts; rest = tl ts in
      if tk_kind t = tokString then
        Inr (Literal (LitString (case tk_value t of StringVal s \<Rightarrow> s | _ \<Rightarrow> '''')), rest)
      else if tk_kind t = tokNumber then
        Inr (Literal (LitNumber (case tk_value t of NumberVal n \<Rightarrow> n | _ \<Rightarrow> 0)), rest)
      else if isKeywordToken ''true'' t then Inr (Literal (LitBool True), rest)
      else if isKeywordToken ''false'' t then Inr (Literal (LitBool False), rest)
      else if isKeywordToken ''null'' t then Inr (Literal LitNull, rest)
      else Inl (Code ''GXL-PARSE-001''))"

text \<open>
  The loops run once per comma or operator they consume, so that the number of tokens is enough fuel; that the
  fuel never runs out is shown below, where every error of the parser turns out to have a code.
\<close>

fun argLoop :: "nat \<Rightarrow> parse \<Rightarrow> token list \<Rightarrow> gerror + node list \<times> token list" where
  "argLoop 0 expr ts = Inl PlainError"
| "argLoop (Suc k) expr ts =
     andThen (expr ts) (\<lambda>(e, ts1).
       if peekKind ts1 \<noteq> tokComma then Inr ([e], ts1)
       else if peekKind (tl ts1) = tokRParen then Inl (Code ''GXL-PARSE-001'')
       else andThen (argLoop k expr (tl ts1)) (\<lambda>(es, ts2). Inr (e # es, ts2)))"

definition argList :: "parse \<Rightarrow> token list \<Rightarrow> gerror + node list \<times> token list" where
  "argList expr ts = (if peekKind ts = tokRParen then Inr ([], ts) else argLoop (Suc (length ts)) expr ts)"

definition nowCall :: "parse \<Rightarrow> parse" where
  "nowCall expr ts =
     (let ts1 = tl ts in
      if peekKind ts1 \<noteq> tokLParen then Inl (Code ''GXL-PARSE-001'')
      else
        andThen (argList expr (tl ts1)) (\<lambda>(args, ts2).
          if peekKind ts2 \<noteq> tokRParen then Inl (Code ''GXL-PARSE-008'')
          else if args \<noteq> [] then Inl (Code ''GXL-TYPE-004'')
          else Inr (Call '''' ''now'' args, tl ts2)))"

definition lenCall :: "parse \<Rightarrow> parse" where
  "lenCall expr ts =
     (let ts1 = tl ts in
      if peekKind ts1 \<noteq> tokLParen then Inl (Code ''GXL-PARSE-001'')
      else if peekKind (tl ts1) = tokRParen then Inl (Code ''GXL-TYPE-004'')
      else
        andThen (expr (tl ts1)) (\<lambda>(arg, ts2).
          if peekKind ts2 \<noteq> tokRParen then Inl (Code ''GXL-PARSE-008'')
          else Inr (Call '''' ''len'' [arg], tl ts2)))"

definition namespaceCall :: "parse \<Rightarrow> parse" where
  "namespaceCall expr ts =
     (let ns = peek ts; ts1 = tl (tl ts); method = peek ts1 in
      if \<not> isWord (tk_kind method) then Inl (Code ''GXL-PARSE-001'')
      else if peekKind (tl ts1) \<noteq> tokLParen then Inl (Code ''GXL-PARSE-001'')
      else if \<not> knownMethod (tk_lit ns) (tk_lit method) then Inl (Code ''GXL-PARSE-006'')
      else
        andThen (argList expr (tl (tl ts1))) (\<lambda>(args, ts2).
          if peekKind ts2 \<noteq> tokRParen then Inl (Code ''GXL-PARSE-008'')
          else Inr (Call (tk_lit ns) (tk_lit method) args, tl ts2)))"

definition groupExpr :: "parse \<Rightarrow> parse" where
  "groupExpr expr ts =
     andThen (expr (tl ts)) (\<lambda>(e, ts1).
       if peekKind ts1 \<noteq> tokRParen then Inl (Code ''GXL-PARSE-008'') else Inr (Group e, tl ts1))"

text \<open>The keyword cases of \<^verbatim>\<open>primary\<close>, with the parsers of an argument of a call and of \<^verbatim>\<open>len\<close>.\<close>

definition keywordPrimary :: "parse \<Rightarrow> parse \<Rightarrow> parse" where
  "keywordPrimary expr lenExpr ts =
     (let lit = tk_lit (peek ts); dotted = (tk_kind (peekN ts 1) = tokDot) in
      if lit = ''now'' then nowCall expr ts
      else if lit = ''len'' then lenCall lenExpr ts
      else if lit \<in> set [''str'', ''list'', ''regex''] then (if dotted then namespaceCall expr ts else pathRef ts)
      else if lit \<in> set [''true'', ''false'', ''null''] then literal ts
      else if lit \<in> set [''and'', ''or''] then Inl (Code ''GXL-PARSE-010'')
      else if lit = ''math'' then Inl (Code (if dotted then ''GXL-PARSE-005'' else ''GXL-PARSE-010''))
      else Inl (Code ''GXL-PARSE-001''))"

definition primaryBody :: "parse \<Rightarrow> parse \<Rightarrow> parse \<Rightarrow> parse" where
  "primaryBody expr lenExpr groupedExpr ts =
     (let tok = peek ts; k = tk_kind tok; nxt = tk_kind (peekN ts 1) in
      if looksLikeUnknownNamespaceCall ts then Inl (Code ''GXL-PARSE-005'')
      else if k = tokIdent \<and> Namespace (tk_lit tok) \<and> nxt = tokDot \<and> tk_kind (peekN ts 3) = tokLParen
      then namespaceCall expr ts
      else if k = tokIdent \<and> (tk_lit tok = ''NaN'' \<or> tk_lit tok = ''Infinity'') then Inl (Code ''GXL-PARSE-003'')
      else if k = tokIdent \<and> nxt = tokLParen then Inl (Code ''GXL-PARSE-007'')
      else if k = tokPlus then Inl (Code ''GXL-PARSE-007'')
      else if k = tokLBracket then Inl (Code ''GXL-PARSE-007'')
      else if k = tokKeyword then keywordPrimary expr lenExpr ts
      else if k = tokIdent then pathRef ts
      else if k = tokString \<or> k = tokNumber then literal ts
      else if k = tokLParen then groupExpr groupedExpr ts
      else Inl (Code ''GXL-PARSE-001''))"

subsection \<open>The levels of precedence\<close>

fun leftLoop :: "nat \<Rightarrow> (token \<Rightarrow> bool) \<Rightarrow> parse \<Rightarrow> node \<Rightarrow> parse" where
  "leftLoop 0 isOp operand left ts = Inl PlainError"
| "leftLoop (Suc k) isOp operand left ts =
     (if isOp (peek ts) then
        andThen (operand (tl ts)) (\<lambda>(right, ts1). leftLoop k isOp operand (BinaryOp (tk_lit (peek ts)) left right) ts1)
      else Inr (left, ts))"

definition leftAssoc :: "(token \<Rightarrow> bool) \<Rightarrow> parse \<Rightarrow> parse" where
  "leftAssoc isOp operand ts =
     andThen (operand ts) (\<lambda>(left, ts1). leftLoop (Suc (length ts1)) isOp operand left ts1)"

definition comparisonBody :: "parse \<Rightarrow> parse" where
  "comparisonBody operand ts =
     andThen (operand ts) (\<lambda>(left, ts1).
       if \<not> isComp (peekKind ts1) then Inr (left, ts1)
       else
         andThen (operand (tl ts1)) (\<lambda>(right, ts2).
           if isComp (peekKind ts2) then Inl (Code ''GXL-PARSE-009'')
           else Inr (BinaryOp (tk_lit (peek ts1)) left right, ts2)))"

definition isAddOp :: "token \<Rightarrow> bool" where
  "isAddOp t = (tk_kind t \<in> set [tokPlus, tokMinus])"

definition isMulOp :: "token \<Rightarrow> bool" where
  "isMulOp t = (tk_kind t \<in> set [tokStar, tokSlash, tokPercent])"

text \<open>
  The argument of each function is the depth that is left, \<^verbatim>\<open>limit + 1 - depth\<close>: the check
  \<^verbatim>\<open>depth > limit\<close> fails at zero, and a call with \<^verbatim>\<open>depth + n\<close> has \<open>n\<close> less. \<^verbatim>\<open>expression\<close> itself, the
  calls and the argument lists add to the depth without checking it.
\<close>

fun orExpr :: "nat \<Rightarrow> parse" and andExpr :: "nat \<Rightarrow> parse" and notExpr :: "nat \<Rightarrow> parse"
  and comparison :: "nat \<Rightarrow> parse" and addition :: "nat \<Rightarrow> parse" and multiply :: "nat \<Rightarrow> parse"
  and unaryMinus :: "nat \<Rightarrow> parse" and primary :: "nat \<Rightarrow> parse" where
  "orExpr 0 ts = Inl (Code ''GXL-PARSE-001'')"
| "orExpr (Suc d) ts = leftAssoc (isKeywordToken ''or'') (andExpr d) ts"
| "andExpr 0 ts = Inl (Code ''GXL-PARSE-001'')"
| "andExpr (Suc d) ts = leftAssoc (isKeywordToken ''and'') (notExpr d) ts"
| "notExpr 0 ts = Inl (Code ''GXL-PARSE-001'')"
| "notExpr (Suc d) ts =
     (if isKeywordToken ''not'' (peek ts) then
        andThen (notExpr d (tl ts)) (\<lambda>(e, ts1). Inr (UnaryOp (tk_lit (peek ts)) e, ts1))
      else comparison d ts)"
| "comparison 0 ts = Inl (Code ''GXL-PARSE-001'')"
| "comparison (Suc d) ts = comparisonBody (addition d) ts"
| "addition 0 ts = Inl (Code ''GXL-PARSE-001'')"
| "addition (Suc d) ts = leftAssoc isAddOp (multiply d) ts"
| "multiply 0 ts = Inl (Code ''GXL-PARSE-001'')"
| "multiply (Suc d) ts = leftAssoc isMulOp (unaryMinus d) ts"
| "unaryMinus 0 ts = Inl (Code ''GXL-PARSE-001'')"
| "unaryMinus (Suc d) ts =
     (if peekKind ts = tokMinus then
        andThen (unaryMinus d (tl ts)) (\<lambda>(e, ts1). Inr (UnaryOp (tk_lit (peek ts)) e, ts1))
      else primary d ts)"
| "primary 0 ts = Inl (Code ''GXL-PARSE-001'')"
| "primary (Suc d) ts = primaryBody (orExpr (d - 3)) (orExpr (d - 2)) (orExpr (d - 1)) ts"

definition maxDepth :: nat where
  "maxDepth = 256"

definition pureDepth :: nat where
  "pureDepth = 128"

text \<open>A complete expression: \<^verbatim>\<open>parseTokens\<close> up to the validation of the tree.\<close>

definition parseTree :: "nat \<Rightarrow> token list \<Rightarrow> gerror + node" where
  "parseTree limit ts =
     andThen (orExpr limit ts) (\<lambda>(n, rest).
       if rest = [] then Inr n
       else if peekKind rest = tokRParen then Inl (Code ''GXL-PARSE-008'')
       else if isForbiddenInfix (peek rest) then Inl (Code ''GXL-PARSE-007'')
       else Inl (Code ''GXL-PARSE-001''))"

subsection \<open>Comparators of list.order\<close>

definition isOrderCall :: "string \<Rightarrow> string \<Rightarrow> bool" where
  "isOrderCall namespace name = (namespace = ''list'' \<and> name = ''order'')"

primrec firstError :: "('a \<Rightarrow> 'e + unit) \<Rightarrow> 'a list \<Rightarrow> 'e + unit" where
  "firstError f [] = Inr ()"
| "firstError f (x # xs) = andThen (f x) (\<lambda>_. firstError f xs)"

lemma firstError_cong [fundef_cong]:
  "xs = ys \<Longrightarrow> (\<And>x. x \<in> set ys \<Longrightarrow> f x = g x) \<Longrightarrow> firstError f xs = firstError g ys"
  by (induction ys arbitrary: xs) auto

lemma firstError_Inr: "firstError f xs = Inr () \<longleftrightarrow> (\<forall>x\<in>set xs. f x = Inr ())"
  by (induction xs) (auto simp: andThen_Inr_conv)

text \<open>\<^verbatim>\<open>validateOrdering\<close>, with the parser of comparators it calls.\<close>

fun validateOrdering :: "(string \<Rightarrow> gerror + node) \<Rightarrow> bool \<Rightarrow> node \<Rightarrow> gerror + unit" where
  "validateOrdering parse comparator (PathRef rt segs) =
     (if comparator \<and> rt \<noteq> ''left'' \<and> rt \<noteq> ''right'' then Inl (Code ''GXL-ORDER-001'') else Inr ())"
| "validateOrdering parse comparator (Call namespace name args) =
     (let order = isOrderCall namespace name in
      if comparator \<and> (order \<or> namespace = '''' \<and> name = ''now'') then Inl (Code ''GXL-ORDER-001'')
      else
        andThen
          (if order then
             (if length args \<noteq> 2 then Inl (Code ''GXL-TYPE-004'')
              else case args ! 1 of
                Literal (LitString source) \<Rightarrow> andThen (parse source) (\<lambda>_. Inr ())
              | _ \<Rightarrow> Inl (Code ''GXL-ORDER-001''))
           else Inr ())
          (\<lambda>_. firstError (validateOrdering parse comparator) args))"
| "validateOrdering parse comparator (BinaryOp op l r) =
     andThen (validateOrdering parse comparator l) (\<lambda>_. validateOrdering parse comparator r)"
| "validateOrdering parse comparator (UnaryOp op e) = validateOrdering parse comparator e"
| "validateOrdering parse comparator (Group e) = validateOrdering parse comparator e"
| "validateOrdering parse comparator (Literal v) = Inr ()"

text \<open>
  A comparator is parsed as such and cannot contain another one, so that \<^verbatim>\<open>parseExpression\<close> calls itself
  only for the comparators of an expression that is none.
\<close>

function parseExpression :: "string \<Rightarrow> bool \<Rightarrow> gerror + node" where
  "parseExpression src comparator =
     andThen (lex src) (\<lambda>ts.
     andThen (parseTree maxDepth ts) (\<lambda>n.
     andThen (validateOrdering (\<lambda>source. if comparator then Inl PlainError else parseExpression source True) comparator n) (\<lambda>_.
     Inr n)))"
  by pat_completeness auto
termination by (relation "measure (\<lambda>(src, comparator). if comparator then 0 else 1)") auto

declare parseExpression.simps [simp del]

definition Parse :: "string \<Rightarrow> gerror + node" where
  "Parse src = parseExpression src False"

definition Validate :: "string \<Rightarrow> gerror + unit" where
  "Validate src = andThen (Parse src) (\<lambda>_. Inr ())"

end
