(* ===== verification/Gxl_Order.thy ===== *)
theory Gxl_Order
  imports Pjvm
begin

section \<open>Ordering by a comparator\<close>

text \<open>
  The algorithm of \<^verbatim>\<open>callOrder\<close> in \<^verbatim>\<open>runtime/pkg/gxl/eval/ordering.go\<close>: every pair of positions is compared both ways,
  the answers make a graph, and the graph is sorted by repeatedly taking positions without predecessors.
\<close>

subsection \<open>The graph of comparisons\<close>

record order_graph =
  og_ranks :: "int list"
  og_edges :: "nat list list"
  og_ambiguous :: bool
  og_inconsistent :: bool

definition emptyGraph :: "nat \<Rightarrow> order_graph" where
  "emptyGraph n = \<lparr>og_ranks = replicate n 0, og_edges = replicate n [], og_ambiguous = False, og_inconsistent = False\<rparr>"

definition addEdge :: "nat \<Rightarrow> nat \<Rightarrow> order_graph \<Rightarrow> order_graph" where
  "addEdge a b g =
     g\<lparr>og_ranks := (og_ranks g)[b := og_ranks g ! b + 1], og_edges := (og_edges g)[a := og_edges g ! a @ [b]]\<rparr>"

definition addPair :: "nat \<Rightarrow> nat \<Rightarrow> bool \<Rightarrow> bool \<Rightarrow> order_graph \<Rightarrow> order_graph" where
  "addPair left right before after g =
     (if before \<and> after then g\<lparr>og_inconsistent := True\<rparr>
      else if \<not> before \<and> \<not> after then g\<lparr>og_ambiguous := True\<rparr>
      else if before then addEdge left right g
      else addEdge right left g)"

text \<open>The pairs in the order of the two nested loops.\<close>

definition pairs :: "nat \<Rightarrow> (nat \<times> nat) list" where
  "pairs n = concat (map (\<lambda>i. map (Pair i) [Suc i..<n]) [0..<n])"

subsection \<open>The queue of positions without predecessors\<close>

definition rankAt :: "int list \<Rightarrow> nat \<Rightarrow> int" where
  "rankAt ranks i = (if i < length ranks then ranks ! i else 0)"

text \<open>The inner loop over the edges of a position; it returns what it appends to the queue.\<close>

fun relax :: "nat list \<Rightarrow> int list \<Rightarrow> int list \<times> nat list" where
  "relax [] ranks = (ranks, [])"
| "relax (v # vs) ranks =
     (let ranks' = ranks[v := rankAt ranks v - 1]; (ranks'', q) = relax vs ranks' in
      (ranks'', if v < length ranks \<and> ranks' ! v = 0 then v # q else q))"

definition positives :: "int list \<Rightarrow> nat" where
  "positives ranks = length (filter (\<lambda>r. 0 < r) ranks)"

lemma positives_update:
  "v < length ranks \<Longrightarrow> positives (ranks[v := r]) + (if 0 < ranks ! v then 1 else 0) = positives ranks + (if 0 < r then 1 else 0)"
proof (induction ranks arbitrary: v)
  case (Cons x xs)
  then show ?case by (cases v) (auto simp: positives_def)
qed simp

lemma relax_measure: "relax vs ranks = (ranks', q) \<Longrightarrow> length q + positives ranks' \<le> positives ranks"
proof (induction vs arbitrary: ranks ranks' q)
  case (Cons v vs)
  let ?r = "ranks[v := rankAt ranks v - 1]"
  obtain ranks'' q' where step: "relax vs ?r = (ranks'', q')" by (cases "relax vs ?r")
  from Cons.IH [OF step] have ih: "length q' + positives ranks'' \<le> positives ?r" .
  have "positives ?r + (if v < length ranks \<and> ?r ! v = 0 then 1 else 0) \<le> positives ranks"
  proof (cases "v < length ranks")
    case True
    then show ?thesis
      using positives_update [of v ranks "ranks ! v - 1"] by (cases "ranks ! v = 1") (auto simp: rankAt_def split: if_split_asm)
  qed (simp add: list_update_beyond)
  moreover from Cons.prems step
  have "ranks' = ranks''" "length q = length q' + (if v < length ranks \<and> ?r ! v = 0 then 1 else 0)"
    by (auto simp: Let_def)
  ultimately show ?case using ih by simp
qed simp

text \<open>The queue loop, with the positions that are still to be taken; the result is the order of the positions.\<close>

function drain :: "nat list list \<Rightarrow> int list \<Rightarrow> nat list \<Rightarrow> nat list" where
  "drain edges ranks [] = []"
| "drain edges ranks (v # queue) =
     (let (ranks', q) = relax (if v < length edges then edges ! v else []) ranks in v # drain edges ranks' (queue @ q))"
  by pat_completeness auto
termination
proof (relation "measure (\<lambda>(edges, ranks, queue). length queue + positives ranks)", goal_cases)
  case (2 edges ranks v queue x ranks' q)
  then show ?case using relax_measure [of _ ranks ranks' q] by fastforce
qed simp

definition sortGraph :: "order_graph \<Rightarrow> nat list" where
  "sortGraph g = drain (og_edges g) (og_ranks g) (filter (\<lambda>i. og_ranks g ! i = 0) [0..<length (og_ranks g)])"

definition orderResult :: "string \<Rightarrow> pvalue list \<Rightarrow> pvalue" where
  "orderResult status items = VObject [(''status'', VString status), (''items'', VArray items)]"

definition finishOrder :: "order_graph \<Rightarrow> pvalue list \<Rightarrow> pvalue" where
  "finishOrder g items =
     (if og_inconsistent g then orderResult ''inconsistent'' items
      else
        let ordered = sortGraph g in
        if length ordered \<noteq> length items then orderResult ''inconsistent'' items
        else if og_ambiguous g then orderResult ''ambiguous'' items
        else orderResult ''ordered'' (map ((!) items) ordered))"

subsection \<open>What the graph records\<close>

text \<open>The graph of a comparison \<open>lt\<close> of positions, after some pairs.\<close>

definition edge :: "(nat \<Rightarrow> nat \<Rightarrow> bool) \<Rightarrow> (nat \<times> nat) set \<Rightarrow> nat \<Rightarrow> nat \<Rightarrow> bool" where
  "edge lt S a b = (((a, b) \<in> S \<or> (b, a) \<in> S) \<and> lt a b \<and> \<not> lt b a)"

definition graphOf :: "(nat \<Rightarrow> nat \<Rightarrow> bool) \<Rightarrow> (nat \<times> nat) list \<Rightarrow> order_graph \<Rightarrow> order_graph" where
  "graphOf lt ps g = fold (\<lambda>(a, b). addPair a b (lt a b) (lt b a)) ps g"

definition records :: "(nat \<Rightarrow> nat \<Rightarrow> bool) \<Rightarrow> nat \<Rightarrow> (nat \<times> nat) set \<Rightarrow> order_graph \<Rightarrow> bool" where
  "records lt n S g =
     (length (og_ranks g) = n \<and> length (og_edges g) = n \<and>
      (\<forall>a<n. distinct (og_edges g ! a) \<and> set (og_edges g ! a) = {b. edge lt S a b}) \<and>
      (\<forall>b<n. og_ranks g ! b = int (card {a. a < n \<and> edge lt S a b})) \<and>
      (og_inconsistent g \<longleftrightarrow> (\<exists>(a, b)\<in>S. lt a b \<and> lt b a)) \<and>
      (og_ambiguous g \<longleftrightarrow> (\<exists>(a, b)\<in>S. \<not> lt a b \<and> \<not> lt b a)))"

lemma records_empty: "records lt n {} (emptyGraph n)"
  by (simp add: records_def emptyGraph_def edge_def)

lemma edge_insert:
  assumes "i \<noteq> j" and "(i, j) \<notin> S" and "(j, i) \<notin> S"
  shows "edge lt (insert (i, j) S) a b \<longleftrightarrow>
    edge lt S a b \<or> lt a b \<and> \<not> lt b a \<and> (a = i \<and> b = j \<or> a = j \<and> b = i)"
  using assms by (auto simp: edge_def)

lemma records_edge:
  assumes "records lt n S g" and "a < n" and "b < n" and "lt a b" and "\<not> lt b a" and "a \<noteq> b"
    and "(a, b) \<notin> S" and "(b, a) \<notin> S" and T: "T = insert (a, b) S \<or> T = insert (b, a) S"
  shows "records lt n T (addEdge a b g)"
proof -
  have edges: "edge lt T c d \<longleftrightarrow> edge lt S c d \<or> c = a \<and> d = b" for c d
    using T edge_insert [OF assms(6-8)] edge_insert [OF assms(6) [symmetric] assms(8,7)] assms(4,5) by auto
  have new: "\<not> edge lt S a b" using assms(7,8) by (simp add: edge_def)
  have "card {c. c < n \<and> edge lt T c d} = card {c. c < n \<and> edge lt S c d} + (if d = b then 1 else 0)" for d
  proof (cases "d = b")
    case True
    then have "{c. c < n \<and> edge lt T c d} = insert a {c. c < n \<and> edge lt S c d}" using edges assms(2) by auto
    with True new show ?thesis by simp
  qed (simp add: edges)
  moreover have "{d. edge lt T c d} = {d. edge lt S c d} \<union> (if c = a then {b} else {})" for c
    using edges by auto
  moreover have "(\<exists>(c, d)\<in>T. lt c d \<and> lt d c) = (\<exists>(c, d)\<in>S. lt c d \<and> lt d c)"
    "(\<exists>(c, d)\<in>T. \<not> lt c d \<and> \<not> lt d c) = (\<exists>(c, d)\<in>S. \<not> lt c d \<and> \<not> lt d c)"
    using T assms(4,5) by auto
  ultimately show ?thesis
    using assms(1-3) new unfolding records_def addEdge_def by (auto simp: nth_list_update)
qed

lemma records_addPair:
  assumes "records lt n S g" and "a < b" and "b < n" and "(a, b) \<notin> S" and "(b, a) \<notin> S"
  shows "records lt n (insert (a, b) S) (addPair a b (lt a b) (lt b a) g)"
proof -
  have same: "edge lt (insert (a, b) S) = edge lt S" if "lt a b = lt b a"
    using that by (auto simp: edge_def fun_eq_iff)
  consider (one) "lt a b" "\<not> lt b a" | (other) "lt b a" "\<not> lt a b" | (both) "lt a b" "lt b a" | (neither) "\<not> lt a b" "\<not> lt b a" by blast
  then show ?thesis
  proof cases
    case one
    then show ?thesis using records_edge [OF assms(1), of a b] assms(2-5) by (simp add: addPair_def)
  next
    case other
    then show ?thesis using records_edge [OF assms(1), of b a] assms(2-5) by (simp add: addPair_def)
  next
    case both
    then show ?thesis using same assms(1) by (simp add: addPair_def records_def)
  next
    case neither
    then show ?thesis using same assms(1) by (simp add: addPair_def records_def)
  qed
qed

lemma records_graphOf:
  "records lt n S g \<Longrightarrow> distinct ps \<Longrightarrow> \<forall>(a, b)\<in>set ps. a < b \<and> b < n \<and> (a, b) \<notin> S \<Longrightarrow> \<forall>(a, b)\<in>S. a < b \<Longrightarrow>
     records lt n (S \<union> set ps) (graphOf lt ps g)"
proof (induction ps arbitrary: S g)
  case (Cons p ps)
  obtain a b where p: "p = (a, b)" by (cases p)
  from Cons.prems p have ab: "a < b" "b < n" "(a, b) \<notin> S" "(b, a) \<notin> S" by auto
  have "records lt n (insert (a, b) S \<union> set ps) (graphOf lt ps (addPair a b (lt a b) (lt b a) g))"
    using Cons.prems p ab by (intro Cons.IH records_addPair) auto
  then show ?case by (simp add: p graphOf_def)
qed (simp add: graphOf_def)

lemma pairs_props: "distinct (pairs n)" "set (pairs n) = {(a, b). a < b \<and> b < n}"
proof -
  have "distinct (concat (map (\<lambda>i. map (Pair i) [Suc i..<n]) is))" if "distinct is" for "is"
    using that by (induction "is") (auto simp: distinct_map inj_on_def)
  then show "distinct (pairs n)" by (simp add: pairs_def)
  have "(a, b) \<in> set (pairs n) \<longleftrightarrow> a < b \<and> b < n" for a b
    by (simp add: pairs_def image_iff) auto
  then show "set (pairs n) = {(a, b). a < b \<and> b < n}" by auto
qed

lemma records_pairs: "records lt n {(a, b). a < b \<and> b < n} (graphOf lt (pairs n) (emptyGraph n))"
proof -
  have "records lt n ({} \<union> set (pairs n)) (graphOf lt (pairs n) (emptyGraph n))"
    by (rule records_graphOf [OF records_empty pairs_props(1)]) (use pairs_props(2) in auto)
  then show ?thesis by (simp add: pairs_props(2))
qed

subsection \<open>The queue sorts the graph\<close>

definition topological :: "(nat \<Rightarrow> nat \<Rightarrow> bool) \<Rightarrow> nat list \<Rightarrow> bool" where
  "topological R xs = (\<forall>i<length xs. \<forall>a. R a (xs ! i) \<longrightarrow> a \<in> set (take i xs))"

lemma topological_append:
  assumes "topological R xs" and preds: "\<And>a b. b \<in> set ys \<Longrightarrow> R a b \<Longrightarrow> a \<in> set xs"
  shows "topological R (xs @ ys)"
  unfolding topological_def
proof (intro allI impI)
  fix i a
  assume i: "i < length (xs @ ys)" and a: "R a ((xs @ ys) ! i)"
  show "a \<in> set (take i (xs @ ys))"
  proof (cases "i < length xs")
    case True
    with assms(1) a show ?thesis by (simp add: topological_def nth_append)
  next
    case False
    then have "(xs @ ys) ! i \<in> set ys" using i by (simp add: nth_append)
    from preds [OF this a] False show ?thesis by simp
  qed
qed

lemma relax_result:
  "distinct vs \<Longrightarrow> set vs \<subseteq> {..<length ranks} \<Longrightarrow> relax vs ranks = (ranks', q) \<Longrightarrow>
     length ranks' = length ranks \<and> q = filter (\<lambda>v. ranks ! v = 1) vs \<and>
     (\<forall>b<length ranks. ranks' ! b = ranks ! b - (if b \<in> set vs then 1 else 0))"
proof (induction vs arbitrary: ranks ranks' q)
  case (Cons v vs)
  let ?r = "ranks[v := rankAt ranks v - 1]"
  obtain ranks'' q' where step: "relax vs ?r = (ranks'', q')" by (cases "relax vs ?r")
  from Cons.prems have v: "v < length ranks" "v \<notin> set vs" by auto
  have "filter (\<lambda>w. ?r ! w = 1) vs = filter (\<lambda>w. ranks ! w = 1) vs"
    using v by (intro filter_cong) (auto simp: nth_list_update)
  with Cons.IH [OF _ _ step] Cons.prems v step show ?case
    by (auto simp: rankAt_def nth_list_update split: if_split_asm)
qed simp

text \<open>A graph with positions below \<open>n\<close>, as adjacency lists.\<close>

locale adjacency =
  fixes n :: nat and edges :: "nat list list" and R :: "nat \<Rightarrow> nat \<Rightarrow> bool"
  assumes edges_length: "length edges = n"
    and edges_set: "a < n \<Longrightarrow> distinct (edges ! a) \<and> set (edges ! a) = {b. R a b}"
    and range: "R a b \<Longrightarrow> a < n \<and> b < n"
begin

definition open_preds :: "nat list \<Rightarrow> nat \<Rightarrow> nat set" where
  "open_preds taken b = {a. a \<notin> set taken \<and> R a b}"

definition invariant :: "nat list \<Rightarrow> int list \<Rightarrow> nat list \<Rightarrow> bool" where
  "invariant taken ranks queue =
     (distinct (taken @ queue) \<and> set (taken @ queue) \<subseteq> {..<n} \<and> length ranks = n \<and>
      (\<forall>b<n. ranks ! b = int (card (open_preds taken b))) \<and>
      (\<forall>b<n. b \<in> set (taken @ queue) \<longleftrightarrow> ranks ! b = 0) \<and> topological R (taken @ queue))"

lemma finite_open [simp]: "finite (open_preds taken b)"
proof (rule finite_subset)
  show "open_preds taken b \<subseteq> {..<n}" using range by (auto simp: open_preds_def)
qed simp

lemma open_preds_snoc:
  "v \<notin> set taken \<Longrightarrow> card (open_preds (taken @ [v]) b) = card (open_preds taken b) - (if R v b then 1 else 0)"
proof -
  assume v: "v \<notin> set taken"
  have "open_preds (taken @ [v]) b = open_preds taken b - {v}" by (auto simp: open_preds_def)
  moreover have "v \<in> open_preds taken b \<longleftrightarrow> R v b" using v by (simp add: open_preds_def)
  ultimately show ?thesis by (simp add: card_Diff_singleton_if)
qed

lemma invariant_step:
  assumes inv: "invariant taken ranks (v # queue)" and step: "relax (edges ! v) ranks = (ranks', q)"
  shows "invariant (taken @ [v]) ranks' (queue @ q)"
proof -
  from inv have v: "v < n" "v \<notin> set taken" and len: "length ranks = n" by (auto simp: invariant_def)
  have "set (edges ! v) \<subseteq> {..<length ranks}" using edges_set [OF v(1)] range len by auto
  from relax_result [OF conjunct1 [OF edges_set [OF v(1)]] this step] edges_set [OF v(1)] len
  have r: "length ranks' = n" "q = filter (\<lambda>b. ranks ! b = 1) (edges ! v)" "distinct (edges ! v)"
    "\<And>b. b < n \<Longrightarrow> ranks' ! b = ranks ! b - (if R v b then 1 else 0)" by auto
  have q: "b \<in> set q \<longleftrightarrow> R v b \<and> ranks ! b = 1" for b using r(2) edges_set [OF v(1)] by auto
  from inv have old: "\<And>b. b < n \<Longrightarrow> ranks ! b = int (card (open_preds taken b))"
    "\<And>b. b < n \<Longrightarrow> b \<in> set (taken @ v # queue) \<longleftrightarrow> ranks ! b = 0" by (simp_all add: invariant_def)
  have pos: "0 < ranks ! b" if "R v b" for b
  proof -
    have "v \<in> open_preds taken b" using that v(2) by (simp add: open_preds_def)
    then show ?thesis using old(1) [of b] range [OF that] by (auto simp: card_gt_0_iff)
  qed
  have ranks': "ranks' ! b = int (card (open_preds (taken @ [v]) b))" if "b < n" for b
    using r(4) [OF that] old(1) [OF that] open_preds_snoc [OF v(2)] pos [of b] by (cases "R v b") (auto simp: of_nat_diff)
  have new: "b \<in> set ((taken @ [v]) @ queue @ q) \<longleftrightarrow> ranks' ! b = 0" if "b < n" for b
    using old(2) [OF that] q [of b] r(4) [OF that] pos [of b] by auto
  have preds: "a \<in> set (taken @ v # queue)" if "b \<in> set q" "R a b" for a b
  proof -
    have "b < n" using range [OF that(2)] by simp
    with new [of b] that(1) have "ranks' ! b = 0" by simp
    then have "open_preds (taken @ [v]) b = {}" using ranks' range [OF that(2)] by simp
    then show ?thesis using that(2) by (auto simp: open_preds_def)
  qed
  have "topological R ((taken @ v # queue) @ q)"
  proof (rule topological_append)
    show "topological R (taken @ v # queue)" using inv by (simp add: invariant_def)
  qed (rule preds)
  moreover have "distinct (taken @ v # queue @ q)"
  proof -
    have "set (taken @ v # queue) \<inter> set q = {}"
    proof (rule ccontr)
      assume "set (taken @ v # queue) \<inter> set q \<noteq> {}"
      then obtain b where "b \<in> set (taken @ v # queue)" "b \<in> set q" by blast
      with q old(2) range show False by fastforce
    qed
    with inv r(2,3) show ?thesis by (auto simp: invariant_def)
  qed
  moreover have "set q \<subseteq> {..<n}" using q range by auto
  ultimately show ?thesis using inv ranks' new r(1) by (auto simp: invariant_def)
qed

lemma drain_result:
  "invariant taken ranks queue \<Longrightarrow> \<exists>ranks'. invariant (taken @ drain edges ranks queue) ranks' []"
proof (induction "length queue + positives ranks" arbitrary: taken ranks queue rule: less_induct)
  case less
  show ?case
  proof (cases queue)
    case Nil
    with less.prems show ?thesis by auto
  next
    case (Cons v vs)
    obtain ranks' q where step: "relax (edges ! v) ranks = (ranks', q)" by (cases "relax (edges ! v) ranks")
    have v: "v < length edges" using less.prems Cons edges_length by (auto simp: invariant_def)
    have "\<exists>r. invariant ((taken @ [v]) @ drain edges ranks' (vs @ q)) r []"
      using relax_measure [OF step] Cons less.prems step by (intro less.hyps invariant_step [of _ ranks]) simp_all
    with v step Cons show ?thesis by simp
  qed
qed

text \<open>What is taken is in topological order; what is left over has predecessors that are left over as well.\<close>

lemma drain_sorts:
  assumes "length ranks = n" and "\<And>b. b < n \<Longrightarrow> ranks ! b = int (card {a. a < n \<and> R a b})"
  defines "out \<equiv> drain edges ranks (filter (\<lambda>i. ranks ! i = 0) [0..<n])"
  shows "distinct out" "set out \<subseteq> {..<n}" "topological R out"
    and "b < n \<Longrightarrow> b \<notin> set out \<Longrightarrow> \<exists>a<n. a \<notin> set out \<and> R a b"
proof -
  let ?queue = "filter (\<lambda>i. ranks ! i = 0) [0..<n]"
  have preds: "{a. a < n \<and> R a b} = open_preds [] b" for b using range by (auto simp: open_preds_def)
  have "topological R ([] @ ?queue)"
  proof (rule topological_append)
    fix a b
    assume b: "b \<in> set ?queue" and a: "R a b"
    then have "open_preds [] b = {}" using assms(2) [of b] preds [of b] by simp
    with a show "a \<in> set []" by (auto simp: open_preds_def)
  qed (simp add: topological_def)
  then have "invariant [] ranks ?queue" using assms(1,2) preds by (auto simp: invariant_def)
  from drain_result [OF this] obtain r where r: "invariant out r []" by (auto simp: out_def)
  then show "distinct out" "set out \<subseteq> {..<n}" "topological R out" by (simp_all add: invariant_def)
  show "\<exists>a<n. a \<notin> set out \<and> R a b" if "b < n" "b \<notin> set out"
  proof -
    have "open_preds out b \<noteq> {}" using r that by (auto simp: invariant_def)
    then show ?thesis using range by (auto simp: open_preds_def)
  qed
qed

end

subsection \<open>What the result means\<close>

text \<open>
  The comparison of two different positions: one answer is yes and the other no. A comparison is contradictory when two
  positions precede each other, directly or along a cycle, and partial when two positions do not compare.
\<close>

definition precedes :: "(nat \<Rightarrow> nat \<Rightarrow> bool) \<Rightarrow> nat \<Rightarrow> nat \<Rightarrow> nat \<Rightarrow> bool" where
  "precedes lt n a b = (a < n \<and> b < n \<and> a \<noteq> b \<and> lt a b \<and> \<not> lt b a)"

definition contradictory :: "(nat \<Rightarrow> nat \<Rightarrow> bool) \<Rightarrow> nat \<Rightarrow> bool" where
  "contradictory lt n \<longleftrightarrow>
     (\<exists>a<n. \<exists>b<n. a \<noteq> b \<and> lt a b \<and> lt b a) \<or> \<not> acyclic {(a, b). precedes lt n a b}"

definition partial :: "(nat \<Rightarrow> nat \<Rightarrow> bool) \<Rightarrow> nat \<Rightarrow> bool" where
  "partial lt n \<longleftrightarrow> (\<exists>a<n. \<exists>b<n. a \<noteq> b \<and> \<not> lt a b \<and> \<not> lt b a)"

text \<open>A list of all positions in which every one precedes the ones behind it.\<close>

definition sortedPositions :: "(nat \<Rightarrow> nat \<Rightarrow> bool) \<Rightarrow> nat \<Rightarrow> nat list \<Rightarrow> bool" where
  "sortedPositions lt n order \<longleftrightarrow>
     distinct order \<and> set order = {..<n} \<and> (\<forall>j<length order. \<forall>i<j. precedes lt n (order ! i) (order ! j))"

lemma edge_precedes: "edge lt {(a, b). a < b \<and> b < n} = precedes lt n"
  by (auto simp: edge_def precedes_def fun_eq_iff)

lemma pair_witness:
  assumes "\<And>a b. P a b \<Longrightarrow> P b a"
  shows "(\<exists>(a, b)\<in>{(a, b). a < b \<and> b < n}. P a b) \<longleftrightarrow> (\<exists>a<n. \<exists>b<(n::nat). a \<noteq> b \<and> P a b)"
proof
  assume "\<exists>(a, b)\<in>{(a, b). a < b \<and> b < n}. P a b"
  then obtain a b where "a < b" "b < n" "P a b" by auto
  then show "\<exists>a<n. \<exists>b<n. a \<noteq> b \<and> P a b" by (intro exI [of _ a] conjI exI [of _ b]) auto
next
  assume "\<exists>a<n. \<exists>b<n. a \<noteq> b \<and> P a b"
  then obtain a b where ab: "a < n" "b < n" "a \<noteq> b" "P a b" by blast
  have "P (min a b) (max a b)" "min a b < max a b" "max a b < n"
    using ab assms [OF ab(4)] by (auto simp: min_def max_def)
  then show "\<exists>(a, b)\<in>{(a, b). a < b \<and> b < n}. P a b" by (intro bexI [of _ "(min a b, max a b)"]) auto
qed

lemma finite_precedes: "finite {(a, b). precedes lt n a b}"
  by (rule finite_subset [of _ "{..<n} \<times> {..<n}"]) (auto simp: precedes_def)

text \<open>The graph of the comparisons is the graph of what precedes what.\<close>

lemma graph_records:
  shows "length (og_ranks (graphOf lt (pairs n) (emptyGraph n))) = n"
    and "length (og_edges (graphOf lt (pairs n) (emptyGraph n))) = n"
    and "a < n \<Longrightarrow> distinct (og_edges (graphOf lt (pairs n) (emptyGraph n)) ! a) \<and>
      set (og_edges (graphOf lt (pairs n) (emptyGraph n)) ! a) = {b. precedes lt n a b}"
    and "b < n \<Longrightarrow> og_ranks (graphOf lt (pairs n) (emptyGraph n)) ! b = int (card {a. a < n \<and> precedes lt n a b})"
  using records_pairs [of lt n] unfolding records_def edge_precedes by blast+

interpretation comparisons: adjacency n "og_edges (graphOf lt (pairs n) (emptyGraph n))" "precedes lt n" for lt n
  using graph_records(2,3) by unfold_locales (auto simp: precedes_def)

lemma sortGraph_result:
  fixes lt n
  defines "out \<equiv> sortGraph (graphOf lt (pairs n) (emptyGraph n))"
  shows "distinct out" "set out \<subseteq> {..<n}" "topological (precedes lt n) out"
    and "length out = n \<longleftrightarrow> acyclic {(a, b). precedes lt n a b}"
proof -
  let ?g = "graphOf lt (pairs n) (emptyGraph n)" and ?R = "precedes lt n"
  have ranks: "og_ranks ?g ! b = int (card {a. a < n \<and> ?R a b})" if "b < n" for b
    using graph_records(4) that by blast
  note sorts = comparisons.drain_sorts [OF graph_records(1) ranks, folded sortGraph_def [of ?g, unfolded graph_records(1)], folded out_def]
  show "distinct out" "set out \<subseteq> {..<n}" and topo: "topological ?R out" using sorts(1-3) by blast+
  show "length out = n \<longleftrightarrow> acyclic {(a, b). ?R a b}"
  proof
    assume len: "length out = n"
    with sorts(1,2) have all: "set out = {..<n}"
      by (metis card_lessThan card_subset_eq distinct_card finite_lessThan)
    define pos where "pos b = (THE i. i < n \<and> out ! i = b)" for b
    have pos: "pos (out ! i) = i" if "i < n" for i
      unfolding pos_def using that sorts(1) len by (intro the_equality) (auto simp: nth_eq_iff_index_eq)
    have "pos a < pos b" if "?R a b" for a b
    proof -
      have "b \<in> set out" using that all by (auto simp: precedes_def)
      then obtain j where j: "j < n" "out ! j = b" using len by (auto simp: in_set_conv_nth)
      with topo that len have "a \<in> set (take j out)" by (auto simp: topological_def)
      then obtain i where "i < j" "out ! i = a" by (auto simp: in_set_conv_nth)
      with j pos show ?thesis by fastforce
    qed
    then have "{(a, b). ?R a b} \<subseteq> measure pos" by auto
    then show "acyclic {(a, b). ?R a b}" using wf_subset wf_acyclic wf_measure by blast
  next
    assume "acyclic {(a, b). ?R a b}"
    then have wf: "wf {(a, b). ?R a b}" using finite_precedes finite_acyclic_wf by blast
    have "b \<in> set out" if "b < n" for b
      using wf that
    proof (induction b rule: wf_induct_rule)
      case (less b)
      then show ?case using sorts(4) [of b] by blast
    qed
    with sorts(2) have "set out = {..<n}" by auto
    then show "length out = n" using sorts(1) distinct_card by fastforce
  qed
qed

lemma sortGraph_sorted:
  assumes "\<not> contradictory lt n" and "\<not> partial lt n"
  shows "sortedPositions lt n (sortGraph (graphOf lt (pairs n) (emptyGraph n)))"
proof -
  define out where "out = sortGraph (graphOf lt (pairs n) (emptyGraph n))"
  note result = sortGraph_result [of lt n, folded out_def]
  have len: "length out = n" using assms(1) result(4) by (simp add: contradictory_def)
  then have all: "set out = {..<n}"
    using result(1,2) by (metis card_lessThan card_subset_eq distinct_card finite_lessThan)
  have "precedes lt n (out ! i) (out ! j)" if "j < n" "i < j" for i j
  proof (rule ccontr)
    let ?a = "out ! i" and ?b = "out ! j"
    assume not: "\<not> precedes lt n ?a ?b"
    have ab: "?a < n" "?b < n" "?a \<noteq> ?b"
      using that len all result(1) nth_mem [of i out] nth_mem [of j out] by (auto simp: nth_eq_iff_index_eq)
    with not assms have "precedes lt n ?b ?a" by (auto simp: precedes_def contradictory_def partial_def)
    then have "?b \<in> set (take i out)" using result(3) that len by (auto simp: topological_def)
    then obtain k where "k < i" "out ! k = ?b" by (auto simp: in_set_conv_nth)
    with that len result(1) show False by (auto simp: nth_eq_iff_index_eq)
  qed
  with result(1) all len show ?thesis by (simp add: sortedPositions_def out_def)
qed

lemma graph_flags:
  "og_inconsistent (graphOf lt (pairs n) (emptyGraph n)) \<longleftrightarrow> (\<exists>a<n. \<exists>b<n. a \<noteq> b \<and> lt a b \<and> lt b a)"
  "og_ambiguous (graphOf lt (pairs n) (emptyGraph n)) \<longleftrightarrow> partial lt n"
  using records_pairs [of lt n] pair_witness [of "\<lambda>a b. lt a b \<and> lt b a" n] pair_witness [of "\<lambda>a b. \<not> lt a b \<and> \<not> lt b a" n]
  unfolding records_def partial_def by (simp_all add: conj_commute)

lemma finishOrder_result:
  assumes "n = length items"
  shows "finishOrder (graphOf lt (pairs n) (emptyGraph n)) items =
    (if contradictory lt n then orderResult ''inconsistent'' items
     else if partial lt n then orderResult ''ambiguous'' items
     else orderResult ''ordered'' (map ((!) items) (sortGraph (graphOf lt (pairs n) (emptyGraph n)))))"
  using assms sortGraph_result(4) [of lt n] by (auto simp: finishOrder_def contradictory_def graph_flags Let_def)

text \<open>There is only one way to sort positions: a position stands behind as many as precede it.\<close>

lemma sortedPositions_rank:
  assumes "sortedPositions lt n xs" and "i < length xs"
  shows "card {a. precedes lt n a (xs ! i)} = i"
proof -
  from assms have xs: "distinct xs" "set xs = {..<n}"
    and lt: "\<And>i j. i < j \<Longrightarrow> j < length xs \<Longrightarrow> precedes lt n (xs ! i) (xs ! j)" by (auto simp: sortedPositions_def)
  have "{a. precedes lt n a (xs ! i)} = set (take i xs)"
  proof (intro equalityI subsetI)
    fix a
    assume "a \<in> {a. precedes lt n a (xs ! i)}"
    then have a: "precedes lt n a (xs ! i)" by simp
    then have "a \<in> set xs" using xs(2) by (simp add: precedes_def)
    then obtain k where k: "k < length xs" "xs ! k = a" by (auto simp: in_set_conv_nth)
    have "\<not> i \<le> k"
    proof
      assume "i \<le> k"
      with a k lt [of i k] show False by (cases "i = k") (auto simp: precedes_def)
    qed
    with k show "a \<in> set (take i xs)" by (auto simp: in_set_conv_nth intro!: exI [of _ k])
  next
    fix a
    assume "a \<in> set (take i xs)"
    then obtain k where "k < i" "xs ! k = a" by (auto simp: in_set_conv_nth)
    with lt [of k i] assms(2) show "a \<in> {a. precedes lt n a (xs ! i)}" by simp
  qed
  then show ?thesis using xs(1) assms(2) distinct_card [of "take i xs"] by simp
qed

lemma sortedPositions_unique:
  assumes "sortedPositions lt n xs" and "sortedPositions lt n ys"
  shows "xs = ys"
proof (rule nth_equalityI)
  have "length xs = n" "length ys = n" using assms by (metis card_lessThan distinct_card sortedPositions_def)+
  then show "length xs = length ys" by simp
  fix i
  assume i: "i < length xs"
  have "xs ! i \<in> set ys" using i assms nth_mem [OF i] by (simp add: sortedPositions_def)
  then obtain j where j: "j < length ys" "ys ! j = xs ! i" by (auto simp: in_set_conv_nth)
  with sortedPositions_rank [OF assms(1) i] sortedPositions_rank [OF assms(2) j(1)] show "xs ! i = ys ! i" by simp
qed

end
