(* ===== verification/Gxl_Date.thy ===== *)
theory Gxl_Date
  imports Pjvm
begin

section \<open>Timestamps of the expression language\<close>

text \<open>
  \<^verbatim>\<open>callDate\<close> of \<^verbatim>\<open>runtime/pkg/gxl/eval/ordering.go\<close> and the format of \<^verbatim>\<open>now()\<close>, with what they use of Go's \<^verbatim>\<open>time\<close> package: the
  proleptic Gregorian calendar, the layouts \<^verbatim>\<open>RFC3339Nano\<close> and \<^verbatim>\<open>2006-01-02 15:04:05\<close>, and seconds since 1970.
\<close>

subsection \<open>Calendar\<close>

record civil =
  cv_year :: nat
  cv_month :: nat
  cv_day :: nat
  cv_hour :: nat
  cv_minute :: nat
  cv_second :: nat

definition isLeap :: "nat \<Rightarrow> bool" where
  "isLeap y = (y mod 4 = 0 \<and> (y mod 100 \<noteq> 0 \<or> y mod 400 = 0))"

definition monthDays :: "nat \<Rightarrow> nat \<Rightarrow> nat" where
  "monthDays y m = (if m = 2 then (if isLeap y then 29 else 28) else if m \<in> set [4, 6, 9, 11] then 30 else 31)"

definition validCivil :: "civil \<Rightarrow> bool" where
  "validCivil c =
     (1 \<le> cv_month c \<and> cv_month c \<le> 12 \<and> 1 \<le> cv_day c \<and> cv_day c \<le> monthDays (cv_year c) (cv_month c) \<and>
      cv_hour c < 24 \<and> cv_minute c < 60 \<and> cv_second c < 60)"

text \<open>The days before a year, counted from the first of January of the year one, and before a month of its year.\<close>

definition daysBeforeYear :: "nat \<Rightarrow> int" where
  "daysBeforeYear y = (let p = int y - 1 in 365 * p + p div 4 - p div 100 + p div 400)"

definition daysBeforeMonth :: "nat \<Rightarrow> nat \<Rightarrow> nat" where
  "daysBeforeMonth y m = sum_list (map (monthDays y) [1..<m])"

definition unixSeconds :: "civil \<Rightarrow> int" where
  "unixSeconds c =
     (let days = daysBeforeYear (cv_year c) + int (daysBeforeMonth (cv_year c) (cv_month c)) + int (cv_day c) - 1 - 719162 in
      days * 86400 + int (cv_hour c) * 3600 + int (cv_minute c) * 60 + int (cv_second c))"

subsection \<open>Reading a timestamp\<close>

definition numAt :: "string \<Rightarrow> nat \<Rightarrow> nat \<Rightarrow> nat" where
  "numAt s i k = nat (digitsVal (take k (drop i s)))"

definition digitsAt :: "string \<Rightarrow> nat \<Rightarrow> nat \<Rightarrow> bool" where
  "digitsAt s i k = (i + k \<le> length s \<and> list_all isDigit (take k (drop i s)))"

definition charAt :: "string \<Rightarrow> nat \<Rightarrow> char \<Rightarrow> bool" where
  "charAt s i c = (i < length s \<and> s ! i = c)"

text \<open>The first nineteen bytes of both layouts, with the byte that separates the date from the time.\<close>

definition stampShape :: "char \<Rightarrow> string \<Rightarrow> bool" where
  "stampShape sep s =
     (digitsAt s 0 4 \<and> charAt s 4 (CHR ''-'') \<and> digitsAt s 5 2 \<and> charAt s 7 (CHR ''-'') \<and> digitsAt s 8 2 \<and> charAt s 10 sep \<and>
      digitsAt s 11 2 \<and> charAt s 13 (CHR '':'') \<and> digitsAt s 14 2 \<and> charAt s 16 (CHR '':'') \<and> digitsAt s 17 2)"

definition stampCivil :: "string \<Rightarrow> civil" where
  "stampCivil s =
     \<lparr>cv_year = numAt s 0 4, cv_month = numAt s 5 2, cv_day = numAt s 8 2,
      cv_hour = numAt s 11 2, cv_minute = numAt s 14 2, cv_second = numAt s 17 2\<rparr>"

text \<open>The offset in seconds that a zone suffix stands for, in the form the regular expression admits.\<close>

definition zoneOffset :: "string \<Rightarrow> int option" where
  "zoneOffset z =
     (if z = ''Z'' then Some 0
      else if length z = 6 \<and> (charAt z 0 (CHR ''+'') \<or> charAt z 0 (CHR ''-'')) \<and> digitsAt z 1 2 \<and> charAt z 3 (CHR '':'') \<and>
              digitsAt z 4 2 \<and> numAt z 1 2 < 24 \<and> numAt z 4 2 < 60
      then Some ((if charAt z 0 (CHR ''-'') then - 1 else 1) * int (numAt z 1 2 * 3600 + numAt z 4 2 * 60))
      else None)"

text \<open>The fraction of a second in nanoseconds, and the zone behind it.\<close>

definition splitFraction :: "string \<Rightarrow> (nat \<times> string) option" where
  "splitFraction s =
     (if charAt s 0 (CHR ''.'') then
        (let ds = takeWhile isDigit (tl s); k = length ds in
         if 1 \<le> k \<and> k \<le> 9 then Some (nat (digitsVal ds) * 10 ^ (9 - k), dropWhile isDigit (tl s)) else None)
      else Some (0, s))"

text \<open>An instant: seconds since 1970 and nanoseconds. \<open>None\<close> is \<^verbatim>\<open>GXL-DATE-001\<close>.\<close>

definition parseStamp :: "string \<Rightarrow> (int \<times> nat) option" where
  "parseStamp s =
     (let c = stampCivil s in
      if length s = 19 \<and> charAt s 10 (CHR '' '') then
        (if stampShape (CHR '' '') s \<and> validCivil c \<and> 1 \<le> cv_year c then Some (unixSeconds c, 0) else None)
      else if \<not> stampShape (CHR ''T'') s then None
      else
        case splitFraction (drop 19 s) of
          None \<Rightarrow> None
        | Some (nanos, zone) \<Rightarrow>
            (case zoneOffset zone of
               None \<Rightarrow> None
             | Some offset \<Rightarrow>
                 if validCivil c \<and> 1 \<le> cv_year c then Some (unixSeconds c - offset, nanos) else None))"

definition compareInstants :: "int \<times> nat \<Rightarrow> int \<times> nat \<Rightarrow> int" where
  "compareInstants x y =
     (if fst x < fst y \<or> fst x = fst y \<and> snd x < snd y then - 1
      else if fst y < fst x \<or> fst x = fst y \<and> snd y < snd x then 1 else 0)"

text \<open>\<^verbatim>\<open>float64(a) + float64(b)/1e9\<close>, rounded at each step.\<close>

definition diffInstants :: "int \<times> nat \<Rightarrow> int \<times> nat \<Rightarrow> rat option" where
  "diffInstants x y =
     (case (roundF (of_int (fst x - fst y)), roundF (of_int (int (snd x) - int (snd y)))) of
        (Some s, Some n) \<Rightarrow> (case roundF (n / 10 ^ 9) of Some f \<Rightarrow> roundF (s + f) | None \<Rightarrow> None)
      | _ \<Rightarrow> None)"

definition callDate :: "string \<Rightarrow> pvalue list \<Rightarrow> gerror + pvalue" where
  "callDate name args =
     (if name \<noteq> ''compare'' \<and> name \<noteq> ''diffSeconds'' then Inl (Code ''GXL-PARSE-006'')
      else if length args \<noteq> 2 then Inl (Code ''GXL-TYPE-004'')
      else
        andThen (mapResult (\<lambda>a. case StringValue a of
            None \<Rightarrow> Inl (Code ''GXL-TYPE-003'')
          | Some text \<Rightarrow> (case parseStamp text of None \<Rightarrow> Inl (Code ''GXL-DATE-001'') | Some i \<Rightarrow> Inr i)) args) (\<lambda>dates.
        if name = ''compare'' then Number (roundF (of_int (compareInstants (dates ! 0) (dates ! 1))))
        else Number (diffInstants (dates ! 0) (dates ! 1))))"

subsection \<open>Writing the time\<close>

text \<open>The layout \<^verbatim>\<open>2006-01-02T15:04:05Z\<close> of a time in UTC.\<close>

definition formatStamp :: "civil \<Rightarrow> string" where
  "formatStamp c =
     zeroPadded 4 (int (cv_year c)) @ ''-'' @ zeroPadded 2 (int (cv_month c)) @ ''-'' @ zeroPadded 2 (int (cv_day c)) @ ''T'' @
     zeroPadded 2 (int (cv_hour c)) @ '':'' @ zeroPadded 2 (int (cv_minute c)) @ '':'' @ zeroPadded 2 (int (cv_second c)) @ ''Z''"

subsection \<open>Seconds follow the calendar\<close>

lemma div_step: "(x + 1) div k = x div k + (if (x + 1) mod k = 0 then 1 else 0)" if "0 < k" for x k :: int
proof -
  define q r where "q = (x + 1) div k" and "r = (x + 1) mod k"
  have "k * q + r = x + 1" by (simp add: q_def r_def)
  then have x: "x = k * q + (r - 1)" by linarith
  have r: "0 \<le> r" "r < k" using that by (simp_all add: r_def)
  have "x div k = (if r = 0 then q - 1 else q)"
  proof (cases "r = 0")
    case True
    with x have "x = k * (q - 1) + (k - 1)" by (simp add: right_diff_distrib)
    from int_div_pos_eq [OF this] that have "x div k = q - 1" by simp
    with True show ?thesis by simp
  next
    case False
    with x r show ?thesis by (simp add: int_div_pos_eq [OF x])
  qed
  then show ?thesis by (simp add: q_def r_def)
qed

lemma daysBeforeYear_Suc: "daysBeforeYear (Suc y) = daysBeforeYear y + (if isLeap y then 366 else 365)"
proof -
  have step: "int y div k = (int y - 1) div k + (if int y mod k = 0 then 1 else 0)" if "0 < k" for k
    using div_step [OF that, of "int y - 1"] by simp
  have mods: "int y mod int k = 0 \<longleftrightarrow> y mod k = 0" for k by (simp flip: zmod_int)
  have four: "int y div 4 = (int y - 1) div 4 + (if y mod 4 = 0 then 1 else 0)" using step [of 4] mods [of 4] by simp
  have hundred: "int y div 100 = (int y - 1) div 100 + (if y mod 100 = 0 then 1 else 0)" using step [of 100] mods [of 100] by simp
  have all: "int y div 400 = (int y - 1) div 400 + (if y mod 400 = 0 then 1 else 0)" using step [of 400] mods [of 400] by simp
  have "(4::nat) dvd 100" "(100::nat) dvd 400" by simp_all
  then have "y mod 400 = 0 \<longrightarrow> y mod 100 = 0" "y mod 100 = 0 \<longrightarrow> y mod 4 = 0"
    unfolding mod_eq_0_iff_dvd by (blast intro: dvd_trans)+
  moreover have "daysBeforeYear (Suc y) = 365 * int y + int y div 4 - int y div 100 + int y div 400"
    by (simp add: daysBeforeYear_def Let_def)
  moreover have "daysBeforeYear y = 365 * (int y - 1) + (int y - 1) div 4 - (int y - 1) div 100 + (int y - 1) div 400"
    by (simp add: daysBeforeYear_def Let_def)
  ultimately show ?thesis unfolding isLeap_def four hundred all by (simp split: if_split)
qed

lemma daysBeforeYear_mono: "y < y' \<Longrightarrow> daysBeforeYear y + (if isLeap y then 366 else 365) \<le> daysBeforeYear y'"
proof (induction y')
  case (Suc z)
  show ?case
  proof (cases "y = z")
    case False
    with Suc have "daysBeforeYear y + (if isLeap y then 366 else 365) \<le> daysBeforeYear z" by simp
    also have "\<dots> \<le> daysBeforeYear (Suc z)" by (simp add: daysBeforeYear_Suc)
    finally show ?thesis .
  qed (simp add: daysBeforeYear_Suc)
qed simp

lemma daysBeforeMonth_Suc: "1 \<le> m \<Longrightarrow> daysBeforeMonth y (Suc m) = daysBeforeMonth y m + monthDays y m"
  by (simp add: daysBeforeMonth_def)

lemma daysBeforeMonth_mono: "1 \<le> m \<Longrightarrow> m < m' \<Longrightarrow> daysBeforeMonth y m + monthDays y m \<le> daysBeforeMonth y m'"
proof (induction m')
  case (Suc z)
  then show ?case by (cases "m = z") (simp_all add: daysBeforeMonth_Suc)
qed simp

lemma daysBeforeMonth_year: "daysBeforeMonth y 13 = (if isLeap y then 366 else 365)"
proof -
  have "[1..<13] = [1, 2, 3, 4, 5, 6, 7, 8, 9, 10, 11, 12 :: nat]" by (simp add: upt_rec)
  then show ?thesis by (simp add: daysBeforeMonth_def monthDays_def)
qed

text \<open>The day of the year is within the year.\<close>

lemma day_of_year:
  assumes "validCivil c"
  shows "daysBeforeMonth (cv_year c) (cv_month c) + cv_day c \<le> (if isLeap (cv_year c) then 366 else 365)"
proof -
  have "daysBeforeMonth (cv_year c) (cv_month c) + monthDays (cv_year c) (cv_month c) \<le> daysBeforeMonth (cv_year c) 13"
    using assms by (intro daysBeforeMonth_mono) (simp_all add: validCivil_def)
  with assms show ?thesis unfolding daysBeforeMonth_year by (simp add: validCivil_def)
qed

text \<open>The fields of a time, most significant first.\<close>

definition fields :: "civil \<Rightarrow> nat list" where
  "fields c = [cv_year c, cv_month c, cv_day c, cv_hour c, cv_minute c, cv_second c]"

fun lexLess :: "nat list \<Rightarrow> nat list \<Rightarrow> bool" where
  "lexLess (x # xs) (y # ys) = (x < y \<or> x = y \<and> lexLess xs ys)"
| "lexLess _ _ = False"

definition dayNumber :: "civil \<Rightarrow> int" where
  "dayNumber c = daysBeforeYear (cv_year c) + int (daysBeforeMonth (cv_year c) (cv_month c)) + int (cv_day c)"

lemma dayNumber_less:
  assumes "validCivil c" and "validCivil d"
    and "lexLess [cv_year c, cv_month c, cv_day c] [cv_year d, cv_month d, cv_day d]"
  shows "dayNumber c < dayNumber d"
proof -
  have day: "1 \<le> cv_day d" "1 \<le> cv_month c" "cv_day c \<le> monthDays (cv_year c) (cv_month c)"
    using assms(1,2) by (simp_all add: validCivil_def)
  consider (year) "cv_year c < cv_year d" | (month) "cv_year c = cv_year d" "cv_month c < cv_month d"
    | (day) "cv_year c = cv_year d" "cv_month c = cv_month d" "cv_day c < cv_day d" using assms(3) by auto
  then show ?thesis
  proof cases
    case year
    from daysBeforeYear_mono [OF year] day_of_year [OF assms(1)] day show ?thesis
      by (auto simp: dayNumber_def split: if_split_asm)
  next
    case month
    from daysBeforeMonth_mono [OF day(2) month(2), of "cv_year c"] day month(1) show ?thesis by (simp add: dayNumber_def)
  qed (simp add: dayNumber_def)
qed

lemma unixSeconds_day:
  "unixSeconds c = (dayNumber c - 719163) * 86400 + int (cv_hour c) * 3600 + int (cv_minute c) * 60 + int (cv_second c)"
  by (simp add: unixSeconds_def dayNumber_def Let_def)

lemma seconds_carry:
  fixes d d' h h' m m' s s' :: int
  assumes "d + 1 \<le> d'" and "h \<le> 23" "m \<le> 59" "s \<le> 59" and "0 \<le> h'" "0 \<le> m'" "0 \<le> s'"
  shows "(d - 719163) * 86400 + h * 3600 + m * 60 + s < (d' - 719163) * 86400 + h' * 3600 + m' * 60 + s'"
proof -
  have "d * 86400 + 86400 \<le> d' * 86400" using assms(1) by linarith
  with assms(2-) show ?thesis by (simp add: left_diff_distrib)
qed

lemma unixSeconds_less:
  assumes "validCivil c" and "validCivil d" and "lexLess (fields c) (fields d)"
  shows "unixSeconds c < unixSeconds d"
proof -
  have time: "int (cv_hour c) \<le> 23" "int (cv_minute c) \<le> 59" "int (cv_second c) \<le> 59"
      "int (cv_hour d) \<le> 23" "int (cv_minute d) \<le> 59" "int (cv_second d) \<le> 59"
      "0 \<le> int (cv_hour d)" "0 \<le> int (cv_minute d)" "0 \<le> int (cv_second d)"
    using assms(1,2) by (simp_all add: validCivil_def)
  show ?thesis
  proof (cases "lexLess [cv_year c, cv_month c, cv_day c] [cv_year d, cv_month d, cv_day d]")
    case True
    from dayNumber_less [OF assms(1,2) True] have "dayNumber c + 1 \<le> dayNumber d" by simp
    with time show ?thesis unfolding unixSeconds_day by (intro seconds_carry)
  next
    case False
    with assms(3) have "dayNumber c = dayNumber d" "lexLess [cv_hour c, cv_minute c, cv_second c] [cv_hour d, cv_minute d, cv_second d]"
      by (auto simp: fields_def dayNumber_def)
    with time show ?thesis unfolding unixSeconds_day by auto
  qed
qed

subsection \<open>Reading what was written\<close>

lemma digit_chars: "''0123456789'' = map (\<lambda>n. char_of (48 + n :: nat)) [0..<10]"
  by code_simp

lemma zero_char: "CHR ''0'' = char_of (48 :: nat)"
  by code_simp

lemma digit_char [simp]: "n < 10 \<Longrightarrow> isDigit (char_of (48 + n :: nat))" "n < 10 \<Longrightarrow> digitVal (char_of (48 + n)) = n"
proof -
  assume n: "n < 10"
  then show "isDigit (char_of (48 + n))" unfolding isDigit_def digit_chars by auto
  show "digitVal (char_of (48 + n)) = n" using n by (simp add: digitVal_def)
qed

lemma natDigits_digits:
  "n < 10 \<Longrightarrow> natDigits n = [char_of (48 + n)]"
  "10 \<le> n \<Longrightarrow> n < 100 \<Longrightarrow> natDigits n = [char_of (48 + n div 10), char_of (48 + n mod 10)]"
  "100 \<le> n \<Longrightarrow> n < 1000 \<Longrightarrow> natDigits n = [char_of (48 + n div 100), char_of (48 + n div 10 mod 10), char_of (48 + n mod 10)]"
  "1000 \<le> n \<Longrightarrow> n < 10000 \<Longrightarrow> natDigits n =
     [char_of (48 + n div 1000), char_of (48 + n div 100 mod 10), char_of (48 + n div 10 mod 10), char_of (48 + n mod 10)]"
proof -
  have more: "natDigits n = natDigits (n div 10) @ [char_of (48 + n mod 10)]" if "10 \<le> n" for n
    using that by (subst natDigits.simps) simp
  have nest: "n div 10 div 10 = n div 100" "n div 10 div 100 = n div 1000" for n :: nat by (simp_all flip: div_mult2_eq)
  show one: "natDigits n = [char_of (48 + n)]" if "n < 10" for n using that by (subst natDigits.simps) simp
  show two: "natDigits n = [char_of (48 + n div 10), char_of (48 + n mod 10)]" if "10 \<le> n" "n < 100" for n
    using more [OF that(1)] one [of "n div 10"] that(2) by (simp add: div_less_iff_less_mult)
  show three: "natDigits n = [char_of (48 + n div 100), char_of (48 + n div 10 mod 10), char_of (48 + n mod 10)]"
    if "100 \<le> n" "n < 1000" for n
    using more [of n] two [of "n div 10"] that by (simp add: div_less_iff_less_mult less_eq_div_iff_mult_less_eq nest)
  show "natDigits n = [char_of (48 + n div 1000), char_of (48 + n div 100 mod 10), char_of (48 + n div 10 mod 10), char_of (48 + n mod 10)]"
    if "1000 \<le> n" "n < 10000" for n
    using more [of n] three [of "n div 10"] that by (simp add: div_less_iff_less_mult less_eq_div_iff_mult_less_eq nest)
qed

lemma zeroPadded_nat: "zeroPadded w (int n) = replicate (w - length (natDigits n)) (char_of (48 :: nat)) @ natDigits n"
  by (simp add: zeroPadded_def Let_def zero_char)

lemma zeroPadded_two:
  assumes "n < 100"
  shows "zeroPadded 2 (int n) = [char_of (48 + n div 10), char_of (48 + n mod 10)]"
  using assms natDigits_digits(1,2) [of n] by (cases "n < 10") (simp_all add: zeroPadded_nat)

lemma zeroPadded_four:
  assumes "n < 10000"
  shows "zeroPadded 4 (int n) =
    [char_of (48 + n div 1000), char_of (48 + n div 100 mod 10), char_of (48 + n div 10 mod 10), char_of (48 + n mod 10)]"
proof -
  consider "n < 10" | "10 \<le> n" "n < 100" | "100 \<le> n" "n < 1000" | "1000 \<le> n" using assms by linarith
  then show ?thesis
    by cases (use assms natDigits_digits [of n] in \<open>simp_all add: zeroPadded_nat replicate_Suc numeral_3_eq_3 numeral_2_eq_2\<close>)
qed

lemma formatStamp_chars:
  assumes "validCivil c" and "cv_year c \<le> 9999"
  shows "formatStamp c =
    [char_of (48 + cv_year c div 1000), char_of (48 + cv_year c div 100 mod 10), char_of (48 + cv_year c div 10 mod 10),
     char_of (48 + cv_year c mod 10), CHR ''-'', char_of (48 + cv_month c div 10), char_of (48 + cv_month c mod 10), CHR ''-'',
     char_of (48 + cv_day c div 10), char_of (48 + cv_day c mod 10), CHR ''T'', char_of (48 + cv_hour c div 10),
     char_of (48 + cv_hour c mod 10), CHR '':'', char_of (48 + cv_minute c div 10), char_of (48 + cv_minute c mod 10), CHR '':'',
     char_of (48 + cv_second c div 10), char_of (48 + cv_second c mod 10), CHR ''Z'']"
proof -
  have "cv_month c < 100" "cv_day c < 100" "cv_hour c < 100" "cv_minute c < 100" "cv_second c < 100" "cv_year c < 10000"
    using assms by (auto simp: validCivil_def monthDays_def split: if_split_asm)
  then show ?thesis unfolding formatStamp_def by (simp add: zeroPadded_two zeroPadded_four)
qed

lemma numAt_two: "n < 100 \<Longrightarrow> digitsVal [char_of (48 + n div 10), char_of (48 + n mod 10)] = int n"
  by (simp add: digitsVal_def)

lemma numAt_four:
  assumes "n < 10000"
  shows "digitsVal [char_of (48 + n div 1000), char_of (48 + n div 100 mod 10), char_of (48 + n div 10 mod 10), char_of (48 + n mod 10)] = int n"
proof -
  have "n div 1000 < 10" using assms by auto
  moreover have "10 * (10 * (10 * (n div 1000) + n div 100 mod 10) + n div 10 mod 10) + n mod 10 = n"
  proof -
    have "n div 100 = n div 10 div 10" "n div 1000 = n div 10 div 10 div 10" by (simp_all flip: div_mult2_eq)
    moreover have "10 * (k div 10) + k mod 10 = k" for k :: nat by simp
    ultimately show ?thesis by metis
  qed
  ultimately show ?thesis by (simp add: digitsVal_def)
qed

lemma parseStamp_formatStamp:
  assumes "validCivil c" and "1 \<le> cv_year c" and "cv_year c \<le> 9999"
  shows "parseStamp (formatStamp c) = Some (unixSeconds c, 0)"
proof -
  have small: "cv_month c < 100" "cv_day c < 100" "cv_hour c < 100" "cv_minute c < 100" "cv_second c < 100" "cv_year c < 10000"
    using assms by (auto simp: validCivil_def monthDays_def split: if_split_asm)
  note f = formatStamp_chars [OF assms(1,3)]
  have tens: "n < 100 \<Longrightarrow> n div 10 < 10" "n < 10000 \<Longrightarrow> n div 1000 < 10" for n :: nat by auto
  have shape: "stampShape (CHR ''T'') (formatStamp c)"
    using small unfolding f by (simp add: stampShape_def digitsAt_def charAt_def tens)
  have "numAt (formatStamp c) 0 4 = cv_year c" "numAt (formatStamp c) 5 2 = cv_month c" "numAt (formatStamp c) 8 2 = cv_day c"
    "numAt (formatStamp c) 11 2 = cv_hour c" "numAt (formatStamp c) 14 2 = cv_minute c" "numAt (formatStamp c) 17 2 = cv_second c"
    using small unfolding f numAt_def by (simp_all add: numAt_two numAt_four)
  then have civil: "stampCivil (formatStamp c) = c" by (simp add: stampCivil_def)
  have rest: "drop 19 (formatStamp c) = ''Z''" "length (formatStamp c) = 20" unfolding f by simp_all
  show ?thesis
    unfolding parseStamp_def civil rest Let_def using shape assms
    by (simp add: splitFraction_def charAt_def zoneOffset_def)
qed

subsection \<open>The order of timestamps\<close>

lemma lexLess_total: "length xs = length ys \<Longrightarrow> xs = ys \<or> lexLess xs ys \<or> lexLess ys xs"
  by (induction xs ys rule: list_induct2) auto

lemma fields_inject: "fields c = fields d \<longleftrightarrow> c = d"
  by (cases c; cases d) (auto simp: fields_def)

lemma compareInstants_values: "compareInstants x y \<in> {- 1, 0, 1}"
  by (simp add: compareInstants_def)

lemma compareInstants_swap: "compareInstants y x = - compareInstants x y"
  by (auto simp: compareInstants_def)

lemma Number_small: "\<bar>i\<bar> \<le> 2 ^ 53 \<Longrightarrow> Number (roundF (of_int i)) = Inr (VNumber (of_int i))"
  by (simp add: Number_def roundF_int)

text \<open>
  C25. The string that \<^verbatim>\<open>now()\<close> produces for a time is a timestamp that the date functions accept, and
  \<^verbatim>\<open>date.compare\<close> orders such strings as the calendar orders the times.
\<close>

theorem written_times_compare:
  assumes "validCivil c" and "1 \<le> cv_year c" and "cv_year c \<le> 9999"
    and "validCivil d" and "1 \<le> cv_year d" and "cv_year d \<le> 9999"
  shows "callDate ''compare'' [VString (formatStamp c), VString (formatStamp d)] =
    Inr (VNumber (if lexLess (fields c) (fields d) then - 1 else if c = d then 0 else 1))"
proof -
  have "compareInstants (unixSeconds c, 0) (unixSeconds d, 0) =
      (if lexLess (fields c) (fields d) then - 1 else if c = d then 0 else 1)"
    using unixSeconds_less [OF assms(1,4)] unixSeconds_less [OF assms(4,1)]
      lexLess_total [of "fields c" "fields d"] fields_inject [of c d]
    by (auto simp: compareInstants_def fields_def)
  moreover have "Number (roundF (of_int i)) = Inr (VNumber (of_int i))" if "i \<in> {- 1, 0, 1}" for i
    using that by (intro Number_small) auto
  ultimately show ?thesis
    using parseStamp_formatStamp [OF assms(1-3)] parseStamp_formatStamp [OF assms(4-6)]
    by (simp add: callDate_def)
qed

definition sampleMoment :: civil where
  "sampleMoment = \<lparr>cv_year = 2024, cv_month = 2, cv_day = 29, cv_hour = 23, cv_minute = 59, cv_second = 59\<rparr>"

definition sampleLater :: civil where
  "sampleLater = \<lparr>cv_year = 2024, cv_month = 3, cv_day = 1, cv_hour = 0, cv_minute = 0, cv_second = 0\<rparr>"

theorem written_times_compare_witness:
  "callDate ''compare'' [VString (formatStamp sampleMoment), VString (formatStamp sampleLater)] = Inr (VNumber (- 1))"
  using written_times_compare [of sampleMoment sampleLater]
  by (simp add: sampleMoment_def sampleLater_def validCivil_def monthDays_def isLeap_def fields_def)

end
