(* ===== verification/Gxl_Eval.thy ===== *)
theory Gxl_Eval
  imports Gxl_Parser Gxl_Order Gxl_Date
begin

section \<open>Evaluation of expressions\<close>

text \<open>
  \<^verbatim>\<open>runtime/pkg/gxl/eval/eval.go\<close> and \<^verbatim>\<open>ordering.go\<close>. The state of an evaluation is the shared budget and the number of
  clock readings so far. Regular expressions, the case mappings of Unicode and the wall clock are parameters.
\<close>

subsection \<open>Scopes\<close>

record gxl_lib =
  gl_regex :: "string \<Rightarrow> string \<Rightarrow> bool option"
  gl_toLower :: "nat \<Rightarrow> nat"
  gl_toUpper :: "nat \<Rightarrow> nat"
  gl_now :: "nat \<Rightarrow> civil"

text \<open>\<open>sc_budget\<close> says whether the scope points to the shared budget.\<close>

datatype scope = Scope
  (sc_vars: "(string \<times> pvalue) list")
  (sc_parent: "scope option")
  (sc_clock: "(nat \<Rightarrow> civil) option")
  (sc_budget: bool)

definition NewScope :: "pvalue gomap \<Rightarrow> scope option \<Rightarrow> scope" where
  "NewScope vars parent = Scope vars parent None False"

definition WithClock :: "(nat \<Rightarrow> civil) \<Rightarrow> scope option \<Rightarrow> scope" where
  "WithClock clock sc =
     (case sc of None \<Rightarrow> Scope [] None (Some clock) False | Some s \<Rightarrow> Scope (sc_vars s) (sc_parent s) (Some clock) False)"

definition normalizeScope :: "scope option \<Rightarrow> scope" where
  "normalizeScope sc = (case sc of None \<Rightarrow> NewScope [] None | Some s \<Rightarrow> s)"

definition WithBudget :: "scope option \<Rightarrow> scope" where
  "WithBudget sc = (let s = normalizeScope sc in Scope (sc_vars s) (sc_parent s) (sc_clock s) True)"

definition scopeFromAny :: "goany gomap \<Rightarrow> gerror + scope" where
  "scopeFromAny vars =
     andThen (mapResult (\<lambda>(k, raw). andThen (FromAny raw) (\<lambda>v. Inr (k, v))) vars) (\<lambda>converted. Inr (NewScope converted None))"

text \<open>The bindings of the outermost scope first, overridden by the inner ones.\<close>

fun fillScope :: "scope \<Rightarrow> pvalue gomap" where
  "fillScope (Scope vars parent clock budget) =
     fold (\<lambda>(k, v). mput k v) vars (case parent of None \<Rightarrow> [] | Some p \<Rightarrow> fillScope p)"

definition Tree :: "scope \<Rightarrow> pvalue" where
  "Tree sc = VObject (fillScope sc)"

fun resolveClock :: "gxl_lib \<Rightarrow> scope \<Rightarrow> nat \<Rightarrow> civil" where
  "resolveClock L (Scope vars parent clock budget) =
     (case clock of Some c \<Rightarrow> c | None \<Rightarrow> (case parent of None \<Rightarrow> gl_now L | Some p \<Rightarrow> resolveClock L p))"

subsection \<open>Values\<close>

definition strictBool :: "pvalue \<Rightarrow> gerror + bool" where
  "strictBool v = (case BoolValue v of None \<Rightarrow> Inl (Code ''GXL-TYPE-002'') | Some b \<Rightarrow> Inr b)"

fun evalLiteral :: "litValue \<Rightarrow> gerror + pvalue" where
  "evalLiteral LitNull = Inr VNull"
| "evalLiteral (LitBool b) = Inr (VBool b)"
| "evalLiteral (LitString s) = NewString s"
| "evalLiteral (LitNumber n) = Number (Some n)"

definition toGDPPath :: "string \<Rightarrow> pathSegment list \<Rightarrow> path" where
  "toGDPPath rt segs =
     \<lparr>pt_Dialect = DialectGXL, pt_Root = rt,
      pt_Segments = map (\<lambda>s. \<lparr>sg_Hop = (case ps_Index s of Some i \<Rightarrow> HopIndex i | None \<Rightarrow> HopName (ps_Name s)),
                               sg_Optional = ps_Optional s\<rparr>) segs\<rparr>"

definition evalPath :: "string \<Rightarrow> pathSegment list \<Rightarrow> scope \<Rightarrow> gerror + pvalue" where
  "evalPath rt segs sc = Resolve (Tree sc) (toGDPPath rt segs)"

definition evalUnary :: "string \<Rightarrow> pvalue \<Rightarrow> gerror + pvalue" where
  "evalUnary op v =
     (if op = ''not'' then andThen (strictBool v) (\<lambda>b. Inr (VBool (\<not> b)))
      else if op = ''-'' then (case NumberValue v of None \<Rightarrow> Inl (Code ''GXL-TYPE-003'') | Some n \<Rightarrow> Number (Some (- n)))
      else Inl (Code ''GXL-EVAL-001''))"

definition floatOp :: "string \<Rightarrow> rat \<Rightarrow> rat \<Rightarrow> rat option" where
  "floatOp op l r =
     (if op = ''+'' then roundF (l + r) else if op = ''-'' then roundF (l - r) else if op = ''*'' then roundF (l * r)
      else if op = ''/'' then roundF (l / r) else Some (fmod l r))"

definition evalArithmetic :: "string \<Rightarrow> pvalue \<Rightarrow> pvalue \<Rightarrow> gerror + pvalue" where
  "evalArithmetic op left right =
     (case (NumberValue left, NumberValue right) of
        (Some l, Some r) \<Rightarrow>
          if (op = ''/'' \<or> op = ''%'') \<and> r = 0 then Inl (Code ''GXL-EVAL-002'')
          else (case Number (floatOp op l r) of Inl e \<Rightarrow> Inl (Code ''GXL-EVAL-001'') | Inr v \<Rightarrow> Inr v)
      | _ \<Rightarrow> Inl (Code ''GXL-TYPE-003''))"

definition equalScalars :: "pvalue \<Rightarrow> pvalue \<Rightarrow> gerror + bool" where
  "equalScalars left right =
     (let l = kindOf left; r = kindOf right in
      if l \<in> {KindArray, KindObject} \<or> r \<in> {KindArray, KindObject} then Inl (Code ''GXL-TYPE-001'')
      else if l = KindNull \<or> r = KindNull then Inr (l = KindNull \<and> r = KindNull)
      else if l \<noteq> r then Inl (Code ''GXL-TYPE-001'')
      else Inr (Equal left right))"

definition compareFloat :: "string \<Rightarrow> rat \<Rightarrow> rat \<Rightarrow> bool" where
  "compareFloat op l r =
     (if op = ''<'' then l < r else if op = ''<='' then l \<le> r else if op = ''>'' then l > r else if op = ''>='' then l \<ge> r else False)"

definition compareString :: "string \<Rightarrow> string \<Rightarrow> string \<Rightarrow> bool" where
  "compareString op l r =
     (if op = ''<'' then bytesLess l r else if op = ''<='' then \<not> bytesLess r l
      else if op = ''>'' then bytesLess r l else if op = ''>='' then \<not> bytesLess l r else False)"

definition evalComparison :: "string \<Rightarrow> pvalue \<Rightarrow> pvalue \<Rightarrow> gerror + pvalue" where
  "evalComparison op left right =
     (if op = ''=='' \<or> op = ''!='' then
        andThen (equalScalars left right) (\<lambda>eq. Inr (VBool (if op = ''!='' then \<not> eq else eq)))
      else if kindOf left = KindNull \<or> kindOf right = KindNull then Inl (Code ''GXL-EVAL-004'')
      else if kindOf left \<noteq> kindOf right then Inl (Code ''GXL-TYPE-001'')
      else
        case (left, right) of
          (VNumber l, VNumber r) \<Rightarrow> Inr (VBool (compareFloat op l r))
        | (VString l, VString r) \<Rightarrow> Inr (VBool (compareString op l r))
        | (VBool l, _) \<Rightarrow> Inl (Code ''GXL-TYPE-005'')
        | _ \<Rightarrow> Inl (Code ''GXL-TYPE-001''))"

definition evalOperator :: "string \<Rightarrow> pvalue \<Rightarrow> pvalue \<Rightarrow> gerror + pvalue" where
  "evalOperator op left right =
     (if op \<in> set [''+'', ''-'', ''*'', ''/'', ''%''] then evalArithmetic op left right
      else if op \<in> set [''=='', ''!='', ''<'', ''<='', ''>'', ''>=''] then evalComparison op left right
      else Inl (Code ''GXL-EVAL-001''))"

subsection \<open>Built-in functions\<close>

definition lengthValue :: "pvalue \<Rightarrow> gerror + pvalue" where
  "lengthValue v =
     (case StringValue v of
        Some s \<Rightarrow> Number (roundF (of_nat (length (runes s))))
      | None \<Rightarrow>
          (case ArrayValue v of
             Some a \<Rightarrow> Number (roundF (of_nat (length a)))
           | None \<Rightarrow> Inl (Code ''GXL-TYPE-003'')))"

definition oneString :: "pvalue list \<Rightarrow> gerror + string" where
  "oneString args =
     (if length args \<noteq> 1 then Inl (Code ''GXL-TYPE-004'')
      else case StringValue (args ! 0) of None \<Rightarrow> Inl (Code ''GXL-TYPE-003'') | Some s \<Rightarrow> Inr s)"

definition twoStrings :: "pvalue list \<Rightarrow> gerror + string \<times> string" where
  "twoStrings args =
     (if length args \<noteq> 2 then Inl (Code ''GXL-TYPE-004'')
      else case StringValue (args ! 0) of
        None \<Rightarrow> Inl (Code ''GXL-TYPE-003'')
      | Some a \<Rightarrow> (case StringValue (args ! 1) of None \<Rightarrow> Inl (Code ''GXL-TYPE-003'') | Some b \<Rightarrow> Inr (a, b)))"

definition containsString :: "string \<Rightarrow> string \<Rightarrow> bool" where
  "containsString s t = list_ex (\<lambda>i. hasPrefix (drop i s) t) [0..<Suc (length s)]"

text \<open>\<^verbatim>\<open>strings.Map\<close>, which \<^verbatim>\<open>ToLower\<close> and \<^verbatim>\<open>ToUpper\<close> are.\<close>

definition mapRunes :: "(nat \<Rightarrow> nat) \<Rightarrow> string \<Rightarrow> string" where
  "mapRunes f s = encodeRunes (map f (runes s))"

definition callString :: "gxl_lib \<Rightarrow> string \<Rightarrow> pvalue list \<Rightarrow> gerror + pvalue" where
  "callString L name args =
     (if name = ''startsWith'' then andThen (twoStrings args) (\<lambda>(s, p). Inr (VBool (hasPrefix s p)))
      else if name = ''endsWith'' then andThen (twoStrings args) (\<lambda>(s, p). Inr (VBool (hasSuffix s p)))
      else if name = ''contains'' then andThen (twoStrings args) (\<lambda>(s, p). Inr (VBool (containsString s p)))
      else if name = ''toLower'' then andThen (oneString args) (\<lambda>s. NewString (mapRunes (gl_toLower L) s))
      else if name = ''toUpper'' then andThen (oneString args) (\<lambda>s. NewString (mapRunes (gl_toUpper L) s))
      else if name = ''trim'' then andThen (oneString args) (\<lambda>s. NewString (trimSpace s))
      else if name = ''length'' then (if length args \<noteq> 1 then Inl (Code ''GXL-TYPE-004'') else lengthValue (args ! 0))
      else if name = ''trimPrefix'' then andThen (twoStrings args) (\<lambda>(s, p). NewString (trimPrefix s p))
      else if name = ''trimSuffix'' then andThen (twoStrings args) (\<lambda>(s, p). NewString (trimSuffix s p))
      else Inl (Code ''GXL-PARSE-006''))"

definition isScalar :: "pvalue \<Rightarrow> bool" where
  "isScalar v = (kindOf v \<in> {KindBool, KindNumber, KindString})"

text \<open>The loop of \<^verbatim>\<open>listIndex\<close> from position \<open>i\<close> on; elements that are no scalars, or of another kind, are passed over.\<close>

fun findIndex :: "nat \<Rightarrow> pvalue \<Rightarrow> pvalue list \<Rightarrow> int" where
  "findIndex i item [] = - 1"
| "findIndex i item (v # vs) =
     (if isScalar v \<and> kindOf v = kindOf item \<and> Equal v item then int i else findIndex (Suc i) item vs)"

definition listIndex :: "pvalue list \<Rightarrow> gerror + int" where
  "listIndex args =
     (if length args \<noteq> 2 then Inl (Code ''GXL-TYPE-004'')
      else case ArrayValue (args ! 0) of
        None \<Rightarrow> Inl (Code ''GXL-TYPE-003'')
      | Some arr \<Rightarrow>
          if kindOf (args ! 1) = KindNull then Inr (- 1)
          else if \<not> isScalar (args ! 1) then Inl (Code ''GXL-TYPE-003'')
          else Inr (findIndex 0 (args ! 1) arr))"

definition callList :: "string \<Rightarrow> pvalue list \<Rightarrow> gerror + pvalue" where
  "callList name args =
     (if name = ''contains'' then andThen (listIndex args) (\<lambda>i. Inr (VBool (0 \<le> i)))
      else if name = ''indexOf'' then andThen (listIndex args) (\<lambda>i. Number (roundF (of_int i)))
      else if name = ''length'' then
        (if length args \<noteq> 1 then Inl (Code ''GXL-TYPE-004'')
         else case ArrayValue (args ! 0) of
           None \<Rightarrow> Inl (Code ''GXL-TYPE-003'')
         | Some a \<Rightarrow> Number (roundF (of_nat (length a))))
      else Inl (Code ''GXL-PARSE-006''))"

definition callRegex :: "gxl_lib \<Rightarrow> string \<Rightarrow> pvalue list \<Rightarrow> gerror + pvalue" where
  "callRegex L name args =
     (if name \<noteq> ''match'' then Inl (Code ''GXL-PARSE-006'')
      else
        andThen (twoStrings args) (\<lambda>(s, pattern).
          case gl_regex L pattern s of None \<Rightarrow> Inl (Code ''GXL-EVAL-003'') | Some b \<Rightarrow> Inr (VBool b)))"

definition callLen :: "pvalue list \<Rightarrow> gerror + pvalue" where
  "callLen args = (if length args \<noteq> 1 then Inl (Code ''GXL-TYPE-004'') else lengthValue (args ! 0))"

subsection \<open>The state of an evaluation\<close>

record estate =
  es_budget :: int
  es_reads :: nat

type_synonym 'a outcome = "(gerror + 'a) \<times> estate"

definition thenE :: "'a outcome \<Rightarrow> ('a \<Rightarrow> estate \<Rightarrow> 'b outcome) \<Rightarrow> 'b outcome" where
  "thenE r f = (case r of (Inl e, st) \<Rightarrow> (Inl e, st) | (Inr a, st) \<Rightarrow> f a st)"

lemma thenE_simps [simp]: "thenE (Inl e, st) f = (Inl e, st)" "thenE (Inr a, st) f = f a st"
  by (simp_all add: thenE_def)

text \<open>Entering a node costs one unit of the budget the scope points to.\<close>

definition spend :: "bool \<Rightarrow> estate \<Rightarrow> unit outcome" where
  "spend limited st =
     (if limited then
        (let b = es_budget st - 1 in (if b < 0 then Inl (Code ''GXL-LIMIT-001'') else Inr (), st\<lparr>es_budget := b\<rparr>))
      else (Inr (), st))"

definition callNow :: "gxl_lib \<Rightarrow> pvalue list \<Rightarrow> scope \<Rightarrow> estate \<Rightarrow> pvalue outcome" where
  "callNow L args sc st =
     (if args \<noteq> [] then (Inl (Code ''GXL-TYPE-004''), st)
      else (NewString (formatStamp (resolveClock L sc (es_reads st))), st\<lparr>es_reads := Suc (es_reads st)\<rparr>))"

text \<open>
  The built-in functions, with the evaluation of \<^verbatim>\<open>list.order\<close> as an argument: it evaluates comparators and is
  defined below.
\<close>

type_synonym orderer = "pvalue list \<Rightarrow> bool \<Rightarrow> estate \<Rightarrow> pvalue outcome"

definition callBuiltin :: "gxl_lib \<Rightarrow> orderer \<Rightarrow> string \<Rightarrow> string \<Rightarrow> pvalue list \<Rightarrow> scope \<Rightarrow> estate \<Rightarrow> pvalue outcome" where
  "callBuiltin L order namespace name args sc st =
     (if namespace = '''' \<and> name = ''len'' then (callLen args, st)
      else if namespace = '''' \<and> name = ''now'' then callNow L args sc st
      else if namespace = ''str'' then (callString L name args, st)
      else if namespace = ''list'' then (if name = ''order'' then order args (sc_budget sc) st else (callList name args, st))
      else if namespace = ''regex'' then (callRegex L name args, st)
      else if namespace = ''date'' then (callDate name args, st)
      else (Inl (Code ''GXL-PARSE-005''), st))"

fun evalNode :: "gxl_lib \<Rightarrow> orderer \<Rightarrow> scope \<Rightarrow> node \<Rightarrow> estate \<Rightarrow> pvalue outcome"
  and evalArgs :: "gxl_lib \<Rightarrow> orderer \<Rightarrow> scope \<Rightarrow> node list \<Rightarrow> estate \<Rightarrow> pvalue list outcome" where
  "evalNode L order sc (Literal v) st = thenE (spend (sc_budget sc) st) (\<lambda>_ st. (evalLiteral v, st))"
| "evalNode L order sc (Group e) st = thenE (spend (sc_budget sc) st) (\<lambda>_ st. evalNode L order sc e st)"
| "evalNode L order sc (PathRef rt segs) st = thenE (spend (sc_budget sc) st) (\<lambda>_ st. (evalPath rt segs sc, st))"
| "evalNode L order sc (UnaryOp op e) st =
     thenE (spend (sc_budget sc) st) (\<lambda>_ st. thenE (evalNode L order sc e st) (\<lambda>v st. (evalUnary op v, st)))"
| "evalNode L order sc (BinaryOp op l r) st =
     thenE (spend (sc_budget sc) st) (\<lambda>_ st.
     thenE (evalNode L order sc l st) (\<lambda>v st.
       if op = ''and'' \<or> op = ''or'' then
         thenE (strictBool v, st) (\<lambda>b st.
           if b = (op = ''or'') then (Inr (VBool b), st)
           else thenE (evalNode L order sc r st) (\<lambda>w st. (andThen (strictBool w) (\<lambda>rb. Inr (VBool rb)), st)))
       else thenE (evalNode L order sc r st) (\<lambda>w st. (evalOperator op v w, st))))"
| "evalNode L order sc (Call namespace name args) st =
     thenE (spend (sc_budget sc) st) (\<lambda>_ st.
     thenE (evalArgs L order sc args st) (\<lambda>vs st. callBuiltin L order namespace name vs sc st))"
| "evalArgs L order sc [] st = (Inr [], st)"
| "evalArgs L order sc (n # ns) st =
     thenE (evalNode L order sc n st) (\<lambda>v st. thenE (evalArgs L order sc ns st) (\<lambda>vs st. (Inr (v # vs), st)))"

subsection \<open>Ordering lists\<close>

definition maxOrderItems :: nat where
  "maxOrderItems = 256"

fun validateOrderComparator :: "node \<Rightarrow> gerror + unit" where
  "validateOrderComparator (PathRef rt segs) =
     (if rt \<noteq> ''left'' \<and> rt \<noteq> ''right'' then Inl (Code ''GXL-ORDER-001'') else Inr ())"
| "validateOrderComparator (Call namespace name args) =
     (if namespace = '''' \<and> name = ''now'' \<or> namespace = ''list'' \<and> name = ''order'' then Inl (Code ''GXL-ORDER-001'')
      else firstError validateOrderComparator args)"
| "validateOrderComparator (BinaryOp op l r) = andThen (validateOrderComparator l) (\<lambda>_. validateOrderComparator r)"
| "validateOrderComparator (UnaryOp op e) = validateOrderComparator e"
| "validateOrderComparator (Group e) = validateOrderComparator e"
| "validateOrderComparator (Literal v) = Inr ()"

text \<open>Comparators that pass the validation call no \<^verbatim>\<open>list.order\<close>, so what stands for it in their evaluation plays no part.\<close>

definition noOrder :: orderer where
  "noOrder args limited st = (Inl (Code ''GXL-ORDER-001''), st)"

definition lessBy :: "gxl_lib \<Rightarrow> node \<Rightarrow> bool \<Rightarrow> pvalue \<Rightarrow> pvalue \<Rightarrow> estate \<Rightarrow> bool outcome" where
  "lessBy L comparator limited left right st =
     thenE (evalNode L noOrder (Scope [(''left'', left), (''right'', right)] None None limited) comparator st)
       (\<lambda>v st. (strictBool v, st))"

fun comparePairs :: "(pvalue \<Rightarrow> pvalue \<Rightarrow> estate \<Rightarrow> bool outcome) \<Rightarrow> pvalue list \<Rightarrow> (nat \<times> nat) list \<Rightarrow> order_graph \<Rightarrow>
    estate \<Rightarrow> order_graph outcome" where
  "comparePairs lt items [] g st = (Inr g, st)"
| "comparePairs lt items ((i, j) # ps) g st =
     thenE (lt (items ! i) (items ! j) st) (\<lambda>before st.
     thenE (lt (items ! j) (items ! i) st) (\<lambda>after st.
     comparePairs lt items ps (addPair i j before after g) st))"

definition callOrder :: "gxl_lib \<Rightarrow> orderer" where
  "callOrder L args limited st =
     (if length args \<noteq> 2 then (Inl (Code ''GXL-TYPE-004''), st)
      else case ArrayValue (args ! 0) of
        None \<Rightarrow> (Inl (Code ''GXL-TYPE-003''), st)
      | Some items \<Rightarrow>
          if maxOrderItems < length items then (Inl (Code ''GXL-ORDER-002''), st)
          else case StringValue (args ! 1) of
            None \<Rightarrow> (Inl (Code ''GXL-TYPE-003''), st)
          | Some source \<Rightarrow>
              (case andThen (Parse source) (\<lambda>n. andThen (validateOrderComparator n) (\<lambda>_. Inr n)) of
                 Inl e \<Rightarrow> (Inl e, st)
               | Inr comparator \<Rightarrow>
                   thenE (comparePairs (lessBy L comparator limited) items (pairs (length items)) (emptyGraph (length items)) st)
                     (\<lambda>g st. (Inr (finishOrder g items), st))))"

subsection \<open>Entry points\<close>

definition Eval :: "gxl_lib \<Rightarrow> node \<Rightarrow> scope option \<Rightarrow> estate \<Rightarrow> pvalue outcome" where
  "Eval L n sc st = evalNode L (callOrder L) (normalizeScope sc) n st"

definition EvalBounded :: "gxl_lib \<Rightarrow> node \<Rightarrow> scope option \<Rightarrow> int option \<Rightarrow> nat \<Rightarrow> pvalue outcome" where
  "EvalBounded L n sc budget reads =
     (case budget of
        None \<Rightarrow> (Inl (Code ''GXL-LIMIT-001''), \<lparr>es_budget = 0, es_reads = reads\<rparr>)
      | Some b \<Rightarrow> Eval L n (Some (WithBudget sc)) \<lparr>es_budget = b, es_reads = reads\<rparr>)"

definition CallBuiltin :: "gxl_lib \<Rightarrow> string \<Rightarrow> string \<Rightarrow> pvalue list \<Rightarrow> scope \<Rightarrow> estate \<Rightarrow> pvalue outcome" where
  "CallBuiltin L namespace name args sc st = callBuiltin L (callOrder L) namespace name args sc st"

end
