(* ===== verification/Gxl_Soundness.thy ===== *)
theory Gxl_Soundness
  imports Gxl_Eval
begin

section \<open>What evaluation guarantees\<close>

text \<open>
  Results are well-formed values, a budget only ever cuts an evaluation short, and ordering sorts. The evaluator calls
  \<^verbatim>\<open>list.order\<close> through an interface, which comparators and whole expressions fill differently.
\<close>

subsection \<open>Values of built-in functions\<close>

lemma thenE_Inr: "thenE r f = (Inr b, st') \<longleftrightarrow> (\<exists>a st. r = (Inr a, st) \<and> f a st = (Inr b, st'))"
  by (cases r; cases "fst r") auto

lemma NewString_wf: "NewString s = Inr v \<Longrightarrow> wfValue v"
  by (auto simp: NewString_def split: if_split_asm)

lemma Number_wf: "Number q = Inr v \<Longrightarrow> wfValue v"
  by (auto simp: Number_def split: option.splits)

lemma evalLiteral_wf: "evalLiteral l = Inr v \<Longrightarrow> wfValue v"
  by (cases l) (auto dest: NewString_wf Number_wf)

lemma evalUnary_wf: "evalUnary op v = Inr w \<Longrightarrow> wfValue w"
  by (auto simp: evalUnary_def andThen_Inr_conv dest: Number_wf split: if_split_asm option.splits)

lemma evalOperator_wf:
  assumes "evalOperator op l r = Inr w"
  shows "wfValue w"
proof -
  have arithmetic: "wfValue w" if "evalArithmetic op l r = Inr w"
    using that unfolding evalArithmetic_def prod.case
    by (cases "NumberValue l"; cases "NumberValue r"; cases "Number (floatOp op (the (NumberValue l)) (the (NumberValue r)))")
      (simp_all add: Number_wf split: if_split_asm)
  have comparison: "\<exists>b. w = VBool b" if "evalComparison op l r = Inr w"
  proof (cases "op = ''=='' \<or> op = ''!=''")
    case True
    with that show ?thesis by (auto simp: evalComparison_def andThen_Inr_conv)
  next
    case False
    with that show ?thesis by (cases l; cases r) (auto simp: evalComparison_def)
  qed
  have "evalArithmetic op l r = Inr w \<or> evalComparison op l r = Inr w"
    using assms unfolding evalOperator_def by (simp split: if_split_asm)
  then show ?thesis using arithmetic comparison by auto
qed

lemma lengthValue_wf: "lengthValue v = Inr w \<Longrightarrow> wfValue w"
  by (auto simp: lengthValue_def dest: Number_wf split: option.splits)

lemma callString_wf: "callString L name args = Inr v \<Longrightarrow> wfValue v"
  by (auto simp: callString_def andThen_Inr_conv dest: NewString_wf lengthValue_wf split: if_split_asm)

lemma callList_wf: "callList name args = Inr v \<Longrightarrow> wfValue v"
  by (auto simp: callList_def andThen_Inr_conv dest: Number_wf split: if_split_asm option.splits)

lemma callRegex_wf: "callRegex L name args = Inr v \<Longrightarrow> wfValue v"
  by (auto simp: callRegex_def andThen_Inr_conv split: if_split_asm option.splits)

lemma callDate_wf: "callDate name args = Inr v \<Longrightarrow> wfValue v"
  by (auto simp: callDate_def andThen_Inr_conv dest: Number_wf split: if_split_asm)

lemma callNow_wf: "callNow L args sc st = (Inr v, st') \<Longrightarrow> wfValue v"
  by (auto simp: callNow_def dest: NewString_wf split: if_split_asm)

subsection \<open>Scopes\<close>

fun wfScope :: "scope \<Rightarrow> bool" where
  "wfScope (Scope vars parent clock budget) =
     (list_all (\<lambda>p. wfValue (snd p)) vars \<and> (case parent of None \<Rightarrow> True | Some p \<Rightarrow> wfScope p))"

lemma mput_values: "(k', v') \<in> set (mput k v m) \<Longrightarrow> (k', v') = (k, v) \<or> (k', v') \<in> set m"
  by (induction m) (auto split: if_split_asm)

lemma fold_mput_wf:
  "wfValue (VObject m) \<Longrightarrow> list_all (\<lambda>p. wfValue (snd p)) vars \<Longrightarrow> wfValue (VObject (fold (\<lambda>(k, v). mput k v) vars m))"
proof (induction vars arbitrary: m)
  case (Cons p vars)
  obtain k v where p: "p = (k, v)" by (cases p)
  have "wfValue (VObject (mput k v m))"
    using Cons.prems p by (auto simp: list_all_iff dest: mput_values)
  with Cons p show ?case by simp
qed simp

lemma Tree_wf: "wfScope sc \<Longrightarrow> wfValue (Tree sc)"
proof (induction sc rule: wfScope.induct)
  case (1 vars parent clock budget)
  have "wfValue (VObject (case parent of None \<Rightarrow> [] | Some p \<Rightarrow> fillScope p))"
    using 1 by (cases parent) (auto simp: Tree_def mwf_def)
  with 1 fold_mput_wf show ?case by (simp add: Tree_def)
qed

lemma evalPath_wf: "wfScope sc \<Longrightarrow> evalPath rt segs sc = Inr v \<Longrightarrow> wfValue v"
  using resolve_wf [OF Tree_wf] by (auto simp: evalPath_def Resolve_def split: sum.splits option.splits)

subsection \<open>The interface of list.order\<close>

text \<open>
  What the evaluator relies on when it calls \<^verbatim>\<open>list.order\<close>: the value is well-formed, and with a budget the call does what
  it does without one, for a price that does not depend on the budget, or runs out of it.
\<close>

text \<open>An outcome with and without the budget.\<close>

definition metered :: "(estate \<Rightarrow> 'a outcome) \<Rightarrow> (estate \<Rightarrow> 'a outcome) \<Rightarrow> bool" where
  "metered f g \<longleftrightarrow>
     (\<forall>n. \<exists>k r m. 0 \<le> k \<and>
        (\<forall>b. g \<lparr>es_budget = b, es_reads = n\<rparr> = (r, \<lparr>es_budget = b, es_reads = m\<rparr>)) \<and>
        (\<forall>b. 0 \<le> b \<longrightarrow>
           (if k \<le> b then f \<lparr>es_budget = b, es_reads = n\<rparr> = (r, \<lparr>es_budget = b - k, es_reads = m\<rparr>)
            else fst (f \<lparr>es_budget = b, es_reads = n\<rparr>) = Inl (Code ''GXL-LIMIT-001'') \<and> es_budget (snd (f \<lparr>es_budget = b, es_reads = n\<rparr>)) = - 1)))"

locale list_orderer =
  fixes order :: orderer
  assumes order_wf: "list_all wfValue args \<Longrightarrow> order args limited st = (Inr v, st') \<Longrightarrow> wfValue v"
    and order_metered: "metered (order args True) (order args False)"
begin

lemma callBuiltin_wf:
  assumes "list_all wfValue args" and "callBuiltin L order namespace name args sc st = (Inr v, st')"
  shows "wfValue v"
  using assms order_wf callString_wf callList_wf callRegex_wf callDate_wf callNow_wf lengthValue_wf
  by (auto simp: callBuiltin_def callLen_def split: if_split_asm)

lemma evalNode_wf: "wfScope sc \<Longrightarrow> evalNode L order sc n st = (Inr v, st') \<Longrightarrow> wfValue v"
proof (induction n arbitrary: st v st')
  case (Call namespace name args)
  have args: "(\<And>n. n \<in> set ns \<Longrightarrow> n \<in> set args) \<Longrightarrow> evalArgs L order sc ns st = (Inr vs, st') \<Longrightarrow> list_all wfValue vs"
    for ns st vs st'
  proof (induction ns arbitrary: st vs)
    case (Cons n ns)
    from Cons.prems(2) obtain w st1 ws st2 where run: "evalNode L order sc n st = (Inr w, st1)"
        "evalArgs L order sc ns st1 = (Inr ws, st2)" "vs = w # ws" by (auto simp: thenE_Inr)
    then have "st2 = st'" using Cons.prems(2) by simp
    with Call.IH [OF _ Call.prems(1) run(1)] Cons.IH [OF _ run(2) [unfolded \<open>st2 = st'\<close>]] Cons.prems(1) run(3)
    show ?case by simp
  qed simp
  from Call.prems(2) obtain vs st1 st2 where run: "evalArgs L order sc args st1 = (Inr vs, st2)"
      "callBuiltin L order namespace name vs sc st2 = (Inr v, st')" by (auto simp: thenE_Inr)
  from callBuiltin_wf [OF args [OF _ run(1)] run(2)] show ?case by simp
next
  case (UnaryOp op e)
  then show ?case using evalUnary_wf by (auto simp: thenE_Inr)
next
  case (BinaryOp op l r)
  then show ?case using evalOperator_wf by (auto simp: thenE_Inr andThen_Inr_conv split: if_split_asm)
next
  case (PathRef rt segs)
  then show ?case using evalPath_wf by (auto simp: thenE_Inr)
next
  case (Literal l)
  then show ?case using evalLiteral_wf by (auto simp: thenE_Inr)
qed (auto simp: thenE_Inr)

end

subsection \<open>Metered evaluation\<close>

lemma meteredI:
  assumes "\<And>n. \<exists>k r m. 0 \<le> k \<and>
        (\<forall>b. g \<lparr>es_budget = b, es_reads = n\<rparr> = (r, \<lparr>es_budget = b, es_reads = m\<rparr>)) \<and>
        (\<forall>b. 0 \<le> b \<longrightarrow>
           (if k \<le> b then f \<lparr>es_budget = b, es_reads = n\<rparr> = (r, \<lparr>es_budget = b - k, es_reads = m\<rparr>)
            else fst (f \<lparr>es_budget = b, es_reads = n\<rparr>) = Inl (Code ''GXL-LIMIT-001'') \<and> es_budget (snd (f \<lparr>es_budget = b, es_reads = n\<rparr>)) = - 1))"
  shows "metered f g"
  using assms unfolding metered_def by blast

lemma metered_pure: "metered (\<lambda>st. (r, st)) (\<lambda>st. (r, st))"
  by (rule meteredI) (auto intro!: exI [of _ 0])

lemma metered_spend: "metered (spend True) (spend False)"
proof (rule meteredI)
  fix n
  show "\<exists>k r m. 0 \<le> k \<and>
        (\<forall>b. spend False \<lparr>es_budget = b, es_reads = n\<rparr> = (r, \<lparr>es_budget = b, es_reads = m\<rparr>)) \<and>
        (\<forall>b. 0 \<le> b \<longrightarrow>
           (if k \<le> b then spend True \<lparr>es_budget = b, es_reads = n\<rparr> = (r, \<lparr>es_budget = b - k, es_reads = m\<rparr>)
            else fst (spend True \<lparr>es_budget = b, es_reads = n\<rparr>) = Inl (Code ''GXL-LIMIT-001'') \<and>
              es_budget (snd (spend True \<lparr>es_budget = b, es_reads = n\<rparr>)) = - 1))"
    by (rule exI [of _ 1], rule exI [of _ "Inr ()"], rule exI [of _ n]) (auto simp: spend_def Let_def)
qed

lemma metered_now: "metered (callNow L args sc) (callNow L args sc')" if "resolveClock L sc = resolveClock L sc'"
proof (rule meteredI)
  fix n
  show "\<exists>k r m. 0 \<le> k \<and>
        (\<forall>b. callNow L args sc' \<lparr>es_budget = b, es_reads = n\<rparr> = (r, \<lparr>es_budget = b, es_reads = m\<rparr>)) \<and>
        (\<forall>b. 0 \<le> b \<longrightarrow>
           (if k \<le> b then callNow L args sc \<lparr>es_budget = b, es_reads = n\<rparr> = (r, \<lparr>es_budget = b - k, es_reads = m\<rparr>)
            else fst (callNow L args sc \<lparr>es_budget = b, es_reads = n\<rparr>) = Inl (Code ''GXL-LIMIT-001'') \<and>
              es_budget (snd (callNow L args sc \<lparr>es_budget = b, es_reads = n\<rparr>)) = - 1))"
    using that by (intro exI [of _ 0]) (auto simp: callNow_def)
qed

lemma metered_thenE:
  assumes f: "metered f g" and h: "\<And>a. metered (h a) (h' a)"
  shows "metered (\<lambda>st. thenE (f st) h) (\<lambda>st. thenE (g st) h')"
proof (rule meteredI)
  fix n
  obtain k r m where k: "0 \<le> k" and g: "\<And>b. g \<lparr>es_budget = b, es_reads = n\<rparr> = (r, \<lparr>es_budget = b, es_reads = m\<rparr>)"
    and enough: "\<And>b. k \<le> b \<Longrightarrow> f \<lparr>es_budget = b, es_reads = n\<rparr> = (r, \<lparr>es_budget = b - k, es_reads = m\<rparr>)"
    and short: "\<And>b. 0 \<le> b \<Longrightarrow> b < k \<Longrightarrow> fst (f \<lparr>es_budget = b, es_reads = n\<rparr>) = Inl (Code ''GXL-LIMIT-001'') \<and>
        es_budget (snd (f \<lparr>es_budget = b, es_reads = n\<rparr>)) = - 1"
    using f [unfolded metered_def, rule_format, of n] by (auto simp: linorder_not_le)
  have short': "thenE (f \<lparr>es_budget = b, es_reads = n\<rparr>) h = f' \<Longrightarrow> fst f' = Inl (Code ''GXL-LIMIT-001'') \<and> es_budget (snd f') = - 1"
    if "0 \<le> b" "b < k" for b f'
    using short [OF that] by (cases "f \<lparr>es_budget = b, es_reads = n\<rparr>") auto
  show "\<exists>k r m. 0 \<le> k \<and>
        (\<forall>b. thenE (g \<lparr>es_budget = b, es_reads = n\<rparr>) h' = (r, \<lparr>es_budget = b, es_reads = m\<rparr>)) \<and>
        (\<forall>b. 0 \<le> b \<longrightarrow>
           (if k \<le> b then thenE (f \<lparr>es_budget = b, es_reads = n\<rparr>) h = (r, \<lparr>es_budget = b - k, es_reads = m\<rparr>)
            else fst (thenE (f \<lparr>es_budget = b, es_reads = n\<rparr>) h) = Inl (Code ''GXL-LIMIT-001'') \<and>
              es_budget (snd (thenE (f \<lparr>es_budget = b, es_reads = n\<rparr>) h)) = - 1))"
  proof (cases r)
    case (Inl e)
    then show ?thesis
      using k g enough short' by (intro exI [of _ k] exI [of _ "Inl e"] exI [of _ m]) (simp add: linorder_not_le)
  next
    case (Inr a)
    obtain j s l where j: "0 \<le> j" and h': "\<And>b. h' a \<lparr>es_budget = b, es_reads = m\<rparr> = (s, \<lparr>es_budget = b, es_reads = l\<rparr>)"
      and more: "\<And>b. j \<le> b \<Longrightarrow> h a \<lparr>es_budget = b, es_reads = m\<rparr> = (s, \<lparr>es_budget = b - j, es_reads = l\<rparr>)"
      and less: "\<And>b. 0 \<le> b \<Longrightarrow> b < j \<Longrightarrow> fst (h a \<lparr>es_budget = b, es_reads = m\<rparr>) = Inl (Code ''GXL-LIMIT-001'') \<and>
          es_budget (snd (h a \<lparr>es_budget = b, es_reads = m\<rparr>)) = - 1"
      using h [of a, unfolded metered_def, rule_format, of m] by (auto simp: linorder_not_le)
    have "fst (thenE (f \<lparr>es_budget = b, es_reads = n\<rparr>) h) = Inl (Code ''GXL-LIMIT-001'') \<and>
        es_budget (snd (thenE (f \<lparr>es_budget = b, es_reads = n\<rparr>) h)) = - 1" if "0 \<le> b" "b < k + j" for b
    proof (cases "k \<le> b")
      case True
      with enough [OF True] less [of "b - k"] that Inr show ?thesis by simp
    qed (use short' that in auto)
    then show ?thesis
      using k j g h' enough more Inr
      by (intro exI [of _ "k + j"] exI [of _ s] exI [of _ l]) (simp add: linorder_not_le algebra_simps)
  qed
qed

lemma metered_if: "(c \<Longrightarrow> metered f g) \<Longrightarrow> (\<not> c \<Longrightarrow> metered f' g') \<Longrightarrow>
    metered (\<lambda>st. if c then f st else f' st) (\<lambda>st. if c then g st else g' st)"
  by (cases c) simp_all

lemma metered_success:
  assumes "metered f g" and "f st = (Inr x, st')" and "0 \<le> es_budget st"
  shows "fst (g st) = Inr x"
proof -
  obtain b n where st: "st = \<lparr>es_budget = b, es_reads = n\<rparr>" by (cases st)
  obtain k r m where "0 \<le> k" "\<And>b. g \<lparr>es_budget = b, es_reads = n\<rparr> = (r, \<lparr>es_budget = b, es_reads = m\<rparr>)"
    and f: "\<And>b. 0 \<le> b \<Longrightarrow> (if k \<le> b then f \<lparr>es_budget = b, es_reads = n\<rparr> = (r, \<lparr>es_budget = b - k, es_reads = m\<rparr>)
        else fst (f \<lparr>es_budget = b, es_reads = n\<rparr>) = Inl (Code ''GXL-LIMIT-001'') \<and> es_budget (snd (f \<lparr>es_budget = b, es_reads = n\<rparr>)) = - 1)"
    using assms(1) [unfolded metered_def, rule_format, of n] by blast
  with f [of b] assms(2,3) st show ?thesis by (simp split: if_split_asm)
qed

lemma metered_option: "metered f g \<Longrightarrow> (\<And>a. metered (f' a) (g' a)) \<Longrightarrow>
    metered (\<lambda>st. case x of None \<Rightarrow> f st | Some a \<Rightarrow> f' a st) (\<lambda>st. case x of None \<Rightarrow> g st | Some a \<Rightarrow> g' a st)"
  by (cases x) simp_all

lemma metered_sum: "(\<And>e. metered (f e) (g e)) \<Longrightarrow> (\<And>a. metered (f' a) (g' a)) \<Longrightarrow>
    metered (\<lambda>st. case x of Inl e \<Rightarrow> f e st | Inr a \<Rightarrow> f' a st) (\<lambda>st. case x of Inl e \<Rightarrow> g e st | Inr a \<Rightarrow> g' a st)"
  by (cases x) simp_all

lemmas metered_intros = metered_thenE metered_pure metered_spend metered_if metered_option metered_sum

text \<open>Scopes that differ only in whether they point to the budget.\<close>

definition sameScope :: "scope \<Rightarrow> scope \<Rightarrow> bool" where
  "sameScope sc sc' \<longleftrightarrow> sc_budget sc \<and> \<not> sc_budget sc' \<and> Tree sc = Tree sc' \<and> (\<forall>L. resolveClock L sc = resolveClock L sc')"

context list_orderer
begin

lemma callBuiltin_metered:
  assumes "sameScope sc sc'"
  shows "metered (callBuiltin L order namespace name args sc) (callBuiltin L order namespace name args sc')"
proof -
  have "metered (callNow L args sc) (callNow L args sc')"
    using assms by (intro metered_now) (simp add: sameScope_def)
  moreover have "metered (order args (sc_budget sc)) (order args (sc_budget sc'))"
    using assms order_metered by (simp add: sameScope_def)
  ultimately show ?thesis unfolding callBuiltin_def by (intro metered_intros)
qed

lemma evalNode_metered:
  assumes "sameScope sc sc'"
  shows "metered (evalNode L order sc n) (evalNode L order sc' n)"
proof (induction n)
  case (Call namespace name args)
  have args: "(\<And>n. n \<in> set ns \<Longrightarrow> n \<in> set args) \<Longrightarrow> metered (evalArgs L order sc ns) (evalArgs L order sc' ns)" for ns
  proof (induction ns)
    case (Cons n ns)
    then show ?case unfolding evalArgs.simps using Call.IH [of n] by (intro metered_intros) simp_all
  next
    case Nil
    have "evalArgs L order s [] = (\<lambda>st. (Inr [], st))" for s by (rule ext) simp
    then show ?case by (simp add: metered_pure)
  qed
  show ?case
    using assms args [of args] callBuiltin_metered [OF assms]
    unfolding evalNode.simps sameScope_def by (simp add: metered_intros)
next
  case (BinaryOp op l r)
  then show ?case
    using assms metered_spend unfolding evalNode.simps sameScope_def by (auto intro!: metered_intros)
next
  case (PathRef rt segs)
  have "evalPath rt segs sc = evalPath rt segs sc'" using assms by (simp add: evalPath_def sameScope_def)
  then show ?case
    using assms metered_spend unfolding evalNode.simps sameScope_def by (auto intro!: metered_intros)
next
  case (UnaryOp op e)
  then show ?case
    using assms metered_spend unfolding evalNode.simps sameScope_def by (auto intro!: metered_intros)
next
  case (Group e)
  then show ?case
    using assms metered_spend unfolding evalNode.simps sameScope_def by (auto intro!: metered_intros)
next
  case (Literal v)
  then show ?case
    using assms metered_spend unfolding evalNode.simps sameScope_def by (auto intro!: metered_intros)
qed

end

subsection \<open>Comparators\<close>

interpretation comparator: list_orderer noOrder
  by unfold_locales (auto simp: noOrder_def [abs_def] metered_pure)

text \<open>The evaluation of a comparator without a budget neither reads nor changes the state.\<close>

definition stateless :: "(estate \<Rightarrow> 'a outcome) \<Rightarrow> bool" where
  "stateless f \<longleftrightarrow> (\<exists>r. \<forall>st. f st = (r, st))"

lemma stateless_pure: "stateless (\<lambda>st. (r, st))"
  by (auto simp: stateless_def)

lemma stateless_thenE: "stateless f \<Longrightarrow> (\<And>a. stateless (h a)) \<Longrightarrow> stateless (\<lambda>st. thenE (f st) h)"
proof -
  assume "stateless f" and h: "\<And>a. stateless (h a)"
  then obtain r where r: "\<And>st. f st = (r, st)" by (auto simp: stateless_def)
  show ?thesis
  proof (cases r)
    case (Inr a)
    with h [of a] r show ?thesis by (auto simp: stateless_def)
  qed (use r in \<open>auto simp: stateless_def\<close>)
qed

lemma stateless_if: "(c \<Longrightarrow> stateless f) \<Longrightarrow> (\<not> c \<Longrightarrow> stateless f') \<Longrightarrow> stateless (\<lambda>st. if c then f st else f' st)"
  by (cases c) simp_all

lemma stateless_spend: "stateless (spend False)"
  by (simp add: stateless_def spend_def)

lemmas stateless_intros = stateless_thenE stateless_pure stateless_if

lemma evalArgs_Nil: "evalArgs L order sc [] = (\<lambda>st. (Inr [], st))"
  by (rule ext) simp

lemma evalNode_stateless:
  assumes "\<not> sc_budget sc"
  shows "validateOrderComparator n = Inr () \<Longrightarrow> stateless (evalNode L noOrder sc n)"
proof (induction n)
  case (Call namespace name args)
  have args: "(\<And>n. n \<in> set ns \<Longrightarrow> n \<in> set args) \<Longrightarrow> stateless (evalArgs L noOrder sc ns)" for ns
  proof (induction ns)
    case (Cons n ns)
    have "validateOrderComparator n = Inr ()"
      using Call.prems Cons.prems by (auto simp: firstError_Inr split: if_split_asm)
    with Call.IH [of n] Cons show ?case unfolding evalArgs.simps by (intro stateless_intros) simp_all
  qed (simp add: evalArgs_Nil stateless_pure)
  have "stateless (callBuiltin L noOrder namespace name vs sc)" for vs
    using Call.prems unfolding callBuiltin_def by (intro stateless_intros) (auto split: if_split_asm)
  with args [of args] assms stateless_spend show ?case unfolding evalNode.simps by (auto intro!: stateless_intros)
next
  case (BinaryOp op l r)
  then have "stateless (evalNode L noOrder sc l)" "stateless (evalNode L noOrder sc r)"
    by (auto simp: andThen_Inr_conv)
  with assms stateless_spend show ?case unfolding evalNode.simps by (auto intro!: stateless_intros)
next
  case (UnaryOp op e)
  then show ?case using assms stateless_spend unfolding evalNode.simps by (auto intro!: stateless_intros)
next
  case (Group e)
  then show ?case using assms stateless_spend unfolding evalNode.simps by (auto intro!: stateless_intros)
next
  case (PathRef rt segs)
  then show ?case using assms stateless_spend unfolding evalNode.simps by (auto intro!: stateless_intros)
next
  case (Literal v)
  then show ?case using assms stateless_spend unfolding evalNode.simps by (auto intro!: stateless_intros)
qed

lemma evalNode_starved: "sc_budget sc \<Longrightarrow> es_budget st \<le> 0 \<Longrightarrow> \<exists>e st'. evalNode L order sc n st = (Inl e, st')"
  by (cases n) (auto simp: spend_def Let_def)

definition answer :: "gxl_lib \<Rightarrow> node \<Rightarrow> pvalue \<Rightarrow> pvalue \<Rightarrow> gerror + bool" where
  "answer L comparator a b = fst (lessBy L comparator False a b \<lparr>es_budget = 0, es_reads = 0\<rparr>)"

lemma lessBy_stateless:
  assumes "validateOrderComparator comparator = Inr ()"
  shows "lessBy L comparator False a b st = (answer L comparator a b, st)"
proof -
  have "stateless (lessBy L comparator False a b)"
    unfolding lessBy_def using evalNode_stateless [OF _ assms] by (intro stateless_intros) simp
  then show ?thesis by (auto simp: stateless_def answer_def)
qed

lemma lessBy_metered: "metered (lessBy L comparator True a b) (lessBy L comparator False a b)"
proof -
  have "sameScope (Scope vars None None True) (Scope vars None None False)" for vars
    by (simp add: sameScope_def Tree_def)
  from comparator.evalNode_metered [OF this] show ?thesis
    unfolding lessBy_def by (intro metered_intros)
qed

lemma lessBy_answer:
  assumes "validateOrderComparator comparator = Inr ()" and "lessBy L comparator limited a b st = (Inr x, st')"
  shows "answer L comparator a b = Inr x"
proof (cases limited)
  case True
  obtain b0 n where st: "st = \<lparr>es_budget = b0, es_reads = n\<rparr>" by (cases st)
  have "0 < b0"
  proof (rule ccontr)
    assume "\<not> 0 < b0"
    then obtain e st'' where "evalNode L noOrder (Scope [(''left'', a), (''right'', b)] None None True) comparator st = (Inl e, st'')"
      using evalNode_starved [of "Scope [(''left'', a), (''right'', b)] None None True" st] st by fastforce
    with assms(2) True show False by (simp add: lessBy_def)
  qed
  then show ?thesis
    using metered_success [OF lessBy_metered, of L comparator a b st x st'] lessBy_stateless [OF assms(1), of L a b st] assms(2) True st
    by simp
next
  case False
  with assms lessBy_stateless [OF assms(1), of L a b st] show ?thesis by simp
qed

subsection \<open>Ordering\<close>

lemma comparePairs_graph:
  assumes lt: "\<And>a b st x st'. lt a b st = (Inr x, st') \<Longrightarrow> ans a b = Inr x"
  shows "comparePairs lt items ps g st = (Inr g', st') \<Longrightarrow> g' = graphOf (\<lambda>i j. ans (items ! i) (items ! j) = Inr True) ps g"
proof (induction ps arbitrary: g st)
  case (Cons p ps)
  obtain i j where p: "p = (i, j)" by (cases p)
  with Cons.prems obtain before st1 after st2 where run: "lt (items ! i) (items ! j) st = (Inr before, st1)"
      "lt (items ! j) (items ! i) st1 = (Inr after, st2)"
      "comparePairs lt items ps (addPair i j before after g) st2 = (Inr g', st')"
    by (auto simp: thenE_Inr)
  from lt [OF run(1)] lt [OF run(2)] Cons.IH [OF run(3)] p show ?case by (simp add: graphOf_def)
qed (simp add: graphOf_def)

lemma comparePairs_metered:
  assumes "\<And>a b. metered (lt a b) (lt' a b)"
  shows "metered (comparePairs lt items ps g) (comparePairs lt' items ps g)"
proof (induction ps arbitrary: g)
  case Nil
  have "comparePairs f items [] g = (\<lambda>st. (Inr g, st))" for f by (rule ext) simp
  then show ?case by (simp add: metered_pure)
next
  case (Cons p ps)
  obtain i j where p: "p = (i, j)" by (cases p)
  show ?case unfolding p comparePairs.simps by (intro metered_intros assms Cons.IH)
qed

lemma callOrder_cases:
  assumes "callOrder L args limited st = (Inr v, st')"
  obtains items source comparator where "args = [VArray items, VString source]" "length items \<le> maxOrderItems"
    "Parse source = Inr comparator" "validateOrderComparator comparator = Inr ()"
    "v = finishOrder (graphOf (\<lambda>i j. answer L comparator (items ! i) (items ! j) = Inr True) (pairs (length items)) (emptyGraph (length items))) items"
proof -
  from assms have two: "length args = 2" by (auto simp: callOrder_def split: if_split_asm)
  then obtain x y where args: "args = [x, y]" by (auto simp: length_Suc_conv numeral_2_eq_2)
  from assms args obtain items where x: "x = VArray items" by (cases x) (auto simp: callOrder_def)
  from assms args x obtain source where y: "y = VString source" by (cases y) (auto simp: callOrder_def split: if_split_asm)
  from assms args x y obtain comparator where parse: "Parse source = Inr comparator" "validateOrderComparator comparator = Inr ()"
    and small: "length items \<le> maxOrderItems"
    and run: "thenE (comparePairs (lessBy L comparator limited) items (pairs (length items)) (emptyGraph (length items)) st)
        (\<lambda>g st. (Inr (finishOrder g items), st)) = (Inr v, st')"
    by (auto simp: callOrder_def andThen_Inr_conv split: if_split_asm sum.splits)
  from run obtain g st1 where g: "comparePairs (lessBy L comparator limited) items (pairs (length items)) (emptyGraph (length items)) st = (Inr g, st1)"
    "v = finishOrder g items" by (auto simp: thenE_Inr)
  from comparePairs_graph [OF lessBy_answer [OF parse(2)] g(1)] g(2) args x y parse small show ?thesis by (intro that) auto
qed

lemma validBytes_ascii: "list_all (\<lambda>b. b < 128) bs \<Longrightarrow> validBytes bs"
  by (induction bs) (simp_all add: runeError_def)

lemma orderResult_wf: "validString s \<Longrightarrow> list_all wfValue xs \<Longrightarrow> wfValue (orderResult s xs)"
  by (simp add: orderResult_def mwf_def)

lemma if_wf: "wfValue v \<Longrightarrow> wfValue w \<Longrightarrow> wfValue (if c then v else w)"
  by simp

lemma finishOrder_wf:
  assumes "list_all wfValue items"
  shows "wfValue (finishOrder (graphOf lt (pairs (length items)) (emptyGraph (length items))) items)"
proof -
  have "list_all wfValue (map ((!) items) (sortGraph (graphOf lt (pairs (length items)) (emptyGraph (length items)))))"
    using assms sortGraph_result(2) [of lt "length items"] by (auto simp: list_all_iff)
  moreover have "validString ''inconsistent''" "validString ''ambiguous''" "validString ''ordered''"
    by (simp_all only: validString_def) (rule validBytes_ascii, simp)+
  ultimately show ?thesis
    unfolding finishOrder_result [OF refl] by (intro if_wf orderResult_wf assms)
qed

lemma callOrder_metered: "metered (callOrder L args True) (callOrder L args False)"
proof -
  have pairs: "metered (comparePairs (lessBy L c True) items ps g) (comparePairs (lessBy L c False) items ps g)" for c items ps g
    by (rule comparePairs_metered) (rule lessBy_metered)
  show ?thesis
    unfolding callOrder_def [abs_def]
    by (intro metered_intros pairs)
qed

interpretation expression: list_orderer "callOrder L" for L
proof
  fix args limited st v st'
  assume args: "list_all wfValue args" and run: "callOrder L args limited st = (Inr v, st')"
  from run show "wfValue v"
  proof (rule callOrder_cases)
    fix items source comparator
    assume "args = [VArray items, VString source]"
      and v: "v = finishOrder (graphOf (\<lambda>i j. answer L comparator (items ! i) (items ! j) = Inr True) (pairs (length items)) (emptyGraph (length items))) items"
    with args have "list_all wfValue items" by simp
    from finishOrder_wf [OF this] v show ?thesis by simp
  qed
qed (rule callOrder_metered)

end
