(* ===== verification/Gxl_Grammar.thy ===== *)
theory Gxl_Grammar
  imports Gxl_Parser
begin

section \<open>The grammar of the expression language\<close>

text \<open>
  The productions of \<^verbatim>\<open>runtime/spec/grammar/gxl.ebnf\<close>, section 3, with what the parser accepts beyond it: optional
  path segments and the namespace \<^verbatim>\<open>date\<close>. Repetitions are left-recursive, so that a derivation fixes the tree.
\<close>

subsection \<open>Productions\<close>

inductive gSegs :: "token list \<Rightarrow> pathSegment list \<Rightarrow> bool" where
  gSegs_end: "gSegs [] []"
| gSegs_name: "tk_kind t = tokDot \<or> tk_kind t = tokOptionalDot \<Longrightarrow> tk_kind seg = tokIdent \<Longrightarrow> gSegs ts segs \<Longrightarrow>
    gSegs (t # seg # ts)
      (\<lparr>ps_Name = tk_lit seg, ps_Index = None, ps_Optional = (tk_kind t = tokOptionalDot)\<rparr> # segs)"
| gSegs_index: "tk_kind t = tokLBracket \<or> tk_kind t = tokOptionalBracket \<Longrightarrow> tk_kind idx = tokNumber \<Longrightarrow>
    \<not> hasNumberFraction (tk_lit idx) \<Longrightarrow> tk_kind c = tokRBracket \<Longrightarrow> gSegs ts segs \<Longrightarrow>
    gSegs (t # idx # c # ts)
      (\<lparr>ps_Name = '''', ps_Index = Some (indexOfLit (tk_lit idx)), ps_Optional = (tk_kind t = tokOptionalBracket)\<rparr> # segs)"

text \<open>Words that can stand at the root of a path: identifiers, and namespace keywords that no dot follows.\<close>

definition pathRoot :: "token \<Rightarrow> token list \<Rightarrow> bool" where
  "pathRoot t ts =
     (tk_kind t = tokIdent \<and> tk_lit t \<notin> set [''vars'', ''NaN'', ''Infinity''] \<or>
      tk_kind t = tokKeyword \<and> tk_lit t \<in> set [''str'', ''list'', ''regex''] \<and> peekKind ts \<noteq> tokDot)"

text \<open>Words that can stand for a namespace.\<close>

definition callRoot :: "token \<Rightarrow> bool" where
  "callRoot t = (tk_kind t = tokIdent \<or> tk_kind t = tokKeyword \<and> tk_lit t \<in> set [''str'', ''list'', ''regex''])"

inductive gOr :: "token list \<Rightarrow> node \<Rightarrow> bool" and gAnd :: "token list \<Rightarrow> node \<Rightarrow> bool"
  and gNot :: "token list \<Rightarrow> node \<Rightarrow> bool" and gComp :: "token list \<Rightarrow> node \<Rightarrow> bool"
  and gAdd :: "token list \<Rightarrow> node \<Rightarrow> bool" and gMul :: "token list \<Rightarrow> node \<Rightarrow> bool"
  and gUnary :: "token list \<Rightarrow> node \<Rightarrow> bool" and gPrim :: "token list \<Rightarrow> node \<Rightarrow> bool"
  and gArgs :: "token list \<Rightarrow> node list \<Rightarrow> bool" where
  gOr_and: "gAnd ts n \<Longrightarrow> gOr ts n"
| gOr_or: "gOr ts l \<Longrightarrow> isKeywordToken ''or'' t \<Longrightarrow> gAnd us r \<Longrightarrow> gOr (ts @ t # us) (BinaryOp (tk_lit t) l r)"
| gAnd_not: "gNot ts n \<Longrightarrow> gAnd ts n"
| gAnd_and: "gAnd ts l \<Longrightarrow> isKeywordToken ''and'' t \<Longrightarrow> gNot us r \<Longrightarrow> gAnd (ts @ t # us) (BinaryOp (tk_lit t) l r)"
| gNot_not: "isKeywordToken ''not'' t \<Longrightarrow> gNot ts n \<Longrightarrow> gNot (t # ts) (UnaryOp (tk_lit t) n)"
| gNot_comp: "gComp ts n \<Longrightarrow> gNot ts n"
| gComp_add: "gAdd ts n \<Longrightarrow> gComp ts n"
| gComp_comp: "gAdd ts l \<Longrightarrow> isComp (tk_kind t) \<Longrightarrow> gAdd us r \<Longrightarrow> gComp (ts @ t # us) (BinaryOp (tk_lit t) l r)"
| gAdd_mul: "gMul ts n \<Longrightarrow> gAdd ts n"
| gAdd_add: "gAdd ts l \<Longrightarrow> isAddOp t \<Longrightarrow> gMul us r \<Longrightarrow> gAdd (ts @ t # us) (BinaryOp (tk_lit t) l r)"
| gMul_unary: "gUnary ts n \<Longrightarrow> gMul ts n"
| gMul_mul: "gMul ts l \<Longrightarrow> isMulOp t \<Longrightarrow> gUnary us r \<Longrightarrow> gMul (ts @ t # us) (BinaryOp (tk_lit t) l r)"
| gUnary_minus: "tk_kind t = tokMinus \<Longrightarrow> gUnary ts n \<Longrightarrow> gUnary (t # ts) (UnaryOp (tk_lit t) n)"
| gUnary_prim: "gPrim ts n \<Longrightarrow> gUnary ts n"
| gPrim_now: "isKeywordToken ''now'' t \<Longrightarrow> tk_kind l = tokLParen \<Longrightarrow> tk_kind r = tokRParen \<Longrightarrow>
    gPrim [t, l, r] (Call '''' ''now'' [])"
| gPrim_len: "isKeywordToken ''len'' t \<Longrightarrow> tk_kind l = tokLParen \<Longrightarrow> gOr ts n \<Longrightarrow> tk_kind r = tokRParen \<Longrightarrow>
    gPrim (t # l # ts @ [r]) (Call '''' ''len'' [n])"
| gPrim_call: "callRoot t \<Longrightarrow> tk_kind d = tokDot \<Longrightarrow> isWord (tk_kind m) \<Longrightarrow> tk_kind l = tokLParen \<Longrightarrow>
    knownMethod (tk_lit t) (tk_lit m) \<Longrightarrow> gArgs ts args \<Longrightarrow> tk_kind r = tokRParen \<Longrightarrow>
    gPrim (t # d # m # l # ts @ [r]) (Call (tk_lit t) (tk_lit m) args)"
| gPrim_none: "callRoot t \<Longrightarrow> tk_kind d = tokDot \<Longrightarrow> isWord (tk_kind m) \<Longrightarrow> tk_kind l = tokLParen \<Longrightarrow>
    knownMethod (tk_lit t) (tk_lit m) \<Longrightarrow> tk_kind r = tokRParen \<Longrightarrow>
    gPrim [t, d, m, l, r] (Call (tk_lit t) (tk_lit m) [])"
| gPrim_path: "pathRoot t ts \<Longrightarrow> gSegs ts segs \<Longrightarrow> gPrim (t # ts) (PathRef (tk_lit t) segs)"
| gPrim_string: "tk_kind t = tokString \<Longrightarrow> tk_value t = StringVal s \<Longrightarrow> gPrim [t] (Literal (LitString s))"
| gPrim_number: "tk_kind t = tokNumber \<Longrightarrow> tk_value t = NumberVal q \<Longrightarrow> gPrim [t] (Literal (LitNumber q))"
| gPrim_true: "isKeywordToken ''true'' t \<Longrightarrow> gPrim [t] (Literal (LitBool True))"
| gPrim_false: "isKeywordToken ''false'' t \<Longrightarrow> gPrim [t] (Literal (LitBool False))"
| gPrim_null: "isKeywordToken ''null'' t \<Longrightarrow> gPrim [t] (Literal LitNull)"
| gPrim_group: "tk_kind l = tokLParen \<Longrightarrow> gOr ts n \<Longrightarrow> tk_kind r = tokRParen \<Longrightarrow> gPrim (l # ts @ [r]) (Group n)"
| gArgs_one: "gOr ts n \<Longrightarrow> gArgs ts [n]"
| gArgs_more: "gOr ts n \<Longrightarrow> tk_kind c = tokComma \<Longrightarrow> gArgs us ns \<Longrightarrow> gArgs (ts @ c # us) (n # ns)"

text \<open>What the lexer guarantees of a token: the value fits the kind, and no token is \<^verbatim>\<open>tokEOF\<close>.\<close>

definition goodToken :: "token \<Rightarrow> bool" where
  "goodToken t =
     (tk_kind t \<noteq> tokEOF \<and> (tk_kind t = tokString \<longrightarrow> (\<exists>s. tk_value t = StringVal s)) \<and>
      (tk_kind t = tokNumber \<longrightarrow> (\<exists>q. tk_value t = NumberVal q)))"

lemma peekN_simps [simp]:
  "peekN [] n = eofToken" "peekN (t # ts) 0 = t" "peekN (t # ts) (Suc n) = peekN ts n"
  by (simp_all add: peekN_def)

lemma eofToken_kind [simp]: "tk_kind eofToken = tokEOF"
  by (simp add: eofToken_def plainToken_def)

lemma peek_not_eof: "peekKind ts = k \<Longrightarrow> k \<noteq> tokEOF \<Longrightarrow> \<exists>t us. ts = t # us \<and> tk_kind t = k"
  by (cases ts) auto

subsection \<open>Parsers of a nonterminal\<close>

text \<open>
  What every parsing function promises: its errors have a code, and what it accepts is a phrase of its
  nonterminal, taken from the front of the tokens.
\<close>

locale phrase_parser =
  fixes p :: parse and G :: "token list \<Rightarrow> node \<Rightarrow> bool"
  assumes coded: "p ts \<noteq> Inl PlainError"
    and sound: "list_all goodToken ts \<Longrightarrow> p ts = Inr (n, rest) \<Longrightarrow> \<exists>us. ts = us @ rest \<and> us \<noteq> [] \<and> G us n"
    and shorter: "p ts = Inr (n, rest) \<Longrightarrow> length rest < length ts"
begin

lemma good_rest:
  assumes "list_all goodToken ts" and "p ts = Inr (n, rest)"
  shows "list_all goodToken rest"
proof -
  obtain us where "ts = us @ rest" using sound [OF assms] by blast
  with assms(1) show ?thesis by simp
qed

end

text \<open>A level of left-associative operators over operands.\<close>

locale operator_level = phrase_parser +
  fixes isOp :: "token \<Rightarrow> bool" and H :: "token list \<Rightarrow> node \<Rightarrow> bool"
  assumes op_not_eof: "\<not> isOp eofToken"
    and operand_phrase: "G ts n \<Longrightarrow> H ts n"
    and operator_phrase: "H ts l \<Longrightarrow> isOp t \<Longrightarrow> G us r \<Longrightarrow> H (ts @ t # us) (BinaryOp (tk_lit t) l r)"
begin

lemma op_Cons: "isOp (peek ts) \<Longrightarrow> \<exists>t us. ts = t # us"
  using op_not_eof by (cases ts) simp_all

lemma leftLoop_coded: "length ts < k \<Longrightarrow> leftLoop k isOp p left ts \<noteq> Inl PlainError"
proof (induction k arbitrary: left ts)
  case (Suc k)
  show ?case
  proof (cases "isOp (peek ts)")
    case True
    then obtain t us where ts: "ts = t # us" using op_Cons by blast
    show ?thesis
    proof (cases "p us")
      case (Inl e)
      with coded [of us] True ts show ?thesis by auto
    next
      case (Inr x)
      obtain right rest where x: "x = (right, rest)" by (cases x)
      with shorter [of us right rest] Inr ts Suc.prems have "length rest < k" by simp
      with Suc.IH True ts Inr x show ?thesis by simp
    qed
  qed simp
qed simp

lemma leftLoop_shorter: "leftLoop k isOp p left ts = Inr (n, rest) \<Longrightarrow> length rest \<le> length ts"
proof (induction k arbitrary: left ts)
  case (Suc k)
  show ?case
  proof (cases "isOp (peek ts)")
    case True
    with Suc.prems obtain right us where step: "p (tl ts) = Inr (right, us)"
        "leftLoop k isOp p (BinaryOp (tk_lit (peek ts)) left right) us = Inr (n, rest)"
      by (auto simp: andThen_Inr_conv)
    from Suc.IH [OF step(2)] shorter [OF step(1)] show ?thesis by simp
  qed (use Suc.prems in auto)
qed simp

lemma leftLoop_sound:
  "list_all goodToken ts \<Longrightarrow> leftLoop k isOp p left ts = Inr (n, rest) \<Longrightarrow> H vs left \<Longrightarrow>
     \<exists>us. ts = us @ rest \<and> H (vs @ us) n"
proof (induction k arbitrary: left ts vs)
  case (Suc k)
  show ?case
  proof (cases "isOp (peek ts)")
    case True
    then obtain t ts' where ts: "ts = t # ts'" using op_Cons by blast
    with True Suc.prems obtain right us where step: "p ts' = Inr (right, us)"
        "leftLoop k isOp p (BinaryOp (tk_lit t) left right) us = Inr (n, rest)"
      by (auto simp: andThen_Inr_conv)
    from Suc.prems(1) ts have good: "list_all goodToken ts'" by simp
    obtain ws where ws: "ts' = ws @ us" "G ws right" using sound [OF good step(1)] by blast
    have "H (vs @ t # ws) (BinaryOp (tk_lit t) left right)"
      using operator_phrase [OF Suc.prems(3)] True ts ws(2) by simp
    from Suc.IH [OF good_rest [OF good step(1)] step(2) this] ts ws(1) show ?thesis by auto
  qed (use Suc.prems in auto)
qed simp

lemma leftAssoc_phrase_parser: "phrase_parser (leftAssoc isOp p) H"
proof
  show "leftAssoc isOp p ts \<noteq> Inl PlainError" for ts
    using coded [of ts] leftLoop_coded by (auto simp: leftAssoc_def andThen_Inl_conv simp del: leftLoop.simps)
next
  fix ts n rest
  assume good: "list_all goodToken ts" and "leftAssoc isOp p ts = Inr (n, rest)"
  then obtain left us where step: "p ts = Inr (left, us)" "leftLoop (Suc (length us)) isOp p left us = Inr (n, rest)"
    by (auto simp: leftAssoc_def andThen_Inr_conv)
  obtain vs where vs: "ts = vs @ us" "vs \<noteq> []" "G vs left" using sound [OF good step(1)] by blast
  from leftLoop_sound [OF good_rest [OF good step(1)] step(2) operand_phrase [OF vs(3)]] vs(1,2)
  show "\<exists>us. ts = us @ rest \<and> us \<noteq> [] \<and> H us n" by fastforce
next
  fix ts n rest
  assume "leftAssoc isOp p ts = Inr (n, rest)"
  then obtain left us where step: "p ts = Inr (left, us)" "leftLoop (Suc (length us)) isOp p left us = Inr (n, rest)"
    by (auto simp: leftAssoc_def andThen_Inr_conv)
  from shorter [OF step(1)] leftLoop_shorter [OF step(2)] show "length rest < length ts" by simp
qed

end

text \<open>Parsers of expressions, as the primary expressions use them.\<close>

locale expression_parser = phrase_parser p gOr for p
begin

lemma argLoop_coded: "length ts < k \<Longrightarrow> argLoop k p ts \<noteq> Inl PlainError"
proof (induction k arbitrary: ts)
  case (Suc k)
  show ?case
  proof (cases "p ts")
    case (Inl e)
    with coded [of ts] show ?thesis by auto
  next
    case (Inr x)
    obtain e us where x: "x = (e, us)" by (cases x)
    with shorter [of ts e us] Inr Suc.prems have "length us < k" by simp
    then have "length (tl us) < k" by simp
    with Suc.IH [of "tl us"] Inr x show ?thesis by (auto simp: andThen_Inl_conv)
  qed
qed simp

lemma argLoop_shorter: "argLoop k p ts = Inr (es, rest) \<Longrightarrow> length rest < length ts"
proof (induction k arbitrary: ts es)
  case (Suc k)
  from Suc.prems obtain e us where step: "p ts = Inr (e, us)" by (auto simp: andThen_Inr_conv)
  have "length rest \<le> length us"
  proof (cases "peekKind us = tokComma")
    case True
    with Suc.prems step obtain es' where "argLoop k p (tl us) = Inr (es', rest)"
      by (auto simp: andThen_Inr_conv split: if_split_asm)
    from Suc.IH [OF this] show ?thesis by simp
  qed (use Suc.prems step in auto)
  with shorter [OF step] show ?case by simp
qed simp

lemma argLoop_sound:
  "list_all goodToken ts \<Longrightarrow> argLoop k p ts = Inr (es, rest) \<Longrightarrow> \<exists>us. ts = us @ rest \<and> gArgs us es"
proof (induction k arbitrary: ts es)
  case (Suc k)
  from Suc.prems obtain e us where step: "p ts = Inr (e, us)" by (auto simp: andThen_Inr_conv)
  obtain vs where vs: "ts = vs @ us" "gOr vs e" using sound [OF Suc.prems(1) step] by blast
  show ?case
  proof (cases "peekKind us = tokComma")
    case True
    then obtain c us' where us: "us = c # us'" "tk_kind c = tokComma" using peek_not_eof by blast
    with True Suc.prems step obtain es' where more: "argLoop k p us' = Inr (es', rest)" "es = e # es'"
      by (auto simp: andThen_Inr_conv split: if_split_asm)
    from good_rest [OF Suc.prems(1) step] us have "list_all goodToken us'" by simp
    from Suc.IH [OF this more(1)] obtain ws where "us' = ws @ rest" "gArgs ws es'" by blast
    with gArgs_more [OF vs(2) us(2)] vs(1) us(1) more(2) show ?thesis by auto
  next
    case False
    with Suc.prems step have "es = [e]" "us = rest" by auto
    with vs gArgs_one show ?thesis by blast
  qed
qed simp

lemma argList_coded: "argList p ts \<noteq> Inl PlainError"
  using argLoop_coded [of ts "Suc (length ts)"] by (simp add: argList_def del: argLoop.simps)

lemma argList_cases:
  assumes "argList p ts = Inr (es, rest)"
  obtains (none) "es = []" "rest = ts"
  | (some) "length rest < length ts" "list_all goodToken ts \<Longrightarrow> \<exists>us. ts = us @ rest \<and> gArgs us es"
  using assms argLoop_sound argLoop_shorter
  by (auto simp: argList_def simp del: argLoop.simps split: if_split_asm)

lemma argList_le: "argList p ts = Inr (es, rest) \<Longrightarrow> length rest \<le> length ts"
  by (erule argList_cases) simp_all

end

text \<open>The calls and the group; each is entered at a first token that has been looked at.\<close>

context expression_parser
begin

lemma nowCall_sound:
  assumes "list_all goodToken ts" and "isKeywordToken ''now'' (peek ts)" and "nowCall p ts = Inr (n, rest)"
  shows "\<exists>us. ts = us @ rest \<and> us \<noteq> [] \<and> gPrim us n"
proof -
  from assms(3) obtain ts2 where run: "peekKind (tl ts) = tokLParen" "argList p (tl (tl ts)) = Inr ([], ts2)"
      "peekKind ts2 = tokRParen" "n = Call '''' ''now'' []" "rest = tl ts2"
    by (auto simp: nowCall_def Let_def andThen_Inr_conv split: if_split_asm)
  obtain t l us where ts: "ts = t # l # us" using peek_not_eof [OF run(1)] by (cases ts) auto
  have eq: "ts2 = us" using run(2) ts
  proof (cases rule: argList_cases)
    case some
    then show ?thesis using run(2) ts assms(1) by (auto elim: gArgs.cases)
  qed (use ts in simp)
  from peek_not_eof [OF run(3)] obtain r rs where r: "ts2 = r # rs" "tk_kind r = tokRParen" by auto
  have "gPrim [t, l, r] n" using gPrim_now [of t l r] assms(2) ts run(1,4) r(2) by simp
  moreover have "ts = [t, l, r] @ rest" using ts eq r(1) run(5) by auto
  ultimately show ?thesis by blast
qed

lemma lenCall_sound:
  assumes "list_all goodToken ts" and "isKeywordToken ''len'' (peek ts)" and "lenCall p ts = Inr (n, rest)"
  shows "\<exists>us. ts = us @ rest \<and> us \<noteq> [] \<and> gPrim us n"
proof -
  from assms(3) obtain e ts2 where run: "peekKind (tl ts) = tokLParen" "p (tl (tl ts)) = Inr (e, ts2)"
      "peekKind ts2 = tokRParen" "n = Call '''' ''len'' [e]" "rest = tl ts2"
    by (auto simp: lenCall_def Let_def andThen_Inr_conv split: if_split_asm)
  obtain t l us where ts: "ts = t # l # us" using peek_not_eof [OF run(1)] by (cases ts) auto
  from peek_not_eof [OF run(3)] obtain r rs where r: "ts2 = r # rs" "tk_kind r = tokRParen" by auto
  from assms(1) ts have "list_all goodToken us" by simp
  from sound [OF this] run(2) ts obtain vs where vs: "us = vs @ ts2" "gOr vs e" by auto
  have "gPrim (t # l # vs @ [r]) n" using gPrim_len [of t l vs e r] assms(2) ts run(1,4) r(2) vs(2) by simp
  moreover have "ts = (t # l # vs @ [r]) @ rest" using ts vs(1) r(1) run(5) by simp
  ultimately show ?thesis by blast
qed

lemma namespaceCall_sound:
  assumes "list_all goodToken ts" and "callRoot (peek ts)" and "tk_kind (peekN ts 1) = tokDot"
    and "namespaceCall p ts = Inr (n, rest)"
  shows "\<exists>us. ts = us @ rest \<and> us \<noteq> [] \<and> gPrim us n"
proof -
  obtain t d us where ts: "ts = t # d # us" using assms(3) by (cases ts; cases "tl ts") auto
  from assms(4) ts obtain args ts2 where run: "isWord (peekKind us)" "peekKind (tl us) = tokLParen"
      "knownMethod (tk_lit t) (tk_lit (peek us))" "argList p (tl (tl us)) = Inr (args, ts2)"
      "peekKind ts2 = tokRParen" "n = Call (tk_lit t) (tk_lit (peek us)) args" "rest = tl ts2"
    by (auto simp: namespaceCall_def Let_def andThen_Inr_conv split: if_split_asm)
  obtain m l vs where us: "us = m # l # vs" using peek_not_eof [OF run(2)] by (cases us) auto
  from peek_not_eof [OF run(5)] obtain r rs where r: "ts2 = r # rs" "tk_kind r = tokRParen" by auto
  have kinds: "callRoot t" "tk_kind d = tokDot" "isWord (tk_kind m)" "tk_kind l = tokLParen"
      "knownMethod (tk_lit t) (tk_lit m)" "n = Call (tk_lit t) (tk_lit m) args"
    using assms(2,3) ts us run(1-3,6) by simp_all
  from run(4) us have "argList p vs = Inr (args, ts2)" by simp
  then show ?thesis
  proof (cases rule: argList_cases)
    case none
    have "gPrim [t, d, m, l, r] n" using gPrim_none [OF kinds(1-5) r(2)] kinds(6) none(1) by simp
    moreover have "ts = [t, d, m, l, r] @ rest" using ts us none(2) r(1) run(7) by auto
    ultimately show ?thesis by blast
  next
    case some
    from assms(1) ts us have "list_all goodToken vs" by simp
    from some(2) [OF this] obtain ws where ws: "vs = ws @ ts2" "gArgs ws args" by blast
    have "gPrim (t # d # m # l # ws @ [r]) n" using gPrim_call [OF kinds(1-5) ws(2) r(2)] kinds(6) by simp
    moreover have "ts = (t # d # m # l # ws @ [r]) @ rest" using ts us ws(1) r(1) run(7) by simp
    ultimately show ?thesis by blast
  qed
qed

lemma groupExpr_sound:
  assumes "list_all goodToken ts" and "peekKind ts = tokLParen" and "groupExpr p ts = Inr (n, rest)"
  shows "\<exists>us. ts = us @ rest \<and> us \<noteq> [] \<and> gPrim us n"
proof -
  obtain l us where ts: "ts = l # us" "tk_kind l = tokLParen" using peek_not_eof [OF assms(2)] by auto
  with assms(3) obtain e ts1 where run: "p us = Inr (e, ts1)" "peekKind ts1 = tokRParen" "n = Group e" "rest = tl ts1"
    by (auto simp: groupExpr_def andThen_Inr_conv split: if_split_asm)
  from peek_not_eof [OF run(2)] obtain r rs where r: "ts1 = r # rs" "tk_kind r = tokRParen" by auto
  from assms(1) ts have "list_all goodToken us" by simp
  from sound [OF this run(1)] obtain vs where vs: "us = vs @ ts1" "gOr vs e" by auto
  have "gPrim (l # vs @ [r]) n" using gPrim_group [OF ts(2) vs(2) r(2)] run(3) by simp
  moreover have "ts = (l # vs @ [r]) @ rest" using ts(1) vs(1) r(1) run(4) by simp
  ultimately show ?thesis by blast
qed

lemma calls_coded:
  "nowCall p ts \<noteq> Inl PlainError" "lenCall p ts \<noteq> Inl PlainError" "namespaceCall p ts \<noteq> Inl PlainError"
  "groupExpr p ts \<noteq> Inl PlainError"
  using argList_coded coded
  by (auto simp: nowCall_def lenCall_def namespaceCall_def groupExpr_def Let_def andThen_Inl_conv)

lemma calls_shorter:
  "nowCall p ts = Inr (n, rest) \<Longrightarrow> length rest < length ts"
  "lenCall p ts = Inr (n, rest) \<Longrightarrow> length rest < length ts"
  "namespaceCall p ts = Inr (n, rest) \<Longrightarrow> length rest < length ts"
  "groupExpr p ts = Inr (n, rest) \<Longrightarrow> length rest < length ts"
  subgoal
    by (cases ts) (auto simp: nowCall_def Let_def andThen_Inr_conv split: if_split_asm dest!: argList_le)
  subgoal
    by (cases ts) (auto simp: lenCall_def Let_def andThen_Inr_conv split: if_split_asm dest!: shorter)
  subgoal
    by (cases ts) (auto simp: namespaceCall_def Let_def andThen_Inr_conv split: if_split_asm dest!: argList_le)
  subgoal
    by (cases ts) (auto simp: groupExpr_def andThen_Inr_conv split: if_split_asm dest!: shorter)
  done

end

subsection \<open>Paths and literals\<close>

lemma pathSegments_coded: "pathSegments ts \<noteq> Inl PlainError"
  by (induction ts rule: pathSegments.induct) (auto simp: andThen_Inl_conv split: list.splits)

lemma pathSegments_sound: "pathSegments ts = Inr (segs, rest) \<Longrightarrow> \<exists>us. ts = us @ rest \<and> gSegs us segs"
proof (induction ts arbitrary: segs rule: pathSegments.induct)
  case 1
  then show ?case using gSegs_end by simp
next
  case (2 t ts)
  consider (dot) "tk_kind t = tokDot \<or> tk_kind t = tokOptionalDot"
    | (bracket) "tk_kind t = tokLBracket \<or> tk_kind t = tokOptionalBracket"
    | (other) "tk_kind t \<notin> {tokDot, tokOptionalDot, tokLBracket, tokOptionalBracket}" by blast
  then show ?case
  proof cases
    case dot
    with 2(3) obtain seg us segs' where run: "ts = seg # us" "tk_kind seg = tokIdent" "pathSegments us = Inr (segs', rest)"
        "segs = \<lparr>ps_Name = tk_lit seg, ps_Index = None, ps_Optional = (tk_kind t = tokOptionalDot)\<rparr> # segs'"
      by (auto simp: andThen_Inr_conv split: list.splits if_split_asm)
    from 2(1) [OF dot run(1) _ _ run(3)] run(2) obtain vs where "us = vs @ rest" "gSegs vs segs'" by auto
    with gSegs_name [OF dot run(2)] run(1,4) show ?thesis by (metis append_Cons)
  next
    case bracket
    then have nodot: "\<not> (tk_kind t = tokDot \<or> tk_kind t = tokOptionalDot)" by auto
    with bracket 2(3) obtain idx c us segs' where run: "ts = idx # c # us" "tk_kind idx = tokNumber"
        "\<not> hasNumberFraction (tk_lit idx)" "tk_kind c = tokRBracket" "pathSegments us = Inr (segs', rest)"
        "segs = \<lparr>ps_Name = '''', ps_Index = Some (indexOfLit (tk_lit idx)), ps_Optional = (tk_kind t = tokOptionalBracket)\<rparr> # segs'"
      by (auto simp: andThen_Inr_conv split: list.splits if_split_asm)
    from 2(2) [OF nodot bracket run(1) _ _ run(3) refl _ run(5)] run(2,4) obtain vs where "us = vs @ rest" "gSegs vs segs'" by auto
    with gSegs_index [OF bracket run(2-4)] run(1,6) show ?thesis by (metis append_Cons)
  next
    case other
    with 2(3) gSegs_end show ?thesis by auto
  qed
qed

lemma gSegs_head: "gSegs us segs \<Longrightarrow> us \<noteq> [] \<Longrightarrow> tk_kind (hd us) \<in> {tokDot, tokOptionalDot, tokLBracket, tokOptionalBracket}"
  by (erule gSegs.cases) auto

lemma pathRef_sound:
  assumes "isWord (peekKind ts)" and "tk_kind (peek ts) = tokIdent \<longrightarrow> tk_lit (peek ts) \<notin> {''NaN'', ''Infinity''}"
    and "tk_kind (peek ts) = tokKeyword \<longrightarrow> tk_lit (peek ts) \<in> {''str'', ''list'', ''regex''} \<and> tk_kind (peekN ts 1) \<noteq> tokDot"
    and "pathRef ts = Inr (n, rest)"
  shows "\<exists>us. ts = us @ rest \<and> us \<noteq> [] \<and> gPrim us n"
proof -
  obtain t ts' where ts: "ts = t # ts'" using assms(1) by (cases ts) (auto simp: isWord_def)
  with assms(4) obtain segs where run: "pathSegments ts' = Inr (segs, rest)" "n = PathRef (tk_lit t) segs" "tk_lit t \<noteq> ''vars''"
    by (auto simp: pathRef_def Let_def andThen_Inr_conv split: if_split_asm)
  from pathSegments_sound [OF run(1)] obtain us where us: "ts' = us @ rest" "gSegs us segs" by blast
  have "peekKind us \<noteq> tokDot" if "tk_kind t = tokKeyword"
    using assms(3) that ts us(1) by (cases us) auto
  with assms(1-3) ts run(3) have "pathRoot t us" by (auto simp: pathRoot_def isWord_def)
  from gPrim_path [OF this us(2)] ts us(1) run(2) show ?thesis by (metis append_Cons list.distinct(1))
qed

lemma literal_sound:
  assumes "list_all goodToken ts" and "literal ts = Inr (n, rest)"
  shows "\<exists>us. ts = us @ rest \<and> us \<noteq> [] \<and> gPrim us n"
proof (cases ts)
  case (Cons t ts')
  with assms have "rest = ts'" by (auto simp: literal_def Let_def split: if_split_asm)
  moreover have "gPrim [t] n"
    using assms Cons gPrim_string gPrim_number gPrim_true gPrim_false gPrim_null
    by (auto simp: literal_def Let_def goodToken_def split: if_split_asm)
  ultimately show ?thesis using Cons by auto
qed (use assms(2) in \<open>simp add: literal_def isKeywordToken_def\<close>)

lemma path_literal_shorter:
  "pathRef (t # ts) = Inr (n, rest) \<Longrightarrow> length rest < length (t # ts)"
  "literal (t # ts) = Inr (n, rest) \<Longrightarrow> length rest < length (t # ts)"
  by (auto simp: pathRef_def literal_def Let_def andThen_Inr_conv less_Suc_eq_le split: if_split_asm dest!: pathSegments_sound)

lemma path_literal_coded: "pathRef ts \<noteq> Inl PlainError" "literal ts \<noteq> Inl PlainError"
  using pathSegments_coded by (auto simp: pathRef_def literal_def Let_def andThen_Inl_conv)

subsection \<open>All levels\<close>

lemma primaryBody_phrase_parser:
  assumes "expression_parser e" and "expression_parser e'" and "expression_parser e''"
  shows "phrase_parser (primaryBody e e' e'') gPrim"
proof
  note coded = expression_parser.calls_coded [OF assms(1)] expression_parser.calls_coded [OF assms(2)]
    expression_parser.calls_coded [OF assms(3)] path_literal_coded
  show "primaryBody e e' e'' ts \<noteq> Inl PlainError" for ts
    by (simp add: primaryBody_def keywordPrimary_def Let_def coded)
next
  fix ts n rest
  assume good: "list_all goodToken ts" and run: "primaryBody e e' e'' ts = Inr (n, rest)"
  have keyword: "\<exists>us. ts = us @ rest \<and> us \<noteq> [] \<and> gPrim us n"
    if k: "peekKind ts = tokKeyword" and r: "keywordPrimary e e' ts = Inr (n, rest)"
  proof -
    consider (now) "tk_lit (peek ts) = ''now''" "nowCall e ts = Inr (n, rest)"
      | (len) "tk_lit (peek ts) = ''len''" "lenCall e' ts = Inr (n, rest)"
      | (ns) "tk_lit (peek ts) \<in> {''str'', ''list'', ''regex''}" "tk_kind (peekN ts 1) = tokDot" "namespaceCall e ts = Inr (n, rest)"
      | (path) "tk_lit (peek ts) \<in> {''str'', ''list'', ''regex''}" "tk_kind (peekN ts 1) \<noteq> tokDot" "pathRef ts = Inr (n, rest)"
      | (lit) "literal ts = Inr (n, rest)"
      using r by (auto simp: keywordPrimary_def Let_def split: if_split_asm)
    then show ?thesis
    proof cases
      case now
      with k show ?thesis
        using expression_parser.nowCall_sound [OF assms(1) good _ now(2)] by (simp add: isKeywordToken_def)
    next
      case len
      with k show ?thesis
        using expression_parser.lenCall_sound [OF assms(2) good _ len(2)] by (simp add: isKeywordToken_def)
    next
      case ns
      with k show ?thesis
        using expression_parser.namespaceCall_sound [OF assms(1) good _ ns(2,3)] by (simp add: callRoot_def)
    next
      case path
      with k show ?thesis using pathRef_sound [OF _ _ _ path(3)] by (simp add: isWord_def)
    next
      case lit
      then show ?thesis using literal_sound [OF good] by blast
    qed
  qed
  consider (ns) "peekKind ts = tokIdent" "tk_kind (peekN ts 1) = tokDot" "namespaceCall e ts = Inr (n, rest)"
    | (keyword) "peekKind ts = tokKeyword" "keywordPrimary e e' ts = Inr (n, rest)"
    | (path) "peekKind ts = tokIdent" "tk_lit (peek ts) \<notin> {''NaN'', ''Infinity''}" "pathRef ts = Inr (n, rest)"
    | (lit) "literal ts = Inr (n, rest)"
    | (group) "peekKind ts = tokLParen" "groupExpr e'' ts = Inr (n, rest)"
    using run by (auto simp: primaryBody_def Let_def split: if_split_asm)
  then show "\<exists>us. ts = us @ rest \<and> us \<noteq> [] \<and> gPrim us n"
  proof cases
    case ns
    then show ?thesis using expression_parser.namespaceCall_sound [OF assms(1) good _ ns(2,3)] by (simp add: callRoot_def)
  next
    case path
    then show ?thesis using pathRef_sound [OF _ _ _ path(3)] by (simp add: isWord_def)
  next
    case group
    then show ?thesis using expression_parser.groupExpr_sound [OF assms(3) good group] by blast
  qed (use keyword literal_sound [OF good] in blast)+
next
  fix ts n rest
  assume run: "primaryBody e e' e'' ts = Inr (n, rest)"
  then have "ts \<noteq> []" by (auto simp: primaryBody_def Let_def looksLikeUnknownNamespaceCall_def isWord_def)
  then obtain t us where ts: "ts = t # us" by (cases ts) auto
  note shorter = expression_parser.calls_shorter [OF assms(1)] expression_parser.calls_shorter [OF assms(2)]
    expression_parser.calls_shorter [OF assms(3)]
  show "length rest < length ts"
    using run shorter [of ts n rest] path_literal_shorter [of t us n rest] ts
    by (auto simp: primaryBody_def keywordPrimary_def Let_def split: if_split_asm)
qed

lemma comparisonBody_phrase_parser:
  assumes "phrase_parser p gAdd"
  shows "phrase_parser (comparisonBody p) gComp"
proof
  show "comparisonBody p ts \<noteq> Inl PlainError" for ts
    using phrase_parser.coded [OF assms] by (auto simp: comparisonBody_def andThen_Inl_conv)
next
  fix ts n rest
  assume good: "list_all goodToken ts" and run: "comparisonBody p ts = Inr (n, rest)"
  then obtain l us where l: "p ts = Inr (l, us)" by (auto simp: comparisonBody_def andThen_Inr_conv)
  from phrase_parser.sound [OF assms good l] obtain vs where vs: "ts = vs @ us" "vs \<noteq> []" "gAdd vs l" by blast
  show "\<exists>us. ts = us @ rest \<and> us \<noteq> [] \<and> gComp us n"
  proof (cases "isComp (peekKind us)")
    case True
    then obtain t us' where us: "us = t # us'" by (cases us) (auto simp: isComp_def)
    with run l True obtain r where r: "p us' = Inr (r, rest)" "n = BinaryOp (tk_lit t) l r"
      by (auto simp: comparisonBody_def andThen_Inr_conv split: if_split_asm)
    from good vs(1) us have "list_all goodToken us'" by simp
    from phrase_parser.sound [OF assms this r(1)] obtain ws where "us' = ws @ rest" "gAdd ws r" by blast
    with gComp_comp [OF vs(3), of t ws r] True us vs(1) r(2) show ?thesis by auto
  next
    case False
    with run l vs gComp_add show ?thesis by (auto simp: comparisonBody_def)
  qed
next
  fix ts n rest
  assume "comparisonBody p ts = Inr (n, rest)"
  then obtain l us where l: "p ts = Inr (l, us)" "rest = us \<or> (\<exists>r. p (tl us) = Inr (r, rest))"
    by (auto simp: comparisonBody_def andThen_Inr_conv split: if_split_asm)
  have "length rest \<le> length us" using l(2) phrase_parser.shorter [OF assms, of "tl us" _ rest] by fastforce
  with phrase_parser.shorter [OF assms l(1)] show "length rest < length ts" by simp
qed

lemma prefix_phrase_parser:
  assumes "phrase_parser p G" and "phrase_parser q G" and eof: "\<not> isOp eofToken"
    and op: "\<And>t ts n. isOp t \<Longrightarrow> G ts n \<Longrightarrow> G (t # ts) (UnaryOp (tk_lit t) n)"
  shows "phrase_parser (\<lambda>ts. if isOp (peek ts)
      then andThen (p (tl ts)) (\<lambda>(e, ts1). Inr (UnaryOp (tk_lit (peek ts)) e, ts1)) else q ts) G"
proof
  show "(if isOp (peek ts) then andThen (p (tl ts)) (\<lambda>(e, ts1). Inr (UnaryOp (tk_lit (peek ts)) e, ts1)) else q ts)
      \<noteq> Inl PlainError" for ts
    using phrase_parser.coded [OF assms(1)] phrase_parser.coded [OF assms(2)] by (auto simp: andThen_Inl_conv)
next
  fix ts n rest
  assume good: "list_all goodToken ts" and run: "(if isOp (peek ts)
      then andThen (p (tl ts)) (\<lambda>(e, ts1). Inr (UnaryOp (tk_lit (peek ts)) e, ts1)) else q ts) = Inr (n, rest)"
  show "\<exists>us. ts = us @ rest \<and> us \<noteq> [] \<and> G us n"
  proof (cases "isOp (peek ts)")
    case True
    then obtain t us where ts: "ts = t # us" using eof by (cases ts) auto
    with True run obtain e where e: "p us = Inr (e, rest)" "n = UnaryOp (tk_lit t) e" by (auto simp: andThen_Inr_conv)
    from good ts have "list_all goodToken us" by simp
    from phrase_parser.sound [OF assms(1) this e(1)] obtain vs where "us = vs @ rest" "G vs e" by blast
    with op [of t vs e] True ts e(2) show ?thesis by (metis append_Cons list.distinct(1) peekN_simps(2))
  next
    case False
    with run phrase_parser.sound [OF assms(2) good] show ?thesis by simp
  qed
next
  fix ts n rest
  assume run: "(if isOp (peek ts)
      then andThen (p (tl ts)) (\<lambda>(e, ts1). Inr (UnaryOp (tk_lit (peek ts)) e, ts1)) else q ts) = Inr (n, rest)"
  show "length rest < length ts"
  proof (cases "isOp (peek ts)")
    case True
    with run obtain e where "p (tl ts) = Inr (e, rest)" by (auto simp: andThen_Inr_conv)
    from phrase_parser.shorter [OF assms(1) this] show ?thesis by simp
  next
    case False
    with run phrase_parser.shorter [OF assms(2)] show ?thesis by simp
  qed
qed

text \<open>The levels, by induction on the depth that is left.\<close>

lemma no_depth: "phrase_parser (\<lambda>ts. Inl (Code c)) G"
  by unfold_locales simp_all

lemma ops_eof [simp]: "\<not> isKeywordToken s eofToken" "\<not> isAddOp eofToken" "\<not> isMulOp eofToken"
  by (simp_all add: isKeywordToken_def isAddOp_def isMulOp_def)

lemma operator_levelI:
  assumes "phrase_parser p G" and "\<not> isOp eofToken" and "\<And>ts n. G ts n \<Longrightarrow> H ts n"
    and "\<And>ts l t us r. H ts l \<Longrightarrow> isOp t \<Longrightarrow> G us r \<Longrightarrow> H (ts @ t # us) (BinaryOp (tk_lit t) l r)"
  shows "phrase_parser (leftAssoc isOp p) H"
  by (rule operator_level.leftAssoc_phrase_parser, rule operator_level.intro, rule assms(1), unfold_locales)
    (use assms in auto)

lemma phrase_parser_mono:
  assumes "phrase_parser p G" and "\<And>us n. G us n \<Longrightarrow> H us n"
  shows "phrase_parser p H"
proof
  show "p ts \<noteq> Inl PlainError" for ts by (rule phrase_parser.coded [OF assms(1)])
  show "\<exists>us. ts = us @ rest \<and> us \<noteq> [] \<and> H us n" if "list_all goodToken ts" "p ts = Inr (n, rest)" for ts n rest
    using phrase_parser.sound [OF assms(1) that] assms(2) by blast
  show "length rest < length ts" if "p ts = Inr (n, rest)" for ts n rest
    by (rule phrase_parser.shorter [OF assms(1) that])
qed

lemma minus_eof: "tk_kind eofToken \<noteq> tokMinus"
  by simp

text \<open>The equations of the levels, as equations of parsers.\<close>

lemma level_Suc:
  shows orExpr_Suc: "orExpr (Suc d) = leftAssoc (isKeywordToken ''or'') (andExpr d)"
    and andExpr_Suc: "andExpr (Suc d) = leftAssoc (isKeywordToken ''and'') (notExpr d)"
    and notExpr_Suc: "notExpr (Suc d) = (\<lambda>ts. if isKeywordToken ''not'' (peek ts)
      then andThen (notExpr d (tl ts)) (\<lambda>(e, ts1). Inr (UnaryOp (tk_lit (peek ts)) e, ts1)) else comparison d ts)"
    and comparison_Suc: "comparison (Suc d) = comparisonBody (addition d)"
    and addition_Suc: "addition (Suc d) = leftAssoc isAddOp (multiply d)"
    and multiply_Suc: "multiply (Suc d) = leftAssoc isMulOp (unaryMinus d)"
    and unaryMinus_Suc: "unaryMinus (Suc d) = (\<lambda>ts. if peekKind ts = tokMinus
      then andThen (unaryMinus d (tl ts)) (\<lambda>(e, ts1). Inr (UnaryOp (tk_lit (peek ts)) e, ts1)) else primary d ts)"
    and primary_Suc: "primary (Suc d) = primaryBody (orExpr (d - 3)) (orExpr (d - 2)) (orExpr (d - 1))"
  by (rule ext, simp)+

lemma levels_phrase_parsers:
  "phrase_parser (orExpr d) gOr \<and> phrase_parser (andExpr d) gAnd \<and> phrase_parser (notExpr d) gNot \<and>
   phrase_parser (comparison d) gComp \<and> phrase_parser (addition d) gAdd \<and> phrase_parser (multiply d) gMul \<and>
   phrase_parser (unaryMinus d) gUnary \<and> phrase_parser (primary d) gPrim"
proof (induction d rule: less_induct)
  case (less d)
  show ?case
  proof (cases d)
    case 0
    then show ?thesis by (simp add: no_depth)
  next
    case (Suc e)
    from less.IH [of e] Suc have ih: "phrase_parser (andExpr e) gAnd" "phrase_parser (notExpr e) gNot"
        "phrase_parser (comparison e) gComp" "phrase_parser (addition e) gAdd" "phrase_parser (multiply e) gMul"
        "phrase_parser (unaryMinus e) gUnary" "phrase_parser (primary e) gPrim" by simp_all
    have expr: "expression_parser (orExpr k)" if "k \<le> e" for k
      using less.IH [of k] that Suc by (simp add: expression_parser_def)
    have "phrase_parser (comparison e) gNot" "phrase_parser (primary e) gUnary"
      by (rule phrase_parser_mono [OF ih(3) gNot_comp], assumption) (rule phrase_parser_mono [OF ih(7) gUnary_prim])
    note prefixes = prefix_phrase_parser [OF ih(2) this(1), of "isKeywordToken ''not''"]
      prefix_phrase_parser [OF ih(6) this(2), of "\<lambda>t. tk_kind t = tokMinus"]
    have "phrase_parser (orExpr d) gOr"
      unfolding Suc orExpr_Suc by (rule operator_levelI [OF ih(1)]) (auto intro: ops_eof gOr_and gOr_or)+
    moreover have "phrase_parser (andExpr d) gAnd"
      unfolding Suc andExpr_Suc by (rule operator_levelI [OF ih(2)]) (auto intro: ops_eof gAnd_not gAnd_and)+
    moreover have "phrase_parser (notExpr d) gNot" 
      unfolding Suc notExpr_Suc by (rule prefixes(1)) (auto intro: ops_eof gNot_not)+
    moreover have "phrase_parser (comparison d) gComp" using comparisonBody_phrase_parser [OF ih(4)] unfolding Suc comparison_Suc .
    moreover have "phrase_parser (addition d) gAdd"
      unfolding Suc addition_Suc by (rule operator_levelI [OF ih(5)]) (auto intro: ops_eof gAdd_mul gAdd_add)+
    moreover have "phrase_parser (multiply d) gMul"
      unfolding Suc multiply_Suc by (rule operator_levelI [OF ih(6)]) (auto intro: ops_eof gMul_unary gMul_mul)+
    moreover have "phrase_parser (unaryMinus d) gUnary" 
      unfolding Suc unaryMinus_Suc by (rule prefixes(2)) (auto intro: minus_eof gUnary_minus)+
    moreover have "phrase_parser (primary d) gPrim"
      using primaryBody_phrase_parser [OF expr expr expr, of "e - 3" "e - 2" "e - 1"] unfolding Suc primary_Suc by simp
    ultimately show ?thesis by blast
  qed
qed

interpretation orP: expression_parser "orExpr d" for d
  using levels_phrase_parsers [of d] by (simp add: expression_parser_def)

interpretation orL: operator_level "andExpr d" gAnd "isKeywordToken ''or''" gOr for d
  by (intro operator_level.intro operator_level_axioms.intro, simp add: levels_phrase_parsers) (simp_all add: gOr_and gOr_or)

interpretation andL: operator_level "notExpr d" gNot "isKeywordToken ''and''" gAnd for d
  by (intro operator_level.intro operator_level_axioms.intro, simp add: levels_phrase_parsers) (simp_all add: gAnd_not gAnd_and)

interpretation addL: operator_level "multiply d" gMul isAddOp gAdd for d
  by (intro operator_level.intro operator_level_axioms.intro, simp add: levels_phrase_parsers) (simp_all add: gAdd_mul gAdd_add)

interpretation mulL: operator_level "unaryMinus d" gUnary isMulOp gMul for d
  by (intro operator_level.intro operator_level_axioms.intro, simp add: levels_phrase_parsers) (simp_all add: gMul_unary gMul_mul)

subsection \<open>From the source\<close>

lemma plainToken_good: "goodToken (plainToken k s) \<longleftrightarrow> k \<notin> {tokEOF, tokString, tokNumber}"
  by (auto simp: goodToken_def plainToken_def)

lemma lexNumber_good: "lexNumber rs = Inr (t, rest) \<Longrightarrow> goodToken t"
  by (auto simp: lexNumber_def goodToken_def Let_def andThen_Inr_conv split: if_split_asm option.splits)

lemma lexSymbol_good: "lexSymbol rs = Inr (t, rest) \<Longrightarrow> goodToken t"
  by (auto simp: lexSymbol_def singleKind_def plainToken_good split: if_split_asm option.splits)

lemma lexToken_good:
  assumes "lexToken rs = Inr (t, rest)"
  shows "goodToken t"
proof -
  have "goodToken (fst (lexIdent rs))" by (simp add: lexIdent_def Let_def plainToken_good)
  moreover have "goodToken t" if "lexString rs = Inr (t, rest)"
    using that by (auto simp: lexString_def andThen_Inr_conv goodToken_def)
  ultimately show ?thesis
    using assms lexNumber_good lexSymbol_good by (auto simp: lexToken_def Let_def split: if_split_asm)
qed

lemma scan_good: "scan limit m n rs = Inr ts \<Longrightarrow> list_all goodToken ts"
proof (induction limit m n rs arbitrary: ts rule: scan.induct)
  case (1 limit m n rs)
  obtain c rest where skip: "skipSpaceAndComments rs = (c, rest)" by (cases "skipSpaceAndComments rs")
  show ?case
  proof (cases rest)
    case Nil
    with 1(2) skip show ?thesis by (simp split: if_split_asm)
  next
    case (Cons r rest')
    with 1(2) skip obtain t rest'' ts' where run: "lexToken (r # rest') = Inr (t, rest'')"
        "scan limit (Suc m) (n + c) rest'' = Inr ts'" "ts = t # ts'" "\<not> (0 < limit \<and> limit \<le> m + n)"
      by (auto simp: andThen_Inr_conv simp del: scan.simps simp: scan.simps [of limit m n] split: if_split_asm sum.splits)
    from 1(1) [OF run(4) skip [symmetric] Cons run(1) refl run(2)] lexToken_good [OF run(1)] run(3)
    show ?thesis by simp
  qed
qed

lemma lex_good: "lex src = Inr ts \<Longrightarrow> list_all goodToken ts"
  by (simp add: lex_def scan_good del: scan.simps)

lemma lexEscape_coded: "lexEscape rs \<noteq> Inl PlainError"
  by (simp add: lexEscape_def readHexRune_def Let_def)

lemma lexStringRunes_coded: "lexStringRunes q rs \<noteq> Inl PlainError"
proof (induction q rs rule: lexStringRunes.induct)
  case (2 quote r rs)
  show ?case
    using 2 lexEscape_coded [of "advanceRune (r # rs)"]
    by (auto simp: Let_def andThen_Inl_conv simp del: advanceRune.simps split: sum.splits)
qed simp

lemma lexNumber_coded: "lexNumber rs \<noteq> Inl PlainError"
proof -
  have "lexFraction us \<noteq> Inl PlainError" "lexExponent us \<noteq> Inl PlainError" for us
    by (simp_all add: lexFraction_def lexExponent_def Let_def)
  then show ?thesis
    by (simp add: lexNumber_def Let_def andThen_Inl_conv split_beta split: option.split)
qed

lemma lexToken_coded: "lexToken rs \<noteq> Inl PlainError"
  using lexStringRunes_coded lexNumber_coded [of rs]
  by (auto simp: lexToken_def lexString_def lexSymbol_def Let_def andThen_Inl_conv split: option.splits)

lemma scan_coded: "scan 0 m n rs \<noteq> Inl PlainError"
proof (induction "0 :: nat" m n rs rule: scan.induct)
  case (1 m n rs)
  obtain c rest where skip: "skipSpaceAndComments rs = (c, rest)" by (cases "skipSpaceAndComments rs")
  show ?case
  proof (cases rest)
    case Nil
    with skip show ?thesis by simp
  next
    case (Cons r rest')
    show ?thesis
    proof (cases "lexToken (r # rest')")
      case (Inl e)
      with lexToken_coded [of "r # rest'"] skip Cons show ?thesis by auto
    next
      case (Inr x)
      obtain t rest'' where x: "x = (t, rest'')" by (cases x)
      have "scan 0 (Suc m) (n + c) rest'' \<noteq> Inl PlainError"
        using 1 [OF _ skip [symmetric] Cons Inr x [symmetric]] by simp
      with skip Cons Inr x show ?thesis
        by (subst scan.simps) (simp add: andThen_Inl_conv del: scan.simps)
    qed
  qed
qed

lemma parseTree_coded: "parseTree d ts \<noteq> Inl PlainError"
  using orP.coded [of d ts] by (auto simp: parseTree_def andThen_Inl_conv)

lemma parseTree_sound: "list_all goodToken ts \<Longrightarrow> parseTree d ts = Inr n \<Longrightarrow> gOr ts n"
  using orP.sound [of ts d n "[]"] by (auto simp: parseTree_def andThen_Inr_conv split: if_split_asm)

end
