(* ===== verification/Gxl_Completeness.thy ===== *)
theory Gxl_Completeness
  imports Gxl_Grammar
begin

section \<open>The parser accepts the whole grammar\<close>

text \<open>
  Every phrase of the grammar is parsed to its tree, given enough depth and a following token that does not
  continue it. With soundness, the parser decides the grammar, and the grammar is unambiguous.
\<close>

subsection \<open>What may follow a phrase\<close>

text \<open>How tightly a token binds what stands before it; zero ends every phrase.\<close>

definition binds :: "token \<Rightarrow> nat" where
  "binds t =
     (if isKeywordToken ''or'' t then 1 else if isKeywordToken ''and'' t then 2 else if isComp (tk_kind t) then 4
      else if isAddOp t then 5 else if isMulOp t then 6
      else if tk_kind t \<in> {tokLParen, tokDot, tokOptionalDot, tokLBracket, tokOptionalBracket} then 9 else 0)"

definition follow :: "nat \<Rightarrow> token list \<Rightarrow> bool" where
  "follow l rest = (binds (peek rest) \<le> l)"

lemma follow_mono: "follow l rest \<Longrightarrow> l \<le> l' \<Longrightarrow> follow l' rest"
  by (simp add: follow_def)

lemma binds_op:
  "isKeywordToken ''or'' t \<longleftrightarrow> binds t = 1" "isKeywordToken ''and'' t \<longleftrightarrow> binds t = 2" "isComp (tk_kind t) \<longleftrightarrow> binds t = 4"
  "isAddOp t \<longleftrightarrow> binds t = 5" "isMulOp t \<longleftrightarrow> binds t = 6"
  by (auto simp: binds_def isKeywordToken_def isComp_def isAddOp_def isMulOp_def)

lemma binds_tight: "tk_kind t \<in> {tokLParen, tokDot, tokOptionalDot, tokLBracket, tokOptionalBracket} \<Longrightarrow> binds t = 9"
  by (auto simp: binds_def isKeywordToken_def isComp_def isAddOp_def isMulOp_def)

lemma binds_loose: "tk_kind t \<in> {tokRParen, tokComma, tokEOF} \<Longrightarrow> binds t = 0"
  by (auto simp: binds_def isKeywordToken_def isComp_def isAddOp_def isMulOp_def)

lemma follow_tight:
  "follow 6 rest \<Longrightarrow> peekKind rest \<noteq> tokLParen \<and> peekKind rest \<noteq> tokDot \<and> peekKind rest \<noteq> tokOptionalDot \<and>
     peekKind rest \<noteq> tokLBracket \<and> peekKind rest \<noteq> tokOptionalBracket"
  using binds_tight [of "peek rest"] by (auto simp: follow_def)

lemma follow_loose: "peekKind rest = tokRParen \<Longrightarrow> follow l rest" "peekKind rest = tokComma \<Longrightarrow> follow l rest"
  "follow l []"
  using binds_loose [of "peek rest"] binds_loose [of eofToken] by (simp_all add: follow_def)

subsection \<open>Parsing with enough depth\<close>

definition parses :: "nat \<Rightarrow> (nat \<Rightarrow> parse) \<Rightarrow> token list \<Rightarrow> node \<Rightarrow> bool" where
  "parses l p us n = (\<exists>d0. \<forall>d\<ge>d0. \<forall>rest. follow l rest \<longrightarrow> p d (us @ rest) = Inr (n, rest))"

definition loops :: "nat \<Rightarrow> (nat \<Rightarrow> parse) \<Rightarrow> (token \<Rightarrow> bool) \<Rightarrow> (nat \<Rightarrow> parse) \<Rightarrow> token list \<Rightarrow> node \<Rightarrow> bool" where
  "loops l p isOp q us n =
     (\<exists>d0. \<forall>d\<ge>d0. \<forall>rest. follow l rest \<longrightarrow>
        p (Suc d) (us @ rest) = leftLoop (Suc (length rest)) isOp (q d) n rest)"

lemma parses_mono: "parses l p us n \<Longrightarrow> l' \<le> l \<Longrightarrow> parses l' p us n"
  unfolding parses_def using follow_mono by meson

text \<open>A level of operators that bind as tightly as \<open>l\<close>, between the parsers \<open>p\<close> of the level and \<open>q\<close> of operands.\<close>

locale operator_family =
  fixes p q :: "nat \<Rightarrow> parse" and isOp :: "token \<Rightarrow> bool" and l :: nat
  assumes p_Suc: "p (Suc d) = leftAssoc isOp (q d)"
    and op_binds: "isOp t \<longleftrightarrow> binds t = l" and binds_pos: "0 < l"
    and operand_shorter: "q d ts = Inr (n, rest) \<Longrightarrow> length rest < length ts"
begin

lemma op_Cons: "isOp (peek ts) \<Longrightarrow> \<exists>t us. ts = t # us"
  using op_binds [of eofToken] binds_pos binds_loose [of eofToken] by (cases ts) auto

lemma leftLoop_fuel:
  "length ts < k \<Longrightarrow> length ts < k' \<Longrightarrow> leftLoop k isOp (q d) left ts = leftLoop k' isOp (q d) left ts"
proof (induction k arbitrary: k' left ts)
  case (Suc k)
  from Suc.prems obtain j where k': "k' = Suc j" by (cases k') simp_all
  show ?case
  proof (cases "isOp (peek ts)")
    case True
    then obtain t us where ts: "ts = t # us" using op_Cons by blast
    show ?thesis
    proof (cases "q d us")
      case (Inr x)
      obtain right rest where x: "x = (right, rest)" by (cases x)
      from operand_shorter [of d us right rest] Inr x ts Suc.prems k' have "length rest < k" "length rest < j" by simp_all
      from Suc.IH [OF this] True ts Inr x k' show ?thesis by simp
    qed (simp add: ts k')
  qed (simp add: k')
qed simp

lemma loops_start:
  assumes "parses l q us n"
  shows "loops l p isOp q us n"
  using assms unfolding parses_def loops_def p_Suc leftAssoc_def by fastforce

lemma loops_step:
  assumes "loops l p isOp q us n" and "isOp t" and "parses l q vs m"
  shows "loops l p isOp q (us @ t # vs) (BinaryOp (tk_lit t) n m)"
proof -
  obtain d0 where d0: "\<And>d rest. d0 \<le> d \<Longrightarrow> follow l rest \<Longrightarrow>
      p (Suc d) (us @ rest) = leftLoop (Suc (length rest)) isOp (q d) n rest"
    using assms(1) unfolding loops_def by blast
  obtain d1 where d1: "\<And>d rest. d1 \<le> d \<Longrightarrow> follow l rest \<Longrightarrow> q d (vs @ rest) = Inr (m, rest)"
    using assms(3) unfolding parses_def by blast
  have "p (Suc d) ((us @ t # vs) @ rest) = leftLoop (Suc (length rest)) isOp (q d) (BinaryOp (tk_lit t) n m) rest"
    if "max d0 d1 \<le> d" "follow l rest" for d rest
  proof -
    have "follow l (t # vs @ rest)" using assms(2) op_binds by (simp add: follow_def)
    with d0 [of d "t # vs @ rest"] that(1)
    have "p (Suc d) ((us @ t # vs) @ rest) = leftLoop (Suc (length (t # vs @ rest))) isOp (q d) n (t # vs @ rest)" by simp
    also have "\<dots> = leftLoop (length (t # vs @ rest)) isOp (q d) (BinaryOp (tk_lit t) n m) rest"
      using assms(2) d1 [of d rest] that by simp
    also have "\<dots> = leftLoop (Suc (length rest)) isOp (q d) (BinaryOp (tk_lit t) n m) rest"
      by (rule leftLoop_fuel) simp_all
    finally show ?thesis .
  qed
  then show ?thesis unfolding loops_def by blast
qed

lemma loops_parses:
  assumes "loops l p isOp q us n" and "l' < l"
  shows "parses l' p us n"
proof -
  obtain d0 where d0: "\<And>d rest. d0 \<le> d \<Longrightarrow> follow l rest \<Longrightarrow>
      p (Suc d) (us @ rest) = leftLoop (Suc (length rest)) isOp (q d) n rest"
    using assms(1) unfolding loops_def by blast
  have "p d (us @ rest) = Inr (n, rest)" if "Suc d0 \<le> d" "follow l' rest" for d rest
  proof -
    obtain e where e: "d = Suc e" "d0 \<le> e" using \<open>Suc d0 \<le> d\<close> by (cases d) auto
    have "\<not> isOp (peek rest)" using that(2) assms(2) op_binds by (simp add: follow_def)
    with d0 [OF e(2) follow_mono [OF that(2)]] assms(2) e(1) show ?thesis by simp
  qed
  then show ?thesis unfolding parses_def by blast
qed

end

interpretation orF: operator_family orExpr andExpr "isKeywordToken ''or''" 1
  by unfold_locales (simp_all add: orExpr_Suc binds_op orL.shorter)

interpretation andF: operator_family andExpr notExpr "isKeywordToken ''and''" 2
  by unfold_locales (simp_all add: andExpr_Suc binds_op andL.shorter)

interpretation addF: operator_family addition multiply isAddOp 5
  by unfold_locales (simp_all add: addition_Suc binds_op addL.shorter)

interpretation mulF: operator_family multiply unaryMinus isMulOp 6
  by unfold_locales (simp_all add: multiply_Suc binds_op mulL.shorter)

subsection \<open>First tokens\<close>

definition starts :: "token list \<Rightarrow> bool" where
  "starts us = (us \<noteq> [] \<and> tk_kind (hd us) \<noteq> tokRParen)"

lemma starts_peek: "starts us \<Longrightarrow> peekKind (us @ rest) \<noteq> tokRParen"
  by (cases us) (simp_all add: starts_def)

lemma phrase_starts:
  "gOr us n \<Longrightarrow> starts us"
  "gAnd us n \<Longrightarrow> starts us"
  "gNot us n \<Longrightarrow> starts us"
  "gComp us n \<Longrightarrow> starts us \<and> \<not> isKeywordToken ''not'' (hd us)"
  "gAdd us n \<Longrightarrow> starts us \<and> \<not> isKeywordToken ''not'' (hd us)"
  "gMul us n \<Longrightarrow> starts us \<and> \<not> isKeywordToken ''not'' (hd us)"
  "gUnary us n \<Longrightarrow> starts us \<and> \<not> isKeywordToken ''not'' (hd us)"
  "gPrim us n \<Longrightarrow> starts us \<and> \<not> isKeywordToken ''not'' (hd us) \<and> tk_kind (hd us) \<noteq> tokMinus"
  "gArgs us ns \<Longrightarrow> starts us"
proof (induction rule: gOr_gAnd_gNot_gComp_gAdd_gMul_gUnary_gPrim_gArgs.inducts)
qed (auto simp: starts_def isKeywordToken_def pathRoot_def callRoot_def)

subsection \<open>Primary expressions\<close>

lemma pathSegments_complete: "gSegs us segs \<Longrightarrow> follow 6 rest \<Longrightarrow> pathSegments (us @ rest) = Inr (segs, rest)"
proof (induction rule: gSegs.induct)
  case gSegs_end
  then show ?case using follow_tight [OF gSegs_end] by (cases rest) auto
qed auto

lemma path_lookahead:
  assumes "gSegs us segs" and "follow 6 rest"
  shows "peekKind (us @ rest) \<noteq> tokLParen"
    and "\<not> (peekKind (us @ rest) = tokDot \<and> tk_kind (peekN (us @ rest) 2) = tokLParen)"
    and "us = [] \<Longrightarrow> peekKind (us @ rest) \<noteq> tokDot"
proof -
  have head: "peekKind (vs @ rest) \<noteq> tokLParen" if "gSegs vs segs'" for vs segs'
    using that follow_tight [OF assms(2)] by (cases rule: gSegs.cases) auto
  show "peekKind (us @ rest) \<noteq> tokLParen" using head assms(1) by blast
  show "\<not> (peekKind (us @ rest) = tokDot \<and> tk_kind (peekN (us @ rest) 2) = tokLParen)"
    using assms(1) head follow_tight [OF assms(2)] by (cases rule: gSegs.cases) (auto simp: numeral_2_eq_2)
  show "peekKind (us @ rest) \<noteq> tokDot" if "us = []" using that follow_tight [OF assms(2)] by simp
qed

lemma knownMethod_Namespace: "knownMethod ns m \<Longrightarrow> Namespace ns"
  unfolding knownMethod_def Lookup_def Namespace_def list_ex_iff
  by (rule bexI [of _ "ns @ ''.'' @ m"]) (simp_all add: hasPrefix_def)

definition argsParse :: "token list \<Rightarrow> node list \<Rightarrow> bool" where
  "argsParse us ns =
     (\<exists>d0. \<forall>d\<ge>d0. \<forall>rest k. peekKind rest = tokRParen \<longrightarrow> length (us @ rest) < k \<longrightarrow>
        argLoop k (orExpr d) (us @ rest) = Inr (ns, rest))"

lemma argsParse_one:
  assumes "parses 0 orExpr us n"
  shows "argsParse us [n]"
proof -
  obtain d0 where d0: "\<And>d rest. d0 \<le> d \<Longrightarrow> follow 0 rest \<Longrightarrow> orExpr d (us @ rest) = Inr (n, rest)"
    using assms unfolding parses_def by blast
  have "argLoop k (orExpr d) (us @ rest) = Inr ([n], rest)"
    if "d0 \<le> d" "peekKind rest = tokRParen" "length (us @ rest) < k" for d rest k
    using d0 [OF that(1) follow_loose(1) [OF that(2)]] that by (cases k) simp_all
  then show ?thesis unfolding argsParse_def by blast
qed

lemma argsParse_more:
  assumes "parses 0 orExpr us n" and "tk_kind c = tokComma" and "argsParse vs ns" and "starts vs"
  shows "argsParse (us @ c # vs) (n # ns)"
proof -
  obtain d0 where d0: "\<And>d rest. d0 \<le> d \<Longrightarrow> follow 0 rest \<Longrightarrow> orExpr d (us @ rest) = Inr (n, rest)"
    using assms(1) unfolding parses_def by blast
  obtain d1 where d1: "\<And>d rest k. d1 \<le> d \<Longrightarrow> peekKind rest = tokRParen \<Longrightarrow> length (vs @ rest) < k \<Longrightarrow>
      argLoop k (orExpr d) (vs @ rest) = Inr (ns, rest)"
    using assms(3) unfolding argsParse_def by blast
  have "argLoop k (orExpr d) ((us @ c # vs) @ rest) = Inr (n # ns, rest)"
    if d: "max d0 d1 \<le> d" and r: "peekKind rest = tokRParen" and len: "length ((us @ c # vs) @ rest) < k" for d rest k
  proof -
    obtain j where k: "k = Suc j" "length (vs @ rest) < j" using len by (cases k) simp_all
    have "follow 0 (c # vs @ rest)" using assms(2) by (intro follow_loose(2)) simp
    with d0 [of d "c # vs @ rest"] d1 [OF _ r k(2), of d] d assms(2) starts_peek [OF assms(4), of rest] k(1)
    show ?thesis by simp
  qed
  then show ?thesis unfolding argsParse_def by blast
qed

text \<open>A primary expression is parsed once the expression inside it is.\<close>

lemma parses_primaryI:
  assumes "\<And>e rest. d0 \<le> e - 3 \<Longrightarrow> follow 6 rest \<Longrightarrow>
      primaryBody (orExpr (e - 3)) (orExpr (e - 2)) (orExpr (e - 1)) (us @ rest) = Inr (n, rest)"
  shows "parses 6 primary us n"
proof -
  have "primary d (us @ rest) = Inr (n, rest)" if "d0 + 4 \<le> d" "follow 6 rest" for d rest
    using assms [of "d - 1" rest] that by (cases d) (simp_all add: primary_Suc)
  then show ?thesis unfolding parses_def by blast
qed

lemma keyword_not_call:
  "isKeywordToken s t \<Longrightarrow> peekKind ts \<noteq> tokDot \<Longrightarrow>
     primaryBody e e' e'' (t # ts) = keywordPrimary e e' (t # ts)"
  by (simp add: primaryBody_def looksLikeUnknownNamespaceCall_def isKeywordToken_def Let_def)

lemma primary_literals:
  "tk_kind t = tokString \<Longrightarrow> tk_value t = StringVal s \<Longrightarrow> parses 6 primary [t] (Literal (LitString s))"
  "tk_kind t = tokNumber \<Longrightarrow> tk_value t = NumberVal q \<Longrightarrow> parses 6 primary [t] (Literal (LitNumber q))"
  "isKeywordToken ''true'' t \<Longrightarrow> parses 6 primary [t] (Literal (LitBool True))"
  "isKeywordToken ''false'' t \<Longrightarrow> parses 6 primary [t] (Literal (LitBool False))"
  "isKeywordToken ''null'' t \<Longrightarrow> parses 6 primary [t] (Literal LitNull)"
  by (rule parses_primaryI [of 0], frule follow_tight,
      simp add: keyword_not_call keywordPrimary_def literal_def isKeywordToken_def primaryBody_def
        looksLikeUnknownNamespaceCall_def isWord_def Let_def)+

lemma primary_path:
  assumes "pathRoot t us" and "gSegs us segs"
  shows "parses 6 primary (t # us) (PathRef (tk_lit t) segs)"
proof (rule parses_primaryI [of 0])
  fix e rest
  assume f: "follow 6 rest"
  have ref: "pathRef (t # us @ rest) = Inr (PathRef (tk_lit t) segs, rest)"
    using assms(1) pathSegments_complete [OF assms(2) f]
    by (auto simp: pathRef_def pathRoot_def Let_def Namespace_def definitions_def hasPrefix_def)
  have look: "\<not> (peekKind (us @ rest) = tokDot \<and> tk_kind (peekN (us @ rest) 2) = tokLParen)"
      "peekKind (us @ rest) \<noteq> tokLParen"
    using path_lookahead [OF assms(2) f] by blast+
  show "primaryBody (orExpr (e - 3)) (orExpr (e - 2)) (orExpr (e - 1)) ((t # us) @ rest) = Inr (PathRef (tk_lit t) segs, rest)"
  proof (cases "tk_kind t = tokIdent")
    case True
    with look ref assms(1) show ?thesis
      by (auto simp: primaryBody_def looksLikeUnknownNamespaceCall_def pathRoot_def Let_def numeral_3_eq_3 numeral_2_eq_2)
  next
    case False
    with assms(1) have k: "isKeywordToken (tk_lit t) t" "tk_lit t \<in> set [''str'', ''list'', ''regex'']" "peekKind us \<noteq> tokDot"
      by (auto simp: pathRoot_def isKeywordToken_def)
    then have nodot: "peekKind (us @ rest) \<noteq> tokDot"
      using path_lookahead(3) [OF assms(2) f] by (cases us) auto
    from keyword_not_call [OF k(1) nodot] ref k(2) nodot show ?thesis by (auto simp: keywordPrimary_def Let_def)
  qed
qed

lemma primary_now:
  assumes "isKeywordToken ''now'' t" and "tk_kind l = tokLParen" and "tk_kind r = tokRParen"
  shows "parses 6 primary [t, l, r] (Call '''' ''now'' [])"
  using assms keyword_not_call [OF assms(1)]
  by (intro parses_primaryI [of 0]) (simp add: keywordPrimary_def nowCall_def argList_def isKeywordToken_def Let_def)

lemma primary_len:
  assumes "isKeywordToken ''len'' t" and "tk_kind l = tokLParen" and "parses 0 orExpr us n" and "starts us"
    and "tk_kind r = tokRParen"
  shows "parses 6 primary (t # l # us @ [r]) (Call '''' ''len'' [n])"
proof -
  obtain d0 where d0: "\<And>d rest. d0 \<le> d \<Longrightarrow> follow 0 rest \<Longrightarrow> orExpr d (us @ rest) = Inr (n, rest)"
    using assms(3) unfolding parses_def by blast
  show ?thesis
  proof (rule parses_primaryI [of d0])
    fix e rest
    assume "d0 \<le> e - 3"
    then have "orExpr (e - 2) (us @ r # rest) = Inr (n, r # rest)"
      using d0 [of "e - 2" "r # rest"] follow_loose(1) [of "r # rest"] assms(5) by simp
    then show "primaryBody (orExpr (e - 3)) (orExpr (e - 2)) (orExpr (e - 1)) ((t # l # us @ [r]) @ rest) =
        Inr (Call '''' ''len'' [n], rest)"
      using assms(1,2,5) keyword_not_call [OF assms(1)] starts_peek [OF assms(4)]
      by (simp add: keywordPrimary_def lenCall_def isKeywordToken_def Let_def)
  qed
qed

lemma primary_group:
  assumes "tk_kind l = tokLParen" and "parses 0 orExpr us n" and "tk_kind r = tokRParen"
  shows "parses 6 primary (l # us @ [r]) (Group n)"
proof -
  obtain d0 where d0: "\<And>d rest. d0 \<le> d \<Longrightarrow> follow 0 rest \<Longrightarrow> orExpr d (us @ rest) = Inr (n, rest)"
    using assms(2) unfolding parses_def by blast
  show ?thesis
  proof (rule parses_primaryI [of d0])
    fix e rest
    assume "d0 \<le> e - 3"
    then have "orExpr (e - 1) (us @ r # rest) = Inr (n, r # rest)"
      using d0 [of "e - 1" "r # rest"] follow_loose(1) [of "r # rest"] assms(3) by simp
    then show "primaryBody (orExpr (e - 3)) (orExpr (e - 2)) (orExpr (e - 1)) ((l # us @ [r]) @ rest) = Inr (Group n, rest)"
      using assms(1,3) by (simp add: primaryBody_def looksLikeUnknownNamespaceCall_def isWord_def groupExpr_def Let_def)
  qed
qed

text \<open>A call of a namespace, with the arguments parsed one way or another.\<close>

lemma namespace_primaryBody:
  assumes "callRoot t" and "tk_kind c = tokDot" and "isWord (tk_kind m)" and "tk_kind l = tokLParen"
    and "knownMethod (tk_lit t) (tk_lit m)" and "argList e us = Inr (ns, r # rest)" and "tk_kind r = tokRParen"
  shows "primaryBody e e' e'' (t # c # m # l # us) = Inr (Call (tk_lit t) (tk_lit m) ns, rest)"
proof -
  have call: "namespaceCall e (t # c # m # l # us) = Inr (Call (tk_lit t) (tk_lit m) ns, rest)"
    using assms(3-7) by (simp add: namespaceCall_def Let_def)
  from assms(1-5) knownMethod_Namespace [OF assms(5)] call show ?thesis
    by (auto simp: primaryBody_def looksLikeUnknownNamespaceCall_def keywordPrimary_def callRoot_def Let_def
        numeral_3_eq_3 numeral_2_eq_2)
qed

lemma primary_call:
  assumes "callRoot t" and "tk_kind c = tokDot" and "isWord (tk_kind m)" and "tk_kind l = tokLParen"
    and "knownMethod (tk_lit t) (tk_lit m)" and "argsParse us ns" and "starts us" and "tk_kind r = tokRParen"
  shows "parses 6 primary (t # c # m # l # us @ [r]) (Call (tk_lit t) (tk_lit m) ns)"
proof -
  obtain d0 where d0: "\<And>d rest k. d0 \<le> d \<Longrightarrow> peekKind rest = tokRParen \<Longrightarrow> length (us @ rest) < k \<Longrightarrow>
      argLoop k (orExpr d) (us @ rest) = Inr (ns, rest)"
    using assms(6) unfolding argsParse_def by blast
  show ?thesis
  proof (rule parses_primaryI [of d0])
    fix e rest
    assume "d0 \<le> e - 3"
    then have "argList (orExpr (e - 3)) (us @ r # rest) = Inr (ns, r # rest)"
      using d0 [of "e - 3" "r # rest"] starts_peek [OF assms(7), of "r # rest"] assms(8)
      by (simp add: argList_def del: argLoop.simps)
    from namespace_primaryBody [OF assms(1-5) this assms(8)]
    show "primaryBody (orExpr (e - 3)) (orExpr (e - 2)) (orExpr (e - 1)) ((t # c # m # l # us @ [r]) @ rest) =
        Inr (Call (tk_lit t) (tk_lit m) ns, rest)" by simp
  qed
qed

lemma primary_none:
  assumes "callRoot t" and "tk_kind c = tokDot" and "isWord (tk_kind m)" and "tk_kind l = tokLParen"
    and "knownMethod (tk_lit t) (tk_lit m)" and "tk_kind r = tokRParen"
  shows "parses 6 primary [t, c, m, l, r] (Call (tk_lit t) (tk_lit m) [])"
proof (rule parses_primaryI [of 0])
  fix e rest
  have "argList (orExpr (e - 3)) (r # rest) = Inr ([], r # rest)" using assms(6) by (simp add: argList_def)
  from namespace_primaryBody [OF assms(1-5) this assms(6)]
  show "primaryBody (orExpr (e - 3)) (orExpr (e - 2)) (orExpr (e - 1)) ([t, c, m, l, r] @ rest) =
      Inr (Call (tk_lit t) (tk_lit m) [], rest)" by simp
qed

subsection \<open>The other levels\<close>

lemma parses_Suc:
  assumes "\<And>d rest. d0 \<le> d \<Longrightarrow> follow l rest \<Longrightarrow> p (Suc d) (us @ rest) = Inr (n, rest)"
  shows "parses l p us n"
proof -
  have "p d (us @ rest) = Inr (n, rest)" if "Suc d0 \<le> d" "follow l rest" for d rest
    using assms [of "d - 1" rest] that by (cases d) simp_all
  then show ?thesis unfolding parses_def by blast
qed

lemma unary_minus:
  assumes "tk_kind t = tokMinus" and "parses 6 unaryMinus us n"
  shows "parses 6 unaryMinus (t # us) (UnaryOp (tk_lit t) n)"
proof -
  obtain d0 where "\<And>d rest. d0 \<le> d \<Longrightarrow> follow 6 rest \<Longrightarrow> unaryMinus d (us @ rest) = Inr (n, rest)"
    using assms(2) unfolding parses_def by blast
  with assms(1) show ?thesis by (intro parses_Suc [of d0]) simp
qed

lemma unary_prim:
  assumes "parses 6 primary us n" and "starts us" and "tk_kind (hd us) \<noteq> tokMinus"
  shows "parses 6 unaryMinus us n"
proof -
  obtain d0 where "\<And>d rest. d0 \<le> d \<Longrightarrow> follow 6 rest \<Longrightarrow> primary d (us @ rest) = Inr (n, rest)"
    using assms(1) unfolding parses_def by blast
  moreover obtain t vs where "us = t # vs" using assms(2) by (cases us) (auto simp: starts_def)
  ultimately show ?thesis using assms(3) by (intro parses_Suc [of d0]) simp
qed

lemma not_not:
  assumes "isKeywordToken ''not'' t" and "parses 3 notExpr us n"
  shows "parses 3 notExpr (t # us) (UnaryOp (tk_lit t) n)"
proof -
  obtain d0 where "\<And>d rest. d0 \<le> d \<Longrightarrow> follow 3 rest \<Longrightarrow> notExpr d (us @ rest) = Inr (n, rest)"
    using assms(2) unfolding parses_def by blast
  with assms(1) show ?thesis by (intro parses_Suc [of d0]) simp
qed

lemma not_comp:
  assumes "parses 3 comparison us n" and "starts us" and "\<not> isKeywordToken ''not'' (hd us)"
  shows "parses 3 notExpr us n"
proof -
  obtain d0 where "\<And>d rest. d0 \<le> d \<Longrightarrow> follow 3 rest \<Longrightarrow> comparison d (us @ rest) = Inr (n, rest)"
    using assms(1) unfolding parses_def by blast
  moreover obtain t vs where "us = t # vs" using assms(2) by (cases us) (auto simp: starts_def)
  ultimately show ?thesis using assms(3) by (intro parses_Suc [of d0]) simp
qed

lemma follow_no_comp: "follow 3 rest \<Longrightarrow> \<not> isComp (peekKind rest)"
  using binds_op(3) [of "peek rest"] by (auto simp: follow_def)

lemma comp_add:
  assumes "parses 4 addition us n"
  shows "parses 3 comparison us n"
proof -
  obtain d0 where "\<And>d rest. d0 \<le> d \<Longrightarrow> follow 4 rest \<Longrightarrow> addition d (us @ rest) = Inr (n, rest)"
    using assms unfolding parses_def by blast
  then show ?thesis
    using follow_mono [of 3 _ 4] follow_no_comp by (intro parses_Suc [of d0]) (simp add: comparisonBody_def)
qed

lemma comp_comp:
  assumes "parses 4 addition us n" and "isComp (tk_kind t)" and "parses 4 addition vs m"
  shows "parses 3 comparison (us @ t # vs) (BinaryOp (tk_lit t) n m)"
proof -
  obtain d0 where d0: "\<And>d rest. d0 \<le> d \<Longrightarrow> follow 4 rest \<Longrightarrow> addition d (us @ rest) = Inr (n, rest)"
    using assms(1) unfolding parses_def by blast
  obtain d1 where d1: "\<And>d rest. d1 \<le> d \<Longrightarrow> follow 4 rest \<Longrightarrow> addition d (vs @ rest) = Inr (m, rest)"
    using assms(3) unfolding parses_def by blast
  have "follow 4 (t # ws)" for ws using assms(2) binds_op(3) [of t] by (simp add: follow_def)
  then show ?thesis
    using d0 d1 assms(2) follow_mono [of 3 _ 4] follow_no_comp
    by (intro parses_Suc [of "max d0 d1"]) (simp add: comparisonBody_def)
qed

lemma phrases_parse:
  "gOr us n \<Longrightarrow> loops 1 orExpr (isKeywordToken ''or'') andExpr us n"
  "gAnd us n \<Longrightarrow> loops 2 andExpr (isKeywordToken ''and'') notExpr us n"
  "gNot us n \<Longrightarrow> parses 3 notExpr us n"
  "gComp us n \<Longrightarrow> parses 3 comparison us n"
  "gAdd us n \<Longrightarrow> loops 5 addition isAddOp multiply us n"
  "gMul us n \<Longrightarrow> loops 6 multiply isMulOp unaryMinus us n"
  "gUnary us n \<Longrightarrow> parses 6 unaryMinus us n"
  "gPrim us n \<Longrightarrow> parses 6 primary us n"
  "gArgs us ns \<Longrightarrow> argsParse us ns"
proof (induction rule: gOr_gAnd_gNot_gComp_gAdd_gMul_gUnary_gPrim_gArgs.inducts)
  case (gOr_and ts n)
  then show ?case by (intro orF.loops_start andF.loops_parses) simp_all
next
  case (gOr_or ts l t us r)
  then show ?case by (intro orF.loops_step andF.loops_parses) simp_all
next
  case (gAnd_not ts n)
  then show ?case by (intro andF.loops_start) (auto elim: parses_mono)
next
  case (gAnd_and ts l t us r)
  then show ?case by (intro andF.loops_step) (auto elim: parses_mono)
next
  case (gNot_comp ts n)
  then show ?case using phrase_starts(4) by (intro not_comp) auto
next
  case (gComp_add ts n)
  then show ?case by (intro comp_add addF.loops_parses) simp_all
next
  case (gComp_comp ts l t us r)
  then show ?case by (intro comp_comp addF.loops_parses) simp_all
next
  case (gAdd_mul ts n)
  then show ?case by (intro addF.loops_start mulF.loops_parses) simp_all
next
  case (gAdd_add ts l t us r)
  then show ?case by (intro addF.loops_step mulF.loops_parses) simp_all
next
  case (gMul_unary ts n)
  then show ?case by (intro mulF.loops_start)
next
  case (gMul_mul ts l t us r)
  then show ?case by (intro mulF.loops_step)
next
  case (gUnary_prim ts n)
  then show ?case using phrase_starts(8) by (intro unary_prim) auto
next
  case (gPrim_len t l ts n r)
  then show ?case using phrase_starts(1) by (intro primary_len orF.loops_parses) simp_all
next
  case (gPrim_call t d m l ts args r)
  then show ?case using phrase_starts(9) by (intro primary_call) simp_all
next
  case (gPrim_group l ts n r)
  then show ?case by (intro primary_group orF.loops_parses) simp_all
next
  case (gArgs_one ts n)
  then show ?case by (intro argsParse_one orF.loops_parses) simp_all
next
  case (gArgs_more ts n c us ns)
  then show ?case using phrase_starts(9) by (intro argsParse_more orF.loops_parses) simp_all
next
  case (gNot_not t ts n)
  then show ?case by (intro not_not)
next
  case (gUnary_minus t ts n)
  then show ?case by (intro unary_minus)
qed (fact primary_now primary_none primary_path primary_literals | rule primary_now primary_none primary_path primary_literals; assumption)+

lemma parseTree_complete:
  assumes "gOr ts n"
  shows "\<exists>d0. \<forall>d\<ge>d0. parseTree d ts = Inr n"
proof -
  have "parses 0 orExpr ts n" using phrases_parse(1) [OF assms] by (rule orF.loops_parses) simp
  then obtain d0 where "\<And>d rest. d0 \<le> d \<Longrightarrow> follow 0 rest \<Longrightarrow> orExpr d (ts @ rest) = Inr (n, rest)"
    unfolding parses_def by blast
  from this [OF _ follow_loose(3)] show ?thesis by (auto simp: parseTree_def intro!: exI [of _ d0])
qed

subsection \<open>The depth limit\<close>

text \<open>A parser with less depth answers as one with more, or reports that the depth is exceeded.\<close>

definition below :: "gerror + 'a \<Rightarrow> gerror + 'a \<Rightarrow> bool" where
  "below r s = (r = Inl (Code ''GXL-PARSE-001'') \<or> r = s)"

lemma below_intros:
  "below r r"
  "below (Inl (Code ''GXL-PARSE-001'')) r"
  "(b \<Longrightarrow> below r s) \<Longrightarrow> (\<not> b \<Longrightarrow> below r' s') \<Longrightarrow> below (if b then r else r') (if b then s else s')"
  "(\<And>x y. below (f x y) (g x y)) \<Longrightarrow> below (case z of (x, y) \<Rightarrow> f x y) (case z of (x, y) \<Rightarrow> g x y)"
  by (auto simp: below_def split: prod.split)

lemma below_andThen:
  assumes "below r s" and "\<And>x. below (f x) (g x)"
  shows "below (andThen r f) (andThen s g)"
proof (cases r)
  case (Inr a)
  with assms(1) assms(2) [of a] show ?thesis by (auto simp: below_def)
qed (use assms(1) in \<open>auto simp: below_def\<close>)

lemmas below_rules = below_andThen below_intros

lemma leftLoop_below:
  assumes "\<And>ts. below (p ts) (q ts)"
  shows "below (leftLoop k isOp p left ts) (leftLoop k isOp q left ts)"
proof (induction k arbitrary: left ts)
  case (Suc k)
  show ?case unfolding leftLoop.simps by (intro below_rules assms Suc.IH)
qed (simp add: below_def)

lemma leftAssoc_below: "(\<And>ts. below (p ts) (q ts)) \<Longrightarrow> below (leftAssoc isOp p ts) (leftAssoc isOp q ts)"
  unfolding leftAssoc_def by (intro below_rules leftLoop_below)

lemma argLoop_below:
  assumes "\<And>ts. below (p ts) (q ts)"
  shows "below (argLoop k p ts) (argLoop k q ts)"
proof (induction k arbitrary: ts)
  case (Suc k)
  show ?case unfolding argLoop.simps by (intro below_rules assms Suc.IH)
qed (simp add: below_def)

lemma argList_below: "(\<And>ts. below (p ts) (q ts)) \<Longrightarrow> below (argList p ts) (argList q ts)"
  unfolding argList_def by (intro below_rules argLoop_below)

lemma comparisonBody_below: "(\<And>ts. below (p ts) (q ts)) \<Longrightarrow> below (comparisonBody p ts) (comparisonBody q ts)"
  unfolding comparisonBody_def by (intro below_rules)

lemma calls_below:
  assumes "\<And>ts. below (p ts) (q ts)"
  shows "below (nowCall p ts) (nowCall q ts)" "below (lenCall p ts) (lenCall q ts)"
    "below (namespaceCall p ts) (namespaceCall q ts)" "below (groupExpr p ts) (groupExpr q ts)"
  unfolding nowCall_def lenCall_def namespaceCall_def groupExpr_def Let_def
  by (intro below_rules argList_below assms)+

lemma primaryBody_below:
  assumes "\<And>ts. below (e ts) (f ts)" and "\<And>ts. below (e' ts) (f' ts)" and "\<And>ts. below (e'' ts) (f'' ts)"
  shows "below (primaryBody e e' e'' ts) (primaryBody f f' f'' ts)"
  unfolding primaryBody_def keywordPrimary_def Let_def
  by (intro below_rules calls_below assms)

lemma levels_below:
  assumes "d \<le> d'"
  shows "below (orExpr d ts) (orExpr d' ts) \<and> below (andExpr d ts) (andExpr d' ts) \<and> below (notExpr d ts) (notExpr d' ts) \<and>
    below (comparison d ts) (comparison d' ts) \<and> below (addition d ts) (addition d' ts) \<and>
    below (multiply d ts) (multiply d' ts) \<and> below (unaryMinus d ts) (unaryMinus d' ts) \<and> below (primary d ts) (primary d' ts)"
  using assms
proof (induction d arbitrary: d' ts rule: less_induct)
  case (less d)
  show ?case
  proof (cases d)
    case 0
    then show ?thesis by (simp add: below_def)
  next
    case (Suc e)
    with less.prems obtain e' where e': "d' = Suc e'" "e \<le> e'" by (cases d') simp_all
    have ih: "below (andExpr e us) (andExpr e' us)" "below (notExpr e us) (notExpr e' us)"
        "below (comparison e us) (comparison e' us)" "below (addition e us) (addition e' us)"
        "below (multiply e us) (multiply e' us)" "below (unaryMinus e us) (unaryMinus e' us)"
        "below (primary e us) (primary e' us)" for us
      using less.IH [of e e' us] Suc e'(2) by simp_all
    have expr: "below (orExpr (e - k) us) (orExpr (e' - k) us)" for k us
      using less.IH [of "e - k" "e' - k" us] Suc e'(2) by simp
    show ?thesis
      unfolding Suc e'(1) level_Suc
      by (intro conjI below_rules leftAssoc_below comparisonBody_below primaryBody_below ih expr)
  qed
qed

lemma parseTree_below: "d \<le> d' \<Longrightarrow> below (parseTree d ts) (parseTree d' ts)"
  unfolding parseTree_def using levels_below [of d d' ts] by (intro below_rules) simp_all


end
