(* ===== verification/Gxl_Properties.thy ===== *)
theory Gxl_Properties
  imports Gxl_Soundness Gxl_Completeness
begin

section \<open>The correctness of expressions\<close>

text \<open>The properties of parsing and evaluation, each with an instance.\<close>

subsection \<open>Sample expressions\<close>

definition sampleLib :: gxl_lib where
  "sampleLib = \<lparr>gl_regex = (\<lambda>pattern s. Some (containsString s pattern)), gl_toLower = id, gl_toUpper = id,
     gl_now = (\<lambda>n. sampleMoment)\<rparr>"

definition sampleScope :: scope where
  "sampleScope = NewScope [(''name'', VString ''db''), (''kind'', VString ''db''), (''ready'', VBool True)] None"

definition sampleNode :: node where
  "sampleNode = BinaryOp ''and'' (PathRef ''ready'' []) (BinaryOp ''=='' (PathRef ''name'' []) (PathRef ''kind'' []))"

definition sampleState :: estate where
  "sampleState = \<lparr>es_budget = 5, es_reads = 0\<rparr>"

definition sampleItems :: "pvalue list" where
  "sampleItems = [VString ''b'', VString ''c'', VString ''a'']"

lemma sample_run: "Eval sampleLib sampleNode (Some sampleScope) sampleState = (Inr (VBool True), sampleState)"
  by code_simp

lemma sample_lex: "lex ''a or b and c'' =
    Inr [plainToken tokIdent ''a'', plainToken tokKeyword ''or'', plainToken tokIdent ''b'', plainToken tokKeyword ''and'', plainToken tokIdent ''c'']"
  by code_simp

lemma sample_parse: "parseTree 20
    [plainToken tokIdent ''a'', plainToken tokKeyword ''or'', plainToken tokIdent ''b'', plainToken tokKeyword ''and'', plainToken tokIdent ''c''] =
    Inr (BinaryOp ''or'' (PathRef ''a'' []) (BinaryOp ''and'' (PathRef ''b'' []) (PathRef ''c'' [])))"
  by code_simp

lemma sample_order: "CallBuiltin sampleLib ''list'' ''order'' [VArray sampleItems, VString ''left < right''] sampleScope sampleState =
    (Inr (orderResult ''ordered'' [VString ''a'', VString ''b'', VString ''c'']), sampleState)"
  by code_simp

lemma sample_bounded:
  "EvalBounded sampleLib sampleNode (Some sampleScope) (Some 5) 0 = (Inr (VBool True), \<lparr>es_budget = 0, es_reads = 0\<rparr>)"
  "fst (EvalBounded sampleLib sampleNode (Some sampleScope) (Some 4) 0) = Inl (Code ''GXL-LIMIT-001'')"
  by code_simp+

lemma sample_scope_wf: "wfScope sampleScope"
  by (simp add: sampleScope_def NewScope_def validString_def runeError_def)

subsection \<open>Parsing\<close>

lemma validateOrdering_coded:
  "(\<And>s. parse s \<noteq> Inl PlainError) \<Longrightarrow> validateOrdering parse c n \<noteq> Inl PlainError"
proof (induction n)
  case (Call namespace name args)
  have "firstError (validateOrdering parse c) ns \<noteq> Inl PlainError" if "set ns \<subseteq> set args" for ns
    using that Call by (induction ns) (auto simp: andThen_Inl_conv)
  then show ?case using Call.prems
    by (auto simp: Let_def andThen_Inl_conv split: node.splits litValue.splits)
qed (auto simp: andThen_Inl_conv)

text \<open>Inside a comparator no other comparator is parsed.\<close>

lemma validateOrdering_comparator: "validateOrdering p True n = validateOrdering q True n"
  by (induction n) (auto simp: Let_def cong: firstError_cong)

lemma andThen_coded: "r \<noteq> Inl e \<Longrightarrow> (\<And>a. f a \<noteq> Inl e) \<Longrightarrow> andThen r f \<noteq> Inl e"
  by (cases r) simp_all

lemma parseExpression_coded:
  assumes "\<And>s'. \<not> c \<Longrightarrow> parseExpression s' True \<noteq> Inl PlainError"
  shows "parseExpression s c \<noteq> Inl PlainError"
proof -
  have valid: "validateOrdering (\<lambda>source. if c then Inl PlainError else parseExpression source True) c n \<noteq> Inl PlainError" for n
  proof (cases c)
    case True
    then show ?thesis
      using validateOrdering_comparator [of "\<lambda>source. Inl PlainError" n "\<lambda>s. Inl (Code ''GXL-PARSE-001'')"]
        validateOrdering_coded [of "\<lambda>s. Inl (Code ''GXL-PARSE-001'')" True n] by simp
  qed (use assms validateOrdering_coded in simp)
  show ?thesis
    by (subst parseExpression.simps, unfold lex_def)
      (rule andThen_coded scan_coded parseTree_coded valid sum.distinct(2))+
qed

text \<open>
  C24. Parsing returns a tree or an error with a code for every input: no loop of the parser runs out of the iterations
  that the tokens allow, at any depth and for comparators inside the expression too.
\<close>

theorem parser_returns: "Parse src \<noteq> Inl PlainError"
  unfolding Parse_def by (rule parseExpression_coded, rule parseExpression_coded) simp


subsection \<open>Evaluation\<close>



lemma WithBudget_same: "\<not> sc_budget (normalizeScope sc) \<Longrightarrow> sameScope (WithBudget sc) (normalizeScope sc)"
  by (cases "normalizeScope sc") (simp add: sameScope_def WithBudget_def Tree_def Let_def)

text \<open>
  C22. A budget only cuts an evaluation short. Every evaluation has a price that does not depend on the budget: with at
  least that much, the bounded evaluation returns what the unbounded one does and leaves the rest of the budget; with
  less it fails with \<^verbatim>\<open>GXL-LIMIT-001\<close>.
\<close>

theorem budget_only_cuts_short:
  assumes "\<not> sc_budget (normalizeScope sc)"
  shows "\<exists>k. \<forall>b\<ge>0.
    (if k \<le> b
     then EvalBounded L n sc (Some b) reads =
       (let (r, st) = Eval L n sc \<lparr>es_budget = b, es_reads = reads\<rparr> in (r, st\<lparr>es_budget := b - k\<rparr>))
     else fst (EvalBounded L n sc (Some b) reads) = Inl (Code ''GXL-LIMIT-001''))"
proof -
  have "metered (evalNode L (callOrder L) (WithBudget sc) n) (evalNode L (callOrder L) (normalizeScope sc) n)"
    by (rule expression.evalNode_metered) (rule WithBudget_same [OF assms])
  then obtain k r m where k: "\<And>b. evalNode L (callOrder L) (normalizeScope sc) n \<lparr>es_budget = b, es_reads = reads\<rparr> = (r, \<lparr>es_budget = b, es_reads = m\<rparr>)"
    "\<And>b. 0 \<le> b \<Longrightarrow> (if k \<le> b then evalNode L (callOrder L) (WithBudget sc) n \<lparr>es_budget = b, es_reads = reads\<rparr> = (r, \<lparr>es_budget = b - k, es_reads = m\<rparr>)
      else fst (evalNode L (callOrder L) (WithBudget sc) n \<lparr>es_budget = b, es_reads = reads\<rparr>) = Inl (Code ''GXL-LIMIT-001''))"
    unfolding metered_def by (metis (no_types, lifting))
  have "normalizeScope (Some s) = s" for s by (simp add: normalizeScope_def)
  with k show ?thesis by (intro exI [of _ k]) (auto simp: EvalBounded_def Eval_def split: if_split_asm)
qed

theorem budget_only_cuts_short_witness:
  "\<exists>k. \<forall>b\<ge>0.
    (if k \<le> b
     then EvalBounded sampleLib sampleNode (Some sampleScope) (Some b) 0 =
       (let (r, st) = Eval sampleLib sampleNode (Some sampleScope) \<lparr>es_budget = b, es_reads = 0\<rparr> in (r, st\<lparr>es_budget := b - k\<rparr>))
     else fst (EvalBounded sampleLib sampleNode (Some sampleScope) (Some b) 0) = Inl (Code ''GXL-LIMIT-001''))"
  by (rule budget_only_cuts_short) (simp add: normalizeScope_def sampleScope_def NewScope_def)

subsection \<open>Ordering\<close>

text \<open>
  C20. \<^verbatim>\<open>list.order\<close> sorts. When it returns, the comparator answered every pair; the status is \<^verbatim>\<open>inconsistent\<close>
  exactly when two items precede each other, directly or along a cycle, \<^verbatim>\<open>ambiguous\<close> when some two items do not compare and
  nothing is inconsistent, and otherwise \<^verbatim>\<open>ordered\<close>, and then the items are the given ones, each before all that follow it.
\<close>

theorem list_order_sorts:
  assumes "CallBuiltin L ''list'' ''order'' [VArray items, VString source] sc st = (Inr v, st')"
  shows "\<exists>comparator lt. Parse source = Inr comparator \<and>
    lt = (\<lambda>i j. answer L comparator (items ! i) (items ! j) = Inr True) \<and>
    (if contradictory lt (length items) then v = orderResult ''inconsistent'' items
     else if partial lt (length items) then v = orderResult ''ambiguous'' items
     else \<exists>order. sortedPositions lt (length items) order \<and> v = orderResult ''ordered'' (map ((!) items) order))"
proof -
  have "callOrder L [VArray items, VString source] (sc_budget sc) st = (Inr v, st')"
    using assms by (simp add: CallBuiltin_def callBuiltin_def)
  then show ?thesis
  proof (rule callOrder_cases)
    fix items' source' comparator
    let ?lt = "\<lambda>i j. answer L comparator (items' ! i) (items' ! j) = Inr True"
    assume args: "[VArray items, VString source] = [VArray items', VString source']" and parse: "Parse source' = Inr comparator"
      and v: "v = finishOrder (graphOf ?lt (pairs (length items')) (emptyGraph (length items'))) items'"
    from v show ?thesis
      using args parse sortGraph_sorted [of ?lt "length items'"] unfolding finishOrder_result [OF refl]
      by (intro exI [of _ comparator] exI [of _ ?lt]) auto
  qed
qed

theorem list_order_sorts_witness:
  "\<exists>comparator lt. Parse ''left < right'' = Inr comparator \<and>
    lt = (\<lambda>i j. answer sampleLib comparator (sampleItems ! i) (sampleItems ! j) = Inr True) \<and>
    (if contradictory lt (length sampleItems) then orderResult ''ordered'' [VString ''a'', VString ''b'', VString ''c''] = orderResult ''inconsistent'' sampleItems
     else if partial lt (length sampleItems) then orderResult ''ordered'' [VString ''a'', VString ''b'', VString ''c''] = orderResult ''ambiguous'' sampleItems
     else \<exists>order. sortedPositions lt (length sampleItems) order \<and>
       orderResult ''ordered'' [VString ''a'', VString ''b'', VString ''c''] = orderResult ''ordered'' (map ((!) sampleItems) order))"
  by (rule list_order_sorts [OF sample_order])

subsection \<open>Operators\<close>

lemma fmod_int:
  assumes "b \<noteq> 0"
  shows "\<exists>q. fmod (of_int a) (of_int b) = of_int (a - b * q) \<and> \<bar>a - b * q\<bar> < \<bar>b\<bar>"
proof -
  define q where "q = truncRat (of_int a / of_int b)"
  have "\<bar>of_int a / of_int b - of_int q :: rat\<bar> < 1"
    unfolding q_def truncRat_def by (auto simp: abs_if) linarith+
  then have "\<bar>of_int b\<bar> * \<bar>of_int a / of_int b - of_int q :: rat\<bar> < \<bar>of_int b\<bar>" using assms by simp
  then have "\<bar>of_int b * (of_int a / of_int b - of_int q) :: rat\<bar> < \<bar>of_int b\<bar>" by (simp add: abs_mult)
  moreover have "of_int b * (of_int a / of_int b - of_int q) = (of_int (a - b * q) :: rat)"
    using assms by (simp add: right_diff_distrib)
  ultimately have "\<bar>of_int (a - b * q) :: rat\<bar> < \<bar>of_int b\<bar>" by simp
  then have "\<bar>a - b * q\<bar> < \<bar>b\<bar>" by (metis of_int_abs of_int_less_iff)
  moreover have "fmod (of_int a) (of_int b) = of_int (a - b * q)" by (simp add: fmod_def q_def)
  ultimately show ?thesis by blast
qed

text \<open>
  Arithmetic on integers is exact as long as the result is at most \<open>2\<^sup>5\<^sup>3\<close> in magnitude; the remainder is an integer
  smaller in magnitude than the divisor that differs from the dividend by a multiple of it; division and
  remainder by zero fail with \<^verbatim>\<open>GXL-EVAL-002\<close>.
\<close>

theorem integer_arithmetic_exact:
  fixes a b :: int
  shows "(\<bar>a + b\<bar> \<le> 2 ^ 53 \<longrightarrow> evalOperator ''+'' (VNumber (of_int a)) (VNumber (of_int b)) = Inr (VNumber (of_int (a + b)))) \<and>
    (\<bar>a - b\<bar> \<le> 2 ^ 53 \<longrightarrow> evalOperator ''-'' (VNumber (of_int a)) (VNumber (of_int b)) = Inr (VNumber (of_int (a - b)))) \<and>
    (\<bar>a * b\<bar> \<le> 2 ^ 53 \<longrightarrow> evalOperator ''*'' (VNumber (of_int a)) (VNumber (of_int b)) = Inr (VNumber (of_int (a * b)))) \<and>
    (b \<noteq> 0 \<longrightarrow> (\<exists>q. evalOperator ''%'' (VNumber (of_int a)) (VNumber (of_int b)) = Inr (VNumber (of_int (a - b * q))) \<and>
      \<bar>a - b * q\<bar> < \<bar>b\<bar>)) \<and>
    evalOperator ''/'' (VNumber (of_int a)) (VNumber 0) = Inl (Code ''GXL-EVAL-002'') \<and>
    evalOperator ''%'' (VNumber (of_int a)) (VNumber 0) = Inl (Code ''GXL-EVAL-002'')"
  using roundF_int [of "a + b"] roundF_int [of "a - b"] roundF_int [of "a * b"] fmod_int [of b a]
  by (auto simp: evalOperator_def evalArithmetic_def floatOp_def Number_def)

theorem integer_arithmetic_exact_witness:
  "evalOperator ''*'' (VNumber (of_int 3)) (VNumber (of_int 7)) = Inr (VNumber (of_int 21))"
  using integer_arithmetic_exact [of 3 7] by simp

text \<open>
  Numbers and strings are totally ordered by the comparison operators: of two values of one of these kinds exactly one of
  \<^verbatim>\<open><\<close>, \<^verbatim>\<open>==\<close> and \<^verbatim>\<open>>\<close> holds, and \<^verbatim>\<open>!=\<close>, \<^verbatim>\<open><=\<close> and \<^verbatim>\<open>>=\<close> are what they say.
\<close>

theorem comparison_trichotomy:
  assumes "kindOf v = kindOf w" and "kindOf v = KindNumber \<or> kindOf v = KindString"
  shows "\<exists>lt eq gt. evalOperator ''<'' v w = Inr (VBool lt) \<and> evalOperator ''=='' v w = Inr (VBool eq) \<and>
    evalOperator ''>'' v w = Inr (VBool gt) \<and> evalOperator ''!='' v w = Inr (VBool (\<not> eq)) \<and>
    evalOperator ''<='' v w = Inr (VBool (lt \<or> eq)) \<and> evalOperator ''>='' v w = Inr (VBool (gt \<or> eq)) \<and>
    (lt \<and> \<not> eq \<and> \<not> gt \<or> \<not> lt \<and> eq \<and> \<not> gt \<or> \<not> lt \<and> \<not> eq \<and> gt)"
proof -
  consider (num) l r where "v = VNumber l" "w = VNumber r" | (str) s t where "v = VString s" "w = VString t"
    using assms by (cases v; cases w) auto
  then show ?thesis
  proof cases
    case num
    then show ?thesis
      by (intro exI [of _ "l < r"] exI [of _ "l = r"] exI [of _ "r < l"])
        (auto simp: evalOperator_def evalComparison_def equalScalars_def compareFloat_def Let_def)
  next
    case str
    have "bytesLess s t \<Longrightarrow> \<not> bytesLess t s" using bytesLess_trans [of s t s] by auto
    with str bytesLess_total [of s t] show ?thesis
      by (intro exI [of _ "bytesLess s t"] exI [of _ "s = t"] exI [of _ "bytesLess t s"])
        (auto simp: evalOperator_def evalComparison_def equalScalars_def compareString_def Let_def)
  qed
qed

theorem comparison_trichotomy_witness:
  "\<exists>lt eq gt. evalOperator ''<'' (VString ''a'') (VString ''b'') = Inr (VBool lt) \<and>
    evalOperator ''=='' (VString ''a'') (VString ''b'') = Inr (VBool eq) \<and>
    evalOperator ''>'' (VString ''a'') (VString ''b'') = Inr (VBool gt) \<and> evalOperator ''!='' (VString ''a'') (VString ''b'') = Inr (VBool (\<not> eq)) \<and>
    evalOperator ''<='' (VString ''a'') (VString ''b'') = Inr (VBool (lt \<or> eq)) \<and>
    evalOperator ''>='' (VString ''a'') (VString ''b'') = Inr (VBool (gt \<or> eq)) \<and>
    (lt \<and> \<not> eq \<and> \<not> gt \<or> \<not> lt \<and> eq \<and> \<not> gt \<or> \<not> lt \<and> \<not> eq \<and> gt)"
  by (rule comparison_trichotomy) simp_all

subsection \<open>Values\<close>

text \<open>
  Equality of values is an equivalence: for values that the constructors produce it is reflexive, symmetric and
  transitive, whatever the order of the keys of objects.
\<close>

theorem value_equality_is_equivalence:
  assumes "wfValue u" and "wfValue v" and "wfValue w"
  shows "Equal u u \<and> (Equal u v \<longrightarrow> Equal v u) \<and> (Equal u v \<and> Equal v w \<longrightarrow> Equal u w)"
  using Equal_refl [OF assms(1)] Equal_sym [OF assms(1,2)] Equal_trans [OF assms] by blast

lemma sample_equal:
  "Equal (VObject [(''a'', VNull), (''b'', VBool True)]) (VObject [(''b'', VBool True), (''a'', VNull)])"
  by (simp add: mget_def)

theorem value_equality_is_equivalence_witness:
  "Equal (VObject [(''b'', VBool True), (''a'', VNull)]) (VObject [(''a'', VNull), (''b'', VBool True)])"
  using value_equality_is_equivalence [of "VObject [(''a'', VNull), (''b'', VBool True)]" "VObject [(''b'', VBool True), (''a'', VNull)]" VNull]
    sample_equal
  by (simp add: mwf_def)

text \<open>
  Integers convert exactly or not at all: an integer of at most \<open>2\<^sup>5\<^sup>3\<close> in magnitude becomes the number it is, a larger one
  is refused; and a conversion that succeeds yields a well-formed value.
\<close>

theorem integers_convert_exactly:
  "FromAny (AInt i) = (if \<bar>i\<bar> \<le> 2 ^ 53 then Inr (VNumber (of_int i)) else Inl PlainError) \<and>
   (wfAny x \<longrightarrow> (case FromAny x of Inr v \<Rightarrow> wfValue v | Inl e \<Rightarrow> True))"
proof -
  have "FromAny (AInt i) = (if \<bar>i\<bar> \<le> 2 ^ 53 then Inr (VNumber (of_int i)) else Inl PlainError)"
    using roundF_int [of i] by (auto simp: numberFromInt_def maxSafeInteger_def Number_def)
  moreover have "case FromAny x of Inr v \<Rightarrow> wfValue v | Inl e \<Rightarrow> True" if "wfAny x"
    using FromAny_wf [OF that] by (simp split: sum.split)
  ultimately show ?thesis by blast
qed

theorem integers_convert_exactly_witness: "FromAny (AInt 7) = Inr (VNumber 7)"
  using integers_convert_exactly [of 7] by simp

end
