(* ===== verification/Pjvm_Text.thy ===== *)
theory Pjvm_Text
  imports Pjvm
begin

section \<open>Values as text\<close>

text \<open>
  \<^verbatim>\<open>String\<close>, \<^verbatim>\<open>ToCanonicalJSON\<close> and what they call in \<^verbatim>\<open>runtime/pkg/pjvm/value.go\<close>. The shortest decimal representation of a
  number that is no integer, \<^verbatim>\<open>strconv.FormatFloat(f, 'g', -1, 64)\<close>, is the parameter \<open>G\<close>; integers are printed exactly.
\<close>

subsection \<open>Numbers\<close>

definition formatInteger :: "int \<Rightarrow> string" where
  "formatInteger i = (if i < 0 then CHR ''-'' # natDigits (nat (- i)) else natDigits (nat i))"

definition replaceExponent :: "string \<Rightarrow> string" where
  "replaceExponent s = map (\<lambda>c. if c = CHR ''E'' then CHR ''e'' else c) s"

definition formatNumber :: "(rat \<Rightarrow> string) \<Rightarrow> rat \<Rightarrow> string" where
  "formatNumber G f =
     (if f = 0 then ''0''
      else if f = of_int (truncRat f) \<and> \<bar>f\<bar> < 10 ^ 21 then formatInteger (truncRat f)
      else replaceExponent (G f))"

subsection \<open>Strings\<close>

definition hexChar :: "nat \<Rightarrow> char" where
  "hexChar d = ''0123456789abcdef'' ! d"

text \<open>The escapes of \<^verbatim>\<open>json.Marshal\<close> for one byte below 128.\<close>

definition jsonByte :: "nat \<Rightarrow> string" where
  "jsonByte b =
     (if b = 34 \<or> b = 92 then [CHR 0x5C, char_of b]
      else if b = 8 then CHR 0x5C # ''b'' else if b = 12 then CHR 0x5C # ''f''
      else if b = 10 then CHR 0x5C # ''n'' else if b = 13 then CHR 0x5C # ''r'' else if b = 9 then CHR 0x5C # ''t''
      else if b < 32 \<or> b = 60 \<or> b = 62 \<or> b = 38 then CHR 0x5C # ''u00'' @ [hexChar (b div 16), hexChar (b mod 16)]
      else [char_of b])"

function jsonChars :: "nat list \<Rightarrow> string" where
  "jsonChars [] = []"
| "jsonChars (b # bs) =
     (if b < 128 then jsonByte b @ jsonChars bs
      else
        (let (r, w) = decodeRune (b # bs) in
         (if r = runeError \<and> w = 1 then CHR 0x5C # ''ufffd''
          else if r = 0x2028 \<or> r = 0x2029 then CHR 0x5C # ''u202'' @ [hexChar (r mod 16)]
          else map char_of (take w (b # bs))) @ jsonChars (drop w (b # bs))))"
  by pat_completeness auto
termination
proof (relation "measure length", goal_cases)
  case (3 b bs x r w)
  then have "0 < w" using decodeRune_width [of b bs] by (metis snd_conv)
  then show ?case by simp
qed simp_all

definition jsonString :: "string \<Rightarrow> string" where
  "jsonString s = CHR 0x22 # jsonChars (map of_char s) @ [CHR 0x22]"

subsection \<open>Sorted keys\<close>

primrec insertString :: "string \<Rightarrow> string list \<Rightarrow> string list" where
  "insertString s [] = [s]"
| "insertString s (t # ts) = (if bytesLess t s then t # insertString s ts else s # t # ts)"

text \<open>\<^verbatim>\<open>sort.Strings\<close>.\<close>

definition sortStrings :: "string list \<Rightarrow> string list" where
  "sortStrings ss = foldr insertString ss []"

lemma set_insertString: "set (insertString s ts) = insert s (set ts)"
  by (induction ts) auto

lemma set_sortStrings [simp]: "set (sortStrings ss) = set ss"
  by (induction ss) (simp_all add: sortStrings_def set_insertString)

lemma length_insertString: "length (insertString s ts) = Suc (length ts)"
  by (induction ts) auto

lemma length_sortStrings [simp]: "length (sortStrings ss) = length ss"
  by (induction ss) (simp_all add: sortStrings_def length_insertString)

definition ascending :: "string list \<Rightarrow> bool" where
  "ascending ss = sorted_wrt (\<lambda>s t. \<not> bytesLess t s) ss"

lemma insertString_ascending: "ascending ts \<Longrightarrow> ascending (insertString s ts)"
proof (induction ts)
  case (Cons t ts)
  show ?case
  proof (cases "bytesLess t s")
    case True
    with Cons show ?thesis by (auto simp: ascending_def set_insertString dest: bytesLess_trans)
  next
    case False
    have "\<not> bytesLess u s" if "u \<in> set ts" for u
      using that False Cons.prems bytesLess_trans [of u s t] bytesLess_total [of s t] by (auto simp: ascending_def)
    with False Cons.prems show ?thesis by (auto simp: ascending_def)
  qed
qed (simp add: ascending_def)

lemma sortStrings_ascending: "ascending (sortStrings ss)"
  by (induction ss) (simp_all add: sortStrings_def insertString_ascending, simp add: ascending_def)

text \<open>A sorted list without duplicates is determined by its elements.\<close>

lemma ascending_unique:
  assumes "ascending xs" and "ascending ys" and "set xs = set ys" and "distinct xs" and "distinct ys"
  shows "xs = ys"
  using assms
proof (induction xs arbitrary: ys)
  case (Cons x xs)
  then obtain y zs where ys: "ys = y # zs" by (cases ys) auto
  have "x = y"
  proof (rule ccontr)
    assume "x \<noteq> y"
    with Cons.prems ys have "y \<in> set xs" "x \<in> set zs" by auto
    with Cons.prems ys have "\<not> bytesLess y x" "\<not> bytesLess x y" by (auto simp: ascending_def)
    with \<open>x \<noteq> y\<close> show False using bytesLess_total [of x y] by blast
  qed
  moreover from this Cons.prems ys have "set xs = set zs" by (metis distinct.simps(2) insert_eq_iff list.simps(15))
  ultimately show ?case using Cons.IH [of zs] Cons.prems ys by (simp add: ascending_def)
qed simp

lemma distinct_sortStrings: "distinct ss \<Longrightarrow> distinct (sortStrings ss)"
  by (rule card_distinct) (simp add: distinct_card)

lemma sortStrings_set_eq:
  "set ss = set ts \<Longrightarrow> distinct ss \<Longrightarrow> distinct ts \<Longrightarrow> sortStrings ss = sortStrings ts"
  by (rule ascending_unique) (simp_all add: sortStrings_ascending distinct_sortStrings)

subsection \<open>Canonical JSON\<close>

function writeJSON :: "(rat \<Rightarrow> string) \<Rightarrow> pvalue \<Rightarrow> string" where
  "writeJSON G v =
     (case v of
        VNull \<Rightarrow> ''null''
      | VBool b \<Rightarrow> if b then ''true'' else ''false''
      | VNumber n \<Rightarrow> formatNumber G n
      | VString s \<Rightarrow> jsonString s
      | VArray a \<Rightarrow> ''['' @ joinByte (CHR '','') (map (writeJSON G) a) @ '']''
      | VObject m \<Rightarrow> ''{'' @ joinByte (CHR '','')
          (map (\<lambda>k. jsonString k @ '':'' @ (case mget m k of None \<Rightarrow> '''' | Some x \<Rightarrow> writeJSON G x)) (sortStrings (map fst m))) @ ''}'')"
  by pat_completeness auto
termination
proof (relation "measure (\<lambda>(G, v). size v)", goal_cases)
  case (2 G v a x)
  then show ?case by (auto simp: less_Suc_eq_le dest: size_list_estimation')
next
  case (3 G v m k x)
  from 3(3) have "(k, x) \<in> set m" by (rule mget_in_set)
  then have "size x \<le> size_list (size_prod (\<lambda>x. 0) size) m" by (rule size_list_estimation') simp
  with 3 show ?case by auto
qed simp

declare writeJSON.simps [simp del]

definition ToCanonicalJSON :: "(rat \<Rightarrow> string) \<Rightarrow> pvalue \<Rightarrow> string" where
  "ToCanonicalJSON G v = writeJSON G v"

fun displayString :: "(rat \<Rightarrow> string) \<Rightarrow> pvalue \<Rightarrow> string" where
  "displayString G VNull = ''null''"
| "displayString G (VBool b) = (if b then ''true'' else ''false'')"
| "displayString G (VNumber n) = formatNumber G n"
| "displayString G (VString s) = s"
| "displayString G (VArray a) = ToCanonicalJSON G (VArray a)"
| "displayString G (VObject m) = ToCanonicalJSON G (VObject m)"

subsection \<open>Equal values print alike\<close>

lemma writeJSON_simps [simp]:
  "writeJSON G VNull = ''null''" "writeJSON G (VBool b) = (if b then ''true'' else ''false'')"
  "writeJSON G (VNumber n) = formatNumber G n" "writeJSON G (VString s) = jsonString s"
  "writeJSON G (VArray a) = ''['' @ joinByte (CHR '','') (map (writeJSON G) a) @ '']''"
  "writeJSON G (VObject m) = ''{'' @ joinByte (CHR '','')
     (map (\<lambda>k. jsonString k @ '':'' @ (case mget m k of None \<Rightarrow> '''' | Some x \<Rightarrow> writeJSON G x)) (sortStrings (map fst m))) @ ''}''"
  by (simp_all add: writeJSON.simps [of G VNull] writeJSON.simps [of G "VBool b"] writeJSON.simps [of G "VNumber n"]
      writeJSON.simps [of G "VString s"] writeJSON.simps [of G "VArray a"] writeJSON.simps [of G "VObject m"])

lemma mget_key: "k \<in> set (map fst m) \<Longrightarrow> \<exists>x. mget m k = Some x"
  by (metis map_of_eq_None_iff mget_def not_None_eq set_map)

lemma Equal_objects_values:
  assumes "Equal (VObject m) (VObject n)" and "mget m k = Some x"
  shows "\<exists>y. mget n k = Some y \<and> Equal x y"
  using assms mget_in_set [OF assms(2)] by (fastforce simp: list_all_iff split: option.splits)

lemma Equal_objects_keys:
  assumes "Equal (VObject m) (VObject n)" and "mwf m" and "mwf n"
  shows "set (map fst m) = set (map fst n)"
proof (rule card_subset_eq)
  have "k \<in> set (map fst n)" if key: "k \<in> set (map fst m)" for k
  proof -
    obtain y where "mget n k = Some y" using mget_key [OF key] Equal_objects_values [OF assms(1)] by blast
    from mget_in_set [OF this] show ?thesis by force
  qed
  then show "set (map fst m) \<subseteq> set (map fst n)" by blast
  show "card (set (map fst m)) = card (set (map fst n))"
    using assms by (simp add: mwf_def distinct_card del: set_map)
qed simp

lemma wf_entry: "wfValue (VObject m) \<Longrightarrow> mget m k = Some x \<Longrightarrow> wfValue x"
  using mget_in_set [of m k x] by (auto simp: list_all_iff)

lemma Equal_writeJSON: "Equal v w \<Longrightarrow> wfValue v \<Longrightarrow> wfValue w \<Longrightarrow> writeJSON G v = writeJSON G w"
proof (induction v arbitrary: w rule: wfValue.induct)
  case (2 a)
  then obtain b where w: "w = VArray b" using Equal_kind [OF 2(2)] by (cases w) auto
  have "map (writeJSON G) a = map (writeJSON G) b"
  proof (rule nth_equalityI)
    show "length (map (writeJSON G) a) = length (map (writeJSON G) b)" using 2(2) w by simp
    fix i
    assume i: "i < length (map (writeJSON G) a)"
    then have "Equal (a ! i) (b ! i)" "wfValue (a ! i)" "wfValue (b ! i)" using 2(2,3,4) w
      by (auto simp: list_all_length)
    then have "writeJSON G (a ! i) = writeJSON G (b ! i)" using 2(1) [of "a ! i" "b ! i"] i by simp
    then show "map (writeJSON G) a ! i = map (writeJSON G) b ! i" using i 2(2) w by simp
  qed
  with w show ?case by simp
next
  case (3 m)
  then obtain n where w: "w = VObject n" using Equal_kind [OF 3(2)] by (cases w) auto
  note eq = 3(2) [unfolded w]
  have wf: "mwf m" "mwf n" using 3(3,4) w by simp_all
  note keys = Equal_objects_keys [OF eq wf]
  have sorted: "sortStrings (map fst m) = sortStrings (map fst n)"
    by (rule sortStrings_set_eq [OF keys]) (use wf in \<open>simp_all add: mwf_def\<close>)
  have "(case mget m k of None \<Rightarrow> '''' | Some x \<Rightarrow> writeJSON G x) = (case mget n k of None \<Rightarrow> '''' | Some x \<Rightarrow> writeJSON G x)"
    if key: "k \<in> set (map fst m)" for k
  proof -
    obtain x where x: "mget m k = Some x" using mget_key [OF key] by blast
    obtain y where y: "mget n k = Some y" "Equal x y" using Equal_objects_values [OF eq x] by blast
    have "writeJSON G x = writeJSON G y"
      using 3(1) [OF mget_in_set [OF x], of y] y wf_entry [OF 3(3) x] wf_entry [of n k y] 3(4) w by simp
    with x y show ?thesis by simp
  qed
  then have "map (\<lambda>k. jsonString k @ '':'' @ (case mget m k of None \<Rightarrow> '''' | Some x \<Rightarrow> writeJSON G x)) (sortStrings (map fst m)) =
      map (\<lambda>k. jsonString k @ '':'' @ (case mget n k of None \<Rightarrow> '''' | Some x \<Rightarrow> writeJSON G x)) (sortStrings (map fst n))"
    unfolding sorted using keys by simp
  with w show ?case by (simp only: writeJSON_simps)
qed auto

lemma displayString_JSON: "kindOf v \<noteq> KindString \<Longrightarrow> displayString G v = writeJSON G v"
  by (cases v) (simp_all add: ToCanonicalJSON_def)

text \<open>
  C32. The canonical text of a value does not depend on the order in which the entries of its objects happen to be visited: equal
  values print alike, nested to any depth.
\<close>

theorem equal_values_print_alike:
  assumes "wfValue v" and "wfValue w" and "Equal v w"
  shows "ToCanonicalJSON G v = ToCanonicalJSON G w \<and> displayString G v = displayString G w"
proof -
  have eq: "writeJSON G v = writeJSON G w" by (rule Equal_writeJSON [OF assms(3,1,2)])
  moreover have "displayString G v = displayString G w"
  proof (cases "kindOf v = KindString")
    case True
    with assms(3) show ?thesis by (cases v) simp_all
  next
    case False
    with eq Equal_kind [OF assms(3)] show ?thesis by (simp add: displayString_JSON)
  qed
  ultimately show ?thesis by (simp add: ToCanonicalJSON_def)
qed

theorem equal_values_print_alike_witness:
  "displayString (\<lambda>_. '''') (VObject [(''b'', VBool True), (''a'', VNull)]) = ''{\"a\":null,\"b\":true}''"
proof -
  let ?v = "VObject [(''b'', VBool True), (''a'', VNull)]" and ?w = "VObject [(''a'', VNull), (''b'', VBool True)]"
  have "wfValue ?v" "wfValue ?w" "Equal ?v ?w" by (simp_all add: mwf_def)
  from equal_values_print_alike [OF this, of "\<lambda>_. ''''"]
  have "displayString (\<lambda>_. '''') ?v = displayString (\<lambda>_. '''') ?w" by simp
  also have "\<dots> = ''{\"a\":null,\"b\":true}''"
    by code_simp
  finally show ?thesis .
qed

end
