(* ===== verification/Gis.thy ===== *)
theory Gis
  imports Gxl_Eval Pjvm_Text
begin

section \<open>Interpolated strings\<close>

text \<open>
  \<^verbatim>\<open>runtime/pkg/gis\<close>: templates with embedded expressions (\<^verbatim>\<open>parse.go\<close>, \<^verbatim>\<open>template.go\<close>) and their evaluation
  (\<^verbatim>\<open>eval.go\<close>), which has its own copy of the expression evaluator. The parser works on bytes; its state is what is left of the
  template and the literal collected so far, \<open>None\<close> when there is none. Positions and the records kept for
  highlighting are left out.
\<close>

subsection \<open>Templates\<close>

datatype tsegment = TextSegment string | ExprSegment node

text \<open>The rune at the front of the bytes, its width, and what follows it.\<close>

definition headRune :: "string \<Rightarrow> nat" where
  "headRune s = fst (decodeRune (map of_char s))"

definition runeWidth :: "string \<Rightarrow> nat" where
  "runeWidth s = snd (decodeRune (map of_char s))"

definition dropRune :: "string \<Rightarrow> string" where
  "dropRune s = drop (runeWidth s) s"

lemma runeWidth_pos: "s \<noteq> [] \<Longrightarrow> 0 < runeWidth s"
  using decodeRune_width by (cases s) (auto simp: runeWidth_def simp del: decodeRune.simps)

lemma dropRune_less: "s \<noteq> [] \<Longrightarrow> length (dropRune s) < length s"
  using runeWidth_pos [of s] by (cases s) (auto simp: dropRune_def)

text \<open>\<^verbatim>\<open>advanceSize\<close> takes a line feed along after a carriage return.\<close>

definition advanceSize :: "nat \<Rightarrow> string \<Rightarrow> string" where
  "advanceSize n s =
     (if n = 0 \<or> s = [] then s
      else if hd s = CHR 0x0D then (let t = drop n s in if hasPrefix t [CHR 0x0A] then tl t else t)
      else drop n s)"

primrec advanceN :: "nat \<Rightarrow> string \<Rightarrow> string" where
  "advanceN 0 s = s"
| "advanceN (Suc n) s = advanceN n (advanceSize 1 s)"

definition advanceNext :: "string \<Rightarrow> string" where
  "advanceNext s = advanceSize (runeWidth s) s"

lemma advanceSize_length: "length (advanceSize n s) \<le> length s - n"
  by (auto simp: advanceSize_def Let_def hasPrefix_def)

lemma advanceSize_less: "s \<noteq> [] \<Longrightarrow> 0 < n \<Longrightarrow> length (advanceSize n s) < length s"
  using advanceSize_length [of n s] by (cases s) auto

lemma advanceN_length: "length (advanceN n s) \<le> length s - n"
proof (induction n arbitrary: s)
  case (Suc n)
  show ?case using Suc [of "advanceSize 1 s"] advanceSize_length [of 1 s] by simp
qed simp

lemma advanceNext_less: "s \<noteq> [] \<Longrightarrow> length (advanceNext s) < length s"
  by (simp add: advanceNext_def advanceSize_less runeWidth_pos)

text \<open>The end of a quoted string, and of an embedded expression: what is left from there on.\<close>

function skipQuoted :: "nat \<Rightarrow> string \<Rightarrow> string option" where
  "skipQuoted quote s =
     (if s = [] then None
      else if headRune s = 0x5C then (if dropRune s = [] then None else skipQuoted quote (dropRune (dropRune s)))
      else if headRune s = quote then Some (dropRune s)
      else skipQuoted quote (dropRune s))"
  by pat_completeness auto
termination
proof (relation "measure (\<lambda>(quote, s). length s)", goal_cases)
  case (2 quote s)
  then show ?case using dropRune_less [of s] dropRune_less [of "dropRune s"] by simp
qed (auto dest: dropRune_less)

declare skipQuoted.simps [simp del]

lemma skipQuoted_shorter: "skipQuoted quote s = Some t \<Longrightarrow> length t < length s"
proof (induction quote s rule: skipQuoted.induct)
  case (1 quote s)
  have "s \<noteq> []" using 1(3) by (subst (asm) skipQuoted.simps) (simp split: if_split_asm)
  note less = dropRune_less [OF this]
  consider "t = dropRune s" | "dropRune s \<noteq> []" "headRune s = 0x5C" "skipQuoted quote (dropRune (dropRune s)) = Some t" |
      "headRune s \<noteq> 0x5C" "headRune s \<noteq> quote" "skipQuoted quote (dropRune s) = Some t"
    using 1(3) by (subst (asm) skipQuoted.simps) (simp split: if_split_asm)
  then show ?case
  proof cases
    case 2
    from 1(1) [OF \<open>s \<noteq> []\<close> 2(2,1,3)] dropRune_less [OF 2(1)] less show ?thesis by simp
  next
    case 3
    from 1(2) [OF \<open>s \<noteq> []\<close> 3] less show ?thesis by simp
  qed (use less in simp)
qed

function findExprEnd :: "nat \<Rightarrow> string \<Rightarrow> string option" where
  "findExprEnd depth s =
     (if s = [] then None
      else if headRune s = 0x22 \<or> headRune s = 0x27 then
        (case skipQuoted (headRune s) (tl s) of None \<Rightarrow> None | Some t \<Rightarrow> findExprEnd depth t)
      else if headRune s = 0x28 \<or> headRune s = 0x5B then findExprEnd (Suc depth) (dropRune s)
      else if headRune s = 0x29 \<or> headRune s = 0x5D then findExprEnd (depth - 1) (dropRune s)
      else if headRune s = 0x7D \<and> depth = 0 then Some s
      else findExprEnd depth (dropRune s))"
  by pat_completeness auto
termination
proof (relation "measure (\<lambda>(depth, s). length s)", goal_cases)
  case (2 depth s t)
  then show ?case using skipQuoted_shorter [OF 2(3)] by (cases s) auto
qed (auto dest: dropRune_less)

declare findExprEnd.simps [simp del]

text \<open>The parser walks over the expression, rune by rune, up to its end.\<close>

function skipTo :: "nat \<Rightarrow> string \<Rightarrow> string" where
  "skipTo m s = (if length s \<le> m \<or> s = [] then s else skipTo m (advanceNext s))"
  by pat_completeness auto
termination by (relation "measure (\<lambda>(m, s). length s)") (auto dest: advanceNext_less)

declare skipTo.simps [simp del]

lemma skipTo_length: "length (skipTo m s) \<le> length s"
proof (induction m s rule: skipTo.induct)
  case (1 m s)
  then show ?case using advanceNext_less [of s] by (subst skipTo.simps) auto
qed

definition writeLiteral :: "string \<Rightarrow> string option \<Rightarrow> string option" where
  "writeLiteral t lit = Some (case lit of None \<Rightarrow> t | Some s \<Rightarrow> s @ t)"

definition flushLiteral :: "string option \<Rightarrow> tsegment list" where
  "flushLiteral lit = (case lit of None \<Rightarrow> [] | Some s \<Rightarrow> [TextSegment s])"

text \<open>\<^verbatim>\<open>parseExpr\<close> after the opening \<^verbatim>\<open>${\<close>: the tree and what is left after the closing brace.\<close>

definition parseEmbedded :: "string \<Rightarrow> gerror + node \<times> string" where
  "parseEmbedded s =
     (case findExprEnd 0 s of
        None \<Rightarrow> Inl (Code ''GIS-PARSE-001'')
      | Some end \<Rightarrow>
          (let raw = take (length s - length end) s in
           if trimSpace raw = '''' then Inl (Code ''GIS-PARSE-004'')
           else case Parse raw of
             Inl e \<Rightarrow> Inl (Code ''GIS-PARSE-003'')
           | Inr n \<Rightarrow> Inr (n, advanceN 1 (skipTo (length end) s))))"

lemma parseEmbedded_length:
  assumes "parseEmbedded s = Inr (n, rest)"
  shows "length rest \<le> length s"
proof -
  obtain k where "rest = advanceN 1 (skipTo k s)"
    using assms by (auto simp: parseEmbedded_def Let_def simp del: advanceN.simps One_nat_def split: option.splits if_splits sum.splits)
  then show ?thesis using advanceN_length [of 1 "skipTo k s"] skipTo_length [of k s] by simp
qed

text \<open>The escapes of literal text: \<open>s\<close> starts with a backslash.\<close>

definition escapedText :: "string \<Rightarrow> string" where
  "escapedText s =
     (if length s < 2 then [CHR 0x5C]
      else
        (let c = s ! 1 in
         if c = CHR 0x5C then [CHR 0x5C] else if c = CHR ''n'' then [CHR 0x0A] else if c = CHR ''r'' then [CHR 0x0D]
         else if c = CHR ''t'' then [CHR 0x09] else take 2 s))"

function parseTemplate :: "string option \<Rightarrow> string \<Rightarrow> gerror + tsegment list" where
  "parseTemplate lit s =
     (if s = [] then Inr (flushLiteral lit)
      else if hasPrefix s (CHR 0x5C # ''${'') then parseTemplate (writeLiteral ''${'' lit) (advanceN 3 s)
      else if hasPrefix s ''$${'' then Inl (Code ''GIS-PARSE-003'')
      else if hasPrefix s ''${'' then
        (case parseEmbedded (advanceN 2 s) of
           Inl e \<Rightarrow> Inl e
         | Inr (n, rest) \<Rightarrow> andThen (parseTemplate None rest) (\<lambda>segs. Inr (flushLiteral lit @ ExprSegment n # segs)))
      else if hd s = CHR 0x5C then
        parseTemplate (writeLiteral (escapedText s) lit) (advanceN (if length s < 2 then 1 else 2) s)
      else parseTemplate (writeLiteral (encodeRune (headRune s)) lit) (advanceNext s))"
  by pat_completeness auto
termination
proof (relation "measure (\<lambda>(lit, s). length s)", goal_cases)
  case (2 lit s)
  then show ?case using advanceN_length [of 3 s] by (cases s) auto
next
  case (3 lit s x n rest)
  have "length rest \<le> length (advanceN 2 s)" using parseEmbedded_length 3 by blast
  with 3 show ?case using advanceN_length [of 2 s] by (cases s) auto
next
  case (4 lit s)
  then show ?case using advanceN_length [of 1 s] advanceN_length [of 2 s] by (cases s) auto
next
  case (5 lit s)
  then show ?case using advanceNext_less [of s] by simp
qed simp

declare parseTemplate.simps [simp del]

definition gisParse :: "string \<Rightarrow> gerror + tsegment list" where
  "gisParse template = parseTemplate None template"

subsection \<open>Values\<close>

text \<open>The package repeats the operators and functions of the expression evaluator.\<close>

definition gisStrictBool :: "pvalue \<Rightarrow> gerror + bool" where
  "gisStrictBool v = (case BoolValue v of Some b \<Rightarrow> Inr b | None \<Rightarrow> Inl (Code ''GXL-TYPE-002''))"

fun gisLiteral :: "litValue \<Rightarrow> gerror + pvalue" where
  "gisLiteral LitNull = Inr VNull"
| "gisLiteral (LitBool b) = Inr (VBool b)"
| "gisLiteral (LitString s) = NewString s"
| "gisLiteral (LitNumber n) = Number (Some n)"

definition gisGDPPath :: "string \<Rightarrow> pathSegment list \<Rightarrow> path" where
  "gisGDPPath rt segs =
     \<lparr>pt_Dialect = DialectGXL, pt_Root = rt,
      pt_Segments = map (\<lambda>s. \<lparr>sg_Hop = (case ps_Index s of None \<Rightarrow> HopName (ps_Name s) | Some i \<Rightarrow> HopIndex i),
                               sg_Optional = ps_Optional s\<rparr>) segs\<rparr>"

definition pathHasOptional :: "path \<Rightarrow> bool" where
  "pathHasOptional p = list_ex sg_Optional (pt_Segments p)"

text \<open>A path with an optional segment yields the empty string when it is absent or null.\<close>

definition gisPath :: "string \<Rightarrow> pathSegment list \<Rightarrow> scope \<Rightarrow> gerror + pvalue" where
  "gisPath rt segs sc =
     (let p = gisGDPPath rt segs in
      if pathHasOptional p then
        (case ResolveOptional (Tree sc) p of
           Inl e \<Rightarrow> Inl e
         | Inr None \<Rightarrow> NewString ''''
         | Inr (Some v) \<Rightarrow> if kindOf v = KindNull then NewString '''' else Inr v)
      else Resolve (Tree sc) p)"

definition gisUnary :: "string \<Rightarrow> pvalue \<Rightarrow> gerror + pvalue" where
  "gisUnary op v =
     (if op = ''not'' then (case gisStrictBool v of Inl e \<Rightarrow> Inl e | Inr b \<Rightarrow> Inr (VBool (\<not> b)))
      else if op = ''-'' then (case NumberValue v of Some n \<Rightarrow> Number (Some (- n)) | None \<Rightarrow> Inl (Code ''GXL-TYPE-003''))
      else Inl (Code ''GXL-EVAL-001''))"

definition gisArithmetic :: "string \<Rightarrow> pvalue \<Rightarrow> pvalue \<Rightarrow> gerror + pvalue" where
  "gisArithmetic op left right =
     (case NumberValue left of
        None \<Rightarrow> Inl (Code ''GXL-TYPE-003'')
      | Some l \<Rightarrow>
          (case NumberValue right of
             None \<Rightarrow> Inl (Code ''GXL-TYPE-003'')
           | Some r \<Rightarrow>
               if op \<in> {''/'', ''%''} \<and> r = 0 then Inl (Code ''GXL-EVAL-002'')
               else
                 (let out = (if op = ''+'' then roundF (l + r) else if op = ''-'' then roundF (l - r)
                    else if op = ''*'' then roundF (l * r) else if op = ''/'' then roundF (l / r) else Some (fmod l r)) in
                  case Number out of Inr v \<Rightarrow> Inr v | Inl e \<Rightarrow> Inl (Code ''GXL-EVAL-001''))))"

definition gisEqualScalars :: "pvalue \<Rightarrow> pvalue \<Rightarrow> gerror + bool" where
  "gisEqualScalars left right =
     (if kindOf left = KindArray \<or> kindOf left = KindObject \<or> kindOf right = KindArray \<or> kindOf right = KindObject
      then Inl (Code ''GXL-TYPE-001'')
      else if kindOf left = KindNull \<or> kindOf right = KindNull then Inr (kindOf left = KindNull \<and> kindOf right = KindNull)
      else if kindOf left \<noteq> kindOf right then Inl (Code ''GXL-TYPE-001'')
      else Inr (Equal left right))"

definition gisCompareFloat :: "string \<Rightarrow> rat \<Rightarrow> rat \<Rightarrow> bool" where
  "gisCompareFloat op l r =
     (if op = ''<'' then l < r else if op = ''<='' then l \<le> r else if op = ''>'' then l > r else if op = ''>='' then l \<ge> r else False)"

definition gisCompareString :: "string \<Rightarrow> string \<Rightarrow> string \<Rightarrow> bool" where
  "gisCompareString op l r =
     (if op = ''<'' then bytesLess l r else if op = ''<='' then \<not> bytesLess r l
      else if op = ''>'' then bytesLess r l else if op = ''>='' then \<not> bytesLess l r else False)"

definition gisComparison :: "string \<Rightarrow> pvalue \<Rightarrow> pvalue \<Rightarrow> gerror + pvalue" where
  "gisComparison op left right =
     (if op = ''=='' \<or> op = ''!='' then
        (case gisEqualScalars left right of Inl e \<Rightarrow> Inl e | Inr eq \<Rightarrow> Inr (VBool (if op = ''!='' then \<not> eq else eq)))
      else if kindOf left = KindNull \<or> kindOf right = KindNull then Inl (Code ''GXL-EVAL-004'')
      else if kindOf left \<noteq> kindOf right then Inl (Code ''GXL-TYPE-001'')
      else
        case (left, right) of
          (VNumber l, VNumber r) \<Rightarrow> Inr (VBool (gisCompareFloat op l r))
        | (VString l, VString r) \<Rightarrow> Inr (VBool (gisCompareString op l r))
        | (VBool l, _) \<Rightarrow> Inl (Code ''GXL-TYPE-005'')
        | _ \<Rightarrow> Inl (Code ''GXL-TYPE-001''))"

definition gisLengthValue :: "pvalue \<Rightarrow> gerror + pvalue" where
  "gisLengthValue v =
     (case v of
        VString s \<Rightarrow> Number (roundF (of_nat (length (runes s))))
      | VArray a \<Rightarrow> Number (roundF (of_nat (length a)))
      | _ \<Rightarrow> Inl (Code ''GXL-TYPE-003''))"

definition gisOneString :: "pvalue list \<Rightarrow> gerror + string" where
  "gisOneString args =
     (case args of
        [v] \<Rightarrow> (case StringValue v of Some s \<Rightarrow> Inr s | None \<Rightarrow> Inl (Code ''GXL-TYPE-003''))
      | _ \<Rightarrow> Inl (Code ''GXL-TYPE-004''))"

definition gisTwoStrings :: "pvalue list \<Rightarrow> gerror + string \<times> string" where
  "gisTwoStrings args =
     (case args of
        [v, w] \<Rightarrow>
          (case StringValue v of
             None \<Rightarrow> Inl (Code ''GXL-TYPE-003'')
           | Some s \<Rightarrow> (case StringValue w of None \<Rightarrow> Inl (Code ''GXL-TYPE-003'') | Some t \<Rightarrow> Inr (s, t)))
      | _ \<Rightarrow> Inl (Code ''GXL-TYPE-004''))"

definition gisString :: "gxl_lib \<Rightarrow> string \<Rightarrow> pvalue list \<Rightarrow> gerror + pvalue" where
  "gisString L name args =
     (if name = ''startsWith'' then andThen (gisTwoStrings args) (\<lambda>(s, p). Inr (VBool (hasPrefix s p)))
      else if name = ''endsWith'' then andThen (gisTwoStrings args) (\<lambda>(s, p). Inr (VBool (hasSuffix s p)))
      else if name = ''contains'' then andThen (gisTwoStrings args) (\<lambda>(s, p). Inr (VBool (containsString s p)))
      else if name = ''toLower'' then andThen (gisOneString args) (\<lambda>s. NewString (mapRunes (gl_toLower L) s))
      else if name = ''toUpper'' then andThen (gisOneString args) (\<lambda>s. NewString (mapRunes (gl_toUpper L) s))
      else if name = ''trim'' then andThen (gisOneString args) (\<lambda>s. NewString (trimSpace s))
      else if name = ''length'' then (case args of [v] \<Rightarrow> gisLengthValue v | _ \<Rightarrow> Inl (Code ''GXL-TYPE-004''))
      else if name = ''trimPrefix'' then andThen (gisTwoStrings args) (\<lambda>(s, p). NewString (trimPrefix s p))
      else if name = ''trimSuffix'' then andThen (gisTwoStrings args) (\<lambda>(s, p). NewString (trimSuffix s p))
      else Inl (Code ''GXL-PARSE-006''))"

fun gisFindIndex :: "nat \<Rightarrow> pvalue \<Rightarrow> pvalue list \<Rightarrow> int" where
  "gisFindIndex i item [] = - 1"
| "gisFindIndex i item (v # vs) =
     (if kindOf v = KindNull \<or> kindOf v = KindArray \<or> kindOf v = KindObject \<or> kindOf v \<noteq> kindOf item then gisFindIndex (Suc i) item vs
      else if Equal v item then int i
      else gisFindIndex (Suc i) item vs)"

definition gisListIndex :: "pvalue list \<Rightarrow> gerror + int" where
  "gisListIndex args =
     (case args of
        [v, item] \<Rightarrow>
          (case ArrayValue v of
             None \<Rightarrow> Inl (Code ''GXL-TYPE-003'')
           | Some arr \<Rightarrow>
               if kindOf item = KindNull then Inr (- 1)
               else if kindOf item = KindArray \<or> kindOf item = KindObject then Inl (Code ''GXL-TYPE-003'')
               else Inr (gisFindIndex 0 item arr))
      | _ \<Rightarrow> Inl (Code ''GXL-TYPE-004''))"

definition gisList :: "string \<Rightarrow> pvalue list \<Rightarrow> gerror + pvalue" where
  "gisList name args =
     (if name = ''contains'' then andThen (gisListIndex args) (\<lambda>i. Inr (VBool (0 \<le> i)))
      else if name = ''indexOf'' then andThen (gisListIndex args) (\<lambda>i. Number (roundF (of_int i)))
      else if name = ''length'' then
        (case args of
           [v] \<Rightarrow> (case ArrayValue v of None \<Rightarrow> Inl (Code ''GXL-TYPE-003'') | Some a \<Rightarrow> Number (roundF (of_nat (length a))))
         | _ \<Rightarrow> Inl (Code ''GXL-TYPE-004''))
      else Inl (Code ''GXL-PARSE-006''))"

definition gisRegex :: "gxl_lib \<Rightarrow> string \<Rightarrow> pvalue list \<Rightarrow> gerror + pvalue" where
  "gisRegex L name args =
     (if name \<noteq> ''match'' then Inl (Code ''GXL-PARSE-006'')
      else
        andThen (gisTwoStrings args) (\<lambda>(s, pattern).
          case gl_regex L pattern s of Some b \<Rightarrow> Inr (VBool b) | None \<Rightarrow> Inl (Code ''GXL-EVAL-003'')))"

subsection \<open>Evaluation\<close>

text \<open>\<open>limited\<close> says whether the evaluator carries the shared budget.\<close>

definition gisSpend :: "bool \<Rightarrow> estate \<Rightarrow> unit outcome" where
  "gisSpend limited st =
     (if limited then
        (let b = es_budget st - 1 in (if b < 0 then Inl (Code ''GIS-LIMIT-001'') else Inr (), st\<lparr>es_budget := b\<rparr>))
      else (Inr (), st))"

text \<open>
  \<^verbatim>\<open>len\<close> reads its first argument without looking at how many there are; with none it would panic, for which stands an error
  without a code. \<^verbatim>\<open>now\<close> hands its whole call to the expression evaluator.
\<close>

definition gisCall :: "gxl_lib \<Rightarrow> scope \<Rightarrow> string \<Rightarrow> string \<Rightarrow> node list \<Rightarrow> pvalue list \<Rightarrow> estate \<Rightarrow> pvalue outcome" where
  "gisCall L sc namespace name nodes args st =
     (if namespace = '''' \<and> name = ''len'' then (case args of [] \<Rightarrow> Inl PlainError | v # _ \<Rightarrow> gisLengthValue v, st)
      else if namespace = '''' \<and> name = ''now'' then Eval L (Call namespace name nodes) (Some sc) st
      else if namespace = ''str'' then (gisString L name args, st)
      else if namespace = ''list'' then
        (if name = ''order'' then CallBuiltin L namespace name args sc st else (gisList name args, st))
      else if namespace = ''regex'' then (gisRegex L name args, st)
      else if namespace = ''date'' then CallBuiltin L namespace name args sc st
      else (Inl (Code ''GXL-PARSE-005''), st))"

fun gisNode :: "gxl_lib \<Rightarrow> bool \<Rightarrow> scope \<Rightarrow> node \<Rightarrow> estate \<Rightarrow> pvalue outcome"
  and gisArgs :: "gxl_lib \<Rightarrow> bool \<Rightarrow> scope \<Rightarrow> node list \<Rightarrow> estate \<Rightarrow> pvalue list outcome" where
  "gisNode L limited sc (Literal v) st = thenE (gisSpend limited st) (\<lambda>_ st. (gisLiteral v, st))"
| "gisNode L limited sc (Group e) st = thenE (gisSpend limited st) (\<lambda>_ st. gisNode L limited sc e st)"
| "gisNode L limited sc (PathRef rt segs) st = thenE (gisSpend limited st) (\<lambda>_ st. (gisPath rt segs sc, st))"
| "gisNode L limited sc (UnaryOp op e) st =
     thenE (gisSpend limited st) (\<lambda>_ st. thenE (gisNode L limited sc e st) (\<lambda>v st. (gisUnary op v, st)))"
| "gisNode L limited sc (BinaryOp op l r) st =
     thenE (gisSpend limited st) (\<lambda>_ st.
       if op = ''and'' then
         thenE (gisNode L limited sc l st) (\<lambda>v st. thenE (gisStrictBool v, st) (\<lambda>b st.
           if \<not> b then (Inr (VBool False), st)
           else thenE (gisNode L limited sc r st) (\<lambda>w st. (andThen (gisStrictBool w) (\<lambda>rb. Inr (VBool rb)), st))))
       else if op = ''or'' then
         thenE (gisNode L limited sc l st) (\<lambda>v st. thenE (gisStrictBool v, st) (\<lambda>b st.
           if b then (Inr (VBool True), st)
           else thenE (gisNode L limited sc r st) (\<lambda>w st. (andThen (gisStrictBool w) (\<lambda>rb. Inr (VBool rb)), st))))
       else
         thenE (gisNode L limited sc l st) (\<lambda>v st. thenE (gisNode L limited sc r st) (\<lambda>w st.
           (if op \<in> set [''+'', ''-'', ''*'', ''/'', ''%''] then gisArithmetic op v w
            else if op \<in> set [''=='', ''!='', ''<'', ''<='', ''>'', ''>=''] then gisComparison op v w
            else Inl (Code ''GXL-EVAL-001''), st))))"
| "gisNode L limited sc (Call namespace name args) st =
     thenE (gisSpend limited st) (\<lambda>_ st.
     thenE (gisArgs L limited sc args st) (\<lambda>vs st. gisCall L sc namespace name args vs st))"
| "gisArgs L limited sc [] st = (Inr [], st)"
| "gisArgs L limited sc (n # ns) st =
     thenE (gisNode L limited sc n st) (\<lambda>v st. thenE (gisArgs L limited sc ns st) (\<lambda>vs st. (Inr (v # vs), st)))"

subsection \<open>Interpolation\<close>

definition mapEvalError :: "gerror \<Rightarrow> gerror" where
  "mapEvalError e =
     (if hasPrefix (errCode e) ''GXL-PATH-'' then Code ''GIS-PATH-MISSING''
      else if hasPrefix (errCode e) ''GXL-TYPE-'' then Code ''GIS-TYPE-002''
      else if hasPrefix (errCode e) ''GXL-PARSE-'' then Code ''GIS-PARSE-003''
      else e)"

fun renderSegments :: "gxl_lib \<Rightarrow> (rat \<Rightarrow> string) \<Rightarrow> bool \<Rightarrow> scope \<Rightarrow> tsegment list \<Rightarrow> estate \<Rightarrow> string outcome" where
  "renderSegments L G limited sc [] st = (Inr '''', st)"
| "renderSegments L G limited sc (TextSegment t # segs) st =
     thenE (renderSegments L G limited sc segs st) (\<lambda>out st. (Inr (t @ out), st))"
| "renderSegments L G limited sc (ExprSegment n # segs) st =
     (case gisNode L limited sc n st of
        (Inl e, st) \<Rightarrow> (Inl (mapEvalError e), st)
      | (Inr v, st) \<Rightarrow> thenE (renderSegments L G limited sc segs st) (\<lambda>out st. (Inr (displayString G v @ out), st)))"

definition InterpolateTemplate :: "gxl_lib \<Rightarrow> (rat \<Rightarrow> string) \<Rightarrow> tsegment list option \<Rightarrow> scope option \<Rightarrow> estate \<Rightarrow> string outcome" where
  "InterpolateTemplate L G t sc st =
     (case t of None \<Rightarrow> (Inr '''', st) | Some segs \<Rightarrow> renderSegments L G False (normalizeScope sc) segs st)"

definition InterpolateBounded ::
  "gxl_lib \<Rightarrow> (rat \<Rightarrow> string) \<Rightarrow> tsegment list option \<Rightarrow> scope option \<Rightarrow> int option \<Rightarrow> nat \<Rightarrow> string outcome" where
  "InterpolateBounded L G t sc budget reads =
     (case budget of
        None \<Rightarrow> (Inl (Code ''GIS-LIMIT-001''), \<lparr>es_budget = 0, es_reads = reads\<rparr>)
      | Some b \<Rightarrow>
          (let st = \<lparr>es_budget = b, es_reads = reads\<rparr> in
           case t of None \<Rightarrow> (Inr '''', st) | Some segs \<Rightarrow> renderSegments L G True (WithBudget sc) segs st))"

definition Interpolate :: "gxl_lib \<Rightarrow> (rat \<Rightarrow> string) \<Rightarrow> string \<Rightarrow> scope option \<Rightarrow> estate \<Rightarrow> string outcome" where
  "Interpolate L G template sc st =
     (case gisParse template of Inl e \<Rightarrow> (Inl e, st) | Inr segs \<Rightarrow> InterpolateTemplate L G (Some segs) sc st)"

end
