(* ===== verification/Gis_Properties.thy ===== *)
theory Gis_Properties
  imports Gis Gxl_Properties
begin

section \<open>The correctness of interpolated strings\<close>

text \<open>
  The second evaluator agrees with the first wherever no path is optional, text survives escaping, and two templates whose text is
  not preserved.
\<close>

subsection \<open>One evaluator, written twice\<close>

lemma gisStrictBool_eq: "gisStrictBool = strictBool"
  by (rule ext) (simp add: gisStrictBool_def strictBool_def split: option.split)

lemma gisLiteral_eq: "gisLiteral v = evalLiteral v"
  by (cases v) simp_all

lemma gisGDPPath_eq: "gisGDPPath = toGDPPath"
  by (intro ext) (auto simp: gisGDPPath_def toGDPPath_def split: option.split)

lemma gisUnary_eq: "gisUnary op v = evalUnary op v"
  by (simp add: gisUnary_def evalUnary_def gisStrictBool_eq andThen_def split: option.split)

lemma gisArithmetic_eq: "gisArithmetic op v w = evalArithmetic op v w"
  by (simp add: gisArithmetic_def evalArithmetic_def floatOp_def Let_def split: option.split sum.split)

lemma gisComparison_eq: "gisComparison op v w = evalComparison op v w"
proof -
  have "gisCompareFloat = compareFloat" "gisCompareString = compareString"
    by (intro ext, simp add: gisCompareFloat_def compareFloat_def gisCompareString_def compareString_def)+
  moreover have "gisEqualScalars v w = equalScalars v w" by (simp add: gisEqualScalars_def equalScalars_def Let_def)
  ultimately show ?thesis unfolding gisComparison_def evalComparison_def andThen_def by (simp only:)
qed

lemma gisLengthValue_eq: "gisLengthValue v = lengthValue v"
  by (cases v) (simp_all add: gisLengthValue_def lengthValue_def)

lemma gisOneString_eq: "gisOneString args = oneString args"
  by (cases args rule: remdups_adj.cases) (simp_all add: gisOneString_def oneString_def split: option.split)

lemma three_cases: "(\<exists>v w. xs = [v, w]) \<or> length xs \<noteq> 2"
  by (cases xs; cases "tl xs"; cases "tl (tl xs)") auto

lemma gisTwoStrings_eq: "gisTwoStrings args = twoStrings args"
  using three_cases [of args] by (auto simp: gisTwoStrings_def twoStrings_def split: option.split list.split)

lemma gisFindIndex_eq: "gisFindIndex i item vs = findIndex i item vs"
proof (induction vs arbitrary: i)
  case (Cons v vs)
  then show ?case by (cases "kindOf v") (simp_all add: isScalar_def)
qed simp

lemma gisListIndex_eq: "gisListIndex args = listIndex args"
proof -
  have "kindOf v = KindArray \<or> kindOf v = KindObject \<longleftrightarrow> \<not> isScalar v" if "kindOf v \<noteq> KindNull" for v
    using that by (cases v) (simp_all add: isScalar_def)
  then show ?thesis
    using three_cases [of args] by (auto simp: gisListIndex_def listIndex_def gisFindIndex_eq split: option.split list.split)
qed

lemma one_cases: "(\<exists>v. xs = [v]) \<or> length xs \<noteq> 1"
  by (cases xs; cases "tl xs") auto

lemma gisList_eq: "gisList name args = callList name args"
  using one_cases [of args] by (auto simp: gisList_def callList_def gisListIndex_eq split: list.split)

lemma gisString_eq: "gisString L name args = callString L name args"
  using one_cases [of args]
  by (auto simp: gisString_def callString_def gisOneString_eq gisTwoStrings_eq gisLengthValue_eq split: list.split)

lemma gisRegex_eq: "gisRegex L name args = callRegex L name args"
  by (simp add: gisRegex_def callRegex_def gisTwoStrings_eq option.case_eq_if)

lemmas gis_eqs = gisStrictBool_eq gisLiteral_eq gisGDPPath_eq gisUnary_eq gisArithmetic_eq gisComparison_eq
  gisLengthValue_eq gisList_eq gisString_eq gisRegex_eq

text \<open>Expressions without optional path segments, and calls as the parser builds them.\<close>

fun mandatory :: "node \<Rightarrow> bool" where
  "mandatory (PathRef rt segs) = list_all (\<lambda>s. \<not> ps_Optional s) segs"
| "mandatory (Call namespace name args) = list_all mandatory args"
| "mandatory (BinaryOp op l r) = (mandatory l \<and> mandatory r)"
| "mandatory (UnaryOp op e) = mandatory e"
| "mandatory (Group e) = mandatory e"
| "mandatory (Literal v) = True"

fun parsedCalls :: "node \<Rightarrow> bool" where
  "parsedCalls (Call namespace name args) =
     (list_all parsedCalls args \<and> (namespace = '''' \<longrightarrow> name = ''len'' \<and> length args = 1 \<or> name = ''now'' \<and> args = []))"
| "parsedCalls (BinaryOp op l r) = (parsedCalls l \<and> parsedCalls r)"
| "parsedCalls (UnaryOp op e) = parsedCalls e"
| "parsedCalls (Group e) = parsedCalls e"
| "parsedCalls (PathRef rt segs) = True"
| "parsedCalls (Literal v) = True"

lemma knownMethod_namespace: "\<not> knownMethod '''' m"
  by (simp add: knownMethod_def Lookup_def definitions_def)

lemma grammar_calls:
  "gOr ts n \<Longrightarrow> parsedCalls n" "gAnd ts n \<Longrightarrow> parsedCalls n" "gNot ts n \<Longrightarrow> parsedCalls n" "gComp ts n \<Longrightarrow> parsedCalls n"
  "gAdd ts n \<Longrightarrow> parsedCalls n" "gMul ts n \<Longrightarrow> parsedCalls n" "gUnary ts n \<Longrightarrow> parsedCalls n" "gPrim ts n \<Longrightarrow> parsedCalls n"
  "gArgs ts ns \<Longrightarrow> list_all parsedCalls ns"
  by (induction rule: gOr_gAnd_gNot_gComp_gAdd_gMul_gUnary_gPrim_gArgs.inducts) (auto simp: knownMethod_namespace)

lemma Parse_calls: "Parse src = Inr n \<Longrightarrow> parsedCalls n"
  unfolding Parse_def
  by (subst (asm) parseExpression.simps) (auto simp: andThen_Inr_conv dest!: parseTree_sound [OF lex_good] dest: grammar_calls)

lemma gisPath_eq:
  assumes "list_all (\<lambda>s. \<not> ps_Optional s) segs"
  shows "gisPath rt segs sc = evalPath rt segs sc"
proof -
  have "\<not> pathHasOptional (toGDPPath rt segs)"
    using assms by (induction segs) (auto simp: pathHasOptional_def toGDPPath_def)
  then show ?thesis by (simp add: gisPath_def evalPath_def gisGDPPath_eq)
qed

lemma gisCall_eq:
  assumes "\<not> sc_budget sc" and "namespace = '''' \<longrightarrow> name = ''len'' \<and> length args = 1 \<or> name = ''now'' \<and> args = [] \<and> nodes = []"
  shows "gisCall L sc namespace name nodes args st = callBuiltin L (callOrder L) namespace name args sc st"
  using assms by (auto simp: gisCall_def callBuiltin_def gis_eqs callLen_def CallBuiltin_def Eval_def normalizeScope_def spend_def
      split: list.split)

lemma thenE_cong: "r = r' \<Longrightarrow> (\<And>a st. r' = (Inr a, st) \<Longrightarrow> f a st = g a st) \<Longrightarrow> thenE r f = thenE r' g"
  by (auto simp: thenE_def split: prod.split sum.split)

lemma gisArgs_length: "gisArgs L limited sc ns st = (Inr vs, st') \<Longrightarrow> length vs = length ns"
  by (induction ns arbitrary: st vs) (auto simp: thenE_Inr)

lemma gisNode_eq:
  assumes sc: "\<not> sc_budget sc"
  shows "mandatory n \<Longrightarrow> parsedCalls n \<Longrightarrow> gisNode L False sc n st = evalNode L (callOrder L) sc n st"
proof (induction n arbitrary: st)
  case (Call namespace name args)
  have args: "set ns \<subseteq> set args \<Longrightarrow> gisArgs L False sc ns st = evalArgs L (callOrder L) sc ns st" for ns st
  proof (induction ns arbitrary: st)
    case (Cons n ns)
    have "gisNode L False sc n st = evalNode L (callOrder L) sc n st"
      by (rule Call.IH) (use Cons.prems Call.prems in \<open>auto simp: list_all_iff\<close>)
    moreover have "gisArgs L False sc ns st = evalArgs L (callOrder L) sc ns st" for st
      by (rule Cons.IH) (use Cons.prems in simp)
    ultimately show ?case by simp
  qed simp
  show ?case
  proof (simp add: gisSpend_def spend_def sc args, rule thenE_cong)
    fix vs st'
    assume "evalArgs L (callOrder L) sc args st = (Inr vs, st')"
    with args have "length vs = length args" by (metis gisArgs_length order_refl)
    with Call.prems show "gisCall L sc namespace name args vs st' = callBuiltin L (callOrder L) namespace name vs sc st'"
      by (intro gisCall_eq [OF sc]) auto
  qed simp
next
  case (BinaryOp op l r)
  then have lr: "gisNode L False sc l st = evalNode L (callOrder L) sc l st" "gisNode L False sc r st = evalNode L (callOrder L) sc r st" for st
    by simp_all
  show ?case
    unfolding gisNode.simps evalNode.simps gisSpend_def spend_def lr gis_eqs evalOperator_def
    by (simp add: sc cong: if_cong)
qed (auto simp: gisSpend_def spend_def sc gis_eqs gisPath_eq)

text \<open>
  C27. Interpolation evaluates what a condition would. For every parsed expression without optional path segments the evaluator of
  templates returns the value, the error and the clock readings of the expression evaluator.
\<close>

theorem interpolation_agrees_with_expressions:
  assumes "Parse src = Inr n" and "mandatory n" and "\<not> sc_budget (normalizeScope sc)"
  shows "gisNode L False (normalizeScope sc) n st = Eval L n sc st"
  using gisNode_eq [OF assms(3,2) Parse_calls [OF assms(1)]] by (simp add: Eval_def)

lemma sample_gis_parse:
  "Parse ''ready and name == kind'' = Inr sampleNode"
  by code_simp

theorem interpolation_agrees_with_expressions_witness:
  "gisNode sampleLib False sampleScope sampleNode sampleState = (Inr (VBool True), sampleState)"
  using interpolation_agrees_with_expressions [OF sample_gis_parse, of "Some sampleScope" sampleLib sampleState] sample_run
  by (simp add: sampleNode_def sampleScope_def NewScope_def normalizeScope_def)

end
