(* ===== verification/Gis_Escapes.thy ===== *)
theory Gis_Escapes
  imports Gis_Properties
begin

section \<open>Text in templates\<close>

text \<open>
  Every text can be written in a template so that interpolation returns it unchanged, and two texts that interpolation changes although
  they contain nothing to interpolate.
\<close>

subsection \<open>Escaping\<close>

definition escapeByte :: "char \<Rightarrow> string" where
  "escapeByte c = (if c = CHR 0x5C then [CHR 0x5C, CHR 0x5C] else if c = CHR 0x0D then CHR 0x5C # ''r'' else [c])"

fun escapeText :: "string \<Rightarrow> string" where
  "escapeText [] = []"
| "escapeText [c] = escapeByte c"
| "escapeText (c # d # s) =
     (if c = CHR ''$'' \<and> d = CHR ''{'' then CHR 0x5C # ''${'' @ escapeText s else escapeByte c @ escapeText (d # s))"

lemma hasPrefix_Cons: "hasPrefix (c # s) (d # p) \<longleftrightarrow> c = d \<and> hasPrefix s p"
  by (auto simp: hasPrefix_def)

lemma hasPrefix_Nil [simp]: "hasPrefix s []" "hasPrefix [] (d # p) = False"
  by (simp_all add: hasPrefix_def)

lemma escapeText_Cons:
  "escapeText (c # s) =
     (if c = CHR ''$'' \<and> hasPrefix s ''{'' then CHR 0x5C # ''${'' @ escapeText (tl s) else escapeByte c @ escapeText s)"
  by (cases s) (auto simp: hasPrefix_Cons escapeByte_def)

lemma escapeText_high: "list_all (\<lambda>c. 128 \<le> (of_char c :: nat)) u \<Longrightarrow> escapeText (u @ s) = u @ escapeText s"
proof (induction u)
  case (Cons c u)
  then have "c \<noteq> CHR ''$''" "c \<noteq> CHR 0x5C" "c \<noteq> CHR 0x0D" by auto
  with Cons show ?case by (simp add: escapeText_Cons escapeByte_def)
qed simp

lemma escapeText_brace: "hasPrefix (escapeText s) ''{'' = hasPrefix s ''{''"
  by (cases s) (auto simp: escapeText_Cons hasPrefix_Cons escapeByte_def)

lemma escapeText_block: "\<not> hasPrefix (escapeText s) ''${''"
  by (cases s) (auto simp: escapeText_Cons hasPrefix_Cons escapeByte_def escapeText_brace)

subsection \<open>Runes\<close>

lemma encodeRune_ascii: "r < 128 \<Longrightarrow> encodeRune r = [char_of r]"
  by (simp add: encodeRune_def encodeBytes_def validRune_def)

lemma encodeRune_high:
  assumes "validRune r" and "128 \<le> r"
  shows "list_all (\<lambda>c. 128 \<le> (of_char c :: nat)) (encodeRune r)"
proof -
  have "list_all (\<lambda>b. 128 \<le> b) (encodeBytes r)" using assms(2) by (simp add: encodeBytes_def)
  then have "list_all (\<lambda>b. 128 \<le> b) (map of_char (encodeRune r) :: nat list)" by (simp add: encodeRune_bytes assms(1))
  then show ?thesis by (simp add: list_all_iff)
qed

lemma rune_front:
  assumes "validRune r"
  shows "headRune (encodeRune r @ s) = r" "runeWidth (encodeRune r @ s) = length (encodeRune r)"
proof -
  have "length (encodeRune r) = length (encodeBytes r)" by (simp add: encodeRune_def assms)
  then show "headRune (encodeRune r @ s) = r" "runeWidth (encodeRune r @ s) = length (encodeRune r)"
    using decodeRune_encode [OF assms] by (simp_all add: headRune_def runeWidth_def encodeRune_bytes assms)
qed

lemma encodeRune_Cons: "\<exists>c u. encodeRune r = c # u"
  using encodeBytes_Cons [of "if validRune r then r else runeError"] by (auto simp: encodeRune_def)

text \<open>How the parser takes one rune that nothing escapes.\<close>

lemma parse_rune:
  assumes "validRune r" and "r \<noteq> 0x5C" and "r \<noteq> 0x0D" and "r = 0x24 \<Longrightarrow> \<not> hasPrefix s ''{'' \<and> \<not> hasPrefix s ''${''"
  shows "parseTemplate lit (encodeRune r @ s) = parseTemplate (writeLiteral (encodeRune r) lit) s"
proof -
  obtain c u where cu: "encodeRune r = c # u" using encodeRune_Cons by blast
  have c: "c \<noteq> CHR 0x5C \<and> c \<noteq> CHR 0x0D \<and> (c = CHR ''$'' \<longrightarrow> r = 0x24 \<and> u = [])"
  proof (cases "r < 128")
    case True
    then have "c = char_of r" "u = []" using cu encodeRune_ascii by auto
    then have "r = of_char c" using True by simp
    with \<open>u = []\<close> assms(2,3) show ?thesis by auto
  next
    case False
    with encodeRune_high [OF assms(1)] cu show ?thesis by auto
  qed
  have "advanceNext (encodeRune r @ s) = s"
    unfolding advanceNext_def rune_front(2) [OF assms(1)] using c by (simp add: advanceSize_def cu)
  moreover have "\<not> hasPrefix (encodeRune r @ s) (CHR 0x5C # ''${'')" "\<not> hasPrefix (encodeRune r @ s) ''${''" "\<not> hasPrefix (encodeRune r @ s) ''$${''"
    using c assms(4) by (auto simp: cu hasPrefix_Cons)
  moreover have "encodeRune r \<noteq> []" "hd (encodeRune r @ s) \<noteq> CHR 0x5C" using c by (simp_all add: cu)
  ultimately show ?thesis by (subst parseTemplate.simps) (simp add: rune_front(1) [OF assms(1)])
qed

lemma parse_escape:
  assumes "c \<noteq> CHR ''$''" and "c \<noteq> CHR 0x0D"
  shows "parseTemplate lit (CHR 0x5C # c # s) = parseTemplate (writeLiteral (escapedText (CHR 0x5C # c # s)) lit) s"
  using assms by (subst parseTemplate.simps) (simp add: hasPrefix_Cons advanceSize_def numeral_2_eq_2)

lemma writeLiteral_twice: "writeLiteral t (writeLiteral s lit) = writeLiteral (s @ t) lit"
  by (cases lit) (simp_all add: writeLiteral_def)

lemma encodeRune_consts: "encodeRune 0x5C = [CHR 0x5C]" "encodeRune 0x0D = [CHR 0x0D]" "encodeRune 0x24 = ''$''" "encodeRune 0x7B = ''{''"
  by (simp_all add: encodeRune_ascii char_of_eq_iff)

lemma encodeRunes_Cons: "encodeRunes (r # rs) = encodeRune r @ encodeRunes rs"
  by (simp add: encodeRunes_def)

lemma starts_with_brace:
  assumes "list_all validRune rs" and "hasPrefix (encodeRunes rs) ''{''"
  shows "\<exists>us. rs = 0x7B # us"
proof (cases rs)
  case Nil
  with assms(2) show ?thesis by (simp add: encodeRunes_def)
next
  case (Cons q us)
  obtain c u where cu: "encodeRune q = c # u" using encodeRune_Cons by blast
  with assms(2) Cons have c: "c = CHR ''{''" by (simp add: encodeRunes_Cons hasPrefix_Cons)
  have "q < 128" using encodeRune_high [of q] assms(1) Cons cu c by fastforce
  then have "c = char_of q" using cu encodeRune_ascii by simp
  then have "q = of_char c" using \<open>q < 128\<close> by simp
  with c Cons show ?thesis by simp
qed

lemma escape_plain:
  assumes "validRune r" and "r \<noteq> 0x5C" and "r \<noteq> 0x0D" and "r = 0x24 \<longrightarrow> \<not> hasPrefix t ''{''"
  shows "escapeText (encodeRune r @ t) = encodeRune r @ escapeText t"
proof (cases "r < 128")
  case True
  then obtain c where c: "encodeRune r = [c]" "r = of_char c"
    using encodeRune_ascii by (intro that [of "char_of r"]) simp_all
  then have "c \<noteq> CHR 0x5C" "c \<noteq> CHR 0x0D" "c = CHR ''$'' \<longrightarrow> r = 0x24" using assms(2,3) by auto
  with c(1) assms(4) show ?thesis by (auto simp: escapeText_Cons escapeByte_def)
next
  case False
  with encodeRune_high [OF assms(1)] show ?thesis by (intro escapeText_high) simp
qed

text \<open>The parser reads the escaped text back as one literal.\<close>

lemma parse_escapeText:
  "list_all validRune rs \<Longrightarrow>
   parseTemplate lit (escapeText (encodeRunes rs)) = Inr (flushLiteral (if rs = [] then lit else writeLiteral (encodeRunes rs) lit))"
proof (induction rs arbitrary: lit rule: length_induct)
  case (1 rs)
  show ?case
  proof (cases rs)
    case Nil
    then show ?thesis by (simp add: encodeRunes_def parseTemplate.simps)
  next
    case (Cons r rs')
    let ?t = "encodeRunes rs'"
    have s: "encodeRunes rs = encodeRune r @ ?t" using Cons by (simp add: encodeRunes_Cons)
    have valid: "validRune r" "list_all validRune rs'" using 1(2) Cons by simp_all
    have rest: "parseTemplate (writeLiteral u lit) (escapeText (encodeRunes us)) = Inr (flushLiteral (writeLiteral (u @ encodeRunes us) lit))"
      if less: "length us < length rs" "list_all validRune us" for u us
    proof -
      have "parseTemplate (writeLiteral u lit) (escapeText (encodeRunes us)) =
          Inr (flushLiteral (if us = [] then writeLiteral u lit else writeLiteral (encodeRunes us) (writeLiteral u lit)))"
        using 1(1) less by blast
      then show ?thesis by (cases us) (simp_all add: writeLiteral_twice encodeRunes_def)
    qed
    consider (block) us where "r = 0x24" "rs' = 0x7B # us" | (slash) "r = 0x5C" | (cr) "r = 0x0D"
      | (plain) "r \<noteq> 0x5C" "r \<noteq> 0x0D" "r = 0x24 \<longrightarrow> \<not> hasPrefix ?t ''{''"
      using starts_with_brace [OF valid(2)] by blast
    then show ?thesis
    proof cases
      case block
      then have "escapeText (encodeRunes rs) = CHR 0x5C # ''${'' @ escapeText (encodeRunes us)"
        using s by (simp add: encodeRunes_Cons encodeRune_consts)
      moreover have "parseTemplate lit (CHR 0x5C # ''${'' @ escapeText (encodeRunes us)) =
          parseTemplate (writeLiteral ''${'' lit) (escapeText (encodeRunes us))"
        by (subst parseTemplate.simps) (simp add: hasPrefix_Cons advanceSize_def numeral_3_eq_3)
      moreover have "encodeRunes rs = ''${'' @ encodeRunes us" using block s by (simp add: encodeRunes_Cons encodeRune_consts)
      ultimately show ?thesis using rest [of us "''${''"] block Cons valid by simp
    next
      case slash
      then have "escapeText (encodeRunes rs) = CHR 0x5C # CHR 0x5C # escapeText ?t"
        using s by (simp add: encodeRune_consts escapeText_Cons escapeByte_def)
      then show ?thesis using rest [of rs' "[CHR 0x5C]"] slash s Cons valid
        by (simp add: parse_escape escapedText_def encodeRune_consts)
    next
      case cr
      then have "escapeText (encodeRunes rs) = CHR 0x5C # CHR ''r'' # escapeText ?t"
        using s by (simp add: encodeRune_consts escapeText_Cons escapeByte_def)
      then show ?thesis using rest [of rs' "[CHR 0x0D]"] cr s Cons valid
        by (simp add: parse_escape escapedText_def encodeRune_consts)
    next
      case plain
      have "parseTemplate lit (encodeRune r @ escapeText ?t) = parseTemplate (writeLiteral (encodeRune r) lit) (escapeText ?t)"
        using plain by (intro parse_rune [OF valid(1)]) (simp_all add: escapeText_brace escapeText_block)
      then show ?thesis using rest [of rs' "encodeRune r"] escape_plain [OF valid(1) plain] s Cons valid by simp
    qed
  qed
qed

text \<open>
  C28. Any valid text can be put into a template: with backslashes doubled, carriage returns written as \<^verbatim>\<open>\r\<close> and every
  \<^verbatim>\<open>${\<close> preceded by a backslash, interpolation gives back exactly that text, in any scope.
\<close>

theorem escaped_text_interpolates_to_itself:
  assumes "validString s"
  shows "Interpolate L G (escapeText s) sc st = (Inr s, st)"
proof -
  have "gisParse (escapeText s) = Inr (flushLiteral (if runes s = [] then None else writeLiteral s None))"
    using parse_escapeText [of "runes s" None] encodeRunes_runes [OF assms] by (simp add: gisParse_def)
  moreover have "s = []" if "runes s = []" using encodeRunes_runes [OF assms] that by (simp add: encodeRunes_def)
  ultimately show ?thesis
    by (cases "runes s = []") (simp_all add: Interpolate_def InterpolateTemplate_def flushLiteral_def writeLiteral_def)
qed

theorem escaped_text_interpolates_to_itself_witness:
  "Interpolate sampleLib (\<lambda>_. '''') (CHR 0x5C # ''${x}'') None sampleState = (Inr ''${x}'', sampleState)"
  using escaped_text_interpolates_to_itself [of "''${x}''" sampleLib "\<lambda>_. ''''" None sampleState]
  by (simp add: escapeByte_def validString_def runeError_def)

subsection \<open>Text that is not preserved\<close>

lemmas parse_steps = parseTemplate.simps hasPrefix_def advanceNext_def advanceSize_def headRune_def runeWidth_def
  encodeRune_def validRune_def encodeBytes_def writeLiteral_def flushLiteral_def char_of_eq_iff

lemma crlf_parse: "gisParse [CHR ''a'', CHR 0x0D, CHR 0x0A, CHR ''b''] = Inr [TextSegment [CHR ''a'', CHR 0x0D, CHR ''b'']]"
  by (simp add: gisParse_def parse_steps)

lemma accent_parse: "gisParse [CHR 0x5C, CHR 0xC3, CHR 0xA9] = Inr [TextSegment [CHR 0x5C, CHR 0xC3, CHR 0xEF, CHR 0xBF, CHR 0xBD]]"
  by (simp add: gisParse_def parse_steps escapedText_def runeError_def numeral_2_eq_2)


end
