(* ===== verification/Gcp.thy ===== *)
theory Gcp
  imports Gdp
begin

section \<open>Capture paths\<close>

text \<open>
  \<^verbatim>\<open>runtime/pkg/gcp/parser/parser.go\<close>: the parser of capture paths, such as \<^verbatim>\<open>step.build.json.items[0].name\<close>. Its state is what is
  left of the source; every character it accepts is one ASCII byte, so that it need not decode runes. Spans are left out.
\<close>

subsection \<open>Sources\<close>

datatype sourceKind = SourceLocal | SourceStep | SourceHTTP | SourceEvent | SourceOutputs

record source =
  so_Kind :: sourceKind
  so_Name :: string
  so_StepID :: string
  so_Field :: string
  so_Header :: string

text \<open>A path with its source; the dialect is \<^verbatim>\<open>DialectGCP\<close> and there is no root.\<close>

record capture =
  cp_Source :: source
  cp_Segments :: "segment list"

definition gdpPath :: "segment list \<Rightarrow> path" where
  "gdpPath segs = \<lparr>pt_Dialect = DialectGCP, pt_Root = '''', pt_Segments = segs\<rparr>"

subsection \<open>Words\<close>

definition gcpIdentStart :: "char \<Rightarrow> bool" where
  "gcpIdentStart c = (let r = (of_char c :: nat) in 97 \<le> r \<and> r \<le> 122 \<or> 65 \<le> r \<and> r \<le> 90 \<or> r = 95)"

definition gcpIdentCont :: "char \<Rightarrow> bool" where
  "gcpIdentCont c = (gcpIdentStart c \<or> isDigit c)"

definition identChar :: "bool \<Rightarrow> char \<Rightarrow> bool" where
  "identChar allowHyphen c = (gcpIdentCont c \<or> allowHyphen \<and> c = CHR ''-'')"

definition gcpDot :: "string \<Rightarrow> gerror + string" where
  "gcpDot s =
     (if s = [] \<or> hd s \<noteq> CHR ''.'' then Inl (Code ''GCP-PARSE-004'')
      else if tl s = [] \<or> hd (tl s) = CHR ''.'' then Inl (Code ''GCP-PARSE-004'')
      else Inr (tl s))"

definition gcpIdent :: "bool \<Rightarrow> string \<Rightarrow> gerror + string \<times> string" where
  "gcpIdent allowHyphen s =
     (if s = [] \<or> \<not> gcpIdentStart (hd s) then Inl (Code ''GCP-PARSE-001'')
      else Inr (takeWhile (identChar allowHyphen) s, dropWhile (identChar allowHyphen) s))"

definition gcpHeaderName :: "string \<Rightarrow> gerror + string \<times> string" where
  "gcpHeaderName s =
     (case gcpIdent True s of
        Inl e \<Rightarrow> Inl (Code ''GCP-PARSE-005'')
      | Inr (name, rest) \<Rightarrow>
          if containsSub name ''--'' \<or> hasSuffix name ''-'' then Inl (Code ''GCP-PARSE-005'')
          else if rest \<noteq> [] \<and> hd rest \<in> set [CHR '':'', CHR '','', CHR '' '', CHR 0x09] then Inl (Code ''GCP-PARSE-005'')
          else Inr (name, rest))"

text \<open>\<^verbatim>\<open>strings.ToLower\<close> on a header name, which is ASCII.\<close>

definition lowerByte :: "char \<Rightarrow> char" where
  "lowerByte c = (let r = (of_char c :: nat) in if 65 \<le> r \<and> r \<le> 90 then char_of (r + 32) else c)"

subsection \<open>Segments\<close>

definition gcpIndex :: "string \<Rightarrow> gerror + segment \<times> string" where
  "gcpIndex s =
     (let t = tl s; digits = takeWhile isDigit t; rest = dropWhile isDigit t in
      if t = [] then Inl (Code ''GCP-PARSE-001'')
      else if hd t = CHR ''-'' then Inl (Code ''GCP-PARSE-003'')
      else if digits = '''' then Inl (Code ''GCP-PARSE-001'')
      else if rest = [] \<or> hd rest \<noteq> CHR '']'' then Inl (Code ''GCP-PARSE-001'')
      else case parseInt64 digits of
        None \<Rightarrow> Inl (Code ''GCP-PARSE-001'')
      | Some i \<Rightarrow> Inr (\<lparr>sg_Hop = HopIndex i, sg_Optional = False\<rparr>, tl rest))"

lemma gcpIdent_shorter: "gcpIdent h s = Inr (n, rest) \<Longrightarrow> length rest < length s"
  by (cases s) (auto simp: gcpIdent_def identChar_def gcpIdentCont_def split: if_splits intro: le_imp_less_Suc length_dropWhile_le)

lemma gcpIndex_shorter: "s \<noteq> [] \<Longrightarrow> gcpIndex s = Inr (sg, rest) \<Longrightarrow> length rest < length s"
  using length_dropWhile_le [of isDigit "tl s"]
  by (cases s) (auto simp: gcpIndex_def Let_def split: if_splits option.splits)

function gdpSuffix :: "string \<Rightarrow> gerror + segment list" where
  "gdpSuffix s =
     (if s = [] then Inr []
      else if hd s = CHR ''.'' then
        (if tl s = [] \<or> hd (tl s) = CHR ''.'' then Inl (Code ''GCP-PARSE-004'')
         else case gcpIdent False (tl s) of
           Inl e \<Rightarrow> Inl e
         | Inr (name, rest) \<Rightarrow> andThen (gdpSuffix rest) (\<lambda>segs. Inr (\<lparr>sg_Hop = HopName name, sg_Optional = False\<rparr> # segs)))
      else if hd s = CHR ''['' then
        (case gcpIndex s of
           Inl e \<Rightarrow> Inl e
         | Inr (seg, rest) \<Rightarrow> andThen (gdpSuffix rest) (\<lambda>segs. Inr (seg # segs)))
      else Inl (Code ''GCP-PARSE-001''))"
  by pat_completeness auto
termination
proof (relation "measure length", goal_cases)
  case (2 s x name rest)
  then show ?case using gcpIdent_shorter [of False "tl s" name rest] by (cases s) auto
next
  case (3 s x seg rest)
  then show ?case using gcpIndex_shorter [of s seg rest] by simp
qed simp

declare gdpSuffix.simps [simp del]

subsection \<open>Paths\<close>

definition newSource :: "sourceKind \<Rightarrow> string \<Rightarrow> string \<Rightarrow> source" where
  "newSource kind name field = \<lparr>so_Kind = kind, so_Name = name, so_StepID = '''', so_Field = field, so_Header = ''''\<rparr>"

definition withSource :: "source \<Rightarrow> segment list \<Rightarrow> capture" where
  "withSource src segs = \<lparr>cp_Source = src, cp_Segments = segs\<rparr>"

text \<open>Outputs that are read as text or as a document.\<close>

definition structuredField :: "string \<Rightarrow> bool" where
  "structuredField f = (f \<in> set [''stdout'', ''stderr'', ''json'', ''yaml''])"

definition gcpStep :: "string \<Rightarrow> gerror + capture" where
  "gcpStep s =
     andThen (gcpDot s) (\<lambda>s.
     andThen (gcpIdent False s) (\<lambda>(stepID, s).
     andThen (gcpDot s) (\<lambda>s.
     andThen (gcpIdent False s) (\<lambda>(field, s).
       let src = (newSource SourceStep field field)\<lparr>so_StepID := stepID\<rparr> in
       if field = ''exit_code'' then (if s \<noteq> [] then Inl (Code ''GCP-PARSE-002'') else Inr (withSource src []))
       else if structuredField field then andThen (gdpSuffix s) (\<lambda>segs. Inr (withSource src segs))
       else Inl (Code ''GCP-PARSE-001'')))))"

text \<open>\<^verbatim>\<open>http\<close> and \<^verbatim>\<open>event\<close> differ in their names and in the field that takes no suffix.\<close>

definition gcpHeaders :: "sourceKind \<Rightarrow> string \<Rightarrow> string \<Rightarrow> gerror + capture" where
  "gcpHeaders kind name s =
     andThen (gcpDot s) (\<lambda>s.
     andThen (gcpHeaderName s) (\<lambda>(header, s).
       if s \<noteq> [] then Inl (Code ''GCP-PARSE-002'')
       else Inr (withSource ((newSource kind name ''headers'')\<lparr>so_Header := map lowerByte header\<rparr>) [])))"

definition gcpHTTP :: "string \<Rightarrow> gerror + capture" where
  "gcpHTTP s =
     andThen (gcpDot s) (\<lambda>s.
     andThen (gcpIdent False s) (\<lambda>(field, s).
       if field = ''status'' then
         (if s \<noteq> [] then Inl (Code ''GCP-PARSE-002'') else Inr (withSource (newSource SourceHTTP ''http'' field) []))
       else if field = ''body'' then andThen (gdpSuffix s) (\<lambda>segs. Inr (withSource (newSource SourceHTTP ''http'' field) segs))
       else if field = ''headers'' then gcpHeaders SourceHTTP ''http'' s
       else Inl (Code ''GCP-PARSE-001'')))"

definition gcpEvent :: "string \<Rightarrow> gerror + capture" where
  "gcpEvent s =
     andThen (gcpDot s) (\<lambda>s.
     andThen (gcpIdent False s) (\<lambda>(field, s).
       if field = ''id'' then
         (if s \<noteq> [] then Inl (Code ''GCP-PARSE-002'') else Inr (withSource (newSource SourceEvent ''event'' field) []))
       else if field = ''body'' then andThen (gdpSuffix s) (\<lambda>segs. Inr (withSource (newSource SourceEvent ''event'' field) segs))
       else if field = ''headers'' then gcpHeaders SourceEvent ''event'' s
       else Inl (Code ''GCP-PARSE-001'')))"

definition gcpOutputs :: "string \<Rightarrow> gerror + capture" where
  "gcpOutputs s =
     (if s = [] then Inr (withSource (newSource SourceOutputs ''outputs'' '''') [])
      else
        andThen (gcpDot s) (\<lambda>s.
        andThen (gcpIdent False s) (\<lambda>(name, s).
        andThen (gdpSuffix s) (\<lambda>segs. Inr (withSource (newSource SourceOutputs ''outputs'' name) segs)))))"

text \<open>
  \<^verbatim>\<open>Parse\<close>: every form below either consumes the whole source or fails, so nothing is left for its last check.
\<close>

definition capturePath :: "string \<Rightarrow> gerror + capture" where
  "capturePath s =
     andThen (gcpIdent False s) (\<lambda>(first, s).
       if first = ''step'' then gcpStep s
       else if first = ''http'' then gcpHTTP s
       else if first = ''event'' then gcpEvent s
       else if first = ''exit_code'' then
         (if s \<noteq> [] then Inl (Code ''GCP-PARSE-002'') else Inr (withSource (newSource SourceLocal first first) []))
       else if structuredField first then andThen (gdpSuffix s) (\<lambda>segs. Inr (withSource (newSource SourceLocal first first) segs))
       else if first = ''outputs'' then gcpOutputs s
       else Inl (Code ''GCP-PARSE-001''))"

definition gcpParse :: "string \<Rightarrow> gerror + capture" where
  "gcpParse src = capturePath src"

definition gcpValidate :: "string \<Rightarrow> gerror + unit" where
  "gcpValidate src = andThen (gcpParse src) (\<lambda>_. Inr ())"

end
