(* ===== verification/Go_Decimal.thy ===== *)
theory Go_Decimal
  imports Prelude
begin

section \<open>Decimal numerals\<close>

text \<open>The digits that \<^verbatim>\<open>strconv.Itoa\<close> writes are the numeral of the number and \<^verbatim>\<open>strconv.ParseInt\<close> reads them back.\<close>

lemma path_digit_char: "(d::nat) < 10 \<Longrightarrow> isDigit (char_of (48 + d)) \<and> digitVal (char_of (48 + d)) = d"
proof -
  assume d: "d < 10"
  then have "d = 0 \<or> d = 1 \<or> d = 2 \<or> d = 3 \<or> d = 4 \<or> d = 5 \<or> d = 6 \<or> d = 7 \<or> d = 8 \<or> d = 9" by presburger
  then have "isDigit (char_of (48 + d))" by (elim disjE) (simp_all add: isDigit_def char_of_eq_iff)
  with d show ?thesis by (simp add: digitVal_def)
qed

lemma decVal_append: "decVal a (s @ t) = decVal (decVal a s) t"
  by (induction s arbitrary: a) simp_all

lemma natDigits_decimal: "natDigits n \<noteq> [] \<and> list_all isDigit (natDigits n) \<and> decVal 0 (natDigits n) = n"
proof (induction n rule: natDigits.induct)
  case (1 n)
  show ?case
  proof (cases "n < 10")
    case True
    with path_digit_char [of n] show ?thesis by (simp add: natDigits.simps [of n])
  next
    case False
    have "decVal 0 (natDigits n) = n" using 1 False path_digit_char [of "n mod 10"]
      by (simp add: natDigits.simps [of n] decVal_append)
    with 1 False path_digit_char [of "n mod 10"] show ?thesis by (simp add: natDigits.simps [of n])
  qed
qed

lemma parseInt64_natDigits: "n < 2 ^ 63 \<Longrightarrow> parseInt64 (natDigits n) = Some (int n)"
proof -
  assume n: "n < 2 ^ 63"
  note d = natDigits_decimal [of n]
  then have "isDigit (hd (natDigits n))" by (cases "natDigits n") auto
  then have "\<not> hasPrefix (natDigits n) ''-''" "\<not> hasPrefix (natDigits n) ''+''"
    using d by (cases "natDigits n"; auto simp: hasPrefix_def isDigit_def)+
  with d n show ?thesis by (simp add: parseInt64_def in_i64_def)
qed

lemma natDigits_inject: "natDigits n = natDigits m \<longleftrightarrow> n = m"
  by (metis natDigits_decimal)

end
