(* ===== verification/Gcp_Roundtrip.thy ===== *)
theory Gcp_Roundtrip
  imports Gcp Go_Decimal
begin

section \<open>Writing capture paths\<close>

text \<open>A capture path can be written back, and the parser reads what is written as the same path.\<close>

subsection \<open>Printing\<close>

fun printHop :: "hop \<Rightarrow> string" where
  "printHop (HopName n) = CHR ''.'' # n"
| "printHop (HopIndex i) = CHR ''['' # natDigits (nat i) @ '']''"

definition printSegments :: "segment list \<Rightarrow> string" where
  "printSegments segs = concat (map (\<lambda>sg. printHop (sg_Hop sg)) segs)"

definition printSource :: "source \<Rightarrow> string" where
  "printSource src =
     (case so_Kind src of
        SourceLocal \<Rightarrow> so_Field src
      | SourceStep \<Rightarrow> ''step.'' @ so_StepID src @ ''.'' @ so_Field src
      | SourceOutputs \<Rightarrow> (if so_Field src = '''' then ''outputs'' else ''outputs.'' @ so_Field src)
      | _ \<Rightarrow> so_Name src @ ''.'' @ so_Field src @ (if so_Field src = ''headers'' then ''.'' @ so_Header src else ''''))"

definition printCapture :: "capture \<Rightarrow> string" where
  "printCapture cp = printSource (cp_Source cp) @ printSegments (cp_Segments cp)"

subsection \<open>Well-formed paths\<close>

definition wfIdent :: "string \<Rightarrow> bool" where
  "wfIdent s = (s \<noteq> [] \<and> gcpIdentStart (hd s) \<and> list_all gcpIdentCont s)"

definition wfHeader :: "string \<Rightarrow> bool" where
  "wfHeader s = (s \<noteq> [] \<and> gcpIdentStart (hd s) \<and> list_all (identChar True) s \<and> \<not> containsSub s ''--'' \<and> \<not> hasSuffix s ''-'' \<and>
     map lowerByte s = s)"

definition wfSegment :: "segment \<Rightarrow> bool" where
  "wfSegment sg = (\<not> sg_Optional sg \<and> (case sg_Hop sg of HopName n \<Rightarrow> wfIdent n | HopIndex i \<Rightarrow> 0 \<le> i \<and> i < 2 ^ 63))"

text \<open>The envelopes \<^verbatim>\<open>http\<close> and \<^verbatim>\<open>event\<close>: \<open>plain\<close> is the field that takes no suffix.\<close>

definition wfEnvelope :: "string \<Rightarrow> string \<Rightarrow> source \<Rightarrow> segment list \<Rightarrow> bool" where
  "wfEnvelope name plain src segs =
     (so_Name src = name \<and> so_StepID src = '''' \<and>
      (so_Field src = plain \<and> segs = [] \<and> so_Header src = '''' \<or> so_Field src = ''body'' \<and> so_Header src = '''' \<or>
       so_Field src = ''headers'' \<and> segs = [] \<and> wfHeader (so_Header src)))"

definition wfOutput :: "source \<Rightarrow> segment list \<Rightarrow> bool" where
  "wfOutput src segs =
     (so_Name src = so_Field src \<and> so_Header src = '''' \<and> (structuredField (so_Field src) \<or> so_Field src = ''exit_code'' \<and> segs = []))"

definition wfCapture :: "capture \<Rightarrow> bool" where
  "wfCapture cp =
     (let src = cp_Source cp; segs = cp_Segments cp in
      list_all wfSegment segs \<and>
      (case so_Kind src of
         SourceLocal \<Rightarrow> so_StepID src = '''' \<and> wfOutput src segs
       | SourceStep \<Rightarrow> wfIdent (so_StepID src) \<and> wfOutput src segs
       | SourceHTTP \<Rightarrow> wfEnvelope ''http'' ''status'' src segs
       | SourceEvent \<Rightarrow> wfEnvelope ''event'' ''id'' src segs
       | SourceOutputs \<Rightarrow> so_Name src = ''outputs'' \<and> so_StepID src = '''' \<and> so_Header src = '''' \<and>
           (so_Field src = '''' \<and> segs = [] \<or> wfIdent (so_Field src))))"

subsection \<open>Reading words and segments back\<close>

lemma words_stop:
  assumes "list_all P w" and "rest = [] \<or> \<not> P (hd rest)"
  shows "takeWhile P (w @ rest) = w \<and> dropWhile P (w @ rest) = rest"
proof -
  have "takeWhile P rest = []" "dropWhile P rest = rest" using assms(2) by (cases rest; simp)+
  with assms(1) show ?thesis by (simp add: list_all_iff takeWhile_append2 dropWhile_append2)
qed

lemma gcpIdent_print:
  assumes "wfIdent w" and "rest = [] \<or> \<not> gcpIdentCont (hd rest)"
  shows "gcpIdent False (w @ rest) = Inr (w, rest)"
proof -
  have "list_all (identChar False) w" "rest = [] \<or> \<not> identChar False (hd rest)"
    using assms by (auto simp: wfIdent_def identChar_def list_all_iff)
  from words_stop [OF this] assms(1) show ?thesis by (simp add: gcpIdent_def wfIdent_def)
qed

lemma not_ident: "\<not> gcpIdentCont (CHR ''.'')" "\<not> gcpIdentCont (CHR ''['')" "\<not> gcpIdentStart (CHR ''.'')" "\<not> gcpIdentStart (CHR ''['')"
  by (simp_all add: gcpIdentCont_def gcpIdentStart_def isDigit_def)

lemma printSegments_front: "printSegments segs = [] \<or> hd (printSegments segs) \<in> {CHR ''.'', CHR ''[''}"
proof (cases segs)
  case (Cons sg segs')
  then show ?thesis by (cases "sg_Hop sg") (simp_all add: printSegments_def)
qed (simp add: printSegments_def)

lemma segments_stop: "printSegments segs = [] \<or> \<not> gcpIdentCont (hd (printSegments segs))"
  using printSegments_front [of segs] not_ident by auto

lemma gcpIndex_print:
  assumes "n < 2 ^ 63"
  shows "gcpIndex (CHR ''['' # natDigits n @ CHR '']'' # rest) = Inr (\<lparr>sg_Hop = HopIndex (int n), sg_Optional = False\<rparr>, rest)"
proof -
  note d = natDigits_decimal [of n]
  have "\<not> isDigit (CHR '']'')" by (simp add: isDigit_def)
  then have w: "takeWhile isDigit (natDigits n @ CHR '']'' # rest) = natDigits n" "dropWhile isDigit (natDigits n @ CHR '']'' # rest) = CHR '']'' # rest"
    using words_stop [of isDigit "natDigits n" "CHR '']'' # rest"] d by simp_all
  obtain c u where cu: "natDigits n = c # u" using d by (cases "natDigits n") auto
  with d have "c \<noteq> CHR ''-''" by (auto simp: isDigit_def)
  with w cu parseInt64_natDigits [OF assms] show ?thesis by (simp add: gcpIndex_def)
qed

lemma gdpSuffix_print: "list_all wfSegment segs \<Longrightarrow> gdpSuffix (printSegments segs) = Inr segs"
proof (induction segs)
  case Nil
  then show ?case by (simp add: printSegments_def gdpSuffix.simps)
next
  case (Cons sg segs)
  have p: "printSegments (sg # segs) = printHop (sg_Hop sg) @ printSegments segs" by (simp add: printSegments_def)
  show ?case
  proof (cases "sg_Hop sg")
    case (HopName n)
    then have n: "wfIdent n" and sg: "\<lparr>sg_Hop = HopName n, sg_Optional = False\<rparr> = sg" using Cons.prems by (simp_all add: wfSegment_def)
    then obtain c u where cu: "n = c # u" "c \<noteq> CHR ''.''" using not_ident by (cases n) (auto simp: wfIdent_def)
    have "gdpSuffix (CHR ''.'' # n @ printSegments segs) = andThen (gdpSuffix (printSegments segs)) (\<lambda>segs. Inr (sg # segs))"
      using gcpIdent_print [OF n segments_stop [of segs]] cu sg by (subst gdpSuffix.simps) simp
    with Cons p HopName show ?thesis by simp
  next
    case (HopIndex i)
    then have i: "nat i < 2 ^ 63" "int (nat i) = i" and sg: "\<lparr>sg_Hop = HopIndex i, sg_Optional = False\<rparr> = sg"
      using Cons.prems by (simp_all add: wfSegment_def nat_less_iff)
    have "gdpSuffix (CHR ''['' # natDigits (nat i) @ CHR '']'' # printSegments segs) =
        andThen (gdpSuffix (printSegments segs)) (\<lambda>segs. Inr (sg # segs))"
      using gcpIndex_print [OF i(1), of "printSegments segs"] i(2) sg by (subst gdpSuffix.simps) simp
    with Cons p HopIndex show ?thesis by simp
  qed
qed

subsection \<open>Reading paths back\<close>

lemma dot_ident:
  assumes "wfIdent w"
  shows "gcpDot (CHR ''.'' # w @ rest) = Inr (w @ rest)"
  using assms not_ident by (cases w) (auto simp: gcpDot_def wfIdent_def)

lemma gcpHeaders_print:
  assumes "wfHeader h"
  shows "gcpHeaders kind name (CHR ''.'' # h) = Inr (withSource ((newSource kind name ''headers'')\<lparr>so_Header := h\<rparr>) [])"
proof -
  have h: "list_all (identChar True) h" "h \<noteq> []" "gcpIdentStart (hd h)" using assms by (simp_all add: wfHeader_def)
  have "gcpDot (CHR ''.'' # h) = Inr h" using h not_ident by (cases h) (auto simp: gcpDot_def)
  moreover have "gcpIdent True h = Inr (h, [])" using words_stop [OF h(1), of "[]"] h by (simp add: gcpIdent_def)
  ultimately show ?thesis using assms by (simp add: gcpHeaders_def gcpHeaderName_def wfHeader_def)
qed

lemma wfIdent_words:
  "wfIdent ''step''" "wfIdent ''http''" "wfIdent ''event''" "wfIdent ''exit_code''" "wfIdent ''outputs''" "wfIdent ''status''" "wfIdent ''id''"
  "wfIdent ''body''" "wfIdent ''headers''" "structuredField f \<Longrightarrow> wfIdent f"
  by (auto simp: wfIdent_def gcpIdentCont_def gcpIdentStart_def structuredField_def)

lemma first_word:
  assumes "wfIdent w" and "rest = [] \<or> \<not> gcpIdentCont (hd rest)"
  shows "capturePath (w @ rest) =
    (if w = ''step'' then gcpStep rest else if w = ''http'' then gcpHTTP rest else if w = ''event'' then gcpEvent rest
     else if w = ''exit_code'' then (if rest \<noteq> [] then Inl (Code ''GCP-PARSE-002'') else Inr (withSource (newSource SourceLocal w w) []))
     else if structuredField w then andThen (gdpSuffix rest) (\<lambda>segs. Inr (withSource (newSource SourceLocal w w) segs))
     else if w = ''outputs'' then gcpOutputs rest else Inl (Code ''GCP-PARSE-001''))"
  using gcpIdent_print [OF assms] by (simp add: capturePath_def)

lemma source_eta: "\<lparr>so_Kind = so_Kind src, so_Name = so_Name src, so_StepID = so_StepID src, so_Field = so_Field src, so_Header = so_Header src\<rparr> = src"
  by simp

lemma capture_eta: "\<lparr>cp_Source = cp_Source cp, cp_Segments = cp_Segments cp\<rparr> = cp"
  by simp

lemma print_local:
  assumes "wfOutput src segs" and "list_all wfSegment segs" and "so_Kind src = SourceLocal" and "so_StepID src = ''''"
  shows "capturePath (so_Field src @ printSegments segs) = Inr (withSource src segs)"
proof -
  have src: "newSource SourceLocal (so_Field src) (so_Field src) = src"
    using assms source_eta [of src] by (simp add: newSource_def wfOutput_def)
  have "wfIdent (so_Field src)" using assms(1) wfIdent_words by (auto simp: wfOutput_def)
  from first_word [OF this segments_stop [of segs]] show ?thesis
    using assms src gdpSuffix_print [OF assms(2)] by (auto simp: wfOutput_def structuredField_def printSegments_def)
qed

lemma print_step:
  assumes "wfOutput src segs" and "list_all wfSegment segs" and "so_Kind src = SourceStep" and "wfIdent (so_StepID src)"
  shows "capturePath (''step.'' @ so_StepID src @ ''.'' @ so_Field src @ printSegments segs) = Inr (withSource src segs)"
proof -
  have src: "(newSource SourceStep (so_Field src) (so_Field src))\<lparr>so_StepID := so_StepID src\<rparr> = src"
    using assms source_eta [of src] by (simp add: newSource_def wfOutput_def)
  have field: "wfIdent (so_Field src)" using assms(1) wfIdent_words by (auto simp: wfOutput_def)
  have "capturePath (''step'' @ ''.'' @ so_StepID src @ ''.'' @ so_Field src @ printSegments segs) =
      gcpStep (''.'' @ so_StepID src @ ''.'' @ so_Field src @ printSegments segs)"
    using first_word [OF wfIdent_words(1)] not_ident by simp
  also have "\<dots> = Inr (withSource src segs)"
    using assms src gdpSuffix_print [OF assms(2)] dot_ident [OF assms(4)] dot_ident [OF field]
      gcpIdent_print [OF assms(4), of "CHR ''.'' # so_Field src @ printSegments segs"] gcpIdent_print [OF field segments_stop [of segs]] not_ident
    by (auto simp: gcpStep_def wfOutput_def structuredField_def printSegments_def)
  finally show ?thesis by simp
qed

lemma envelope_cases:
  assumes "wfEnvelope name plain src segs" and "list_all wfSegment segs" and "wfIdent plain"
  shows "gcpIdent False (so_Field src @ (if so_Field src = ''headers'' then ''.'' @ so_Header src else '''') @ printSegments segs) =
    Inr (so_Field src, (if so_Field src = ''headers'' then ''.'' @ so_Header src else '''') @ printSegments segs)"
    and "wfIdent (so_Field src)"
proof -
  show field: "wfIdent (so_Field src)" using assms(1,3) wfIdent_words by (auto simp: wfEnvelope_def)
  show "gcpIdent False (so_Field src @ (if so_Field src = ''headers'' then ''.'' @ so_Header src else '''') @ printSegments segs) =
    Inr (so_Field src, (if so_Field src = ''headers'' then ''.'' @ so_Header src else '''') @ printSegments segs)"
    by (rule gcpIdent_print [OF field]) (use segments_stop [of segs] not_ident in auto)
qed

lemma source_eqI:
  assumes "so_Kind src = kind" and "so_Name src = name" and "so_StepID src = ''''" and "so_Field src = field"
  shows "(newSource kind name field)\<lparr>so_Header := so_Header src\<rparr> = src" "so_Header src = '''' \<Longrightarrow> newSource kind name field = src"
  using assms source_eta [of src] by (simp_all add: newSource_def)

lemma print_http:
  assumes "wfEnvelope ''http'' ''status'' src segs" and "list_all wfSegment segs" and "so_Kind src = SourceHTTP"
  shows "capturePath (''http.'' @ so_Field src @ (if so_Field src = ''headers'' then ''.'' @ so_Header src else '''') @ printSegments segs) =
    Inr (withSource src segs)"
proof -
  let ?t = "so_Field src @ (if so_Field src = ''headers'' then ''.'' @ so_Header src else '''') @ printSegments segs"
  note field = envelope_cases [OF assms(1,2) wfIdent_words(6)]
  have src: "so_Name src = ''http''" "so_StepID src = ''''" using assms(1) by (simp_all add: wfEnvelope_def)
  note eqs = source_eqI [OF assms(3) src refl]
  have "capturePath (''http'' @ ''.'' @ ?t) = gcpHTTP (''.'' @ ?t)"
    using first_word [OF wfIdent_words(2)] not_ident by simp
  also have "\<dots> = Inr (withSource src segs)"
    using assms(1) eqs gdpSuffix_print [OF assms(2)] dot_ident [OF field(2)] field(1) gcpHeaders_print [of "so_Header src" SourceHTTP "''http''"]
    by (auto simp: gcpHTTP_def wfEnvelope_def printSegments_def)
  finally show ?thesis by simp
qed

lemma print_event:
  assumes "wfEnvelope ''event'' ''id'' src segs" and "list_all wfSegment segs" and "so_Kind src = SourceEvent"
  shows "capturePath (''event.'' @ so_Field src @ (if so_Field src = ''headers'' then ''.'' @ so_Header src else '''') @ printSegments segs) =
    Inr (withSource src segs)"
proof -
  let ?t = "so_Field src @ (if so_Field src = ''headers'' then ''.'' @ so_Header src else '''') @ printSegments segs"
  note field = envelope_cases [OF assms(1,2) wfIdent_words(7)]
  have src: "so_Name src = ''event''" "so_StepID src = ''''" using assms(1) by (simp_all add: wfEnvelope_def)
  note eqs = source_eqI [OF assms(3) src refl]
  have "capturePath (''event'' @ ''.'' @ ?t) = gcpEvent (''.'' @ ?t)"
    using first_word [OF wfIdent_words(3)] not_ident by simp
  also have "\<dots> = Inr (withSource src segs)"
    using assms(1) eqs gdpSuffix_print [OF assms(2)] dot_ident [OF field(2)] field(1) gcpHeaders_print [of "so_Header src" SourceEvent "''event''"]
    by (auto simp: gcpEvent_def wfEnvelope_def printSegments_def)
  finally show ?thesis by simp
qed

lemma print_outputs:
  assumes "list_all wfSegment segs" and "so_Kind src = SourceOutputs" and "so_Name src = ''outputs''" and "so_StepID src = ''''"
    and "so_Header src = ''''" and "so_Field src = '''' \<and> segs = [] \<or> wfIdent (so_Field src)"
  shows "capturePath ((if so_Field src = '''' then ''outputs'' else ''outputs.'' @ so_Field src) @ printSegments segs) = Inr (withSource src segs)"
proof (cases "so_Field src = ''''")
  case True
  then have "segs = []" using assms(6) by (auto simp: wfIdent_def)
  with True source_eqI(2) [OF assms(2-4) True assms(5)] first_word [OF wfIdent_words(5), of "[]"] show ?thesis
    by (simp add: gcpOutputs_def printSegments_def structuredField_def)
next
  case False
  then have field: "wfIdent (so_Field src)" using assms(6) by simp
  have "capturePath (''outputs'' @ ''.'' @ so_Field src @ printSegments segs) = gcpOutputs (''.'' @ so_Field src @ printSegments segs)"
    using first_word [OF wfIdent_words(5)] not_ident by (simp add: structuredField_def)
  also have "\<dots> = Inr (withSource src segs)"
    using source_eqI(2) [OF assms(2-4) refl assms(5)] gdpSuffix_print [OF assms(1)] dot_ident [OF field] gcpIdent_print [OF field segments_stop [of segs]]
    by (simp add: gcpOutputs_def)
  finally show ?thesis using False by simp
qed

lemma parse_print:
  assumes "wfCapture cp"
  shows "gcpParse (printCapture cp) = Inr cp"
proof -
  have cp: "withSource (cp_Source cp) (cp_Segments cp) = cp" by (simp add: withSource_def)
  have segs: "list_all wfSegment (cp_Segments cp)" using assms by (simp add: wfCapture_def Let_def)
  show ?thesis
  proof (cases "so_Kind (cp_Source cp)")
    case SourceLocal
    with assms print_local [OF _ segs SourceLocal] cp show ?thesis
      by (simp add: wfCapture_def Let_def gcpParse_def printCapture_def printSource_def)
  next
    case SourceStep
    with assms print_step [OF _ segs SourceStep] cp show ?thesis
      by (simp add: wfCapture_def Let_def gcpParse_def printCapture_def printSource_def)
  next
    case SourceHTTP
    with assms print_http [OF _ segs SourceHTTP] cp show ?thesis
      by (auto simp: wfCapture_def Let_def gcpParse_def printCapture_def printSource_def wfEnvelope_def)
  next
    case SourceEvent
    with assms print_event [OF _ segs SourceEvent] cp show ?thesis
      by (auto simp: wfCapture_def Let_def gcpParse_def printCapture_def printSource_def wfEnvelope_def)
  next
    case SourceOutputs
    with assms print_outputs [OF segs SourceOutputs] cp show ?thesis
      by (simp add: wfCapture_def Let_def gcpParse_def printCapture_def printSource_def)
  qed
qed

subsection \<open>What the parser accepts is well-formed\<close>

lemma takeWhile_all: "list_all P (takeWhile P s)"
  by (auto simp: list_all_iff dest: set_takeWhileD)

lemma identChar_False: "identChar False = gcpIdentCont"
  by (rule ext) (simp add: identChar_def)

lemma gcpIdent_wf: "gcpIdent False s = Inr (w, rest) \<Longrightarrow> wfIdent w"
  using takeWhile_all [of gcpIdentCont s]
  by (cases s) (auto simp: gcpIdent_def wfIdent_def identChar_False gcpIdentCont_def split: if_splits)

lemma parseInt64_digits: "list_all isDigit ds \<Longrightarrow> parseInt64 ds = Some i \<Longrightarrow> 0 \<le> i \<and> i < 2 ^ 63"
  by (cases ds) (auto simp: parseInt64_def Let_def in_i64_def hasPrefix_def isDigit_def split: if_splits)

lemma gcpIndex_wf: "gcpIndex s = Inr (sg, rest) \<Longrightarrow> wfSegment sg"
proof -
  assume a: "gcpIndex s = Inr (sg, rest)"
  have "list_all isDigit (takeWhile isDigit (tl s))" by (auto simp: list_all_iff dest: set_takeWhileD)
  with a show ?thesis using parseInt64_digits
    by (fastforce simp: gcpIndex_def Let_def wfSegment_def split: if_splits option.splits)
qed

lemma gdpSuffix_wf: "gdpSuffix s = Inr segs \<Longrightarrow> list_all wfSegment segs"
proof (induction s arbitrary: segs rule: gdpSuffix.induct)
  case (1 s)
  consider "s = []" "segs = []"
    | name rest more where "s \<noteq> []" "hd s = CHR ''.''" "\<not> (tl s = [] \<or> hd (tl s) = CHR ''.'')" "gcpIdent False (tl s) = Inr (name, rest)"
        "gdpSuffix rest = Inr more" "segs = \<lparr>sg_Hop = HopName name, sg_Optional = False\<rparr> # more"
    | sg rest more where "s \<noteq> []" "hd s \<noteq> CHR ''.''" "hd s = CHR ''[''" "gcpIndex s = Inr (sg, rest)" "gdpSuffix rest = Inr more" "segs = sg # more"
    using 1(3) by (subst (asm) gdpSuffix.simps) (auto simp: andThen_Inr_conv split: if_split_asm sum.splits prod.splits)
  then show ?case
  proof cases
    case 2
    then show ?thesis using 1(1) [OF 2(1-3) 2(4) refl 2(5)] gcpIdent_wf [OF 2(4)] by (simp add: wfSegment_def)
  next
    case 3
    then show ?thesis using 1(2) [OF 3(1-3) 3(4) refl 3(5)] gcpIndex_wf [OF 3(4)] by simp
  qed simp
qed

lemma lowerByte_hyphen: "lowerByte c = CHR ''-'' \<longleftrightarrow> c = CHR ''-''"
proof -
  have "char_of (of_char c + 32 :: nat) \<noteq> CHR ''-''" if "65 \<le> (of_char c :: nat)" "(of_char c :: nat) \<le> 90"
    using that by (simp add: char_of_eq_iff take_bit_eq_mod)
  then show ?thesis by (auto simp: lowerByte_def Let_def)
qed

lemma lowerByte_idem: "lowerByte (lowerByte c) = lowerByte c"
  by (simp add: lowerByte_def Let_def)

lemma lowerByte_ident: "gcpIdentStart (lowerByte c) = gcpIdentStart c" "identChar True c \<Longrightarrow> identChar True (lowerByte c)"
  by (auto simp: lowerByte_def Let_def gcpIdentStart_def identChar_def gcpIdentCont_def)

lemma hasPrefix_lower: "hasPrefix (map lowerByte s) ''--'' = hasPrefix s ''--''"
  by (cases s; cases "tl s") (auto simp: hasPrefix_def lowerByte_hyphen)

lemma containsSub_lower: "containsSub (map lowerByte s) ''--'' = containsSub s ''--''"
proof (induction s)
  case (Cons c s)
  then show ?case using hasPrefix_lower [of "c # s"] by simp
qed simp

lemma hasSuffix_lower: "hasSuffix (map lowerByte s) ''-'' = hasSuffix s ''-''"
proof (cases s rule: rev_cases)
  case (snoc t c)
  then show ?thesis by (simp add: hasSuffix_def lowerByte_hyphen)
qed (simp add: hasSuffix_def)

lemma gcpHeaderName_wf:
  assumes "gcpHeaderName s = Inr (h, rest)"
  shows "wfHeader (map lowerByte h)"
proof -
  have id: "gcpIdent True s = Inr (h, rest)" and ok: "\<not> containsSub h ''--''" "\<not> hasSuffix h ''-''"
    using assms by (auto simp: gcpHeaderName_def split: sum.splits if_split_asm)
  have h: "h \<noteq> []" "gcpIdentStart (hd h)" "list_all (identChar True) h"
    using id by (cases s; auto simp: gcpIdent_def identChar_def gcpIdentCont_def list_all_iff split: if_splits dest: set_takeWhileD)+
  then show ?thesis using ok lowerByte_ident
    by (simp add: wfHeader_def containsSub_lower hasSuffix_lower hd_map list_all_iff lowerByte_idem comp_def)
qed

lemma gcpHeaders_wf:
  "gcpHeaders kind name s = Inr cp \<Longrightarrow>
   \<exists>h. cp = withSource ((newSource kind name ''headers'')\<lparr>so_Header := h\<rparr>) [] \<and> wfHeader h"
  using gcpHeaderName_wf by (fastforce simp: gcpHeaders_def andThen_Inr_conv split: if_splits)

lemma gcpStep_wf: "gcpStep s = Inr cp \<Longrightarrow> wfCapture cp"
  by (auto simp: gcpStep_def andThen_Inr_conv newSource_def withSource_def wfCapture_def wfOutput_def structuredField_def Let_def
      split: if_split_asm dest: gdpSuffix_wf gcpIdent_wf)

lemma gcpHTTP_wf: "gcpHTTP s = Inr cp \<Longrightarrow> wfCapture cp"
  by (auto simp: gcpHTTP_def andThen_Inr_conv newSource_def withSource_def wfCapture_def wfEnvelope_def Let_def
      split: if_split_asm dest!: gcpHeaders_wf dest: gdpSuffix_wf)

lemma gcpEvent_wf: "gcpEvent s = Inr cp \<Longrightarrow> wfCapture cp"
  by (auto simp: gcpEvent_def andThen_Inr_conv newSource_def withSource_def wfCapture_def wfEnvelope_def Let_def
      split: if_split_asm dest!: gcpHeaders_wf dest: gdpSuffix_wf)

lemma gcpOutputs_wf: "gcpOutputs s = Inr cp \<Longrightarrow> wfCapture cp"
  by (auto simp: gcpOutputs_def andThen_Inr_conv newSource_def withSource_def wfCapture_def Let_def
      split: if_split_asm dest: gdpSuffix_wf gcpIdent_wf)

lemma parse_wf:
  assumes "gcpParse s = Inr cp"
  shows "wfCapture cp"
proof -
  have local: "wfCapture (withSource (newSource SourceLocal f f) segs)"
    if "f = ''exit_code'' \<and> segs = [] \<or> structuredField f" "list_all wfSegment segs" for f segs
    using that by (auto simp: newSource_def withSource_def wfCapture_def wfOutput_def)
  show ?thesis using assms unfolding gcpParse_def capturePath_def
    by (auto simp: andThen_Inr_conv split: if_split_asm
        dest: gcpStep_wf gcpHTTP_wf gcpEvent_wf gcpOutputs_wf gdpSuffix_wf intro!: local)
qed

text \<open>
  C30. Capture paths round-trip. What the parser accepts is a well-formed path, and every well-formed path, written out, is read
  back as itself; the written form is a normal form of the sources that denote a path.
\<close>

theorem capture_path_roundtrip:
  "(gcpParse src = Inr cp \<longrightarrow> wfCapture cp) \<and> (wfCapture cp \<longrightarrow> gcpParse (printCapture cp) = Inr cp)"
  using parse_wf parse_print by blast

lemma sample_digit: "natDigits 7 = ''7''"
  by (simp add: natDigits.simps char_of_eq_iff)

theorem capture_path_roundtrip_witness:
  "gcpParse ''step.build.json.items[7]'' =
     Inr \<lparr>cp_Source = \<lparr>so_Kind = SourceStep, so_Name = ''json'', so_StepID = ''build'', so_Field = ''json'', so_Header = ''''\<rparr>,
          cp_Segments = [\<lparr>sg_Hop = HopName ''items'', sg_Optional = False\<rparr>, \<lparr>sg_Hop = HopIndex 7, sg_Optional = False\<rparr>]\<rparr>"
proof -
  let ?cp = "\<lparr>cp_Source = \<lparr>so_Kind = SourceStep, so_Name = ''json'', so_StepID = ''build'', so_Field = ''json'', so_Header = ''''\<rparr>,
      cp_Segments = [\<lparr>sg_Hop = HopName ''items'', sg_Optional = False\<rparr>, \<lparr>sg_Hop = HopIndex 7, sg_Optional = False\<rparr>]\<rparr>"
  have "gcpParse ''step.build.json.items[007]'' = Inr ?cp" by code_simp
  with capture_path_roundtrip have "gcpParse (printCapture ?cp) = Inr ?cp" by blast
  then show ?thesis by (simp add: printCapture_def printSource_def printSegments_def sample_digit)
qed

end
