(* ===== verification/Capture.thy ===== *)
theory Capture
  imports Gcp Gis
begin

section \<open>Captures and native expressions\<close>

text \<open>
  \<^verbatim>\<open>runtime/pkg/capture/service.go\<close>: the values that a step's capture declarations take from its result, and
  \<^verbatim>\<open>runtime/internal/expr/native.go\<close>: conditions, templates and values over a map of variables. The decoders of JSON and YAML documents
  are parameters. An error that is wrapped with more text stands for its cause. A nil service behaves as one without results, event and variables.
\<close>

subsection \<open>Results of steps\<close>

record doc_lib =
  dl_json :: "string \<Rightarrow> gerror + pvalue"
  dl_yaml :: "string \<Rightarrow> gerror + pvalue"

text \<open>What captures read of a result; a nil map of outputs behaves as an empty one.\<close>

record step_result =
  rs_Completed :: bool
  rs_Output :: "goany gomap"
  rs_PublicOutputs :: "goany gomap option"

record capture_event =
  ce_ID :: string
  ce_Body :: string
  ce_Headers :: "string gomap"

record capture_service =
  sv_Vars :: "goany gomap option"
  sv_StepResults :: "step_result gomap"
  sv_Event :: "capture_event option"

record resolved_step =
  st_ID :: string
  st_Capture :: "string gomap"
  st_CaptureDefaults :: "goany gomap"

text \<open>A validated plan: its steps, \<open>None\<close> without a source, and the capture paths parsed in advance.\<close>

record validated_plan =
  vp_Steps :: "resolved_step list option"
  vp_GCPPaths :: "((string \<times> string) \<times> capture) list"

fun anyString :: "goany option \<Rightarrow> string" where
  "anyString (Some (AString s)) = s"
| "anyString _ = ''''"

definition anyOrNil :: "goany option \<Rightarrow> goany" where
  "anyOrNil v = (case v of None \<Rightarrow> ANil | Some a \<Rightarrow> a)"

subsection \<open>Resolution\<close>

text \<open>A decoded document and the rest of the path.\<close>

definition resolveDocument :: "gerror + pvalue \<Rightarrow> segment list \<Rightarrow> gerror + pvalue" where
  "resolveDocument doc segs =
     (case doc of Inl e \<Rightarrow> Inl (Code ''GCP-RESOLVE-004'') | Inr docv \<Rightarrow> Resolve docv (gdpPath segs))"

definition resolveStructured :: "gerror + pvalue \<Rightarrow> segment list \<Rightarrow> gerror + pvalue" where
  "resolveStructured doc segs =
     (case doc of
        Inl e \<Rightarrow> Inl (Code ''GCP-RESOLVE-004'')
      | Inr docv \<Rightarrow> if segs = [] then Inr docv else Resolve docv (gdpPath segs))"

definition resolveLocal :: "doc_lib \<Rightarrow> capture \<Rightarrow> goany gomap \<Rightarrow> gerror + pvalue" where
  "resolveLocal D cp output =
     (let field = so_Field (cp_Source cp); segs = cp_Segments cp in
      if field = ''exit_code'' then FromAny (anyOrNil (mget output ''exit_code''))
      else if field = ''stdout'' \<or> field = ''stderr'' then
        (let t = anyString (mget output field) in if segs = [] then NewString t else resolveDocument (dl_json D t) segs)
      else if field = ''json'' then resolveStructured (dl_json D (anyString (mget output ''stdout''))) segs
      else if field = ''yaml'' then resolveStructured (dl_yaml D (anyString (mget output ''stdout''))) segs
      else Inl (Code ''GCP-RESOLVE-001''))"

definition envelope :: "goany gomap \<Rightarrow> string \<Rightarrow> goany gomap option" where
  "envelope output src =
     (case mget output src of
        Some (AMap env) \<Rightarrow> Some env
      | _ \<Rightarrow>
          if src = ''http'' \<and> mget output ''status'' \<noteq> None then Some output
          else if src = ''event'' \<and> mget output ''id'' \<noteq> None then Some output
          else None)"

text \<open>
  \<^verbatim>\<open>strings.EqualFold\<close> with a second argument in ASCII: the only characters beyond ASCII that fold to it are the Kelvin sign and the
  long s.
\<close>

definition foldsTo :: "nat \<Rightarrow> nat \<Rightarrow> bool" where
  "foldsTo r c =
     (r = c \<or> 97 \<le> c \<and> c \<le> 122 \<and> r + 32 = c \<or> 65 \<le> c \<and> c \<le> 90 \<and> r = c + 32 \<or>
      r = 0x212A \<and> c \<in> {75, 107} \<or> r = 0x17F \<and> c \<in> {83, 115})"

definition equalFold :: "string \<Rightarrow> string \<Rightarrow> bool" where
  "equalFold s name = list_all2 foldsTo (runes s) (map of_char name)"

definition headerValue :: "goany option \<Rightarrow> string \<Rightarrow> gerror + pvalue" where
  "headerValue raw name =
     (case raw of
        Some (AMap headers) \<Rightarrow> (case find (\<lambda>(k, v). equalFold k name) headers of None \<Rightarrow> Inr VNull | Some (k, v) \<Rightarrow> FromAny v)
      | Some (AStringMap headers) \<Rightarrow> (case find (\<lambda>(k, v). equalFold k name) headers of None \<Rightarrow> Inr VNull | Some (k, v) \<Rightarrow> NewString v)
      | _ \<Rightarrow> Inr VNull)"

definition resolveEnvelope :: "doc_lib \<Rightarrow> capture \<Rightarrow> goany gomap \<Rightarrow> string \<Rightarrow> gerror + pvalue" where
  "resolveEnvelope D cp output src =
     (case envelope output src of
        None \<Rightarrow> Inl (Code ''GCP-RESOLVE-001'')
      | Some env \<Rightarrow>
          (let field = so_Field (cp_Source cp); segs = cp_Segments cp in
           if field = ''status'' \<or> field = ''id'' then FromAny (anyOrNil (mget env field))
           else if field = ''body'' then
             (let t = anyString (mget env ''body'') in if segs = [] then NewString t else resolveDocument (dl_json D t) segs)
           else if field = ''headers'' then headerValue (mget env ''headers'') (so_Header (cp_Source cp))
           else Inl (Code ''GCP-RESOLVE-001'')))"

definition resolveEvent :: "doc_lib \<Rightarrow> capture_service \<Rightarrow> capture \<Rightarrow> step_result option \<Rightarrow> gerror + pvalue" where
  "resolveEvent D sv cp current =
     (case sv_Event sv of
        Some ev \<Rightarrow>
          resolveEnvelope D cp
            [(''event'', AMap [(''id'', AString (ce_ID ev)), (''body'', AString (ce_Body ev)), (''headers'', AStringMap (ce_Headers ev))])] ''event''
      | None \<Rightarrow>
          (case (case current of None \<Rightarrow> Inl PlainError | Some r \<Rightarrow> resolveEnvelope D cp (rs_Output r) ''event'') of
             Inr v \<Rightarrow> Inr v
           | Inl _ \<Rightarrow>
               (case sv_Vars sv of
                  Some vars \<Rightarrow> resolveEnvelope D cp vars ''event''
                | None \<Rightarrow> Inl (Code ''GCP-RESOLVE-001''))))"

definition resolveOutputs :: "capture \<Rightarrow> step_result option \<Rightarrow> gerror + pvalue" where
  "resolveOutputs cp current =
     (case current of
        None \<Rightarrow> Inl (Code ''GCP-RESOLVE-001'')
      | Some r \<Rightarrow>
          (let field = so_Field (cp_Source cp); segs = cp_Segments cp;
               give = (\<lambda>val. andThen (FromAny val) (\<lambda>docv. if segs = [] then Inr docv else Resolve docv (gdpPath segs))) in
           if field = '''' then
             (case (rs_Completed r, rs_PublicOutputs r) of
                (True, Some outs) \<Rightarrow> FromAny (AMap outs)
              | _ \<Rightarrow> Inl (Code ''GCP-RESOLVE-001''))
           else case (case rs_PublicOutputs r of None \<Rightarrow> None | Some outs \<Rightarrow> mget outs field) of
             Some val \<Rightarrow> give val
           | None \<Rightarrow> (case mget (rs_Output r) field of None \<Rightarrow> Inl (Code ''GCP-RESOLVE-002'') | Some val \<Rightarrow> give val)))"

definition resolveCapture :: "doc_lib \<Rightarrow> capture_service \<Rightarrow> capture \<Rightarrow> step_result option \<Rightarrow> gerror + pvalue" where
  "resolveCapture D sv cp current =
     (case so_Kind (cp_Source cp) of
        SourceLocal \<Rightarrow> (case current of None \<Rightarrow> Inl (Code ''GCP-RESOLVE-001'') | Some r \<Rightarrow> resolveLocal D cp (rs_Output r))
      | SourceStep \<Rightarrow>
          (case mget (sv_StepResults sv) (so_StepID (cp_Source cp)) of
             None \<Rightarrow> Inl (Code ''GCP-RESOLVE-001'')
           | Some r \<Rightarrow> resolveLocal D cp (rs_Output r))
      | SourceHTTP \<Rightarrow> (case current of None \<Rightarrow> Inl (Code ''GCP-RESOLVE-001'') | Some r \<Rightarrow> resolveEnvelope D cp (rs_Output r) ''http'')
      | SourceEvent \<Rightarrow> resolveEvent D sv cp current
      | SourceOutputs \<Rightarrow> resolveOutputs cp current)"

subsection \<open>Defaults\<close>

definition isScalarDefault :: "pvalue \<Rightarrow> bool" where
  "isScalarDefault v = (kindOf v \<in> {KindNull, KindBool, KindNumber, KindString})"

definition typeMismatch :: "capture \<Rightarrow> pvalue \<Rightarrow> bool" where
  "typeMismatch cp def =
     (let src = cp_Source cp in
      if so_Field src = ''exit_code'' \<or> so_Kind src = SourceHTTP \<and> so_Field src = ''status''
      then kindOf def \<noteq> KindNumber \<and> kindOf def \<noteq> KindNull
      else if so_Field src = ''id'' \<or> so_Field src = ''headers'' then kindOf def \<noteq> KindString \<and> kindOf def \<noteq> KindNull
      else False)"

definition isDefaultableResolve :: "gerror \<Rightarrow> bool" where
  "isDefaultableResolve e = (errCode e = ''GCP-RESOLVE-002'' \<or> errCode e = ''GCP-RESOLVE-003'')"

definition applyDefault :: "capture \<Rightarrow> gerror + pvalue \<Rightarrow> goany \<Rightarrow> gerror + pvalue" where
  "applyDefault cp resolved def =
     (case FromAny def of
        Inl e \<Rightarrow> Inl (Code ''GCP-DEFAULT-SUBTREE'')
      | Inr d \<Rightarrow>
          if \<not> isScalarDefault d then Inl (Code ''GCP-DEFAULT-SUBTREE'')
          else if typeMismatch cp d then Inl (Code ''GCP-TYPE-001'')
          else case resolved of
            Inl e \<Rightarrow> if isDefaultableResolve e then Inr d else Inl e
          | Inr v \<Rightarrow>
              if kindOf v = KindObject \<or> kindOf v = KindArray then Inl (Code ''GCP-DEFAULT-SUBTREE'')
              else if kindOf v = KindNull then Inr d
              else Inr v)"

subsection \<open>The captures of a step\<close>

definition parsedPath :: "validated_plan option \<Rightarrow> string \<Rightarrow> string \<Rightarrow> string \<Rightarrow> gerror + capture" where
  "parsedPath vp stepID name src =
     (case (case vp of None \<Rightarrow> None | Some p \<Rightarrow> map_of (vp_GCPPaths p) (stepID, ''capture.'' @ name)) of
        Some cp \<Rightarrow> Inr cp
      | None \<Rightarrow> gcpParse src)"

definition captureOne :: "doc_lib \<Rightarrow> capture_service \<Rightarrow> validated_plan option \<Rightarrow> resolved_step \<Rightarrow> step_result option \<Rightarrow> string \<Rightarrow> string \<Rightarrow> gerror + pvalue" where
  "captureOne D sv vp step result name src =
     andThen (parsedPath vp (st_ID step) name src) (\<lambda>cp.
       let resolved = resolveCapture D sv cp result in
       case mget (st_CaptureDefaults step) name of None \<Rightarrow> resolved | Some def \<Rightarrow> applyDefault cp resolved def)"

definition CaptureStep :: "doc_lib \<Rightarrow> capture_service \<Rightarrow> validated_plan option \<Rightarrow> resolved_step \<Rightarrow> step_result option \<Rightarrow> gerror + pvalue gomap" where
  "CaptureStep D sv vp step result =
     mapResult (\<lambda>(name, src). andThen (captureOne D sv vp step result name src) (\<lambda>v. Inr (name, v))) (st_Capture step)"

definition findStep :: "validated_plan option \<Rightarrow> string \<Rightarrow> resolved_step option" where
  "findStep vp stepID =
     (case vp of
        None \<Rightarrow> None
      | Some p \<Rightarrow> (case vp_Steps p of None \<Rightarrow> None | Some steps \<Rightarrow> find (\<lambda>s. st_ID s = stepID) steps))"

definition captureStepNamed :: "doc_lib \<Rightarrow> capture_service \<Rightarrow> validated_plan option \<Rightarrow> string \<Rightarrow> step_result option \<Rightarrow> gerror + pvalue gomap" where
  "captureStepNamed D sv vp stepID result =
     (case findStep vp stepID of None \<Rightarrow> Inr [] | Some step \<Rightarrow> CaptureStep D sv vp step result)"

text \<open>
  Back to ordinary Go values. A number that is an \<^verbatim>\<open>int64\<close> becomes an \<^verbatim>\<open>int\<close>. The language leaves the conversion of a number outside that
  range to the machine; here, as on amd64, it gives the least \<^verbatim>\<open>int64\<close>, which is not equal to the number.
\<close>

fun ToAny :: "pvalue \<Rightarrow> goany" where
  "ToAny VNull = ANil"
| "ToAny (VBool b) = ABool b"
| "ToAny (VNumber n) = (if n = of_int (truncRat n) \<and> in_i64 (truncRat n) then AInt (truncRat n) else AFloat (Some n))"
| "ToAny (VString s) = AString s"
| "ToAny (VArray a) = AList (map ToAny a)"
| "ToAny (VObject m) = AMap (map (\<lambda>p. (fst p, ToAny (snd p))) m)"

definition ToAnyMap :: "pvalue gomap \<Rightarrow> goany gomap" where
  "ToAnyMap values = map (\<lambda>(k, v). (k, ToAny v)) values"

definition ResolveSource :: "doc_lib \<Rightarrow> capture_service \<Rightarrow> string \<Rightarrow> step_result option \<Rightarrow> gerror + goany" where
  "ResolveSource D sv src current =
     andThen (gcpParse src) (\<lambda>cp. andThen (resolveCapture D sv cp current) (\<lambda>v. Inr (ToAny v)))"

subsection \<open>Native expressions\<close>

definition nativeScope :: "goany gomap \<Rightarrow> gerror + scope" where
  "nativeScope vars = scopeFromAny (filter (\<lambda>(k, v). \<not> hasPrefix k ''__'') vars)"

definition evalBoolNative :: "gxl_lib \<Rightarrow> string \<Rightarrow> goany gomap \<Rightarrow> estate \<Rightarrow> bool outcome" where
  "evalBoolNative L condition vars st =
     (let cond = trimSpace condition in
      if cond = '''' then (Inr True, st)
      else case nativeScope vars of
        Inl e \<Rightarrow> (Inl e, st)
      | Inr sc \<Rightarrow>
          (case Parse cond of
             Inl e \<Rightarrow> (Inl e, st)
           | Inr n \<Rightarrow> thenE (Eval L n (Some sc) st) (\<lambda>v st. (case BoolValue v of None \<Rightarrow> Inl PlainError | Some b \<Rightarrow> Inr b, st))))"

definition interpolateNative :: "gxl_lib \<Rightarrow> (rat \<Rightarrow> string) \<Rightarrow> string \<Rightarrow> goany gomap \<Rightarrow> estate \<Rightarrow> string outcome" where
  "interpolateNative L G tmpl vars st =
     (case nativeScope vars of Inl e \<Rightarrow> (Inl e, st) | Inr sc \<Rightarrow> Interpolate L G tmpl (Some sc) st)"

fun pjvmToAny :: "pvalue \<Rightarrow> goany" where
  "pjvmToAny VNull = ANil"
| "pjvmToAny (VBool b) = ABool b"
| "pjvmToAny (VNumber n) =
     (let i = truncRat n in if in_i64 i \<and> of_int i = n then AInt i else AFloat (Some n))"
| "pjvmToAny (VString s) = AString s"
| "pjvmToAny (VArray a) = AList (map pjvmToAny a)"
| "pjvmToAny (VObject m) = AMap (map (\<lambda>p. (fst p, pjvmToAny (snd p))) m)"

definition evalValueNative :: "gxl_lib \<Rightarrow> string \<Rightarrow> goany gomap \<Rightarrow> estate \<Rightarrow> goany outcome" where
  "evalValueNative L expression vars st =
     (case andThen (nativeScope vars) (\<lambda>sc. andThen (Parse expression) (\<lambda>n. Inr (sc, n))) of
        Inl e \<Rightarrow> (Inl e, st)
      | Inr (sc, n) \<Rightarrow> thenE (Eval L n (Some sc) st) (\<lambda>v st. (Inr (pjvmToAny v), st)))"

record capture_input =
  ci_Stdout :: goany
  ci_Stderr :: goany
  ci_ExitCode :: goany

definition gcpRootValue :: "doc_lib \<Rightarrow> capture \<Rightarrow> capture_input \<Rightarrow> gerror + pvalue" where
  "gcpRootValue D cp input =
     (let src = cp_Source cp; stdout = (case ci_Stdout input of AString s \<Rightarrow> s | _ \<Rightarrow> '''') in
      if so_Kind src \<noteq> SourceLocal then Inl PlainError
      else if so_Field src = ''stdout'' then FromAny (ci_Stdout input)
      else if so_Field src = ''stderr'' then FromAny (ci_Stderr input)
      else if so_Field src = ''exit_code'' then FromAny (ci_ExitCode input)
      else if so_Field src = ''json'' then dl_json D stdout
      else if so_Field src = ''yaml'' then dl_yaml D stdout
      else Inl PlainError)"

definition resolveCaptureNative :: "doc_lib \<Rightarrow> string \<Rightarrow> capture_input \<Rightarrow> gerror + goany" where
  "resolveCaptureNative D src input =
     andThen (gcpParse src) (\<lambda>cp.
     andThen (gcpRootValue D cp input) (\<lambda>docv.
     andThen (if cp_Segments cp \<noteq> [] then Resolve docv (gdpPath (cp_Segments cp)) else Inr docv) (\<lambda>v.
     Inr (pjvmToAny v))))"

end
