(* ===== verification/Go_Space.thy ===== *)
theory Go_Space
  imports Go_Decimal
begin

section \<open>Trimming\<close>

text \<open>What \<^verbatim>\<open>strings.TrimSpace\<close> leaves of a text that begins and ends with a printable ASCII byte, also with a line feed behind it.\<close>

definition inkByte :: "char \<Rightarrow> bool" where
  "inkByte c = (32 < (of_char c :: nat) \<and> (of_char c :: nat) < 128)"

lemma space_bytes: "list_all (\<lambda>w. w \<noteq> [] \<and> \<not> inkByte (hd w) \<and> \<not> inkByte (last w)) spaceSeqs"
  by (simp add: spaceSeqs_def inkByte_def upt_conv_Cons)

lemma prefix_ink:
  assumes "s \<noteq> []" and "inkByte (hd s)"
  shows "find (hasPrefix s) spaceSeqs = None"
proof -
  have "\<not> hasPrefix s w" if "w \<in> set spaceSeqs" for w
  proof -
    have w: "w \<noteq> []" "\<not> inkByte (hd w)" using space_bytes that unfolding list_all_iff by blast+
    have "hd w = hd s" if "hasPrefix s w" using that w(1) assms(1) unfolding hasPrefix_def by (metis hd_take length_greater_0_conv)
    with w assms show ?thesis by auto
  qed
  then show ?thesis by (auto simp: find_None_iff)
qed

lemma suffix_last: "hasSuffix s w \<Longrightarrow> w \<noteq> [] \<Longrightarrow> last w = last s"
  unfolding hasSuffix_def by (metis drop_eq_Nil last_drop not_le)

lemma suffix_ink:
  assumes "inkByte (last s)"
  shows "find (hasSuffix s) spaceSeqs = None"
proof -
  have "\<not> hasSuffix s w" if "w \<in> set spaceSeqs" for w
    using space_bytes that assms suffix_last [of s w] unfolding list_all_iff by metis
  then show ?thesis by (auto simp: find_None_iff)
qed

lemma trim_left_ink: "s \<noteq> [] \<Longrightarrow> inkByte (hd s) \<Longrightarrow> trimLeftFuel n s = s"
  by (cases n) (simp_all add: prefix_ink)

lemma trim_right_ink: "inkByte (last s) \<Longrightarrow> trimRightFuel n s = s"
  by (cases n) (simp_all add: suffix_ink)

lemma trimSpace_word: "s \<noteq> [] \<Longrightarrow> inkByte (hd s) \<Longrightarrow> inkByte (last s) \<Longrightarrow> trimSpace s = s"
  by (simp add: trimSpace_def trim_left_ink trim_right_ink)

lemma space_line_feed: "list_all (\<lambda>w. last w = CHR 0x0A \<longrightarrow> w = [CHR 0x0A]) spaceSeqs" "[CHR 0x0A] \<in> set spaceSeqs"
proof -
  show "list_all (\<lambda>w. last w = CHR 0x0A \<longrightarrow> w = [CHR 0x0A]) spaceSeqs" by (simp add: spaceSeqs_def upt_conv_Cons char_of_eq_iff)
  have "char_of (10 :: nat) = CHR 0x0A" unfolding char_of_eq_iff by simp
  then show "[CHR 0x0A] \<in> set spaceSeqs" unfolding spaceSeqs_def by (simp add: upt_conv_Cons)
qed

lemma trimSpace_line:
  assumes "s \<noteq> []" and "inkByte (hd s)" and "inkByte (last s)"
  shows "trimSpace (s @ [CHR 0x0A]) = s"
proof -
  let ?t = "s @ [CHR 0x0A]"
  have only: "w = [CHR 0x0A]" if "w \<in> set spaceSeqs" "hasSuffix ?t w" for w
  proof -
    have "w \<noteq> []" using space_bytes that(1) unfolding list_all_iff by blast
    from suffix_last [OF that(2) this] have "last w = CHR 0x0A" by simp
    then show ?thesis using space_line_feed(1) that(1) unfolding list_all_iff by blast
  qed
  have "hasSuffix ?t [CHR 0x0A]" by (simp add: hasSuffix_def)
  with space_line_feed(2) have "find (hasSuffix ?t) spaceSeqs \<noteq> None" by (auto simp: find_None_iff)
  then obtain w where w: "find (hasSuffix ?t) spaceSeqs = Some w" by blast
  then have "w \<in> set spaceSeqs" "hasSuffix ?t w" by (auto simp: find_Some_iff)
  from only [OF this] w have "find (hasSuffix ?t) spaceSeqs = Some [CHR 0x0A]" by simp
  moreover have "find (hasPrefix ?t) spaceSeqs = None" using assms by (intro prefix_ink) simp_all
  ultimately show ?thesis using assms by (simp add: trimSpace_def trim_right_ink)
qed

end
