(* ===== verification/Capture_Properties.thy ===== *)
theory Capture_Properties
  imports Capture Gxl_Properties Go_Space
begin

section \<open>Properties of captures\<close>

text \<open>
  What a step's captures give, when a declared default takes the place of a captured value, and which captured values the expressions of
  later steps can read.
\<close>

subsection \<open>Values that come back\<close>

text \<open>A value without an integral number between the safe integers and the 64-bit ones.\<close>

fun readable :: "pvalue \<Rightarrow> bool" where
  "readable (VNumber n) = (n = of_int (truncRat n) \<and> in_i64 (truncRat n) \<longrightarrow> \<bar>truncRat n\<bar> \<le> maxSafeInteger)"
| "readable (VArray a) = list_all readable a"
| "readable (VObject m) = list_all (\<lambda>p. readable (snd p)) m"
| "readable _ = True"

lemma mapResult_partial:
  assumes "\<And>x. x \<in> set xs \<Longrightarrow> f (h x) = (if P x then Inr (g x) else Inl e)"
  shows "mapResult f (map h xs) = (if list_all P xs then Inr (map g xs) else Inl e)"
  using assms by (induction xs) auto

lemma FromAny_number:
  "FromAny (ToAny (VNumber n)) = (if readable (VNumber n) then Inr (VNumber n) else Inl PlainError)"
proof (cases "n = of_int (truncRat n) \<and> in_i64 (truncRat n)")
  case True
  then have n: "n = of_int (truncRat n)" "in_i64 (truncRat n)" by blast+
  show ?thesis
  proof (cases "\<bar>truncRat n\<bar> \<le> maxSafeInteger")
    case True
    then have "roundF (of_int (truncRat n)) = Some (of_int (truncRat n))" by (intro roundF_int) (simp add: maxSafeInteger_def)
    with True n show ?thesis by (simp add: numberFromInt_def Number_def abs_le_iff not_less)
  next
    case False
    with n show ?thesis by (auto simp: numberFromInt_def abs_le_iff)
  qed
next
  case False
  then show ?thesis by (auto simp: Number_def)
qed

lemma FromAny_ToAny: "wfValue v \<Longrightarrow> FromAny (ToAny v) = (if readable v then Inr v else Inl PlainError)"
proof (induction v rule: readable.induct)
  case (1 n)
  show ?case by (rule FromAny_number)
next
  case (2 a)
  then have "FromAny (ToAny x) = (if readable x then Inr (id x) else Inl PlainError)" if "x \<in> set a" for x
    using that by (auto simp: list_all_iff)
  from mapResult_partial [of a FromAny ToAny readable id PlainError, OF this] show ?case by auto
next
  case (3 m)
  let ?f = "\<lambda>p. andThen (FromAny (snd p)) (\<lambda>v. Inr (fst p, v))"
  have "?f (fst p, ToAny (snd p)) = (if readable (snd p) then Inr (id p) else Inl PlainError)" if "p \<in> set m" for p
    using 3 that by (auto simp: list_all_iff)
  from mapResult_partial [of m ?f "\<lambda>p. (fst p, ToAny (snd p))" "\<lambda>p. readable (snd p)" id PlainError, OF this]
  show ?case by auto
qed (auto simp: NewString_def)

text \<open>The two conversions back to ordinary values are the same function.\<close>

lemma pjvmToAny_ToAny: "pjvmToAny v = ToAny v"
proof (induction v rule: pjvmToAny.induct)
  case (3 n)
  show ?case by (auto simp: Let_def)
qed auto

definition visible :: "'v gomap \<Rightarrow> 'v gomap" where
  "visible vars = filter (\<lambda>(k, v). \<not> hasPrefix k ''__'') vars"

lemma scope_of_captures:
  assumes "list_all (\<lambda>(k, v). wfValue v) caps"
  shows "nativeScope (ToAnyMap caps) =
    (if list_all (\<lambda>(k, v). readable v) (visible caps) then Inr (NewScope (visible caps) None) else Inl PlainError)"
proof -
  let ?f = "\<lambda>(k, raw). andThen (FromAny raw) (\<lambda>v. Inr (k, v))" and ?h = "\<lambda>(k, v). (k, ToAny v)"
  have vis: "filter (\<lambda>(k, v). \<not> hasPrefix k ''__'') (ToAnyMap caps) = map ?h (visible caps)"
    by (simp add: ToAnyMap_def visible_def filter_map comp_def case_prod_unfold)
  have "?f (?h p) = (if (\<lambda>(k, v). readable v) p then Inr (id p) else Inl PlainError)" if "p \<in> set (visible caps)" for p
    using assms that by (auto simp: visible_def list_all_iff FromAny_ToAny split: prod.splits)
  from mapResult_partial [of "visible caps" ?f ?h "\<lambda>(k, v). readable v" id PlainError, OF this]
  show ?thesis by (simp add: nativeScope_def vis scopeFromAny_def)
qed



lemma truncRat_int [simp]: "truncRat (of_int i) = i"
  by (simp add: truncRat_def)

text \<open>
  C33. One large captured number stops all later conditions. After a step captured an integral number beyond the safe integers that a
  64-bit integer can hold, as from the document \<^verbatim>\<open>1e18\<close>, every condition that is not blank fails, whether it reads that variable or not.
\<close>

theorem large_capture_stops_conditions:
  assumes "list_all (\<lambda>(k, v). wfValue v) caps" and "(k, VNumber (of_int i)) \<in> set caps"
    and "\<not> hasPrefix k ''__''" and "in_i64 i" and "maxSafeInteger < \<bar>i\<bar>" and "trimSpace condition \<noteq> ''''"
  shows "evalBoolNative L condition (ToAnyMap caps) st = (Inl PlainError, st)"
proof -
  have "(k, VNumber (of_int i)) \<in> set (visible caps)" using assms(2,3) by (simp add: visible_def)
  moreover have "\<not> readable (VNumber (of_int i))" using assms(4,5) by simp
  ultimately have "\<not> list_all (\<lambda>(k, v). readable v) (visible caps)" unfolding list_all_iff by blast
  with scope_of_captures [OF assms(1)] assms(6) show ?thesis by (simp add: evalBoolNative_def Let_def)
qed

theorem large_capture_stops_conditions_witness:
  "evalBoolNative sampleLib ''true'' (ToAnyMap [(''n'', VNumber (of_int (10 ^ 18)))]) sampleState = (Inl PlainError, sampleState)"
proof -
  have "trimSpace ''true'' \<noteq> ''''" by (simp add: trimSpace_word inkByte_def)
  then show ?thesis
    using large_capture_stops_conditions [of "[(''n'', VNumber (of_int (10 ^ 18)))]" "''n''" "10 ^ 18" "''true''" sampleLib sampleState]
    by (simp add: hasPrefix_def maxSafeInteger_def in_i64_def)
qed

subsection \<open>Defaults\<close>

text \<open>The outcome of a capture with a declared default \<open>d\<close>: the value found, or the default for a missing or null one.\<close>

fun defaulted :: "gerror + pvalue \<Rightarrow> pvalue \<Rightarrow> pvalue \<Rightarrow> bool" where
  "defaulted (Inr v) d out = (isScalarDefault v \<and> out = (if v = VNull then d else v))"
| "defaulted (Inl e) d out = (isDefaultableResolve e \<and> out = d)"

lemma kindOf_null: "kindOf v = KindNull \<longleftrightarrow> v = VNull"
  by (cases v) auto

lemma applyDefault_Inr:
  "applyDefault cp resolved def = Inr out \<longleftrightarrow>
     (\<exists>d. FromAny def = Inr d \<and> isScalarDefault d \<and> \<not> typeMismatch cp d \<and> defaulted resolved d out)"
proof (cases "FromAny def")
  case (Inr d)
  then show ?thesis
    by (cases resolved; cases "kindOf (projr resolved)")
      (auto simp: applyDefault_def isScalarDefault_def kindOf_null)
qed (simp add: applyDefault_def)

text \<open>
  C29. What the captures of a step are. \<^verbatim>\<open>CaptureStep\<close> gives exactly the declared names. A capture without a default is the value its
  path resolves to. With a default, which has to be a scalar of a kind the source can have, it is the value found when that is a scalar
  other than null, and the default when the value is null or the path misses; every other failure is reported and not hidden.
\<close>

theorem captures_and_defaults:
  assumes "CaptureStep D sv vp step result = Inr out" and "mwf (st_Capture step)"
  shows "map fst out = map fst (st_Capture step) \<and>
    (\<forall>(name, src) \<in> set (st_Capture step). \<exists>cp v. parsedPath vp (st_ID step) name src = Inr cp \<and> mget out name = Some v \<and>
       (case mget (st_CaptureDefaults step) name of
          None \<Rightarrow> resolveCapture D sv cp result = Inr v
        | Some def \<Rightarrow> \<exists>d. FromAny def = Inr d \<and> isScalarDefault d \<and> \<not> typeMismatch cp d \<and>
            defaulted (resolveCapture D sv cp result) d v))"
proof -
  let ?one = "\<lambda>(name, src). andThen (captureOne D sv vp step result name src) (\<lambda>v. Inr (name, v))"
  have each: "length out = length (st_Capture step)" "\<And>i. i < length (st_Capture step) \<Longrightarrow> ?one (st_Capture step ! i) = Inr (out ! i)"
    using assms(1) by (auto simp: CaptureStep_def mapResult_Inr)
  have fst: "fst (out ! i) = fst (st_Capture step ! i)" if "i < length (st_Capture step)" for i
    using each(2) [OF that] by (cases "out ! i") (auto simp: andThen_Inr_conv split: prod.splits)
  have names: "map fst out = map fst (st_Capture step)"
    using each(1) fst by (auto intro: nth_equalityI)
  have "\<exists>cp v. parsedPath vp (st_ID step) name src = Inr cp \<and> mget out name = Some v \<and>
       (case mget (st_CaptureDefaults step) name of
          None \<Rightarrow> resolveCapture D sv cp result = Inr v
        | Some def \<Rightarrow> \<exists>d. FromAny def = Inr d \<and> isScalarDefault d \<and> \<not> typeMismatch cp d \<and>
            defaulted (resolveCapture D sv cp result) d v)" if "(name, src) \<in> set (st_Capture step)" for name src
  proof -
    obtain i where i: "i < length (st_Capture step)" "st_Capture step ! i = (name, src)"
      using \<open>(name, src) \<in> set (st_Capture step)\<close> by (auto simp: in_set_conv_nth)
    then obtain v where v: "captureOne D sv vp step result name src = Inr v" "out ! i = (name, v)"
      using each(2) [OF i(1)] by (auto simp: andThen_Inr_conv)
    have "(name, v) \<in> set out" using i(1) v(2) each(1) by (auto simp: in_set_conv_nth)
    then have "mget out name = Some v" using names assms(2) by (simp add: mget_def mwf_def)
    with v(1) show ?thesis
      by (cases "mget (st_CaptureDefaults step) name") (auto simp: captureOne_def andThen_Inr_conv Let_def applyDefault_Inr)
  qed
  with names show ?thesis by auto
qed

definition sampleDocs :: doc_lib where
  "sampleDocs = \<lparr>dl_json = (\<lambda>s. Inr (VObject [(''size'', VNumber 4)])), dl_yaml = (\<lambda>s. Inl PlainError)\<rparr>"

definition sampleService :: capture_service where
  "sampleService = \<lparr>sv_Vars = None, sv_StepResults = [], sv_Event = None\<rparr>"

definition sampleResult :: step_result where
  "sampleResult = \<lparr>rs_Completed = True, rs_Output = [(''stdout'', AString ''doc'')], rs_PublicOutputs = None\<rparr>"

definition sampleStep :: resolved_step where
  "sampleStep = \<lparr>st_ID = ''a'', st_Capture = [(''m'', ''json.size''), (''n'', ''json.count'')], st_CaptureDefaults = [(''n'', AInt 7)]\<rparr>"

lemma sample_capture_paths:
  "gcpParse ''json.size'' = Inr \<lparr>cp_Source = newSource SourceLocal ''json'' ''json'', cp_Segments = [\<lparr>sg_Hop = HopName ''size'', sg_Optional = False\<rparr>]\<rparr>"
  "gcpParse ''json.count'' = Inr \<lparr>cp_Source = newSource SourceLocal ''json'' ''json'', cp_Segments = [\<lparr>sg_Hop = HopName ''count'', sg_Optional = False\<rparr>]\<rparr>"
  by (simp_all add: gcpParse_def capturePath_def gcpIdent_def identChar_def gcpIdentCont_def gcpIdentStart_def Let_def isDigit_def
      structuredField_def gdpSuffix.simps withSource_def)

lemma sample_captures:
  "CaptureStep sampleDocs sampleService None sampleStep (Some sampleResult) = Inr [(''m'', VNumber 4), (''n'', VNumber 7)]"
proof -
  have "roundF 7 = Some 7" using roundF_int [of 7] by simp
  then show ?thesis
    by (simp add: CaptureStep_def sampleStep_def captureOne_def parsedPath_def sample_capture_paths resolveCapture_def newSource_def
        resolveLocal_def sampleResult_def sampleDocs_def sampleService_def anyString.simps resolveStructured_def Resolve_def resolve_def gdpPath_def
        resolveSegment_def mget_def missError_def applyDefault_def numberFromInt_def maxSafeInteger_def Number_def isScalarDefault_def
        typeMismatch_def isDefaultableResolve_def)
qed

theorem captures_and_defaults_witness:
  "CaptureStep sampleDocs sampleService None sampleStep (Some sampleResult) = Inr [(''m'', VNumber 4), (''n'', VNumber 7)] \<and>
   (\<exists>cp v d. gcpParse ''json.count'' = Inr cp \<and> v = VNumber 7 \<and> FromAny (AInt 7) = Inr d \<and>
      defaulted (resolveCapture sampleDocs sampleService cp (Some sampleResult)) d v)"
  using captures_and_defaults [OF sample_captures] sample_captures
  by (auto simp: sampleStep_def mwf_def mget_def parsedPath_def)

end
