(* ===== verification/Run_State.thy ===== *)
theory Run_State
  imports Node_Identity Session_Rebuild
begin

section \<open>The durable state of a run\<close>

text \<open>
  The state that the engine checkpoints (\<^verbatim>\<open>RunState\<close> of \<^verbatim>\<open>runtime/pkg/engine/run.go\<close> with the states of interactions, dispatches, execution
  frames and dynamic includes) and the checks that \<^verbatim>\<open>runtime/internal/runstore/dir_store.go\<close> makes of it before it is written and after it
  is read. A check is a predicate that holds when the source returns no error. Typed results publications are left out, and so is an
  entry that is nil, which every check refuses. Calls of \<^verbatim>\<open>encoding/json\<close>, \<^verbatim>\<open>crypto/sha256\<close>, \<^verbatim>\<open>time.Parse\<close> and of the checks of plan snapshots are the
  functions of \<open>run_lib\<close>.
\<close>

subsection \<open>Data\<close>

text \<open>A pin of a dynamic include; \<open>dp_Metadata\<close> says that one of its resolved inputs, outputs and governance is present.\<close>

record dyn_pin =
  dp_SchemaVersion :: string
  dp_TargetScopeID :: string
  dp_StepID :: string
  dp_QualifiedNodeID :: string
  dp_Invocation :: int
  dp_Revision :: int
  dp_RenderedRef :: string
  dp_QualifiedID :: string
  dp_AbsPath :: string
  dp_PackageName :: string
  dp_PackageVersion :: string
  dp_FileDigest :: string
  dp_PackageDigest :: string
  dp_ExecutableClosure :: string
  dp_Metadata :: bool
  dp_Rest :: string

record dyn_resolution =
  dr_SchemaVersion :: string
  dr_ResolutionID :: string
  dr_WriterEpoch :: nat
  dr_QualifiedNodeID :: string
  dr_CallPath :: "call_frame list"
  dr_StepID :: string
  dr_FrameID :: string
  dr_FrameStepIndex :: int
  dr_Invocation :: int
  dr_Revision :: int
  dr_Pin :: dyn_pin
  dr_Status :: string
  dr_CommittedAt :: string
  dr_CompletedAt :: string

record interaction =
  ia_SchemaVersion :: string
  ia_TurnID :: string
  ia_CorrelationID :: string
  ia_OwnerStepID :: string
  ia_NodeID :: string
  ia_StepID :: string
  ia_FrameID :: string
  ia_FrameStepIndex :: int
  ia_Kind :: string
  ia_Ordinal :: int
  ia_ExecutionInvocation :: int
  ia_Status :: string
  ia_RequestDigest :: string
  ia_Request :: string
  ia_AnswerDigest :: string
  ia_Answer :: string
  ia_AnswerCommandID :: string
  ia_AnswerCommandDigest :: string
  ia_AcceptedAt :: string
  ia_AuditToken :: string

text \<open>A result of a step; \<open>sx_Rest\<close> are the fields that only its encoding shows.\<close>

record indeterminate_record =
  nd_RunID :: string
  nd_StepID :: string
  nd_Classification :: string
  nd_AttemptNumber :: int
  nd_FailureTime :: string
  nd_TransportErrCategory :: string

record step_record =
  sx_StepID :: string
  sx_Status :: string
  sx_Outcome :: string
  sx_Output :: "gany gomap"
  sx_Vars :: "gany gomap"
  sx_StartedAt :: string
  sx_CompletedAt :: string
  sx_Error :: "string option"
  sx_Indeterminate :: "indeterminate_record option"
  sx_Rest :: string

record frame_state =
  fr_SchemaVersion :: string
  fr_FrameID :: string
  fr_ParentFrameID :: string
  fr_WriterEpoch :: nat
  fr_ParentQualifiedNodeID :: string
  fr_ParentStepID :: string
  fr_Kind :: string
  fr_CallPath :: "call_frame list"
  fr_BranchLabel :: string
  fr_IterationIndex :: int
  fr_Invocation :: int
  fr_DefinitionDigest :: string
  fr_StepCount :: int
  fr_StepIDs :: "string list"
  fr_NextStepIndex :: int
  fr_WorkingVars :: "gany gomap"
  fr_Results :: "step_record gomap"
  fr_Status :: string
  fr_StartedAt :: string
  fr_CompletedAt :: string

record cursor =
  cu_QualifiedNodeID :: string
  cu_CallPath :: "call_frame list"
  cu_StepID :: string
  cu_StepIndex :: int
  cu_FrameID :: string
  cu_BranchLabel :: string
  cu_IterationIndex :: int
  cu_Phase :: string
  cu_Invocation :: int
  cu_RetryAttempt :: int
  cu_AtEnd :: bool

record cursor_set =
  cs_SchemaVersion :: string
  cs_Cursors :: "cursor list"

record handoff_request =
  ho_TargetRunbook :: string
  ho_ReasonCode :: string
  ho_ReasonSummary :: string
  ho_QualifiedNodeID :: string
  ho_CallPath :: "call_frame list"
  ho_StepID :: string
  ho_Invocation :: int
  ho_RetryAttempt :: int
  ho_OccurrenceSequence :: int
  ho_Rest :: string

record run_state =
  ru_RunID :: string
  ru_WriterEpoch :: nat
  ru_CheckpointSequence :: int
  ru_CommittedTraceSequence :: int
  ru_PendingTraceEvents :: "trace_event list"
  ru_PlanSnapshotDigest :: string
  ru_CursorSet :: "cursor_set option"
  ru_Status :: string
  ru_CurrentStepIndex :: int
  ru_Vars :: "gany gomap"
  ru_StepResults :: "step_record gomap"
  ru_Interactions :: "interaction gomap"
  ru_ExecutionCounts :: "int gomap"
  ru_InteractionCounts :: "int gomap"
  ru_Dispatches :: "dispatch_state gomap"
  ru_Frames :: "frame_state gomap"
  ru_Resolutions :: "dyn_resolution gomap"
  ru_PendingHandoff :: "handoff_request option"
  ru_UpdatedAt :: string
  ru_CompletedAt :: string

text \<open>What the code encodes, one constructor per struct, in the order of the fields.\<close>

datatype run_doc =
    RunPin dyn_pin
  | RunHandoff handoff_request
  | RunPayload "gany gomap"
  | RunNotFound string
  | RunDispatchID string string int string int int
  | RunFrameID string string string string string int int
  | RunResolutionID string string string int int
  | RunResult step_record
  | RunRequest gany
  | RunSettled "step_record option" string

record run_lib =
  rl_marshal :: "run_doc \<Rightarrow> string option"
  rl_digest :: "string \<Rightarrow> string"
  rl_jsonValid :: "string \<Rightarrow> bool"
  rl_time :: "string \<Rightarrow> bool"
  rl_flowClosure :: "string \<Rightarrow> bool"
  rl_scopedPin :: "dyn_pin \<Rightarrow> bool"

definition itoa :: "int \<Rightarrow> string" where
  "itoa i = (if i < 0 then CHR ''-'' # natDigits (nat (- i)) else natDigits (nat i))"

definition validSHA256Digest :: "string \<Rightarrow> bool" where
  "validSHA256Digest value = validDigest value"

definition boundedRequiredString :: "string \<Rightarrow> nat \<Rightarrow> bool" where
  "boundedRequiredString value maxBytes =
     (value \<noteq> '''' \<and> length value \<le> maxBytes \<and> \<not> list_ex (\<lambda>c. c \<in> set [CHR 0x00, CHR 0x0D, CHR 0x0A]) value)"

definition frameBound :: "string \<Rightarrow> int \<Rightarrow> bool" where
  "frameBound frameID i = (if frameID = '''' then i = 0 else validSHA256Digest frameID \<and> 0 \<le> i)"

definition maxStoredValueEntries :: nat where
  "maxStoredValueEntries = 4096"

subsection \<open>Interactions\<close>

definition validAnswer :: "run_lib \<Rightarrow> interaction \<Rightarrow> bool" where
  "validAnswer L i =
     (ia_AnswerDigest i \<noteq> '''' \<and> ia_Answer i \<noteq> '''' \<and> length (ia_Answer i) \<le> 2 ^ 20 \<and> rl_jsonValid L (ia_Answer i) \<and>
      ia_AnswerDigest i = rl_digest L (ia_Answer i) \<and> ia_AcceptedAt i \<noteq> '''' \<and> ia_AuditToken i \<noteq> '''' \<and>
      length (ia_AnswerCommandID i) \<le> 128 \<and>
      \<not> list_ex (\<lambda>c. c \<in> set [CHR 0x0D, CHR 0x0A, CHR 0x00]) (ia_AnswerCommandID i) \<and>
      (if ia_AnswerCommandID i \<noteq> '''' then validSHA256Digest (ia_AnswerCommandDigest i) else ia_AnswerCommandDigest i = '''') \<and>
      rl_time L (ia_AcceptedAt i))"

definition validInteraction :: "run_lib \<Rightarrow> string \<Rightarrow> interaction \<Rightarrow> bool" where
  "validInteraction L turnID i =
     (turnID \<noteq> '''' \<and> ia_TurnID i = turnID \<and>
      ia_SchemaVersion i = ''yawr.interaction-state/v1'' \<and> ia_OwnerStepID i \<noteq> '''' \<and> ia_NodeID i \<noteq> '''' \<and> ia_StepID i \<noteq> '''' \<and>
      ia_Kind i \<noteq> '''' \<and> 1 \<le> ia_Ordinal i \<and> 0 \<le> ia_ExecutionInvocation i \<and> ia_RequestDigest i \<noteq> '''' \<and> ia_Request i \<noteq> '''' \<and>
      length (ia_Request i) \<le> 2 ^ 20 \<and> rl_jsonValid L (ia_Request i) \<and>
      frameBound (ia_FrameID i) (ia_FrameStepIndex i) \<and>
      ia_RequestDigest i = rl_digest L (ia_Request i) \<and>
      (if ia_Status i = ''pending'' then
         ia_AnswerDigest i = '''' \<and> ia_Answer i = '''' \<and> ia_AnswerCommandID i = '''' \<and> ia_AnswerCommandDigest i = ''''
       else ia_Status i = ''answered'' \<and> validAnswer L i))"

definition validateInteractionStates :: "run_lib \<Rightarrow> interaction gomap \<Rightarrow> bool" where
  "validateInteractionStates L ias = (length ias \<le> 128 \<and> list_all (\<lambda>(k, i). validInteraction L k i) ias)"

definition InteractionInvocationCountKey :: "interaction \<Rightarrow> string" where
  "InteractionInvocationCountKey i =
     ia_NodeID i @ [CHR 0x00] @ ia_Kind i @
     (if ia_FrameID i = '''' then '''' else [CHR 0x00] @ ia_FrameID i @ [CHR 0x00] @ itoa (ia_FrameStepIndex i))"

definition validCountKey :: "string \<Rightarrow> bool" where
  "validCountKey key =
     (case splitByte (CHR 0x00) key of
        [node, kind] \<Rightarrow> node \<noteq> '''' \<and> kind \<noteq> ''''
      | [node, kind, frame, i] \<Rightarrow> node \<noteq> '''' \<and> kind \<noteq> '''' \<and> validSHA256Digest frame \<and>
          (case parseInt64 i of None \<Rightarrow> False | Some n \<Rightarrow> 0 \<le> n \<and> itoa n = i)
      | _ \<Rightarrow> False)"

text \<open>The ordinals of one identity end at its count, without a gap.\<close>

definition ordinalsCovered :: "int gomap \<Rightarrow> interaction gomap \<Rightarrow> string \<Rightarrow> bool" where
  "ordinalsCovered counts ias key =
     (let ordinals = sort (map (\<lambda>(k, i). ia_Ordinal i) (filter (\<lambda>(k, i). InteractionInvocationCountKey i = key) ias));
          firstOrdinal = mget0 0 counts key - int (length ordinals) + 1 in
      1 \<le> firstOrdinal \<and> ordinals = map (\<lambda>j. firstOrdinal + int j) [0..<length ordinals])"

definition validateInteractionInvocationCounts :: "int gomap \<Rightarrow> interaction gomap \<Rightarrow> bool" where
  "validateInteractionInvocationCounts counts ias =
     (length counts \<le> maxStoredValueEntries \<and> list_all (\<lambda>(key, count). validCountKey key \<and> 1 \<le> count) counts \<and>
      list_all (\<lambda>(k, i). ordinalsCovered counts ias (InteractionInvocationCountKey i)) ias)"

definition validateExecutionInvocationCounts :: "int gomap \<Rightarrow> bool" where
  "validateExecutionInvocationCounts counts =
     (length counts \<le> maxStoredValueEntries \<and> list_all (\<lambda>(key, count). key \<noteq> '''' \<and> 1 \<le> count) counts)"

subsection \<open>Dispatches, frames and resolutions\<close>

definition validDispatch :: "run_lib \<Rightarrow> nat \<Rightarrow> string \<Rightarrow> dispatch_state \<Rightarrow> bool" where
  "validDispatch L writerEpoch k d =
     (k \<noteq> '''' \<and> ds_OccurrenceID d = k \<and>
      ds_SchemaVersion d = ''yawr.dispatch-state/v1'' \<and> ds_WriterEpoch d \<noteq> 0 \<and> ds_QualifiedNodeID d \<noteq> '''' \<and>
      ds_QualifiedNodeID d = DebugNodeID (ds_CallPath d) (ds_StepID d) \<and> ds_StepID d \<noteq> '''' \<and> length (ds_CallPath d) \<le> 128 \<and>
      ds_Phase d = ''execute'' \<and> 1 \<le> ds_Invocation d \<and> 1 \<le> ds_RetryAttempt d \<and> 1 \<le> ds_OccurrenceSequence d \<and>
      length (ds_EndpointIdentity d) \<le> 1024 \<and> validSHA256Digest (ds_OccurrenceID d) \<and> validSHA256Digest (ds_RequestDigest d) \<and>
      validSHA256Digest (ds_IdempotencyKey d) \<and> frameBound (ds_FrameID d) (ds_FrameStepIndex d) \<and>
      ds_Classification d \<in> set [''read-only'', ''mutating'', ''destructive'', ''unspecified''] \<and> rl_time L (ds_PreparedAt d) \<and>
      (if ds_Status d = ''prepared'' then ds_WriterEpoch d = writerEpoch \<and> ds_ResultDigest d = '''' \<and> ds_SettledAt d = ''''
       else if ds_Status d = ''settled'' then validSHA256Digest (ds_ResultDigest d) \<and> rl_time L (ds_SettledAt d)
       else ds_Status d = ''indeterminate'' \<and> ds_ResultDigest d = '''' \<and> rl_time L (ds_SettledAt d)))"

definition validateDispatchStates :: "run_lib \<Rightarrow> nat \<Rightarrow> dispatch_state gomap \<Rightarrow> bool" where
  "validateDispatchStates L writerEpoch ds =
     (length ds \<le> maxStoredValueEntries \<and> list_all (\<lambda>(k, d). validDispatch L writerEpoch k d) ds)"

definition validFrame :: "run_lib \<Rightarrow> nat \<Rightarrow> string \<Rightarrow> frame_state \<Rightarrow> bool" where
  "validFrame L writerEpoch k f =
     (k \<noteq> '''' \<and> fr_FrameID f = k \<and> validSHA256Digest k \<and>
      (fr_ParentFrameID f \<noteq> '''' \<longrightarrow> validSHA256Digest (fr_ParentFrameID f) \<and> fr_ParentFrameID f \<noteq> k) \<and>
      fr_SchemaVersion f = ''yawr.execution-frame-state/v1'' \<and> fr_WriterEpoch f \<noteq> 0 \<and> fr_ParentQualifiedNodeID f \<noteq> '''' \<and>
      fr_ParentStepID f \<noteq> '''' \<and> fr_CallPath f \<noteq> [] \<and> length (fr_CallPath f) \<le> 128 \<and>
      cf_StepID (last (fr_CallPath f)) = fr_ParentStepID f \<and> 1 \<le> fr_Invocation f \<and> validSHA256Digest (fr_DefinitionDigest f) \<and>
      1 \<le> fr_StepCount f \<and> int (length (fr_StepIDs f)) = fr_StepCount f \<and> 0 \<le> fr_NextStepIndex f \<and>
      fr_NextStepIndex f \<le> fr_StepCount f \<and> 0 \<le> fr_IterationIndex f \<and>
      list_all (\<lambda>s. s \<noteq> '''' \<and> length s \<le> 4096) (fr_StepIDs f) \<and>
      fr_ParentQualifiedNodeID f = DebugNodeID (butlast (fr_CallPath f)) (fr_ParentStepID f) \<and>
      fr_Kind f \<in> set [''branch'', ''include'', ''iterate'', ''parallel'', ''compensate'', ''tool-substitution''] \<and>
      rl_time L (fr_StartedAt f) \<and> int (length (fr_Results f)) = fr_NextStepIndex f \<and>
      list_all (\<lambda>i. case mget (fr_Results f) (itoa i) of None \<Rightarrow> False | Some r \<Rightarrow> sx_StepID r \<noteq> '''') [0..fr_NextStepIndex f - 1] \<and>
      (if fr_Status f = ''active'' then fr_WriterEpoch f = writerEpoch \<and> fr_CompletedAt f = ''''
       else if fr_Status f = ''completed'' then fr_NextStepIndex f = fr_StepCount f \<and> rl_time L (fr_CompletedAt f)
       else (fr_Status f = ''failed'' \<or> fr_Status f = ''indeterminate'') \<and> rl_time L (fr_CompletedAt f)))"

definition validateExecutionFrameStates :: "run_lib \<Rightarrow> nat \<Rightarrow> frame_state gomap \<Rightarrow> bool" where
  "validateExecutionFrameStates L writerEpoch fs =
     (length fs \<le> maxStoredValueEntries \<and> list_all (\<lambda>(k, f). validFrame L writerEpoch k f) fs)"

definition resolutionV2 :: "dyn_resolution \<Rightarrow> bool" where
  "resolutionV2 r = (dr_SchemaVersion r = ''yawr.dynamic-include-resolution/v2'')"

definition resolutionVersionOk :: "dyn_resolution \<Rightarrow> bool" where
  "resolutionVersionOk r =
     (if dr_SchemaVersion r = ''yawr.dynamic-include-resolution/v1''
      then dp_SchemaVersion (dr_Pin r) = '''' \<and> dp_TargetScopeID (dr_Pin r) = ''''
      else resolutionV2 r \<and> dp_SchemaVersion (dr_Pin r) = ''yawr.dynamic-include-pin/v2'' \<and> dp_TargetScopeID (dr_Pin r) \<noteq> '''')"

definition validPin :: "run_lib \<Rightarrow> bool \<Rightarrow> dyn_resolution \<Rightarrow> bool" where
  "validPin L scoped r =
     (let p = dr_Pin r in
      dp_StepID p = dr_StepID r \<and> dp_QualifiedNodeID p = dr_QualifiedNodeID r \<and> dp_Invocation p = dr_Invocation r \<and>
      dp_Revision p = dr_Revision r \<and> boundedRequiredString (dp_RenderedRef p) 4096 \<and> boundedRequiredString (dp_QualifiedID p) 4096 \<and>
      boundedRequiredString (dp_AbsPath p) 32768 \<and> boundedRequiredString (dp_PackageName p) 4096 \<and>
      boundedRequiredString (dp_PackageVersion p) 4096 \<and> validSHA256Digest (dp_FileDigest p) \<and> validSHA256Digest (dp_PackageDigest p) \<and>
      length (dp_ExecutableClosure p) \<le> 64 * 2 ^ 20 \<and>
      (if resolutionV2 r then scoped \<and> rl_scopedPin L p
       else if dp_ExecutableClosure p \<noteq> '''' then rl_flowClosure L (dp_ExecutableClosure p)
       else \<not> dp_Metadata p))"

definition validResolution :: "run_lib \<Rightarrow> nat \<Rightarrow> bool \<Rightarrow> string \<Rightarrow> dyn_resolution \<Rightarrow> bool" where
  "validResolution L writerEpoch scoped k r =
     (k \<noteq> '''' \<and> dr_ResolutionID r = k \<and> validSHA256Digest k \<and> resolutionVersionOk r \<and> dr_WriterEpoch r \<noteq> 0 \<and>
      dr_QualifiedNodeID r \<noteq> '''' \<and> dr_StepID r \<noteq> '''' \<and> 1 \<le> dr_Invocation r \<and> 1 \<le> dr_Revision r \<and>
      length (dr_CallPath r) \<le> 128 \<and> dr_QualifiedNodeID r = DebugNodeID (dr_CallPath r) (dr_StepID r) \<and>
      frameBound (dr_FrameID r) (dr_FrameStepIndex r) \<and> validPin L scoped r \<and> rl_time L (dr_CommittedAt r) \<and>
      (if dr_Status r = ''active'' then dr_WriterEpoch r = writerEpoch \<and> dr_CompletedAt r = ''''
       else (dr_Status r = ''completed'' \<or> dr_Status r = ''failed'') \<and> rl_time L (dr_CompletedAt r)))"

text \<open>Revisions are the numbers from one on, each used once.\<close>

definition validateDynamicIncludeResolutions :: "run_lib \<Rightarrow> nat \<Rightarrow> bool \<Rightarrow> dyn_resolution gomap \<Rightarrow> bool" where
  "validateDynamicIncludeResolutions L writerEpoch scoped rs =
     (let revisions = map (\<lambda>(k, r). dr_Revision r) rs in
      length rs \<le> maxStoredValueEntries \<and> list_all (\<lambda>(k, r). validResolution L writerEpoch scoped k r) rs \<and>
      distinct revisions \<and> list_all (\<lambda>j. j \<in> set revisions) [1..int (length rs)])"

definition validatePendingHandoff :: "run_lib \<Rightarrow> string \<Rightarrow> handoff_request option \<Rightarrow> bool" where
  "validatePendingHandoff L status request =
     (case request of
        None \<Rightarrow> status \<noteq> ''handoff_pending''
      | Some h \<Rightarrow>
          status = ''handoff_pending'' \<and> ho_TargetRunbook h \<noteq> '''' \<and> ho_ReasonCode h \<noteq> '''' \<and> ho_ReasonSummary h \<noteq> '''' \<and>
          ho_StepID h \<noteq> '''' \<and> ho_QualifiedNodeID h \<noteq> '''' \<and> 1 \<le> ho_Invocation h \<and> 1 \<le> ho_RetryAttempt h \<and>
          1 \<le> ho_OccurrenceSequence h \<and> ho_QualifiedNodeID h = DebugNodeID (ho_CallPath h) (ho_StepID h) \<and>
          (case rl_marshal L (RunHandoff h) of None \<Rightarrow> False | Some e \<Rightarrow> length e \<le> 2 ^ 20))"

definition validTraceEvent :: "run_lib \<Rightarrow> string \<Rightarrow> int \<Rightarrow> trace_event \<Rightarrow> bool" where
  "validTraceEvent L runID committed ev =
     (te_EventID ev \<noteq> '''' \<and> te_RunID ev = runID \<and> 1 \<le> te_Sequence ev \<and> te_Sequence ev \<le> committed \<and> te_Kind ev \<noteq> '''' \<and>
      rl_time L (te_Timestamp ev) \<and>
      (case rl_marshal L (RunPayload (te_Payload ev)) of None \<Rightarrow> False | Some p \<Rightarrow> length p \<le> 256 * 2 ^ 20))"

definition validatePendingTraceEvents :: "run_lib \<Rightarrow> string \<Rightarrow> int \<Rightarrow> trace_event list \<Rightarrow> bool" where
  "validatePendingTraceEvents L runID committed evs =
     (0 \<le> committed \<and> length evs \<le> 16 \<and> list_all (validTraceEvent L runID committed) evs \<and>
      sorted_wrt (\<lambda>a b. te_Sequence a < te_Sequence b) evs \<and>
      (evs \<noteq> [] \<longrightarrow> te_Sequence (last evs) = committed \<and> te_Kind (last evs) = ''execution/committed''))"

end
