(* ===== verification/Run_Relations.thy ===== *)
theory Run_Relations
  imports Run_State
begin

section \<open>Relations inside a run state\<close>

text \<open>
  \<^verbatim>\<open>validateExecutionStateRelationships\<close> of \<^verbatim>\<open>runtime/internal/runstore/dir_store.go\<close> and the checks it calls: interactions, dispatches,
  resolutions and cursors belong to the frames they name, active ones to the child that the frame executes next, and every resolution of a
  dynamic include is paired with the dispatch that resolved it.
\<close>

definition sameDebugCallPath :: "call_frame list \<Rightarrow> call_frame list \<Rightarrow> bool" where
  "sameDebugCallPath left right = (left = right)"

fun indexOfString :: "string list \<Rightarrow> string \<Rightarrow> int" where
  "indexOfString [] target = - 1"
| "indexOfString (v # vs) target =
     (if v = target then 0 else let i = indexOfString vs target in if i < 0 then - 1 else i + 1)"

text \<open>The child of a frame at an index, which has to be within its bounds.\<close>

definition childAt :: "frame_state \<Rightarrow> int \<Rightarrow> string \<Rightarrow> bool" where
  "childAt f i stepID =
     (0 \<le> i \<and> i < fr_StepCount f \<and> i < int (length (fr_StepIDs f)) \<and> fr_StepIDs f ! nat i = stepID)"

definition resultAt :: "frame_state \<Rightarrow> int \<Rightarrow> step_record option" where
  "resultAt f i = mget (fr_Results f) (itoa i)"

subsection \<open>Interactions and frames\<close>

definition interactionRelated :: "frame_state gomap \<Rightarrow> interaction \<Rightarrow> bool" where
  "interactionRelated fs i =
     (ia_FrameID i = '''' \<or>
      (case mget fs (ia_FrameID i) of
         None \<Rightarrow> False
       | Some f \<Rightarrow>
           fr_Status f = ''active'' \<and> ia_FrameStepIndex i = fr_NextStepIndex f \<and> childAt f (ia_FrameStepIndex i) (ia_StepID i) \<and>
           ia_NodeID i = DebugNodeID (fr_CallPath f) (ia_StepID i) \<and> ia_OwnerStepID i = ia_NodeID i))"

definition frameRelated :: "frame_state gomap \<Rightarrow> frame_state \<Rightarrow> bool" where
  "frameRelated fs f =
     (fr_StepCount f \<le> int maxStoredValueEntries \<and>
      (fr_ParentFrameID f = '''' \<or>
       (case mget fs (fr_ParentFrameID f) of
          None \<Rightarrow> False
        | Some p \<Rightarrow>
            length (fr_CallPath f) = length (fr_CallPath p) + 1 \<and>
            sameDebugCallPath (take (length (fr_CallPath p)) (fr_CallPath f)) (fr_CallPath p) \<and>
            cf_StepID (last (fr_CallPath f)) = fr_ParentStepID f \<and>
            (let i = indexOfString (fr_StepIDs p) (fr_ParentStepID f) in
             0 \<le> i \<and> i < fr_NextStepIndex p + 1 \<and>
             (fr_Status f = ''active'' \<longrightarrow> fr_Status p = ''active'' \<and> i = fr_NextStepIndex p)))))"

subsection \<open>Dispatches and resolutions\<close>

definition dispatchOf :: "dispatch_state \<Rightarrow> dyn_resolution \<Rightarrow> bool" where
  "dispatchOf d r =
     (ds_QualifiedNodeID d = dr_QualifiedNodeID r \<and> ds_StepID d = dr_StepID r \<and> ds_FrameID d = dr_FrameID r \<and>
      ds_FrameStepIndex d = dr_FrameStepIndex r \<and> ds_Invocation d = dr_Invocation r \<and> ds_Phase d = ''execute'' \<and>
      sameDebugCallPath (ds_CallPath d) (dr_CallPath r))"

definition pinDigest :: "run_lib \<Rightarrow> dyn_resolution \<Rightarrow> string option" where
  "pinDigest L r = map_option (rl_digest L) (rl_marshal L (RunPin (dr_Pin r)))"

definition settledResolver :: "dispatch_state \<Rightarrow> bool" where
  "settledResolver d = (ds_Status d = ''settled'' \<and> ds_EndpointIdentity d = ''dynamic-include-resolver'')"

definition matchesActiveDynamicResolutionDispatch :: "run_lib \<Rightarrow> dyn_resolution gomap \<Rightarrow> dispatch_state \<Rightarrow> bool" where
  "matchesActiveDynamicResolutionDispatch L rs d =
     (settledResolver d \<and>
      (case find (\<lambda>(k, r). dr_Status r = ''active'' \<and> dispatchOf d r) rs of
         None \<Rightarrow> False
       | Some (k, r) \<Rightarrow> pinDigest L r = Some (ds_ResultDigest d)))"

definition dispatchRelated :: "run_lib \<Rightarrow> frame_state gomap \<Rightarrow> dyn_resolution gomap \<Rightarrow> dispatch_state \<Rightarrow> bool" where
  "dispatchRelated L fs rs d =
     (if ds_FrameID d = '''' then ds_CallPath d = [] \<and> ds_QualifiedNodeID d = DebugNodeID [] (ds_StepID d)
      else case mget fs (ds_FrameID d) of
        None \<Rightarrow> False
      | Some f \<Rightarrow>
          childAt f (ds_FrameStepIndex d) (ds_StepID d) \<and> sameDebugCallPath (fr_CallPath f) (ds_CallPath d) \<and>
          (if ds_Status d = ''prepared'' then fr_Status f = ''active'' \<and> ds_FrameStepIndex d = fr_NextStepIndex f
           else \<not> (fr_NextStepIndex f \<le> ds_FrameStepIndex d \<or> resultAt f (ds_FrameStepIndex d) = None) \<or>
             matchesActiveDynamicResolutionDispatch L rs d))"

definition resolutionRelated :: "frame_state gomap \<Rightarrow> dyn_resolution \<Rightarrow> bool" where
  "resolutionRelated fs r =
     (if dr_FrameID r = '''' then dr_CallPath r = [] \<and> dr_QualifiedNodeID r = DebugNodeID [] (dr_StepID r)
      else case mget fs (dr_FrameID r) of
        None \<Rightarrow> False
      | Some f \<Rightarrow>
          childAt f (dr_FrameStepIndex r) (dr_StepID r) \<and> sameDebugCallPath (fr_CallPath f) (dr_CallPath r) \<and>
          (if dr_Status r = ''active'' then fr_Status f = ''active'' \<and> dr_FrameStepIndex r = fr_NextStepIndex f
           else dr_FrameStepIndex r < fr_NextStepIndex f))"

definition notFoundResult :: "step_record \<Rightarrow> bool" where
  "notFoundResult x =
     (sx_Status x = ''skipped'' \<and> sx_Outcome x = ''skipped'' \<and>
      mget (sx_Output x) ''skip_reason'' = Some (GStr ''include_not_found'') \<and>
      mget (sx_Vars x) ''runbook_found'' = Some (GBool False) \<and> sx_Error x = None)"

definition DynamicIncludeNotFoundResultDigest :: "run_lib \<Rightarrow> step_record \<Rightarrow> string option" where
  "DynamicIncludeNotFoundResultDigest L x =
     (if sx_StepID x = '''' \<or> \<not> notFoundResult x then None
      else map_option (rl_digest L) (rl_marshal L (RunNotFound (sx_StepID x))))"

text \<open>The result that a dispatch of the resolver without a resolution left behind, and its identity.\<close>

definition matchesSkippedDynamicIncludeResult ::
  "run_lib \<Rightarrow> step_record gomap \<Rightarrow> frame_state gomap \<Rightarrow> dispatch_state \<Rightarrow> string option" where
  "matchesSkippedDynamicIncludeResult L results fs d =
     (let accepted = (\<lambda>result ident. case result of
        None \<Rightarrow> None
      | Some x \<Rightarrow>
          if sx_StepID x = ds_StepID d \<and> notFoundResult x \<and> DynamicIncludeNotFoundResultDigest L x = Some (ds_ResultDigest d)
          then Some ident else None) in
      if ds_FrameID d = '''' then
        (if ds_CallPath d \<noteq> [] \<or> ds_QualifiedNodeID d \<noteq> DebugNodeID [] (ds_StepID d) then None
         else accepted (mget results (ds_StepID d)) (''root:'' @ ds_StepID d @ '':'' @ itoa (ds_Invocation d)))
      else case mget fs (ds_FrameID d) of
        None \<Rightarrow> None
      | Some f \<Rightarrow>
          if 0 \<le> ds_FrameStepIndex d \<and> ds_FrameStepIndex d < int (length (fr_StepIDs f)) \<and>
             fr_StepIDs f ! nat (ds_FrameStepIndex d) = ds_StepID d \<and> sameDebugCallPath (ds_CallPath d) (fr_CallPath f) \<and>
             ds_QualifiedNodeID d = DebugNodeID (fr_CallPath f) (ds_StepID d)
          then accepted (resultAt f (ds_FrameStepIndex d))
            (''frame:'' @ ds_FrameID d @ '':'' @ itoa (ds_FrameStepIndex d) @ '':'' @ itoa (ds_Invocation d))
          else None)"

text \<open>An earlier miss at the same place as a later success, with a miss for every invocation between them.\<close>

definition resolvedAt :: "dyn_resolution \<Rightarrow> dispatch_state \<Rightarrow> bool" where
  "resolvedAt r d =
     (dr_QualifiedNodeID r = ds_QualifiedNodeID d \<and> dr_StepID r = ds_StepID d \<and> dr_FrameID r = ds_FrameID d \<and>
      dr_FrameStepIndex r = ds_FrameStepIndex d \<and> sameDebugCallPath (dr_CallPath r) (ds_CallPath d))"

definition laterSuccess :: "run_lib \<Rightarrow> dispatch_state list \<Rightarrow> dispatch_state \<Rightarrow> dyn_resolution \<Rightarrow> bool" where
  "laterSuccess L resolvers d r =
     (ds_Invocation d < dr_Invocation r \<and> resolvedAt r d \<and>
      list_ex (\<lambda>s. ds_Invocation s = dr_Invocation r \<and> resolvedAt r s \<and> pinDigest L r = Some (ds_ResultDigest s)) resolvers)"

definition matchesHistoricalDynamicIncludeNotFound ::
  "run_lib \<Rightarrow> dispatch_state list \<Rightarrow> dyn_resolution gomap \<Rightarrow> dispatch_state \<Rightarrow> string option" where
  "matchesHistoricalDynamicIncludeNotFound L resolvers rs d =
     (if map_option (rl_digest L) (rl_marshal L (RunNotFound (ds_StepID d))) \<noteq> Some (ds_ResultDigest d) \<or> ds_StepID d = '''' then None
      else case find (\<lambda>(k, r). laterSuccess L resolvers d r) rs of
        None \<Rightarrow> None
      | Some (k, r) \<Rightarrow>
          if list_all (\<lambda>invocation. length (filter (\<lambda>s. ds_Invocation s = invocation \<and> ds_QualifiedNodeID s = ds_QualifiedNodeID d \<and>
               ds_StepID s = ds_StepID d \<and> ds_FrameID s = ds_FrameID d \<and> ds_FrameStepIndex s = ds_FrameStepIndex d \<and>
               ds_ResultDigest s = ds_ResultDigest d \<and> sameDebugCallPath (ds_CallPath s) (ds_CallPath d)) resolvers) = 1)
             [ds_Invocation d + 1..dr_Invocation r - 1]
          then Some (''historical:'' @ ds_FrameID d @ '':'' @ ds_QualifiedNodeID d @ '':'' @ itoa (ds_Invocation d))
          else None)"

definition resolverOf :: "run_lib \<Rightarrow> dyn_resolution \<Rightarrow> dispatch_state \<Rightarrow> bool" where
  "resolverOf L r d =
     (ds_Classification d = ''read-only'' \<and> dispatchOf d r \<and> pinDigest L r = Some (ds_ResultDigest d))"

definition validateDynamicResolutionDispatches ::
  "run_lib \<Rightarrow> dispatch_state gomap \<Rightarrow> dyn_resolution gomap \<Rightarrow> step_record gomap \<Rightarrow> frame_state gomap \<Rightarrow> bool" where
  "validateDynamicResolutionDispatches L ds rs results fs =
     (let resolvers = filter (\<lambda>(k, d). settledResolver d) ds;
          states = map snd resolvers;
          unpaired = filter (\<lambda>(k, d). \<not> list_ex (\<lambda>(k', r). resolverOf L r d) rs) resolvers;
          identities = map (\<lambda>(k, d). case matchesSkippedDynamicIncludeResult L results fs d of
            Some ident \<Rightarrow> Some ident
          | None \<Rightarrow> matchesHistoricalDynamicIncludeNotFound L states rs d) unpaired in
      list_all (\<lambda>(k, r). pinDigest L r \<noteq> None \<and> length (filter (\<lambda>(k', d). resolverOf L r d) resolvers) = 1) rs \<and>
      None \<notin> set identities \<and> distinct identities)"

subsection \<open>Cursors\<close>

definition preparedAt :: "dispatch_state gomap \<Rightarrow> frame_state \<Rightarrow> dispatch_state option" where
  "preparedAt ds f =
     map_option snd (find (\<lambda>(k, d). ds_Status d = ''prepared'' \<and> ds_FrameID d = fr_FrameID f \<and> ds_FrameStepIndex d = fr_NextStepIndex f) ds)"

definition cursorRelated :: "nat \<Rightarrow> dispatch_state gomap \<Rightarrow> frame_state gomap \<Rightarrow> cursor \<Rightarrow> bool" where
  "cursorRelated writerEpoch ds fs c =
     (if cu_FrameID c = '''' then writerEpoch = 0 \<or> cu_CallPath c = []
      else case mget fs (cu_FrameID c) of
        None \<Rightarrow> False
      | Some f \<Rightarrow>
          fr_Status f = ''active'' \<and> childAt f (fr_NextStepIndex f) (cu_StepID c) \<and> sameDebugCallPath (fr_CallPath f) (cu_CallPath c) \<and>
          cu_QualifiedNodeID c = DebugNodeID (cu_CallPath c) (cu_StepID c) \<and> cu_BranchLabel c = fr_BranchLabel f \<and>
          cu_IterationIndex c = fr_IterationIndex f \<and>
          cu_Phase c = (if preparedAt ds f \<noteq> None then ''execute'' else ''before''))"

definition cursorsRelated :: "nat \<Rightarrow> dispatch_state gomap \<Rightarrow> frame_state gomap \<Rightarrow> cursor_set option \<Rightarrow> bool" where
  "cursorsRelated writerEpoch ds fs cursorSet =
     (case cursorSet of
        None \<Rightarrow> True
      | Some cs \<Rightarrow>
          cs_SchemaVersion cs = ''yawr.execution-cursor/v1'' \<and> cs_Cursors cs \<noteq> [] \<and> length (cs_Cursors cs) \<le> maxStoredValueEntries \<and>
          distinct (filter (\<lambda>k. k \<noteq> '''') (map cu_FrameID (cs_Cursors cs))) \<and>
          list_all (cursorRelated writerEpoch ds fs) (cs_Cursors cs))"

definition validateExecutionStateRelationships :: "run_lib \<Rightarrow> run_state \<Rightarrow> bool" where
  "validateExecutionStateRelationships L st =
     (let fs = ru_Frames st; ds = ru_Dispatches st; rs = ru_Resolutions st in
      list_all (\<lambda>(k, i). interactionRelated fs i) (ru_Interactions st) \<and>
      list_all (\<lambda>(k, f). frameRelated fs f) fs \<and>
      list_all (\<lambda>(k, d). dispatchRelated L fs rs d) ds \<and>
      list_all (\<lambda>(k, r). resolutionRelated fs r) rs \<and>
      validateDynamicResolutionDispatches L ds rs (ru_StepResults st) fs \<and>
      cursorsRelated (ru_WriterEpoch st) ds fs (ru_CursorSet st))"

text \<open>The checks of a state that writing and reading a checkpoint share, in the order of the former.\<close>

definition validRunState :: "run_lib \<Rightarrow> bool \<Rightarrow> run_state \<Rightarrow> bool" where
  "validRunState L scoped st =
     (validateInteractionStates L (ru_Interactions st) \<and>
      validateExecutionInvocationCounts (ru_ExecutionCounts st) \<and>
      validateInteractionInvocationCounts (ru_InteractionCounts st) (ru_Interactions st) \<and>
      validateDispatchStates L (ru_WriterEpoch st) (ru_Dispatches st) \<and>
      validateExecutionFrameStates L (ru_WriterEpoch st) (ru_Frames st) \<and>
      validateDynamicIncludeResolutions L (ru_WriterEpoch st) scoped (ru_Resolutions st) \<and>
      validatePendingHandoff L (ru_Status st) (ru_PendingHandoff st) \<and>
      validatePendingTraceEvents L (ru_RunID st) (ru_CommittedTraceSequence st) (ru_PendingTraceEvents st) \<and>
      validateExecutionStateRelationships L st)"

end
