(* ===== verification/Run_Recovery.thy ===== *)
theory Run_Recovery
  imports Run_Relations Go_Text
begin

section \<open>Recovery of an interrupted run\<close>

text \<open>
  What \<^verbatim>\<open>Resume\<close> of \<^verbatim>\<open>runtime/internal/engine/engine.go\<close> makes of the last checkpoint of a run whose process was lost: a dispatch that was
  prepared and not settled may or may not have had its effect, so it and its step become indeterminate, the frame moves past the step,
  and the cursors follow. The clock and the identifier of the new event are arguments.
\<close>

subsection \<open>Plans and cursors\<close>

text \<open>The steps of a plan, each with its depth.\<close>

record run_plan =
  pl_RunbookID :: string
  pl_Steps :: "(string \<times> int) list"

definition nextTopLevel :: "(string \<times> int) list \<Rightarrow> nat \<Rightarrow> nat" where
  "nextTopLevel steps i = i + length (takeWhile (\<lambda>(sid, depth). 0 < depth) (drop i steps))"

definition newCursor :: "int \<Rightarrow> cursor" where
  "newCursor i = \<lparr>cu_QualifiedNodeID = '''', cu_CallPath = [], cu_StepID = '''', cu_StepIndex = i, cu_FrameID = '''', cu_BranchLabel = '''',
     cu_IterationIndex = 0, cu_Phase = ''before'', cu_Invocation = 1, cu_RetryAttempt = 1, cu_AtEnd = False\<rparr>"

definition cursorSet :: "cursor list \<Rightarrow> cursor_set" where
  "cursorSet cs = \<lparr>cs_SchemaVersion = ''yawr.execution-cursor/v1'', cs_Cursors = cs\<rparr>"

text \<open>The order of cursors; frame identifiers break ties, so that the order is total.\<close>

definition cursorLess :: "cursor \<Rightarrow> cursor \<Rightarrow> bool" where
  "cursorLess a b =
     (if cu_QualifiedNodeID a \<noteq> cu_QualifiedNodeID b then bytesLess (cu_QualifiedNodeID a) (cu_QualifiedNodeID b)
      else if cu_IterationIndex a \<noteq> cu_IterationIndex b then cu_IterationIndex a < cu_IterationIndex b
      else bytesLess (cu_FrameID a) (cu_FrameID b))"

primrec insertCursor :: "cursor \<Rightarrow> cursor list \<Rightarrow> cursor list" where
  "insertCursor c [] = [c]"
| "insertCursor c (d # ds) = (if cursorLess d c then d # insertCursor c ds else c # d # ds)"

definition sortCursors :: "cursor list \<Rightarrow> cursor list" where
  "sortCursors cs = foldr insertCursor cs []"

definition activeFrame :: "frame_state \<Rightarrow> bool" where
  "activeFrame f = (fr_Status f = ''active'')"

definition hasActiveExecutionFrame :: "frame_state gomap \<Rightarrow> bool" where
  "hasActiveExecutionFrame fs = list_ex (\<lambda>(k, f). activeFrame f) fs"

definition frameCursor :: "int \<Rightarrow> dispatch_state gomap \<Rightarrow> interaction gomap \<Rightarrow> int gomap \<Rightarrow> frame_state \<Rightarrow> cursor" where
  "frameCursor rootStepIndex ds ias counts f =
     (let stepID = fr_StepIDs f ! nat (fr_NextStepIndex f); nodeID = DebugNodeID (fr_CallPath f) stepID;
          invocation = (case find (\<lambda>(k, i). ia_FrameID i = fr_FrameID f \<and> ia_FrameStepIndex i = fr_NextStepIndex f \<and>
              ia_NodeID i = nodeID \<and> 0 < ia_ExecutionInvocation i) ias of
            None \<Rightarrow> i64 (mget0 0 counts nodeID + 1)
          | Some (k, i) \<Rightarrow> ia_ExecutionInvocation i);
          c = (newCursor rootStepIndex)\<lparr>cu_QualifiedNodeID := nodeID, cu_CallPath := fr_CallPath f, cu_StepID := stepID,
            cu_FrameID := fr_FrameID f, cu_BranchLabel := fr_BranchLabel f, cu_IterationIndex := fr_IterationIndex f,
            cu_Invocation := invocation\<rparr> in
      case preparedAt ds f of
        None \<Rightarrow> c
      | Some d \<Rightarrow> c\<lparr>cu_Phase := ''execute'', cu_Invocation := ds_Invocation d, cu_RetryAttempt := ds_RetryAttempt d\<rparr>)"

definition leafFrame :: "frame_state gomap \<Rightarrow> string \<Rightarrow> frame_state \<Rightarrow> bool" where
  "leafFrame fs k f =
     (activeFrame f \<and> \<not> list_ex (\<lambda>(k', g). activeFrame g \<and> fr_ParentFrameID g \<noteq> '''' \<and> fr_ParentFrameID g = k) fs \<and>
      0 \<le> fr_NextStepIndex f \<and> fr_NextStepIndex f < fr_StepCount f \<and> fr_NextStepIndex f < int (length (fr_StepIDs f)))"

definition executionFrameCursors ::
  "int \<Rightarrow> frame_state gomap \<Rightarrow> dispatch_state gomap \<Rightarrow> interaction gomap \<Rightarrow> int gomap \<Rightarrow> cursor list" where
  "executionFrameCursors rootStepIndex fs ds ias counts =
     (if rootStepIndex < 0 then []
      else sortCursors (map (\<lambda>(k, f). frameCursor rootStepIndex ds ias counts f) (filter (\<lambda>(k, f). leafFrame fs k f) fs)))"

subsection \<open>Dispatches without an outcome\<close>

definition preparedDispatches :: "run_state \<Rightarrow> dispatch_state list" where
  "preparedDispatches st = sort_key ds_OccurrenceSequence (map snd (filter (\<lambda>(k, d). ds_Status d = ''prepared'') (ru_Dispatches st)))"

definition indeterminateResult :: "string \<Rightarrow> string \<Rightarrow> dispatch_state \<Rightarrow> step_record" where
  "indeterminateResult runID now d =
     \<lparr>sx_StepID = ds_StepID d, sx_Status = ''indeterminate'', sx_Outcome = '''', sx_Output = [], sx_Vars = [], sx_StartedAt = now,
      sx_CompletedAt = now,
      sx_Error = Some (''engine: step completion indeterminate; run halted pending verification: unmatched dispatch intent '' @ ds_OccurrenceID d),
      sx_Indeterminate = Some \<lparr>nd_RunID = runID, nd_StepID = ds_StepID d, nd_Classification = ds_Classification d,
        nd_AttemptNumber = ds_RetryAttempt d, nd_FailureTime = now, nd_TransportErrCategory = ''unmatched-dispatch-intent''\<rparr>,
      sx_Rest = ''''\<rparr>"

definition refenceFrames :: "nat \<Rightarrow> frame_state gomap \<Rightarrow> frame_state gomap" where
  "refenceFrames writerEpoch fs = map (\<lambda>(k, f). (k, if activeFrame f then f\<lparr>fr_WriterEpoch := writerEpoch\<rparr> else f)) fs"

definition refenceResolutions :: "nat \<Rightarrow> dyn_resolution gomap \<Rightarrow> dyn_resolution gomap" where
  "refenceResolutions writerEpoch rs =
     map (\<lambda>(k, r). (k, if dr_Status r = ''active'' then r\<lparr>dr_WriterEpoch := writerEpoch\<rparr> else r)) rs"

definition settleIndeterminate :: "string \<Rightarrow> dispatch_state \<Rightarrow> dispatch_state" where
  "settleIndeterminate now d = d\<lparr>ds_Status := ''indeterminate'', ds_ResultDigest := '''', ds_SettledAt := now\<rparr>"

definition passStep :: "step_record \<Rightarrow> int \<Rightarrow> frame_state \<Rightarrow> frame_state" where
  "passStep result i f = f\<lparr>fr_Results := mput (itoa i) result (fr_Results f), fr_NextStepIndex := fr_NextStepIndex f + 1\<rparr>"

definition markOne :: "string \<Rightarrow> run_state \<Rightarrow> dispatch_state \<Rightarrow> run_state option" where
  "markOne now st d =
     (let result = indeterminateResult (ru_RunID st) now d;
          st1 = st\<lparr>ru_Dispatches := mput (ds_OccurrenceID d) (settleIndeterminate now d) (ru_Dispatches st)\<rparr> in
      if ds_FrameID d = '''' then Some (st1\<lparr>ru_StepResults := mput (ds_StepID d) result (ru_StepResults st)\<rparr>)
      else case mget (ru_Frames st) (ds_FrameID d) of
        None \<Rightarrow> None
      | Some f \<Rightarrow>
          if \<not> activeFrame f \<or> ds_FrameStepIndex d \<noteq> fr_NextStepIndex f \<or> fr_StepCount f \<le> ds_FrameStepIndex d then None
          else Some (st1\<lparr>ru_Frames := mput (ds_FrameID d) (passStep result (ds_FrameStepIndex d) f) (ru_Frames st)\<rparr>))"

primrec markAll :: "string \<Rightarrow> dispatch_state list \<Rightarrow> run_state \<Rightarrow> run_state option" where
  "markAll now [] st = Some st"
| "markAll now (d # ds) st = Option.bind (markOne now st d) (markAll now ds)"

definition haltedState :: "nat \<Rightarrow> string \<Rightarrow> run_state \<Rightarrow> run_state" where
  "haltedState writerEpoch now st =
     st\<lparr>ru_WriterEpoch := writerEpoch, ru_Status := ''indeterminate'', ru_CompletedAt := now, ru_UpdatedAt := now,
        ru_Frames := refenceFrames writerEpoch (ru_Frames st), ru_Resolutions := refenceResolutions writerEpoch (ru_Resolutions st)\<rparr>"

definition markPreparedDispatchesIndeterminate :: "nat \<Rightarrow> string \<Rightarrow> run_state \<Rightarrow> (run_state \<times> dispatch_state list) option" where
  "markPreparedDispatchesIndeterminate writerEpoch now st =
     (let prepared = preparedDispatches st in
      if prepared = [] then Some (st, [])
      else map_option (\<lambda>st'. (st', prepared)) (markAll now prepared (haltedState writerEpoch now st)))"

subsection \<open>The recovered state\<close>

definition serialCursorAfterRecoveredDispatch :: "run_plan \<Rightarrow> cursor_set option \<Rightarrow> dispatch_state list \<Rightarrow> cursor_set option" where
  "serialCursorAfterRecoveredDispatch plan cs prepared =
     (case (cs, prepared) of
        (Some s, [d]) \<Rightarrow>
          (case cs_Cursors s of
             [c] \<Rightarrow>
               if cs_SchemaVersion s \<noteq> ''yawr.execution-cursor/v1'' \<or> cu_Phase c \<noteq> ''execute'' \<or> cu_CallPath c \<noteq> [] \<or>
                  cu_StepIndex c < 0 \<or> int (length (pl_Steps plan)) \<le> cu_StepIndex c \<or> cu_StepID c \<noteq> ds_StepID d \<or>
                  cu_QualifiedNodeID c \<noteq> ds_QualifiedNodeID d
               then None
               else
                 (let i = nextTopLevel (pl_Steps plan) (nat (cu_StepIndex c) + 1); n = newCursor (int i) in
                  if length (pl_Steps plan) \<le> i then Some (cursorSet [n\<lparr>cu_AtEnd := True\<rparr>])
                  else
                    (let sid = fst (pl_Steps plan ! i) in
                     Some (cursorSet [n\<lparr>cu_StepID := sid, cu_QualifiedNodeID := DebugNodeID [] sid\<rparr>])))
           | _ \<Rightarrow> None)
      | _ \<Rightarrow> None)"

definition recoveredCursors :: "run_plan \<Rightarrow> run_state \<Rightarrow> dispatch_state list \<Rightarrow> cursor_set option" where
  "recoveredCursors plan st prepared =
     (case serialCursorAfterRecoveredDispatch plan (ru_CursorSet st) prepared of
        Some cs \<Rightarrow> Some cs
      | None \<Rightarrow>
          (let cursors = executionFrameCursors (ru_CurrentStepIndex st) (ru_Frames st) (ru_Dispatches st) (ru_Interactions st) (ru_ExecutionCounts st) in
           if cursors \<noteq> [] then Some (cursorSet cursors)
           else if hasActiveExecutionFrame (ru_Frames st) \<and> 0 \<le> ru_CurrentStepIndex st \<and> ru_CurrentStepIndex st < int (length (pl_Steps plan))
           then
             (let sid = fst (pl_Steps plan ! nat (ru_CurrentStepIndex st)) in
              Some (cursorSet [(newCursor (ru_CurrentStepIndex st))\<lparr>cu_QualifiedNodeID := sid, cu_StepID := sid\<rparr>]))
           else ru_CursorSet st))"

definition cursorAny :: "cursor \<Rightarrow> gany" where
  "cursorAny c = GMap [(''qualified_node_id'', GStr (cu_QualifiedNodeID c)), (''call_path'', GFrames (cu_CallPath c)),
     (''step_id'', GStr (cu_StepID c)), (''step_index'', GInt (cu_StepIndex c)), (''frame_id'', GStr (cu_FrameID c)),
     (''branch_label'', GStr (cu_BranchLabel c)), (''iteration_index'', GInt (cu_IterationIndex c)), (''phase'', GStr (cu_Phase c)),
     (''invocation'', GInt (cu_Invocation c)), (''retry_attempt'', GInt (cu_RetryAttempt c)), (''at_end'', GBool (cu_AtEnd c))]"

definition cursorSetAny :: "cursor_set option \<Rightarrow> gany" where
  "cursorSetAny cs = (case cs of None \<Rightarrow> GNil
     | Some s \<Rightarrow> GMap [(''schema_version'', GStr (cs_SchemaVersion s)), (''cursors'', GList (map cursorAny (cs_Cursors s)))])"

definition stageResumeCommitEvent :: "string \<Rightarrow> string \<Rightarrow> string \<Rightarrow> run_state \<Rightarrow> run_state" where
  "stageResumeCommitEvent eventID now runbookID st =
     (let n = i64 (ru_CommittedTraceSequence st + 1) in
      st\<lparr>ru_CommittedTraceSequence := n,
        ru_PendingTraceEvents := ru_PendingTraceEvents st @
          [\<lparr>te_EventID = eventID, te_RunID = ru_RunID st, te_RunbookID = runbookID, te_Timestamp = now, te_Kind = ''execution/committed'',
            te_Sequence = n,
            te_Payload = [(''checkpoint_sequence'', GInt64 (ru_CheckpointSequence st)), (''status'', GStr (ru_Status st)),
              (''current_step_index'', GInt (ru_CurrentStepIndex st)), (''cursor_set'', cursorSetAny (ru_CursorSet st))]\<rparr>]\<rparr>)"

text \<open>
  What \<^verbatim>\<open>recoverUnmatchedDispatches\<close> makes of a state, \<open>None\<close> for an error, and whether it changed the state and so has to save it. The
  clock is read when the dispatches are marked (\<open>now\<close>) and again for the event (\<open>stamp\<close>).
\<close>

definition recoveredState ::
  "string \<Rightarrow> string \<Rightarrow> string \<Rightarrow> run_plan \<Rightarrow> nat \<Rightarrow> run_state \<Rightarrow> (run_state \<times> bool) option" where
  "recoveredState eventID now stamp plan writerEpoch st =
     (case markPreparedDispatchesIndeterminate writerEpoch now st of
        None \<Rightarrow> None
      | Some (st', prepared) \<Rightarrow>
          if prepared = [] then Some (st', False)
          else
            (let st1 = st'\<lparr>ru_CursorSet := recoveredCursors plan st' prepared, ru_CheckpointSequence := i64 (ru_CheckpointSequence st' + 1)\<rparr> in
             Some (stageResumeCommitEvent eventID stamp (pl_RunbookID plan) st1, True)))"

text \<open>The state of \<^verbatim>\<open>refenceActiveExecutionState\<close>, and whether it has to be saved.\<close>

definition requiresRefence :: "nat \<Rightarrow> run_state \<Rightarrow> bool" where
  "requiresRefence writerEpoch st =
     (list_ex (\<lambda>(k, f). activeFrame f \<and> fr_WriterEpoch f \<noteq> writerEpoch) (ru_Frames st) \<or>
      list_ex (\<lambda>(k, r). dr_Status r = ''active'' \<and> dr_WriterEpoch r \<noteq> writerEpoch) (ru_Resolutions st))"

definition refencedState :: "string \<Rightarrow> string \<Rightarrow> string \<Rightarrow> nat \<Rightarrow> run_state \<Rightarrow> run_state \<times> bool" where
  "refencedState eventID now stamp writerEpoch st =
     (if requiresRefence writerEpoch st then
        (stageResumeCommitEvent eventID stamp ''''
          (st\<lparr>ru_WriterEpoch := writerEpoch, ru_UpdatedAt := now, ru_Frames := refenceFrames writerEpoch (ru_Frames st),
             ru_Resolutions := refenceResolutions writerEpoch (ru_Resolutions st), ru_CheckpointSequence := i64 (ru_CheckpointSequence st + 1)\<rparr>), True)
      else (st, False))"

subsection \<open>The checkpoint that a run resumes from\<close>

text \<open>
  The part of \<^verbatim>\<open>Resume\<close> between loading the checkpoint and rebuilding the run. Writing succeeds on a state that passes its checks; the trace has been
  projected, so no event is pending, and \<open>lastSeq\<close> is the last sequence number of the trace. The identifier of the event and the readings of the
  clock are given for the recovery and for the new fence. Loading the plan and the checks of the plan itself and of typed values are left out.
\<close>

datatype resume_error = IndeterminateAcknowledgmentRequired | HandoffPending | PlanDigestMismatch | UnmatchedDispatch | CheckpointCommit

definition saveRecovered :: "run_lib \<Rightarrow> bool \<Rightarrow> run_state \<times> bool \<Rightarrow> resume_error + run_state" where
  "saveRecovered L scoped r =
     (if snd r \<and> \<not> validRunState L scoped (fst r) then Inl CheckpointCommit else Inr ((fst r)\<lparr>ru_PendingTraceEvents := []\<rparr>))"

definition resumeCheckpoint ::
  "run_lib \<Rightarrow> bool \<Rightarrow> (string \<times> string \<times> string) \<Rightarrow> (string \<times> string \<times> string) \<Rightarrow> bool \<Rightarrow> string \<Rightarrow> int \<Rightarrow> run_plan \<Rightarrow> nat \<Rightarrow> run_state \<Rightarrow>
    resume_error + run_state" where
  "resumeCheckpoint L scoped recovery refence acknowledged durablePlanDigest lastSeq plan writerEpoch st =
     (if ru_Status st = ''indeterminate'' \<and> \<not> acknowledged then Inl IndeterminateAcknowledgmentRequired
      else if ru_Status st = ''handoff_pending'' then Inl HandoffPending
      else if ru_PlanSnapshotDigest st = '''' \<or> durablePlanDigest = '''' \<or> ru_PlanSnapshotDigest st \<noteq> durablePlanDigest then Inl PlanDigestMismatch
      else
        (let st0 = st\<lparr>ru_PendingTraceEvents := [], ru_CommittedTraceSequence := max (ru_CommittedTraceSequence st) lastSeq\<rparr>;
             (eid, now, stamp) = recovery; (eid', now', stamp') = refence in
         case recoveredState eid now stamp plan writerEpoch st0 of
           None \<Rightarrow> Inl UnmatchedDispatch
         | Some (st1, recoveredDispatch) \<Rightarrow>
             (case saveRecovered L scoped (st1, recoveredDispatch) of
                Inl err \<Rightarrow> Inl err
              | Inr st2 \<Rightarrow>
                  if recoveredDispatch then Inl IndeterminateAcknowledgmentRequired
                  else
                    (case saveRecovered L scoped (refencedState eid' now' stamp' writerEpoch st2) of
                       Inl err \<Rightarrow> Inl err
                     | Inr st3 \<Rightarrow>
                         if ru_Status st3 = ''indeterminate'' \<and> \<not> acknowledged then Inl IndeterminateAcknowledgmentRequired else Inr st3))))"

end
