(* ===== verification/Run_Resume.thy ===== *)
theory Run_Resume
  imports Run_Recovery Go_Decimal
begin

section \<open>A recovered state is accepted\<close>

text \<open>
  The closed form of \<^verbatim>\<open>markPreparedDispatchesIndeterminate\<close>, and that each check of a checkpoint that held before the recovery holds after
  it. The checks are quantified over the entries of maps, so the closed form maps over the entries.
\<close>

subsection \<open>Maps whose entries change in place\<close>

lemma mput_known:
  "mwf m \<Longrightarrow> k \<in> fst ` set m \<Longrightarrow> mput k v m = map (\<lambda>(k', x). (k', if k' = k then v else x)) m"
proof (induction m)
  case (Cons p m)
  obtain k' x where p: "p = (k', x)" by (cases p)
  show ?case
  proof (cases "k' = k")
    case True
    with Cons.prems(1) p have "\<forall>q\<in>set m. fst q \<noteq> k" by (force simp: mwf_def)
    then have "map (\<lambda>(k', x). (k', if k' = k then v else x)) m = m" by (intro map_idI) auto
    with True p show ?thesis by simp
  next
    case False
    with Cons p show ?thesis by (simp add: mwf_def)
  qed
qed simp

lemma mput_fresh: "k \<notin> fst ` set m \<Longrightarrow> mput k v m = m @ [(k, v)]"
  by (induction m) auto

lemma mget_map_entries: "mget (map (\<lambda>(k, x). (k, g k x)) m) k = map_option (g k) (mget m k)"
  by (induction m) (auto simp: mget_def)

lemma keys_map_entries: "map fst (map (\<lambda>(k, x). (k, g k x)) m) = map fst m"
  by (induction m) auto

lemma mwf_map_entries [simp]: "mwf (map (\<lambda>(k, x). (k, g k x)) m) = mwf m"
  unfolding mwf_def keys_map_entries by (rule refl)

lemma list_all_map_entries:
  "list_all (\<lambda>(k, x). P k x) (map (\<lambda>(k, x). (k, g k x)) m) = list_all (\<lambda>(k, x). P k (g k x)) m"
  by (induction m) auto

lemma map_entries_map_entries:
  "map (\<lambda>(k, x). (k, h k x)) (map (\<lambda>(k, x). (k, g k x)) m) = map (\<lambda>(k, x). (k, h k (g k x))) m"
  by (induction m) auto

lemma map_entries_cong:
  "(\<And>k x. (k, x) \<in> set m \<Longrightarrow> g k x = h k x) \<Longrightarrow> map (\<lambda>(k, x). (k, g k x)) m = map (\<lambda>(k, x). (k, h k x)) m"
  by (auto intro: map_cong)

lemma mget_known_key: "mget m k = Some v \<Longrightarrow> k \<in> fst ` set m"
  by (force simp: mget_def dest: map_of_SomeD)

subsection \<open>The closed form\<close>

definition settleAll :: "string \<Rightarrow> dispatch_state list \<Rightarrow> dispatch_state gomap \<Rightarrow> dispatch_state gomap" where
  "settleAll now ps ds = map (\<lambda>(k, d). (k, if k \<in> ds_OccurrenceID ` set ps then settleIndeterminate now d else d)) ds"

definition moveFrame :: "string \<Rightarrow> string \<Rightarrow> dispatch_state list \<Rightarrow> string \<Rightarrow> frame_state \<Rightarrow> frame_state" where
  "moveFrame runID now ps k f =
     (case find (\<lambda>d. ds_FrameID d = k) ps of
        None \<Rightarrow> f
      | Some d \<Rightarrow> passStep (indeterminateResult runID now d) (ds_FrameStepIndex d) f)"

definition moveFrames :: "string \<Rightarrow> string \<Rightarrow> dispatch_state list \<Rightarrow> frame_state gomap \<Rightarrow> frame_state gomap" where
  "moveFrames runID now ps fs = map (\<lambda>(k, f). (k, moveFrame runID now ps k f)) fs"

definition rootResults :: "string \<Rightarrow> string \<Rightarrow> dispatch_state list \<Rightarrow> step_record gomap \<Rightarrow> step_record gomap" where
  "rootResults runID now ps results =
     fold (\<lambda>d. if ds_FrameID d = '''' then mput (ds_StepID d) (indeterminateResult runID now d) else id) ps results"

text \<open>What the prepared dispatches have to be: entries of the map, and each at the next child of an active frame of its own.\<close>

definition markable :: "run_state \<Rightarrow> dispatch_state list \<Rightarrow> bool" where
  "markable st ps =
     (mwf (ru_Dispatches st) \<and> mwf (ru_Frames st) \<and> '''' \<notin> fst ` set (ru_Frames st) \<and>
      (\<forall>d\<in>set ps. mget (ru_Dispatches st) (ds_OccurrenceID d) = Some d) \<and> distinct (map ds_OccurrenceID ps) \<and>
      distinct (filter (\<lambda>k. k \<noteq> '''') (map ds_FrameID ps)) \<and>
      (\<forall>d\<in>set ps. ds_FrameID d \<noteq> '''' \<longrightarrow>
        (\<exists>f. mget (ru_Frames st) (ds_FrameID d) = Some f \<and> activeFrame f \<and> ds_FrameStepIndex d = fr_NextStepIndex f \<and>
          fr_NextStepIndex f < fr_StepCount f)))"

lemma mwf_settleAll [simp]: "mwf (settleAll now ps ds) = mwf ds"
  by (simp add: settleAll_def)

lemma settleAll_Cons:
  assumes "mwf ds" and "mget ds (ds_OccurrenceID d) = Some d" and "ds_OccurrenceID d \<notin> ds_OccurrenceID ` set ps"
  shows "settleAll now ps (mput (ds_OccurrenceID d) (settleIndeterminate now d) ds) = settleAll now (d # ps) ds"
proof -
  have "mget ds k = Some x" if "(k, x) \<in> set ds" for k x using that assms(1) by (simp add: mget_mem)
  with assms show ?thesis
    unfolding settleAll_def mput_known [OF assms(1) mget_known_key [OF assms(2)]] map_entries_map_entries
    by (intro map_entries_cong) auto
qed

lemma moveFrames_Cons:
  assumes "mwf fs" and "mget fs (ds_FrameID d) = Some f" and "ds_FrameID d \<notin> ds_FrameID ` set ps"
  shows "moveFrames runID now ps (mput (ds_FrameID d) (passStep (indeterminateResult runID now d) (ds_FrameStepIndex d) f) fs) =
    moveFrames runID now (d # ps) fs"
proof -
  have "mget fs k = Some x" if "(k, x) \<in> set fs" for k x using that assms(1) by (simp add: mget_mem)
  moreover have "find (\<lambda>e. ds_FrameID e = ds_FrameID d) ps = None" using assms(3) by (metis (mono_tags, lifting) find_None_iff imageI)
  ultimately show ?thesis
    using assms unfolding moveFrames_def mput_known [OF assms(1) mget_known_key [OF assms(2)]] map_entries_map_entries moveFrame_def
    by (intro map_entries_cong) auto
qed

lemma moveFrames_root: "ds_FrameID d = '''' \<Longrightarrow> '''' \<notin> fst ` set fs \<Longrightarrow> moveFrames runID now (d # ps) fs = moveFrames runID now ps fs"
  unfolding moveFrames_def moveFrame_def by (intro map_entries_cong) force

lemma markAll_closed:
  "markable st ps \<Longrightarrow> markAll now ps st = Some (st\<lparr>ru_Dispatches := settleAll now ps (ru_Dispatches st),
     ru_Frames := moveFrames (ru_RunID st) now ps (ru_Frames st), ru_StepResults := rootResults (ru_RunID st) now ps (ru_StepResults st)\<rparr>)"
proof (induction ps arbitrary: st)
  case Nil
  show ?case by (simp add: settleAll_def moveFrames_def moveFrame_def rootResults_def)
next
  case (Cons d ps)
  note m = Cons.prems [unfolded markable_def]
  have d: "mget (ru_Dispatches st) (ds_OccurrenceID d) = Some d" "ds_OccurrenceID d \<notin> ds_OccurrenceID ` set ps"
    using m by auto
  let ?r = "indeterminateResult (ru_RunID st) now d"
  let ?ds = "mput (ds_OccurrenceID d) (settleIndeterminate now d) (ru_Dispatches st)"
  show ?case
  proof (cases "ds_FrameID d = ''''")
    case True
    let ?st = "st\<lparr>ru_Dispatches := ?ds, ru_StepResults := mput (ds_StepID d) ?r (ru_StepResults st)\<rparr>"
    have "markable ?st ps" using m True by (auto simp: markable_def)
    from Cons.IH [OF this] True m d show ?thesis
      by (simp add: markOne_def Let_def settleAll_Cons moveFrames_root rootResults_def)
  next
    case False
    then obtain f where f: "mget (ru_Frames st) (ds_FrameID d) = Some f" "activeFrame f" "ds_FrameStepIndex d = fr_NextStepIndex f"
        "fr_NextStepIndex f < fr_StepCount f" using m by auto
    let ?fs = "mput (ds_FrameID d) (passStep ?r (ds_FrameStepIndex d) f) (ru_Frames st)"
    let ?st = "st\<lparr>ru_Dispatches := ?ds, ru_Frames := ?fs\<rparr>"
    have fresh: "ds_FrameID d \<notin> ds_FrameID ` set ps" using m False by auto
    have "markable ?st ps" using m False fresh by (auto simp: markable_def mput_keys)
    from Cons.IH [OF this] False m d f fresh moveFrames_Cons [of "ru_Frames st" d f ps "ru_RunID st" now] show ?thesis
      by (simp add: markOne_def Let_def settleAll_Cons rootResults_def)
  qed
qed

subsection \<open>What a state needs to be recovered\<close>

text \<open>
  A prepared dispatch of a frame is the only one of the frame, no operator is being asked for that frame, and it has neither an active
  child frame nor an active resolution. A prepared dispatch of a top-level step does not follow a dynamic include of the same step that
  found nothing.
\<close>

definition recoverable :: "run_lib \<Rightarrow> run_state \<Rightarrow> bool" where
  "recoverable L st =
     (\<forall>d\<in>set (preparedDispatches st).
        if ds_FrameID d \<noteq> '''' then
          (\<forall>d'\<in>set (preparedDispatches st). ds_FrameID d' = ds_FrameID d \<longrightarrow> d' = d) \<and>
          list_all (\<lambda>(k, i). ia_FrameID i \<noteq> ds_FrameID d) (ru_Interactions st) \<and>
          list_all (\<lambda>(k, f). activeFrame f \<longrightarrow> fr_ParentFrameID f \<noteq> ds_FrameID d) (ru_Frames st) \<and>
          list_all (\<lambda>(k, r). dr_Status r = ''active'' \<longrightarrow> dr_FrameID r \<noteq> ds_FrameID d) (ru_Resolutions st)
        else
          list_all (\<lambda>(k, d'). settledResolver d' \<and> ds_FrameID d' = '''' \<and> ds_StepID d' = ds_StepID d \<longrightarrow>
            list_ex (\<lambda>(k', r). resolverOf L r d') (ru_Resolutions st)) (ru_Dispatches st))"

definition wfMaps :: "run_state \<Rightarrow> bool" where
  "wfMaps st = (mwf (ru_Dispatches st) \<and> mwf (ru_Frames st) \<and> list_all (\<lambda>(k, f). mwf (fr_Results f)) (ru_Frames st))"

lemma set_prepared: "d \<in> set (preparedDispatches st) \<longleftrightarrow> ds_Status d = ''prepared'' \<and> (\<exists>k. (k, d) \<in> set (ru_Dispatches st))"
  by (force simp: preparedDispatches_def)

lemma dispatch_key: "validateDispatchStates L e ds \<Longrightarrow> (k, d) \<in> set ds \<Longrightarrow> ds_OccurrenceID d = k"
  by (auto simp: validateDispatchStates_def list_all_iff validDispatch_def)

lemma prepared_entry:
  assumes "validateDispatchStates L e (ru_Dispatches st)" and "mwf (ru_Dispatches st)" and "d \<in> set (preparedDispatches st)"
  shows "mget (ru_Dispatches st) (ds_OccurrenceID d) = Some d"
  using assms dispatch_key [OF assms(1)] by (auto simp: set_prepared mget_mem)

lemma distinct_map_filter: "distinct (map f xs) \<Longrightarrow> distinct (map f (filter P xs))"
  by (induction xs) auto

lemma distinct_sort_key: "distinct (map f (sort_key g xs)) = distinct (map f xs)"
  by (simp add: distinct_map)

lemma distinct_prepared:
  assumes "validateDispatchStates L e (ru_Dispatches st)" and "mwf (ru_Dispatches st)"
  shows "distinct (map ds_OccurrenceID (preparedDispatches st))"
proof -
  let ?ps = "filter (\<lambda>(k, d). ds_Status d = ''prepared'') (ru_Dispatches st)"
  have keys: "map ds_OccurrenceID (map snd ?ps) = map fst ?ps"
    using dispatch_key [OF assms(1)] by auto
  have "distinct (map fst ?ps)"
    using assms(2) by (intro distinct_map_filter) (simp add: mwf_def)
  then have "distinct (map ds_OccurrenceID (map snd ?ps))" unfolding keys .
  then show ?thesis unfolding preparedDispatches_def distinct_sort_key .
qed

lemma distinct_frames:
  assumes "distinct (map ds_OccurrenceID ps)" and "\<And>d d'. d \<in> set ps \<Longrightarrow> d' \<in> set ps \<Longrightarrow> ds_FrameID d \<noteq> '''' \<Longrightarrow> ds_FrameID d' = ds_FrameID d \<Longrightarrow> d' = d"
  shows "distinct (filter (\<lambda>k. k \<noteq> '''') (map ds_FrameID ps))"
  using assms
proof (induction ps)
  case (Cons d ps)
  have "ds_FrameID d \<notin> ds_FrameID ` set ps" if "ds_FrameID d \<noteq> ''''"
  proof
    assume "ds_FrameID d \<in> ds_FrameID ` set ps"
    then obtain d' where "d' \<in> set ps" "ds_FrameID d' = ds_FrameID d" by auto
    with Cons.prems(2) [of d d'] that have "d \<in> set ps" by simp
    with Cons.prems(1) show False by auto
  qed
  with Cons show ?case by auto
qed simp

lemma frame_key: "validateExecutionFrameStates L e fs \<Longrightarrow> (k, f) \<in> set fs \<Longrightarrow> validFrame L e k f"
  by (auto simp: validateExecutionFrameStates_def list_all_iff)

subsection \<open>Frames that move\<close>

definition refenceFrame :: "nat \<Rightarrow> frame_state \<Rightarrow> frame_state" where
  "refenceFrame e f = (if activeFrame f then f\<lparr>fr_WriterEpoch := e\<rparr> else f)"

lemma refenceFrames_entries: "refenceFrames e fs = map (\<lambda>(k, f). (k, refenceFrame e f)) fs"
  by (simp add: refenceFrames_def refenceFrame_def)

lemma refenceFrame_sel [simp]:
  "fr_SchemaVersion (refenceFrame e f) = fr_SchemaVersion f" "fr_FrameID (refenceFrame e f) = fr_FrameID f"
  "fr_ParentFrameID (refenceFrame e f) = fr_ParentFrameID f" "fr_ParentQualifiedNodeID (refenceFrame e f) = fr_ParentQualifiedNodeID f"
  "fr_ParentStepID (refenceFrame e f) = fr_ParentStepID f" "fr_Kind (refenceFrame e f) = fr_Kind f"
  "fr_CallPath (refenceFrame e f) = fr_CallPath f" "fr_BranchLabel (refenceFrame e f) = fr_BranchLabel f"
  "fr_IterationIndex (refenceFrame e f) = fr_IterationIndex f" "fr_Invocation (refenceFrame e f) = fr_Invocation f"
  "fr_DefinitionDigest (refenceFrame e f) = fr_DefinitionDigest f" "fr_StepCount (refenceFrame e f) = fr_StepCount f"
  "fr_StepIDs (refenceFrame e f) = fr_StepIDs f" "fr_NextStepIndex (refenceFrame e f) = fr_NextStepIndex f"
  "fr_Results (refenceFrame e f) = fr_Results f" "fr_Status (refenceFrame e f) = fr_Status f"
  "fr_StartedAt (refenceFrame e f) = fr_StartedAt f" "fr_CompletedAt (refenceFrame e f) = fr_CompletedAt f"
  by (simp_all add: refenceFrame_def)

lemma moveFrame_sel [simp]:
  "fr_SchemaVersion (moveFrame r t ps k f) = fr_SchemaVersion f" "fr_FrameID (moveFrame r t ps k f) = fr_FrameID f"
  "fr_ParentFrameID (moveFrame r t ps k f) = fr_ParentFrameID f" "fr_WriterEpoch (moveFrame r t ps k f) = fr_WriterEpoch f"
  "fr_ParentQualifiedNodeID (moveFrame r t ps k f) = fr_ParentQualifiedNodeID f"
  "fr_ParentStepID (moveFrame r t ps k f) = fr_ParentStepID f" "fr_Kind (moveFrame r t ps k f) = fr_Kind f"
  "fr_CallPath (moveFrame r t ps k f) = fr_CallPath f" "fr_BranchLabel (moveFrame r t ps k f) = fr_BranchLabel f"
  "fr_IterationIndex (moveFrame r t ps k f) = fr_IterationIndex f" "fr_Invocation (moveFrame r t ps k f) = fr_Invocation f"
  "fr_DefinitionDigest (moveFrame r t ps k f) = fr_DefinitionDigest f" "fr_StepCount (moveFrame r t ps k f) = fr_StepCount f"
  "fr_StepIDs (moveFrame r t ps k f) = fr_StepIDs f" "fr_Status (moveFrame r t ps k f) = fr_Status f"
  "fr_StartedAt (moveFrame r t ps k f) = fr_StartedAt f" "fr_CompletedAt (moveFrame r t ps k f) = fr_CompletedAt f"
  by (simp_all add: moveFrame_def passStep_def split: option.split)

lemma activeFrame_sel [simp]: "activeFrame (refenceFrame e f) = activeFrame f" "activeFrame (moveFrame r t ps k f) = activeFrame f"
  by (simp_all add: activeFrame_def)

lemma childAt_sel [simp]: "childAt (refenceFrame e f) = childAt f" "childAt (moveFrame r t ps k f) = childAt f"
  by (simp_all add: fun_eq_iff childAt_def)

lemma resultAt_refence [simp]: "resultAt (refenceFrame e f) = resultAt f"
  by (simp add: fun_eq_iff resultAt_def)

lemma find_Some_set: "find P xs = Some x \<Longrightarrow> x \<in> set xs \<and> P x"
  by (induction xs) (auto split: if_splits)

lemma moveFrame_other: "k \<notin> ds_FrameID ` set ps \<Longrightarrow> moveFrame r t ps k f = f"
proof -
  assume "k \<notin> ds_FrameID ` set ps"
  then have "find (\<lambda>d. ds_FrameID d = k) ps = None" by (metis (mono_tags, lifting) find_None_iff imageI)
  then show ?thesis by (simp add: moveFrame_def)
qed

lemma moveFrame_marked:
  assumes "d \<in> set ps" and "ds_FrameID d = k"
  obtains d' where "d' \<in> set ps" "ds_FrameID d' = k" "moveFrame r t ps k f = passStep (indeterminateResult r t d') (ds_FrameStepIndex d') f"
proof -
  have "find (\<lambda>d. ds_FrameID d = k) ps \<noteq> None" using assms by (auto simp: find_None_iff)
  then obtain d' where d': "find (\<lambda>d. ds_FrameID d = k) ps = Some d'" by blast
  show thesis by (rule that [of d']) (use find_Some_set [OF d'] d' in \<open>simp_all add: moveFrame_def\<close>)
qed

lemma itoa_inject: "0 \<le> i \<Longrightarrow> 0 \<le> j \<Longrightarrow> itoa i = itoa j \<longleftrightarrow> i = j"
  by (auto simp: itoa_def natDigits_inject)

lemma validFrame_results:
  assumes "validFrame L e k f"
  shows "int (length (fr_Results f)) = fr_NextStepIndex f"
    and "\<And>j. 0 \<le> j \<Longrightarrow> j < fr_NextStepIndex f \<Longrightarrow> \<exists>r. mget (fr_Results f) (itoa j) = Some r \<and> sx_StepID r \<noteq> ''''"
proof -
  show "int (length (fr_Results f)) = fr_NextStepIndex f" using assms unfolding validFrame_def by blast
  have "list_all (\<lambda>i. case mget (fr_Results f) (itoa i) of None \<Rightarrow> False | Some r \<Rightarrow> sx_StepID r \<noteq> '''') [0..fr_NextStepIndex f - 1]"
    using assms unfolding validFrame_def by blast
  then show "\<exists>r. mget (fr_Results f) (itoa j) = Some r \<and> sx_StepID r \<noteq> ''''" if "0 \<le> j" "j < fr_NextStepIndex f" for j
    using that by (cases "mget (fr_Results f) (itoa j)") (force simp: list_all_iff)+
qed

lemma next_result_fresh:
  assumes "validFrame L e k f"
  shows "itoa (fr_NextStepIndex f) \<notin> fst ` set (fr_Results f)"
proof
  let ?n = "fr_NextStepIndex f"
  assume "itoa ?n \<in> fst ` set (fr_Results f)"
  moreover have "itoa j \<in> fst ` set (fr_Results f)" if "0 \<le> j" "j < ?n" for j
    using validFrame_results(2) [OF assms that] by (auto dest: mget_known_key)
  ultimately have "itoa j \<in> fst ` set (fr_Results f)" if "j \<in> {0..?n}" for j
    using that by (cases "j = ?n") auto
  then have "itoa ` {0..?n} \<subseteq> fst ` set (fr_Results f)" by auto
  then have "card (itoa ` {0..?n}) \<le> card (fst ` set (fr_Results f))" by (intro card_mono) auto
  moreover have "card (fst ` set (fr_Results f)) \<le> length (fr_Results f)"
    by (metis card_length length_map set_map)
  moreover have "card (itoa ` {0..?n}) = nat (?n + 1)"
    by (subst card_image) (auto simp: inj_on_def itoa_inject)
  ultimately show False using validFrame_results(1) [OF assms] by linarith
qed

lemma validFrame_refence: "validFrame L e k f \<Longrightarrow> e' \<noteq> 0 \<Longrightarrow> validFrame L e' k (refenceFrame e' f)"
  by (cases "activeFrame f") (clarsimp simp: validFrame_def refenceFrame_def activeFrame_def split: if_splits)+

lemma validFrame_pass:
  assumes f: "validFrame L e k f" and "activeFrame f" and "fr_NextStepIndex f < fr_StepCount f" and r: "sx_StepID r \<noteq> ''''"
  shows "validFrame L e k (passStep r (fr_NextStepIndex f) f)"
proof -
  let ?n = "fr_NextStepIndex f"
  have n: "0 \<le> ?n" using f by (simp add: validFrame_def)
  have len: "int (length (mput (itoa ?n) r (fr_Results f))) = ?n + 1"
    using validFrame_results(1) [OF f] by (simp add: mput_fresh [OF next_result_fresh [OF f]])
  have "case mget (mput (itoa ?n) r (fr_Results f)) (itoa j) of None \<Rightarrow> False | Some x \<Rightarrow> sx_StepID x \<noteq> ''''"
    if "0 \<le> j" "j \<le> ?n" for j
    using validFrame_results(2) [OF f, of j] that n r by (cases "j = ?n") (auto simp: itoa_inject)
  then have "list_all (\<lambda>j. case mget (mput (itoa ?n) r (fr_Results f)) (itoa j) of None \<Rightarrow> False | Some x \<Rightarrow> sx_StepID x \<noteq> '''') [0..?n]"
    by (auto simp: list_all_iff)
  with len assms show ?thesis by (clarsimp simp: validFrame_def passStep_def activeFrame_def)
qed

subsection \<open>Dispatches and resolutions that change\<close>

lemma validDispatch_settle:
  "validDispatch L e k d \<Longrightarrow> rl_time L now \<Longrightarrow> ds_Status d = ''prepared'' \<Longrightarrow> validDispatch L e' k (settleIndeterminate now d)"
  by (clarsimp simp: validDispatch_def settleIndeterminate_def)

lemma validDispatch_epoch: "validDispatch L e k d \<Longrightarrow> ds_Status d \<noteq> ''prepared'' \<Longrightarrow> validDispatch L e' k d"
  by (clarsimp simp: validDispatch_def)

lemma settleAll_prepared:
  assumes "validateDispatchStates L e (ru_Dispatches st)" and "mwf (ru_Dispatches st)"
  shows "settleAll now (preparedDispatches st) (ru_Dispatches st) =
    map (\<lambda>(k, d). (k, if ds_Status d = ''prepared'' then settleIndeterminate now d else d)) (ru_Dispatches st)"
  unfolding settleAll_def
proof (rule map_entries_cong)
  fix k d
  assume d: "(k, d) \<in> set (ru_Dispatches st)"
  have "k \<in> ds_OccurrenceID ` set (preparedDispatches st) \<longleftrightarrow> ds_Status d = ''prepared''"
  proof
    assume "k \<in> ds_OccurrenceID ` set (preparedDispatches st)"
    then obtain d' where d': "d' \<in> set (preparedDispatches st)" "k = ds_OccurrenceID d'" by auto
    with prepared_entry [OF assms d'(1)] d assms(2) have "d' = d" by (simp add: mget_mem)
    with d'(1) show "ds_Status d = ''prepared''" by (simp add: set_prepared)
  next
    assume "ds_Status d = ''prepared''"
    with d have "d \<in> set (preparedDispatches st)" by (auto simp: set_prepared)
    with dispatch_key [OF assms(1) d] show "k \<in> ds_OccurrenceID ` set (preparedDispatches st)" by auto
  qed
  then show "(if k \<in> ds_OccurrenceID ` set (preparedDispatches st) then settleIndeterminate now d else d) =
      (if ds_Status d = ''prepared'' then settleIndeterminate now d else d)" by simp
qed

definition refenceResolution :: "nat \<Rightarrow> dyn_resolution \<Rightarrow> dyn_resolution" where
  "refenceResolution e r = (if dr_Status r = ''active'' then r\<lparr>dr_WriterEpoch := e\<rparr> else r)"

lemma refenceResolutions_entries: "refenceResolutions e rs = map (\<lambda>(k, r). (k, refenceResolution e r)) rs"
  by (simp add: refenceResolutions_def refenceResolution_def)

lemma refenceResolution_sel [simp]:
  "dr_SchemaVersion (refenceResolution e r) = dr_SchemaVersion r" "dr_ResolutionID (refenceResolution e r) = dr_ResolutionID r"
  "dr_QualifiedNodeID (refenceResolution e r) = dr_QualifiedNodeID r" "dr_CallPath (refenceResolution e r) = dr_CallPath r"
  "dr_StepID (refenceResolution e r) = dr_StepID r" "dr_FrameID (refenceResolution e r) = dr_FrameID r"
  "dr_FrameStepIndex (refenceResolution e r) = dr_FrameStepIndex r" "dr_Invocation (refenceResolution e r) = dr_Invocation r"
  "dr_Revision (refenceResolution e r) = dr_Revision r" "dr_Pin (refenceResolution e r) = dr_Pin r"
  "dr_Status (refenceResolution e r) = dr_Status r" "dr_CommittedAt (refenceResolution e r) = dr_CommittedAt r"
  "dr_CompletedAt (refenceResolution e r) = dr_CompletedAt r"
  by (simp_all add: refenceResolution_def)

lemma refence_relations [simp]:
  "dispatchOf d (refenceResolution e r) = dispatchOf d r" "pinDigest L (refenceResolution e r) = pinDigest L r"
  "resolverOf L (refenceResolution e r) = resolverOf L r" "resolvedAt (refenceResolution e r) = resolvedAt r"
  "laterSuccess L ds d (refenceResolution e r) = laterSuccess L ds d r" "validPin L scoped (refenceResolution e r) = validPin L scoped r"
  "resolutionVersionOk (refenceResolution e r) = resolutionVersionOk r"
  by (simp_all add: fun_eq_iff dispatchOf_def pinDigest_def resolverOf_def resolvedAt_def laterSuccess_def validPin_def resolutionV2_def
      resolutionVersionOk_def)

lemma refence_resolutionRelated [simp]: "resolutionRelated fs (refenceResolution e r) = resolutionRelated fs r"
  unfolding resolutionRelated_def refenceResolution_sel ..

lemma find_map_entries:
  "find (\<lambda>(k, x). P k x) (map (\<lambda>(k, x). (k, g k x)) m) = map_option (\<lambda>(k, x). (k, g k x)) (find (\<lambda>(k, x). P k (g k x)) m)"
  by (induction m) auto

lemma list_ex_map_entries:
  "list_ex (\<lambda>(k, x). P k x) (map (\<lambda>(k, x). (k, g k x)) m) = list_ex (\<lambda>(k, x). P k (g k x)) m"
  by (induction m) auto

lemma refence_matchesActive [simp]:
  "matchesActiveDynamicResolutionDispatch L (refenceResolutions e rs) d = matchesActiveDynamicResolutionDispatch L rs d"
  unfolding matchesActiveDynamicResolutionDispatch_def refenceResolutions_entries find_map_entries
  by (simp split: option.split)

lemma refence_matchesHistorical [simp]:
  "matchesHistoricalDynamicIncludeNotFound L ds (refenceResolutions e rs) d = matchesHistoricalDynamicIncludeNotFound L ds rs d"
  unfolding matchesHistoricalDynamicIncludeNotFound_def refenceResolutions_entries find_map_entries
  by (simp split: option.split)

lemma validResolution_refence:
  "validResolution L e scoped k r \<Longrightarrow> e' \<noteq> 0 \<Longrightarrow> validResolution L e' scoped k (refenceResolution e' r)"
  unfolding validResolution_def refenceResolution_sel refence_relations
  by (cases "dr_Status r = ''active''") (clarsimp simp: refenceResolution_def)+

lemma validResolutions_refence:
  assumes "validateDynamicIncludeResolutions L e scoped rs" and "e' \<noteq> 0"
  shows "validateDynamicIncludeResolutions L e' scoped (refenceResolutions e' rs)"
proof -
  have revisions: "map (\<lambda>(k, r). dr_Revision r) (refenceResolutions e' rs) = map (\<lambda>(k, r). dr_Revision r) rs"
    unfolding refenceResolutions_entries by (induction rs) auto
  have len: "length (refenceResolutions e' rs) = length rs" by (simp add: refenceResolutions_entries)
  have valid: "list_all (\<lambda>(k, r). validResolution L e' scoped k r) (refenceResolutions e' rs)"
    using assms unfolding refenceResolutions_entries list_all_map_entries validateDynamicIncludeResolutions_def
    by (auto simp: Let_def list_all_iff intro: validResolution_refence)
  show ?thesis
    using assms(1) valid unfolding validateDynamicIncludeResolutions_def revisions len Let_def by blast
qed

end
