(* ===== verification/Run_Recovered.thy ===== *)
theory Run_Recovered
  imports Run_Resume
begin

section \<open>Every check of a recovered state\<close>

text \<open>
  One lemma per check of a checkpoint: it holds of the frames, dispatches and resolutions that recovery leaves when it held before. The
  facts they share are collected once: where the frame of a prepared dispatch stands, and which frames do not move.
\<close>

subsection \<open>Frames of prepared dispatches\<close>

definition movedFrame :: "nat \<Rightarrow> string \<Rightarrow> string \<Rightarrow> dispatch_state list \<Rightarrow> string \<Rightarrow> frame_state \<Rightarrow> frame_state" where
  "movedFrame e runID now ps k f = moveFrame runID now ps k (refenceFrame e f)"

definition movedFrames :: "nat \<Rightarrow> string \<Rightarrow> run_state \<Rightarrow> frame_state gomap" where
  "movedFrames e now st = map (\<lambda>(k, f). (k, movedFrame e (ru_RunID st) now (preparedDispatches st) k f)) (ru_Frames st)"

lemma mget_movedFrames:
  "mget (movedFrames e now st) k = map_option (movedFrame e (ru_RunID st) now (preparedDispatches st) k) (mget (ru_Frames st) k)"
  by (simp add: movedFrames_def mget_map_entries)

lemma list_all_movedFrames:
  "list_all (\<lambda>(k, f). P k f) (movedFrames e now st) =
    list_all (\<lambda>(k, f). P k (movedFrame e (ru_RunID st) now (preparedDispatches st) k f)) (ru_Frames st)"
  unfolding movedFrames_def list_all_map_entries ..

lemma movedFrame_other: "k \<notin> ds_FrameID ` set ps \<Longrightarrow> movedFrame e r t ps k f = refenceFrame e f"
  by (simp add: movedFrame_def moveFrame_other)

lemma movedFrame_found:
  "find (\<lambda>d. ds_FrameID d = k) ps = Some d \<Longrightarrow>
    movedFrame e r t ps k f = passStep (indeterminateResult r t d) (ds_FrameStepIndex d) (refenceFrame e f)"
  by (simp add: movedFrame_def moveFrame_def)

lemma passStep_moves [simp]:
  "fr_NextStepIndex (passStep x i f) = fr_NextStepIndex f + 1" "fr_Results (passStep x i f) = mput (itoa i) x (fr_Results f)"
  by (simp_all add: passStep_def)

lemma movedFrame_marked:
  assumes "d \<in> set ps" and "ds_FrameID d = k"
  obtains d' where "d' \<in> set ps" "ds_FrameID d' = k"
    "movedFrame e r t ps k f = passStep (indeterminateResult r t d') (ds_FrameStepIndex d') (refenceFrame e f)"
  using moveFrame_marked [OF assms] unfolding movedFrame_def by metis

lemma movedFrame_sel [simp]:
  "fr_SchemaVersion (movedFrame e r t ps k f) = fr_SchemaVersion f" "fr_FrameID (movedFrame e r t ps k f) = fr_FrameID f"
  "fr_ParentFrameID (movedFrame e r t ps k f) = fr_ParentFrameID f"
  "fr_ParentStepID (movedFrame e r t ps k f) = fr_ParentStepID f" "fr_CallPath (movedFrame e r t ps k f) = fr_CallPath f"
  "fr_BranchLabel (movedFrame e r t ps k f) = fr_BranchLabel f" "fr_IterationIndex (movedFrame e r t ps k f) = fr_IterationIndex f"
  "fr_StepCount (movedFrame e r t ps k f) = fr_StepCount f" "fr_StepIDs (movedFrame e r t ps k f) = fr_StepIDs f"
  "fr_Status (movedFrame e r t ps k f) = fr_Status f" "activeFrame (movedFrame e r t ps k f) = activeFrame f"
  "childAt (movedFrame e r t ps k f) = childAt f"
  by (simp_all add: movedFrame_def)

text \<open>The state before recovery: one that was written, with the maps of Go and what \<open>recoverable\<close> asks.\<close>

definition resumable :: "run_lib \<Rightarrow> bool \<Rightarrow> run_state \<Rightarrow> bool" where
  "resumable L scoped st = (validRunState L scoped st \<and> wfMaps st \<and> recoverable L st)"

lemma resumable_checks:
  assumes "resumable L scoped st"
  shows "validateDispatchStates L (ru_WriterEpoch st) (ru_Dispatches st)" "validateExecutionFrameStates L (ru_WriterEpoch st) (ru_Frames st)"
    "validateDynamicIncludeResolutions L (ru_WriterEpoch st) scoped (ru_Resolutions st)" "mwf (ru_Dispatches st)" "mwf (ru_Frames st)"
    "list_all (\<lambda>(k, i). interactionRelated (ru_Frames st) i) (ru_Interactions st)"
    "list_all (\<lambda>(k, f). frameRelated (ru_Frames st) f) (ru_Frames st)"
    "list_all (\<lambda>(k, d). dispatchRelated L (ru_Frames st) (ru_Resolutions st) d) (ru_Dispatches st)"
    "list_all (\<lambda>(k, r). resolutionRelated (ru_Frames st) r) (ru_Resolutions st)"
    "validateDynamicResolutionDispatches L (ru_Dispatches st) (ru_Resolutions st) (ru_StepResults st) (ru_Frames st)"
    "cursorsRelated (ru_WriterEpoch st) (ru_Dispatches st) (ru_Frames st) (ru_CursorSet st)"
  using assms unfolding resumable_def validRunState_def wfMaps_def validateExecutionStateRelationships_def Let_def by blast+

lemma prepared_frame:
  assumes "resumable L scoped st" and d: "d \<in> set (preparedDispatches st)" and "ds_FrameID d \<noteq> ''''"
  obtains f where "mget (ru_Frames st) (ds_FrameID d) = Some f" "activeFrame f" "ds_FrameStepIndex d = fr_NextStepIndex f"
    "fr_NextStepIndex f < fr_StepCount f" "validFrame L (ru_WriterEpoch st) (ds_FrameID d) f" "ds_StepID d \<noteq> ''''"
proof -
  note c = resumable_checks [OF assms(1)]
  from d obtain k where k: "(k, d) \<in> set (ru_Dispatches st)" "ds_Status d = ''prepared''" by (auto simp: set_prepared)
  with c(8) have "dispatchRelated L (ru_Frames st) (ru_Resolutions st) d" by (auto simp: list_all_iff)
  with assms(3) k(2) obtain f where f: "mget (ru_Frames st) (ds_FrameID d) = Some f" "fr_Status f = ''active''"
      "ds_FrameStepIndex d = fr_NextStepIndex f" "childAt f (ds_FrameStepIndex d) (ds_StepID d)"
    by (auto simp: dispatchRelated_def split: option.splits)
  from f(1) c(5) have "(ds_FrameID d, f) \<in> set (ru_Frames st)" by (simp add: mget_mem)
  with frame_key [OF c(2)] have "validFrame L (ru_WriterEpoch st) (ds_FrameID d) f" .
  moreover from c(1) k(1) have "ds_StepID d \<noteq> ''''" by (auto simp: validateDispatchStates_def list_all_iff validDispatch_def)
  ultimately show thesis using f by (intro that [of f]) (auto simp: activeFrame_def childAt_def)
qed

lemma recoverable_frame:
  assumes "resumable L scoped st" and "d \<in> set (preparedDispatches st)" and "ds_FrameID d \<noteq> ''''"
  shows "\<And>d'. d' \<in> set (preparedDispatches st) \<Longrightarrow> ds_FrameID d' = ds_FrameID d \<Longrightarrow> d' = d"
    and "\<And>k i. (k, i) \<in> set (ru_Interactions st) \<Longrightarrow> ia_FrameID i \<noteq> ds_FrameID d"
    and "\<And>k f. (k, f) \<in> set (ru_Frames st) \<Longrightarrow> activeFrame f \<Longrightarrow> fr_ParentFrameID f \<noteq> ds_FrameID d"
    and "\<And>k r. (k, r) \<in> set (ru_Resolutions st) \<Longrightarrow> dr_Status r = ''active'' \<Longrightarrow> dr_FrameID r \<noteq> ds_FrameID d"
proof -
  let ?ps = "preparedDispatches st"
  have "(\<forall>d'\<in>set ?ps. ds_FrameID d' = ds_FrameID d \<longrightarrow> d' = d) \<and>
      list_all (\<lambda>(k, i). ia_FrameID i \<noteq> ds_FrameID d) (ru_Interactions st) \<and>
      list_all (\<lambda>(k, f). activeFrame f \<longrightarrow> fr_ParentFrameID f \<noteq> ds_FrameID d) (ru_Frames st) \<and>
      list_all (\<lambda>(k, r). dr_Status r = ''active'' \<longrightarrow> dr_FrameID r \<noteq> ds_FrameID d) (ru_Resolutions st)"
    using assms unfolding resumable_def recoverable_def by meson
  then show "\<And>d'. d' \<in> set ?ps \<Longrightarrow> ds_FrameID d' = ds_FrameID d \<Longrightarrow> d' = d"
    and "\<And>k i. (k, i) \<in> set (ru_Interactions st) \<Longrightarrow> ia_FrameID i \<noteq> ds_FrameID d"
    and "\<And>k f. (k, f) \<in> set (ru_Frames st) \<Longrightarrow> activeFrame f \<Longrightarrow> fr_ParentFrameID f \<noteq> ds_FrameID d"
    and "\<And>k r. (k, r) \<in> set (ru_Resolutions st) \<Longrightarrow> dr_Status r = ''active'' \<Longrightarrow> dr_FrameID r \<noteq> ds_FrameID d"
    by (auto simp: list_all_iff)
qed

lemma frame_next:
  assumes "resumable L scoped st" and f: "mget (ru_Frames st) k = Some f" and "k \<noteq> ''''"
  shows "fr_NextStepIndex (movedFrame e (ru_RunID st) t (preparedDispatches st) k f) =
      (if k \<in> ds_FrameID ` set (preparedDispatches st) then fr_NextStepIndex f + 1 else fr_NextStepIndex f)"
    and "fr_Results (movedFrame e (ru_RunID st) t (preparedDispatches st) k f) =
      (if k \<in> ds_FrameID ` set (preparedDispatches st)
       then mput (itoa (fr_NextStepIndex f))
         (indeterminateResult (ru_RunID st) t (the (find (\<lambda>d. ds_FrameID d = k) (preparedDispatches st)))) (fr_Results f)
       else fr_Results f)"
proof -
  let ?ps = "preparedDispatches st"
  have marked: "\<exists>d. find (\<lambda>d. ds_FrameID d = k) ?ps = Some d \<and> ds_FrameStepIndex d = fr_NextStepIndex f" if "k \<in> ds_FrameID ` set ?ps"
  proof -
    from that have "find (\<lambda>d. ds_FrameID d = k) ?ps \<noteq> None" by (auto simp: find_None_iff)
    then obtain d where d: "find (\<lambda>d. ds_FrameID d = k) ?ps = Some d" by blast
    from find_Some_set [OF d] have "d \<in> set ?ps" "ds_FrameID d = k" by auto
    with assms d show ?thesis by (auto elim!: prepared_frame)
  qed
  show "fr_NextStepIndex (movedFrame e (ru_RunID st) t ?ps k f) =
      (if k \<in> ds_FrameID ` set ?ps then fr_NextStepIndex f + 1 else fr_NextStepIndex f)"
    using marked by (cases "k \<in> ds_FrameID ` set ?ps") (auto simp: movedFrame_other movedFrame_found)
  show "fr_Results (movedFrame e (ru_RunID st) t ?ps k f) =
      (if k \<in> ds_FrameID ` set ?ps
       then mput (itoa (fr_NextStepIndex f)) (indeterminateResult (ru_RunID st) t (the (find (\<lambda>d. ds_FrameID d = k) ?ps))) (fr_Results f)
       else fr_Results f)"
    using marked by (cases "k \<in> ds_FrameID ` set ?ps") (auto simp: movedFrame_other movedFrame_found)
qed

lemma frame_entry:
  assumes "resumable L scoped st" and "mget (ru_Frames st) k = Some f"
  shows "(k, f) \<in> set (ru_Frames st)" "validFrame L (ru_WriterEpoch st) k f" "k \<noteq> ''''"
proof -
  note c = resumable_checks [OF assms(1)]
  show entry: "(k, f) \<in> set (ru_Frames st)" using assms(2) c(5) by (simp add: mget_mem)
  show valid: "validFrame L (ru_WriterEpoch st) k f" by (rule frame_key [OF c(2) entry])
  then show "k \<noteq> ''''" unfolding validFrame_def by blast
qed

text \<open>A frame keeps its results; what it gains is at the child it stood at, and says that the outcome is not known.\<close>

lemma moved_result:
  assumes "resumable L scoped st" and "mget (ru_Frames st) k = Some f" and "0 \<le> i"
  shows "resultAt (movedFrame e (ru_RunID st) t (preparedDispatches st) k f) i =
    (if k \<in> ds_FrameID ` set (preparedDispatches st) \<and> i = fr_NextStepIndex f
     then Some (indeterminateResult (ru_RunID st) t (the (find (\<lambda>d. ds_FrameID d = k) (preparedDispatches st)))) else resultAt f i)"
proof -
  note f = frame_entry [OF assms(1, 2)]
  have "0 \<le> fr_NextStepIndex f" using f(2) unfolding validFrame_def by blast
  with assms(3) show ?thesis
    unfolding resultAt_def frame_next(2) [OF assms(1, 2) f(3)] by (auto simp: itoa_inject)
qed

lemma result_below:
  assumes "resumable L scoped st" and "mget (ru_Frames st) k = Some f"
  shows "resultAt f (fr_NextStepIndex f) = None"
  using next_result_fresh [OF frame_entry(2) [OF assms]] mget_known_key
  unfolding resultAt_def by (cases "mget (fr_Results f) (itoa (fr_NextStepIndex f))") force+

lemma moved_validFrame:
  assumes "resumable L scoped st" and "(k, f) \<in> set (ru_Frames st)" and "e \<noteq> 0"
  shows "validFrame L e k (movedFrame e (ru_RunID st) t (preparedDispatches st) k f)"
proof -
  note c = resumable_checks [OF assms(1)]
  have f: "mget (ru_Frames st) k = Some f" using assms(2) c(5) by (simp add: mget_mem)
  note v = validFrame_refence [OF frame_key [OF c(2) assms(2)] assms(3)]
  show ?thesis
  proof (cases "k \<in> ds_FrameID ` set (preparedDispatches st)")
    case False
    with v show ?thesis by (simp add: movedFrame_other)
  next
    case True
    then obtain d where "d \<in> set (preparedDispatches st)" "ds_FrameID d = k" by auto
    from movedFrame_marked [OF this, of e "ru_RunID st" t f] obtain d' where d': "d' \<in> set (preparedDispatches st)" "ds_FrameID d' = k"
        "movedFrame e (ru_RunID st) t (preparedDispatches st) k f = passStep (indeterminateResult (ru_RunID st) t d') (ds_FrameStepIndex d') (refenceFrame e f)"
      by blast
    with frame_entry(3) [OF assms(1) f] have "ds_FrameID d' \<noteq> ''''" by simp
    from prepared_frame [OF assms(1) d'(1) this] d'(2) f obtain "activeFrame f" "ds_FrameStepIndex d' = fr_NextStepIndex f"
        "fr_NextStepIndex f < fr_StepCount f" "ds_StepID d' \<noteq> ''''" by (metis option.inject)
    with validFrame_pass [OF v, of "indeterminateResult (ru_RunID st) t d'"] d'(3) show ?thesis by (simp add: indeterminateResult_def)
  qed
qed

lemma moved_validFrames:
  assumes "resumable L scoped st" and "e \<noteq> 0"
  shows "validateExecutionFrameStates L e (movedFrames e t st)"
  using resumable_checks(2) [OF assms(1)] moved_validFrame [OF assms(1) _ assms(2)]
  unfolding validateExecutionFrameStates_def movedFrames_def list_all_map_entries by (auto simp: list_all_iff)

subsection \<open>Relations that survive\<close>

lemma moved_interaction:
  assumes "resumable L scoped st" and "(k, i) \<in> set (ru_Interactions st)"
  shows "interactionRelated (movedFrames e t st) i"
proof -
  have r: "interactionRelated (ru_Frames st) i" using resumable_checks(6) [OF assms(1)] assms(2) by (auto simp: list_all_iff)
  have "ia_FrameID i \<notin> ds_FrameID ` set (preparedDispatches st)" if "ia_FrameID i \<noteq> ''''"
    using recoverable_frame(2) [OF assms(1)] assms(2) that by (metis imageE)
  with r show ?thesis
    unfolding interactionRelated_def mget_movedFrames by (auto simp: movedFrame_other split: option.splits)
qed

lemma moved_frame:
  assumes "resumable L scoped st" and "(k, f) \<in> set (ru_Frames st)"
  shows "frameRelated (movedFrames e t st) (movedFrame e (ru_RunID st) t (preparedDispatches st) k f)"
proof (cases "fr_ParentFrameID f = ''''")
  case False
  let ?ps = "preparedDispatches st" and ?k = "fr_ParentFrameID f"
  have r: "frameRelated (ru_Frames st) f" using resumable_checks(7) [OF assms(1)] assms(2) by (auto simp: list_all_iff)
  with False obtain p where p: "mget (ru_Frames st) ?k = Some p" by (auto simp: frameRelated_def split: option.splits)
  have "\<not> activeFrame f" if "?k \<in> ds_FrameID ` set ?ps"
    using recoverable_frame(3) [OF assms(1) _ _ assms(2)] False that by (metis imageE)
  with r p False frame_next(1) [OF assms(1) p False, of e t] show ?thesis
    unfolding frameRelated_def mget_movedFrames by (auto simp: Let_def activeFrame_def)
next
  case True
  with resumable_checks(7) [OF assms(1)] assms(2) show ?thesis by (auto simp: list_all_iff frameRelated_def)
qed

lemma moved_resolution:
  assumes "resumable L scoped st" and "(k, r) \<in> set (ru_Resolutions st)"
  shows "resolutionRelated (movedFrames e t st) (refenceResolution e r)"
proof (cases "dr_FrameID r = ''''")
  case False
  let ?ps = "preparedDispatches st" and ?k = "dr_FrameID r"
  have r: "resolutionRelated (ru_Frames st) r" using resumable_checks(9) [OF assms(1)] assms(2) by (auto simp: list_all_iff)
  with False obtain f where f: "mget (ru_Frames st) ?k = Some f" by (auto simp: resolutionRelated_def split: option.splits)
  have "dr_Status r \<noteq> ''active''" if "?k \<in> ds_FrameID ` set ?ps"
    using recoverable_frame(4) [OF assms(1) _ _ assms(2)] False that by (metis imageE)
  with r f False frame_next(1) [OF assms(1) f False, of e t] show ?thesis
    unfolding refence_resolutionRelated unfolding resolutionRelated_def mget_movedFrames by (auto split: if_splits)
next
  case True
  with resumable_checks(9) [OF assms(1)] assms(2) show ?thesis
    unfolding refence_resolutionRelated by (auto simp: list_all_iff resolutionRelated_def)
qed

definition endedDispatch :: "string \<Rightarrow> dispatch_state \<Rightarrow> dispatch_state" where
  "endedDispatch now d = (if ds_Status d = ''prepared'' then settleIndeterminate now d else d)"

definition endedDispatches :: "string \<Rightarrow> dispatch_state gomap \<Rightarrow> dispatch_state gomap" where
  "endedDispatches now ds = map (\<lambda>(k, d). (k, endedDispatch now d)) ds"

lemma endedDispatch_sel [simp]:
  "ds_FrameID (endedDispatch t d) = ds_FrameID d" "ds_FrameStepIndex (endedDispatch t d) = ds_FrameStepIndex d"
  "ds_StepID (endedDispatch t d) = ds_StepID d" "ds_CallPath (endedDispatch t d) = ds_CallPath d"
  "ds_QualifiedNodeID (endedDispatch t d) = ds_QualifiedNodeID d"
  by (simp_all add: endedDispatch_def settleIndeterminate_def)

lemma endedDispatch_status [simp]: "ds_Status (endedDispatch t d) \<noteq> ''prepared''"
  by (simp add: endedDispatch_def settleIndeterminate_def)

lemma endedDispatch_kept: "ds_Status d \<noteq> ''prepared'' \<Longrightarrow> endedDispatch t d = d"
  by (simp add: endedDispatch_def)

lemma ended_validDispatches:
  assumes "validateDispatchStates L e ds" and "rl_time L now"
  shows "validateDispatchStates L e' (endedDispatches now ds)"
proof -
  have "validDispatch L e' k (endedDispatch now d)" if "validDispatch L e k d" for k d
    using validDispatch_settle [OF that assms(2)] validDispatch_epoch [OF that] by (simp add: endedDispatch_def)
  with assms show ?thesis
    unfolding validateDispatchStates_def endedDispatches_def list_all_map_entries by (auto simp: list_all_iff)
qed

lemma moved_dispatch:
  assumes "resumable L scoped st" and "(k, d) \<in> set (ru_Dispatches st)"
  shows "dispatchRelated L (movedFrames e t st) (refenceResolutions e (ru_Resolutions st)) (endedDispatch t d)"
proof (cases "ds_FrameID d = ''''")
  case False
  let ?ps = "preparedDispatches st" and ?k = "ds_FrameID d"
  have r: "dispatchRelated L (ru_Frames st) (ru_Resolutions st) d" using resumable_checks(8) [OF assms(1)] assms(2) by (auto simp: list_all_iff)
  with False obtain f where f: "mget (ru_Frames st) ?k = Some f" by (auto simp: dispatchRelated_def split: option.splits)
  note n = frame_next(1) [OF assms(1) f False, of e t] and res = moved_result [OF assms(1) f, of _ e t]
  have i: "0 \<le> ds_FrameStepIndex d" using r f False by (auto simp: dispatchRelated_def childAt_def)
  show ?thesis
  proof (cases "ds_Status d = ''prepared''")
    case True
    then have "?k \<in> ds_FrameID ` set ?ps" using assms(2) by (intro imageI) (auto simp: set_prepared)
    with r f False n res [OF i] True show ?thesis unfolding dispatchRelated_def mget_movedFrames by (auto simp: endedDispatch_def settleIndeterminate_def)
  next
    case not_prepared: False
    with r f False have "(ds_FrameStepIndex d < fr_NextStepIndex f \<and> resultAt f (ds_FrameStepIndex d) \<noteq> None) \<or>
        matchesActiveDynamicResolutionDispatch L (ru_Resolutions st) d" "childAt f (ds_FrameStepIndex d) (ds_StepID d)"
        "sameDebugCallPath (fr_CallPath f) (ds_CallPath d)" by (auto simp: dispatchRelated_def)
    with f False n res [OF i] not_prepared show ?thesis
      unfolding dispatchRelated_def mget_movedFrames by (auto simp: endedDispatch_kept split: if_splits)
  qed
next
  case True
  with resumable_checks(8) [OF assms(1)] assms(2) show ?thesis by (auto simp: list_all_iff dispatchRelated_def)
qed

subsection \<open>Resolver dispatches stay paired\<close>

lemma endedDispatch_resolver: "settledResolver (endedDispatch t d) = settledResolver d" "settledResolver d \<Longrightarrow> endedDispatch t d = d"
  by (cases "ds_Status d = ''prepared''"; simp add: settledResolver_def endedDispatch_def settleIndeterminate_def)+

lemma ended_resolvers: "filter (\<lambda>(k, d). settledResolver d) (endedDispatches t ds) = filter (\<lambda>(k, d). settledResolver d) ds"
  unfolding endedDispatches_def by (induction ds) (auto simp: endedDispatch_resolver)

lemma indeterminate_not_notFound [simp]: "\<not> notFoundResult (indeterminateResult r t d)"
  by (simp add: notFoundResult_def indeterminateResult_def)

lemma rootResults_other:
  "x \<notin> ds_StepID ` {d \<in> set ps. ds_FrameID d = ''''} \<Longrightarrow> mget (rootResults r t ps m) x = mget m x"
proof (induction ps arbitrary: m)
  case (Cons d ps)
  then have "mget (rootResults r t ps m') x = mget m' x" for m' by auto
  with Cons.prems show ?case by (auto simp: rootResults_def)
qed (simp add: rootResults_def)

lemma recoverable_root:
  assumes "resumable L scoped st" and "(k, d) \<in> set (ru_Dispatches st)" and "settledResolver d" and "ds_FrameID d = ''''"
    and "\<not> list_ex (\<lambda>(k', r). resolverOf L r d) (ru_Resolutions st)"
  shows "ds_StepID d \<notin> ds_StepID ` {d \<in> set (preparedDispatches st). ds_FrameID d = ''''}"
proof
  assume "ds_StepID d \<in> ds_StepID ` {d \<in> set (preparedDispatches st). ds_FrameID d = ''''}"
  then obtain p where p: "p \<in> set (preparedDispatches st)" "ds_FrameID p = ''''" "ds_StepID p = ds_StepID d" by auto
  then have "list_all (\<lambda>(k, d'). settledResolver d' \<and> ds_FrameID d' = '''' \<and> ds_StepID d' = ds_StepID p \<longrightarrow>
      list_ex (\<lambda>(k', r). resolverOf L r d') (ru_Resolutions st)) (ru_Dispatches st)"
    using assms(1) unfolding resumable_def recoverable_def by meson
  with assms(2) have "settledResolver d \<and> ds_FrameID d = '''' \<and> ds_StepID d = ds_StepID p \<longrightarrow>
      list_ex (\<lambda>(k', r). resolverOf L r d) (ru_Resolutions st)" by (auto simp: list_all_iff)
  with p(3) assms(3-5) show False by simp
qed

lemma moved_skipped:
  assumes "resumable L scoped st" and "(k, d) \<in> set (ru_Dispatches st)" and "settledResolver d"
    and "\<not> list_ex (\<lambda>(k', r). resolverOf L r d) (ru_Resolutions st)"
  shows "matchesSkippedDynamicIncludeResult L (rootResults (ru_RunID st) t (preparedDispatches st) (ru_StepResults st)) (movedFrames e t st) d =
    matchesSkippedDynamicIncludeResult L (ru_StepResults st) (ru_Frames st) d"
proof (cases "ds_FrameID d = ''''")
  case True
  from rootResults_other [OF recoverable_root [OF assms(1-3) True assms(4)]] True show ?thesis
    by (simp add: matchesSkippedDynamicIncludeResult_def)
next
  case False
  show ?thesis
  proof (cases "mget (ru_Frames st) (ds_FrameID d)")
    case None
    with False show ?thesis by (simp add: matchesSkippedDynamicIncludeResult_def mget_movedFrames)
  next
    case (Some f)
    have "0 \<le> ds_FrameStepIndex d" 
      using resumable_checks(8) [OF assms(1)] assms(2) Some False by (auto simp: list_all_iff dispatchRelated_def childAt_def)
    note r = moved_result [OF assms(1) Some this, of e t]
    show ?thesis
      using False Some r result_below [OF assms(1) Some]
      unfolding matchesSkippedDynamicIncludeResult_def mget_movedFrames by (auto simp: Let_def)
  qed
qed

lemma moved_resolvers:
  assumes "resumable L scoped st"
  shows "validateDynamicResolutionDispatches L (endedDispatches t (ru_Dispatches st)) (refenceResolutions e (ru_Resolutions st))
    (rootResults (ru_RunID st) t (preparedDispatches st) (ru_StepResults st)) (movedFrames e t st)"
proof -
  let ?rs = "ru_Resolutions st" and ?resolvers = "filter (\<lambda>(k, d). settledResolver d) (ru_Dispatches st)"
  have ex: "list_ex (\<lambda>(k', r). resolverOf L r d) (refenceResolutions e ?rs) = list_ex (\<lambda>(k', r). resolverOf L r d) ?rs" for d
    unfolding refenceResolutions_entries list_ex_map_entries by simp
  let ?unpaired = "filter (\<lambda>(k, d). \<not> list_ex (\<lambda>(k', r). resolverOf L r d) ?rs) ?resolvers"
  have identities: "map (\<lambda>(k, d). case matchesSkippedDynamicIncludeResult L (rootResults (ru_RunID st) t (preparedDispatches st) (ru_StepResults st)) (movedFrames e t st) d of
        Some ident \<Rightarrow> Some ident | None \<Rightarrow> matchesHistoricalDynamicIncludeNotFound L (map snd ?resolvers) ?rs d) ?unpaired =
      map (\<lambda>(k, d). case matchesSkippedDynamicIncludeResult L (ru_StepResults st) (ru_Frames st) d of
        Some ident \<Rightarrow> Some ident | None \<Rightarrow> matchesHistoricalDynamicIncludeNotFound L (map snd ?resolvers) ?rs d) ?unpaired"
    using moved_skipped [OF assms] by (intro map_cong) auto
  have paired: "list_all (\<lambda>(k, r). pinDigest L r \<noteq> None \<and> length (filter (\<lambda>(k', d). resolverOf L r d) ?resolvers) = 1) (refenceResolutions e ?rs) =
      list_all (\<lambda>(k, r). pinDigest L r \<noteq> None \<and> length (filter (\<lambda>(k', d). resolverOf L r d) ?resolvers) = 1) ?rs"
    unfolding refenceResolutions_entries list_all_map_entries by simp
  show ?thesis
    using resumable_checks(10) [OF assms]
    unfolding validateDynamicResolutionDispatches_def Let_def ended_resolvers ex refence_matchesHistorical identities paired .
qed

subsection \<open>Cursors of the recovered state\<close>

lemma set_insertCursor [simp]: "set (insertCursor c cs) = insert c (set cs)"
  by (induction cs) auto

lemma length_insertCursor [simp]: "length (insertCursor c cs) = Suc (length cs)"
  by (induction cs) auto

lemma set_sortCursors [simp]: "set (sortCursors cs) = set cs"
  by (induction cs) (auto simp: sortCursors_def)

lemma length_sortCursors [simp]: "length (sortCursors cs) = length cs"
  by (induction cs) (auto simp: sortCursors_def)

lemma distinct_insertCursor [simp]:
  "distinct (filter P (map g (insertCursor c cs))) = distinct (filter P (map g (c # cs)))"
  by (induction cs) auto

lemma distinct_sortCursors: "distinct (filter P (map g (sortCursors cs))) = distinct (filter P (map g cs))"
proof (induction cs)
  case (Cons c cs)
  have "sortCursors (c # cs) = insertCursor c (sortCursors cs)" by (simp add: sortCursors_def)
  moreover have "g c \<in> g ` set (sortCursors cs) \<longleftrightarrow> g c \<in> g ` set cs" by simp
  ultimately show ?case using Cons by (simp del: set_sortCursors)
qed (simp add: sortCursors_def)

lemma cursorSet_sel [simp]: "cs_SchemaVersion (cursorSet cs) = ''yawr.execution-cursor/v1''" "cs_Cursors (cursorSet cs) = cs"
  by (simp_all add: cursorSet_def)

lemma root_cursor:
  "cu_FrameID c = '''' \<Longrightarrow> cu_CallPath c = [] \<Longrightarrow> cursorsRelated e ds fs (Some (cursorSet [c]))"
  by (simp add: cursorsRelated_def cursorRelated_def maxStoredValueEntries_def)

lemma frameCursor_sel:
  "cu_FrameID (frameCursor i ds ias counts f) = fr_FrameID f" "cu_CallPath (frameCursor i ds ias counts f) = fr_CallPath f"
  "cu_StepID (frameCursor i ds ias counts f) = fr_StepIDs f ! nat (fr_NextStepIndex f)"
  "cu_QualifiedNodeID (frameCursor i ds ias counts f) = DebugNodeID (fr_CallPath f) (fr_StepIDs f ! nat (fr_NextStepIndex f))"
  "cu_BranchLabel (frameCursor i ds ias counts f) = fr_BranchLabel f"
  "cu_IterationIndex (frameCursor i ds ias counts f) = fr_IterationIndex f"
  "cu_Phase (frameCursor i ds ias counts f) = (if preparedAt ds f \<noteq> None then ''execute'' else ''before'')"
  by (simp_all add: frameCursor_def Let_def newCursor_def split: option.split)

lemma frameCursor_related:
  assumes "mget fs (fr_FrameID f) = Some f" and "leafFrame fs k f" and "fr_FrameID f \<noteq> ''''"
  shows "cursorRelated e ds fs (frameCursor i ds ias counts f)"
  using assms by (simp add: cursorRelated_def frameCursor_sel leafFrame_def childAt_def activeFrame_def sameDebugCallPath_def)

lemma executionFrameCursors_related:
  assumes fs: "validateExecutionFrameStates L e fs" and "mwf fs" and "executionFrameCursors i fs ds ias counts \<noteq> []"
  shows "cursorsRelated e ds fs (Some (cursorSet (executionFrameCursors i fs ds ias counts)))"
proof -
  let ?leaves = "filter (\<lambda>(k, f). leafFrame fs k f) fs"
  let ?cs = "map (\<lambda>(k, f). frameCursor i ds ias counts f) ?leaves"
  have cs: "executionFrameCursors i fs ds ias counts = sortCursors ?cs" using assms(3) by (auto simp: executionFrameCursors_def split: if_splits)
  have key: "fr_FrameID f = k" "k \<noteq> ''''" "mget fs k = Some f" if "(k, f) \<in> set fs" for k f
    using frame_key [OF fs that] assms(2) that by (auto simp: validFrame_def mget_mem)
  have "list_all (cursorRelated e ds fs) ?cs" using key by (auto simp: list_all_iff intro!: frameCursor_related)
  moreover have keys: "map cu_FrameID ?cs = map fst ?leaves" using key by (auto simp: frameCursor_sel)
  have "distinct (map cu_FrameID ?cs)" unfolding keys using assms(2) by (simp add: mwf_def distinct_map_filter)
  moreover have "length ?cs \<le> maxStoredValueEntries"
    using fs by (auto simp: validateExecutionFrameStates_def intro: order_trans [OF length_filter_le])
  ultimately show ?thesis
    using assms(3) unfolding cs cursorsRelated_def by (auto simp: distinct_sortCursors list_all_iff)
qed

lemma serialCursor_related:
  assumes "serialCursorAfterRecoveredDispatch plan cs ps = Some cs'"
  shows "cursorsRelated e ds fs (Some cs')"
proof -
  obtain c where "cs' = cursorSet [c]" "cu_FrameID c = ''''" "cu_CallPath c = []"
    using assms unfolding serialCursorAfterRecoveredDispatch_def
    by (auto simp: Let_def newCursor_def split: option.splits list.splits if_splits)
  then show ?thesis by (simp add: root_cursor)
qed

text \<open>Cursors of a frame need an active frame, so a state without one has only cursors at the root.\<close>

lemma cursors_at_root:
  assumes "cursorsRelated e ds fs cs" and "\<not> hasActiveExecutionFrame fs" and "mwf fs" and "e \<noteq> 0"
  shows "cursorsRelated e' ds' fs' cs"
proof (cases cs)
  case (Some s)
  have "cu_FrameID c = '''' \<and> cu_CallPath c = []" if "c \<in> set (cs_Cursors s)" for c
  proof -
    from assms(1) Some that have "cursorRelated e ds fs c" by (auto simp: cursorsRelated_def list_all_iff)
    with assms(2-4) show ?thesis
      by (auto simp: cursorRelated_def hasActiveExecutionFrame_def list_ex_iff activeFrame_def mget_mem split: if_splits option.splits)
  qed
  with assms(1) Some show ?thesis by (auto simp: cursorsRelated_def list_all_iff cursorRelated_def)
qed (simp add: cursorsRelated_def)

lemma recoveredCursors_related:
  assumes "cursorsRelated e ds fs (ru_CursorSet st)" and "e \<noteq> 0" and "mwf fs" and "validateExecutionFrameStates L e' (ru_Frames st)"
    and "mwf (ru_Frames st)" and "hasActiveExecutionFrame (ru_Frames st) = hasActiveExecutionFrame fs"
    and "0 \<le> ru_CurrentStepIndex st" and "ru_CurrentStepIndex st < int (length (pl_Steps plan))"
  shows "cursorsRelated e' (ru_Dispatches st) (ru_Frames st) (recoveredCursors plan st ps)"
proof (cases "serialCursorAfterRecoveredDispatch plan (ru_CursorSet st) ps")
  case (Some cs)
  then show ?thesis by (simp add: recoveredCursors_def serialCursor_related)
next
  case None
  let ?cs = "executionFrameCursors (ru_CurrentStepIndex st) (ru_Frames st) (ru_Dispatches st) (ru_Interactions st) (ru_ExecutionCounts st)"
  show ?thesis
  proof (cases "?cs = []")
    case False
    with None executionFrameCursors_related [OF assms(4, 5) False] show ?thesis by (simp add: recoveredCursors_def Let_def)
  next
    case True
    show ?thesis
    proof (cases "hasActiveExecutionFrame (ru_Frames st)")
      case False
      with None True assms show ?thesis
        by (simp add: recoveredCursors_def Let_def) (rule cursors_at_root [of e ds fs], simp_all)
    next
      case active: True
      then have "recoveredCursors plan st ps =
          (let sid = fst (pl_Steps plan ! nat (ru_CurrentStepIndex st)) in
           Some (cursorSet [(newCursor (ru_CurrentStepIndex st))\<lparr>cu_QualifiedNodeID := sid, cu_StepID := sid\<rparr>]))"
        using None True assms(7, 8) by (simp add: recoveredCursors_def Let_def)
      then show ?thesis by (simp add: Let_def newCursor_def root_cursor)
    qed
  qed
qed

subsection \<open>The recovered state in closed form\<close>

definition markedState :: "nat \<Rightarrow> string \<Rightarrow> run_state \<Rightarrow> run_state" where
  "markedState e now st =
     (haltedState e now st)\<lparr>ru_Dispatches := endedDispatches now (ru_Dispatches st), ru_Frames := movedFrames e now st,
       ru_StepResults := rootResults (ru_RunID st) now (preparedDispatches st) (ru_StepResults st)\<rparr>"

lemma markedState_sel [simp]:
  "ru_RunID (markedState e t st) = ru_RunID st" "ru_WriterEpoch (markedState e t st) = e" "ru_Status (markedState e t st) = ''indeterminate''"
  "ru_Dispatches (markedState e t st) = endedDispatches t (ru_Dispatches st)" "ru_Frames (markedState e t st) = movedFrames e t st"
  "ru_Resolutions (markedState e t st) = refenceResolutions e (ru_Resolutions st)"
  "ru_StepResults (markedState e t st) = rootResults (ru_RunID st) t (preparedDispatches st) (ru_StepResults st)"
  "ru_Interactions (markedState e t st) = ru_Interactions st" "ru_ExecutionCounts (markedState e t st) = ru_ExecutionCounts st"
  "ru_InteractionCounts (markedState e t st) = ru_InteractionCounts st" "ru_CursorSet (markedState e t st) = ru_CursorSet st"
  "ru_PendingHandoff (markedState e t st) = ru_PendingHandoff st" "ru_PendingTraceEvents (markedState e t st) = ru_PendingTraceEvents st"
  "ru_CommittedTraceSequence (markedState e t st) = ru_CommittedTraceSequence st" "ru_CurrentStepIndex (markedState e t st) = ru_CurrentStepIndex st"
  by (simp_all add: markedState_def haltedState_def)

lemma markable_halted:
  assumes "resumable L scoped st"
  shows "markable (haltedState e now st) (preparedDispatches st)"
proof -
  note c = resumable_checks [OF assms]
  have "'''' \<notin> fst ` set (refenceFrames e (ru_Frames st))"
    using frame_key [OF c(2)] unfolding refenceFrames_entries by (force simp: validFrame_def)
  moreover have "distinct (filter (\<lambda>k. k \<noteq> '''') (map ds_FrameID (preparedDispatches st)))"
    using recoverable_frame(1) [OF assms] by (intro distinct_frames distinct_prepared [OF c(1, 4)])
  moreover have "\<exists>f. mget (refenceFrames e (ru_Frames st)) (ds_FrameID d) = Some f \<and> activeFrame f \<and>
      ds_FrameStepIndex d = fr_NextStepIndex f \<and> fr_NextStepIndex f < fr_StepCount f"
    if d: "d \<in> set (preparedDispatches st)" "ds_FrameID d \<noteq> ''''" for d
  proof -
    from prepared_frame [OF assms d] obtain f where f: "mget (ru_Frames st) (ds_FrameID d) = Some f" "activeFrame f"
      "ds_FrameStepIndex d = fr_NextStepIndex f" "fr_NextStepIndex f < fr_StepCount f" by blast
    then show ?thesis by (intro exI [of _ "refenceFrame e f"]) (simp add: refenceFrames_entries mget_map_entries)
  qed
  ultimately show ?thesis
    using c(4, 5) prepared_entry [OF c(1, 4)] distinct_prepared [OF c(1, 4)]
    by (simp add: markable_def haltedState_def refenceFrames_entries)
qed

lemma mark_closed:
  assumes "resumable L scoped st" and "preparedDispatches st \<noteq> []"
  shows "markPreparedDispatchesIndeterminate e now st = Some (markedState e now st, preparedDispatches st)"
proof -
  note c = resumable_checks [OF assms(1)]
  have "moveFrames (ru_RunID st) now (preparedDispatches st) (refenceFrames e (ru_Frames st)) = movedFrames e now st"
    unfolding moveFrames_def movedFrames_def refenceFrames_entries map_entries_map_entries movedFrame_def ..
  moreover have "settleAll now (preparedDispatches st) (ru_Dispatches st) = endedDispatches now (ru_Dispatches st)"
    unfolding settleAll_prepared [OF c(1, 4)] endedDispatches_def endedDispatch_def ..
  ultimately have "markAll now (preparedDispatches st) (haltedState e now st) = Some (markedState e now st)"
    unfolding markAll_closed [OF markable_halted [OF assms(1)]] by (simp add: markedState_def haltedState_def)
  with assms(2) show ?thesis by (simp add: markPreparedDispatchesIndeterminate_def Let_def)
qed

lemma hasActive_moved: "hasActiveExecutionFrame (movedFrames e t st) = hasActiveExecutionFrame (ru_Frames st)"
  unfolding hasActiveExecutionFrame_def movedFrames_def list_ex_map_entries by simp

lemma prepared_epoch:
  assumes "resumable L scoped st" and "preparedDispatches st \<noteq> []"
  shows "ru_WriterEpoch st \<noteq> 0"
proof -
  from assms(2) obtain d where "d \<in> set (preparedDispatches st)" by fastforce
  then obtain k where "(k, d) \<in> set (ru_Dispatches st)" "ds_Status d = ''prepared''" by (auto simp: set_prepared)
  with resumable_checks(1) [OF assms(1)] show ?thesis by (auto simp: validateDispatchStates_def list_all_iff validDispatch_def)
qed

lemma mwf_movedFrames [simp]: "mwf (movedFrames e t st) = mwf (ru_Frames st)"
  by (simp add: movedFrames_def)

lemma moved_relations:
  assumes "resumable L scoped st"
  shows "list_all (\<lambda>(k, i). interactionRelated (movedFrames e now st) i) (ru_Interactions st)"
    and "list_all (\<lambda>(k, f). frameRelated (movedFrames e now st) f) (movedFrames e now st)"
    and "list_all (\<lambda>(k, d). dispatchRelated L (movedFrames e now st) (refenceResolutions e (ru_Resolutions st)) d) (endedDispatches now (ru_Dispatches st))"
    and "list_all (\<lambda>(k, r). resolutionRelated (movedFrames e now st) r) (refenceResolutions e (ru_Resolutions st))"
proof -
  show "list_all (\<lambda>(k, i). interactionRelated (movedFrames e now st) i) (ru_Interactions st)"
    using moved_interaction [OF assms] by (auto simp: list_all_iff)
  show "list_all (\<lambda>(k, f). frameRelated (movedFrames e now st) f) (movedFrames e now st)"
    unfolding list_all_movedFrames using moved_frame [OF assms] by (auto simp: list_all_iff)
  show "list_all (\<lambda>(k, d). dispatchRelated L (movedFrames e now st) (refenceResolutions e (ru_Resolutions st)) d) (endedDispatches now (ru_Dispatches st))"
    unfolding endedDispatches_def list_all_map_entries using moved_dispatch [OF assms] by (auto simp: list_all_iff)
  show "list_all (\<lambda>(k, r). resolutionRelated (movedFrames e now st) r) (refenceResolutions e (ru_Resolutions st))"
    unfolding refenceResolutions_entries list_all_map_entries using moved_resolution [OF assms] by (auto simp: list_all_iff)
qed

lemma marked_relations:
  assumes "resumable L scoped st" and "preparedDispatches st \<noteq> []" and "e \<noteq> 0"
    and "0 \<le> ru_CurrentStepIndex st" and "ru_CurrentStepIndex st < int (length (pl_Steps plan))"
  shows "validateExecutionStateRelationships L ((markedState e now st)\<lparr>ru_CursorSet := recoveredCursors plan (markedState e now st) ps\<rparr>)"
proof -
  note c = resumable_checks [OF assms(1)]
  have "cursorsRelated e (endedDispatches now (ru_Dispatches st)) (movedFrames e now st) (recoveredCursors plan (markedState e now st) ps)"
    using recoveredCursors_related [of "ru_WriterEpoch st" "ru_Dispatches st" "ru_Frames st" "markedState e now st" L e plan ps]
      c(5, 11) prepared_epoch [OF assms(1, 2)] moved_validFrames [OF assms(1, 3)] assms(4, 5) by (simp add: hasActive_moved)
  with moved_relations [OF assms(1), of e now] show ?thesis
    using moved_resolvers [OF assms(1), of now e] unfolding validateExecutionStateRelationships_def by (simp add: Let_def)
qed

subsection \<open>The event of the new checkpoint\<close>

definition payloadEncodes :: "run_lib \<Rightarrow> trace_event \<Rightarrow> bool" where
  "payloadEncodes L ev = (case rl_marshal L (RunPayload (te_Payload ev)) of None \<Rightarrow> False | Some p \<Rightarrow> length p \<le> 256 * 2 ^ 20)"

lemma stage_events:
  assumes "validatePendingTraceEvents L (ru_RunID st) (ru_CommittedTraceSequence st) (ru_PendingTraceEvents st)"
    and "length (ru_PendingTraceEvents st) < 16" and "ru_CommittedTraceSequence st < 2 ^ 63 - 1" and "eventID \<noteq> ''''" and "rl_time L now"
    and "list_all (payloadEncodes L) (ru_PendingTraceEvents (stageResumeCommitEvent eventID now rb st))"
  shows "validatePendingTraceEvents L (ru_RunID st) (ru_CommittedTraceSequence (stageResumeCommitEvent eventID now rb st))
    (ru_PendingTraceEvents (stageResumeCommitEvent eventID now rb st))"
proof -
  let ?c = "ru_CommittedTraceSequence st"
  have "0 \<le> ?c" using assms(1) by (simp add: validatePendingTraceEvents_def)
  with assms(3) have n: "i64 (?c + 1) = ?c + 1" by (simp add: i64_def)
  have valid: "validTraceEvent L (ru_RunID st) (?c + 1) ev" "te_Sequence ev < ?c + 1" if "ev \<in> set (ru_PendingTraceEvents st)" for ev
    using assms(1) that by (auto simp: validatePendingTraceEvents_def list_all_iff validTraceEvent_def)
  show ?thesis
    using assms valid \<open>0 \<le> ?c\<close>
    by (auto simp: validatePendingTraceEvents_def stageResumeCommitEvent_def Let_def n list_all_iff validTraceEvent_def payloadEncodes_def
        sorted_wrt_append)
qed

lemma stage_other [simp]:
  "ru_Interactions (stageResumeCommitEvent eid t rb st) = ru_Interactions st" "ru_ExecutionCounts (stageResumeCommitEvent eid t rb st) = ru_ExecutionCounts st"
  "ru_InteractionCounts (stageResumeCommitEvent eid t rb st) = ru_InteractionCounts st" "ru_Dispatches (stageResumeCommitEvent eid t rb st) = ru_Dispatches st"
  "ru_Frames (stageResumeCommitEvent eid t rb st) = ru_Frames st" "ru_Resolutions (stageResumeCommitEvent eid t rb st) = ru_Resolutions st"
  "ru_Status (stageResumeCommitEvent eid t rb st) = ru_Status st" "ru_PendingHandoff (stageResumeCommitEvent eid t rb st) = ru_PendingHandoff st"
  "ru_RunID (stageResumeCommitEvent eid t rb st) = ru_RunID st" "ru_WriterEpoch (stageResumeCommitEvent eid t rb st) = ru_WriterEpoch st"
  "ru_StepResults (stageResumeCommitEvent eid t rb st) = ru_StepResults st" "ru_CursorSet (stageResumeCommitEvent eid t rb st) = ru_CursorSet st"
  by (simp_all add: stageResumeCommitEvent_def Let_def)

end
