(* ===== verification/Sample_Run.thy ===== *)
theory Sample_Run
  imports Run_Recovered
begin

section \<open>A run to resume\<close>

text \<open>
  A run inside an included runbook of two steps, interrupted while the first one was dispatched, the same run with the approval that
  the step had asked for, and one with nothing dispatched. They are accepted by the checks of a checkpoint.
\<close>

definition sampleLib :: run_lib where
  "sampleLib = \<lparr>rl_marshal = (\<lambda>d. Some ''{}''), rl_digest = (\<lambda>s. ''sha256:'' @ replicate 64 (CHR ''d'')), rl_jsonValid = (\<lambda>s. True),
     rl_time = (\<lambda>s. s \<noteq> ''''), rl_flowClosure = (\<lambda>s. True), rl_scopedPin = (\<lambda>p. True)\<rparr>"

definition runDigest :: "char \<Rightarrow> string" where
  "runDigest c = ''sha256:'' @ replicate 64 c"

definition samplePath :: "call_frame list" where
  "samplePath = [\<lparr>cf_StepID = ''call'', cf_RunbookPath = ''main''\<rparr>]"

definition sampleFrame :: frame_state where
  "sampleFrame = \<lparr>fr_SchemaVersion = ''yawr.execution-frame-state/v1'', fr_FrameID = runDigest (CHR ''a''), fr_ParentFrameID = '''', fr_WriterEpoch = 1,
     fr_ParentQualifiedNodeID = DebugNodeID [] ''call'', fr_ParentStepID = ''call'', fr_Kind = ''include'', fr_CallPath = samplePath,
     fr_BranchLabel = '''', fr_IterationIndex = 0, fr_Invocation = 1, fr_DefinitionDigest = runDigest (CHR ''b''), fr_StepCount = 2,
     fr_StepIDs = [''deploy'', ''verify''], fr_NextStepIndex = 0, fr_WorkingVars = [], fr_Results = [], fr_Status = ''active'',
     fr_StartedAt = ''t0'', fr_CompletedAt = ''''\<rparr>"

definition sampleDispatch :: dispatch_state where
  "sampleDispatch = \<lparr>ds_SchemaVersion = ''yawr.dispatch-state/v1'', ds_OccurrenceID = runDigest (CHR ''c''), ds_WriterEpoch = 1,
     ds_QualifiedNodeID = DebugNodeID samplePath ''deploy'', ds_CallPath = samplePath, ds_StepID = ''deploy'',
     ds_FrameID = runDigest (CHR ''a''), ds_FrameStepIndex = 0, ds_Phase = ''execute'', ds_Invocation = 1, ds_RetryAttempt = 1,
     ds_OccurrenceSequence = 1, ds_Classification = ''mutating'', ds_EndpointIdentity = ''shell'', ds_RequestDigest = runDigest (CHR ''e''),
     ds_IdempotencyKey = runDigest (CHR ''f''), ds_ProviderSupportsReconciliation = False, ds_Status = ''prepared'',
     ds_ResultDigest = '''', ds_PreparedAt = ''t1'', ds_SettledAt = ''''\<rparr>"

definition sampleApproval :: interaction where
  "sampleApproval = \<lparr>ia_SchemaVersion = ''yawr.interaction-state/v1'', ia_TurnID = ''turn'', ia_CorrelationID = ''turn'',
     ia_OwnerStepID = DebugNodeID samplePath ''deploy'', ia_NodeID = DebugNodeID samplePath ''deploy'', ia_StepID = ''deploy'',
     ia_FrameID = runDigest (CHR ''a''), ia_FrameStepIndex = 0, ia_Kind = ''approval'', ia_Ordinal = 1, ia_ExecutionInvocation = 1,
     ia_Status = ''answered'', ia_RequestDigest = runDigest (CHR ''d''), ia_Request = ''{}'', ia_AnswerDigest = runDigest (CHR ''d''),
     ia_Answer = ''{}'', ia_AnswerCommandID = '''', ia_AnswerCommandDigest = '''', ia_AcceptedAt = ''t1'', ia_AuditToken = ''audit''\<rparr>"

definition sampleRun :: "dispatch_state gomap \<Rightarrow> interaction gomap \<Rightarrow> run_state" where
  "sampleRun dispatches interactions = \<lparr>ru_RunID = ''run'', ru_WriterEpoch = 1, ru_CheckpointSequence = 3, ru_CommittedTraceSequence = 7,
     ru_PendingTraceEvents = [], ru_PlanSnapshotDigest = ''plan'', ru_CursorSet = None, ru_Status = ''running'', ru_CurrentStepIndex = 0,
     ru_Vars = [], ru_StepResults = [], ru_Interactions = interactions, ru_ExecutionCounts = [],
     ru_InteractionCounts = map (\<lambda>(k, i). (InteractionInvocationCountKey i, 1)) interactions, ru_Dispatches = dispatches,
     ru_Frames = [(runDigest (CHR ''a''), sampleFrame)], ru_Resolutions = [], ru_PendingHandoff = None, ru_UpdatedAt = ''t1'',
     ru_CompletedAt = ''''\<rparr>"

definition samplePlan :: run_plan where
  "samplePlan = \<lparr>pl_RunbookID = ''book'', pl_Steps = [(''call'', 0)]\<rparr>"

definition interruptedRun :: run_state where
  "interruptedRun = sampleRun [(runDigest (CHR ''c''), sampleDispatch)] []"

definition approvedRun :: run_state where
  "approvedRun = sampleRun [(runDigest (CHR ''c''), sampleDispatch)] [(''turn'', sampleApproval)]"

definition idleRun :: run_state where
  "idleRun = sampleRun [] []"

lemma runDigest_valid [simp]: "isHex c \<Longrightarrow> validSHA256Digest (runDigest c)"
  by (simp add: validSHA256Digest_def validDigest_def runDigest_def hasPrefix_def trimPrefix_def list_all_iff)

lemma runDigest_inject [simp]: "runDigest c = runDigest c' \<longleftrightarrow> c = c'" "runDigest c \<noteq> []" "[] \<noteq> runDigest c"
  by (simp_all add: runDigest_def)

lemma sample_nodes [simp]: "DebugNodeID samplePath ''deploy'' \<noteq> []" "DebugNodeID [] ''call'' \<noteq> []"
  by code_simp+

lemma sample_hex [simp]: "isHex (CHR ''a'')" "isHex (CHR ''b'')" "isHex (CHR ''c'')" "isHex (CHR ''d'')" "isHex (CHR ''e'')" "isHex (CHR ''f'')"
  by code_simp+

lemmas sample_state = sampleRun_def interruptedRun_def approvedRun_def idleRun_def sampleFrame_def sampleDispatch_def sampleApproval_def
  sampleLib_def samplePath_def [symmetric]

lemma sample_frame_valid: "validFrame sampleLib 1 (runDigest (CHR ''a'')) sampleFrame"
  by (simp add: validFrame_def sampleFrame_def sampleLib_def) (simp add: samplePath_def)

lemma sample_dispatch_valid: "validDispatch sampleLib 1 (runDigest (CHR ''c'')) sampleDispatch"
  by (simp add: validDispatch_def sampleDispatch_def sampleLib_def frameBound_def) (simp add: samplePath_def)

lemma sample_approval_valid: "validInteraction sampleLib ''turn'' sampleApproval"
  by (simp add: validInteraction_def validAnswer_def sampleApproval_def sampleLib_def frameBound_def) (simp add: runDigest_def)

lemma sample_prepared:
  "preparedDispatches interruptedRun = [sampleDispatch]" "preparedDispatches approvedRun = [sampleDispatch]" "preparedDispatches idleRun = []"
  by (simp_all add: preparedDispatches_def interruptedRun_def approvedRun_def idleRun_def sampleRun_def) (simp_all add: sampleDispatch_def)

lemma sample_dispatch_related: "dispatchRelated sampleLib [(runDigest (CHR ''a''), sampleFrame)] [] sampleDispatch"
  by (simp add: dispatchRelated_def sampleDispatch_def sampleFrame_def childAt_def sameDebugCallPath_def mget_def)

lemma sample_frame_related: "frameRelated [(runDigest (CHR ''a''), sampleFrame)] sampleFrame"
  by (simp add: frameRelated_def sampleFrame_def maxStoredValueEntries_def)

lemma sample_approval_related: "interactionRelated [(runDigest (CHR ''a''), sampleFrame)] sampleApproval"
  by (simp add: interactionRelated_def sampleApproval_def sampleFrame_def childAt_def mget_def)

lemma sample_resolvers:
  "validateDynamicResolutionDispatches L [(k, sampleDispatch)] [] rs fs" "validateDynamicResolutionDispatches L [] [] rs fs"
  by (simp_all add: validateDynamicResolutionDispatches_def settledResolver_def sampleDispatch_def)

lemma sample_counts: "validateInteractionInvocationCounts [(InteractionInvocationCountKey sampleApproval, 1)] [(''turn'', sampleApproval)]"
proof -
  have "validCountKey (InteractionInvocationCountKey sampleApproval)" by code_simp
  then show ?thesis
    by (simp add: validateInteractionInvocationCounts_def ordinalsCovered_def Let_def maxStoredValueEntries_def mget0_def mget_def)
      (simp add: sampleApproval_def)
qed

lemma sample_run_valid:
  assumes "ds = [] \<or> ds = [(runDigest (CHR ''c''), sampleDispatch)]" and "ias = [] \<or> ias = [(''turn'', sampleApproval)]"
  shows "validRunState sampleLib False (sampleRun ds ias)"
proof -
  have "validateInteractionStates sampleLib ias" "validateInteractionInvocationCounts (map (\<lambda>(k, i). (InteractionInvocationCountKey i, 1)) ias) ias"
    using assms(2) sample_approval_valid sample_counts
    by (auto simp: validateInteractionStates_def validateInteractionInvocationCounts_def)
  moreover have "validateDispatchStates sampleLib 1 ds"
    using assms(1) sample_dispatch_valid by (auto simp: validateDispatchStates_def maxStoredValueEntries_def)
  moreover have "validateExecutionFrameStates sampleLib 1 [(runDigest (CHR ''a''), sampleFrame)]"
    using sample_frame_valid by (simp add: validateExecutionFrameStates_def maxStoredValueEntries_def)
  moreover have "validateExecutionStateRelationships sampleLib (sampleRun ds ias)"
    using assms sample_dispatch_related sample_frame_related sample_approval_related sample_resolvers
    by (auto simp: validateExecutionStateRelationships_def sampleRun_def Let_def cursorsRelated_def)
  ultimately show ?thesis
    by (simp add: validRunState_def sampleRun_def validateExecutionInvocationCounts_def validateDynamicIncludeResolutions_def Let_def
        validatePendingHandoff_def validatePendingTraceEvents_def)
qed

end
