(* ===== verification/Run_Properties.thy ===== *)
theory Run_Properties
  imports Sample_Run
begin

section \<open>Properties of resuming a run\<close>

text \<open>
  What a process that takes over a run can rely on: the state it makes of the last checkpoint can be saved, and when it cannot.
\<close>

subsection \<open>Acceptance of the recovered state\<close>

definition recoveryPossible :: "run_lib \<Rightarrow> bool \<Rightarrow> run_plan \<Rightarrow> run_state \<Rightarrow> bool" where
  "recoveryPossible L scoped plan st =
     (resumable L scoped st \<and> preparedDispatches st \<noteq> [] \<and> ru_PendingHandoff st = None \<and> length (ru_PendingTraceEvents st) < 16 \<and>
      ru_CommittedTraceSequence st < 2 ^ 63 - 1 \<and> 0 \<le> ru_CurrentStepIndex st \<and> ru_CurrentStepIndex st < int (length (pl_Steps plan)))"

lemma recovered_closed:
  assumes "resumable L scoped st" and "preparedDispatches st \<noteq> []"
  shows "recoveredState eventID now stamp plan e st =
    Some (stageResumeCommitEvent eventID stamp (pl_RunbookID plan)
      ((markedState e now st)\<lparr>ru_CursorSet := recoveredCursors plan (markedState e now st) (preparedDispatches st),
        ru_CheckpointSequence := i64 (ru_CheckpointSequence (markedState e now st) + 1)\<rparr>), True)"
  using assms(2) by (simp add: recoveredState_def mark_closed [OF assms] Let_def)

lemma relations_ignore_sequence [simp]:
  "validateExecutionStateRelationships L (st\<lparr>ru_CheckpointSequence := n\<rparr>) = validateExecutionStateRelationships L st"
  "validateExecutionStateRelationships L (stageResumeCommitEvent eid t rb st) = validateExecutionStateRelationships L st"
  by (simp_all add: validateExecutionStateRelationships_def Let_def)

lemma marked_valid:
  assumes "recoveryPossible L scoped plan st" and "e \<noteq> 0" and "eventID \<noteq> ''''" and "rl_time L now" and "rl_time L stamp"
    and "recoveredState eventID now stamp plan e st = Some (st', True)" and "list_all (payloadEncodes L) (ru_PendingTraceEvents st')"
  shows "validRunState L scoped st'"
proof -
  note p = assms(1) [unfolded recoveryPossible_def]
  let ?m = "(markedState e now st)\<lparr>ru_CursorSet := recoveredCursors plan (markedState e now st) (preparedDispatches st),
    ru_CheckpointSequence := i64 (ru_CheckpointSequence (markedState e now st) + 1)\<rparr>"
  have st': "st' = stageResumeCommitEvent eventID stamp (pl_RunbookID plan) ?m"
    using assms(6) p recovered_closed [of L scoped st eventID now stamp plan e] by simp
  have r: "resumable L scoped st" and v: "validRunState L scoped st" using p by (simp_all add: resumable_def)
  note c = resumable_checks [OF r]
  have "validatePendingTraceEvents L (ru_RunID st') (ru_CommittedTraceSequence st') (ru_PendingTraceEvents st')"
    using stage_events [of L ?m eventID stamp "pl_RunbookID plan"] p v assms(3, 5, 7) st' by (simp add: validRunState_def)
  moreover have "validateExecutionStateRelationships L st'"
    using marked_relations [OF r _ assms(2)] p st' by simp
  moreover have "validateDispatchStates L e (ru_Dispatches st')" using ended_validDispatches [OF c(1) assms(4)] st' by simp
  moreover have "validateExecutionFrameStates L e (ru_Frames st')" using moved_validFrames [OF r assms(2)] st' by simp
  moreover have "validateDynamicIncludeResolutions L e scoped (ru_Resolutions st')" using validResolutions_refence [OF c(3) assms(2)] st' by simp
  moreover have "validatePendingHandoff L (ru_Status st') (ru_PendingHandoff st')" using p st' by (simp add: validatePendingHandoff_def)
  ultimately show ?thesis using v st' unfolding validRunState_def by simp
qed

lemma recovered_settles:
  assumes "resumable L scoped st" and "preparedDispatches st \<noteq> []" and "recoveredState eventID now stamp plan e st = Some (st', True)"
  shows "preparedDispatches st' = []"
proof -
  have "ru_Dispatches st' = endedDispatches now (ru_Dispatches st)" using assms by (auto simp: recovered_closed)
  then have "\<not> (\<exists>d. d \<in> set (preparedDispatches st'))" by (auto simp: set_prepared endedDispatches_def)
  then show ?thesis by (simp add: ex_in_conv)
qed

subsection \<open>Interactions of a frame that moves\<close>

lemma markOne_next:
  assumes "markOne now st d = Some st'" and "mget (ru_Frames st) k = Some f" and "k \<noteq> ''''"
  shows "\<exists>f'. mget (ru_Frames st') k = Some f' \<and> fr_NextStepIndex f' = fr_NextStepIndex f + (if ds_FrameID d = k then 1 else 0)"
  using assms by (auto simp: markOne_def Let_def split: if_splits option.splits)

lemma markAll_next:
  "markAll now ps st = Some st' \<Longrightarrow> mget (ru_Frames st) k = Some f \<Longrightarrow> k \<noteq> '''' \<Longrightarrow>
    \<exists>f'. mget (ru_Frames st') k = Some f' \<and> fr_NextStepIndex f' = fr_NextStepIndex f + int (length (filter (\<lambda>d. ds_FrameID d = k) ps))"
proof (induction ps arbitrary: st f)
  case (Cons d ps)
  from Cons.prems(1) obtain st1 where st1: "markOne now st d = Some st1" "markAll now ps st1 = Some st'"
    by (auto simp: bind_eq_Some_conv)
  from markOne_next [OF st1(1) Cons.prems(2, 3)] obtain f1 where f1: "mget (ru_Frames st1) k = Some f1"
    "fr_NextStepIndex f1 = fr_NextStepIndex f + (if ds_FrameID d = k then 1 else 0)" by blast
  from Cons.IH [OF st1(2) f1(1) Cons.prems(3)] f1(2) show ?case by auto
qed simp

lemma markOne_interactions: "markOne now st d = Some st' \<Longrightarrow> ru_Interactions st' = ru_Interactions st"
  by (auto simp: markOne_def Let_def split: if_splits option.splits)

lemma markAll_interactions: "markAll now ps st = Some st' \<Longrightarrow> ru_Interactions st' = ru_Interactions st"
  by (induction ps arbitrary: st) (auto simp: bind_eq_Some_conv dest: markOne_interactions)

lemma recovered_next:
  assumes "recoveredState eventID now stamp plan e st = Some (st', True)" and "d \<in> set (preparedDispatches st)"
    and "mget (ru_Frames st) (ds_FrameID d) = Some f" and "ds_FrameID d \<noteq> ''''"
  obtains f' where "mget (ru_Frames st') (ds_FrameID d) = Some f'" "fr_NextStepIndex f < fr_NextStepIndex f'"
    "ru_Interactions st' = ru_Interactions st"
proof -
  from assms(2) have "preparedDispatches st \<noteq> []" by auto
  then obtain m where m: "markAll now (preparedDispatches st) (haltedState e now st) = Some m"
      "ru_Frames st' = ru_Frames m" "ru_Interactions st' = ru_Interactions m"
    using assms(1) by (auto simp: recoveredState_def markPreparedDispatchesIndeterminate_def Let_def split: option.splits)
  have "mget (ru_Frames (haltedState e now st)) (ds_FrameID d) = Some (refenceFrame e f)"
    using assms(3) by (simp add: haltedState_def refenceFrames_entries mget_map_entries)
  from markAll_next [OF m(1) this assms(4)] obtain f' where f': "mget (ru_Frames m) (ds_FrameID d) = Some f'"
    "fr_NextStepIndex f' = fr_NextStepIndex f + int (length (filter (\<lambda>x. ds_FrameID x = ds_FrameID d) (preparedDispatches st)))" by auto
  have "filter (\<lambda>x. ds_FrameID x = ds_FrameID d) (preparedDispatches st) \<noteq> []" using assms(2) by (auto simp: filter_empty_conv)
  with f' m markAll_interactions [OF m(1)] show thesis by (intro that [of f']) (auto simp: haltedState_def)
qed

subsection \<open>Taking over without prepared dispatches\<close>

lemma refence_as_marked:
  assumes "preparedDispatches st = []"
  shows "movedFrames e t st = refenceFrames e (ru_Frames st)" "endedDispatches t (ru_Dispatches st) = ru_Dispatches st"
    "rootResults (ru_RunID st) t (preparedDispatches st) m = m"
proof -
  show "movedFrames e t st = refenceFrames e (ru_Frames st)"
    by (simp add: movedFrames_def refenceFrames_entries movedFrame_other assms)
  have "endedDispatch t d = d" if "(k, d) \<in> set (ru_Dispatches st)" for k d
    using that assms set_prepared [of d st] by (auto simp: endedDispatch_def)
  then show "endedDispatches t (ru_Dispatches st) = ru_Dispatches st"
    unfolding endedDispatches_def by (intro map_idI) auto
  show "rootResults (ru_RunID st) t (preparedDispatches st) m = m" by (simp add: rootResults_def assms)
qed

lemma refence_cursors:
  assumes "cursorsRelated e ds fs cs" and "e \<noteq> 0"
  shows "cursorsRelated e' ds (refenceFrames e' fs) cs"
proof -
  have "preparedAt ds (refenceFrame e' f) = preparedAt ds f" for f by (simp add: preparedAt_def)
  then have "cursorRelated e' ds (refenceFrames e' fs) c" if "cursorRelated e ds fs c" for c
    using that assms(2) by (auto simp: cursorRelated_def refenceFrames_entries mget_map_entries split: if_splits option.splits)
  with assms(1) show ?thesis by (auto simp: cursorsRelated_def list_all_iff split: option.splits)
qed

lemma refence_relations_valid:
  assumes "resumable L scoped st" and "preparedDispatches st = []" and "ru_WriterEpoch st \<noteq> 0"
  shows "validateExecutionStateRelationships L (st\<lparr>ru_WriterEpoch := e, ru_UpdatedAt := now, ru_Frames := refenceFrames e (ru_Frames st),
    ru_Resolutions := refenceResolutions e (ru_Resolutions st)\<rparr>)"
proof -
  note c = resumable_checks [OF assms(1)] and m = refence_as_marked [OF assms(2)]
  show ?thesis
    using moved_relations [OF assms(1), of e now] moved_resolvers [OF assms(1), of now e] refence_cursors [OF c(11) assms(3), of e]
    unfolding validateExecutionStateRelationships_def m by (simp add: Let_def)
qed

lemma unprepared_recoverable: "preparedDispatches st = [] \<Longrightarrow> recoverable L st"
  by (simp add: recoverable_def)

lemma refence_epoch:
  assumes "resumable L scoped st" and "requiresRefence e st"
  shows "ru_WriterEpoch st \<noteq> 0"
  using assms(2) resumable_checks(2, 3) [OF assms(1)]
  by (auto simp: requiresRefence_def list_ex_iff list_all_iff activeFrame_def validateExecutionFrameStates_def validFrame_def
      validateDynamicIncludeResolutions_def validResolution_def Let_def)

lemma refence_valid:
  assumes "resumable L scoped st" and "preparedDispatches st = []" and "requiresRefence e st" and "e \<noteq> 0" and "eventID \<noteq> ''''"
    and "rl_time L now" and "rl_time L stamp" and "length (ru_PendingTraceEvents st) < 16" and "ru_CommittedTraceSequence st < 2 ^ 63 - 1"
    and "refencedState eventID now stamp e st = (st', True)" and "list_all (payloadEncodes L) (ru_PendingTraceEvents st')"
  shows "validRunState L scoped st'"
proof -
  let ?m = "st\<lparr>ru_WriterEpoch := e, ru_UpdatedAt := now, ru_Frames := refenceFrames e (ru_Frames st),
    ru_Resolutions := refenceResolutions e (ru_Resolutions st), ru_CheckpointSequence := i64 (ru_CheckpointSequence st + 1)\<rparr>"
  note c = resumable_checks [OF assms(1)] and m = refence_as_marked [OF assms(2)]
  have st': "st' = stageResumeCommitEvent eventID stamp '''' ?m" using assms(3, 10) by (simp add: refencedState_def)
  have v: "validRunState L scoped st" using assms(1) by (simp add: resumable_def)
  have "validatePendingTraceEvents L (ru_RunID st') (ru_CommittedTraceSequence st') (ru_PendingTraceEvents st')"
    using stage_events [of L ?m eventID stamp "''''"] v assms st' by (simp add: validRunState_def)
  moreover have "validateExecutionStateRelationships L st'"
    using refence_relations_valid [OF assms(1, 2) refence_epoch [OF assms(1, 3)], of e now] st' by simp
  moreover have "validateDispatchStates L e (ru_Dispatches st')" using ended_validDispatches [OF c(1) assms(6), of e] st' m(2) by simp
  moreover have "validateExecutionFrameStates L e (ru_Frames st')" using moved_validFrames [OF assms(1, 4), of now] st' m(1) by simp
  moreover have "validateDynamicIncludeResolutions L e scoped (ru_Resolutions st')" using validResolutions_refence [OF c(3) assms(4)] st' by simp
  ultimately show ?thesis using v st' unfolding validRunState_def by simp
qed

lemma refence_fenced:
  assumes "refencedState eventID now stamp e st = (st', b)"
  shows "\<not> requiresRefence e st'"
proof (cases "requiresRefence e st")
  case True
  with assms have "ru_Frames st' = refenceFrames e (ru_Frames st)" "ru_Resolutions st' = refenceResolutions e (ru_Resolutions st)"
    by (auto simp: refencedState_def)
  then show ?thesis
    by (auto simp: requiresRefence_def refenceFrames_def refenceResolutions_def list_ex_iff split: if_splits)
qed (use assms in \<open>simp add: refencedState_def\<close>)

lemma sample_wfMaps: "wfMaps (sampleRun ds ias) \<longleftrightarrow> mwf ds"
  by (simp add: wfMaps_def sampleRun_def mwf_def sampleFrame_def)

lemma interrupted_possible: "recoveryPossible sampleLib False samplePlan interruptedRun"
proof -
  have "recoverable sampleLib interruptedRun"
    by (simp add: recoverable_def sample_prepared) (simp add: sampleDispatch_def interruptedRun_def sampleRun_def sampleFrame_def)
  then have "resumable sampleLib False interruptedRun"
    by (simp add: resumable_def interruptedRun_def sample_run_valid sample_wfMaps mwf_def)
  then show ?thesis
    by (simp add: recoveryPossible_def sample_prepared) (simp add: interruptedRun_def sampleRun_def samplePlan_def)
qed

lemma sample_encodes [simp]: "payloadEncodes sampleLib ev"
  by (simp add: payloadEncodes_def sampleLib_def)

subsection \<open>The properties\<close>



text \<open>
  C35. A new writer that finds no prepared dispatch takes over every active frame and resolution: afterwards none belongs to another epoch,
  and a state that it has to save passes every check of a checkpoint when its trace events can be encoded.
\<close>

theorem new_writer_takes_over:
  assumes "validRunState L scoped st" and "wfMaps st" and "preparedDispatches st = []" and "e \<noteq> 0" and "eventID \<noteq> ''''"
    and "rl_time L now" and "rl_time L stamp" and "length (ru_PendingTraceEvents st) < 16" and "ru_CommittedTraceSequence st < 2 ^ 63 - 1"
    and "refencedState eventID now stamp e st = (st', saved)" and "list_all (payloadEncodes L) (ru_PendingTraceEvents st')"
  shows "\<not> requiresRefence e st' \<and> validRunState L scoped st' \<and> (saved \<longrightarrow> ru_WriterEpoch st' = e)"
proof -
  have r: "resumable L scoped st" using assms(1-3) by (simp add: resumable_def unprepared_recoverable)
  show ?thesis
  proof (cases "requiresRefence e st")
    case True
    then have "saved" "ru_WriterEpoch st' = e" using assms(10) by (auto simp: refencedState_def)
    with refence_valid [OF r assms(3) True assms(4-9) _ assms(11)] refence_fenced [OF assms(10)] assms(10) show ?thesis by simp
  next
    case False
    with assms(1, 10) show ?thesis by (simp add: refencedState_def)
  qed
qed

theorem new_writer_takes_over_witness:
  "\<not> requiresRefence 2 (fst (refencedState ''event'' ''t2'' ''t3'' 2 idleRun)) \<and>
    validRunState sampleLib False (fst (refencedState ''event'' ''t2'' ''t3'' 2 idleRun)) \<and>
    ru_WriterEpoch (fst (refencedState ''event'' ''t2'' ''t3'' 2 idleRun)) = 2"
proof -
  obtain st' saved where s: "refencedState ''event'' ''t2'' ''t3'' 2 idleRun = (st', saved)" by fastforce
  have "requiresRefence 2 idleRun" by (simp add: requiresRefence_def idleRun_def sampleRun_def sampleFrame_def activeFrame_def)
  with s have "saved" by (auto simp: refencedState_def)
  moreover have "rl_time sampleLib ''t2''" "rl_time sampleLib ''t3''" by (simp_all add: sampleLib_def)
  moreover have "validRunState sampleLib False idleRun" "wfMaps idleRun" by (simp_all add: idleRun_def sample_run_valid sample_wfMaps mwf_def)
  moreover have "length (ru_PendingTraceEvents idleRun) < 16" "ru_CommittedTraceSequence idleRun < 2 ^ 63 - 1" by (simp_all add: idleRun_def sampleRun_def)
  ultimately show ?thesis
    using new_writer_takes_over [of sampleLib False idleRun 2 "''event''" "''t2''" "''t3''" st' saved] s sample_prepared(3)
    by (simp add: list_all_iff)
qed

text \<open>
  C36. A run that was interrupted while a step of a frame was dispatched, and that still holds an interaction of that frame (the answered
  approval of the step), cannot be resumed: the recovered state moves the frame past the step and keeps the interaction, so the checkpoint is
  refused whatever the epoch, the plan and the clock are.
\<close>

theorem approved_dispatch_never_resumes:
  assumes "validRunState L scoped st" and "d \<in> set (preparedDispatches st)" and "(k, i) \<in> set (ru_Interactions st)"
    and "ia_FrameID i = ds_FrameID d" and "ds_FrameID d \<noteq> ''''"
    and "ru_Status st \<noteq> ''indeterminate''" and "ru_Status st \<noteq> ''handoff_pending''" and "digest \<noteq> ''''" and "ru_PlanSnapshotDigest st = digest"
  shows "resumeCheckpoint L scoped recovery refence acknowledged digest lastSeq plan e st \<in> {Inl UnmatchedDispatch, Inl CheckpointCommit}"
proof -
  obtain eid now stamp where rec: "recovery = (eid, now, stamp)" by (cases recovery)
  let ?st0 = "st\<lparr>ru_PendingTraceEvents := [], ru_CommittedTraceSequence := max (ru_CommittedTraceSequence st) lastSeq\<rparr>"
  have d: "d \<in> set (preparedDispatches ?st0)" using assms(2) by (simp add: preparedDispatches_def)
  have related: "interactionRelated (ru_Frames st) i"
    using assms(1, 3) by (auto simp: validRunState_def validateExecutionStateRelationships_def Let_def list_all_iff)
  then obtain f where f: "mget (ru_Frames st) (ds_FrameID d) = Some f" "ia_FrameStepIndex i = fr_NextStepIndex f"
    using assms(4, 5) by (auto simp: interactionRelated_def split: option.splits)
  have "\<not> validRunState L scoped st1" if "recoveredState eid now stamp plan e ?st0 = Some (st1, True)" for st1
  proof
    assume v: "validRunState L scoped st1"
    from recovered_next [OF that d] f assms(5) obtain f' where f': "mget (ru_Frames st1) (ds_FrameID d) = Some f'"
      "fr_NextStepIndex f < fr_NextStepIndex f'" "ru_Interactions st1 = ru_Interactions st" by auto
    have "interactionRelated (ru_Frames st1) i"
      using v f'(3) assms(3) by (auto simp: validRunState_def validateExecutionStateRelationships_def Let_def list_all_iff)
    with f f' assms(4, 5) show False by (auto simp: interactionRelated_def)
  qed
  moreover have "snd r" if "recoveredState eid now stamp plan e ?st0 = Some r" for r
    using that d by (auto simp: recoveredState_def markPreparedDispatchesIndeterminate_def Let_def split: option.splits if_splits)
  ultimately show ?thesis
    using assms(6-9) by (auto simp: resumeCheckpoint_def rec Let_def saveRecovered_def split: option.split prod.split)
qed

theorem approved_dispatch_never_resumes_witness:
  "resumeCheckpoint sampleLib False (''e1'', ''t2'', ''t3'') (''e2'', ''t4'', ''t5'') True ''plan'' 9 samplePlan 2 approvedRun
    \<in> {Inl UnmatchedDispatch, Inl CheckpointCommit}"
proof (rule approved_dispatch_never_resumes)
  show "validRunState sampleLib False approvedRun" by (simp add: approvedRun_def sample_run_valid)
  show "sampleDispatch \<in> set (preparedDispatches approvedRun)" by (simp add: sample_prepared)
  show "(''turn'', sampleApproval) \<in> set (ru_Interactions approvedRun)" by (simp add: approvedRun_def sampleRun_def)
qed (simp_all add: approvedRun_def sampleRun_def sampleApproval_def sampleDispatch_def)

end
