(* ===== verification/Durable_Steps.thy ===== *)
theory Durable_Steps
  imports Prelude
begin

section \<open>Steps that keep what is durable\<close>

text \<open>
  The contract of a component that keeps something on disk: from a good state every step leads to a good state in which everything durable is kept. What
  a client may rely on after any number of steps follows once.
\<close>

locale durable_steps =
  fixes step :: "'s \<Rightarrow> 's \<Rightarrow> bool"
    and ok :: "'s \<Rightarrow> bool"
    and kept :: "'s \<Rightarrow> 's \<Rightarrow> bool"
  assumes kept_refl: "ok s \<Longrightarrow> kept s s"
    and kept_trans: "ok s' \<Longrightarrow> kept s s' \<Longrightarrow> kept s' s'' \<Longrightarrow> kept s s''"
    and step_kept: "ok s \<Longrightarrow> step s s' \<Longrightarrow> ok s' \<and> kept s s'"
begin

lemma steps_kept:
  assumes "step\<^sup>*\<^sup>* s s'" and "ok s"
  shows "ok s' \<and> kept s s'"
  using assms(1)
proof (induction rule: rtranclp_induct)
  case base
  then show ?case using assms(2) kept_refl by blast
next
  case (step s1 s2)
  then show ?case using step_kept [of s1 s2] kept_trans [of s1 s s2] by blast
qed

text \<open>What was kept on the way is kept at the end.\<close>

lemma steps_kept_between: "step\<^sup>*\<^sup>* s s' \<Longrightarrow> step\<^sup>*\<^sup>* s' s'' \<Longrightarrow> ok s \<Longrightarrow> kept s' s''"
  using steps_kept by blast

end

end
