(* ===== verification/Run_Checkpoints.thy ===== *)
theory Run_Checkpoints
  imports Go_Decimal Durable_Steps
begin

section \<open>Checkpoint files of a run\<close>

text \<open>
  The directory of the checkpoints of a run, \<^verbatim>\<open>saveSequencedCheckpoint\<close> with the file operations it is made of, and the choice of the checkpoint
  that \<^verbatim>\<open>LoadState\<close> reads (\<^verbatim>\<open>runtime/internal/runstore/dir_store.go\<close>). Processes save at the same time, so each call of the operating system is one step
  of a saver; a fault is a call that fails, or a directory that is not synced after a file was linked.
\<close>

subsection \<open>The directory\<close>

datatype dir_entry = SubDir | DataFile string

type_synonym snapshots = "dir_entry gomap"

definition maxRunStateBytes :: nat where
  "maxRunStateBytes = 16 * 2 ^ 20"

definition checkpointName :: "int \<Rightarrow> string" where
  "checkpointName sequence = ''checkpoint-'' @ zeroPadded 20 sequence @ ''.json''"

definition parseCheckpointSequence :: "string \<Rightarrow> int option" where
  "parseCheckpointSequence name = parseInt64 (trimSuffix (trimPrefix name ''checkpoint-'') ''.json'')"

definition checkpointEntry :: "string \<Rightarrow> dir_entry \<Rightarrow> int option" where
  "checkpointEntry name e =
     (if e = SubDir \<or> \<not> hasPrefix name ''checkpoint-'' \<or> \<not> hasSuffix name ''.json'' then None else parseCheckpointSequence name)"

definition highestCheckpointSequence :: "snapshots \<Rightarrow> int" where
  "highestCheckpointSequence dir =
     fold (\<lambda>(name, e) highest. case checkpointEntry name e of None \<Rightarrow> highest | Some s \<Rightarrow> if highest < s then s else highest) dir 0"

definition latestCheckpoint :: "snapshots \<Rightarrow> (string \<times> int) option" where
  "latestCheckpoint dir =
     fold (\<lambda>(name, e) latest.
       if e = SubDir \<or> hasSuffix name ''.tmp'' \<or> \<not> hasSuffix name ''.json'' \<or> \<not> hasPrefix name ''checkpoint-'' then latest
       else case parseCheckpointSequence name of
         None \<Rightarrow> latest
       | Some s \<Rightarrow> if 0 \<le> s \<and> (case latest of None \<Rightarrow> True | Some (_, l) \<Rightarrow> l < s) then Some (name, s) else latest) dir None"

definition readFileBounded :: "snapshots \<Rightarrow> string \<Rightarrow> string option" where
  "readFileBounded dir name =
     (case mget dir name of Some (DataFile d) \<Rightarrow> if maxRunStateBytes < length d then None else Some d | _ \<Rightarrow> None)"

subsection \<open>Saving\<close>

datatype disk_fault = NoFault | CallFails | SyncFails

text \<open>Where a saver of a sequence number and its data stands; the last three are the results of the call.\<close>

datatype saver =
    Saving int string
  | Retrying int string
  | Publishing int string
  | Rechecking int string
  | Rescanning int string string
  | Saved int string
  | CheckpointConflict
  | SaveFailed

definition syncDirectory :: "disk_fault \<Rightarrow> int \<Rightarrow> string \<Rightarrow> saver" where
  "syncDirectory fault sequence data = (if fault = SyncFails then SaveFailed else Saved sequence data)"

definition scanStep :: "disk_fault \<Rightarrow> snapshots \<Rightarrow> int \<Rightarrow> string \<Rightarrow> saver" where
  "scanStep fault dir sequence data =
     (if fault = CallFails then SaveFailed
      else
        (let highest = highestCheckpointSequence dir in
         if sequence \<le> highest then (if sequence = highest then Retrying sequence data else CheckpointConflict)
         else if sequence \<noteq> i64 (highest + 1) then CheckpointConflict
         else Publishing sequence data))"

definition retryStep :: "disk_fault \<Rightarrow> snapshots \<Rightarrow> int \<Rightarrow> string \<Rightarrow> saver" where
  "retryStep fault dir sequence data =
     (if fault \<noteq> CallFails \<and> readFileBounded dir (checkpointName sequence) = Some data then Saved sequence data else CheckpointConflict)"

definition writeFileExclusive :: "disk_fault \<Rightarrow> snapshots \<Rightarrow> int \<Rightarrow> string \<Rightarrow> snapshots \<times> saver" where
  "writeFileExclusive fault dir sequence data =
     (if fault = CallFails then (dir, SaveFailed)
      else if mget dir (checkpointName sequence) \<noteq> None then (dir, Rechecking sequence data)
      else (mput (checkpointName sequence) (DataFile data) dir, syncDirectory fault sequence data))"

definition recheckStep :: "disk_fault \<Rightarrow> snapshots \<Rightarrow> int \<Rightarrow> string \<Rightarrow> saver" where
  "recheckStep fault dir sequence data =
     (if fault = CallFails then SaveFailed
      else case readFileBounded dir (checkpointName sequence) of None \<Rightarrow> SaveFailed | Some existing \<Rightarrow> Rescanning sequence data existing)"

definition rescanStep :: "disk_fault \<Rightarrow> snapshots \<Rightarrow> int \<Rightarrow> string \<Rightarrow> string \<Rightarrow> saver" where
  "rescanStep fault dir sequence data existing =
     (if fault = CallFails then SaveFailed
      else if highestCheckpointSequence dir = sequence \<and> existing = data then syncDirectory fault sequence data
      else CheckpointConflict)"

fun saveSequencedCheckpoint :: "disk_fault \<Rightarrow> snapshots \<Rightarrow> saver \<Rightarrow> snapshots \<times> saver" where
  "saveSequencedCheckpoint fault dir (Saving sequence data) = (dir, scanStep fault dir sequence data)"
| "saveSequencedCheckpoint fault dir (Retrying sequence data) = (dir, retryStep fault dir sequence data)"
| "saveSequencedCheckpoint fault dir (Publishing sequence data) = writeFileExclusive fault dir sequence data"
| "saveSequencedCheckpoint fault dir (Rechecking sequence data) = (dir, recheckStep fault dir sequence data)"
| "saveSequencedCheckpoint fault dir (Rescanning sequence data existing) = (dir, rescanStep fault dir sequence data existing)"
| "saveSequencedCheckpoint fault dir s = (dir, s)"

inductive save_step :: "snapshots \<times> saver list \<Rightarrow> snapshots \<times> saver list \<Rightarrow> bool" where
  save_step: "i < length ss \<Longrightarrow> saveSequencedCheckpoint fault dir (ss ! i) = (dir', s') \<Longrightarrow> save_step (dir, ss) (dir', ss[i := s'])"

inductive_cases save_stepE: "save_step (dir, ss) (dir', ss')"

subsection \<open>Names and sequence numbers\<close>

lemma trimPrefix_append [simp]: "trimPrefix (p @ s) p = s"
  by (simp add: trimPrefix_def hasPrefix_def)

lemma trimSuffix_append [simp]: "trimSuffix (s @ p) p = s"
  by (simp add: trimSuffix_def hasSuffix_def)

lemma decVal_zeros: "decVal 0 (replicate k (CHR ''0'') @ ds) = decVal 0 ds"
  by (induction k) (simp_all add: digitVal_def)

lemma zeroPadded_decimal:
  assumes "0 \<le> n"
  shows "list_all isDigit (zeroPadded w n)" "decVal 0 (zeroPadded w n) = nat n" "zeroPadded w n \<noteq> []"
proof -
  have "isDigit (CHR ''0'')" by (simp add: isDigit_def)
  then have "list_all isDigit (replicate k (CHR ''0''))" for k by (induction k) simp_all
  with assms natDigits_decimal [of "nat n"] show "list_all isDigit (zeroPadded w n)" "decVal 0 (zeroPadded w n) = nat n" "zeroPadded w n \<noteq> []"
    by (simp_all add: zeroPadded_def Let_def decVal_zeros)
qed

lemma parse_zeroPadded: "0 \<le> n \<Longrightarrow> n < 2 ^ 63 \<Longrightarrow> parseInt64 (zeroPadded w n) = Some n"
proof -
  assume n: "0 \<le> n" "n < 2 ^ 63"
  note d = zeroPadded_decimal [OF n(1), of w]
  then have "isDigit (hd (zeroPadded w n))" by (cases "zeroPadded w n") auto
  then have "\<not> hasPrefix (zeroPadded w n) ''-''" "\<not> hasPrefix (zeroPadded w n) ''+''"
    using d(3) by (cases "zeroPadded w n"; auto simp: hasPrefix_def isDigit_def)+
  with d n show ?thesis by (simp add: parseInt64_def in_i64_def)
qed

definition sequenceOk :: "int \<Rightarrow> bool" where
  "sequenceOk q = (1 \<le> q \<and> q < 2 ^ 63)"

lemma parse_checkpointName: "sequenceOk q \<Longrightarrow> parseCheckpointSequence (checkpointName q) = Some q"
  unfolding parseCheckpointSequence_def checkpointName_def trimPrefix_append trimSuffix_append
  by (simp add: sequenceOk_def parse_zeroPadded)

lemma checkpointName_shape: "hasPrefix (checkpointName q) ''checkpoint-''" "hasSuffix (checkpointName q) ''.json''" "\<not> hasSuffix (checkpointName q) ''.tmp''"
  by (simp_all add: checkpointName_def hasPrefix_def hasSuffix_def)

lemma checkpointName_inject: "sequenceOk q \<Longrightarrow> sequenceOk r \<Longrightarrow> checkpointName q = checkpointName r \<longleftrightarrow> q = r"
  by (metis parse_checkpointName option.inject)

lemma checkpointEntry_name: "sequenceOk q \<Longrightarrow> checkpointEntry (checkpointName q) (DataFile d) = Some q"
  by (simp add: checkpointEntry_def checkpointName_shape parse_checkpointName)

subsection \<open>The highest sequence number\<close>

lemma highest_fold:
  fixes dir :: snapshots
  defines "F \<equiv> (\<lambda>(name, e) highest. case checkpointEntry name e of None \<Rightarrow> highest | Some s \<Rightarrow> if highest < s then s else (highest :: int))"
  shows "h \<le> fold F dir h \<and> (\<forall>(name, e)\<in>set dir. \<forall>s. checkpointEntry name e = Some s \<longrightarrow> s \<le> fold F dir h) \<and>
    (fold F dir h = h \<or> (\<exists>(name, e)\<in>set dir. checkpointEntry name e = Some (fold F dir h)))"
proof (induction dir arbitrary: h)
  case (Cons p dir)
  obtain name e where p: "p = (name, e)" by (cases p)
  have "h \<le> F p h" "\<And>s. checkpointEntry name e = Some s \<Longrightarrow> s \<le> F p h" "F p h = h \<or> checkpointEntry name e = Some (F p h)"
    by (auto simp: F_def p split: option.split)
  with Cons [of "F p h"] show ?case by (force simp: p)
qed (simp add: F_def)

lemma checkpoint_upper: "(name, e) \<in> set dir \<Longrightarrow> checkpointEntry name e = Some s \<Longrightarrow> s \<le> highestCheckpointSequence dir"
  using highest_fold [of 0 dir] unfolding highestCheckpointSequence_def by auto

lemma highest_cases:
  obtains "highestCheckpointSequence dir = 0"
  | name e where "(name, e) \<in> set dir" "checkpointEntry name e = Some (highestCheckpointSequence dir)"
  using highest_fold [of 0 dir] unfolding highestCheckpointSequence_def by auto

lemma highest_nonneg: "0 \<le> highestCheckpointSequence dir"
  using highest_fold [of 0 dir] unfolding highestCheckpointSequence_def by auto

subsection \<open>Directories that the store wrote\<close>

definition published :: "snapshots \<Rightarrow> int \<Rightarrow> bool" where
  "published dir q = (sequenceOk q \<and> (\<exists>d. mget dir (checkpointName q) = Some (DataFile d) \<and> length d \<le> maxRunStateBytes))"

text \<open>Every file that counts as a checkpoint has the name and the size of one, and there is no gap.\<close>

definition snapshotsOk :: "snapshots \<Rightarrow> bool" where
  "snapshotsOk dir =
     (mwf dir \<and>
      (\<forall>(name, e)\<in>set dir. hasPrefix name ''checkpoint-'' \<longrightarrow>
        (\<exists>q. name = checkpointName q \<and> published dir q \<and> q \<le> highestCheckpointSequence dir)) \<and>
      (\<forall>q. 1 \<le> q \<and> q \<le> highestCheckpointSequence dir \<longrightarrow> published dir q))"

lemma published_entry: "published dir q \<Longrightarrow> mget dir (checkpointName q) = Some e \<Longrightarrow> checkpointEntry (checkpointName q) e = Some q"
  by (auto simp: published_def checkpointEntry_name)

lemma published_highest: "snapshotsOk dir \<Longrightarrow> published dir q \<Longrightarrow> 1 \<le> q \<and> q \<le> highestCheckpointSequence dir"
proof -
  assume ok: "snapshotsOk dir" and p: "published dir q"
  then obtain d where "mget dir (checkpointName q) = Some (DataFile d)" by (auto simp: published_def)
  with ok have "(checkpointName q, DataFile d) \<in> set dir" by (simp add: snapshotsOk_def mget_mem)
  with p have "q \<le> highestCheckpointSequence dir" by (intro checkpoint_upper) (auto simp: published_def checkpointEntry_name)
  with p show ?thesis by (simp add: published_def sequenceOk_def)
qed

lemma published_iff: "snapshotsOk dir \<Longrightarrow> published dir q \<longleftrightarrow> 1 \<le> q \<and> q \<le> highestCheckpointSequence dir"
  using published_highest [of dir q] unfolding snapshotsOk_def by blast

lemma snapshots_named:
  "snapshotsOk dir \<Longrightarrow> (name, e) \<in> set dir \<Longrightarrow> hasPrefix name ''checkpoint-'' \<Longrightarrow> \<exists>q. name = checkpointName q \<and> published dir q"
  unfolding snapshotsOk_def by blast

lemma mwf_snapshots: "snapshotsOk dir \<Longrightarrow> mwf dir"
  unfolding snapshotsOk_def by blast

text \<open>The highest number is known from what counts as a checkpoint.\<close>

lemma highest_eqI:
  assumes "\<And>name e s. (name, e) \<in> set dir \<Longrightarrow> checkpointEntry name e = Some s \<Longrightarrow> s \<le> h"
    and "0 < h \<Longrightarrow> \<exists>name e. (name, e) \<in> set dir \<and> checkpointEntry name e = Some h" and "0 \<le> h"
  shows "highestCheckpointSequence dir = h"
proof (rule antisym)
  show "highestCheckpointSequence dir \<le> h" by (cases dir rule: highest_cases) (use assms in auto)
  show "h \<le> highestCheckpointSequence dir"
    using assms(2, 3) checkpoint_upper [of _ _ dir h] highest_nonneg [of dir] by (cases "0 < h") auto
qed

lemma checkpointEntry_prefix: "checkpointEntry name e = Some s \<Longrightarrow> hasPrefix name ''checkpoint-''"
  by (auto simp: checkpointEntry_def split: if_splits)

lemma publish_highest:
  assumes ok: "snapshotsOk dir" and q: "q = highestCheckpointSequence dir + 1" "sequenceOk q" and fresh: "mget dir (checkpointName q) = None"
  shows "highestCheckpointSequence (mput (checkpointName q) (DataFile d) dir) = q"
proof (rule highest_eqI)
  let ?dir = "mput (checkpointName q) (DataFile d) dir"
  have w: "mwf dir" "mwf ?dir" using ok by (simp_all add: mwf_snapshots)
  show "0 \<le> q" using q(2) by (simp add: sequenceOk_def)
  show "\<exists>name e. (name, e) \<in> set ?dir \<and> checkpointEntry name e = Some q"
    using w q(2) by (intro exI [of _ "checkpointName q"] exI [of _ "DataFile d"]) (simp add: mget_mem checkpointEntry_name)
  fix name e s
  assume e: "(name, e) \<in> set ?dir" "checkpointEntry name e = Some s"
  show "s \<le> q"
  proof (cases "name = checkpointName q")
    case True
    with e w q(2) show ?thesis by (auto simp: mget_mem checkpointEntry_name)
  next
    case False
    with e(1) w have "(name, e) \<in> set dir" by (simp add: mget_mem)
    with e(2) q(1) show ?thesis using checkpoint_upper [of name e dir s] by simp
  qed
qed

lemma published_mput:
  assumes "snapshotsOk dir" and "sequenceOk q" and "length d \<le> maxRunStateBytes" and "mget dir (checkpointName q) = None"
  shows "published (mput (checkpointName q) (DataFile d) dir) r \<longleftrightarrow> r = q \<or> published dir r"
proof (cases "sequenceOk r")
  case True
  with assms show ?thesis by (auto simp: published_def checkpointName_inject)
next
  case False
  with assms(2) show ?thesis by (auto simp: published_def)
qed

lemma publish_ok:
  assumes ok: "snapshotsOk dir" and q: "q = highestCheckpointSequence dir + 1" "sequenceOk q" and fresh: "mget dir (checkpointName q) = None"
    and d: "length d \<le> maxRunStateBytes"
  shows "snapshotsOk (mput (checkpointName q) (DataFile d) dir)"
proof -
  let ?dir = "mput (checkpointName q) (DataFile d) dir"
  note h = publish_highest [OF ok q fresh, of d] and p = published_mput [OF ok q(2) d fresh]
  have w: "mwf dir" "mwf ?dir" using ok by (simp_all add: mwf_snapshots)
  have "\<exists>r. name = checkpointName r \<and> published ?dir r \<and> r \<le> q" if "(name, e) \<in> set ?dir" "hasPrefix name ''checkpoint-''" for name e
  proof (cases "name = checkpointName q")
    case False
    with that(1) w have "(name, e) \<in> set dir" by (simp add: mget_mem)
    from snapshots_named [OF ok this that(2)] obtain r where "name = checkpointName r" "published dir r" by blast
    with published_highest [OF ok this(2)] q(1) p show ?thesis by auto
  qed (use p in auto)
  moreover have "published ?dir r" if "1 \<le> r" "r \<le> q" for r
    using that p published_iff [OF ok, of r] q(1) by (cases "r = q") auto
  ultimately show ?thesis using w(2) unfolding snapshotsOk_def h by auto
qed

subsection \<open>Savers\<close>

fun saverOk :: "snapshots \<Rightarrow> saver \<Rightarrow> bool" where
  "saverOk dir (Saving q d) = (sequenceOk q \<and> length d \<le> maxRunStateBytes)"
| "saverOk dir (Retrying q d) = (published dir q \<and> length d \<le> maxRunStateBytes)"
| "saverOk dir (Publishing q d) = (sequenceOk q \<and> q \<le> highestCheckpointSequence dir + 1 \<and> length d \<le> maxRunStateBytes)"
| "saverOk dir (Rechecking q d) = (published dir q \<and> length d \<le> maxRunStateBytes)"
| "saverOk dir (Rescanning q d x) = (sequenceOk q \<and> mget dir (checkpointName q) = Some (DataFile x))"
| "saverOk dir (Saved q d) = (sequenceOk q \<and> mget dir (checkpointName q) = Some (DataFile d))"
| "saverOk dir s = True"

text \<open>A directory that extends another keeps every file as it is.\<close>

definition extendsDir :: "snapshots \<Rightarrow> snapshots \<Rightarrow> bool" where
  "extendsDir dir dir' =
     ((\<forall>(name, e)\<in>set dir. mget dir' name = Some e) \<and> highestCheckpointSequence dir \<le> highestCheckpointSequence dir')"

lemma extends_mget: "mwf dir \<Longrightarrow> extendsDir dir dir' \<Longrightarrow> mget dir name = Some e \<Longrightarrow> mget dir' name = Some e"
  by (auto simp: extendsDir_def mget_mem)

lemma extends_refl: "mwf dir \<Longrightarrow> extendsDir dir dir"
  by (auto simp: extendsDir_def mget_mem)

lemma extends_trans: "mwf dir' \<Longrightarrow> extendsDir dir dir' \<Longrightarrow> extendsDir dir' dir'' \<Longrightarrow> extendsDir dir dir''"
  using extends_mget [of dir' dir''] by (auto simp: extendsDir_def)

lemma published_extends: "mwf dir \<Longrightarrow> extendsDir dir dir' \<Longrightarrow> published dir q \<Longrightarrow> published dir' q"
  unfolding published_def using extends_mget by blast

lemma saverOk_extends: "mwf dir \<Longrightarrow> extendsDir dir dir' \<Longrightarrow> saverOk dir s \<Longrightarrow> saverOk dir' s"
  by (cases s) (auto simp: published_extends extends_mget, simp add: extendsDir_def)

lemma publish_extends:
  assumes "snapshotsOk dir" and "q = highestCheckpointSequence dir + 1" and "sequenceOk q" and "mget dir (checkpointName q) = None"
  shows "extendsDir dir (mput (checkpointName q) (DataFile d) dir)"
  using publish_highest [OF assms, of d] assms mwf_snapshots [OF assms(1)] by (auto simp: extendsDir_def mget_mem)

lemma readFileBounded_Some: "readFileBounded dir name = Some x \<Longrightarrow> mget dir name = Some (DataFile x)"
  by (auto simp: readFileBounded_def split: option.splits dir_entry.splits if_splits)

lemma publish_next:
  assumes "snapshotsOk dir" and "saverOk dir (Publishing q d)" and "mget dir (checkpointName q) = None"
  shows "q = highestCheckpointSequence dir + 1"
proof -
  have "\<not> published dir q" using assms(3) by (simp add: published_def)
  with assms(1, 2) show ?thesis using published_iff [OF assms(1), of q] by (auto simp: sequenceOk_def)
qed

lemma existing_published:
  assumes "snapshotsOk dir" and "sequenceOk q" and "mget dir (checkpointName q) \<noteq> None"
  shows "published dir q"
proof -
  from assms obtain e where "(checkpointName q, e) \<in> set dir" by (auto simp: mget_mem mwf_snapshots)
  from snapshots_named [OF assms(1) this checkpointName_shape(1)] obtain r where r: "checkpointName q = checkpointName r" "published dir r" by blast
  then have "sequenceOk r" by (simp add: published_def)
  with r assms(2) show ?thesis by (simp add: checkpointName_inject)
qed

lemma scan_ok:
  assumes "snapshotsOk dir" and "saverOk dir (Saving q d)"
  shows "saverOk dir (scanStep fault dir q d)"
proof -
  let ?h = "highestCheckpointSequence dir"
  have "published dir q" if "q = ?h" using that assms published_iff [OF assms(1), of q] by (simp add: sequenceOk_def)
  moreover have "q \<le> ?h + 1" if "q = i64 (?h + 1)" "\<not> q \<le> ?h"
  proof (rule ccontr)
    assume "\<not> q \<le> ?h + 1"
    with assms(2) highest_nonneg [of dir] have "in_i64 (?h + 1)" by (simp add: in_i64_def sequenceOk_def)
    with that \<open>\<not> q \<le> ?h + 1\<close> show False by simp
  qed
  ultimately show ?thesis using assms(2) by (auto simp: scanStep_def Let_def)
qed

lemma saver_step:
  assumes ok: "snapshotsOk dir" and s: "saverOk dir s" and step: "saveSequencedCheckpoint fault dir s = (dir', s')"
  shows "snapshotsOk dir' \<and> extendsDir dir dir' \<and> saverOk dir' s'"
proof (cases s)
  case (Publishing q d)
  note s = s [unfolded Publishing] and step = step [unfolded Publishing]
  show ?thesis
  proof (cases "fault = CallFails \<or> mget dir (checkpointName q) \<noteq> None")
    case True
    with step s ok existing_published [OF ok, of q] show ?thesis
      by (cases "fault = CallFails") (auto simp: writeFileExclusive_def extends_refl mwf_snapshots)
  next
    case False
    with step have new: "dir' = mput (checkpointName q) (DataFile d) dir" "s' = syncDirectory fault q d" by (auto simp: writeFileExclusive_def)
    from False have fresh: "mget dir (checkpointName q) = None" by simp
    note next_q = publish_next [OF ok s fresh]
    show ?thesis
      using publish_ok [OF ok next_q _ fresh] publish_extends [OF ok next_q _ fresh] s by (simp add: new syncDirectory_def)
  qed
next
  case (Rescanning q d x)
  with assms show ?thesis by (auto simp: rescanStep_def syncDirectory_def extends_refl mwf_snapshots)
qed (use assms scan_ok in \<open>auto simp: extends_refl mwf_snapshots retryStep_def recheckStep_def published_def
      dest!: readFileBounded_Some split: option.splits\<close>)

lemma save_step_ok:
  assumes "save_step (dir, ss) (dir', ss')" and "snapshotsOk dir" and "list_all (saverOk dir) ss"
  shows "snapshotsOk dir' \<and> extendsDir dir dir' \<and> list_all (saverOk dir') ss' \<and> length ss' = length ss"
proof -
  from assms(1) obtain i fault s' where step: "i < length ss" "saveSequencedCheckpoint fault dir (ss ! i) = (dir', s')" "ss' = ss[i := s']"
    by (auto elim: save_stepE)
  have "saverOk dir (ss ! i)" using assms(3) step(1) by (simp add: list_all_length)
  from saver_step [OF assms(2) this step(2)] have n: "snapshotsOk dir'" "extendsDir dir dir'" "saverOk dir' s'" by auto
  with assms(2, 3) have "saverOk dir' s" if "s \<in> set ss" for s
    using that saverOk_extends [of dir dir' s] by (simp add: list_all_iff mwf_snapshots)
  with n step show ?thesis by (auto simp: list_all_iff dest!: set_update_subset_insert [THEN subsetD])
qed

interpretation cps: durable_steps save_step "\<lambda>(dir, ss). snapshotsOk dir \<and> list_all (saverOk dir) ss"
  "\<lambda>(dir, ss) (dir', ss'). extendsDir dir dir' \<and> length ss' = length ss"
  by unfold_locales (auto simp: extends_refl mwf_snapshots dest: save_step_ok intro: extends_trans [OF mwf_snapshots])

subsection \<open>The checkpoint that is loaded\<close>

lemma latest_fold:
  fixes dir :: snapshots
  defines "G \<equiv> (\<lambda>(name, e) latest.
       if e = SubDir \<or> hasSuffix name ''.tmp'' \<or> \<not> hasSuffix name ''.json'' \<or> \<not> hasPrefix name ''checkpoint-'' then latest
       else case parseCheckpointSequence name of
         None \<Rightarrow> latest
       | Some s \<Rightarrow> if 0 \<le> s \<and> (case latest of None \<Rightarrow> True | Some (n :: string, l) \<Rightarrow> l < (s :: int)) then Some (name, s) else latest)"
  assumes "\<And>name e. (name, e) \<in> set dir \<Longrightarrow> hasPrefix name ''checkpoint-'' \<Longrightarrow> \<exists>q d. sequenceOk q \<and> name = checkpointName q \<and> e = DataFile d"
    and "case latest of None \<Rightarrow> h = 0 | Some (n, l) \<Rightarrow> n = checkpointName l \<and> l = h \<and> 1 \<le> h"
  shows "case fold G dir latest of
      None \<Rightarrow> fold (\<lambda>(name, e) highest. case checkpointEntry name e of None \<Rightarrow> highest | Some s \<Rightarrow> if highest < s then s else highest) dir h = 0
    | Some (n, l) \<Rightarrow> n = checkpointName l \<and> 1 \<le> l \<and>
        l = fold (\<lambda>(name, e) highest. case checkpointEntry name e of None \<Rightarrow> highest | Some s \<Rightarrow> if highest < s then s else highest) dir h"
  using assms(2, 3)
proof (induction dir arbitrary: latest h)
  case (Cons p dir)
  obtain name e where p: "p = (name, e)" by (cases p)
  let ?h = "case checkpointEntry name e of None \<Rightarrow> h | Some s \<Rightarrow> if h < s then s else h"
  have "case G (name, e) latest of None \<Rightarrow> ?h = 0 | Some (n, l) \<Rightarrow> n = checkpointName l \<and> l = ?h \<and> 1 \<le> ?h"
  proof (cases "hasPrefix name ''checkpoint-''")
    case True
    then obtain q d where "sequenceOk q" "name = checkpointName q" "e = DataFile d" using Cons.prems(1) [of name e] p by auto
    then show ?thesis
      using Cons.prems(2)
      by (auto simp: G_def checkpointEntry_name checkpointName_shape parse_checkpointName sequenceOk_def split: option.splits)
  next
    case False
    then have "checkpointEntry name e = None" by (simp add: checkpointEntry_def)
    with False Cons.prems(2) show ?thesis by (auto simp: G_def split: option.splits)
  qed
  from Cons.IH [OF _ this] Cons.prems(1) show ?case unfolding p fold.simps comp_apply prod.case by simp
qed (auto split: option.splits)

lemma latest_is_highest:
  assumes "snapshotsOk dir"
  shows "latestCheckpoint dir =
    (if highestCheckpointSequence dir = 0 then None else Some (checkpointName (highestCheckpointSequence dir), highestCheckpointSequence dir))"
proof -
  have "\<exists>q d. sequenceOk q \<and> name = checkpointName q \<and> e = DataFile d" if "(name, e) \<in> set dir" "hasPrefix name ''checkpoint-''" for name e
    using snapshots_named [OF assms that] that mwf_snapshots [OF assms] by (fastforce simp: published_def mget_mem)
  from latest_fold [where dir = dir and latest = None and h = 0] this show ?thesis
    unfolding latestCheckpoint_def highestCheckpointSequence_def by (auto split: option.splits)
qed

subsection \<open>Concurrent savers\<close>

text \<open>
  C11. Whatever processes save at the same time, in whatever order their calls of the operating system interleave and fail: a checkpoint file never
  changes once it exists, the sequence numbers have no gap, a saver that reports success finds exactly its data under its number, and the
  checkpoint that is loaded is the one with the highest number.
\<close>

theorem checkpoints_are_published_once:
  assumes "save_step\<^sup>*\<^sup>* (dir, ss) (dir', ss')" and "snapshotsOk dir"
    and "\<And>s. s \<in> set ss \<Longrightarrow> \<exists>q d. s = Saving q d \<and> 1 \<le> q \<and> q < 2 ^ 63 \<and> length d \<le> maxRunStateBytes"
  shows "(\<forall>name e. mget dir name = Some e \<longrightarrow> mget dir' name = Some e) \<and>
    (\<forall>q. 1 \<le> q \<and> q < 2 ^ 63 \<longrightarrow> (mget dir' (checkpointName q) \<noteq> None \<longleftrightarrow> q \<le> highestCheckpointSequence dir')) \<and>
    (\<forall>i < length ss'. \<forall>q d. ss' ! i = Saved q d \<longrightarrow> readFileBounded dir' (checkpointName q) = Some d) \<and>
    latestCheckpoint dir' =
      (if highestCheckpointSequence dir' = 0 then None else Some (checkpointName (highestCheckpointSequence dir'), highestCheckpointSequence dir'))"
proof -
  have "list_all (saverOk dir) ss" using assms(3) by (force simp: list_all_iff sequenceOk_def)
  with cps.steps_kept [OF assms(1)] assms(2) have ok: "snapshotsOk dir'" "extendsDir dir dir'" "list_all (saverOk dir') ss'" by auto
  have "mget dir' name = Some e" if "mget dir name = Some e" for name e
    using extends_mget [OF mwf_snapshots [OF assms(2)] ok(2) that] .
  moreover have "mget dir' (checkpointName q) \<noteq> None \<longleftrightarrow> q \<le> highestCheckpointSequence dir'" if "1 \<le> q" "q < 2 ^ 63" for q
    using that published_iff [OF ok(1), of q] existing_published [OF ok(1), of q] by (auto simp: sequenceOk_def published_def)
  moreover have "readFileBounded dir' (checkpointName q) = Some d" if "i < length ss'" "ss' ! i = Saved q d" for i q d
  proof -
    have "saverOk dir' (Saved q d)" using that ok(3) by (metis list_all_length)
    with existing_published [OF ok(1), of q] show ?thesis by (auto simp: published_def readFileBounded_def)
  qed
  ultimately show ?thesis using latest_is_highest [OF ok(1)] by blast
qed

text \<open>Two processes save different data as the second checkpoint; the calls interleave, and one of them is told that it lost.\<close>

definition raceDir :: snapshots where
  "raceDir = [(checkpointName 1, DataFile ''one'')]"

lemma race_highest: "highestCheckpointSequence raceDir = 1"
  by (simp add: highestCheckpointSequence_def raceDir_def checkpointEntry_name sequenceOk_def)

lemma race_names: "checkpointName 2 \<noteq> checkpointName 1"
  using checkpointName_inject [of 2 1] by (simp add: sequenceOk_def)

lemma race_ok: "snapshotsOk raceDir"
proof -
  have "published raceDir 1" by (simp add: published_def raceDir_def sequenceOk_def maxRunStateBytes_def)
  moreover have "q = 1" if "1 \<le> q" "q \<le> 1" for q :: int using that by simp
  ultimately show ?thesis unfolding snapshotsOk_def race_highest by (auto simp: raceDir_def mwf_def)
qed

lemma race_steps:
  "save_step\<^sup>*\<^sup>* (raceDir, [Saving 2 ''a'', Saving 2 ''b''])
    (mput (checkpointName 2) (DataFile ''b'') raceDir, [Rechecking 2 ''a'', Saved 2 ''b''])"
proof -
  let ?d = "mput (checkpointName 2) (DataFile ''b'') raceDir"
  have scan: "scanStep NoFault raceDir 2 x = Publishing 2 x" for x by (simp add: scanStep_def race_highest in_i64_def)
  have absent: "mget raceDir (checkpointName 2) = None" using race_names by (simp add: raceDir_def)
  have s1: "save_step (raceDir, [Saving 2 ''a'', Saving 2 ''b'']) (raceDir, [Publishing 2 ''a'', Saving 2 ''b''])"
    using save_step [of 0 "[Saving 2 ''a'', Saving 2 ''b'']" NoFault raceDir] scan by simp
  have s2: "save_step (raceDir, [Publishing 2 ''a'', Saving 2 ''b'']) (raceDir, [Publishing 2 ''a'', Publishing 2 ''b''])"
    using save_step [of 1 "[Publishing 2 ''a'', Saving 2 ''b'']" NoFault raceDir] scan by simp
  have s3: "save_step (raceDir, [Publishing 2 ''a'', Publishing 2 ''b'']) (?d, [Publishing 2 ''a'', Saved 2 ''b''])"
    using save_step [of 1 "[Publishing 2 ''a'', Publishing 2 ''b'']" NoFault raceDir] absent
    by (simp add: writeFileExclusive_def syncDirectory_def)
  have s4: "save_step (?d, [Publishing 2 ''a'', Saved 2 ''b'']) (?d, [Rechecking 2 ''a'', Saved 2 ''b''])"
    using save_step [of 0 "[Publishing 2 ''a'', Saved 2 ''b'']" NoFault ?d] by (simp add: writeFileExclusive_def)
  show ?thesis
    by (intro converse_rtranclp_into_rtranclp [where r = save_step, OF s1] converse_rtranclp_into_rtranclp [where r = save_step, OF s2]
        converse_rtranclp_into_rtranclp [where r = save_step, OF s3] r_into_rtranclp [where r = save_step, OF s4])
qed

theorem checkpoints_are_published_once_witness:
  "readFileBounded (mput (checkpointName 2) (DataFile ''b'') raceDir) (checkpointName 2) = Some ''b'' \<and>
    mget (mput (checkpointName 2) (DataFile ''b'') raceDir) (checkpointName 1) = Some (DataFile ''one'')"
proof -
  have "mget raceDir (checkpointName 1) = Some (DataFile ''one'')" by (simp add: raceDir_def)
  with checkpoints_are_published_once [OF race_steps race_ok] show ?thesis by (force simp: maxRunStateBytes_def)
qed

end
