(* ===== verification/Run_Leases.thy ===== *)
theory Run_Leases
  imports Run_Checkpoints Go_Space
begin

section \<open>Leases of a run\<close>

text \<open>
  A process writes checkpoints of a run under a lease (\<^verbatim>\<open>runtime/internal/runstore/lease.go\<close>): it locks a file, which the operating system unlocks when the
  process dies, and takes the next writer epoch. \<^verbatim>\<open>SaveState\<close> checks the epoch once and then publishes the checkpoint. The processes of the model
  interleave between these two; within a process \<^verbatim>\<open>mutationMu\<close> keeps the lease from changing while a checkpoint is saved. What plan and state say before a
  lease is taken, and which calls fail, are arguments.
\<close>

subsection \<open>Epochs\<close>

definition parseUint64 :: "string \<Rightarrow> nat option" where
  "parseUint64 s = (if s = [] \<or> \<not> list_all isDigit s \<or> maxUint64 < decVal 0 s then None else Some (decVal 0 s))"

text \<open>The epoch of the file and whether there is one.\<close>

definition readRunWriterEpoch :: "bool \<Rightarrow> string option \<Rightarrow> string + (nat \<times> bool)" where
  "readRunWriterEpoch fails file =
     (case file of
        None \<Rightarrow> Inr (0, False)
      | Some data \<Rightarrow>
          if fails then Inl ''read'' else if 32 < length data then Inl ''exceeds 32 bytes''
          else
            (let text = trimSpace data in
             case parseUint64 text of
               None \<Rightarrow> Inl ''invalid writer epoch''
             | Some epoch \<Rightarrow> if text \<noteq> natDigits epoch then Inl ''invalid writer epoch'' else Inr (epoch, True)))"

definition writeFileAtomic :: "disk_fault \<Rightarrow> string \<Rightarrow> string option \<Rightarrow> string option \<times> bool" where
  "writeFileAtomic fault data file = (if fault = CallFails then (file, False) else (Some data, fault \<noteq> SyncFails))"

definition nextRunWriterEpoch :: "bool \<Rightarrow> disk_fault \<Rightarrow> string option \<Rightarrow> string option \<times> (string + nat)" where
  "nextRunWriterEpoch readFails fault file =
     (case readRunWriterEpoch readFails file of
        Inl err \<Rightarrow> (file, Inl err)
      | Inr (current, _) \<Rightarrow>
          if current = maxUint64 then (file, Inl ''writer epoch exhausted'')
          else (case writeFileAtomic fault (natDigits (current + 1) @ [CHR 0x0A]) file of
              (file', written) \<Rightarrow> (file', if written then Inr (current + 1) else Inl ''write'')))"

text \<open>
  The identifier of a run. A text with other characters than these is refused, so that the comparison with its lower case, which the source makes
  first, refuses nothing more.
\<close>

definition runIDChar :: "char \<Rightarrow> bool" where
  "runIDChar c = (c \<in> set ''abcdefghijklmnopqrstuvwxyz0123456789._-'')"

definition validateRunID :: "string \<Rightarrow> bool" where
  "validateRunID runID =
     (runID \<noteq> '''' \<and> length runID \<le> 128 \<and> \<not> hasSuffix runID ''.'' \<and> list_all runIDChar runID \<and> hd runID \<notin> set ''._-'' \<and>
      (let base = takeWhile (\<lambda>c. c \<noteq> CHR ''.'') runID in
       base \<notin> set [''con'', ''prn'', ''aux'', ''nul''] \<and>
       \<not> (length base = 4 \<and> (hasPrefix base ''com'' \<or> hasPrefix base ''lpt'') \<and> base ! 3 \<in> set ''123456789'')))"

subsection \<open>Leases\<close>

text \<open>The files of a run that processes share, and the process that holds the lock.\<close>

record run_disk =
  rd_Epoch :: "string option"
  rd_Lock :: "nat option"
  rd_Dir :: snapshots

text \<open>What the calls of one acquisition do.\<close>

record lease_call =
  lc_Cancelled :: bool
  lc_Preflight :: "string option"
  lc_OpenFails :: bool
  lc_LockFails :: bool
  lc_PreflightLocked :: "string option"
  lc_MkdirFails :: bool
  lc_ReadFails :: bool
  lc_WriteFault :: disk_fault
  lc_CancelledAfter :: bool

definition releaseLocked :: "nat \<Rightarrow> run_disk \<times> nat option \<Rightarrow> run_disk \<times> nat option" where
  "releaseLocked epoch s = ((fst s)\<lparr>rd_Lock := None\<rparr>, if snd s = Some epoch then None else snd s)"

definition AcquireRunLease :: "string \<Rightarrow> nat \<Rightarrow> lease_call \<Rightarrow> run_disk \<times> nat option \<Rightarrow> (run_disk \<times> nat option) \<times> (string + nat)" where
  "AcquireRunLease runID p c s =
     (let disk = fst s in
      if lc_Cancelled c then (s, Inl ''cancelled'')
      else if \<not> validateRunID runID then (s, Inl ''invalid run id'')
      else case lc_Preflight c of
        Some err \<Rightarrow> (s, Inl err)
      | None \<Rightarrow>
          if lc_OpenFails c then (s, Inl ''open'')
          else if lc_LockFails c then (s, Inl ''lock'')
          else if rd_Lock disk \<noteq> None then (s, Inl ''lease held'')
          else case lc_PreflightLocked c of
            Some err \<Rightarrow> (s, Inl err)
          | None \<Rightarrow>
              if lc_MkdirFails c then (s, Inl ''mkdir'')
              else case nextRunWriterEpoch (lc_ReadFails c) (lc_WriteFault c) (rd_Epoch disk) of
                (file, Inl err) \<Rightarrow> ((disk\<lparr>rd_Epoch := file\<rparr>, snd s), Inl err)
              | (file, Inr epoch) \<Rightarrow>
                  (let leased = (disk\<lparr>rd_Epoch := file, rd_Lock := Some p\<rparr>, Some epoch) in
                   if lc_CancelledAfter c then (releaseLocked epoch leased, Inl ''cancelled'') else (leased, Inr epoch)))"

definition validateRunWriterEpoch :: "bool \<Rightarrow> string option \<Rightarrow> nat option \<Rightarrow> nat \<Rightarrow> string + unit" where
  "validateRunWriterEpoch readFails file active expected =
     (case readRunWriterEpoch readFails file of
        Inl err \<Rightarrow> Inl err
      | Inr (current, found) \<Rightarrow>
          if \<not> found then (if expected = 0 then Inr () else Inl ''stale lease'')
          else if expected = 0 \<or> expected \<noteq> current then Inl ''stale lease''
          else if active \<noteq> Some expected then Inl ''stale lease''
          else Inr ())"

subsection \<open>Processes\<close>

text \<open>The epochs of the leases that processes hold, and the saves that are under way with their processes.\<close>

record lease_system =
  ls_Disk :: run_disk
  ls_Active :: "nat \<Rightarrow> nat option"
  ls_Saving :: "(nat \<times> saver) list"

definition idleProcess :: "nat \<Rightarrow> lease_system \<Rightarrow> bool" where
  "idleProcess p s = list_all (\<lambda>(q, _). q \<noteq> p) (ls_Saving s)"

definition setLease :: "nat \<Rightarrow> run_disk \<times> nat option \<Rightarrow> lease_system \<Rightarrow> lease_system" where
  "setLease p r s = s\<lparr>ls_Disk := fst r, ls_Active := (ls_Active s)(p := snd r)\<rparr>"

text \<open>\<open>epochOf\<close> reads the writer epoch from the data of a checkpoint.\<close>

inductive lease_step :: "string \<Rightarrow> (string \<Rightarrow> nat) \<Rightarrow> lease_system \<Rightarrow> lease_system \<Rightarrow> bool" for runID epochOf where
  acquire: "idleProcess p s \<Longrightarrow> lease_step runID epochOf s (setLease p (fst (AcquireRunLease runID p c (ls_Disk s, ls_Active s p))) s)"
| release: "idleProcess p s \<Longrightarrow> ls_Active s p = Some epoch \<Longrightarrow>
    lease_step runID epochOf s (setLease p (releaseLocked epoch (ls_Disk s, ls_Active s p)) s)"
| crash: "lease_step runID epochOf s
    (s\<lparr>ls_Disk := (ls_Disk s)\<lparr>rd_Lock := if rd_Lock (ls_Disk s) = Some p then None else rd_Lock (ls_Disk s)\<rparr>,
       ls_Active := (ls_Active s)(p := None), ls_Saving := filter (\<lambda>(q, _). q \<noteq> p) (ls_Saving s)\<rparr>)"
| begin_save: "validateRunWriterEpoch readFails (rd_Epoch (ls_Disk s)) (ls_Active s p) epoch = Inr () \<Longrightarrow> epoch \<noteq> 0 \<Longrightarrow> epochOf d = epoch \<Longrightarrow>
    sequenceOk q \<Longrightarrow> length d \<le> maxRunStateBytes \<Longrightarrow> lease_step runID epochOf s (s\<lparr>ls_Saving := ls_Saving s @ [(p, Saving q d)]\<rparr>)"
| save: "i < length (ls_Saving s) \<Longrightarrow> ls_Saving s ! i = (p, sv) \<Longrightarrow> saveSequencedCheckpoint fault (rd_Dir (ls_Disk s)) sv = (dir, sv') \<Longrightarrow>
    lease_step runID epochOf s (s\<lparr>ls_Disk := (ls_Disk s)\<lparr>rd_Dir := dir\<rparr>, ls_Saving := (ls_Saving s)[i := (p, sv')]\<rparr>)"
| end_save: "ls_Saving s = before @ (p, sv) # after \<Longrightarrow> sv = CheckpointConflict \<or> sv = SaveFailed \<or> (\<exists>q d. sv = Saved q d) \<Longrightarrow>
    lease_step runID epochOf s (s\<lparr>ls_Saving := before @ after\<rparr>)"

subsection \<open>Epoch files\<close>

lemma digit_ink: "isDigit c \<Longrightarrow> inkByte c"
  by (auto simp: isDigit_def inkByte_def)

lemma natDigits_length: "n < 10 ^ Suc k \<Longrightarrow> length (natDigits n) \<le> Suc k"
proof (induction k arbitrary: n)
  case 0
  then show ?case by (simp add: natDigits.simps [of n])
next
  case (Suc k)
  show ?case
  proof (cases "n < 10")
    case False
    have "n div 10 < 10 ^ Suc k" using Suc.prems by (simp add: div_less_iff_less_mult)
    from Suc.IH [OF this] False show ?thesis by (simp add: natDigits.simps [of n])
  qed (simp add: natDigits.simps [of n])
qed

lemma read_written:
  assumes "e \<le> maxUint64"
  shows "readRunWriterEpoch False (Some (natDigits e @ [CHR 0x0A])) = Inr (e, True)"
proof -
  note d = natDigits_decimal [of e]
  then have "inkByte (hd (natDigits e))" "inkByte (last (natDigits e))" by (auto simp: list_all_iff digit_ink)
  with d have trim: "trimSpace (natDigits e @ [CHR 0x0A]) = natDigits e" by (intro trimSpace_line) auto
  have "e < 10 ^ Suc 19" using assms by (simp add: maxUint64_def)
  from natDigits_length [OF this] have "\<not> 32 < length (natDigits e @ [CHR 0x0A])" by simp
  moreover have "parseUint64 (natDigits e) = Some e" using d assms by (simp add: parseUint64_def)
  ultimately show ?thesis using trim by (simp add: readRunWriterEpoch_def Let_def)
qed

lemma read_found: "readRunWriterEpoch b file = Inr r \<Longrightarrow> readRunWriterEpoch False file = Inr r"
  by (auto simp: readRunWriterEpoch_def split: option.splits if_splits)

text \<open>The epoch that is on disk, 0 without one.\<close>

definition diskEpoch :: "string option \<Rightarrow> nat" where
  "diskEpoch file = (case readRunWriterEpoch False file of Inr (e, _) \<Rightarrow> e | Inl _ \<Rightarrow> 0)"

lemma next_epoch:
  assumes "nextRunWriterEpoch b fault file = (file', r)"
  shows "file' = file \<and> (\<exists>err. r = Inl err) \<or>
    readRunWriterEpoch False file' = Inr (diskEpoch file + 1, True) \<and> (r = Inr (diskEpoch file + 1) \<or> (\<exists>err. r = Inl err))"
proof (cases "readRunWriterEpoch b file")
  case (Inr x)
  obtain e found where x: "x = (e, found)" by (cases x)
  from read_found [OF Inr] have e: "diskEpoch file = e" by (simp add: diskEpoch_def x)
  have "e \<le> maxUint64"
    using Inr x by (auto simp: readRunWriterEpoch_def parseUint64_def Let_def split: option.splits if_splits)
  then have "readRunWriterEpoch False (Some (natDigits (e + 1) @ [CHR 0x0A])) = Inr (e + 1, True)" if "e \<noteq> maxUint64"
    using that by (intro read_written) simp
  with assms Inr x e show ?thesis by (auto simp: nextRunWriterEpoch_def writeFileAtomic_def split: if_splits)
qed (use assms in \<open>auto simp: nextRunWriterEpoch_def\<close>)

subsection \<open>What holds of the processes\<close>

definition storedAt :: "snapshots \<Rightarrow> int \<Rightarrow> string \<Rightarrow> bool" where
  "storedAt dir q d = (sequenceOk q \<and> mget dir (checkpointName q) = Some (DataFile d))"

fun saverData :: "saver \<Rightarrow> string option" where
  "saverData (Saving q d) = Some d"
| "saverData (Retrying q d) = Some d"
| "saverData (Publishing q d) = Some d"
| "saverData (Rechecking q d) = Some d"
| "saverData (Rescanning q d x) = Some d"
| "saverData (Saved q d) = Some d"
| "saverData _ = None"

text \<open>A process with a lease holds the lock and has the epoch of the disk; so has what it is saving.\<close>

definition leasesOk :: "run_disk \<Rightarrow> (nat \<Rightarrow> nat option) \<Rightarrow> bool" where
  "leasesOk disk active = (\<forall>p e. active p = Some e \<longrightarrow> rd_Lock disk = Some p \<and> e = diskEpoch (rd_Epoch disk))"

definition savingOk :: "(string \<Rightarrow> nat) \<Rightarrow> run_disk \<Rightarrow> (nat \<Rightarrow> nat option) \<Rightarrow> nat \<times> saver \<Rightarrow> bool" where
  "savingOk epochOf disk active ps =
     (active (fst ps) \<noteq> None \<and> saverOk (rd_Dir disk) (snd ps) \<and> (\<forall>d. saverData (snd ps) = Some d \<longrightarrow> epochOf d = diskEpoch (rd_Epoch disk)))"

text \<open>The epochs of the checkpoints do not decrease and are not above the one of the disk.\<close>

definition epochsOk :: "(string \<Rightarrow> nat) \<Rightarrow> snapshots \<Rightarrow> nat \<Rightarrow> bool" where
  "epochsOk epochOf dir epoch =
     ((\<forall>q d. storedAt dir q d \<longrightarrow> epochOf d \<le> epoch) \<and>
      (\<forall>q r d d'. storedAt dir q d \<and> storedAt dir r d' \<and> q \<le> r \<longrightarrow> epochOf d \<le> epochOf d'))"

definition leaseOk :: "(string \<Rightarrow> nat) \<Rightarrow> lease_system \<Rightarrow> bool" where
  "leaseOk epochOf s =
     (leasesOk (ls_Disk s) (ls_Active s) \<and> list_all (savingOk epochOf (ls_Disk s) (ls_Active s)) (ls_Saving s) \<and> snapshotsOk (rd_Dir (ls_Disk s)) \<and>
      epochsOk epochOf (rd_Dir (ls_Disk s)) (diskEpoch (rd_Epoch (ls_Disk s))))"

definition leaseKept :: "lease_system \<Rightarrow> lease_system \<Rightarrow> bool" where
  "leaseKept s s' = (extendsDir (rd_Dir (ls_Disk s)) (rd_Dir (ls_Disk s')) \<and> diskEpoch (rd_Epoch (ls_Disk s)) \<le> diskEpoch (rd_Epoch (ls_Disk s')))"

lemma unlocked_idle:
  assumes "leaseOk epochOf s" and "rd_Lock (ls_Disk s) = None"
  shows "ls_Active s p = None" and "ls_Saving s = []"
proof -
  show none: "ls_Active s p = None" for p
    using assms by (cases "ls_Active s p") (auto simp: leaseOk_def leasesOk_def)
  show "ls_Saving s = []" using assms(1) none by (cases "ls_Saving s") (auto simp: leaseOk_def savingOk_def)
qed

lemma epochsOk_later: "epochsOk epochOf dir e \<Longrightarrow> e \<le> e' \<Longrightarrow> epochsOk epochOf dir e'"
  unfolding epochsOk_def by (meson order_trans)

lemma acquire_cases:
  assumes "AcquireRunLease runID p c (disk, a) = (r, res)"
  obtains (same) "r = (disk, a)" and "\<exists>err. res = Inl err"
  | (failed) f where "rd_Lock disk = None" and "r = (disk\<lparr>rd_Epoch := f\<rparr>, a)" and "diskEpoch (rd_Epoch disk) \<le> diskEpoch f" and "\<exists>err. res = Inl err"
  | (taken) f where "rd_Lock disk = None" and "diskEpoch f = diskEpoch (rd_Epoch disk) + 1"
      and "r = (disk\<lparr>rd_Epoch := f, rd_Lock := Some p\<rparr>, Some (diskEpoch f))" and "res = Inr (diskEpoch f)"
  | (dropped) f where "rd_Lock disk = None" and "diskEpoch (rd_Epoch disk) \<le> diskEpoch f" and "r = (disk\<lparr>rd_Epoch := f, rd_Lock := None\<rparr>, None)"
      and "\<exists>err. res = Inl err"
proof (cases "lc_Cancelled c \<or> \<not> validateRunID runID \<or> lc_Preflight c \<noteq> None \<or> lc_OpenFails c \<or> lc_LockFails c \<or> rd_Lock disk \<noteq> None \<or>
    lc_PreflightLocked c \<noteq> None \<or> lc_MkdirFails c")
  case True
  with assms show ?thesis by (intro same) (auto simp: AcquireRunLease_def Let_def split: option.splits if_splits)
next
  case False
  obtain f ne where e: "nextRunWriterEpoch (lc_ReadFails c) (lc_WriteFault c) (rd_Epoch disk) = (f, ne)" by force
  from next_epoch [OF e] have epoch: "diskEpoch (rd_Epoch disk) \<le> diskEpoch f" "\<And>x. ne = Inr x \<Longrightarrow> x = diskEpoch f \<and> diskEpoch f = diskEpoch (rd_Epoch disk) + 1"
    by (auto simp: diskEpoch_def)
  show ?thesis
  proof (cases ne)
    case (Inl err)
    with assms False e epoch show ?thesis by (intro failed [of f]) (auto simp: AcquireRunLease_def Let_def)
  next
    case (Inr x)
    with assms False e epoch(2) [OF Inr] epoch(1) show ?thesis
      by (cases "lc_CancelledAfter c") (auto simp: AcquireRunLease_def releaseLocked_def Let_def intro: taken [of f] dropped [of f])
  qed
qed

lemma acquire_ok:
  assumes ok: "leaseOk epochOf s" and r: "AcquireRunLease runID p c (ls_Disk s, ls_Active s p) = (r, res)"
  shows "leaseOk epochOf (setLease p r s) \<and> leaseKept s (setLease p r s)"
proof -
  have dir: "snapshotsOk (rd_Dir (ls_Disk s))" "epochsOk epochOf (rd_Dir (ls_Disk s)) (diskEpoch (rd_Epoch (ls_Disk s)))"
    using ok by (simp_all add: leaseOk_def)
  note ext = extends_refl [OF mwf_snapshots [OF dir(1)]]
  from r show ?thesis
  proof (cases rule: acquire_cases)
    case same
    then have "setLease p r s = s" by (simp add: setLease_def)
    with ok ext show ?thesis by (simp add: leaseKept_def)
  next
    case (failed f)
    with unlocked_idle [OF ok failed(1)] dir ext epochsOk_later [OF dir(2) failed(3)] show ?thesis
      by (simp add: leaseOk_def leaseKept_def setLease_def leasesOk_def)
  next
    case (taken f)
    with unlocked_idle [OF ok taken(1)] dir ext epochsOk_later [OF dir(2), of "diskEpoch f"] show ?thesis
      by (simp add: leaseOk_def leaseKept_def setLease_def leasesOk_def)
  next
    case (dropped f)
    with unlocked_idle [OF ok dropped(1)] dir ext epochsOk_later [OF dir(2) dropped(2)] show ?thesis
      by (simp add: leaseOk_def leaseKept_def setLease_def leasesOk_def)
  qed
qed

text \<open>A step of a saver changes nothing or publishes its data under the next number.\<close>

lemma saver_writes:
  assumes "saveSequencedCheckpoint fault dir sv = (dir', sv')"
  shows "(dir' = dir \<or> (\<exists>q d. sv = Publishing q d \<and> mget dir (checkpointName q) = None \<and> dir' = mput (checkpointName q) (DataFile d) dir)) \<and>
    (saverData sv' = None \<or> saverData sv' = saverData sv)"
  using assms by (cases sv) (auto simp: scanStep_def retryStep_def recheckStep_def rescanStep_def writeFileExclusive_def syncDirectory_def Let_def
      split: if_splits option.splits)

lemma publish_epochs:
  assumes "snapshotsOk dir" and "epochsOk epochOf dir (epochOf d)" and "saverOk dir (Publishing q d)" and "mget dir (checkpointName q) = None"
  shows "epochsOk epochOf (mput (checkpointName q) (DataFile d) dir) (epochOf d)"
proof -
  let ?dir = "mput (checkpointName q) (DataFile d) dir"
  have q: "sequenceOk q" "q = highestCheckpointSequence dir + 1" using assms(3) publish_next [OF assms(1, 3, 4)] by simp_all
  have stored: "storedAt ?dir r x \<longleftrightarrow> r = q \<and> x = d \<or> storedAt dir r x" for r x
    using q(1) assms(4) checkpointName_inject [of q r] by (auto simp: storedAt_def)
  have below: "r < q" if "storedAt dir r x" for r x
  proof -
    from that have "sequenceOk r" "mget dir (checkpointName r) \<noteq> None" by (auto simp: storedAt_def)
    from published_highest [OF assms(1) existing_published [OF assms(1) this]] q(2) show ?thesis by simp
  qed
  have old: "epochOf x \<le> epochOf d" if "storedAt dir r x" for r x using assms(2) that unfolding epochsOk_def by blast
  have mono: "epochOf x \<le> epochOf y" if "storedAt dir r x" "storedAt dir t y" "r \<le> t" for r x t y using assms(2) that unfolding epochsOk_def by blast
  have "epochOf x \<le> epochOf d" if "storedAt ?dir r x" for r x using that old unfolding stored by auto
  moreover have "epochOf x \<le> epochOf y" if "storedAt ?dir r x" "storedAt ?dir t y" "r \<le> t" for r x t y
    using that old [of r x] mono [of r x t y] below [of t y] unfolding stored by auto
  ultimately show ?thesis unfolding epochsOk_def by blast
qed

lemma save_ok:
  assumes ok: "leaseOk epochOf s" and i: "i < length (ls_Saving s)" "ls_Saving s ! i = (p, sv)"
    and step: "saveSequencedCheckpoint fault (rd_Dir (ls_Disk s)) sv = (dir, sv')"
    and s': "s' = s\<lparr>ls_Disk := (ls_Disk s)\<lparr>rd_Dir := dir\<rparr>, ls_Saving := (ls_Saving s)[i := (p, sv')]\<rparr>"
  shows "leaseOk epochOf s' \<and> leaseKept s s'"
proof -
  let ?dir = "rd_Dir (ls_Disk s)" and ?e = "diskEpoch (rd_Epoch (ls_Disk s))"
  have dirOk: "snapshotsOk ?dir" and epochs: "epochsOk epochOf ?dir ?e" and all: "list_all (savingOk epochOf (ls_Disk s) (ls_Active s)) (ls_Saving s)"
    using ok by (simp_all add: leaseOk_def)
  have own: "savingOk epochOf (ls_Disk s) (ls_Active s) (p, sv)" using all i by (metis list_all_length)
  then have svOk: "saverOk ?dir sv" by (simp add: savingOk_def)
  from saver_step [OF dirOk svOk step] have n: "snapshotsOk dir" "extendsDir ?dir dir" "saverOk dir sv'" by auto
  note w = saver_writes [OF step]
  have "epochsOk epochOf dir ?e"
  proof (cases "dir = ?dir")
    case False
    with w obtain q d where pub: "sv = Publishing q d" "mget ?dir (checkpointName q) = None" "dir = mput (checkpointName q) (DataFile d) ?dir" by blast
    from own pub(1) have "epochOf d = ?e" by (simp add: savingOk_def)
    with publish_epochs [OF dirOk _ svOk [unfolded pub(1)] pub(2), of epochOf] epochs pub(3) show ?thesis by simp
  qed (use epochs in simp)
  moreover have "savingOk epochOf ((ls_Disk s)\<lparr>rd_Dir := dir\<rparr>) (ls_Active s) (p, sv')"
    using own n(3) w by (auto simp: savingOk_def)
  moreover have "savingOk epochOf ((ls_Disk s)\<lparr>rd_Dir := dir\<rparr>) (ls_Active s) x" if "x \<in> set (ls_Saving s)" for x
    using all that saverOk_extends [OF mwf_snapshots [OF dirOk] n(2)] by (auto simp: list_all_iff savingOk_def)
  ultimately show ?thesis using ok n(1, 2) unfolding s'
    by (auto simp: leaseOk_def leaseKept_def leasesOk_def list_all_iff dest!: set_update_subset_insert [THEN subsetD])
qed

lemma begin_save_ok:
  assumes "leaseOk epochOf s" and "validateRunWriterEpoch b (rd_Epoch (ls_Disk s)) (ls_Active s p) e = Inr ()" and "e \<noteq> 0" and "epochOf d = e"
    and "sequenceOk q" and "length d \<le> maxRunStateBytes"
  shows "leaseOk epochOf (s\<lparr>ls_Saving := ls_Saving s @ [(p, Saving q d)]\<rparr>)"
proof -
  from assms(2, 3) obtain x where "readRunWriterEpoch b (rd_Epoch (ls_Disk s)) = Inr (e, x)" and active: "ls_Active s p = Some e"
    by (auto simp: validateRunWriterEpoch_def split: sum.splits prod.splits if_splits)
  from read_found [OF this(1)] have "diskEpoch (rd_Epoch (ls_Disk s)) = e" by (simp add: diskEpoch_def)
  with assms active show ?thesis by (simp add: leaseOk_def savingOk_def)
qed

lemma release_ok:
  assumes "leaseOk epochOf s" and "idleProcess p s" and "ls_Active s p = Some e"
  shows "leaseOk epochOf (setLease p (releaseLocked e (ls_Disk s, ls_Active s p)) s)"
proof -
  have lock: "rd_Lock (ls_Disk s) = Some p" using assms by (auto simp: leaseOk_def leasesOk_def)
  have "ls_Active s q = None" if "q \<noteq> p" for q using assms(1) lock that by (cases "ls_Active s q") (auto simp: leaseOk_def leasesOk_def)
  moreover have "ls_Saving s = []"
  proof (cases "ls_Saving s")
    case (Cons x xs)
    with assms(1, 2) calculation [of "fst x"] show ?thesis by (auto simp: leaseOk_def savingOk_def idleProcess_def)
  qed
  ultimately show ?thesis using assms(1) by (auto simp: leaseOk_def setLease_def releaseLocked_def leasesOk_def assms(3))
qed

lemma lease_step_ok:
  assumes "lease_step runID epochOf s s'" and "leaseOk epochOf s"
  shows "leaseOk epochOf s' \<and> leaseKept s s'"
proof -
  have ext: "extendsDir (rd_Dir (ls_Disk s)) (rd_Dir (ls_Disk s))" using assms(2) by (intro extends_refl mwf_snapshots) (simp add: leaseOk_def)
  from assms(1) show ?thesis
  proof cases
    case (acquire p c)
    then show ?thesis using acquire_ok [OF assms(2) prod.collapse [symmetric]] by simp
  next
    case (release p e)
    with release_ok [OF assms(2)] ext show ?thesis by (simp add: leaseKept_def setLease_def releaseLocked_def)
  next
    case (crash p)
    with assms(2) ext show ?thesis
      by (auto simp: leaseOk_def leaseKept_def leasesOk_def list_all_iff savingOk_def) (metis not_None_eq)
  next
    case (begin_save b p e d q)
    with begin_save_ok [OF assms(2) begin_save(2-6)] ext show ?thesis by (simp add: leaseKept_def)
  next
    case (save i p sv fault dir sv')
    then show ?thesis using save_ok [OF assms(2)] by blast
  next
    case (end_save xs p sv ys)
    with assms(2) ext show ?thesis by (auto simp: leaseOk_def leaseKept_def)
  qed
qed

interpretation lss: durable_steps "lease_step runID epochOf" "leaseOk epochOf" leaseKept for runID epochOf
proof unfold_locales
  fix s s' s''
  show "leaseKept s s" if "leaseOk epochOf s" using that by (simp add: leaseKept_def leaseOk_def extends_refl mwf_snapshots)
  show "leaseKept s s''" if "leaseOk epochOf s'" "leaseKept s s'" "leaseKept s' s''"
    using that extends_trans [OF mwf_snapshots] by (auto simp: leaseKept_def leaseOk_def)
  show "leaseOk epochOf s' \<and> leaseKept s s'" if "leaseOk epochOf s" "lease_step runID epochOf s s'" using lease_step_ok that by blast
qed

subsection \<open>Fencing\<close>

text \<open>
  C12. Whatever processes acquire and release the lease of a run, save checkpoints under it and die, in whatever order their calls interleave and fail: at
  most one process holds a lease at a time, a published checkpoint never changes, the writer epochs of the checkpoints do not decrease with their sequence
  numbers, so that no writer publishes after a later one, and a new lease has an epoch above every checkpoint.
\<close>

theorem stale_writers_never_publish:
  assumes "(lease_step runID epochOf)\<^sup>*\<^sup>* s s'" and "leaseOk epochOf s"
  shows "(\<forall>name e. mget (rd_Dir (ls_Disk s)) name = Some e \<longrightarrow> mget (rd_Dir (ls_Disk s')) name = Some e) \<and>
    (\<forall>q r d d'. storedAt (rd_Dir (ls_Disk s')) q d \<and> storedAt (rd_Dir (ls_Disk s')) r d' \<and> q \<le> r \<longrightarrow> epochOf d \<le> epochOf d') \<and>
    (\<forall>p p'. ls_Active s' p \<noteq> None \<and> ls_Active s' p' \<noteq> None \<longrightarrow> p = p') \<and>
    (\<forall>p c s'' e q d. AcquireRunLease runID p c (ls_Disk s', ls_Active s' p) = (s'', Inr e) \<and> storedAt (rd_Dir (ls_Disk s')) q d \<longrightarrow> epochOf d < e)"
proof -
  from lss.steps_kept [OF assms] have ok: "leaseOk epochOf s'" and kept: "extendsDir (rd_Dir (ls_Disk s)) (rd_Dir (ls_Disk s'))"
    by (simp_all add: leaseKept_def)
  have "mwf (rd_Dir (ls_Disk s))" using assms(2) by (intro mwf_snapshots) (simp add: leaseOk_def)
  note files = extends_mget [OF this kept]
  have epochs: "epochsOk epochOf (rd_Dir (ls_Disk s')) (diskEpoch (rd_Epoch (ls_Disk s')))" using ok by (simp add: leaseOk_def)
  have one: "p = p'" if "ls_Active s' p \<noteq> None" "ls_Active s' p' \<noteq> None" for p p'
  proof -
    have "rd_Lock (ls_Disk s') = Some x" if "ls_Active s' x \<noteq> None" for x using ok that by (auto simp: leaseOk_def leasesOk_def)
    from this [OF that(1)] this [OF that(2)] show ?thesis by simp
  qed
  have new: "epochOf d < e" if "AcquireRunLease runID p c (ls_Disk s', ls_Active s' p) = (s'', Inr e)" "storedAt (rd_Dir (ls_Disk s')) q d" for p c s'' e q d
  proof -
    from that(1) have "e = diskEpoch (rd_Epoch (ls_Disk s')) + 1" by (cases rule: acquire_cases) auto
    moreover have "epochOf d \<le> diskEpoch (rd_Epoch (ls_Disk s'))" using epochs that(2) unfolding epochsOk_def by blast
    ultimately show ?thesis by simp
  qed
  show ?thesis using files epochs one new unfolding epochsOk_def by blast
qed

text \<open>A process saves a checkpoint and dies, and another one takes the lease.\<close>

definition plainCall :: lease_call where
  "plainCall = \<lparr>lc_Cancelled = False, lc_Preflight = None, lc_OpenFails = False, lc_LockFails = False, lc_PreflightLocked = None, lc_MkdirFails = False,
     lc_ReadFails = False, lc_WriteFault = NoFault, lc_CancelledAfter = False\<rparr>"

definition noLease :: lease_system where
  "noLease = \<lparr>ls_Disk = \<lparr>rd_Epoch = None, rd_Lock = None, rd_Dir = []\<rparr>, ls_Active = (\<lambda>_. None), ls_Saving = []\<rparr>"

definition leasedTo :: "nat \<Rightarrow> nat \<Rightarrow> snapshots \<Rightarrow> (nat \<times> saver) list \<Rightarrow> lease_system" where
  "leasedTo p e dir ss =
     \<lparr>ls_Disk = \<lparr>rd_Epoch = Some (natDigits e @ [CHR 0x0A]), rd_Lock = Some p, rd_Dir = dir\<rparr>, ls_Active = (\<lambda>_. None)(p := Some e), ls_Saving = ss\<rparr>"

lemma read_epoch: "readRunWriterEpoch False (Some (natDigits 1 @ [CHR 0x0A])) = Inr (1, True)"
  by (rule read_written) (simp add: maxUint64_def)

lemma validRunID: "validateRunID ''run''"
  by (simp add: validateRunID_def runIDChar_def hasSuffix_def hasPrefix_def)

lemma noLease_ok: "leaseOk epochOf noLease"
  by (simp add: leaseOk_def noLease_def leasesOk_def epochsOk_def storedAt_def snapshotsOk_def highestCheckpointSequence_def) auto

lemma acquire_first: "setLease 0 (fst (AcquireRunLease ''run'' 0 plainCall (ls_Disk noLease, ls_Active noLease 0))) noLease = leasedTo 0 1 [] []"
  by (simp add: AcquireRunLease_def plainCall_def noLease_def validRunID Let_def nextRunWriterEpoch_def readRunWriterEpoch_def writeFileAtomic_def
      setLease_def leasedTo_def maxUint64_def)

lemma saved_steps: "(lease_step ''run'' length)\<^sup>*\<^sup>* noLease (leasedTo 0 1 [(checkpointName 1, DataFile ''a'')] [(0, Saved 1 ''a'')])"
proof -
  have first: "lease_step ''run'' length noLease (leasedTo 0 1 [] [])"
    using lease_step.acquire [of 0 noLease "''run''" length plainCall] unfolding acquire_first by (simp add: idleProcess_def noLease_def)
  have "validateRunWriterEpoch False (rd_Epoch (ls_Disk (leasedTo 0 1 [] []))) (ls_Active (leasedTo 0 1 [] []) 0) 1 = Inr ()"
    by (simp add: validateRunWriterEpoch_def leasedTo_def read_epoch [simplified])
  from lease_step.begin_save [OF this, of length "''a''" 1 "''run''"]
  have begun: "lease_step ''run'' length (leasedTo 0 1 [] []) (leasedTo 0 1 [] [(0, Saving 1 ''a'')])"
    by (simp add: leasedTo_def sequenceOk_def maxRunStateBytes_def)
  have "saveSequencedCheckpoint NoFault [] (Saving 1 ''a'') = ([], Publishing 1 ''a'')"
    by (simp add: scanStep_def highestCheckpointSequence_def in_i64_def)
  then have scanned: "lease_step ''run'' length (leasedTo 0 1 [] [(0, Saving 1 ''a'')]) (leasedTo 0 1 [] [(0, Publishing 1 ''a'')])"
    using lease_step.save [of 0 "leasedTo 0 1 [] [(0, Saving 1 ''a'')]" 0 "Saving 1 ''a''" NoFault "[]" "Publishing 1 ''a''" "''run''" length]
    by (simp add: leasedTo_def)
  have "saveSequencedCheckpoint NoFault [] (Publishing 1 ''a'') = ([(checkpointName 1, DataFile ''a'')], Saved 1 ''a'')"
    by (simp add: writeFileExclusive_def syncDirectory_def mput_def)
  then have published: "lease_step ''run'' length (leasedTo 0 1 [] [(0, Publishing 1 ''a'')]) (leasedTo 0 1 [(checkpointName 1, DataFile ''a'')] [(0, Saved 1 ''a'')])"
    using lease_step.save [of 0 "leasedTo 0 1 [] [(0, Publishing 1 ''a'')]" 0 "Publishing 1 ''a''" NoFault "[(checkpointName 1, DataFile ''a'')]" "Saved 1 ''a''" "''run''" length]
    by (simp add: leasedTo_def)
  from first begun scanned published show ?thesis by (meson converse_rtranclp_into_rtranclp rtranclp.rtrancl_refl)
qed

theorem stale_writers_never_publish_witness:
  "let s = (leasedTo 0 1 [(checkpointName 1, DataFile ''a'')] [])\<lparr>ls_Disk := \<lparr>rd_Epoch = Some (natDigits 1 @ [CHR 0x0A]), rd_Lock = None,
       rd_Dir = [(checkpointName 1, DataFile ''a'')]\<rparr>, ls_Active := (\<lambda>_. None)\<rparr> in
   \<forall>c s'' e. AcquireRunLease ''run'' 7 c (ls_Disk s, ls_Active s 7) = (s'', Inr e) \<longrightarrow> 1 < e"
proof -
  let ?s = "(leasedTo 0 1 [(checkpointName 1, DataFile ''a'')] [])\<lparr>ls_Disk := \<lparr>rd_Epoch = Some (natDigits 1 @ [CHR 0x0A]), rd_Lock = None,
       rd_Dir = [(checkpointName 1, DataFile ''a'')]\<rparr>, ls_Active := (\<lambda>_. None)\<rparr>"
  have "lease_step ''run'' length (leasedTo 0 1 [(checkpointName 1, DataFile ''a'')] [(0, Saved 1 ''a'')]) ?s"
    using lease_step.crash [of "''run''" length "leasedTo 0 1 [(checkpointName 1, DataFile ''a'')] [(0, Saved 1 ''a'')]" 0] by (simp add: leasedTo_def)
  with saved_steps have "(lease_step ''run'' length)\<^sup>*\<^sup>* noLease ?s" by (rule rtranclp.rtrancl_into_rtrancl)
  from stale_writers_never_publish [OF this noLease_ok]
  have new: "length d < e" if "AcquireRunLease ''run'' p c (ls_Disk ?s, ls_Active ?s p) = (s'', Inr e)" "storedAt (rd_Dir (ls_Disk ?s)) q d" for p c s'' e q d
    using that by blast
  have "storedAt (rd_Dir (ls_Disk ?s)) 1 ''a''" by (simp add: storedAt_def sequenceOk_def)
  from new [OF _ this, of 7] show ?thesis unfolding Let_def by simp
qed

end
