(* ===== verification/Run_Operations.thy ===== *)
theory Run_Operations
  imports Run_Recovery
begin

section \<open>Operations on a running run\<close>

text \<open>
  The operations through which steps change the durable state of a run (\<^verbatim>\<open>runHandle\<close> of \<^verbatim>\<open>runtime/internal/engine/engine.go\<close>): preparing and settling dispatches,
  asking an operator and accepting the answer, opening frames and committing their steps, pinning dynamic includes. Each changes the run in
  memory and then saves a checkpoint; what becomes of the checkpoint is an argument. Cursors, trace events and typed results of the checkpoint are
  left out, as is a handle without a store. The clock is an argument.
\<close>

subsection \<open>Handles and checkpoints\<close>

record boundary =
  bo_QualifiedNodeID :: string
  bo_CallPath :: "call_frame list"
  bo_StepID :: string
  bo_StepIndex :: int
  bo_FrameID :: string
  bo_FrameStepIndex :: int
  bo_Invocation :: int

text \<open>
  The run in memory, the last checkpoint, whether a trace event could not be written, after which every operation fails, whether the run
  has ended, and the cursor at which it was paused.
\<close>

record run_handle =
  hd_Run :: run_state
  hd_Saved :: run_state
  hd_TraceErr :: bool
  hd_Plan :: run_plan
  hd_CallPath :: "call_frame list"
  hd_Done :: bool
  hd_Paused :: "cursor option"

datatype run_error = TraceCommit | CheckpointRefused | InvalidRequest string | InteractionConflict | Indeterminate | RunFailed string | HandoffRequested |
  RouteTestTarget

text \<open>
  The checkpoint is saved; or refused; or saved, and an event of it cannot be projected; or saved and projected, and a later event cannot be
  written.
\<close>

datatype checkpoint_outcome = Persisted | SaveRefused | ProjectionFailed | EventFailed

definition persistCompletedCheckpoint :: "checkpoint_outcome \<Rightarrow> run_handle \<Rightarrow> run_handle \<times> (run_error + unit)" where
  "persistCompletedCheckpoint outcome h =
     (let run = (hd_Run h)\<lparr>ru_CheckpointSequence := i64 (ru_CheckpointSequence (hd_Run h) + 1)\<rparr> in
      case outcome of
        SaveRefused \<Rightarrow> (h, Inl CheckpointRefused)
      | ProjectionFailed \<Rightarrow> (h\<lparr>hd_Run := run, hd_Saved := run, hd_TraceErr := True\<rparr>, Inl TraceCommit)
      | _ \<Rightarrow> (h\<lparr>hd_Run := run, hd_Saved := run\<rparr>, Inr ()))"

definition emitCheckpoint :: "checkpoint_outcome \<Rightarrow> 'a \<Rightarrow> run_handle \<Rightarrow> run_handle \<times> (run_error + 'a)" where
  "emitCheckpoint outcome answer h =
     (if outcome = EventFailed then (h\<lparr>hd_TraceErr := True\<rparr>, Inl TraceCommit) else (h, Inr answer))"

text \<open>A change that is taken back in memory when the checkpoint fails in any way.\<close>

definition commitRun :: "checkpoint_outcome \<Rightarrow> (run_state \<Rightarrow> run_state) \<Rightarrow> (run_state \<Rightarrow> run_state) \<Rightarrow> 'a \<Rightarrow> run_handle \<Rightarrow> run_handle \<times> (run_error + 'a)" where
  "commitRun outcome change undo answer h =
     (case persistCompletedCheckpoint outcome (h\<lparr>hd_Run := change (hd_Run h)\<rparr>) of
        (h', Inl err) \<Rightarrow> (h'\<lparr>hd_Run := undo (hd_Run h')\<rparr>, Inl err)
      | (h', Inr _) \<Rightarrow> emitCheckpoint outcome answer h')"

definition executionBoundary :: "boundary option \<Rightarrow> run_handle \<Rightarrow> boundary option" where
  "executionBoundary given h =
     (case given of
        Some b \<Rightarrow> Some b
      | None \<Rightarrow>
          (let i = ru_CurrentStepIndex (hd_Run h); steps = pl_Steps (hd_Plan h) in
           if i < 0 \<or> int (length steps) \<le> i then None
           else
             (let stepID = fst (steps ! nat i) in
              Some \<lparr>bo_QualifiedNodeID = DebugNodeID (hd_CallPath h) stepID, bo_CallPath = hd_CallPath h, bo_StepID = stepID, bo_StepIndex = i,
                bo_FrameID = '''', bo_FrameStepIndex = 0, bo_Invocation = 1\<rparr>)))"

definition docDigest :: "run_lib \<Rightarrow> run_doc \<Rightarrow> string" where
  "docDigest L doc = rl_digest L (case rl_marshal L doc of None \<Rightarrow> '''' | Some encoded \<Rightarrow> encoded)"

subsection \<open>Dispatches\<close>

record dispatch_request =
  rq_Classification :: string
  rq_EndpointIdentity :: string
  rq_RenderedRequest :: gany
  rq_ProviderSupportsReconciliation :: bool

definition nextOccurrence :: "dispatch_state gomap \<Rightarrow> int" where
  "nextOccurrence ds = fold (\<lambda>(k, d) n. if n \<le> ds_OccurrenceSequence d then i64 (ds_OccurrenceSequence d + 1) else n) ds 1"

definition nextInvocation :: "string \<Rightarrow> string \<Rightarrow> dispatch_state gomap \<Rightarrow> int" where
  "nextInvocation frameID nodeID ds =
     fold (\<lambda>(k, d) n. if ds_FrameID d = frameID \<and> ds_QualifiedNodeID d = nodeID \<and> n \<le> ds_Invocation d then i64 (ds_Invocation d + 1) else n) ds 1"

definition preparedFor :: "string \<Rightarrow> string \<Rightarrow> dispatch_state \<Rightarrow> bool" where
  "preparedFor frameID nodeID d = (ds_FrameID d = frameID \<and> ds_QualifiedNodeID d = nodeID \<and> ds_Status d = ''prepared'')"

definition dispatchID :: "run_lib \<Rightarrow> string \<Rightarrow> string \<Rightarrow> int \<Rightarrow> string \<Rightarrow> int \<Rightarrow> int \<Rightarrow> string" where
  "dispatchID L runID frameID i nodeID invocation sequence = docDigest L (RunDispatchID runID frameID i nodeID invocation sequence)"

definition newDispatch :: "run_lib \<Rightarrow> string \<Rightarrow> boundary \<Rightarrow> dispatch_request \<Rightarrow> string \<Rightarrow> string \<Rightarrow> run_state \<Rightarrow> dispatch_state" where
  "newDispatch L now b rq classification requestDigest st =
     (let invocation = nextInvocation (bo_FrameID b) (bo_QualifiedNodeID b) (ru_Dispatches st); sequence = nextOccurrence (ru_Dispatches st);
          occurrenceID = dispatchID L (ru_RunID st) (bo_FrameID b) (bo_FrameStepIndex b) (bo_QualifiedNodeID b) invocation sequence in
      \<lparr>ds_SchemaVersion = ''yawr.dispatch-state/v1'', ds_OccurrenceID = occurrenceID, ds_WriterEpoch = ru_WriterEpoch st,
       ds_QualifiedNodeID = bo_QualifiedNodeID b, ds_CallPath = bo_CallPath b, ds_StepID = bo_StepID b, ds_FrameID = bo_FrameID b,
       ds_FrameStepIndex = bo_FrameStepIndex b, ds_Phase = ''execute'', ds_Invocation = invocation, ds_RetryAttempt = 1,
       ds_OccurrenceSequence = sequence, ds_Classification = classification, ds_EndpointIdentity = rq_EndpointIdentity rq,
       ds_RequestDigest = requestDigest, ds_IdempotencyKey = rl_digest L (''yawr.dispatch/v1'' @ [CHR 0x00] @ occurrenceID),
       ds_ProviderSupportsReconciliation = rq_ProviderSupportsReconciliation rq, ds_Status = ''prepared'', ds_ResultDigest = '''',
       ds_PreparedAt = now, ds_SettledAt = ''''\<rparr>)"

definition frameAtChild :: "run_state \<Rightarrow> boundary \<Rightarrow> bool" where
  "frameAtChild st b =
     (bo_FrameID b = '''' \<or>
      (case mget (ru_Frames st) (bo_FrameID b) of None \<Rightarrow> False | Some f \<Rightarrow> activeFrame f \<and> bo_FrameStepIndex b = fr_NextStepIndex f))"

definition PrepareDispatch ::
  "run_lib \<Rightarrow> string \<Rightarrow> checkpoint_outcome \<Rightarrow> boundary option \<Rightarrow> dispatch_request \<Rightarrow> run_handle \<Rightarrow> run_handle \<times> (run_error + dispatch_state)" where
  "PrepareDispatch L now outcome given rq h =
     (let classification = (if rq_Classification rq = '''' then ''unspecified'' else rq_Classification rq) in
      if classification \<notin> set [''read-only'', ''mutating'', ''destructive'', ''unspecified''] then (h, Inl (InvalidRequest ''classification''))
      else if 1024 < length (rq_EndpointIdentity rq) \<or>
        containsAny (rq_EndpointIdentity rq) ([CHR 0x0D, CHR 0x0A, CHR 0x09] @ ''@?#'' @ [CHR 0x5C]) then (h, Inl (InvalidRequest ''endpoint''))
      else case rl_marshal L (RunRequest (rq_RenderedRequest rq)) of
        None \<Rightarrow> (h, Inl (InvalidRequest ''request''))
      | Some rendered \<Rightarrow>
          if hd_TraceErr h then (h, Inl TraceCommit)
          else if ru_CurrentStepIndex (hd_Run h) < 0 \<or> int (length (pl_Steps (hd_Plan h))) \<le> ru_CurrentStepIndex (hd_Run h)
          then (h, Inl (InvalidRequest ''owner''))
          else case executionBoundary given h of
            None \<Rightarrow> (h, Inl (InvalidRequest ''owner''))
          | Some b \<Rightarrow>
              if \<not> frameAtChild (hd_Run h) b then (h, Inl (InvalidRequest ''frame''))
              else case find (\<lambda>(k, d). preparedFor (bo_FrameID b) (bo_QualifiedNodeID b) d) (ru_Dispatches (hd_Run h)) of
                Some (k, d) \<Rightarrow>
                  if ds_RequestDigest d \<noteq> rl_digest L rendered \<or> ds_Classification d \<noteq> classification \<or> ds_EndpointIdentity d \<noteq> rq_EndpointIdentity rq
                  then (h, Inl (InvalidRequest ''changed'')) else (h, Inr d)
              | None \<Rightarrow>
                  (let d = newDispatch L now b rq classification (rl_digest L rendered) (hd_Run h); previous = ru_Dispatches (hd_Run h) in
                   commitRun outcome (ru_Dispatches_update (mput (ds_OccurrenceID d) d)) (ru_Dispatches_update (\<lambda>_. previous)) d h))"

text \<open>Settling: the first prepared dispatch that fits is closed.\<close>

definition closeDispatch :: "string \<Rightarrow> string \<Rightarrow> string \<Rightarrow> dispatch_state \<Rightarrow> dispatch_state" where
  "closeDispatch now status digest d = d\<lparr>ds_Status := status, ds_ResultDigest := digest, ds_SettledAt := now\<rparr>"

definition resolverDigest :: "run_lib \<Rightarrow> step_record option \<Rightarrow> dispatch_state \<Rightarrow> string \<Rightarrow> string" where
  "resolverDigest L result d digest =
     (if ds_EndpointIdentity d = ''dynamic-include-resolver''
      then (case Option.bind result (DynamicIncludeNotFoundResultDigest L) of Some notFound \<Rightarrow> notFound | None \<Rightarrow> digest)
      else digest)"

definition closeFirst ::
  "(dispatch_state \<Rightarrow> bool) \<Rightarrow> (dispatch_state \<Rightarrow> dispatch_state option) \<Rightarrow> dispatch_state gomap \<Rightarrow> (dispatch_state gomap) option" where
  "closeFirst P close ds =
     (case find (\<lambda>(k, d). ds_Status d = ''prepared'' \<and> P d) ds of
        None \<Rightarrow> Some ds
      | Some (k, d) \<Rightarrow> map_option (\<lambda>d'. mput k d' ds) (close d))"

definition settlePreparedFrameDispatch ::
  "run_lib \<Rightarrow> string \<Rightarrow> string \<Rightarrow> int \<Rightarrow> step_record \<Rightarrow> dispatch_state gomap \<Rightarrow> (dispatch_state gomap) option" where
  "settlePreparedFrameDispatch L now frameID i result =
     closeFirst (\<lambda>d. ds_FrameID d = frameID \<and> ds_FrameStepIndex d = i)
       (\<lambda>d. if sx_Status result = ''indeterminate'' then Some (closeDispatch now ''indeterminate'' '''' d)
         else map_option (\<lambda>encoded. closeDispatch now ''settled'' (resolverDigest L (Some result) d (rl_digest L encoded)) d)
           (rl_marshal L (RunResult result)))"

definition stagePreparedDispatchForBoundary ::
  "run_lib \<Rightarrow> string \<Rightarrow> boundary \<Rightarrow> dyn_pin \<Rightarrow> dispatch_state gomap \<Rightarrow> (dispatch_state gomap) option" where
  "stagePreparedDispatchForBoundary L now b pin =
     closeFirst (\<lambda>d. ds_QualifiedNodeID d = bo_QualifiedNodeID b \<and> ds_FrameID d = bo_FrameID b \<and> ds_FrameStepIndex d = bo_FrameStepIndex b)
       (\<lambda>d. map_option (\<lambda>encoded. closeDispatch now ''settled'' (rl_digest L encoded) d) (rl_marshal L (RunPin pin)))"

definition stagePreparedDispatchSettled ::
  "run_lib \<Rightarrow> string \<Rightarrow> call_frame list \<Rightarrow> string \<Rightarrow> step_record option \<Rightarrow> string option \<Rightarrow> dispatch_state gomap \<Rightarrow> (dispatch_state gomap) option" where
  "stagePreparedDispatchSettled L now path stepID result execErr =
     (let errorText = (case execErr of Some e \<Rightarrow> e | None \<Rightarrow> (case Option.bind result sx_Error of Some e \<Rightarrow> e | None \<Rightarrow> '''')) in
      closeFirst (\<lambda>d. ds_QualifiedNodeID d = DebugNodeID path stepID)
        (\<lambda>d. map_option (\<lambda>encoded. closeDispatch now ''settled'' (resolverDigest L result d (rl_digest L encoded)) d)
          (rl_marshal L (RunSettled result errorText))))"

definition stagePreparedDispatchIndeterminate :: "string \<Rightarrow> call_frame list \<Rightarrow> string \<Rightarrow> dispatch_state gomap \<Rightarrow> (dispatch_state gomap) option" where
  "stagePreparedDispatchIndeterminate now path stepID =
     closeFirst (\<lambda>d. ds_QualifiedNodeID d = DebugNodeID path stepID) (\<lambda>d. Some (closeDispatch now ''indeterminate'' '''' d))"

subsection \<open>Interactions\<close>

definition validateInteractionState :: "run_lib \<Rightarrow> interaction \<Rightarrow> bool" where
  "validateInteractionState L i =
     (ia_SchemaVersion i = ''yawr.interaction-state/v1'' \<and> ia_TurnID i \<noteq> '''' \<and> ia_NodeID i \<noteq> '''' \<and> ia_StepID i \<noteq> '''' \<and>
      ia_Kind i \<noteq> '''' \<and> 1 \<le> ia_Ordinal i \<and> 0 \<le> ia_ExecutionInvocation i \<and> ia_RequestDigest i \<noteq> '''' \<and> ia_Request i \<noteq> '''' \<and>
      rl_jsonValid L (ia_Request i) \<and> ia_RequestDigest i = rl_digest L (ia_Request i))"

text \<open>No event follows the checkpoint of an interaction.\<close>

definition quiet :: "checkpoint_outcome \<Rightarrow> checkpoint_outcome" where
  "quiet outcome = (if outcome = EventFailed then Persisted else outcome)"

definition sameOccurrence :: "string \<Rightarrow> interaction \<Rightarrow> interaction \<Rightarrow> bool" where
  "sameOccurrence owner proposed c =
     (ia_OwnerStepID c = owner \<and> ia_NodeID c = ia_NodeID proposed \<and> ia_FrameID c = ia_FrameID proposed \<and>
      ia_FrameStepIndex c = ia_FrameStepIndex proposed \<and> ia_Kind c = ia_Kind proposed \<and> ia_Ordinal c = ia_Ordinal proposed)"

definition interactionOwner :: "boundary option \<Rightarrow> run_handle \<Rightarrow> string" where
  "interactionOwner given h =
     (case given of
        Some b \<Rightarrow> bo_QualifiedNodeID b
      | None \<Rightarrow>
          (let i = ru_CurrentStepIndex (hd_Run h); steps = pl_Steps (hd_Plan h) in
           if 0 \<le> i \<and> i < int (length steps) then fst (steps ! nat i) else ''''))"

definition askAgain :: "checkpoint_outcome \<Rightarrow> interaction \<Rightarrow> interaction \<Rightarrow> run_handle \<Rightarrow> run_handle \<times> (run_error + interaction)" where
  "askAgain outcome proposed c h =
     (if ia_RequestDigest c \<noteq> ia_RequestDigest proposed then (h, Inl InteractionConflict)
      else if 0 < ia_ExecutionInvocation c \<and> 0 < ia_ExecutionInvocation proposed \<and> ia_ExecutionInvocation c \<noteq> ia_ExecutionInvocation proposed
      then (h, Inl InteractionConflict)
      else if ia_Status c = ''pending'' \<and> ru_Status (hd_Run h) \<noteq> ''waiting'' then
        (let previous = ru_Status (hd_Run h) in
         commitRun (quiet outcome) (ru_Status_update (\<lambda>_. ''waiting'')) (ru_Status_update (\<lambda>_. previous)) c h)
      else (h, Inr c))"

definition PrepareInteraction ::
  "run_lib \<Rightarrow> checkpoint_outcome \<Rightarrow> boundary option \<Rightarrow> interaction \<Rightarrow> run_handle \<Rightarrow> run_handle \<times> (run_error + interaction)" where
  "PrepareInteraction L outcome given proposed0 h =
     (if hd_TraceErr h then (h, Inl TraceCommit)
      else if (case given of Some b \<Rightarrow> 0 < ia_ExecutionInvocation proposed0 \<and> ia_ExecutionInvocation proposed0 \<noteq> bo_Invocation b | None \<Rightarrow> False)
      then (h, Inl InteractionConflict)
      else
        (let proposed = (case given of Some b \<Rightarrow> proposed0\<lparr>ia_ExecutionInvocation := bo_Invocation b\<rparr> | None \<Rightarrow> proposed0);
             owner = interactionOwner given h in
         if \<not> validateInteractionState L proposed \<or> owner = '''' then (h, Inl InteractionConflict)
         else case find (\<lambda>(k, c). sameOccurrence owner proposed c) (ru_Interactions (hd_Run h)) of
           Some (k, c) \<Rightarrow> askAgain outcome proposed c h
         | None \<Rightarrow>
             if mget (ru_Interactions (hd_Run h)) (ia_TurnID proposed) \<noteq> None then (h, Inl InteractionConflict)
             else
               (let committed = proposed\<lparr>ia_OwnerStepID := owner\<rparr>; run = hd_Run h in
                commitRun (quiet outcome)
                  (\<lambda>st. st\<lparr>ru_Interactions := mput (ia_TurnID committed) committed (ru_Interactions st), ru_Status := ''waiting''\<rparr>)
                  (\<lambda>st. st\<lparr>ru_Interactions := ru_Interactions run, ru_Status := ru_Status run\<rparr>) committed h)))"

definition answerInteraction :: "string \<Rightarrow> string \<Rightarrow> string \<Rightarrow> string \<Rightarrow> string \<Rightarrow> string \<Rightarrow> interaction \<Rightarrow> interaction" where
  "answerInteraction now turnID commandID commandDigest answerDigest answer i =
     i\<lparr>ia_Status := ''answered'', ia_AnswerDigest := answerDigest, ia_Answer := answer, ia_AnswerCommandID := commandID,
       ia_AnswerCommandDigest := commandDigest, ia_AcceptedAt := now, ia_AuditToken := turnID\<rparr>"

definition acceptInteraction ::
  "run_lib \<Rightarrow> string \<Rightarrow> checkpoint_outcome \<Rightarrow> string \<Rightarrow> string \<Rightarrow> string \<Rightarrow> string \<Rightarrow> string \<Rightarrow> run_handle \<Rightarrow> run_handle \<times> (run_error + interaction)" where
  "acceptInteraction L now outcome turnID commandID commandDigest answerDigest answer h =
     (if hd_TraceErr h then (h, Inl TraceCommit)
      else case mget (ru_Interactions (hd_Run h)) turnID of
        None \<Rightarrow> (h, Inl InteractionConflict)
      | Some c \<Rightarrow>
          if answerDigest = '''' \<or> answer = '''' \<or> \<not> rl_jsonValid L answer then (h, Inl InteractionConflict)
          else if ia_Status c = ''answered'' then
            (if ia_AnswerDigest c = answerDigest \<and> ia_Answer c = answer \<and>
                (ia_AnswerCommandID c = '''' \<or> commandID = '''' \<or> ia_AnswerCommandID c = commandID \<and> ia_AnswerCommandDigest c = commandDigest)
             then (h, Inr c) else (h, Inl InteractionConflict))
          else if ia_Status c \<noteq> ''pending'' then (h, Inl InteractionConflict)
          else
            (let accepted = answerInteraction now turnID commandID commandDigest answerDigest answer c;
                 previous = ru_Interactions (hd_Run h) in
             commitRun (quiet outcome) (ru_Interactions_update (mput turnID accepted)) (ru_Interactions_update (\<lambda>_. previous)) accepted h))"

definition AcceptInteraction ::
  "run_lib \<Rightarrow> string \<Rightarrow> checkpoint_outcome \<Rightarrow> string \<Rightarrow> string \<Rightarrow> string \<Rightarrow> run_handle \<Rightarrow> run_handle \<times> (run_error + interaction)" where
  "AcceptInteraction L now outcome turnID answerDigest answer = acceptInteraction L now outcome turnID '''' '''' answerDigest answer"

definition AcceptInteractionCommand ::
  "run_lib \<Rightarrow> string \<Rightarrow> checkpoint_outcome \<Rightarrow> string \<Rightarrow> string \<Rightarrow> string \<Rightarrow> string \<Rightarrow> string \<Rightarrow> run_handle \<Rightarrow> run_handle \<times> (run_error + interaction)" where
  "AcceptInteractionCommand L now outcome turnID commandID commandDigest answerDigest answer h =
     (if commandID = '''' \<or> 128 < length commandID \<or> containsAny commandID [CHR 0x0D, CHR 0x0A, CHR 0x00] \<or> commandDigest = ''''
      then (h, Inl InteractionConflict)
      else acceptInteraction L now outcome turnID commandID commandDigest answerDigest answer h)"

definition clearInteractionsForOwner :: "string \<Rightarrow> interaction gomap \<Rightarrow> interaction gomap" where
  "clearInteractionsForOwner owner ias = filter (\<lambda>(k, i). ia_OwnerStepID i \<noteq> owner) ias"

subsection \<open>Frames\<close>

record frame_request =
  fq_ParentFrameID :: string
  fq_ParentQualifiedNodeID :: string
  fq_ParentStepID :: string
  fq_Kind :: string
  fq_CallPath :: "call_frame list"
  fq_BranchLabel :: string
  fq_IterationIndex :: int
  fq_DefinitionDigest :: string
  fq_StepCount :: int
  fq_StepIDs :: "string list"
  fq_InitialVars :: "gany gomap"

definition isSHA256Digest :: "string \<Rightarrow> bool" where
  "isSHA256Digest value = (hasPrefix value ''sha256:'' \<and> length value = 71)"

definition requestedFrame :: "frame_request \<Rightarrow> frame_state \<Rightarrow> bool" where
  "requestedFrame rq f =
     (fr_ParentFrameID f = fq_ParentFrameID rq \<and> fr_ParentQualifiedNodeID f = fq_ParentQualifiedNodeID rq \<and> fr_Kind f = fq_Kind rq \<and>
      fr_BranchLabel f = fq_BranchLabel rq \<and> fr_IterationIndex f = fq_IterationIndex rq)"

definition newFrame :: "run_lib \<Rightarrow> string \<Rightarrow> frame_request \<Rightarrow> run_state \<Rightarrow> frame_state" where
  "newFrame L now rq st =
     (let invocation = fold (\<lambda>(k, f) n. if requestedFrame rq f \<and> n \<le> fr_Invocation f then i64 (fr_Invocation f + 1) else n) (ru_Frames st) 1 in
      \<lparr>fr_SchemaVersion = ''yawr.execution-frame-state/v1'',
       fr_FrameID = docDigest L (RunFrameID (ru_RunID st) (fq_ParentFrameID rq) (fq_ParentQualifiedNodeID rq) (fq_Kind rq) (fq_BranchLabel rq)
         (fq_IterationIndex rq) invocation),
       fr_ParentFrameID = fq_ParentFrameID rq, fr_WriterEpoch = ru_WriterEpoch st, fr_ParentQualifiedNodeID = fq_ParentQualifiedNodeID rq,
       fr_ParentStepID = fq_ParentStepID rq, fr_Kind = fq_Kind rq, fr_CallPath = fq_CallPath rq, fr_BranchLabel = fq_BranchLabel rq,
       fr_IterationIndex = fq_IterationIndex rq, fr_Invocation = invocation, fr_DefinitionDigest = fq_DefinitionDigest rq,
       fr_StepCount = fq_StepCount rq, fr_StepIDs = fq_StepIDs rq, fr_NextStepIndex = 0, fr_WorkingVars = fq_InitialVars rq, fr_Results = [],
       fr_Status = ''active'', fr_StartedAt = now, fr_CompletedAt = ''''\<rparr>)"

definition BeginExecutionFrame ::
  "run_lib \<Rightarrow> string \<Rightarrow> checkpoint_outcome \<Rightarrow> frame_request \<Rightarrow> run_handle \<Rightarrow> run_handle \<times> (run_error + frame_state)" where
  "BeginExecutionFrame L now outcome rq h =
     (if fq_ParentStepID rq = '''' \<or> fq_ParentQualifiedNodeID rq = '''' \<or> fq_Kind rq = '''' \<or> fq_CallPath rq = [] \<or>
         cf_StepID (last (fq_CallPath rq)) \<noteq> fq_ParentStepID rq \<or> fq_StepCount rq < 1 \<or> int (length (fq_StepIDs rq)) \<noteq> fq_StepCount rq \<or>
         fq_IterationIndex rq < 0 \<or> \<not> isSHA256Digest (fq_DefinitionDigest rq)
      then (h, Inl (InvalidRequest ''frame''))
      else if hd_TraceErr h then (h, Inl TraceCommit)
      else if fq_ParentFrameID rq \<noteq> '''' \<and> (case mget (ru_Frames (hd_Run h)) (fq_ParentFrameID rq) of None \<Rightarrow> True | Some p \<Rightarrow> \<not> activeFrame p)
      then (h, Inl (InvalidRequest ''parent''))
      else
        (let previous = ru_Frames (hd_Run h) in
         case find (\<lambda>(k, f). activeFrame f \<and> requestedFrame rq f) previous of
           Some (k, f) \<Rightarrow>
             if fr_DefinitionDigest f \<noteq> fq_DefinitionDigest rq \<or> fr_StepCount f \<noteq> fq_StepCount rq then (h, Inl (InvalidRequest ''definition''))
             else
               (let resumed = f\<lparr>fr_WriterEpoch := ru_WriterEpoch (hd_Run h)\<rparr> in
                commitRun outcome (ru_Frames_update (mput k resumed)) (ru_Frames_update (\<lambda>_. previous)) resumed h)
         | None \<Rightarrow>
             (let f = newFrame L now rq (hd_Run h) in
              commitRun outcome (ru_Frames_update (mput (fr_FrameID f) f)) (ru_Frames_update (\<lambda>_. previous)) f h)))"

definition finishFrame :: "string \<Rightarrow> string \<Rightarrow> string \<Rightarrow> string \<Rightarrow> frame_state \<Rightarrow> frame_state" where
  "finishFrame now parentFrameID parentNodeID status f =
     (if \<not> activeFrame f \<or> fr_ParentFrameID f \<noteq> parentFrameID \<or> fr_ParentQualifiedNodeID f \<noteq> parentNodeID \<or>
         fr_Kind f = ''compensate'' \<and> status = ''failed'' then f
      else if status = ''completed'' \<or> status = ''skipped'' then
        (if fr_NextStepIndex f = fr_StepCount f then f\<lparr>fr_Status := ''completed'', fr_CompletedAt := now\<rparr> else f)
      else if status = ''indeterminate'' then f\<lparr>fr_Status := ''indeterminate'', fr_CompletedAt := now\<rparr>
      else f\<lparr>fr_Status := ''failed'', fr_CompletedAt := now\<rparr>)"

definition finishExecutionFrames :: "string \<Rightarrow> string \<Rightarrow> string \<Rightarrow> string \<Rightarrow> frame_state gomap \<Rightarrow> frame_state gomap" where
  "finishExecutionFrames now parentFrameID parentNodeID status fs = map (\<lambda>(k, f). (k, finishFrame now parentFrameID parentNodeID status f)) fs"

definition finishDynamicIncludeResolutions :: "string \<Rightarrow> string \<Rightarrow> string \<Rightarrow> string \<Rightarrow> dyn_resolution gomap \<Rightarrow> dyn_resolution gomap" where
  "finishDynamicIncludeResolutions now frameID nodeID status rs =
     map (\<lambda>(k, r). (k, if dr_Status r \<noteq> ''active'' \<or> dr_FrameID r \<noteq> frameID \<or> dr_QualifiedNodeID r \<noteq> nodeID then r
       else r\<lparr>dr_Status := if status = ''completed'' \<or> status = ''skipped'' then ''completed'' else ''failed'', dr_CompletedAt := now\<rparr>)) rs"

subsection \<open>Steps of a frame\<close>

text \<open>What \<^verbatim>\<open>errors.Is\<close> says of the error of a result.\<close>

datatype transport = DeadlineExceeded | Canceled | OtherError

definition isTransportLoss :: "transport \<Rightarrow> bool" where
  "isTransportLoss t = (t = DeadlineExceeded \<or> t = Canceled)"

definition classifyTransportError :: "transport \<Rightarrow> string" where
  "classifyTransportError t =
     (case t of DeadlineExceeded \<Rightarrow> ''context-deadline-exceeded'' | Canceled \<Rightarrow> ''context-canceled'' | OtherError \<Rightarrow> ''network-error'')"

definition requiresIndeterminate :: "string \<Rightarrow> bool" where
  "requiresIndeterminate classification = (classification \<noteq> ''read-only'')"

record frame_commit =
  fc_FrameID :: string
  fc_StepIndex :: int
  fc_StepKind :: string
  fc_Result :: step_record
  fc_Transport :: transport
  fc_WorkingVars :: "gany gomap"

definition frameDispatchResult ::
  "string \<Rightarrow> string \<Rightarrow> string \<Rightarrow> int \<Rightarrow> step_record \<Rightarrow> transport \<Rightarrow> dispatch_state gomap \<Rightarrow> step_record \<times> bool" where
  "frameDispatchResult runID now frameID i result transport ds =
     (case find (\<lambda>(k, d). ds_Status d = ''prepared'' \<and> ds_FrameID d = frameID \<and> ds_FrameStepIndex d = i) ds of
        None \<Rightarrow> (result, False)
      | Some (k, d) \<Rightarrow>
          if \<not> isTransportLoss transport \<or> \<not> requiresIndeterminate (ds_Classification d) then (result, False)
          else
            (result\<lparr>sx_Status := ''indeterminate'', sx_Outcome := ''failed'',
               sx_Indeterminate := Some \<lparr>nd_RunID = runID, nd_StepID = sx_StepID result, nd_Classification = ds_Classification d,
                 nd_AttemptNumber = ds_RetryAttempt d, nd_FailureTime = now, nd_TransportErrCategory = classifyTransportError transport\<rparr>\<rparr>, True))"

definition isTerminalOutput :: "step_record \<Rightarrow> bool" where
  "isTerminalOutput x = (mget (sx_Output x) ''terminal'' = Some (GBool True))"

text \<open>A terminal result settles the steps that are not executed any more.\<close>

definition skippedTail :: "string \<Rightarrow> string \<Rightarrow> step_record" where
  "skippedTail now stepID =
     \<lparr>sx_StepID = stepID, sx_Status = ''skipped'', sx_Outcome = ''skipped'', sx_Output = [(''skip_reason'', GStr ''terminal'')], sx_Vars = [],
      sx_StartedAt = now, sx_CompletedAt = now, sx_Error = None, sx_Indeterminate = None, sx_Rest = ''''\<rparr>"

definition skipTail :: "string \<Rightarrow> frame_state \<Rightarrow> frame_state" where
  "skipTail now f =
     fold (\<lambda>i g. passStep (skippedTail now (fr_StepIDs g ! nat i)) i g) [fr_NextStepIndex f..fr_StepCount f - 1] f"

definition commitFrame :: "string \<Rightarrow> frame_commit \<Rightarrow> step_record \<Rightarrow> frame_state \<Rightarrow> frame_state" where
  "commitFrame now fc committed f = (passStep committed (fc_StepIndex fc) f)\<lparr>fr_WorkingVars := fc_WorkingVars fc\<rparr>"

definition returnFrame :: "string \<Rightarrow> step_record \<Rightarrow> frame_state \<Rightarrow> frame_state" where
  "returnFrame now committed f = (if sx_Status committed = ''completed'' \<and> isTerminalOutput committed then skipTail now f else f)"

text \<open>The state that is saved for a step of a frame, \<open>None\<close> when its result cannot be encoded.\<close>

definition committedStep :: "run_lib \<Rightarrow> string \<Rightarrow> frame_commit \<Rightarrow> step_record \<Rightarrow> frame_state \<Rightarrow> run_state \<Rightarrow> run_state option" where
  "committedStep L now fc committed f st =
     (case settlePreparedFrameDispatch L now (fc_FrameID fc) (fc_StepIndex fc) committed (ru_Dispatches st) of
        None \<Rightarrow> None
      | Some ds \<Rightarrow>
          (let nodeID = DebugNodeID (fr_CallPath f) (sx_StepID committed);
               fs = finishExecutionFrames now (fc_FrameID fc) nodeID (sx_Status committed) (mput (fc_FrameID fc) (commitFrame now fc committed f) (ru_Frames st));
               fs' = map (\<lambda>(k, g). (k, if k = fc_FrameID fc then returnFrame now committed g else g)) fs in
           Some (st\<lparr>ru_Dispatches := ds, ru_Interactions := clearInteractionsForOwner nodeID (ru_Interactions st), ru_Frames := fs',
             ru_Resolutions := finishDynamicIncludeResolutions now (fc_FrameID fc) nodeID (sx_Status committed) (ru_Resolutions st)\<rparr>)))"

text \<open>A refused checkpoint takes back frames, dispatches and interactions; resolutions stay as they are.\<close>

definition CommitExecutionFrameStep ::
  "run_lib \<Rightarrow> string \<Rightarrow> checkpoint_outcome \<Rightarrow> frame_commit \<Rightarrow> run_handle \<Rightarrow> run_handle \<times> (run_error + frame_state)" where
  "CommitExecutionFrameStep L now outcome fc h =
     (if fc_FrameID fc = '''' \<or> fc_StepKind fc = '''' \<or> sx_StepID (fc_Result fc) = '''' then (h, Inl (InvalidRequest ''commit''))
      else if hd_TraceErr h then (h, Inl TraceCommit)
      else
        (let st = hd_Run h in
         case mget (ru_Frames st) (fc_FrameID fc) of
           None \<Rightarrow> (h, Inl (InvalidRequest ''progress''))
         | Some f \<Rightarrow>
             if \<not> activeFrame f \<or> fr_WriterEpoch f \<noteq> ru_WriterEpoch st \<or> fc_StepIndex fc \<noteq> fr_NextStepIndex f \<or> fc_StepIndex fc < 0 \<or>
                fr_StepCount f \<le> fc_StepIndex fc
             then (h, Inl (InvalidRequest ''progress''))
             else
               (let (committed, indeterminate) = frameDispatchResult (ru_RunID st) now (fc_FrameID fc) (fc_StepIndex fc) (fc_Result fc) (fc_Transport fc) (ru_Dispatches st) in
                case committedStep L now fc committed f st of
                  None \<Rightarrow> (h, Inl CheckpointRefused)
                | Some st' \<Rightarrow>
                    (case persistCompletedCheckpoint outcome (h\<lparr>hd_Run := st'\<rparr>) of
                       (h', Inl err) \<Rightarrow>
                         (if err = CheckpointRefused
                          then h'\<lparr>hd_Run := (hd_Run h')\<lparr>ru_Frames := ru_Frames st, ru_Dispatches := ru_Dispatches st, ru_Interactions := ru_Interactions st\<rparr>\<rparr>
                          else h', Inl err)
                     | (h', Inr _) \<Rightarrow>
                         (case mget (ru_Frames st') (fc_FrameID fc) of
                            None \<Rightarrow> (h', Inl TraceCommit)
                          | Some g \<Rightarrow>
                              (case emitCheckpoint outcome g h' of
                                 (h'', Inr _) \<Rightarrow> (h'', if indeterminate then Inl Indeterminate else Inr g)
                               | (h'', Inl err) \<Rightarrow> (h'', Inl err)))))))"

subsection \<open>Dynamic includes\<close>

definition LookupDynamicIncludeResolution ::
  "boundary option \<Rightarrow> string \<Rightarrow> run_handle \<Rightarrow> run_error + dyn_resolution option" where
  "LookupDynamicIncludeResolution given renderedRef h =
     (if renderedRef = '''' then Inl (InvalidRequest ''reference'')
      else if hd_TraceErr h then Inl TraceCommit
      else case executionBoundary given h of
        None \<Rightarrow> Inl (InvalidRequest ''owner'')
      | Some b \<Rightarrow>
          (case find (\<lambda>(k, r). dr_Status r = ''active'' \<and> dr_QualifiedNodeID r = bo_QualifiedNodeID b \<and> dr_FrameID r = bo_FrameID b \<and>
              dr_FrameStepIndex r = bo_FrameStepIndex b) (ru_Resolutions (hd_Run h)) of
             None \<Rightarrow> Inr None
           | Some (k, r) \<Rightarrow> if dp_RenderedRef (dr_Pin r) \<noteq> renderedRef then Inl (InvalidRequest ''changed'') else Inr (Some r)))"

text \<open>
  The checks of the content of a pin are the argument \<open>accepted\<close>, \<open>scoped\<close> says that the plan has tool scopes, and \<open>rest\<close> are the remaining
  fields of the pin with the structural path of the context.
\<close>

definition resolutionAt :: "boundary \<Rightarrow> dyn_resolution \<Rightarrow> bool" where
  "resolutionAt b r =
     (dr_Status r = ''active'' \<and> dr_QualifiedNodeID r = bo_QualifiedNodeID b \<and> dr_FrameID r = bo_FrameID b \<and> dr_FrameStepIndex r = bo_FrameStepIndex b)"

definition preparedResolver :: "boundary \<Rightarrow> dispatch_state \<Rightarrow> bool" where
  "preparedResolver b d =
     (ds_Status d = ''prepared'' \<and> ds_EndpointIdentity d = ''dynamic-include-resolver'' \<and> ds_QualifiedNodeID d = bo_QualifiedNodeID b \<and>
      ds_StepID d = bo_StepID b \<and> ds_FrameID d = bo_FrameID b \<and> ds_FrameStepIndex d = bo_FrameStepIndex b \<and> ds_Phase d = ''execute'' \<and>
      sameDebugCallPath (ds_CallPath d) (bo_CallPath b))"

text \<open>The invocation of the resolver dispatch that was found, 0 for none; \<open>None\<close> when there is another one.\<close>

definition preparedInvocation :: "boundary \<Rightarrow> dispatch_state \<Rightarrow> int option \<Rightarrow> int option" where
  "preparedInvocation b d found =
     (case found of
        None \<Rightarrow> None
      | Some prepared \<Rightarrow> if \<not> preparedResolver b d then Some prepared else if prepared \<noteq> 0 then None else Some (ds_Invocation d))"

definition newResolution :: "run_lib \<Rightarrow> string \<Rightarrow> bool \<Rightarrow> boundary \<Rightarrow> string \<Rightarrow> dyn_pin \<Rightarrow> int \<Rightarrow> run_state \<Rightarrow> dyn_resolution" where
  "newResolution L now scoped b rest pin invocation st =
     (let revision = fold (\<lambda>(k, r) n. if n \<le> dr_Revision r then i64 (dr_Revision r + 1) else n) (ru_Resolutions st) 1 in
      \<lparr>dr_SchemaVersion = (if scoped then ''yawr.dynamic-include-resolution/v2'' else ''yawr.dynamic-include-resolution/v1''),
       dr_ResolutionID = docDigest L (RunResolutionID (ru_RunID st) (bo_QualifiedNodeID b) (bo_FrameID b) (bo_FrameStepIndex b) invocation),
       dr_WriterEpoch = ru_WriterEpoch st, dr_QualifiedNodeID = bo_QualifiedNodeID b, dr_CallPath = bo_CallPath b, dr_StepID = bo_StepID b,
       dr_FrameID = bo_FrameID b, dr_FrameStepIndex = bo_FrameStepIndex b, dr_Invocation = invocation, dr_Revision = revision,
       dr_Pin = pin\<lparr>dp_QualifiedNodeID := bo_QualifiedNodeID b, dp_Invocation := invocation, dp_Revision := revision, dp_Rest := rest\<rparr>,
       dr_Status = ''active'', dr_CommittedAt = now, dr_CompletedAt = ''''\<rparr>)"

definition nextResolutionInvocation :: "boundary \<Rightarrow> dyn_resolution gomap \<Rightarrow> int" where
  "nextResolutionInvocation b rs =
     fold (\<lambda>(k, r) n. if dr_QualifiedNodeID r = bo_QualifiedNodeID b \<and> dr_FrameID r = bo_FrameID b \<and> n \<le> dr_Invocation r
       then i64 (dr_Invocation r + 1) else n) rs 1"

definition CommitDynamicIncludeResolution ::
  "run_lib \<Rightarrow> string \<Rightarrow> checkpoint_outcome \<Rightarrow> bool \<Rightarrow> bool \<Rightarrow> boundary option \<Rightarrow> string \<Rightarrow> dyn_pin \<Rightarrow> run_handle \<Rightarrow>
    run_handle \<times> (run_error + dyn_resolution)" where
  "CommitDynamicIncludeResolution L now outcome accepted scoped given rest pin0 h =
     (if dp_RenderedRef pin0 = '''' \<or> dp_QualifiedID pin0 = '''' \<or> dp_AbsPath pin0 = '''' \<or> \<not> isSHA256Digest (dp_FileDigest pin0) \<or>
         \<not> isSHA256Digest (dp_PackageDigest pin0)
      then (h, Inl (InvalidRequest ''pin''))
      else if hd_TraceErr h then (h, Inl TraceCommit)
      else if \<not> accepted then (h, Inl (InvalidRequest ''content''))
      else case executionBoundary given h of
        None \<Rightarrow> (h, Inl (InvalidRequest ''owner''))
      | Some b \<Rightarrow>
          (let st = hd_Run h; pin = pin0\<lparr>dp_StepID := bo_StepID b\<rparr> in
           case find (\<lambda>(k, r). resolutionAt b r) (ru_Resolutions st) of
             Some (k, r) \<Rightarrow>
               if dr_Pin r \<noteq> pin\<lparr>dp_QualifiedNodeID := dr_QualifiedNodeID r, dp_Invocation := dr_Invocation r, dp_Revision := dr_Revision r\<rparr>
               then (h, Inl (InvalidRequest ''conflict'')) else (h, Inr r)
           | None \<Rightarrow>
               (case fold (\<lambda>(k, d) found. preparedInvocation b d found) (ru_Dispatches st) (Some 0) of
                  None \<Rightarrow> (h, Inl (InvalidRequest ''ambiguous''))
                | Some prepared \<Rightarrow>
               (let invocation = (if 0 < prepared then prepared else nextResolutionInvocation b (ru_Resolutions st));
                    r = newResolution L now scoped b rest pin invocation st in
                if \<not> resolutionVersionOk r then (h, Inl (InvalidRequest ''version''))
                else case stagePreparedDispatchForBoundary L now b (dr_Pin r) (ru_Dispatches st) of
                  None \<Rightarrow> (h, Inl CheckpointRefused)
                | Some ds \<Rightarrow>
                    commitRun outcome (\<lambda>s. s\<lparr>ru_Dispatches := ds, ru_Resolutions := mput (dr_ResolutionID r) r (ru_Resolutions s)\<rparr>)
                      (\<lambda>s. s\<lparr>ru_Dispatches := ru_Dispatches st, ru_Resolutions := ru_Resolutions st\<rparr>) r h))))"

subsection \<open>Halting\<close>

text \<open>A run that cannot go on is saved as indeterminate, as are its prepared dispatches.\<close>

definition takeMarked :: "run_state \<Rightarrow> run_state \<Rightarrow> run_state" where
  "takeMarked st' st = st\<lparr>ru_StepResults := ru_StepResults st', ru_Dispatches := ru_Dispatches st', ru_Frames := ru_Frames st',
     ru_Resolutions := ru_Resolutions st'\<rparr>"

definition haltedRun :: "string \<Rightarrow> run_state \<Rightarrow> run_state" where
  "haltedRun now st =
     (let marked = (case markPreparedDispatchesIndeterminate (ru_WriterEpoch st) now st of
        Some (st', d # ds) \<Rightarrow> takeMarked st' st
      | _ \<Rightarrow> st) in
      marked\<lparr>ru_Status := ''indeterminate'', ru_CompletedAt := now\<rparr>)"

definition haltCheckpointCommit :: "string \<Rightarrow> checkpoint_outcome \<Rightarrow> run_handle \<Rightarrow> run_handle \<times> run_error option" where
  "haltCheckpointCommit now outcome h =
     (case persistCompletedCheckpoint outcome (h\<lparr>hd_Run := haltedRun now (hd_Run h), hd_Done := True\<rparr>) of
        (h', Inl err) \<Rightarrow> (h', Some err)
      | (h', Inr _) \<Rightarrow> (case emitCheckpoint outcome () h' of (h'', Inl err) \<Rightarrow> (h'', Some err) | (h'', Inr _) \<Rightarrow> (h'', None)))"

end
