(* ===== verification/Run_Dispatches.thy ===== *)
theory Run_Dispatches
  imports Run_Operations Run_Resume Durable_Steps
begin

section \<open>Dispatches are closed once\<close>

text \<open>
  Whatever a run does, the map of its dispatches changes in two ways only: a dispatch is prepared under a new identity, or a prepared one is closed. Every
  operation of \<open>Run_Operations\<close> and the recovery are shown to be such changes, so that what is proved of the changes holds of runs with failing
  checkpoints and restarts.
\<close>

subsection \<open>Changes of the map\<close>

definition identified :: "run_lib \<Rightarrow> string \<Rightarrow> dispatch_state \<Rightarrow> bool" where
  "identified L runID d =
     (ds_OccurrenceID d = dispatchID L runID (ds_FrameID d) (ds_FrameStepIndex d) (ds_QualifiedNodeID d) (ds_Invocation d) (ds_OccurrenceSequence d) \<and>
      1 \<le> ds_OccurrenceSequence d)"

inductive dispatch_change :: "run_lib \<Rightarrow> string \<Rightarrow> dispatch_state gomap \<Rightarrow> dispatch_state gomap \<Rightarrow> bool" for L runID where
  same: "dispatch_change L runID ds ds"
| prepare: "identified L runID d \<Longrightarrow> ds_Status d = ''prepared'' \<Longrightarrow>
    (\<And>k e. mget ds k = Some e \<Longrightarrow> ds_OccurrenceSequence e < ds_OccurrenceSequence d \<and> \<not> preparedFor (ds_FrameID d) (ds_QualifiedNodeID d) e) \<Longrightarrow>
    dispatch_change L runID ds (mput (ds_OccurrenceID d) d ds)"
| close: "mget ds k = Some d \<Longrightarrow> ds_Status d = ''prepared'' \<Longrightarrow> status = ''settled'' \<or> status = ''indeterminate'' \<Longrightarrow>
    dispatch_change L runID ds (mput k (closeDispatch now status digest d) ds)"
| chain: "dispatch_change L runID ds ds' \<Longrightarrow> dispatch_change L runID ds' ds'' \<Longrightarrow> dispatch_change L runID ds ds''"

text \<open>What holds of the dispatches of a run.\<close>

definition dispatchesOk :: "run_lib \<Rightarrow> string \<Rightarrow> dispatch_state gomap \<Rightarrow> bool" where
  "dispatchesOk L runID ds =
     (mwf ds \<and> (\<forall>k d. mget ds k = Some d \<longrightarrow> ds_OccurrenceID d = k \<and> identified L runID d) \<and>
      (\<forall>k d k' d'. mget ds k = Some d \<and> mget ds k' = Some d' \<and> ds_Status d = ''prepared'' \<and>
        preparedFor (ds_FrameID d) (ds_QualifiedNodeID d) d' \<longrightarrow> k' = k))"

definition closesTo :: "dispatch_state \<Rightarrow> dispatch_state \<Rightarrow> bool" where
  "closesTo d d' =
     (d' = d \<or> ds_Status d = ''prepared'' \<and> (\<exists>now status digest. (status = ''settled'' \<or> status = ''indeterminate'') \<and> d' = closeDispatch now status digest d))"

definition extendsDispatches :: "dispatch_state gomap \<Rightarrow> dispatch_state gomap \<Rightarrow> bool" where
  "extendsDispatches ds ds' = (\<forall>k d. mget ds k = Some d \<longrightarrow> (\<exists>d'. mget ds' k = Some d' \<and> closesTo d d'))"

text \<open>Equal identities are identities of the same sequence number, as for digests without collisions of an encoding that shows it.\<close>

definition identitiesDiffer :: "run_lib \<Rightarrow> bool" where
  "identitiesDiffer L =
     (\<forall>r f i n v s r' f' i' n' v' s'. dispatchID L r f i n v s = dispatchID L r' f' i' n' v' s' \<longrightarrow> s = s')"

lemma closeDispatch_sel [simp]:
  "ds_OccurrenceID (closeDispatch t s g d) = ds_OccurrenceID d" "ds_FrameID (closeDispatch t s g d) = ds_FrameID d"
  "ds_FrameStepIndex (closeDispatch t s g d) = ds_FrameStepIndex d" "ds_QualifiedNodeID (closeDispatch t s g d) = ds_QualifiedNodeID d"
  "ds_Invocation (closeDispatch t s g d) = ds_Invocation d" "ds_OccurrenceSequence (closeDispatch t s g d) = ds_OccurrenceSequence d"
  "ds_Status (closeDispatch t s g d) = s" "ds_RequestDigest (closeDispatch t s g d) = ds_RequestDigest d"
  "ds_IdempotencyKey (closeDispatch t s g d) = ds_IdempotencyKey d"
  by (simp_all add: closeDispatch_def)

lemma identified_close [simp]: "identified L runID (closeDispatch t s g d) = identified L runID d"
  by (simp add: identified_def)

lemma closesTo_trans: "closesTo d d' \<Longrightarrow> closesTo d' d'' \<Longrightarrow> closesTo d d''"
  by (auto simp: closesTo_def)

lemma extends_dispatches_refl: "extendsDispatches ds ds"
  by (auto simp: extendsDispatches_def closesTo_def)

lemma extends_dispatches_trans: "extendsDispatches ds ds' \<Longrightarrow> extendsDispatches ds' ds'' \<Longrightarrow> extendsDispatches ds ds''"
  unfolding extendsDispatches_def by (meson closesTo_trans)

lemma dispatchesOk_entry: "dispatchesOk L runID ds \<Longrightarrow> mget ds k = Some d \<Longrightarrow> ds_OccurrenceID d = k \<and> identified L runID d"
  unfolding dispatchesOk_def by blast

lemma dispatchesOk_wf: "dispatchesOk L runID ds \<Longrightarrow> mwf ds"
  unfolding dispatchesOk_def by blast

lemma dispatchesOk_single:
  "dispatchesOk L runID ds \<Longrightarrow> mget ds k = Some d \<Longrightarrow> mget ds k' = Some d' \<Longrightarrow> ds_Status d = ''prepared'' \<Longrightarrow>
    preparedFor (ds_FrameID d) (ds_QualifiedNodeID d) d' \<Longrightarrow> k' = k"
  unfolding dispatchesOk_def by blast

lemma dispatchesOkI:
  assumes "mwf ds" and "\<And>k d. mget ds k = Some d \<Longrightarrow> ds_OccurrenceID d = k \<and> identified L runID d"
    and "\<And>k d k' d'. mget ds k = Some d \<Longrightarrow> mget ds k' = Some d' \<Longrightarrow> ds_Status d = ''prepared'' \<Longrightarrow>
      preparedFor (ds_FrameID d) (ds_QualifiedNodeID d) d' \<Longrightarrow> k' = k"
  shows "dispatchesOk L runID ds"
  unfolding dispatchesOk_def using assms by blast

lemma prepared_fresh:
  assumes "identitiesDiffer L" and "dispatchesOk L runID ds" and "identified L runID d"
    and "\<And>k e. mget ds k = Some e \<Longrightarrow> ds_OccurrenceSequence e < ds_OccurrenceSequence d"
  shows "mget ds (ds_OccurrenceID d) = None"
proof (rule ccontr)
  assume "mget ds (ds_OccurrenceID d) \<noteq> None"
  then obtain e where e: "mget ds (ds_OccurrenceID d) = Some e" by blast
  from dispatchesOk_entry [OF assms(2) e] have "ds_OccurrenceID e = ds_OccurrenceID d" "identified L runID e" by simp_all
  with assms(3) have "dispatchID L runID (ds_FrameID e) (ds_FrameStepIndex e) (ds_QualifiedNodeID e) (ds_Invocation e) (ds_OccurrenceSequence e) =
      dispatchID L runID (ds_FrameID d) (ds_FrameStepIndex d) (ds_QualifiedNodeID d) (ds_Invocation d) (ds_OccurrenceSequence d)"
    unfolding identified_def by metis
  with assms(1) have "ds_OccurrenceSequence e = ds_OccurrenceSequence d" unfolding identitiesDiffer_def by blast
  with assms(4) [OF e] show False by simp
qed

lemma change_ok:
  assumes "dispatch_change L runID ds ds'" and "identitiesDiffer L" and "dispatchesOk L runID ds"
  shows "dispatchesOk L runID ds' \<and> extendsDispatches ds ds'"
  using assms(1, 3)
proof (induction rule: dispatch_change.induct)
  case (same ds)
  then show ?case by (simp add: extends_dispatches_refl)
next
  case (prepare d ds)
  have fresh: "mget ds (ds_OccurrenceID d) = None" by (rule prepared_fresh [OF assms(2) prepare.prems prepare.hyps(1)]) (use prepare.hyps(3) in blast)
  have other: "\<not> preparedFor (ds_FrameID d) (ds_QualifiedNodeID d) e" if "mget ds k = Some e" for k e using prepare.hyps(3) [OF that] by blast
  have "dispatchesOk L runID (mput (ds_OccurrenceID d) d ds)"
  proof (rule dispatchesOkI)
    show "mwf (mput (ds_OccurrenceID d) d ds)" using dispatchesOk_wf [OF prepare.prems] by simp
    show "ds_OccurrenceID e = k \<and> identified L runID e" if "mget (mput (ds_OccurrenceID d) d ds) k = Some e" for k e
      using that prepare.hyps(1) dispatchesOk_entry [OF prepare.prems] by (auto split: if_splits)
    show "k' = k" if k: "mget (mput (ds_OccurrenceID d) d ds) k = Some e" and k': "mget (mput (ds_OccurrenceID d) d ds) k' = Some e'"
      and e: "ds_Status e = ''prepared''" and e': "preparedFor (ds_FrameID e) (ds_QualifiedNodeID e) e'" for k e k' e'
    proof (cases "k = ds_OccurrenceID d")
      case True
      with k have "e = d" by simp
      with e' other [of k' e'] k' True show ?thesis by (auto split: if_splits)
    next
      case False
      with k have e1: "mget ds k = Some e" by simp
      have "e' \<noteq> d" using other [OF e1] e e' by (auto simp: preparedFor_def)
      with k' have "mget ds k' = Some e'" by (auto split: if_splits)
      from dispatchesOk_single [OF prepare.prems e1 this e e'] show ?thesis .
    qed
  qed
  with fresh show ?case by (auto simp: extendsDispatches_def closesTo_def)
next
  case (close ds k d status now digest)
  have open': "status \<noteq> ''prepared''" using close.hyps(3) by auto
  let ?d = "closeDispatch now status digest d"
  have "dispatchesOk L runID (mput k ?d ds)"
  proof (rule dispatchesOkI)
    show "mwf (mput k ?d ds)" using dispatchesOk_wf [OF close.prems] by simp
    show "ds_OccurrenceID e = j \<and> identified L runID e" if "mget (mput k ?d ds) j = Some e" for j e
      using that dispatchesOk_entry [OF close.prems] close.hyps(1) by (auto split: if_splits)
    show "j' = j" if j: "mget (mput k ?d ds) j = Some e" and j': "mget (mput k ?d ds) j' = Some e'"
      and e: "ds_Status e = ''prepared''" and e': "preparedFor (ds_FrameID e) (ds_QualifiedNodeID e) e'" for j e j' e'
    proof -
      have "e \<noteq> ?d" "e' \<noteq> ?d" using open' e e' by (auto simp: preparedFor_def)
      with j j' have "mget ds j = Some e" "mget ds j' = Some e'" by (auto split: if_splits)
      from dispatchesOk_single [OF close.prems this e e'] show ?thesis .
    qed
  qed
  with close.hyps show ?case by (auto simp: extendsDispatches_def closesTo_def)
next
  case (chain ds ds' ds'')
  then show ?case using extends_dispatches_trans by blast
qed

subsection \<open>The next occurrence\<close>

definition sequencesBounded :: "dispatch_state gomap \<Rightarrow> bool" where
  "sequencesBounded ds = list_all (\<lambda>(k, d). 1 \<le> ds_OccurrenceSequence d \<and> ds_OccurrenceSequence d < 2 ^ 63 - 1) ds"

lemma nextOccurrence_fold:
  assumes "sequencesBounded ds"
  shows "n \<le> fold (\<lambda>(k, d) n. if n \<le> ds_OccurrenceSequence d then i64 (ds_OccurrenceSequence d + 1) else n) ds n \<and>
    (\<forall>(k, d)\<in>set ds. ds_OccurrenceSequence d < fold (\<lambda>(k, d) n. if n \<le> ds_OccurrenceSequence d then i64 (ds_OccurrenceSequence d + 1) else n) ds n)"
  using assms
proof (induction ds arbitrary: n)
  case (Cons p ds)
  obtain k d where p: "p = (k, d)" by (cases p)
  have "in_i64 (ds_OccurrenceSequence d + 1)" using Cons.prems by (simp add: sequencesBounded_def p in_i64_def)
  then have i: "i64 (ds_OccurrenceSequence d + 1) = ds_OccurrenceSequence d + 1" by simp
  let ?n = "if n \<le> ds_OccurrenceSequence d then i64 (ds_OccurrenceSequence d + 1) else n"
  have "n \<le> ?n" "ds_OccurrenceSequence d < ?n" using i by auto
  moreover have "sequencesBounded ds" using Cons.prems by (simp add: sequencesBounded_def)
  ultimately show ?case using Cons.IH [of ?n] by (auto simp: p)
qed simp

lemma nextOccurrence_above:
  assumes "sequencesBounded ds"
  shows "1 \<le> nextOccurrence ds" and "mget ds k = Some d \<Longrightarrow> ds_OccurrenceSequence d < nextOccurrence ds"
  using nextOccurrence_fold [OF assms, of 1] mget_in_set [of ds k d] unfolding nextOccurrence_def by auto

subsection \<open>The effect of an operation\<close>

text \<open>What the operation leaves in memory is a change of what was there, and so is what it saved.\<close>

definition dispatchEffect :: "run_lib \<Rightarrow> run_handle \<Rightarrow> run_handle \<Rightarrow> bool" where
  "dispatchEffect L h h' =
     (ru_RunID (hd_Run h') = ru_RunID (hd_Run h) \<and>
      dispatch_change L (ru_RunID (hd_Run h)) (ru_Dispatches (hd_Run h)) (ru_Dispatches (hd_Run h')) \<and>
      (hd_Saved h' = hd_Saved h \<or>
       ru_RunID (hd_Saved h') = ru_RunID (hd_Run h) \<and> ru_Dispatches (hd_Saved h') = ru_Dispatches (hd_Run h')))"

lemma effect_refl [simp]: "dispatchEffect L h h"
  by (simp add: dispatchEffect_def dispatch_change.same)

text \<open>A checkpoint of a changed run.\<close>

lemma persist_effect:
  assumes "hd_Saved h1 = hd_Saved h" and "ru_RunID (hd_Run h1) = ru_RunID (hd_Run h)"
    and "dispatch_change L (ru_RunID (hd_Run h)) (ru_Dispatches (hd_Run h)) (ru_Dispatches (hd_Run h1))"
  shows "dispatchEffect L h (fst (persistCompletedCheckpoint outcome h1))"
  using assms by (cases outcome) (simp_all add: dispatchEffect_def persistCompletedCheckpoint_def Let_def)

lemma emit_keeps [simp]: "hd_Run (fst (emitCheckpoint outcome a h)) = hd_Run h" "hd_Saved (fst (emitCheckpoint outcome a h)) = hd_Saved h"
  by (simp_all add: emitCheckpoint_def)

lemma effect_cong: "hd_Run h'' = hd_Run h' \<Longrightarrow> hd_Saved h'' = hd_Saved h' \<Longrightarrow> dispatchEffect L h h'' = dispatchEffect L h h'"
  by (simp add: dispatchEffect_def)

lemma commitRun_effect:
  fixes h :: run_handle
  defines "st \<equiv> hd_Run h"
  assumes "ru_RunID (change st) = ru_RunID st" and "dispatch_change L (ru_RunID st) (ru_Dispatches st) (ru_Dispatches (change st))"
    and "\<And>s. ru_RunID (undo s) = ru_RunID s" and "\<And>s. ru_Dispatches s = ru_Dispatches (change st) \<Longrightarrow> ru_Dispatches (undo s) = ru_Dispatches st"
    and "outcome = ProjectionFailed \<Longrightarrow> ru_Dispatches (change st) = ru_Dispatches st"
  shows "dispatchEffect L h (fst (commitRun outcome change undo answer h))"
proof (cases outcome)
  case Persisted
  then show ?thesis using assms(2, 3) by (simp add: commitRun_def persistCompletedCheckpoint_def Let_def emitCheckpoint_def dispatchEffect_def st_def)
next
  case SaveRefused
  then show ?thesis using assms(2, 4, 5)
    by (simp add: commitRun_def persistCompletedCheckpoint_def Let_def dispatchEffect_def st_def dispatch_change.same)
next
  case ProjectionFailed
  then show ?thesis using assms(2, 4, 5, 6)
    by (simp add: commitRun_def persistCompletedCheckpoint_def Let_def dispatchEffect_def st_def dispatch_change.same)
next
  case EventFailed
  then show ?thesis using assms(2, 3) by (simp add: commitRun_def persistCompletedCheckpoint_def Let_def emitCheckpoint_def dispatchEffect_def st_def)
qed

text \<open>Closing the first dispatch that fits.\<close>

lemma closeFirst_change:
  assumes "closeFirst P close ds = Some ds'" and "mwf ds"
    and "\<And>d d'. close d = Some d' \<Longrightarrow> \<exists>now status digest. (status = ''settled'' \<or> status = ''indeterminate'') \<and> d' = closeDispatch now status digest d"
  shows "dispatch_change L runID ds ds'"
proof (cases "find (\<lambda>(k, d). ds_Status d = ''prepared'' \<and> P d) ds")
  case None
  with assms(1) show ?thesis by (simp add: closeFirst_def dispatch_change.same)
next
  case (Some p)
  obtain k d where p: "p = (k, d)" by (cases p)
  with find_Some_set [OF Some] assms(2) have "mget ds k = Some d" "ds_Status d = ''prepared''" by (auto simp: mget_mem)
  moreover from assms(1) Some p obtain d' where d': "close d = Some d'" "ds' = mput k d' ds" by (auto simp: closeFirst_def)
  ultimately show ?thesis using assms(3) [OF d'(1)] dispatch_change.close by blast
qed

lemma settle_change:
  assumes "settlePreparedFrameDispatch L' now frameID i result ds = Some ds'" and "mwf ds"
  shows "dispatch_change L runID ds ds'"
  using assms unfolding settlePreparedFrameDispatch_def by (rule closeFirst_change) (auto split: if_splits)

lemma stage_change:
  assumes "mwf ds"
  shows "stagePreparedDispatchForBoundary L' now b pin ds = Some ds' \<Longrightarrow> dispatch_change L runID ds ds'"
    and "stagePreparedDispatchSettled L' now path stepID r e ds = Some ds' \<Longrightarrow> dispatch_change L runID ds ds'"
    and "stagePreparedDispatchIndeterminate now path stepID ds = Some ds' \<Longrightarrow> dispatch_change L runID ds ds'"
  using assms unfolding stagePreparedDispatchForBoundary_def stagePreparedDispatchSettled_def stagePreparedDispatchIndeterminate_def Let_def
  by (auto elim!: closeFirst_change)

text \<open>Recovery closes every prepared dispatch.\<close>

lemma markOne_keeps:
  assumes "markOne now st d = Some st'"
  shows "ru_RunID st' = ru_RunID st" and "ru_Dispatches st' = mput (ds_OccurrenceID d) (closeDispatch now ''indeterminate'' '''' d) (ru_Dispatches st)"
  using assms by (auto simp: markOne_def Let_def settleIndeterminate_def closeDispatch_def split: if_splits option.splits)

lemma markAll_change:
  assumes "markAll now ps st = Some st'" and "distinct (map ds_OccurrenceID ps)"
    and "\<And>d. d \<in> set ps \<Longrightarrow> mget (ru_Dispatches st) (ds_OccurrenceID d) = Some d \<and> ds_Status d = ''prepared''"
  shows "ru_RunID st' = ru_RunID st \<and> dispatch_change L runID (ru_Dispatches st) (ru_Dispatches st')"
  using assms
proof (induction ps arbitrary: st)
  case (Cons d ps)
  from Cons.prems(1) obtain st1 where one: "markOne now st d = Some st1" and rest: "markAll now ps st1 = Some st'" by (auto simp: bind_eq_Some_conv)
  have d: "mget (ru_Dispatches st) (ds_OccurrenceID d) = Some d" "ds_Status d = ''prepared''" using Cons.prems(3) by auto
  then have first: "dispatch_change L runID (ru_Dispatches st) (ru_Dispatches st1)"
    unfolding markOne_keeps(2) [OF one] by (rule dispatch_change.close) simp
  have "mget (ru_Dispatches st1) (ds_OccurrenceID e) = Some e \<and> ds_Status e = ''prepared''" if "e \<in> set ps" for e
    using Cons.prems(2, 3) that unfolding markOne_keeps(2) [OF one] by auto
  with Cons.IH [OF rest] Cons.prems(2) markOne_keeps(1) [OF one] first show ?case by (auto intro: dispatch_change.chain)
qed (simp add: dispatch_change.same)

lemma dispatchesOk_prepared:
  assumes "dispatchesOk L runID (ru_Dispatches st)"
  shows "distinct (map ds_OccurrenceID (preparedDispatches st))"
    and "d \<in> set (preparedDispatches st) \<Longrightarrow> mget (ru_Dispatches st) (ds_OccurrenceID d) = Some d \<and> ds_Status d = ''prepared''"
proof -
  let ?ps = "filter (\<lambda>(k, d). ds_Status d = ''prepared'') (ru_Dispatches st)"
  note wf = dispatchesOk_wf [OF assms]
  have key: "ds_OccurrenceID d = k" if "(k, d) \<in> set (ru_Dispatches st)" for k d
    using dispatchesOk_entry [OF assms] that mget_mem [OF wf] by blast
  have keys: "map ds_OccurrenceID (map snd ?ps) = map fst ?ps" using key by auto
  have "distinct (map fst ?ps)" using wf by (intro distinct_map_filter) (simp add: mwf_def)
  then have "distinct (map ds_OccurrenceID (map snd ?ps))" unfolding keys .
  then show "distinct (map ds_OccurrenceID (preparedDispatches st))" unfolding preparedDispatches_def distinct_sort_key .
  show "mget (ru_Dispatches st) (ds_OccurrenceID d) = Some d \<and> ds_Status d = ''prepared''" if "d \<in> set (preparedDispatches st)"
    using that key mget_mem [OF wf] by (auto simp: set_prepared)
qed

lemma mark_change:
  assumes "markPreparedDispatchesIndeterminate e now st = Some (st', ps)" and "dispatchesOk L runID (ru_Dispatches st)"
  shows "ru_RunID st' = ru_RunID st \<and> dispatch_change L runID (ru_Dispatches st) (ru_Dispatches st')"
proof (cases "preparedDispatches st = []")
  case True
  with assms(1) show ?thesis by (simp add: markPreparedDispatchesIndeterminate_def dispatch_change.same)
next
  case False
  with assms(1) have "markAll now (preparedDispatches st) (haltedState e now st) = Some st'"
    by (auto simp: markPreparedDispatchesIndeterminate_def Let_def)
  from markAll_change [OF this dispatchesOk_prepared(1) [OF assms(2)], of L runID] dispatchesOk_prepared(2) [OF assms(2)] show ?thesis
    by (simp add: haltedState_def)
qed

subsection \<open>The operations\<close>

lemma newDispatch_sel:
  "ds_FrameID (newDispatch L now b rq c g st) = bo_FrameID b" "ds_QualifiedNodeID (newDispatch L now b rq c g st) = bo_QualifiedNodeID b"
  "ds_Status (newDispatch L now b rq c g st) = ''prepared''" "ds_OccurrenceSequence (newDispatch L now b rq c g st) = nextOccurrence (ru_Dispatches st)"
  "1 \<le> nextOccurrence (ru_Dispatches st) \<Longrightarrow> identified L (ru_RunID st) (newDispatch L now b rq c g st)"
  by (simp_all add: newDispatch_def Let_def identified_def)

lemma newDispatch_change:
  fixes st :: run_state
  defines "ds \<equiv> ru_Dispatches st"
  assumes "sequencesBounded ds" and "mwf ds" and "find (\<lambda>(k, d). preparedFor (bo_FrameID b) (bo_QualifiedNodeID b) d) ds = None"
  shows "dispatch_change L (ru_RunID st) ds (mput (ds_OccurrenceID (newDispatch L now b rq c g st)) (newDispatch L now b rq c g st) ds)"
proof (rule dispatch_change.prepare)
  show "identified L (ru_RunID st) (newDispatch L now b rq c g st)" using nextOccurrence_above(1) [OF assms(2)] by (simp add: newDispatch_sel ds_def)
  fix k e assume e: "mget ds k = Some e"
  then have "\<not> preparedFor (bo_FrameID b) (bo_QualifiedNodeID b) e" using assms(4) mget_in_set [OF e] by (auto simp: find_None_iff)
  with nextOccurrence_above(2) [OF assms(2) e]
  show "ds_OccurrenceSequence e < ds_OccurrenceSequence (newDispatch L now b rq c g st) \<and>
    \<not> preparedFor (ds_FrameID (newDispatch L now b rq c g st)) (ds_QualifiedNodeID (newDispatch L now b rq c g st)) e"
    by (simp add: newDispatch_sel ds_def)
qed (simp add: newDispatch_sel)

lemma prepareDispatch_effect:
  assumes "outcome \<noteq> ProjectionFailed" and "sequencesBounded (ru_Dispatches (hd_Run h))" and "mwf (ru_Dispatches (hd_Run h))"
  shows "dispatchEffect L h (fst (PrepareDispatch L now outcome given rq h))"
proof -
  have "dispatchEffect L h (fst (commitRun outcome (ru_Dispatches_update (mput (ds_OccurrenceID d) d)) (ru_Dispatches_update (\<lambda>_. ru_Dispatches (hd_Run h))) d h))"
    if "find (\<lambda>(k, d). preparedFor (bo_FrameID b) (bo_QualifiedNodeID b) d) (ru_Dispatches (hd_Run h)) = None"
      and "d = newDispatch L now b rq c g (hd_Run h)" for b c g d
    by (rule commitRun_effect) (use newDispatch_change [OF assms(2, 3) that(1)] assms(1) that(2) in simp_all)
  then show ?thesis by (simp add: PrepareDispatch_def Let_def split: option.split)
qed

lemma interaction_effect: "dispatchEffect L h (fst (PrepareInteraction L' outcome given proposed h))"
  by (simp add: PrepareInteraction_def askAgain_def Let_def commitRun_effect dispatch_change.same split: option.split)

lemma accept_effect: "dispatchEffect L h (fst (acceptInteraction L' now outcome turnID commandID commandDigest answerDigest answer h))"
  by (simp add: acceptInteraction_def Let_def commitRun_effect dispatch_change.same split: option.split)

lemma beginFrame_effect: "dispatchEffect L h (fst (BeginExecutionFrame L' now outcome rq h))"
  by (simp add: BeginExecutionFrame_def Let_def commitRun_effect dispatch_change.same split: option.split)

lemma commitResolution_effect:
  assumes "outcome \<noteq> ProjectionFailed" and "mwf (ru_Dispatches (hd_Run h))"
  shows "dispatchEffect L h (fst (CommitDynamicIncludeResolution L' now outcome accepted scoped given rest pin h))"
proof -
  have "dispatchEffect L h (fst (commitRun outcome (\<lambda>s. s\<lparr>ru_Dispatches := ds, ru_Resolutions := mput k r (ru_Resolutions s)\<rparr>)
      (\<lambda>s. s\<lparr>ru_Dispatches := ru_Dispatches (hd_Run h), ru_Resolutions := ru_Resolutions (hd_Run h)\<rparr>) r h))"
    if "stagePreparedDispatchForBoundary L' now b p (ru_Dispatches (hd_Run h)) = Some ds" for b p ds k r
    by (rule commitRun_effect) (use stage_change(1) [OF assms(2) that] assms(1) in simp_all)
  then show ?thesis by (simp add: CommitDynamicIncludeResolution_def Let_def split: option.split)
qed

lemma committedStep_change:
  assumes "committedStep L' now fc r f st = Some st'" and "mwf (ru_Dispatches st)"
  shows "ru_RunID st' = ru_RunID st \<and> dispatch_change L runID (ru_Dispatches st) (ru_Dispatches st')"
  using assms by (auto simp: committedStep_def Let_def split: option.splits intro: settle_change)

lemma commitStep_effect:
  assumes "mwf (ru_Dispatches (hd_Run h))"
  shows "dispatchEffect L h (fst (CommitExecutionFrameStep L' now outcome fc h))"
proof -
  have "dispatchEffect L h (fst (persistCompletedCheckpoint outcome (h\<lparr>hd_Run := st\<rparr>)))"
    if "committedStep L' now fc r f (hd_Run h) = Some st" for r f st
    by (rule persist_effect) (use committedStep_change [OF that assms] in simp_all)
  then show ?thesis
    by (auto simp: CommitExecutionFrameStep_def Let_def persistCompletedCheckpoint_def emitCheckpoint_def dispatchEffect_def dispatch_change.same
        dest: committedStep_change split: option.split prod.split checkpoint_outcome.split)
qed

lemma haltedRun_change:
  assumes "dispatchesOk L runID (ru_Dispatches st)"
  shows "ru_RunID (haltedRun now st) = ru_RunID st \<and> dispatch_change L runID (ru_Dispatches st) (ru_Dispatches (haltedRun now st))"
  using mark_change [OF _ assms] by (auto simp: haltedRun_def takeMarked_def Let_def dispatch_change.same split: option.split prod.split list.split)

lemma halt_effect:
  assumes "dispatchesOk L (ru_RunID (hd_Run h)) (ru_Dispatches (hd_Run h))"
  shows "dispatchEffect L h (fst (haltCheckpointCommit now outcome h))"
proof -
  have "hd_Run (fst (haltCheckpointCommit now outcome h)) = hd_Run (fst (persistCompletedCheckpoint outcome (h\<lparr>hd_Run := haltedRun now (hd_Run h), hd_Done := True\<rparr>)))"
    "hd_Saved (fst (haltCheckpointCommit now outcome h)) = hd_Saved (fst (persistCompletedCheckpoint outcome (h\<lparr>hd_Run := haltedRun now (hd_Run h), hd_Done := True\<rparr>)))"
    by (auto simp: haltCheckpointCommit_def emitCheckpoint_def split: prod.split sum.split)
  from effect_cong [OF this] show ?thesis
    by simp (rule persist_effect, use haltedRun_change [OF assms] in simp_all)
qed

subsection \<open>Steps of a run\<close>

text \<open>
  One operation of a handle, with any outcome of its checkpoint, the recovery after a restart from the last checkpoint, or a change in
  memory of something else. A dispatch or a dynamic include whose checkpoint is saved and not projected is left out: see
  \<open>failed_projection_loses_dispatch\<close>. The sequence numbers of dispatches have not reached the end of their type.
\<close>

inductive run_step :: "run_lib \<Rightarrow> run_handle \<Rightarrow> run_handle \<Rightarrow> bool" for L where
  prepare_dispatch: "outcome \<noteq> ProjectionFailed \<Longrightarrow> sequencesBounded (ru_Dispatches (hd_Run h)) \<Longrightarrow>
    run_step L h (fst (PrepareDispatch L now outcome given rq h))"
| prepare_interaction: "run_step L h (fst (PrepareInteraction L outcome given proposed h))"
| accept_interaction: "run_step L h (fst (acceptInteraction L now outcome turnID commandID commandDigest answerDigest answer h))"
| begin_frame: "run_step L h (fst (BeginExecutionFrame L now outcome frq h))"
| commit_step: "run_step L h (fst (CommitExecutionFrameStep L now outcome fc h))"
| commit_resolution: "outcome \<noteq> ProjectionFailed \<Longrightarrow>
    run_step L h (fst (CommitDynamicIncludeResolution L now outcome accepted scoped given rest pin h))"
| stage_settled: "stagePreparedDispatchSettled L now path stepID result execErr (ru_Dispatches (hd_Run h)) = Some ds \<Longrightarrow>
    run_step L h (h\<lparr>hd_Run := (hd_Run h)\<lparr>ru_Dispatches := ds\<rparr>\<rparr>)"
| stage_indeterminate: "stagePreparedDispatchIndeterminate now path stepID (ru_Dispatches (hd_Run h)) = Some ds \<Longrightarrow>
    run_step L h (h\<lparr>hd_Run := (hd_Run h)\<lparr>ru_Dispatches := ds\<rparr>\<rparr>)"
| mark: "markPreparedDispatchesIndeterminate e now (hd_Run h) = Some (st, ps) \<Longrightarrow> run_step L h (h\<lparr>hd_Run := takeMarked st (hd_Run h)\<rparr>)"
| persist: "run_step L h (fst (persistCompletedCheckpoint outcome h))"
| halt: "run_step L h (fst (haltCheckpointCommit now outcome h))"
| restart: "recoveredState eventID now stamp plan writerEpoch (hd_Saved h) = Some (st, saved) \<Longrightarrow>
    run_step L h (h\<lparr>hd_Run := st, hd_Saved := if saved then st else hd_Saved h, hd_TraceErr := False\<rparr>)"
| refence: "refencedState eventID now stamp writerEpoch (hd_Run h) = (st, saved) \<Longrightarrow>
    run_step L h (h\<lparr>hd_Run := st, hd_Saved := if saved then st else hd_Saved h\<rparr>)"
| other: "ru_RunID st = ru_RunID (hd_Run h) \<Longrightarrow> ru_Dispatches st = ru_Dispatches (hd_Run h) \<Longrightarrow> 
    run_step L h (h\<lparr>hd_Run := st, hd_TraceErr := t, hd_Done := ended, hd_Paused := paused\<rparr>)"

text \<open>The run in memory is the last checkpoint or ahead of it.\<close>

definition handleOk :: "run_lib \<Rightarrow> run_handle \<Rightarrow> bool" where
  "handleOk L h =
     (ru_RunID (hd_Saved h) = ru_RunID (hd_Run h) \<and> dispatchesOk L (ru_RunID (hd_Run h)) (ru_Dispatches (hd_Saved h)) \<and>
      dispatchesOk L (ru_RunID (hd_Run h)) (ru_Dispatches (hd_Run h)) \<and>
      extendsDispatches (ru_Dispatches (hd_Saved h)) (ru_Dispatches (hd_Run h)))"

lemma effect_handleOk:
  assumes "dispatchEffect L h h'" and "identitiesDiffer L" and "handleOk L h"
  shows "handleOk L h' \<and> extendsDispatches (ru_Dispatches (hd_Saved h)) (ru_Dispatches (hd_Saved h'))"
proof -
  let ?id = "ru_RunID (hd_Run h)" and ?ds = "ru_Dispatches (hd_Run h)" and ?ds' = "ru_Dispatches (hd_Run h')"
  have "dispatch_change L ?id ?ds ?ds'" "dispatchesOk L ?id ?ds" using assms by (simp_all add: dispatchEffect_def handleOk_def)
  from change_ok [OF this(1) assms(2) this(2)] have ok: "dispatchesOk L ?id ?ds'" "extendsDispatches ?ds ?ds'" by auto
  then have "extendsDispatches (ru_Dispatches (hd_Saved h)) ?ds'" using assms(3) extends_dispatches_trans by (auto simp: handleOk_def)
  with ok assms show ?thesis by (auto simp: dispatchEffect_def handleOk_def extends_dispatches_refl)
qed

lemma recovered_change:
  assumes "recoveredState eventID now stamp plan e st = Some (st', saved)" and "dispatchesOk L runID (ru_Dispatches st)"
  shows "ru_RunID st' = ru_RunID st \<and> dispatch_change L runID (ru_Dispatches st) (ru_Dispatches st') \<and> (\<not> saved \<longrightarrow> ru_Dispatches st' = ru_Dispatches st)"
proof -
  obtain st1 ps where mark: "markPreparedDispatchesIndeterminate e now st = Some (st1, ps)"
    using assms(1) by (auto simp: recoveredState_def split: option.splits)
  have "ps = [] \<Longrightarrow> ru_Dispatches st1 = ru_Dispatches st"
    using mark by (auto simp: markPreparedDispatchesIndeterminate_def Let_def split: if_splits)
  with mark_change [OF mark assms(2)] assms(1) mark show ?thesis
    by (auto simp: recoveredState_def stageResumeCommitEvent_def Let_def split: if_splits)
qed

lemma restart_handleOk:
  assumes "recoveredState eventID now stamp plan e (hd_Saved h) = Some (st, saved)" and "identitiesDiffer L" and "handleOk L h"
    and "h' = h\<lparr>hd_Run := st, hd_Saved := if saved then st else hd_Saved h, hd_TraceErr := False\<rparr>"
  shows "handleOk L h' \<and> extendsDispatches (ru_Dispatches (hd_Saved h)) (ru_Dispatches (hd_Saved h'))"
proof -
  have ok: "dispatchesOk L (ru_RunID (hd_Run h)) (ru_Dispatches (hd_Saved h))" "ru_RunID (hd_Saved h) = ru_RunID (hd_Run h)"
    using assms(3) by (simp_all add: handleOk_def)
  have r: "ru_RunID st = ru_RunID (hd_Saved h)" "\<not> saved \<Longrightarrow> ru_Dispatches st = ru_Dispatches (hd_Saved h)"
    and change: "dispatch_change L (ru_RunID (hd_Run h)) (ru_Dispatches (hd_Saved h)) (ru_Dispatches st)"
    using recovered_change [OF assms(1) ok(1)] by simp_all
  from change_ok [OF change assms(2) ok(1)] r ok show ?thesis
    unfolding assms(4) handleOk_def by (cases saved) (simp_all add: extends_dispatches_refl)
qed

lemma step_handleOk:
  assumes "run_step L h h'" and "identitiesDiffer L" and "handleOk L h"
  shows "handleOk L h' \<and> extendsDispatches (ru_Dispatches (hd_Saved h)) (ru_Dispatches (hd_Saved h'))"
proof -
  have ok: "dispatchesOk L (ru_RunID (hd_Run h)) (ru_Dispatches (hd_Run h))" using assms(3) by (simp add: handleOk_def)
  note wf = dispatchesOk_wf [OF ok]
  from assms(1) have "dispatchEffect L h h' \<or>
    (\<exists>eventID now stamp plan e st saved. recoveredState eventID now stamp plan e (hd_Saved h) = Some (st, saved) \<and>
       h' = h\<lparr>hd_Run := st, hd_Saved := if saved then st else hd_Saved h, hd_TraceErr := False\<rparr>)"
  proof cases
    case (stage_settled now path stepID result execErr ds)
    then show ?thesis using stage_change(2) [OF wf] by (simp add: dispatchEffect_def)
  next
    case (stage_indeterminate now path stepID ds)
    then show ?thesis using stage_change(3) [OF wf] by (simp add: dispatchEffect_def)
  next
    case (persist outcome)
    then show ?thesis using persist_effect [of h h L outcome] by (simp add: dispatch_change.same)
  next
    case (refence eventID now stamp writerEpoch st saved)
    then show ?thesis
      by (auto simp: dispatchEffect_def refencedState_def stageResumeCommitEvent_def Let_def dispatch_change.same split: if_splits)
  next
    case (restart eventID now stamp plan writerEpoch st saved)
    then show ?thesis by blast
  next
    case (mark e now st ps)
    then show ?thesis using mark_change [OF mark(2) ok] by (simp add: dispatchEffect_def takeMarked_def)
  next
    case (other st t ended paused)
    then show ?thesis by (simp add: dispatchEffect_def dispatch_change.same)
  qed (use wf ok in \<open>auto intro: prepareDispatch_effect interaction_effect accept_effect beginFrame_effect commitStep_effect commitResolution_effect halt_effect\<close>)
  then show ?thesis using effect_handleOk [OF _ assms(2, 3)] restart_handleOk [OF _ assms(2, 3)] by blast
qed

interpretation rds: durable_steps "run_step L" "\<lambda>h. identitiesDiffer L \<and> handleOk L h"
  "\<lambda>h h'. extendsDispatches (ru_Dispatches (hd_Saved h)) (ru_Dispatches (hd_Saved h'))" for L
  by unfold_locales (auto simp: extends_dispatches_refl intro: extends_dispatches_trans dest: step_handleOk)

end
