(* ===== verification/Run_Endings.thy ===== *)
theory Run_Endings
  imports Run_Dispatches
begin

section \<open>How a run ends\<close>

text \<open>
  The ways in which a handle stops (\<^verbatim>\<open>runtime/internal/engine/engine.go\<close>): the run completes, fails, is cancelled, detached, paused at a target of a
  route test or for a handoff, or halts because the effect of a step is not known. Each saves a last checkpoint, and one that cannot be
  saved or projected is followed by \<^verbatim>\<open>haltCheckpointCommit\<close> with a checkpoint of its own. The outcomes of both and the readings of the clock are arguments.
  Validators, spans and the events of the checkpoint are left out; what the validators answer is an argument.
\<close>

subsection \<open>Endings\<close>

text \<open>\<open>haltsOnTrace\<close>: the ending looks at the error of the trace after the checkpoint.\<close>

definition endRun ::
  "string \<Rightarrow> checkpoint_outcome \<Rightarrow> checkpoint_outcome \<Rightarrow> bool \<Rightarrow> run_state \<Rightarrow> run_error option \<Rightarrow> run_handle \<Rightarrow> run_handle \<times> run_error option" where
  "endRun haltTime outcome haltOutcome haltsOnTrace st answer h =
     (case persistCompletedCheckpoint outcome (h\<lparr>hd_Run := st, hd_Done := True\<rparr>) of
        (h', Inl err) \<Rightarrow> (fst (haltCheckpointCommit haltTime haltOutcome h'), Some err)
      | (h', Inr _) \<Rightarrow>
          (case emitCheckpoint outcome () h' of
             (h'', Inl err) \<Rightarrow> if haltsOnTrace then (fst (haltCheckpointCommit haltTime haltOutcome h''), Some err) else (h'', answer)
           | (h'', Inr _) \<Rightarrow> (h'', answer)))"

definition failedResult :: "string \<Rightarrow> string \<Rightarrow> string \<Rightarrow> step_record" where
  "failedResult now stepID err =
     \<lparr>sx_StepID = stepID, sx_Status = ''failed'', sx_Outcome = ''failed'', sx_Output = [], sx_Vars = [], sx_StartedAt = now, sx_CompletedAt = now,
      sx_Error = Some err, sx_Indeterminate = None, sx_Rest = ''''\<rparr>"

definition failRun ::
  "string \<Rightarrow> string \<Rightarrow> checkpoint_outcome \<Rightarrow> checkpoint_outcome \<Rightarrow> string \<Rightarrow> string \<Rightarrow> run_handle \<Rightarrow> run_handle \<times> run_error option" where
  "failRun now haltTime outcome haltOutcome stepID err h =
     (let st = hd_Run h;
          results = (if stepID \<noteq> '''' \<and> mget (ru_StepResults st) stepID = None then mput stepID (failedResult now stepID err) (ru_StepResults st)
            else ru_StepResults st) in
      endRun haltTime outcome haltOutcome True (st\<lparr>ru_Status := ''failed'', ru_CompletedAt := now, ru_StepResults := results\<rparr>) (Some (RunFailed err)) h)"

text \<open>A completed run answers with the end of its steps, which is no error.\<close>

definition completeRun ::
  "string \<Rightarrow> string \<Rightarrow> checkpoint_outcome \<Rightarrow> checkpoint_outcome \<Rightarrow> string option \<Rightarrow> run_handle \<Rightarrow> run_handle \<times> run_error option" where
  "completeRun now haltTime outcome haltOutcome invalid h =
     (case invalid of
        Some err \<Rightarrow> failRun now haltTime outcome haltOutcome '''' err h
      | None \<Rightarrow> endRun haltTime outcome haltOutcome True ((hd_Run h)\<lparr>ru_Status := ''completed'', ru_CompletedAt := now\<rparr>) None h)"

definition haltIndeterminate ::
  "string \<Rightarrow> string \<Rightarrow> checkpoint_outcome \<Rightarrow> checkpoint_outcome \<Rightarrow> string \<Rightarrow> string \<Rightarrow> indeterminate_record \<Rightarrow> run_handle \<Rightarrow> run_handle \<times> run_error option" where
  "haltIndeterminate now haltTime outcome haltOutcome stepID err rec h =
     (let result = (failedResult now stepID err)\<lparr>sx_Status := ''indeterminate'', sx_Outcome := '''', sx_Indeterminate := Some rec\<rparr> in
      endRun haltTime outcome haltOutcome False
        ((hd_Run h)\<lparr>ru_Status := ''indeterminate'', ru_CompletedAt := now, ru_StepResults := mput stepID result (ru_StepResults (hd_Run h))\<rparr>)
        (Some Indeterminate) h)"

subsection \<open>Pauses\<close>

record debug_location =
  dl_StepID :: string
  dl_CallPath :: "call_frame list"
  dl_Invocation :: int
  dl_Attempt :: int

definition routeTargetCursor :: "debug_location \<Rightarrow> run_handle \<Rightarrow> string + cursor" where
  "routeTargetCursor loc h =
     (let i = ru_CurrentStepIndex (hd_Run h); steps = pl_Steps (hd_Plan h) in
      if dl_CallPath loc = [] then
        (if i < 0 \<or> int (length steps) \<le> i \<or> fst (steps ! nat i) \<noteq> dl_StepID loc then Inl ''root target does not match current step''
         else Inr ((newCursor i)\<lparr>cu_QualifiedNodeID := DebugNodeID [] (dl_StepID loc), cu_StepID := dl_StepID loc, cu_Invocation := dl_Invocation loc,
           cu_RetryAttempt := dl_Attempt loc\<rparr>))
      else
        (let st = hd_Run h;
             candidates = executionFrameCursors i (ru_Frames st) (ru_Dispatches st) (ru_Interactions st) (ru_ExecutionCounts st) in
         case filter (\<lambda>c. cu_StepID c = dl_StepID loc \<and> sameDebugCallPath (cu_CallPath c) (dl_CallPath loc)) candidates of
           [] \<Rightarrow> Inl ''target has no active structural frame''
         | [c] \<Rightarrow> Inr (c\<lparr>cu_Phase := ''before'', cu_Invocation := dl_Invocation loc, cu_RetryAttempt := dl_Attempt loc\<rparr>)
         | _ \<Rightarrow> Inl ''target selector is ambiguous across active structural frames''))"

definition pauseAtRouteTarget ::
  "string \<Rightarrow> string \<Rightarrow> checkpoint_outcome \<Rightarrow> checkpoint_outcome \<Rightarrow> debug_location \<Rightarrow> run_handle \<Rightarrow> run_handle \<times> run_error option" where
  "pauseAtRouteTarget now haltTime outcome haltOutcome loc h =
     (let st = (hd_Run h)\<lparr>ru_Status := ''paused_at_boundary'', ru_CompletedAt := ''''\<rparr>; h1 = h\<lparr>hd_Run := st, hd_Done := True\<rparr> in
      if hd_CallPath h \<noteq> [] then (h1, Some RouteTestTarget)
      else case routeTargetCursor loc h1 of
        Inl err \<Rightarrow> failRun now haltTime outcome haltOutcome (dl_StepID loc) err h1
      | Inr c \<Rightarrow> endRun haltTime outcome haltOutcome False st None (h1\<lparr>hd_Paused := Some c\<rparr>))"

definition pauseForHandoff ::
  "string \<Rightarrow> string \<Rightarrow> checkpoint_outcome \<Rightarrow> checkpoint_outcome \<Rightarrow> string option \<Rightarrow> string option \<Rightarrow> string \<Rightarrow> handoff_request \<Rightarrow> run_handle \<Rightarrow>
    run_handle \<times> run_error option" where
  "pauseForHandoff now haltTime outcome haltOutcome rejected invalid stepID request h =
     (case rejected of
        Some err \<Rightarrow> failRun now haltTime outcome haltOutcome stepID err h
      | None \<Rightarrow>
          if hd_CallPath h \<noteq> [] then (h, Some HandoffRequested)
          else case invalid of
            Some err \<Rightarrow> failRun now haltTime outcome haltOutcome stepID err h
          | None \<Rightarrow>
              (let request' = (if ho_OccurrenceSequence request = 0
                 then request\<lparr>ho_OccurrenceSequence := i64 (ru_CheckpointSequence (hd_Run h) + 1)\<rparr> else request) in
               endRun haltTime outcome haltOutcome False
                 ((hd_Run h)\<lparr>ru_Status := ''handoff_pending'', ru_PendingHandoff := Some request', ru_CompletedAt := ''''\<rparr>) (Some HandoffRequested) h))"

subsection \<open>Stopping a run from outside\<close>

text \<open>A run with a dispatch whose outcome is not known ends as indeterminate.\<close>

definition closeUnmatched ::
  "string \<Rightarrow> string \<Rightarrow> checkpoint_outcome \<Rightarrow> checkpoint_outcome \<Rightarrow> run_state \<Rightarrow> run_handle \<Rightarrow> run_handle \<times> run_error option" where
  "closeUnmatched now haltTime outcome haltOutcome marked h =
     endRun haltTime outcome haltOutcome False ((takeMarked marked (hd_Run h))\<lparr>ru_Status := ''indeterminate'', ru_CompletedAt := now\<rparr>) (Some Indeterminate) h"

definition stopRun ::
  "string \<Rightarrow> string \<Rightarrow> checkpoint_outcome \<Rightarrow> checkpoint_outcome \<Rightarrow> (run_handle \<Rightarrow> run_handle \<times> run_error option) \<Rightarrow> run_handle \<Rightarrow>
    run_handle \<times> run_error option" where
  "stopRun now haltTime outcome haltOutcome settled h =
     (case markPreparedDispatchesIndeterminate (ru_WriterEpoch (hd_Run h)) now (hd_Run h) of
        None \<Rightarrow> (fst (haltCheckpointCommit haltTime haltOutcome h), Some (InvalidRequest ''dispatch''))
      | Some (marked, prepared) \<Rightarrow> if prepared \<noteq> [] then closeUnmatched now haltTime outcome haltOutcome marked h else settled h)"

definition pausedAt :: "run_handle \<Rightarrow> cursor option" where
  "pausedAt h =
     (let st = hd_Run h; i = ru_CurrentStepIndex st; steps = pl_Steps (hd_Plan h) in
      if 0 \<le> i \<and> i < int (length steps) \<and> mget (ru_StepResults st) (fst (steps ! nat i)) = None \<and> \<not> hasActiveExecutionFrame (ru_Frames st) then
        (let sid = fst (steps ! nat i); nodeID = DebugNodeID (hd_CallPath h) sid; invocation = mget0 0 (ru_ExecutionCounts st) nodeID in
         Some ((newCursor i)\<lparr>cu_QualifiedNodeID := nodeID, cu_CallPath := hd_CallPath h, cu_StepID := sid,
           cu_Invocation := if invocation < 1 then 1 else invocation\<rparr>))
      else hd_Paused h)"

definition Detach ::
  "string \<Rightarrow> string \<Rightarrow> checkpoint_outcome \<Rightarrow> checkpoint_outcome \<Rightarrow> run_handle \<Rightarrow> run_handle \<times> run_error option" where
  "Detach now haltTime outcome haltOutcome h =
     (if hd_Done h then (h, if ru_Status (hd_Run h) = ''indeterminate'' then Some Indeterminate else None)
      else stopRun now haltTime outcome haltOutcome
        (\<lambda>h. endRun haltTime outcome haltOutcome False ((hd_Run h)\<lparr>ru_Status := ''paused_at_boundary'', ru_CompletedAt := ''''\<rparr>) None
          (h\<lparr>hd_Paused := pausedAt h\<rparr>)) h)"

definition cancelRunLocked ::
  "string \<Rightarrow> string \<Rightarrow> checkpoint_outcome \<Rightarrow> checkpoint_outcome \<Rightarrow> run_handle \<Rightarrow> run_handle \<times> run_error option" where
  "cancelRunLocked now haltTime outcome haltOutcome =
     stopRun now haltTime outcome haltOutcome
       (\<lambda>h. endRun haltTime outcome haltOutcome True ((hd_Run h)\<lparr>ru_Status := ''cancelled'', ru_CompletedAt := now\<rparr>) None h)"

definition Cancel ::
  "string \<Rightarrow> string \<Rightarrow> checkpoint_outcome \<Rightarrow> checkpoint_outcome \<Rightarrow> run_handle \<Rightarrow> run_handle \<times> run_error option" where
  "Cancel now haltTime outcome haltOutcome h = (if hd_Done h then (h, None) else cancelRunLocked now haltTime outcome haltOutcome h)"

subsection \<open>Endings are steps\<close>

text \<open>Every ending is a sequence of steps, so that what is proved of steps holds of them.\<close>

lemma ended_step:
  assumes "ru_RunID st = ru_RunID (hd_Run h)" and "ru_Dispatches st = ru_Dispatches (hd_Run h)"
  shows "(run_step L)\<^sup>*\<^sup>* h (h\<lparr>hd_Run := st, hd_Done := ended\<rparr>)"
  using run_step.other [OF assms, where L = L and t = "hd_TraceErr h" and ended = ended and paused = "hd_Paused h"] by (simp add: r_into_rtranclp)

lemma trace_step: "(run_step L)\<^sup>*\<^sup>* h (h\<lparr>hd_TraceErr := t\<rparr>)"
  using run_step.other [where L = L and h = h and st = "hd_Run h" and t = t and ended = "hd_Done h" and paused = "hd_Paused h"] by (simp add: r_into_rtranclp)

lemma endRun_steps:
  assumes "ru_RunID st = ru_RunID (hd_Run h)" and "ru_Dispatches st = ru_Dispatches (hd_Run h)"
  shows "(run_step L)\<^sup>*\<^sup>* h (fst (endRun haltTime outcome haltOutcome haltsOnTrace st answer h))"
proof -
  let ?h = "h\<lparr>hd_Run := st, hd_Done := True\<rparr>"
  let ?h' = "fst (persistCompletedCheckpoint outcome ?h)"
  have saved: "(run_step L)\<^sup>*\<^sup>* h ?h'" using ended_step [OF assms] run_step.persist by (rule rtranclp.rtrancl_into_rtrancl)
  have halted: "(run_step L)\<^sup>*\<^sup>* h (fst (haltCheckpointCommit haltTime haltOutcome h1))" if "(run_step L)\<^sup>*\<^sup>* h h1" for h1
    using that run_step.halt by (rule rtranclp.rtrancl_into_rtrancl)
  have emitted: "(run_step L)\<^sup>*\<^sup>* h (?h'\<lparr>hd_TraceErr := True\<rparr>)" using saved trace_step by (rule rtranclp_trans)
  show ?thesis
    using saved halted [OF saved] halted [OF emitted] emitted
    by (cases outcome) (simp_all add: endRun_def persistCompletedCheckpoint_def emitCheckpoint_def Let_def)
qed

lemmas ending_defs = failRun_def completeRun_def haltIndeterminate_def pauseAtRouteTarget_def pauseForHandoff_def

lemma ending_steps:
  "(run_step L)\<^sup>*\<^sup>* h (fst (failRun now haltTime outcome haltOutcome stepID err h))"
  "(run_step L)\<^sup>*\<^sup>* h (fst (completeRun now haltTime outcome haltOutcome invalid h))"
  "(run_step L)\<^sup>*\<^sup>* h (fst (haltIndeterminate now haltTime outcome haltOutcome stepID err rec h))"
  by (auto simp: ending_defs Let_def endRun_steps split: option.split)

lemma handoff_steps: "(run_step L)\<^sup>*\<^sup>* h (fst (pauseForHandoff now haltTime outcome haltOutcome rejected invalid stepID request h))"
  by (auto simp: pauseForHandoff_def Let_def endRun_steps ending_steps(1) split: option.split)

lemma paused_step:
  assumes "ru_RunID st = ru_RunID (hd_Run h)" and "ru_Dispatches st = ru_Dispatches (hd_Run h)"
  shows "(run_step L)\<^sup>*\<^sup>* h (h\<lparr>hd_Run := st, hd_Done := ended, hd_Paused := paused\<rparr>)"
  using run_step.other [OF assms, where L = L and t = "hd_TraceErr h" and ended = ended and paused = paused] by (simp add: r_into_rtranclp)

lemma route_target_steps: "(run_step L)\<^sup>*\<^sup>* h (fst (pauseAtRouteTarget now haltTime outcome haltOutcome loc h))"
proof -
  let ?st = "(hd_Run h)\<lparr>ru_Status := ''paused_at_boundary'', ru_CompletedAt := ''''\<rparr>"
  let ?h = "h\<lparr>hd_Run := ?st, hd_Done := True\<rparr>"
  have h: "(run_step L)\<^sup>*\<^sup>* h ?h" by (rule ended_step) simp_all
  have fail: "(run_step L)\<^sup>*\<^sup>* h (fst (failRun now haltTime outcome haltOutcome s err ?h))" for s err
    using h ending_steps(1) by (rule rtranclp_trans)
  have paused: "(run_step L)\<^sup>*\<^sup>* h (h\<lparr>hd_Run := ?st, hd_Done := True, hd_Paused := Some c\<rparr>)" for c by (rule paused_step) simp_all
  have "(run_step L)\<^sup>*\<^sup>* h (fst (endRun haltTime outcome haltOutcome False ?st None (h\<lparr>hd_Run := ?st, hd_Done := True, hd_Paused := Some c\<rparr>)))" for c
    using paused by (rule rtranclp_trans) (rule endRun_steps, simp_all)
  then show ?thesis using h fail by (simp add: pauseAtRouteTarget_def Let_def split: sum.split)
qed

lemma stopRun_steps:
  assumes "(run_step L)\<^sup>*\<^sup>* h (fst (settled h))"
  shows "(run_step L)\<^sup>*\<^sup>* h (fst (stopRun now haltTime outcome haltOutcome settled h))"
proof (cases "markPreparedDispatchesIndeterminate (ru_WriterEpoch (hd_Run h)) now (hd_Run h)")
  case None
  then show ?thesis by (simp add: stopRun_def run_step.halt r_into_rtranclp)
next
  case (Some p)
  obtain marked ps where p: "p = (marked, ps)" by (cases p)
  let ?st = "(takeMarked marked (hd_Run h))\<lparr>ru_Status := ''indeterminate'', ru_CompletedAt := now\<rparr>"
  have mark: "(run_step L)\<^sup>*\<^sup>* h (h\<lparr>hd_Run := takeMarked marked (hd_Run h)\<rparr>)" using run_step.mark [OF Some [unfolded p]] by blast
  have ended: "(run_step L)\<^sup>*\<^sup>* (h\<lparr>hd_Run := takeMarked marked (hd_Run h)\<rparr>)
      (fst (endRun haltTime outcome haltOutcome False ?st (Some Indeterminate) (h\<lparr>hd_Run := takeMarked marked (hd_Run h)\<rparr>)))"
    by (rule endRun_steps) simp_all
  have eq: "endRun t a b x ?st r (h\<lparr>hd_Run := takeMarked marked (hd_Run h)\<rparr>) = endRun t a b x ?st r h" for t a b x r by (simp add: endRun_def)
  from rtranclp_trans [OF mark ended] have "(run_step L)\<^sup>*\<^sup>* h (fst (closeUnmatched now haltTime outcome haltOutcome marked h))"
    unfolding eq closeUnmatched_def .
  then show ?thesis using assms Some by (simp add: stopRun_def p)
qed

lemma stopping_steps:
  "(run_step L)\<^sup>*\<^sup>* h (fst (Detach now haltTime outcome haltOutcome h))"
  "(run_step L)\<^sup>*\<^sup>* h (fst (Cancel now haltTime outcome haltOutcome h))"
proof -
  let ?st = "(hd_Run h)\<lparr>ru_Status := ''paused_at_boundary'', ru_CompletedAt := ''''\<rparr>"
  have "(run_step L)\<^sup>*\<^sup>* h (h\<lparr>hd_Paused := pausedAt h\<rparr>)" using paused_step [of "hd_Run h" h L _ "hd_Done h"] by simp
  then have "(run_step L)\<^sup>*\<^sup>* h (fst (endRun haltTime outcome haltOutcome False ?st None (h\<lparr>hd_Paused := pausedAt h\<rparr>)))"
    by (rule rtranclp_trans) (rule endRun_steps, simp_all)
  then show "(run_step L)\<^sup>*\<^sup>* h (fst (Detach now haltTime outcome haltOutcome h))" by (simp add: Detach_def stopRun_steps)
  show "(run_step L)\<^sup>*\<^sup>* h (fst (Cancel now haltTime outcome haltOutcome h))"
    by (simp add: Cancel_def cancelRunLocked_def stopRun_steps endRun_steps)
qed

subsection \<open>No dispatch is left open\<close>

lemma markAll_closes:
  assumes "markAll now ps st = Some st'" and "mget (ru_Dispatches st') k = Some d" and "ds_Status d = ''prepared''"
  shows "mget (ru_Dispatches st) k = Some d \<and> k \<notin> ds_OccurrenceID ` set ps"
  using assms
proof (induction ps arbitrary: st)
  case (Cons e ps)
  from Cons.prems(1) obtain st1 where one: "markOne now st e = Some st1" and rest: "markAll now ps st1 = Some st'" by (auto simp: bind_eq_Some_conv)
  from Cons.IH [OF rest Cons.prems(2, 3)] Cons.prems(3) show ?case unfolding markOne_keeps(2) [OF one] by (auto split: if_splits)
qed simp

lemma mark_closes:
  assumes "markPreparedDispatchesIndeterminate e now st = Some (st', ps)" and "identitiesDiffer L" and "dispatchesOk L runID (ru_Dispatches st)"
  shows "preparedDispatches st' = [] \<and> ps = preparedDispatches st"
proof (cases "preparedDispatches st = []")
  case True
  with assms(1) show ?thesis by (simp add: markPreparedDispatchesIndeterminate_def)
next
  case False
  with assms(1) have all: "markAll now (preparedDispatches st) (haltedState e now st) = Some st'" and ps: "ps = preparedDispatches st"
    by (auto simp: markPreparedDispatchesIndeterminate_def Let_def)
  have ok: "dispatchesOk L runID (ru_Dispatches st')" using change_ok [OF _ assms(2, 3)] mark_change [OF assms(1, 3)] by blast
  have "False" if d: "d \<in> set (preparedDispatches st')" for d
  proof -
    from dispatchesOk_prepared(2) [OF ok d] have e: "mget (ru_Dispatches st') (ds_OccurrenceID d) = Some d" "ds_Status d = ''prepared''" by auto
    from markAll_closes [OF all e] have "mget (ru_Dispatches st) (ds_OccurrenceID d) = Some d" "d \<notin> set (preparedDispatches st)"
      by (auto simp: haltedState_def)
    with e(2) mget_in_set [of _ "ds_OccurrenceID d" d] show False unfolding set_prepared by blast
  qed
  then show ?thesis using ps by (cases "preparedDispatches st'") auto
qed

lemma preparedDispatches_cong: "ru_Dispatches st = ru_Dispatches st' \<Longrightarrow> preparedDispatches st = preparedDispatches st'"
  by (simp add: preparedDispatches_def)

lemma haltedRun_quiet:
  assumes "preparedDispatches st = []"
  shows "haltedRun now st = st\<lparr>ru_Status := ''indeterminate'', ru_CompletedAt := now\<rparr>"
  using assms by (simp add: haltedRun_def markPreparedDispatchesIndeterminate_def)

text \<open>What a handle with nothing prepared is left with: it has ended, and what was saved since has nothing prepared and a status of the list.\<close>

definition quietEnd :: "string list \<Rightarrow> run_handle \<Rightarrow> run_handle \<Rightarrow> bool" where
  "quietEnd statuses h h' =
     (hd_Done h' \<and> preparedDispatches (hd_Run h') = [] \<and>
      (hd_Saved h' = hd_Saved h \<or> preparedDispatches (hd_Saved h') = [] \<and> ru_Status (hd_Saved h') \<in> set statuses))"

lemma persist_quiet:
  assumes "preparedDispatches (hd_Run h) = []" and "hd_Done h" and "ru_Status (hd_Run h) \<in> set statuses"
  shows "quietEnd statuses h (fst (persistCompletedCheckpoint outcome h))"
  using assms by (cases outcome) (auto simp: quietEnd_def persistCompletedCheckpoint_def Let_def preparedDispatches_def)

lemma halt_quiet:
  assumes "preparedDispatches (hd_Run h) = []"
  shows "quietEnd [''indeterminate''] h (fst (haltCheckpointCommit now outcome h))"
  using assms haltedRun_quiet [OF assms, of now]
  by (cases outcome) (simp_all add: haltCheckpointCommit_def quietEnd_def persistCompletedCheckpoint_def emitCheckpoint_def Let_def preparedDispatches_def)

lemma endRun_quiet:
  assumes "preparedDispatches st = []"
  shows "quietEnd [ru_Status st, ''indeterminate''] h (fst (endRun haltTime outcome haltOutcome haltsOnTrace st answer h))"
proof -
  let ?h = "h\<lparr>hd_Run := st, hd_Done := True\<rparr>"
  let ?h' = "fst (persistCompletedCheckpoint outcome ?h)"
  have q: "quietEnd [ru_Status st, ''indeterminate''] ?h ?h'" by (rule persist_quiet) (simp_all add: assms)
  then have p: "preparedDispatches (hd_Run ?h') = []" by (simp add: quietEnd_def)
  have q': "quietEnd [ru_Status st, ''indeterminate''] h ?h'" using q by (auto simp: quietEnd_def)
  have h1: "quietEnd [ru_Status st, ''indeterminate''] h (fst (haltCheckpointCommit haltTime haltOutcome h1))"
    if "hd_Run h1 = hd_Run ?h'" "hd_Saved h1 = hd_Saved ?h'" for h1
    using halt_quiet [of h1 haltTime haltOutcome] p q' that by (auto simp: quietEnd_def)
  have e: "quietEnd [ru_Status st, ''indeterminate''] h (?h'\<lparr>hd_TraceErr := True\<rparr>)" using q' by (simp add: quietEnd_def)
  show ?thesis using q' e h1 [of ?h'] h1 [of "?h'\<lparr>hd_TraceErr := True\<rparr>"]
    by (cases outcome) (simp_all add: endRun_def persistCompletedCheckpoint_def emitCheckpoint_def Let_def)
qed

lemma endRun_answers:
  assumes "endRun haltTime outcome haltOutcome haltsOnTrace st answer h = (h', None)"
  shows "answer = None" and "hd_Saved h' = st\<lparr>ru_CheckpointSequence := i64 (ru_CheckpointSequence st + 1)\<rparr>" and "hd_Run h' = hd_Saved h'"
  using assms by (cases outcome; auto simp: endRun_def persistCompletedCheckpoint_def emitCheckpoint_def Let_def split: if_splits)+

end
