(* ===== verification/Dispatch_Properties.thy ===== *)
theory Dispatch_Properties
  imports Run_Endings Sample_Run
begin

section \<open>What is promised of dispatches\<close>

text \<open>
  Steps of a run close its dispatches once, also through restarts and failing checkpoints, and the one case in which a saved dispatch is taken back.
\<close>

subsection \<open>A run with one dispatch\<close>

definition plainLib :: run_lib where
  "plainLib = sampleLib\<lparr>rl_marshal := \<lambda>doc. Some (case doc of
       RunDispatchID runID frameID i nodeID invocation n \<Rightarrow> (if n < 0 then ''-'' else '''') @ replicate (nat \<bar>n\<bar>) (CHR ''1'')
     | _ \<Rightarrow> ''{}''),
     rl_digest := \<lambda>s. s\<rparr>"

definition idleHandle :: run_handle where
  "idleHandle = \<lparr>hd_Run = idleRun, hd_Saved = idleRun, hd_TraceErr = False, hd_Plan = samplePlan, hd_CallPath = [],
     hd_Done = False, hd_Paused = None\<rparr>"

definition deployRequest :: dispatch_request where
  "deployRequest = \<lparr>rq_Classification = ''mutating'', rq_EndpointIdentity = ''shell'', rq_RenderedRequest = GNil, rq_ProviderSupportsReconciliation = False\<rparr>"

definition dispatchedHandle :: run_handle where
  "dispatchedHandle = fst (PrepareDispatch plainLib ''t2'' Persisted None deployRequest idleHandle)"

definition firstDispatch :: dispatch_state where
  "firstDispatch = newDispatch plainLib ''t2''
     \<lparr>bo_QualifiedNodeID = DebugNodeID [] ''call'', bo_CallPath = [], bo_StepID = ''call'', bo_StepIndex = 0, bo_FrameID = '''', bo_FrameStepIndex = 0,
       bo_Invocation = 1\<rparr> deployRequest ''mutating'' ''{}'' idleRun"

lemma plainLib_differs: "identitiesDiffer plainLib"
proof -
  have "m = n" if "(if m < 0 then ''-'' else '''') @ replicate (nat \<bar>m\<bar>) (CHR ''1'') = (if n < 0 then ''-'' else '''') @ replicate (nat \<bar>n\<bar>) (CHR ''1'')"
    for m n :: int
  proof -
    from that have "filter (\<lambda>c. c = CHR ''1'') ((if m < 0 then ''-'' else '''') @ replicate (nat \<bar>m\<bar>) (CHR ''1'')) =
      filter (\<lambda>c. c = CHR ''1'') ((if n < 0 then ''-'' else '''') @ replicate (nat \<bar>n\<bar>) (CHR ''1''))" by (rule arg_cong)
    then have "\<bar>m\<bar> = \<bar>n\<bar>" by (simp split: if_splits)
    with that show ?thesis by (auto split: if_splits)
  qed
  moreover have "dispatchID plainLib r f i v k n = (if n < 0 then ''-'' else '''') @ replicate (nat \<bar>n\<bar>) (CHR ''1'')" for r f i v k n
    by (simp add: dispatchID_def docDigest_def plainLib_def)
  ultimately show ?thesis unfolding identitiesDiffer_def by presburger
qed

lemma idleHandle_ok: "handleOk L idleHandle"
  by (simp add: handleOk_def idleHandle_def idleRun_def sampleRun_def dispatchesOk_def extends_dispatches_refl)

lemma i64_4: "i64 4 = 4"
  by (simp add: in_i64_def)

lemma dispatchedHandle_eq:
  "dispatchedHandle = idleHandle\<lparr>hd_Run := idleRun\<lparr>ru_CheckpointSequence := 4, ru_Dispatches := [(''1'', firstDispatch)]\<rparr>,
     hd_Saved := idleRun\<lparr>ru_CheckpointSequence := 4, ru_Dispatches := [(''1'', firstDispatch)]\<rparr>\<rparr>"
  by (simp add: dispatchedHandle_def PrepareDispatch_def deployRequest_def idleHandle_def idleRun_def sampleRun_def samplePlan_def executionBoundary_def
      frameAtChild_def plainLib_def sampleLib_def containsAny_def Let_def commitRun_def persistCompletedCheckpoint_def emitCheckpoint_def
      newDispatch_def nextOccurrence_def nextInvocation_def dispatchID_def docDigest_def firstDispatch_def mput_def i64_4)

lemma dispatched_prepare: "PrepareDispatch plainLib ''t2'' Persisted None deployRequest idleHandle = (dispatchedHandle, Inr firstDispatch)"
proof (rule prod_eqI)
  show "fst (PrepareDispatch plainLib ''t2'' Persisted None deployRequest idleHandle) = fst (dispatchedHandle, Inr firstDispatch)"
    by (simp add: dispatchedHandle_def)
  show "snd (PrepareDispatch plainLib ''t2'' Persisted None deployRequest idleHandle) = snd (dispatchedHandle, Inr firstDispatch)"
    by (simp add: PrepareDispatch_def deployRequest_def idleHandle_def idleRun_def sampleRun_def samplePlan_def executionBoundary_def
        frameAtChild_def plainLib_def sampleLib_def containsAny_def Let_def commitRun_def persistCompletedCheckpoint_def emitCheckpoint_def
        newDispatch_def nextOccurrence_def nextInvocation_def dispatchID_def docDigest_def firstDispatch_def mput_def)
qed

subsection \<open>Closed once\<close>


definition recoveredHandle :: run_handle where
  "recoveredHandle = (case recoveredState ''event'' ''t3'' ''t4'' samplePlan 2 (hd_Saved dispatchedHandle) of
     Some (st, saved) \<Rightarrow> dispatchedHandle\<lparr>hd_Run := st, hd_Saved := if saved then st else hd_Saved dispatchedHandle, hd_TraceErr := False\<rparr>
   | None \<Rightarrow> dispatchedHandle)"

lemma firstDispatch_sel: "ds_OccurrenceID firstDispatch = ''1''" "ds_Status firstDispatch = ''prepared''" "ds_FrameID firstDispatch = ''''"
  by (simp_all add: firstDispatch_def newDispatch_def Let_def idleRun_def sampleRun_def nextOccurrence_def nextInvocation_def dispatchID_def docDigest_def
      plainLib_def)

lemma dispatched_steps: "(run_step plainLib)\<^sup>*\<^sup>* idleHandle dispatchedHandle"
  unfolding dispatchedHandle_def
  by (rule r_into_rtranclp, rule run_step.prepare_dispatch) (simp_all add: idleHandle_def idleRun_def sampleRun_def sequencesBounded_def)

lemma dispatched_recovers:
  "\<exists>st. recoveredState ''event'' ''t3'' ''t4'' samplePlan 2 (hd_Saved dispatchedHandle) = Some (st, True) \<and>
     ru_Dispatches st = [(''1'', closeDispatch ''t3'' ''indeterminate'' '''' firstDispatch)]"
  by (simp add: dispatchedHandle_eq recoveredState_def markPreparedDispatchesIndeterminate_def preparedDispatches_def firstDispatch_sel Let_def
      markOne_def haltedState_def stageResumeCommitEvent_def settleIndeterminate_def closeDispatch_def mput_def)

lemma recovered_step: "run_step plainLib dispatchedHandle recoveredHandle"
proof -
  obtain st where "recoveredState ''event'' ''t3'' ''t4'' samplePlan 2 (hd_Saved dispatchedHandle) = Some (st, True)" using dispatched_recovers by blast
  from run_step.restart [OF this, of plainLib] this show ?thesis by (simp add: recoveredHandle_def)
qed

lemma recoveredHandle_saved: "ru_Dispatches (hd_Saved recoveredHandle) = [(''1'', closeDispatch ''t3'' ''indeterminate'' '''' firstDispatch)]"
  using dispatched_recovers by (auto simp: recoveredHandle_def)


text \<open>
  C40. When the checkpoint of a new dispatch is saved and only its event cannot be written, the operation takes the dispatch back in memory although it is
  durable, and the checkpoint of the halt that follows no longer has it.
\<close>
theorem failed_projection_loses_dispatch:
  assumes "PrepareDispatch L now Persisted given rq h = (h1, Inr d)" and "hd_Saved h1 \<noteq> hd_Saved h"
    and "mget (ru_Dispatches (hd_Run h)) (ds_OccurrenceID d) = None" and "preparedDispatches (hd_Run h) = []"
    and "PrepareDispatch L now ProjectionFailed given rq h = (h', r)"
  shows "r = Inl TraceCommit \<and> mget (ru_Dispatches (hd_Saved h')) (ds_OccurrenceID d) = Some d \<and>
    mget (ru_Dispatches (hd_Saved (fst (haltCheckpointCommit now' Persisted h')))) (ds_OccurrenceID d) = None"
proof -
  have "h' = h\<lparr>hd_Run := (hd_Run h)\<lparr>ru_CheckpointSequence := i64 (ru_CheckpointSequence (hd_Run h) + 1)\<rparr>,
      hd_Saved := (hd_Run h)\<lparr>ru_CheckpointSequence := i64 (ru_CheckpointSequence (hd_Run h) + 1),
        ru_Dispatches := mput (ds_OccurrenceID d) d (ru_Dispatches (hd_Run h))\<rparr>, hd_TraceErr := True\<rparr> \<and> r = Inl TraceCommit"
    using assms(1, 2, 5)
    by (auto simp: PrepareDispatch_def Let_def commitRun_def persistCompletedCheckpoint_def emitCheckpoint_def split: if_splits option.splits prod.splits)
  moreover have "preparedDispatches ((hd_Run h)\<lparr>ru_CheckpointSequence := n\<rparr>) = []" for n using assms(4) by (simp add: preparedDispatches_def)
  ultimately show ?thesis using assms(3)
    by (simp add: haltCheckpointCommit_def haltedRun_def markPreparedDispatchesIndeterminate_def persistCompletedCheckpoint_def emitCheckpoint_def Let_def)
qed

theorem failed_projection_loses_dispatch_witness:
  "let h' = fst (PrepareDispatch plainLib ''t2'' ProjectionFailed None deployRequest idleHandle) in
   mget (ru_Dispatches (hd_Saved h')) ''1'' = Some firstDispatch \<and>
   mget (ru_Dispatches (hd_Saved (fst (haltCheckpointCommit ''t3'' Persisted h')))) ''1'' = None"
proof -
  have "hd_Saved dispatchedHandle \<noteq> hd_Saved idleHandle" by (simp add: dispatchedHandle_eq idleHandle_def idleRun_def sampleRun_def)
  moreover have "mget (ru_Dispatches (hd_Run idleHandle)) (ds_OccurrenceID firstDispatch) = None" "preparedDispatches (hd_Run idleHandle) = []"
    by (simp_all add: idleHandle_def idleRun_def sampleRun_def preparedDispatches_def)
  ultimately show ?thesis
    using failed_projection_loses_dispatch [OF dispatched_prepare _ _ _ prod.collapse [symmetric], of "''t3''"] unfolding firstDispatch_sel Let_def by blast
qed

subsection \<open>Repeated requests\<close>

lemma find_mput_new:
  assumes "\<And>k e. (k, e) \<in> set ds \<Longrightarrow> \<not> P e" and "P d"
  shows "find (\<lambda>(k, e). P e) (mput j d ds) = Some (j, d)"
  using assms(1)
proof (induction ds)
  case Nil
  then show ?case using assms(2) by (simp add: mput_def)
next
  case (Cons p ds)
  obtain k e where p: "p = (k, e)" by (cases p)
  with Cons.prems have "\<not> P e" by auto
  moreover have "find (\<lambda>(k, e). P e) (mput j d ds) = Some (j, d)" using Cons.IH Cons.prems by auto
  ultimately show ?case using assms(2) by (auto simp: p mput_def)
qed



subsection \<open>Answers\<close>

text \<open>
  C39. An answer that was accepted and recorded with its command is final: the same answer under the same command is acknowledged again and changes nothing, and any other answer, or the same one
  under another command, is a conflict that changes nothing.
\<close>
theorem accepted_answer_is_final:
  assumes "AcceptInteractionCommand L now Persisted turnID commandID commandDigest answerDigest answer h = (h', Inr i)"
    and "ia_AnswerCommandID i \<noteq> ''''"
  shows "AcceptInteractionCommand L now' outcome turnID commandID commandDigest answerDigest answer h' = (h', Inr i) \<and>
    (\<forall>commandID' commandDigest' answerDigest' answer'.
       (commandID', commandDigest', answerDigest', answer') \<noteq> (commandID, commandDigest, answerDigest, answer) \<longrightarrow>
       AcceptInteractionCommand L now' outcome turnID commandID' commandDigest' answerDigest' answer' h' = (h', Inl InteractionConflict))"
proof -
  have call: "commandID \<noteq> ''''" "acceptInteraction L now Persisted turnID commandID commandDigest answerDigest answer h = (h', Inr i)"
    "\<not> (commandID = '''' \<or> 128 < length commandID \<or> containsAny commandID [CHR 0x0D, CHR 0x0A, CHR 0x00] \<or> commandDigest = '''')"
    using assms(1) by (auto simp: AcceptInteractionCommand_def split: if_splits)
  have entry: "\<not> hd_TraceErr h'" "mget (ru_Interactions (hd_Run h')) turnID = Some i" "ia_Status i = ''answered''" "ia_AnswerDigest i = answerDigest"
    "ia_Answer i = answer" "ia_AnswerCommandID i = commandID" "ia_AnswerCommandDigest i = commandDigest"
    "answerDigest \<noteq> ''''" "answer \<noteq> ''''" "rl_jsonValid L answer"
    using call(1, 2) assms(2)
    by (auto simp: acceptInteraction_def answerInteraction_def quiet_def Let_def commitRun_def persistCompletedCheckpoint_def emitCheckpoint_def
        split: if_splits option.splits)
  have "acceptInteraction L now' outcome turnID c g a x h' = (if a = answerDigest \<and> x = answer \<and> c = commandID \<and> g = commandDigest then (h', Inr i)
      else (h', Inl InteractionConflict))" if "c \<noteq> ''''" for c g a x
    using entry call(1) that by (auto simp: acceptInteraction_def)
  with call(1, 3) show ?thesis by (auto simp: AcceptInteractionCommand_def)
qed

definition askedHandle :: run_handle where
  "askedHandle = (let st = sampleRun [] [(''turn'', sampleApproval\<lparr>ia_Status := ''pending'', ia_AnswerDigest := '''', ia_Answer := '''', ia_AcceptedAt := '''',
     ia_AuditToken := ''''\<rparr>)] in idleHandle\<lparr>hd_Run := st, hd_Saved := st\<rparr>)"

theorem accepted_answer_is_final_witness:
  "let h = fst (AcceptInteractionCommand sampleLib ''t2'' Persisted ''turn'' ''cmd'' ''d'' ''a'' ''yes'' askedHandle) in
   AcceptInteractionCommand sampleLib ''t3'' Persisted ''turn'' ''cmd'' ''d'' ''b'' ''no'' h = (h, Inl InteractionConflict)"
proof -
  have "\<exists>i. snd (AcceptInteractionCommand sampleLib ''t2'' Persisted ''turn'' ''cmd'' ''d'' ''a'' ''yes'' askedHandle) = Inr i \<and> ia_AnswerCommandID i \<noteq> ''''"
    by (simp add: AcceptInteractionCommand_def containsAny_def acceptInteraction_def askedHandle_def idleHandle_def Let_def sampleRun_def sampleLib_def
        sampleApproval_def quiet_def commitRun_def persistCompletedCheckpoint_def emitCheckpoint_def answerInteraction_def)
  then obtain i where i: "AcceptInteractionCommand sampleLib ''t2'' Persisted ''turn'' ''cmd'' ''d'' ''a'' ''yes'' askedHandle =
      (fst (AcceptInteractionCommand sampleLib ''t2'' Persisted ''turn'' ''cmd'' ''d'' ''a'' ''yes'' askedHandle), Inr i)" "ia_AnswerCommandID i \<noteq> ''''"
    by (metis prod.collapse)
  from accepted_answer_is_final [OF i] show ?thesis by (simp add: Let_def)
qed

subsection \<open>Steps of a frame\<close>

lemma skipTail_fold:
  fixes n :: int
  assumes "0 \<le> n"
  shows "let g = fold (\<lambda>i g. passStep (skippedTail now (fr_StepIDs g ! nat i)) i g) [n..m] f in
    fr_NextStepIndex f \<le> fr_NextStepIndex g \<and> (\<forall>i. 0 \<le> i \<and> i < n \<longrightarrow> mget (fr_Results g) (itoa i) = mget (fr_Results f) (itoa i))"
  using assms
proof (induction "nat (m - n + 1)" arbitrary: n f)
  case 0
  then have "[n..m] = []" by simp
  then show ?case by simp
next
  case (Suc l)
  then have "[n..m] = n # [n + 1..m]" by (simp add: upto.simps)
  moreover have "l = nat (m - (n + 1) + 1)" "0 \<le> n + 1" using Suc.hyps(2) Suc.prems by auto
  moreover have "itoa n \<noteq> itoa i" if "0 \<le> i" "i < n" for i using that Suc.prems by (simp add: itoa_inject)
  ultimately show ?case
    using Suc.hyps(1) [of "n + 1" "passStep (skippedTail now (fr_StepIDs f ! nat n)) n f"]
    by (auto simp: Let_def passStep_def)
qed

lemma skipTail_keeps:
  assumes "0 \<le> i" and "i < fr_NextStepIndex f"
  shows "fr_NextStepIndex f \<le> fr_NextStepIndex (skipTail now f)" and "mget (fr_Results (skipTail now f)) (itoa i) = mget (fr_Results f) (itoa i)"
  using skipTail_fold [of "fr_NextStepIndex f" now "fr_StepCount f - 1" f] assms by (simp_all add: skipTail_def Let_def)

lemma finishFrame_sel [simp]:
  "fr_NextStepIndex (finishFrame now p n s f) = fr_NextStepIndex f" "fr_Results (finishFrame now p n s f) = fr_Results f"
  by (simp_all add: finishFrame_def)

lemma committedStep_frame:
  assumes "committedStep L now fc r f st = Some st'" and "fc_StepIndex fc = fr_NextStepIndex f" and "0 \<le> fc_StepIndex fc"
  shows "\<exists>g. mget (ru_Frames st') (fc_FrameID fc) = Some g \<and> fc_StepIndex fc < fr_NextStepIndex g \<and> mget (fr_Results g) (itoa (fc_StepIndex fc)) = Some r"
proof -
  let ?g = "finishFrame now (fc_FrameID fc) (DebugNodeID (fr_CallPath f) (sx_StepID r)) (sx_Status r) (commitFrame now fc r f)"
  have g: "fr_NextStepIndex ?g = fc_StepIndex fc + 1" "mget (fr_Results ?g) (itoa (fc_StepIndex fc)) = Some r"
    using assms(2) by (simp_all add: commitFrame_def passStep_def)
  from assms(1) have "mget (ru_Frames st') (fc_FrameID fc) = Some (returnFrame now r ?g)"
    by (auto simp: committedStep_def Let_def finishExecutionFrames_def mget_map_entries simp del: map_map split: option.splits)
  moreover have "fc_StepIndex fc < fr_NextStepIndex (returnFrame now r ?g) \<and> mget (fr_Results (returnFrame now r ?g)) (itoa (fc_StepIndex fc)) = Some r"
    using skipTail_keeps [of "fc_StepIndex fc" ?g now] g assms(3) by (auto simp: returnFrame_def)
  ultimately show ?thesis by blast
qed

text \<open>
  C37. A step of a frame is committed once: a commit that succeeds was for the next step of the frame, leaves its result under the number of the step in memory
  and in the checkpoint with the frame past it, and the same commit made again is refused and changes nothing.
\<close>
theorem frame_step_commits_once:
  assumes "CommitExecutionFrameStep L now Persisted fc h = (h', Inr g)"
  shows "(\<exists>f. mget (ru_Frames (hd_Run h)) (fc_FrameID fc) = Some f \<and> fr_NextStepIndex f = fc_StepIndex fc) \<and>
    mget (ru_Frames (hd_Saved h')) (fc_FrameID fc) = Some g \<and> hd_Run h' = hd_Saved h' \<and> fc_StepIndex fc < fr_NextStepIndex g \<and>
    mget (fr_Results g) (itoa (fc_StepIndex fc)) = Some (fc_Result fc) \<and>
    CommitExecutionFrameStep L now' outcome fc h' = (h', Inl (InvalidRequest ''progress''))"
proof -
  from assms obtain f st' where
    f: "mget (ru_Frames (hd_Run h)) (fc_FrameID fc) = Some f" "fc_StepIndex fc = fr_NextStepIndex f" "0 \<le> fc_StepIndex fc"
    and guards: "fc_FrameID fc \<noteq> ''''" "fc_StepKind fc \<noteq> ''''" "sx_StepID (fc_Result fc) \<noteq> ''''" "\<not> hd_TraceErr h"
    and st': "committedStep L now fc (fc_Result fc) f (hd_Run h) = Some st'" "mget (ru_Frames st') (fc_FrameID fc) = Some g"
    and h': "h' = h\<lparr>hd_Run := st'\<lparr>ru_CheckpointSequence := i64 (ru_CheckpointSequence st' + 1)\<rparr>,
      hd_Saved := st'\<lparr>ru_CheckpointSequence := i64 (ru_CheckpointSequence st' + 1)\<rparr>\<rparr>"
    by (auto simp: CommitExecutionFrameStep_def Let_def persistCompletedCheckpoint_def emitCheckpoint_def frameDispatchResult_def
        split: if_splits option.splits prod.splits)
  from committedStep_frame [OF st'(1) f(2, 3)] st'(2) have "fc_StepIndex fc < fr_NextStepIndex g" "mget (fr_Results g) (itoa (fc_StepIndex fc)) = Some (fc_Result fc)"
    by auto
  with f guards st'(2) show ?thesis unfolding h' by (auto simp: CommitExecutionFrameStep_def Let_def)
qed

definition deployed :: frame_commit where
  "deployed = \<lparr>fc_FrameID = runDigest (CHR ''a''), fc_StepIndex = 0, fc_StepKind = ''tool'',
     fc_Result = (skippedTail ''t2'' ''deploy'')\<lparr>sx_Status := ''completed'', sx_Outcome := ''success'', sx_Output := []\<rparr>,
     fc_Transport = OtherError, fc_WorkingVars = []\<rparr>"

theorem frame_step_commits_once_witness:
  "let h = fst (CommitExecutionFrameStep sampleLib ''t2'' Persisted deployed idleHandle) in
   CommitExecutionFrameStep sampleLib ''t3'' Persisted deployed h = (h, Inl (InvalidRequest ''progress'')) \<and>
   (\<exists>g. mget (ru_Frames (hd_Saved h)) (runDigest (CHR ''a'')) = Some g \<and> 0 < fr_NextStepIndex g)"
proof -
  have "\<exists>g. snd (CommitExecutionFrameStep sampleLib ''t2'' Persisted deployed idleHandle) = Inr g"
    by (simp add: CommitExecutionFrameStep_def deployed_def idleHandle_def idleRun_def sampleRun_def sampleFrame_def activeFrame_def Let_def
        frameDispatchResult_def committedStep_def settlePreparedFrameDispatch_def closeFirst_def persistCompletedCheckpoint_def emitCheckpoint_def
        finishExecutionFrames_def mput_def skippedTail_def)
  then obtain g where g: "CommitExecutionFrameStep sampleLib ''t2'' Persisted deployed idleHandle =
      (fst (CommitExecutionFrameStep sampleLib ''t2'' Persisted deployed idleHandle), Inr g)" by (metis prod.collapse)
  from frame_step_commits_once [OF g, of "''t3''" Persisted] show ?thesis by (simp add: Let_def) (simp add: deployed_def)
qed

subsection \<open>Stopping\<close>



end
