(* ===== verification/Spec2Isabelle.thy ===== *)
theory Spec2Isabelle
  imports Store_Properties Session_Findings Node_Identity Sensitive Gxl_Properties Gis_Escapes Gcp_Roundtrip Capture_Properties Run_Properties
    Run_Leases Dispatch_Properties
begin

text \<open>
  Verification of the yawr runtime: the durable journal of investigation sessions, the durable state of runs and its recovery, the expression and template languages, and the captures of steps.

  \<^bold>\<open>The program.\<close> yawr executes runbooks. An investigation session records one investigation over several runbooks: a
  tree of segments, each executed by run attempts, connected by transitions. The session store
  (\<^verbatim>\<open>runtime/internal/sessionstore\<close>, with the data types of \<^verbatim>\<open>runtime/pkg/session\<close>) keeps a session as a journal of
  hash-chained events on disk, and is its only writer. The coordinator and the engine submit commands to it; it checks
  them against the manifest that the journal rebuilds to, appends one event and projects the manifest again. Runbooks
  contain expressions (\<^verbatim>\<open>runtime/pkg/gxl\<close>) over portable values (\<^verbatim>\<open>runtime/pkg/pjvm\<close>) reached by dotted paths
  (\<^verbatim>\<open>runtime/pkg/gdp\<close>), which are parsed and evaluated at run time, alone as conditions or inside templates
  (\<^verbatim>\<open>runtime/pkg/gis\<close>). Steps capture values from their results by capture paths (\<^verbatim>\<open>runtime/pkg/gcp\<close>, \<^verbatim>\<open>runtime/pkg/capture\<close>), which
  later expressions read as variables.

  \<^bold>\<open>Shared theories.\<close> \<^verbatim>\<open>Prelude\<close> has the Go vocabulary: byte strings, maps with string keys as association lists with distinct
  keys, errors as values, signed 64-bit wrap-around. \<^verbatim>\<open>Interfaces\<close> has the locale \<^verbatim>\<open>event_fold\<close> of event-sourced components, \<^verbatim>\<open>Durable_Steps\<close> the one of
  components that keep what is on disk.
  \<^verbatim>\<open>Go_Text\<close>, \<^verbatim>\<open>Go_Float\<close>, \<^verbatim>\<open>Go_Decimal\<close> and \<^verbatim>\<open>Go_Space\<close> have UTF-8, binary64 rounding, decimal digits and trimming as the Go library does them.

  \<^bold>\<open>The session store, \<^verbatim>\<open>dir_store.go\<close>, \<^verbatim>\<open>lease.go\<close>, \<^verbatim>\<open>immutable_file.go\<close>, \<^verbatim>\<open>session.go\<close>.\<close>
  \<^item> \<^verbatim>\<open>Session_Types\<close>: the records of \<^verbatim>\<open>session.go\<close> with their Go field names behind a prefix, the payloads of events, the
    digests. SHA-256, \<^verbatim>\<open>json.Marshal\<close>, the JSON decoder, UUID and time formats, and the artifact check of a plan snapshot are
    functions of the record \<^verbatim>\<open>env\<close>, over which every definition and theorem is general.
  \<^item> \<^verbatim>\<open>Session_Rebuild\<close>: \<^verbatim>\<open>rebuildManifestFromState\<close>, one definition per kind of event, its state \<^verbatim>\<open>rebuild_state\<close> being
    \<^verbatim>\<open>manifestRebuildState\<close>.
  \<^item> \<^verbatim>\<open>Session_Ops\<close>: validation of payloads, occurrences, frame projections and handoff contexts.
  \<^item> \<^verbatim>\<open>Session_Store\<close>: the state \<^verbatim>\<open>dir_store\<close> is the directory tree (journal lines, committed heads, blobs, reservations, epoch files, lock)
    together with the caches of \<^verbatim>\<open>DirStore\<close>; blobs, leases, scanning, truncation, append. What the operating system does
    with one call (a torn or unsynced append, a failing write, a cancelled context, the clock, the new event identifier) is the argument \<^verbatim>\<open>call\<close>.
  \<^item> \<^verbatim>\<open>Session_Handlers\<close>: the twelve commands and three queries of \<^verbatim>\<open>session.Store\<close>, guards in source order.
  \<^item> \<^verbatim>\<open>Session_Invariants\<close>, \<^verbatim>\<open>Session_History\<close>, \<^verbatim>\<open>Session_Monotone\<close>, \<^verbatim>\<open>Session_Properties\<close>: what every accepted journal satisfies
    (topology, hash chain, receipts, uniqueness, monotone attempts), by induction over the fold.
  \<^item> \<^verbatim>\<open>Session_Log\<close>, \<^verbatim>\<open>Session_Refinement\<close>: the abstract store is an append-only list of events per session; steps of
    processes that may crash, restart and interleave with a foreign writer are an inductive relation that refines it.
  \<^item> \<^verbatim>\<open>Session_Acceptance\<close>, \<^verbatim>\<open>Session_Commands\<close>, \<^verbatim>\<open>Session_Queries\<close>, \<^verbatim>\<open>Session_Progress\<close>, \<^verbatim>\<open>Store_Properties\<close>: events that the
    commands build are accepted by the rebuild; fencing by epochs; receipts; the queries; a command that makes progress.
  \<^item> \<^verbatim>\<open>Session_Findings\<close>: two runs that make a journal unreadable.
  \<^item> \<^verbatim>\<open>Sample_Session\<close>, \<^verbatim>\<open>Sample_Store\<close>, \<^verbatim>\<open>Sample_Cases\<close>: the concrete environment, journal and store of the witnesses.
  \<^item> \<^verbatim>\<open>Node_Identity\<close> (\<^verbatim>\<open>pkg/engine/debug.go\<close>) and \<^verbatim>\<open>Sensitive\<close> (\<^verbatim>\<open>pkg/sensitive/name.go\<close>): the identity of nested steps, sensitive
    field names.

  \<^bold>\<open>The state of a run, \<^verbatim>\<open>internal/runstore\<close>, \<^verbatim>\<open>internal/engine/engine.go\<close>, \<^verbatim>\<open>pkg/engine\<close>.\<close> The engine checkpoints a run before and after every
  effect: interactions that wait for an operator, dispatches that are prepared before an effect and settled after it, the frames of nested
  steps, the pins of dynamic includes, and cursors.
  \<^item> \<^verbatim>\<open>Run_State\<close>, \<^verbatim>\<open>Run_Relations\<close>: the record \<^verbatim>\<open>run_state\<close> is \<^verbatim>\<open>RunState\<close>; the checks of \<^verbatim>\<open>SaveState\<close>, each a predicate, and the relations that
    have to hold among the parts. JSON, SHA-256, time formats and the checks of plan closures are functions of the record \<^verbatim>\<open>run_lib\<close>.
  \<^item> \<^verbatim>\<open>Run_Recovery\<close>: what \<^verbatim>\<open>Resume\<close> makes of the last checkpoint of a lost process: unmatched dispatches become indeterminate, frames move past
    them, active frames and resolutions pass to the epoch of the new writer.
  \<^item> \<^verbatim>\<open>Run_Resume\<close>, \<^verbatim>\<open>Run_Recovered\<close>, \<^verbatim>\<open>Run_Properties\<close>: the recovered state in closed form, each check preserved, and that a recovered state can be
    saved; a state that can never be recovered. \<^verbatim>\<open>Sample_Run\<close> has the runs of the witnesses.
  \<^item> \<^verbatim>\<open>Run_Checkpoints\<close>: the files of checkpoints. A saver is a state machine with one call of the operating system per step, so that processes interleave
    and calls fail; published files are never changed and have no gaps. \<^verbatim>\<open>Run_Leases\<close> (\<^verbatim>\<open>lease.go\<close>): writer epochs and the lock of a run; processes that acquire,
    save and die are a step relation, in which no writer publishes after a later one.
  \<^item> \<^verbatim>\<open>Run_Operations\<close>: the operations of \<^verbatim>\<open>runHandle\<close> that change the durable state: \<^verbatim>\<open>PrepareDispatch\<close>, \<^verbatim>\<open>PrepareInteraction\<close>, \<^verbatim>\<open>AcceptInteraction\<close>,
    \<^verbatim>\<open>BeginExecutionFrame\<close>, \<^verbatim>\<open>CommitExecutionFrameStep\<close>, \<^verbatim>\<open>CommitDynamicIncludeResolution\<close>, \<^verbatim>\<open>haltCheckpointCommit\<close>. A handle has the run in memory and the last
    checkpoint; what becomes of a checkpoint (saved, refused, saved and not projected) is an argument.
  \<^item> \<^verbatim>\<open>Run_Endings\<close>: completing, failing, halting, pausing, cancelling and detaching.
  \<^item> \<^verbatim>\<open>Run_Dispatches\<close>, \<^verbatim>\<open>Dispatch_Properties\<close>: operations, restarts and endings are steps of a relation; dispatches are closed once along it, repeated requests, answers and
    commits have no second effect, and a stopped run leaves nothing open. A dispatch is taken back when its checkpoint is saved and its event is not
    written, which the relation leaves out and \<^verbatim>\<open>failed_projection_loses_dispatch\<close> shows.

  \<^bold>\<open>The expression language.\<close>
  \<^item> \<^verbatim>\<open>Pjvm\<close>: values (\<^verbatim>\<open>pkg/pjvm/value.go\<close>), conversion from Go values, equality. A number is the rational that a finite
    binary64 number stands for. \<^verbatim>\<open>Gdp\<close>: paths and their resolution (\<^verbatim>\<open>pkg/gdp/path.go\<close>).
  \<^item> \<^verbatim>\<open>Gxl_Lexer\<close>, \<^verbatim>\<open>Gxl_Parser\<close>: \<^verbatim>\<open>pkg/gxl/parser\<close> and the registry \<^verbatim>\<open>pkg/gxl/functions\<close>. The lexer state is the remaining
    runes, the parser state the remaining tokens.
  \<^item> \<^verbatim>\<open>Gxl_Grammar\<close>, \<^verbatim>\<open>Gxl_Completeness\<close>: the grammar of \<^verbatim>\<open>runtime/spec/grammar/gxl.ebnf\<close> as inductive predicates, and that the
    parser decides it. The precedence levels are instances of the locales \<^verbatim>\<open>operator_level\<close> and \<^verbatim>\<open>operator_family\<close>.
  \<^item> \<^verbatim>\<open>Gxl_Order\<close>, \<^verbatim>\<open>Gxl_Date\<close>, \<^verbatim>\<open>Gxl_Eval\<close>: \<^verbatim>\<open>pkg/gxl/eval\<close>. The state of an evaluation is the budget that
    \<^verbatim>\<open>EvalBounded\<close> shares and the number of clock readings. Regular expressions, Unicode case mappings and the clock are
    functions of the record \<^verbatim>\<open>gxl_lib\<close>.
  \<^item> \<^verbatim>\<open>Gxl_Soundness\<close>, \<^verbatim>\<open>Gxl_Properties\<close>: well-formed results, the budget, ordering, arithmetic, comparison, equality. The
    evaluator calls \<^verbatim>\<open>list.order\<close> through the locale \<^verbatim>\<open>list_orderer\<close>, interpreted for comparators, which may not order, and for
    whole expressions.
  \<^item> \<^verbatim>\<open>Pjvm_Text\<close>: the printed forms of values. The shortest decimal form of a number that is not integral is the argument \<^verbatim>\<open>G\<close>.
  \<^item> \<^verbatim>\<open>Gis\<close>, \<^verbatim>\<open>Gis_Properties\<close>, \<^verbatim>\<open>Gis_Escapes\<close>: \<^verbatim>\<open>pkg/gis\<close>, templates. The parser state is the remaining text and the literal that is being
    collected. Interpolation has an evaluator of its own, which agrees with the one above; text can be escaped; two texts that the
    parser changes.

  \<^bold>\<open>Captures.\<close>
  \<^item> \<^verbatim>\<open>Gcp\<close>, \<^verbatim>\<open>Gcp_Roundtrip\<close>: \<^verbatim>\<open>pkg/gcp/parser\<close>, the parser of capture paths, and its inverse.
  \<^item> \<^verbatim>\<open>Capture\<close>, \<^verbatim>\<open>Capture_Properties\<close>: \<^verbatim>\<open>pkg/capture/service.go\<close> and \<^verbatim>\<open>internal/expr/native.go\<close>: resolution against the results of steps,
    defaults, and variables as later expressions see them. The decoders of documents are functions of the record \<^verbatim>\<open>doc_lib\<close>.

  \<^bold>\<open>Bounds and fuel.\<close> The parser functions recurse on the remaining depth, which is the limit \<^verbatim>\<open>maxDepth\<close> of the source and not a
  device of the model. Their loops over operators and arguments carry the number of remaining tokens as fuel; each
  iteration consumes a token, and \<^verbatim>\<open>parser_returns\<close> shows that the fuel never runs out. The lexer, the topological sort and
  the value conversions are total functions with termination proofs. Integers of the store that the source keeps in \<^verbatim>\<open>int64\<close>
  wrap where it adds to them.

  \<^bold>\<open>Not modelled.\<close> The step loop of the engine, the coordinator, executors, tools, servers, adapters, previews, the planner and the command
  line drive processes, goroutines, sockets and editors. Inside the modelled packages: reading projections back for the
  editor (\<^verbatim>\<open>LoadSegmentGraphRevision\<close> and the frame-event cache), decoding JSON and YAML into values, positions
  in the source text, the value blobs, trace files, value budgets and typed publications of a run, completion and highlighting, and the pure expressions of \<^verbatim>\<open>pure.go\<close>. Mutexes of \<^verbatim>\<open>DirStore\<close> serialise
  the operations of one process, so each operation is one step.
\<close>

end
